(* ===== verification/Prelude.thy ===== *)
theory Prelude
  imports Main "HOL-Library.List_Lexorder" "HOL-Library.Char_ord"
begin

text \<open>
  Shared vocabulary of the development: the collections the component theories add to, and the
  generic lemmas on lists, maps and state-passing actions that several components use.

  \<^item> \<open>go_simps\<close> collects equations that evaluate the model of Go's string library on
    symbolic strings (a literal next to a variable segment).
  \<^item> \<open>act_simps\<close> collects the equations of the state-passing actions.

  Go strings are byte strings. They are modelled as \<open>string\<close>, a list of \<open>char\<close> (bytes), and
  the order Go's \<open>sort.Strings\<close> uses is the lexicographic order on bytes that
  List\_Lexorder and Char\_ord give.
\<close>

named_theorems go_simps "evaluation of Go string functions on symbolic strings"
named_theorems act_simps "evaluation of state-passing actions"

section \<open>Actions: state passing with Go's error return\<close>

text \<open>
  A Go function that returns \<open>(value, error)\<close> and changes the host is a function from the
  state to the result and the next state: \<open>Inl e\<close> is a non-nil error, \<open>Inr v\<close> the value.
  \<open>bindA m f\<close> is the idiom \<open>v, err := m(); if err != nil { return err }; f(v)\<close>.
\<close>

type_synonym ('s, 'e, 'a) act = "'s \<Rightarrow> ('e + 'a) \<times> 's"

definition returnA :: "'a \<Rightarrow> ('s, 'e, 'a) act" where
  "returnA x = (\<lambda>s. (Inr x, s))"

definition failA :: "'e \<Rightarrow> ('s, 'e, 'a) act" where
  "failA e = (\<lambda>s. (Inl e, s))"

definition bindA :: "('s, 'e, 'a) act \<Rightarrow> ('a \<Rightarrow> ('s, 'e, 'b) act) \<Rightarrow> ('s, 'e, 'b) act" where
  "bindA m f = (\<lambda>s. case m s of (Inl e, s') \<Rightarrow> (Inl e, s') | (Inr x, s') \<Rightarrow> f x s')"

text \<open>A \<open>for\<close> loop over a slice whose body may return an error early.\<close>

fun forA :: "('a \<Rightarrow> 'b \<Rightarrow> ('s, 'e, 'b) act) \<Rightarrow> 'a list \<Rightarrow> 'b \<Rightarrow> ('s, 'e, 'b) act" where
  "forA f [] acc = returnA acc"
| "forA f (x # xs) acc = bindA (f x acc) (forA f xs)"

lemma returnA_apply [simp, act_simps]: "returnA x s = (Inr x, s)"
  by (simp add: returnA_def)

lemma failA_apply [simp, act_simps]: "failA e s = (Inl e, s)"
  by (simp add: failA_def)

lemma bindA_Inl [act_simps]: "m s = (Inl e, s') \<Longrightarrow> bindA m f s = (Inl e, s')"
  by (simp add: bindA_def)

lemma bindA_Inr [act_simps]: "m s = (Inr x, s') \<Longrightarrow> bindA m f s = f x s'"
  by (simp add: bindA_def)

lemma bindA_return [simp, act_simps]: "bindA (Pair (Inr x)) f = f x"
  by (simp add: bindA_def fun_eq_iff)

lemma bind_returnA [simp, act_simps]: "bindA (returnA x) f = f x"
  by (simp add: bindA_def fun_eq_iff)

lemma bind_failA [simp, act_simps]: "bindA (failA e) f = failA e"
  by (simp add: bindA_def fun_eq_iff)

lemma bindA_fail [simp, act_simps]: "bindA (Pair (Inl e)) f = Pair (Inl e)"
  by (simp add: bindA_def fun_eq_iff)

lemma bindA_InrE:
  assumes "bindA m f s = (Inr y, s2)"
  obtains x s1 where "m s = (Inr x, s1)" and "f x s1 = (Inr y, s2)"
  using assms by (auto simp: bindA_def split: prod.splits sum.splits)

lemma bindA_InlE:
  assumes "bindA m f s = (Inl e, s2)"
  obtains "m s = (Inl e, s2)"
  | x s1 where "m s = (Inr x, s1)" and "f x s1 = (Inl e, s2)"
  using assms by (auto simp: bindA_def split: prod.splits sum.splits)

text \<open>
  Invariants of loops: what every step of the body keeps, the whole loop keeps. Both the
  error and the success path are covered, since the invariant is on the state.
\<close>

lemma forA_state_inv:
  assumes "\<And>x acc s. x \<in> set xs \<Longrightarrow> P s \<Longrightarrow> P (snd (f x acc s))" and "P s"
  shows "P (snd (forA f xs acc s))"
  using assms
proof (induction xs arbitrary: acc s)
  case Nil
  then show ?case by simp
next
  case (Cons x xs)
  have step: "P (snd (f x acc s))" using Cons.prems by simp
  have IH: "P (snd (forA f xs b s'))" if "P s'" for b s'
    using Cons.IH [OF _ that] Cons.prems(1) by simp
  show ?case
  proof (cases "f x acc s")
    case (Pair r s')
    then show ?thesis using step IH by (cases r) (auto simp: bindA_def)
  qed
qed

lemma bindA_state_inv:
  assumes "P (snd (m s))" and "\<And>x s'. P s' \<Longrightarrow> P (snd (f x s'))"
  shows "P (snd (bindA m f s))"
  using assms by (auto simp: bindA_def split: prod.splits sum.splits)

lemma bindA_assoc: "bindA (bindA m g) k = bindA m (\<lambda>y. bindA (g y) k)"
  by (auto simp: bindA_def fun_eq_iff split: prod.splits sum.splits)

lemma forA_append: "forA f (xs @ ys) acc = bindA (forA f xs acc) (forA f ys)"
proof (induction xs arbitrary: acc)
  case Nil
  show ?case by (simp add: returnA_def)
next
  case (Cons x xs)
  have "forA f (xs @ ys) = (\<lambda>b. bindA (forA f xs b) (forA f ys))"
    using Cons.IH by (simp add: fun_eq_iff)
  then show ?case by (simp add: bindA_assoc)
qed

section \<open>Lists and maps\<close>

text \<open>
  Go builds its lookup maps in a loop over a slice: a later element wins. \<open>index_by key xs\<close>
  is that loop; \<open>index_by_last\<close> says which element a key finds.
\<close>

definition index_by :: "('a \<Rightarrow> 'k) \<Rightarrow> 'a list \<Rightarrow> 'k \<rightharpoonup> 'a" where
  "index_by key xs = foldl (\<lambda>m x. m(key x \<mapsto> x)) Map.empty xs"

lemma index_by_Nil [simp]: "index_by key [] = Map.empty"
  by (simp add: index_by_def)

lemma index_by_snoc [simp]: "index_by key (xs @ [x]) = (index_by key xs)(key x \<mapsto> x)"
  by (simp add: index_by_def)

lemma index_by_find: "index_by key xs k = find (\<lambda>x. key x = k) (rev xs)"
proof (induction xs rule: rev_induct)
  case Nil
  show ?case by simp
next
  case (snoc x xs)
  then show ?case by simp
qed

lemma index_by_code [code]: "index_by key xs = (\<lambda>k. find (\<lambda>x. key x = k) (rev xs))"
  by (simp add: fun_eq_iff index_by_find)

lemma dom_index_by: "dom (index_by key xs) = key ` set xs"
  by (auto simp: dom_def index_by_find find_Some_iff2 find_None_iff
      simp flip: not_None_eq)

lemma index_by_None: "index_by key xs k = None \<longleftrightarrow> k \<notin> key ` set xs"
  using dom_index_by [of key xs] by (auto simp: domIff)

lemma index_by_Some: "index_by key xs k = Some x \<Longrightarrow> x \<in> set xs \<and> key x = k"
  by (induction xs rule: rev_induct) (auto split: if_splits)

lemma index_by_distinct:
  assumes "distinct (map key xs)" and "x \<in> set xs"
  shows "index_by key xs (key x) = Some x"
  using assms by (induction xs rule: rev_induct) (auto simp: rev_image_eqI)

lemma distinct_filter_map: "distinct (map f xs) \<Longrightarrow> distinct (map f (filter P xs))"
  by (induction xs) auto

lemma list_all_filter: "list_all P xs \<Longrightarrow> list_all P (filter Q xs)"
  by (simp add: list_all_iff)

lemma split_first_eq:
  "c \<notin> set u \<Longrightarrow> c \<notin> set v \<Longrightarrow> u @ c # r = v @ c # s \<longleftrightarrow> u = v \<and> r = s"
proof (induction u arbitrary: v)
  case Nil
  then show ?case by (cases v) auto
next
  case (Cons a u)
  then show ?case by (cases v) auto
qed

lemma find_distinct_key:
  "distinct (map key xs) \<Longrightarrow> x \<in> set xs \<Longrightarrow> find (\<lambda>y. key y = key x) xs = Some x"
  by (induction xs) (auto simp: rev_image_eqI)

end
