(* ===== verification/GoStrings.thy ===== *)
theory GoStrings
  imports Prelude
begin

text \<open>
  The functions of Go's \<open>strings\<close>, \<open>strconv\<close> and \<open>fmt\<close> packages that the program uses, under
  Go's names. Go strings are byte strings and so are these; the functions that Go defines over
  Unicode (\<open>TrimSpace\<close>, \<open>Fields\<close>, \<open>ToLower\<close>, \<open>ToUpper\<close>) are modelled on the ASCII range,
  where they are byte-wise: a byte above 127 is neither a space nor a letter here.

  The lemmas are the round trips the components rest on: \<open>Fields_Join\<close> (words separated by
  blanks), \<open>ParseInt_Itoa\<close> (decimal printing), and the rules \<open>Index_skip\<close> and
  \<open>Index_here\<close> that find a needle behind segments that cannot contain its first character.
\<close>

section \<open>Characters\<close>

definition is_space :: "char \<Rightarrow> bool" where
  "is_space c \<longleftrightarrow> c = CHR '' '' \<or> c = CHR 0x09 \<or> c = CHR 0x0A \<or> c = CHR 0x0B \<or> c = CHR 0x0C \<or> c = CHR 0x0D"

definition is_lower :: "char \<Rightarrow> bool" where
  "is_lower c \<longleftrightarrow> 97 \<le> (of_char c :: nat) \<and> (of_char c :: nat) \<le> 122"

definition is_upper :: "char \<Rightarrow> bool" where
  "is_upper c \<longleftrightarrow> 65 \<le> (of_char c :: nat) \<and> (of_char c :: nat) \<le> 90"

definition is_digit :: "char \<Rightarrow> bool" where
  "is_digit c \<longleftrightarrow> 48 \<le> (of_char c :: nat) \<and> (of_char c :: nat) \<le> 57"

definition is_alnum :: "char \<Rightarrow> bool" where
  "is_alnum c \<longleftrightarrow> is_lower c \<or> is_upper c \<or> is_digit c"

definition lower_char :: "char \<Rightarrow> char" where
  "lower_char c = (if is_upper c then char_of (of_char c + 32 :: nat) else c)"

definition upper_char :: "char \<Rightarrow> char" where
  "upper_char c = (if is_lower c then char_of (of_char c - 32 :: nat) else c)"

section \<open>Package strings\<close>

definition ToLower :: "string \<Rightarrow> string" where
  "ToLower s = map lower_char s"

definition ToUpper :: "string \<Rightarrow> string" where
  "ToUpper s = map upper_char s"

definition TrimLeftFunc :: "(char \<Rightarrow> bool) \<Rightarrow> string \<Rightarrow> string" where
  "TrimLeftFunc P s = dropWhile P s"

definition TrimRightFunc :: "(char \<Rightarrow> bool) \<Rightarrow> string \<Rightarrow> string" where
  "TrimRightFunc P s = rev (dropWhile P (rev s))"

definition TrimSpace :: "string \<Rightarrow> string" where
  "TrimSpace s = TrimRightFunc is_space (TrimLeftFunc is_space s)"

fun HasPrefix :: "string \<Rightarrow> string \<Rightarrow> bool" where
  "HasPrefix s [] = True"
| "HasPrefix [] (p # ps) = False"
| "HasPrefix (c # cs) (p # ps) = (c = p \<and> HasPrefix cs ps)"

definition TrimPrefix :: "string \<Rightarrow> string \<Rightarrow> string" where
  "TrimPrefix s p = (if HasPrefix s p then drop (length p) s else s)"

text \<open>\<open>Index\<close> and \<open>LastIndex\<close> return -1 in Go where the model returns \<open>None\<close>.\<close>

fun Index :: "string \<Rightarrow> string \<Rightarrow> nat option" where
  "Index [] sub = (if sub = [] then Some 0 else None)"
| "Index (c # cs) sub =
     (if HasPrefix (c # cs) sub then Some 0 else map_option Suc (Index cs sub))"

fun LastIndex :: "string \<Rightarrow> string \<Rightarrow> nat option" where
  "LastIndex [] sub = (if sub = [] then Some 0 else None)"
| "LastIndex (c # cs) sub =
     (case LastIndex cs sub of
        Some i \<Rightarrow> Some (Suc i)
      | None \<Rightarrow> if HasPrefix (c # cs) sub then Some 0 else None)"

definition IndexByte :: "string \<Rightarrow> char \<Rightarrow> nat option" where
  "IndexByte s c = Index s [c]"

definition Contains :: "string \<Rightarrow> string \<Rightarrow> bool" where
  "Contains s sub \<longleftrightarrow> Index s sub \<noteq> None"

definition ContainsAny :: "string \<Rightarrow> string \<Rightarrow> bool" where
  "ContainsAny s chars \<longleftrightarrow> list_ex (\<lambda>c. c \<in> set chars) s"

text \<open>\<open>strings.Count\<close> counts non-overlapping occurrences; the program's needles are not empty.\<close>

function Count :: "string \<Rightarrow> string \<Rightarrow> nat" where
  "Count s sub =
     (if sub = [] then length s + 1
      else case Index s sub of
             None \<Rightarrow> 0
           | Some i \<Rightarrow> Suc (Count (drop (i + length sub) s) sub))"
  by pat_completeness auto

lemma Index_Some_le: "Index s sub = Some i \<Longrightarrow> i + length sub \<le> length s"
proof -
  have pre: "HasPrefix s p \<Longrightarrow> length p \<le> length s" for s p
    by (induction s p rule: HasPrefix.induct) auto
  show "Index s sub = Some i \<Longrightarrow> i + length sub \<le> length s"
  proof (induction s arbitrary: i)
    case Nil
    then show ?case by (simp split: if_splits)
  next
    case (Cons c cs)
    then show ?case using pre [of "c # cs" sub] by (fastforce split: if_splits)
  qed
qed

lemma Index_drop_less:
  "sub \<noteq> [] \<Longrightarrow> Index s sub = Some i \<Longrightarrow> length s - (i + length sub) < length s"
  using Index_Some_le [of s sub i] by (cases sub) auto

termination Count
  by (relation "measure (\<lambda>(s, sub). length s)") (auto simp: Index_drop_less)

declare Count.simps [simp del]

text \<open>
  \<open>strings.Split\<close> with a one-byte separator, and \<open>strings.Fields\<close>, which splits around runs
  of spaces and has no empty word.
\<close>

fun split_by :: "(char \<Rightarrow> bool) \<Rightarrow> string \<Rightarrow> string list" where
  "split_by P [] = [[]]"
| "split_by P (c # cs) =
     (if P c then [] # split_by P cs
      else (case split_by P cs of [] \<Rightarrow> [[c]] | w # ws \<Rightarrow> (c # w) # ws))"

definition Split :: "string \<Rightarrow> char \<Rightarrow> string list" where
  "Split s c = split_by (\<lambda>x. x = c) s"

definition Fields :: "string \<Rightarrow> string list" where
  "Fields s = filter (\<lambda>w. w \<noteq> []) (split_by is_space s)"

fun Join :: "string list \<Rightarrow> string \<Rightarrow> string" where
  "Join [] sep = []"
| "Join [w] sep = w"
| "Join (w # ws) sep = w @ sep @ Join ws sep"

section \<open>Package strconv\<close>

definition digit_char :: "nat \<Rightarrow> char" where
  "digit_char d = char_of (48 + d)"

definition digit_val :: "char \<Rightarrow> nat" where
  "digit_val c = of_char c - 48"

fun nat_digits :: "nat \<Rightarrow> string" where
  "nat_digits n = (if n < 10 then [digit_char n] else nat_digits (n div 10) @ [digit_char (n mod 10)])"

declare nat_digits.simps [simp del]

definition Itoa :: "int \<Rightarrow> string" where
  "Itoa i = (if i < 0 then CHR ''-'' # nat_digits (nat (- i)) else nat_digits (nat i))"

datatype num_err = NumOk | SyntaxErr | RangeErr

text \<open>
  \<open>ParseUint\<close> with base 10 and 64 bits: the loop stops at the first byte that is not a digit
  (value 0, syntax error) or at the first overflow (the largest value, range error).
\<close>

definition max_uint64 :: int where "max_uint64 = 18446744073709551615"

fun parse_uint_loop :: "nat \<Rightarrow> string \<Rightarrow> nat \<times> num_err" where
  "parse_uint_loop n [] = (n, NumOk)"
| "parse_uint_loop n (c # cs) =
     (if \<not> is_digit c then (0, SyntaxErr)
      else if max_uint64 div 10 + 1 \<le> int n then (nat max_uint64, RangeErr)
      else let n1 = n * 10 + digit_val c
           in if max_uint64 < int n1 then (nat max_uint64, RangeErr) else parse_uint_loop n1 cs)"

definition ParseUint :: "string \<Rightarrow> nat \<times> num_err" where
  "ParseUint s = (if s = [] then (0, SyntaxErr) else parse_uint_loop 0 s)"

definition ParseInt :: "string \<Rightarrow> int \<times> num_err" where
  "ParseInt s =
     (case s of
        [] \<Rightarrow> (0, SyntaxErr)
      | c # cs \<Rightarrow>
          let neg = (c = CHR ''-'');
              t = (if c = CHR ''+'' \<or> c = CHR ''-'' then cs else s);
              r = ParseUint t; un = fst r; err = snd r
          in if err = SyntaxErr then (0, SyntaxErr)
             else if \<not> neg \<and> 9223372036854775808 \<le> int un then (9223372036854775807, RangeErr)
             else if neg \<and> 9223372036854775808 < int un then (- 9223372036854775808, RangeErr)
             else (if neg then - int un else int un, err))"

text \<open>\<open>strconv.Atoi\<close> agrees with \<open>ParseInt(s, 10, 64)\<close> on the 64-bit platforms the program targets.\<close>

definition Atoi :: "string \<Rightarrow> int \<times> num_err" where
  "Atoi s = ParseInt s"

definition show_bool :: "bool \<Rightarrow> string" where
  "show_bool b = (if b then ''true'' else ''false'')"

section \<open>Characters: the classes are disjoint\<close>

lemma is_space_not:
  "is_digit c \<Longrightarrow> \<not> is_space c" "is_lower c \<Longrightarrow> \<not> is_space c" "is_upper c \<Longrightarrow> \<not> is_space c"
  by (auto simp: is_space_def is_digit_def is_lower_def is_upper_def)

lemma is_alnum_not_space: "is_alnum c \<Longrightarrow> \<not> is_space c"
  by (auto simp: is_alnum_def dest: is_space_not)

lemma of_char_lower: "is_upper c \<Longrightarrow> of_char (lower_char c) = (of_char c + 32 :: nat)"
  by (simp add: lower_char_def is_upper_def)

lemma of_char_upper: "is_lower c \<Longrightarrow> of_char (upper_char c) = (of_char c - 32 :: nat)"
  by (auto simp: upper_char_def is_lower_def)

lemma is_upper_lower_char [simp]: "\<not> is_upper (lower_char c)"
  using of_char_lower [of c] by (cases "is_upper c") (auto simp: is_upper_def lower_char_def)

lemma is_lower_upper_char [simp]: "\<not> is_lower (upper_char c)"
proof (cases "is_lower c")
  case True
  then have "(of_char (upper_char c) :: nat) = of_char c - 32" "(of_char c :: nat) \<le> 122"
    using of_char_upper [of c] by (simp_all add: is_lower_def)
  then have "(of_char (upper_char c) :: nat) < 97" by simp
  then show ?thesis by (simp add: is_lower_def)
next
  case False
  then show ?thesis by (simp add: upper_char_def)
qed

lemma lower_char_idem [simp]: "lower_char (lower_char c) = lower_char c"
  by (simp add: lower_char_def [of "lower_char c"])

lemma upper_char_idem [simp]: "upper_char (upper_char c) = upper_char c"
  by (simp add: upper_char_def [of "upper_char c"])

lemma is_space_lower_char [simp]: "is_space (lower_char c) = is_space c"
proof (cases "is_upper c")
  case True
  then have "97 \<le> (of_char (lower_char c) :: nat)"
    using of_char_lower [OF True] by (simp add: is_upper_def)
  then have "\<not> is_space (lower_char c)" by (auto simp: is_space_def)
  with True show ?thesis by (simp add: is_space_not)
qed (simp add: lower_char_def)

lemma is_space_upper_char [simp]: "is_space (upper_char c) = is_space c"
proof (cases "is_lower c")
  case True
  have "(of_char (upper_char c) :: nat) = of_char c - 32" "97 \<le> (of_char c :: nat)"
    using of_char_upper [OF True] True by (simp_all add: is_lower_def)
  then have "65 \<le> (of_char (upper_char c) :: nat)" by linarith
  then have "\<not> is_space (upper_char c)" by (auto simp: is_space_def)
  with True show ?thesis by (simp add: is_space_not)
qed (simp add: upper_char_def)

section \<open>Trimming and case\<close>

lemma TrimSpace_map:
  assumes "\<And>c. is_space (f c) = is_space c"
  shows "TrimSpace (map f s) = map f (TrimSpace s)"
  using assms by (simp add: TrimSpace_def TrimRightFunc_def TrimLeftFunc_def dropWhile_map rev_map comp_def)

lemma TrimSpace_ToLower: "TrimSpace (ToLower s) = ToLower (TrimSpace s)"
  unfolding ToLower_def by (rule TrimSpace_map) simp

lemma TrimSpace_ToUpper: "TrimSpace (ToUpper s) = ToUpper (TrimSpace s)"
  unfolding ToUpper_def by (rule TrimSpace_map) simp

lemma ToLower_proto [simp]: "ToLower ''TCP'' = ''tcp''" "ToLower ''UDP'' = ''udp''"
  by code_simp+

lemma ToUpper_proto [simp]: "ToUpper ''tcp'' = ''TCP''" "ToUpper ''udp'' = ''UDP''"
  "ToUpper ''TCP'' = ''TCP''" "ToUpper ''UDP'' = ''UDP''"
  by code_simp+

lemma ToLower_idem [simp]: "ToLower (ToLower s) = ToLower s"
  by (simp add: ToLower_def)

lemma ToUpper_idem [simp]: "ToUpper (ToUpper s) = ToUpper s"
  by (simp add: ToUpper_def)

lemma dropWhile_rev_last: "ys \<noteq> [] \<Longrightarrow> \<not> P (last ys) \<Longrightarrow> dropWhile P (rev ys) = rev ys"
  by (cases ys rule: rev_cases) auto

lemma dropWhile_head: "xs = [] \<or> \<not> P (hd xs) \<Longrightarrow> dropWhile P xs = xs"
  by (cases xs) auto

lemma TrimSpace_id:
  "s = [] \<or> \<not> is_space (hd s) \<and> \<not> is_space (last s) \<Longrightarrow> TrimSpace s = s"
  by (cases "s = []")
    (simp_all add: TrimSpace_def TrimRightFunc_def TrimLeftFunc_def dropWhile_head dropWhile_rev_last)

lemma TrimSpace_Nil [simp]: "TrimSpace [] = []"
  by (simp add: TrimSpace_id)

lemma TrimSpace_ends:
  "TrimSpace s = [] \<or> \<not> is_space (hd (TrimSpace s)) \<and> \<not> is_space (last (TrimSpace s))"
proof -
  let ?l = "dropWhile is_space s"
  have last: "TrimRightFunc is_space t = [] \<or> \<not> is_space (last (TrimRightFunc is_space t))" for t
    using hd_dropWhile [of is_space "rev t"] by (auto simp: TrimRightFunc_def last_rev)
  have app: "\<exists>u. ?l = TrimRightFunc is_space ?l @ u"
    unfolding TrimRightFunc_def
    by (metis rev_append rev_rev_ident takeWhile_dropWhile_id)
  show ?thesis
  proof (cases "TrimSpace s = []")
    case False
    then have ne: "TrimRightFunc is_space ?l \<noteq> []" by (simp add: TrimSpace_def TrimLeftFunc_def)
    then have "?l \<noteq> []" unfolding TrimRightFunc_def by force
    then have "\<not> is_space (hd ?l)" by (rule hd_dropWhile)
    moreover have "hd ?l = hd (TrimRightFunc is_space ?l)" using app ne by (metis hd_append2)
    ultimately show ?thesis using last [of ?l] ne by (simp add: TrimSpace_def TrimLeftFunc_def)
  qed simp
qed

lemma TrimSpace_idem [simp]: "TrimSpace (TrimSpace s) = TrimSpace s"
  by (rule TrimSpace_id) (rule TrimSpace_ends)

lemma TrimSpace_lower_trim [simp]: "TrimSpace (ToLower (TrimSpace s)) = ToLower (TrimSpace s)"
  by (simp add: TrimSpace_ToLower)

lemma TrimSpace_upper_trim [simp]: "TrimSpace (ToUpper (TrimSpace s)) = ToUpper (TrimSpace s)"
  by (simp add: TrimSpace_ToUpper)

lemma TrimSpace_no_space: "\<forall>c \<in> set s. \<not> is_space c \<Longrightarrow> TrimSpace s = s"
  by (rule TrimSpace_id) auto

section \<open>Prefixes and searching\<close>

lemma HasPrefix_iff: "HasPrefix s p \<longleftrightarrow> (\<exists>r. s = p @ r)"
  by (induction s p rule: HasPrefix.induct) auto

lemma HasPrefix_append [simp]: "HasPrefix (p @ r) p"
  by (simp add: HasPrefix_iff)

lemma TrimPrefix_append [simp]: "TrimPrefix (p @ r) p = r"
  by (simp add: TrimPrefix_def)

lemma HasPrefix_hd: "HasPrefix s p \<Longrightarrow> p \<noteq> [] \<Longrightarrow> s \<noteq> [] \<and> hd s = hd p"
  by (cases p) (auto simp: HasPrefix_iff)

lemma Index_Some: "Index s sub = Some i \<Longrightarrow> s = take i s @ sub @ drop (i + length sub) s"
proof (induction s sub arbitrary: i rule: Index.induct)
  case (1 sub)
  then show ?case by (simp split: if_splits)
next
  case (2 c cs sub)
  then show ?case by (auto simp: HasPrefix_iff split: if_splits)
qed

lemma Index_here [simp]: "Index (sub @ r) sub = Some 0"
  using HasPrefix_append [of sub r] by (cases "sub @ r") (auto simp del: HasPrefix_append)

lemma Index_skip:
  assumes "sub \<noteq> []" and "hd sub \<notin> set u"
  shows "Index (u @ r) sub = map_option ((+) (length u)) (Index r sub)"
  using assms(2)
proof (induction u)
  case Nil
  then show ?case by (cases "Index r sub") auto
next
  case (Cons c u)
  have "\<not> HasPrefix (c # u @ r) sub"
    using HasPrefix_hd [of "c # u @ r" sub] assms(1) Cons.prems by auto
  then show ?case using Cons by (cases "Index r sub") auto
qed

lemma Index_none: "sub \<noteq> [] \<Longrightarrow> hd sub \<notin> set u \<Longrightarrow> Index u sub = None"
  using Index_skip [of sub u "[]"] by simp

lemma Index_found: "sub \<noteq> [] \<Longrightarrow> hd sub \<notin> set u \<Longrightarrow> Index (u @ sub @ r) sub = Some (length u)"
  by (simp add: Index_skip)

lemma IndexByte_None [simp]: "IndexByte s c = None \<longleftrightarrow> c \<notin> set s"
proof
  assume "IndexByte s c = None"
  then show "c \<notin> set s" by (induction s) (auto simp: IndexByte_def split: if_splits)
next
  assume "c \<notin> set s"
  then show "IndexByte s c = None" using Index_none [of "[c]" s] by (simp add: IndexByte_def)
qed

lemma IndexByte_found [simp]: "c \<notin> set u \<Longrightarrow> IndexByte (u @ c # r) c = Some (length u)"
  using Index_found [of "[c]" u r] by (simp add: IndexByte_def)

lemma Contains_iff: "Contains s sub \<longleftrightarrow> (\<exists>u v. s = u @ sub @ v)"
proof
  assume "Contains s sub"
  then show "\<exists>u v. s = u @ sub @ v" unfolding Contains_def by (metis Index_Some not_None_eq)
next
  assume "\<exists>u v. s = u @ sub @ v"
  then obtain u v where "s = u @ sub @ v" by blast
  moreover have "Index (u @ sub @ v) sub \<noteq> None" by (induction u) auto
  ultimately show "Contains s sub" by (simp add: Contains_def)
qed

lemma LastIndex_none: "sub \<noteq> [] \<Longrightarrow> hd sub \<notin> set u \<Longrightarrow> LastIndex u sub = None"
proof (induction u)
  case (Cons c u)
  then show ?case using HasPrefix_hd [of "c # u" sub] by auto
qed simp

lemma LastIndex_Some_append:
  "LastIndex r sub = Some i \<Longrightarrow> LastIndex (u @ r) sub = Some (length u + i)"
  by (induction u) auto

lemma LastIndex_byte: "c \<notin> set r \<Longrightarrow> LastIndex (u @ c # r) [c] = Some (length u)"
  using LastIndex_Some_append [of "c # r" "[c]" 0 u] LastIndex_none [of "[c]" r] by simp

lemma LastIndex_byte_Some:
  "LastIndex s [c] = Some i \<Longrightarrow> s = take i s @ c # drop (i + 1) s \<and> c \<notin> set (drop (i + 1) s)"
proof (induction s arbitrary: i)
  case (Cons a s)
  show ?case
  proof (cases "LastIndex s [c]")
    case None
    then have "c \<notin> set s"
      using LastIndex_byte split_list_last [of c s] by (metis option.distinct(1))
    with None Cons.prems show ?thesis by (auto simp: HasPrefix_iff split: if_splits)
  next
    case (Some j)
    then show ?thesis using Cons by auto
  qed
qed (simp split: if_splits)

section \<open>Splitting and joining\<close>

lemma split_by_nonempty [simp]: "split_by P s \<noteq> []"
  by (cases s) (auto split: list.splits)

lemma split_by_append: "P c \<Longrightarrow> split_by P (u @ c # v) = split_by P u @ split_by P v"
proof (induction u)
  case (Cons x u)
  then show ?case by (cases "split_by P u") auto
qed simp

lemma split_by_none: "\<forall>c \<in> set u. \<not> P c \<Longrightarrow> split_by P u = [u]"
  by (induction u) auto

lemma Fields_append_space: "is_space c \<Longrightarrow> Fields (u @ c # v) = Fields u @ Fields v"
  by (simp add: Fields_def split_by_append)

lemma Fields_Nil [simp]: "Fields [] = []"
  by (simp add: Fields_def)

lemma Fields_word: "w \<noteq> [] \<Longrightarrow> \<forall>c \<in> set w. \<not> is_space c \<Longrightarrow> Fields w = [w]"
  by (simp add: Fields_def split_by_none)

lemma is_space_blank [simp]: "is_space (CHR '' '')"
  by (simp add: is_space_def)

lemma Join_append:
  "xs \<noteq> [] \<Longrightarrow> ys \<noteq> [] \<Longrightarrow> Join (xs @ ys) sep = Join xs sep @ sep @ Join ys sep"
proof (induction xs sep rule: Join.induct)
  case (2 w sep)
  then show ?case by (cases ys) auto
qed auto

lemma Join_Cons: "ws \<noteq> [] \<Longrightarrow> Join (w # ws) sep = w @ sep @ Join ws sep"
  by (cases ws) auto

definition word :: "string \<Rightarrow> bool" where
  "word w \<longleftrightarrow> w \<noteq> [] \<and> (\<forall>c \<in> set w. \<not> is_space c)"

lemma Fields_Join:
  assumes "\<forall>w \<in> set ws. word w"
  shows "Fields (Join ws '' '') = ws"
  using assms
proof (induction ws)
  case (Cons w ws)
  then show ?case
    by (cases ws) (auto simp: Fields_word word_def Fields_append_space)
qed simp

lemma Split_Join:
  assumes "ws \<noteq> []" and "\<forall>w \<in> set ws. c \<notin> set w"
  shows "Split (Join ws [c]) c = ws"
  using assms
proof (induction ws)
  case (Cons w ws)
  then have "split_by (\<lambda>x. x = c) w = [w]" by (intro split_by_none) auto
  with Cons show ?case
    by (cases ws) (auto simp: Split_def split_by_append)
qed simp

lemma Join_Cons_Cons: "Join ((a # w) # ws) sep = a # Join (w # ws) sep"
  by (cases ws) auto

lemma Join_Split: "Join (Split s c) [c] = s"
proof (induction s)
  case (Cons a s)
  then show ?case
    by (cases "split_by (\<lambda>x. x = c) s") (auto simp: Split_def Join_Cons Join_Cons_Cons split: list.splits)
qed (simp add: Split_def)

lemma Split_no_sep: "w \<in> set (Split s c) \<Longrightarrow> c \<notin> set w"
proof -
  have "\<forall>w \<in> set (split_by (\<lambda>x. x = c) s). c \<notin> set w"
    by (induction s) (auto split: list.splits)
  then show "w \<in> set (Split s c) \<Longrightarrow> c \<notin> set w" by (simp add: Split_def)
qed

section \<open>Decimal numbers\<close>

lemma of_char_digit [simp]: "d < 10 \<Longrightarrow> of_char (digit_char d) = (48 + d :: nat)"
  by (simp add: digit_char_def)

lemma is_digit_digit_char [simp]: "d < 10 \<Longrightarrow> is_digit (digit_char d)"
  by (simp add: is_digit_def)

lemma digit_val_digit_char [simp]: "d < 10 \<Longrightarrow> digit_val (digit_char d) = d"
  by (simp add: digit_val_def)

lemma digit_val_less: "is_digit c \<Longrightarrow> digit_val c < 10"
  unfolding digit_val_def is_digit_def by linarith

lemma digit_char_digit_val [simp]: "is_digit c \<Longrightarrow> digit_char (digit_val c) = c"
proof -
  assume "is_digit c"
  then have "48 + digit_val c = of_char c" by (simp add: digit_val_def is_digit_def)
  then show ?thesis by (simp add: digit_char_def)
qed

lemma nat_digits_small: "n < 10 \<Longrightarrow> nat_digits n = [digit_char n]"
  by (simp add: nat_digits.simps)

lemma nat_digits_snoc: "0 < n \<Longrightarrow> d < 10 \<Longrightarrow> nat_digits (n * 10 + d) = nat_digits n @ [digit_char d]"
  by (subst nat_digits.simps) simp

lemma nat_digits_not_Nil [simp]: "nat_digits n \<noteq> []"
  by (subst nat_digits.simps) simp

lemma nat_digits_is_digit: "c \<in> set (nat_digits n) \<Longrightarrow> is_digit c"
proof (induction n rule: nat_digits.induct)
  case (1 n)
  then show ?case by (subst (asm) (2) nat_digits.simps) (auto split: if_splits)
qed

lemma word_nat_digits [simp]: "word (nat_digits n)"
  by (auto simp: word_def dest: nat_digits_is_digit is_space_not)

text \<open>Reading the digits of a number back, behind any prefix already read.\<close>

lemma parse_uint_loop_digits:
  assumes "int n \<le> max_uint64"
  shows "parse_uint_loop 0 (nat_digits n @ r) = parse_uint_loop n r"
  using assms
proof (induction n arbitrary: r rule: nat_digits.induct)
  case (1 n)
  show ?case
  proof (cases "n < 10")
    case True
    then show ?thesis by (simp add: nat_digits_small max_uint64_def)
  next
    case False
    let ?q = "n div 10" and ?d = "n mod 10"
    have "int ?q = int n div 10" by (simp add: zdiv_int)
    then have d: "?d < 10" and q: "?q * 10 + ?d = n" "int ?q \<le> max_uint64 div 10" "int ?q \<le> max_uint64"
      using 1 (2) by (simp_all add: zdiv_mono1 max_uint64_def)
    have "parse_uint_loop 0 (nat_digits n @ r) = parse_uint_loop ?q (digit_char ?d # r)"
      using False 1 by (subst nat_digits.simps) simp
    also have "\<dots> = parse_uint_loop n r"
      using d q(2) 1 (2) by (simp add: q(1) Let_def flip: of_nat_mult of_nat_add)
    finally show ?thesis .
  qed
qed

lemma ParseUint_nat_digits: "int n \<le> max_uint64 \<Longrightarrow> ParseUint (nat_digits n) = (n, NumOk)"
  using parse_uint_loop_digits [of n "[]"] by (simp add: ParseUint_def)

lemma hd_nat_digits_not_sign: "hd (nat_digits n) \<noteq> CHR ''+''" "hd (nat_digits n) \<noteq> CHR ''-''"
  using nat_digits_is_digit [of "hd (nat_digits n)" n] by (auto simp: is_digit_def)

text \<open>Printing with \<open>%d\<close> and reading with \<open>strconv\<close> are inverse on 64-bit integers.\<close>

lemma ParseInt_Itoa:
  assumes "- 9223372036854775808 \<le> i" and "i < 9223372036854775808"
  shows "ParseInt (Itoa i) = (i, NumOk)"
proof (cases "i < 0")
  case True
  then have "ParseUint (nat_digits (nat (- i))) = (nat (- i), NumOk)"
    using assms by (intro ParseUint_nat_digits) (simp add: max_uint64_def)
  with True assms show ?thesis by (simp add: Itoa_def ParseInt_def Let_def)
next
  case False
  obtain c cs where ds: "nat_digits (nat i) = c # cs" by (cases "nat_digits (nat i)") auto
  with hd_nat_digits_not_sign [of "nat i"] have "c \<noteq> CHR ''+''" "c \<noteq> CHR ''-''" by auto
  moreover have "ParseUint (c # cs) = (nat i, NumOk)"
    using False assms ParseUint_nat_digits [of "nat i"] by (simp add: max_uint64_def flip: ds)
  ultimately show ?thesis using False assms by (simp add: Itoa_def ParseInt_def ds Let_def)
qed

lemma Atoi_Itoa [simp]:
  "- 9223372036854775808 \<le> i \<Longrightarrow> i < 9223372036854775808 \<Longrightarrow> Atoi (Itoa i) = (i, NumOk)"
  by (simp add: Atoi_def ParseInt_Itoa)

lemma Itoa_not_Nil [simp]: "Itoa i \<noteq> []"
  by (simp add: Itoa_def)

lemma set_Itoa: "c \<in> set (Itoa i) \<Longrightarrow> is_digit c \<or> c = CHR ''-''"
  by (auto simp: Itoa_def dest: nat_digits_is_digit split: if_splits)

lemma word_Itoa [simp]: "word (Itoa i)"
proof -
  have "\<not> is_space c" if "c \<in> set (Itoa i)" for c
    using set_Itoa [OF that] by (auto dest: is_space_not) (simp add: is_space_def)
  then show ?thesis by (simp add: word_def)
qed

lemma Itoa_inj:
  assumes "Itoa i = Itoa j"
    and "- 9223372036854775808 \<le> i" "i < 9223372036854775808"
    and "- 9223372036854775808 \<le> j" "j < 9223372036854775808"
  shows "i = j"
proof -
  have "(i, NumOk) = ParseInt (Itoa j)"
    unfolding assms(1) [symmetric] by (rule ParseInt_Itoa [symmetric]) (rule assms)+
  also have "\<dots> = (j, NumOk)" by (rule ParseInt_Itoa) (rule assms)+
  finally show ?thesis by simp
qed

section \<open>Words between blanks\<close>

lemma TrimSpace_append_space:
  assumes "\<forall>c \<in> set v. is_space c"
  shows "TrimSpace (u @ v) = TrimSpace u"
proof -
  have v: "dropWhile is_space (rev v @ w) = dropWhile is_space w" for w
    by (rule dropWhile_append2) (use assms in simp)
  have all: "\<forall>c \<in> set x. P c \<Longrightarrow> dropWhile P x = []" for x :: string and P by (simp add: dropWhile_eq_Nil_conv)
  show ?thesis
  proof (cases "\<forall>c \<in> set u. is_space c")
    case True
    then have "dropWhile is_space (u @ v) = []" "dropWhile is_space u = []"
      using assms by (auto simp: all)
    then show ?thesis by (simp only: TrimSpace_def TrimLeftFunc_def)
  next
    case False
    then have "dropWhile is_space (u @ v) = dropWhile is_space u @ v" by (metis dropWhile_append1)
    then show ?thesis by (simp add: TrimSpace_def TrimLeftFunc_def TrimRightFunc_def v)
  qed
qed

lemma TrimRightFunc_split: "\<exists>v. s = TrimRightFunc P s @ v \<and> (\<forall>c \<in> set v. P c)"
proof -
  have "s = TrimRightFunc P s @ rev (takeWhile P (rev s))"
    unfolding TrimRightFunc_def by (metis rev_append rev_rev_ident takeWhile_dropWhile_id)
  moreover have "\<forall>c \<in> set (rev (takeWhile P (rev s))). P c" by (auto dest: set_takeWhileD)
  ultimately show ?thesis by blast
qed

lemma Fields_spaces: "\<forall>c \<in> set a. is_space c \<Longrightarrow> Fields (a @ s) = Fields s \<and> Fields (s @ a) = Fields s"
proof (induction a arbitrary: s)
  case (Cons c a)
  then show ?case using Fields_append_space [of c "[]" "a @ s"] Fields_append_space [of c s a] Cons.IH [of "[]"] by simp
qed simp

lemma Fields_TrimSpace [simp]: "Fields (TrimSpace s) = Fields s"
proof -
  obtain v where v: "TrimLeftFunc is_space s = TrimSpace s @ v" "\<forall>c \<in> set v. is_space c"
    using TrimRightFunc_split [of "TrimLeftFunc is_space s" is_space] by (auto simp: TrimSpace_def)
  have s: "s = takeWhile is_space s @ TrimLeftFunc is_space s" by (simp add: TrimLeftFunc_def)
  have "Fields s = Fields (TrimLeftFunc is_space s)"
    by (subst s) (use Fields_spaces in \<open>auto dest: set_takeWhileD\<close>)
  also have "\<dots> = Fields (TrimSpace s)" unfolding v(1) using Fields_spaces [OF v(2)] by simp
  finally show ?thesis by simp
qed

lemma Fields_blank: "Fields (u @ '' '' @ v) = Fields u @ Fields v"
  using Fields_append_space [of "CHR '' ''" u v] by simp

lemma word_append: "word a \<Longrightarrow> word b \<Longrightarrow> word (a @ b)"
  by (auto simp: word_def)

lemma Fields_1: "word w \<Longrightarrow> Fields w = [w]"
  by (simp add: word_def Fields_word)

lemma Fields_words: "\<forall>w \<in> set ws. word w \<Longrightarrow> Fields (pre @ '' '' @ Join ws '' '') = Fields pre @ ws"
  unfolding Fields_blank by (simp add: Fields_Join)

lemma TrimSpace_part: "\<exists>a b. s = a @ TrimSpace s @ b"
proof -
  obtain v where "TrimLeftFunc is_space s = TrimSpace s @ v"
    using TrimRightFunc_split [of "TrimLeftFunc is_space s" is_space] by (auto simp: TrimSpace_def)
  moreover have "s = takeWhile is_space s @ TrimLeftFunc is_space s" by (simp add: TrimLeftFunc_def)
  ultimately show ?thesis by metis
qed

end
