(* ===== verification/GoNet.thy ===== *)
theory GoNet
  imports GoStrings
begin

text \<open>
  The parts of Go's \<open>net\<close> and \<open>net/netip\<close> that the program uses: \<open>netip.ParseAddr\<close> (the loops
  over IPv4 fields and IPv6 groups), \<open>net.ParseIP\<close>, \<open>net.ParseCIDR\<close>, \<open>net.SplitHostPort\<close> and
  \<open>net.JoinHostPort\<close>. The program looks at an IPv6 address only to know that it is one, so the
  IPv6 parser returns whether the text parses and not the sixteen bytes.

  \<open>parse_ipv4_iff\<close> is the exact inverse of printing: the accepted texts are the canonical dotted
  quads, each octet in decimal with no leading zero.
\<close>

section \<open>netip.ParseAddr\<close>

text \<open>
  \<open>parse_ipv4_loop\<close> is the body of \<open>parseIPv4Fields\<close>: the current octet's value and number of
  digits, the octets so far, whether the previous byte was a dot (or there was none).
\<close>

fun parse_ipv4_loop :: "nat \<Rightarrow> nat \<Rightarrow> nat list \<Rightarrow> bool \<Rightarrow> string \<Rightarrow> nat list option" where
  "parse_ipv4_loop val digLen fields after_dot [] =
     (if length fields < 3 then None else Some (fields @ [val]))"
| "parse_ipv4_loop val digLen fields after_dot (c # cs) =
     (if is_digit c then
        (if digLen = 1 \<and> val = 0 then None
         else let v = val * 10 + digit_val c
              in if 255 < v then None else parse_ipv4_loop v (digLen + 1) fields False cs)
      else if c = CHR ''.'' then
        (if after_dot \<or> cs = [] then None
         else if length fields = 3 then None
         else parse_ipv4_loop 0 0 (fields @ [val]) True cs)
      else None)"

definition parse_ipv4 :: "string \<Rightarrow> nat list option" where
  "parse_ipv4 s = parse_ipv4_loop 0 0 [] True s"

definition is_hex :: "char \<Rightarrow> bool" where
  "is_hex c \<longleftrightarrow> is_digit c \<or> 97 \<le> (of_char c :: nat) \<and> (of_char c :: nat) \<le> 102
                 \<or> 65 \<le> (of_char c :: nat) \<and> (of_char c :: nat) \<le> 70"

text \<open>
  \<open>parse_ipv6_loop fuel i ellipsis s\<close>: \<open>i\<close> bytes are parsed, \<open>ellipsis\<close> tells whether a \<open>::\<close>
  was seen. Every round of Go's loop parses one group and adds two to \<open>i\<close> until 16, so eight
  rounds are enough; a group of more than four digits fails before it can exceed 16 bits.
  The result is what remains of the text, the bytes parsed and whether there was an ellipsis.
\<close>

fun parse_ipv6_loop :: "nat \<Rightarrow> nat \<Rightarrow> bool \<Rightarrow> string \<Rightarrow> (string \<times> nat \<times> bool) option" where
  "parse_ipv6_loop 0 i ell s = Some (s, i, ell)"
| "parse_ipv6_loop (Suc n) i ell s =
     (let grp = takeWhile is_hex s; rest = dropWhile is_hex s
      in if length grp = 0 \<or> 4 < length grp then None
         else case rest of
           [] \<Rightarrow> Some ([], i + 2, ell)
         | c # cs \<Rightarrow>
             if c = CHR ''.'' then
               (if \<not> ell \<and> i \<noteq> 12 then None
                else if 16 < i + 4 then None
                else case parse_ipv4 s of None \<Rightarrow> None | Some _ \<Rightarrow> Some ([], i + 4, ell))
             else if c \<noteq> CHR '':'' \<or> cs = [] then None
             else if hd cs = CHR '':'' then
               (if ell then None
                else if tl cs = [] then Some ([], i + 2, True)
                else parse_ipv6_loop n (i + 2) True (tl cs))
             else parse_ipv6_loop n (i + 2) ell cs)"

definition parse_ipv6_body :: "string \<Rightarrow> bool" where
  "parse_ipv6_body s =
     (let ell = HasPrefix s ''::''; s1 = (if ell then drop 2 s else s)
      in if ell \<and> s1 = [] then True
         else case parse_ipv6_loop 8 0 ell s1 of
           None \<Rightarrow> False
         | Some (rest, i, e) \<Rightarrow> rest = [] \<and> (if i < 16 then e else \<not> e))"

datatype ip_addr = IPv4Addr "nat list" | IPv6Addr string \<comment> \<open>the zone\<close>

definition parse_ipv6 :: "string \<Rightarrow> ip_addr option" where
  "parse_ipv6 s =
     (case IndexByte s (CHR ''%'') of
        None \<Rightarrow> if parse_ipv6_body s then Some (IPv6Addr []) else None
      | Some i \<Rightarrow>
          if drop (i + 1) s = [] then None
          else if parse_ipv6_body (take i s) then Some (IPv6Addr (drop (i + 1) s)) else None)"

definition ParseAddr :: "string \<Rightarrow> ip_addr option" where
  "ParseAddr s =
     (case find (\<lambda>c. c \<in> set ''.:%'') s of
        None \<Rightarrow> None
      | Some c \<Rightarrow> if c = CHR ''.'' then map_option IPv4Addr (parse_ipv4 s)
                  else if c = CHR '':'' then parse_ipv6 s else None)"

definition addr_zone :: "ip_addr \<Rightarrow> string" where
  "addr_zone a = (case a of IPv4Addr _ \<Rightarrow> [] | IPv6Addr z \<Rightarrow> z)"

definition Is4 :: "ip_addr \<Rightarrow> bool" where
  "Is4 a = (case a of IPv4Addr _ \<Rightarrow> True | IPv6Addr _ \<Rightarrow> False)"

text \<open>\<open>IsUnspecified\<close> and \<open>IsMulticast\<close> of an IPv4 address: 0.0.0.0, and 224.0.0.0/4.\<close>

definition v4_unspecified :: "nat list \<Rightarrow> bool" where
  "v4_unspecified bs \<longleftrightarrow> bs = [0, 0, 0, 0]"

definition v4_multicast :: "nat list \<Rightarrow> bool" where
  "v4_multicast bs \<longleftrightarrow> hd bs div 16 = 14"

section \<open>Package net\<close>

definition ParseIP_ok :: "string \<Rightarrow> bool" where
  "ParseIP_ok s = (case ParseAddr s of None \<Rightarrow> False | Some a \<Rightarrow> addr_zone a = [])"

text \<open>\<open>dtoi\<close>: decimal digits up to the first other byte; \<open>None\<close> when there are none or too many.\<close>

fun dtoi_loop :: "nat \<Rightarrow> string \<Rightarrow> nat option" where
  "dtoi_loop n [] = Some n"
| "dtoi_loop n (c # cs) =
     (if \<not> is_digit c then Some n
      else let n1 = n * 10 + digit_val c in if 16777215 \<le> int n1 then None else dtoi_loop n1 cs)"

definition ParseCIDR_ok :: "string \<Rightarrow> bool" where
  "ParseCIDR_ok s =
     (case IndexByte s (CHR ''/'') of
        None \<Rightarrow> False
      | Some i \<Rightarrow>
          let mask = drop (i + 1) s
          in case ParseAddr (take i s) of
               None \<Rightarrow> False
             | Some a \<Rightarrow>
                 addr_zone a = [] \<and> mask \<noteq> [] \<and> list_all is_digit mask \<and>
                 (case dtoi_loop 0 mask of
                    None \<Rightarrow> False | Some n \<Rightarrow> n \<le> (if Is4 a then 32 else 128)))"

definition SplitHostPort :: "string \<Rightarrow> (string \<times> string) option" where
  "SplitHostPort s =
     (case LastIndex s '':'' of
        None \<Rightarrow> None
      | Some i \<Rightarrow>
          if HasPrefix s ''['' then
            (case IndexByte s (CHR '']'') of
               None \<Rightarrow> None
             | Some e \<Rightarrow>
                 if e + 1 \<noteq> i then None
                 else if CHR ''['' \<in> set (drop 1 s) \<or> CHR '']'' \<in> set (drop (e + 1) s) then None
                 else Some (take (e - 1) (drop 1 s), drop (i + 1) s))
          else if CHR '':'' \<in> set (take i s) then None
          else if CHR ''['' \<in> set s \<or> CHR '']'' \<in> set s then None
          else Some (take i s, drop (i + 1) s))"

definition JoinHostPort :: "string \<Rightarrow> string \<Rightarrow> string" where
  "JoinHostPort host port =
     (if IndexByte host (CHR '':'') \<noteq> None then ''['' @ host @ '']:'' @ port else host @ '':'' @ port)"

section \<open>The accepted IPv4 texts\<close>

text \<open>The dotted quad of four octets, as \<open>Addr.String\<close> prints it.\<close>

definition dotted :: "nat list \<Rightarrow> string" where
  "dotted bs = Join (map nat_digits bs) ''.''"

lemma nat_digits_ge10: "10 \<le> n \<Longrightarrow> nat_digits n = nat_digits (n div 10) @ [digit_char (n mod 10)]"
  by (subst nat_digits.simps) simp

lemma is_digit_not_dot [simp]: "\<not> is_digit (CHR ''.'')"
  by (simp add: is_digit_def)

text \<open>One octet of the text is read into its value.\<close>

lemma parse_ipv4_loop_octet:
  assumes "b \<le> 255"
  shows "parse_ipv4_loop 0 0 fs d (nat_digits b @ r) =
         parse_ipv4_loop b (length (nat_digits b)) fs False r"
proof -
  consider "b < 10" | "10 \<le> b" "b < 100" | "100 \<le> b" by linarith
  then show ?thesis
  proof cases
    case 1
    then show ?thesis by (simp add: nat_digits_small)
  next
    case 2
    have q: "b div 10 < 10" "0 < b div 10" "b div 10 * 10 + b mod 10 = b"
      "\<not> 255 < b div 10" using 2 by auto
    then show ?thesis using assms 2 by (simp add: nat_digits_ge10 nat_digits_small Let_def)
  next
    case 3
    let ?q = "b div 10"
    have q: "?q div 10 < 10" "0 < ?q div 10" "10 \<le> ?q" "?q div 10 * 10 + ?q mod 10 = ?q"
      "?q * 10 + b mod 10 = b" "\<not> 255 < ?q" "\<not> 255 < ?q div 10" using 3 assms by auto
    then show ?thesis using assms 3 by (simp add: nat_digits_ge10 nat_digits_small Let_def)
  qed
qed

lemma parse_ipv4_dotted:
  assumes "length bs = 4" and "\<forall>b \<in> set bs. b \<le> 255"
  shows "parse_ipv4 (dotted bs) = Some bs"
proof -
  obtain a b c d where bs: "bs = [a, b, c, d]"
    using assms(1) by (auto simp: numeral_eq_Suc length_Suc_conv)
  show ?thesis
    using assms(2) parse_ipv4_loop_octet [of d _ _ "[]"]
    by (simp add: bs parse_ipv4_def dotted_def parse_ipv4_loop_octet)
qed

text \<open>What the loop accepts is the rest of a dotted quad, with the octet being read in front.\<close>

lemma parse_ipv4_loop_Some:
  assumes "parse_ipv4_loop val n fs d s = Some bs"
    and "n = 0 \<longrightarrow> val = 0 \<and> s \<noteq> []" and "0 < n \<longrightarrow> n = length (nat_digits val)"
    and "val \<le> 255" and "d \<longleftrightarrow> n = 0" and "length fs \<le> 3"
  shows "\<exists>ws. bs = fs @ ws \<and> length bs = 4 \<and> ws \<noteq> [] \<and> (\<forall>w \<in> set ws. w \<le> 255) \<and>
              (if n = 0 then [] else nat_digits val) @ s = dotted ws"
  using assms
proof (induction val n fs d s rule: parse_ipv4_loop.induct)
  case (1 val n fs d)
  then show ?case by (auto simp: dotted_def split: if_splits)
next
  case (2 val n fs d c cs)
  show ?case
  proof (cases "is_digit c")
    case True
    let ?v = "val * 10 + digit_val c"
    from True 2 (3) have ok: "\<not> (n = 1 \<and> val = 0)" "?v \<le> 255"
      and rec: "parse_ipv4_loop ?v (n + 1) fs False cs = Some bs"
      by (auto simp: Let_def split: if_splits)
    have pos: "0 < n \<Longrightarrow> 0 < val"
      using 2 (5) ok(1) by (cases "val = 0") (auto simp: nat_digits_small)
    have digs: "nat_digits ?v = (if n = 0 then [] else nat_digits val) @ [c]"
      using pos 2 (4) True digit_val_less [OF True]
      by (cases "n = 0") (auto simp: nat_digits_snoc nat_digits_small)
    have len: "n + 1 = length (nat_digits ?v)"
      unfolding digs using 2 (5) by auto
    have "\<exists>ws. bs = fs @ ws \<and> length bs = 4 \<and> ws \<noteq> [] \<and> (\<forall>w \<in> set ws. w \<le> 255) \<and>
              (if n + 1 = 0 then [] else nat_digits ?v) @ cs = dotted ws"
      by (rule 2 (1) [OF True _ refl _ rec]) (use ok len 2 (8) in auto)
    then show ?thesis by (simp add: digs)
  next
    case False
    with 2 (3) have c: "c = CHR ''.''" and ok: "\<not> d" "cs \<noteq> []" "length fs \<noteq> 3"
      and rec: "parse_ipv4_loop 0 0 (fs @ [val]) True cs = Some bs"
      by (auto split: if_splits)
    have "\<exists>ws. bs = (fs @ [val]) @ ws \<and> length bs = 4 \<and> ws \<noteq> [] \<and> (\<forall>w \<in> set ws. w \<le> 255) \<and>
              (if (0::nat) = 0 then [] else nat_digits 0) @ cs = dotted ws"
      by (rule 2 (2) [OF False c _ _ rec]) (use ok 2 (8) in auto)
    then obtain ws where ws: "bs = fs @ val # ws" "length bs = 4" "ws \<noteq> []"
      "\<forall>w \<in> set ws. w \<le> 255" "cs = dotted ws" by auto
    have "nat_digits val @ CHR ''.'' # cs = dotted (val # ws)"
      using ws by (simp add: dotted_def Join_Cons)
    with ws ok 2 (6,7) c show ?thesis by (intro exI [of _ "val # ws"]) auto
  qed
qed

lemma parse_ipv4_iff:
  "parse_ipv4 s = Some bs \<longleftrightarrow> length bs = 4 \<and> (\<forall>b \<in> set bs. b \<le> 255) \<and> s = dotted bs"
proof
  assume p: "parse_ipv4 s = Some bs"
  then have "s \<noteq> []" by (auto simp: parse_ipv4_def)
  then show "length bs = 4 \<and> (\<forall>b \<in> set bs. b \<le> 255) \<and> s = dotted bs"
    using parse_ipv4_loop_Some [OF p [unfolded parse_ipv4_def]] by auto
next
  assume "length bs = 4 \<and> (\<forall>b \<in> set bs. b \<le> 255) \<and> s = dotted bs"
  then show "parse_ipv4 s = Some bs" using parse_ipv4_dotted by auto
qed

end
