(* ===== verification/Errors.thy ===== *)
theory Errors
  imports GoStrings
begin

text \<open>
  Go's error values and the API's coded errors (src/internal/model/errors.go).

  An error is a coded error, a plain one (\<open>errors.New\<close>, \<open>fmt.Errorf\<close> without \<open>%w\<close>), or one that
  wraps another behind a text of its own (\<open>fmt.Errorf("...: %w", ..., err)\<close>). \<open>err_text\<close> is the
  \<open>Error\<close> method; \<open>find_coded\<close> is \<open>errors.As\<close> with a target of type \<open>*CodedError\<close>: it follows
  the wrapped errors.
\<close>

datatype coded_error = CodedError (ce_Code: string) (ce_Message: string) (ce_HTTP: int)

datatype goerr = Coded coded_error | Plain string | Wrapped string goerr

definition coded_Error :: "coded_error \<Rightarrow> string" where
  "coded_Error e = ce_Code e @ '': '' @ ce_Message e"

primrec err_text :: "goerr \<Rightarrow> string" where
  "err_text (Coded e) = coded_Error e"
| "err_text (Plain s) = s"
| "err_text (Wrapped s e) = s"

primrec find_coded :: "goerr \<Rightarrow> coded_error option" where
  "find_coded (Coded e) = Some e"
| "find_coded (Plain s) = None"
| "find_coded (Wrapped s e) = find_coded e"

text \<open>\<open>wrapf pre err post\<close> is \<open>fmt.Errorf("<pre>%w<post>", err)\<close>.\<close>

definition wrapf :: "string \<Rightarrow> goerr \<Rightarrow> string \<Rightarrow> goerr" where
  "wrapf pre err post = Wrapped (pre @ err_text err @ post) err"

definition Validation :: "string \<Rightarrow> goerr" where
  "Validation msg = Coded (CodedError ''VALIDATION'' msg 400)"

definition NotFound :: "string \<Rightarrow> string \<Rightarrow> goerr" where
  "NotFound resource ident =
     Coded (CodedError ''NOT_FOUND'' (resource @ '' '' @ ident @ '' not found'') 404)"

definition ErrConflict :: "string \<Rightarrow> goerr" where
  "ErrConflict msg = Coded (CodedError ''CONFLICT'' msg 409)"

definition Unauthorized :: "string \<Rightarrow> goerr" where
  "Unauthorized msg = Coded (CodedError ''UNAUTHORIZED'' msg 401)"

definition Forbidden :: "string \<Rightarrow> goerr" where
  "Forbidden msg = Coded (CodedError ''FORBIDDEN'' msg 403)"

definition Unavailable :: "string \<Rightarrow> goerr" where
  "Unavailable msg = Coded (CodedError ''UNAVAILABLE'' msg 503)"

definition Internal :: "string \<Rightarrow> goerr" where
  "Internal msg = Coded (CodedError ''INTERNAL'' msg 500)"

definition NotImplemented :: "string \<Rightarrow> goerr" where
  "NotImplemented msg = Coded (CodedError ''NOT_IMPLEMENTED'' msg 501)"

definition AsCoded :: "goerr \<Rightarrow> coded_error" where
  "AsCoded err = (case find_coded err of Some ce \<Rightarrow> ce
                  | None \<Rightarrow> CodedError ''INTERNAL'' (err_text err) 500)"

lemma find_coded_wrapf [simp]: "find_coded (wrapf pre err post) = find_coded err"
  by (simp add: wrapf_def)

lemma AsCoded_wrapf: "find_coded err \<noteq> None \<Longrightarrow> AsCoded (wrapf pre err post) = AsCoded err"
  by (auto simp: AsCoded_def)

section \<open>The verb %q\<close>

text \<open>
  \<open>strconv.Quote\<close> on bytes: quotes and backslashes are escaped, the control characters by name or
  as \<open>\x\<close> with two hexadecimal digits. A byte above 127 stands for itself, which is what Go does
  for the printable non-ASCII runes.
\<close>

definition hex_digit :: "nat \<Rightarrow> char" where
  "hex_digit d = (if d < 10 then digit_char d else char_of (87 + d))"

definition quote_char :: "char \<Rightarrow> string" where
  "quote_char c =
     (if c = CHR 0x22 then [CHR 0x5C, CHR 0x22]
      else if c = CHR 0x5C then [CHR 0x5C, CHR 0x5C]
      else if c = CHR 0x07 then [CHR 0x5C, CHR ''a'']
      else if c = CHR 0x08 then [CHR 0x5C, CHR ''b'']
      else if c = CHR 0x0C then [CHR 0x5C, CHR ''f'']
      else if c = CHR 0x0A then [CHR 0x5C, CHR ''n'']
      else if c = CHR 0x0D then [CHR 0x5C, CHR ''r'']
      else if c = CHR 0x09 then [CHR 0x5C, CHR ''t'']
      else if c = CHR 0x0B then [CHR 0x5C, CHR ''v'']
      else if (of_char c :: nat) < 32 \<or> (of_char c :: nat) = 127
        then [CHR 0x5C, CHR ''x'', hex_digit (of_char c div 16), hex_digit (of_char c mod 16)]
      else [c])"

definition Quote :: "string \<Rightarrow> string" where
  "Quote s = [CHR 0x22] @ concat (map quote_char s) @ [CHR 0x22]"

end
