(* ===== verification/Validate.thy ===== *)
theory Validate
  imports GoNet Errors
begin

text \<open>
  Input validation (src/internal/validate/validate.go). Each Go function returns an error or nil;
  here it returns \<open>Some\<close> error or \<open>None\<close>.

  The five regular expressions of the file are transcribed as terms of \<open>re\<close>, with \<open>lang\<close> their
  language (the \<open>^\<close> and \<open>$\<close> anchors make \<open>MatchString\<close> membership of the whole string). The
  validators call the executable matchers \<open>ifaceNameRe\<close>, ..., and \<open>ifaceNameRe_lang\<close>, ... show that
  these decide exactly those languages.
\<close>

section \<open>Regular expressions\<close>

datatype re = Cls "char \<Rightarrow> bool" | Cat re re | Rep nat nat re | Many re

primrec lang :: "re \<Rightarrow> string set" where
  "lang (Cls P) = {[c] | c. P c}"
| "lang (Cat r1 r2) = {u @ v | u v. u \<in> lang r1 \<and> v \<in> lang r2}"
| "lang (Rep lo hi r) = {concat ws | ws. lo \<le> length ws \<and> length ws \<le> hi \<and> set ws \<subseteq> lang r}"
| "lang (Many r) = {concat ws | ws. set ws \<subseteq> lang r}"

definition alpha :: "char \<Rightarrow> bool" where
  "alpha c \<longleftrightarrow> is_upper c \<or> is_lower c"

definition name_char :: "char \<Rightarrow> bool" where
  "name_char c \<longleftrightarrow> is_alnum c \<or> c \<in> set ''_.-''"

definition unit_char :: "char \<Rightarrow> bool" where
  "unit_char c \<longleftrightarrow> is_alnum c \<or> c \<in> set ''_.@-''"

definition host_inner :: "char \<Rightarrow> bool" where
  "host_inner c \<longleftrightarrow> is_alnum c \<or> c = CHR ''-''"

definition low_edge :: "char \<Rightarrow> bool" where
  "low_edge c \<longleftrightarrow> is_lower c \<or> is_digit c"

definition low_inner :: "char \<Rightarrow> bool" where
  "low_inner c \<longleftrightarrow> low_edge c \<or> c = CHR ''-''"

definition iface_pattern :: re where
  "iface_pattern = Cat (Cls alpha) (Rep 0 14 (Cls name_char))"

definition token_pattern :: re where
  "token_pattern = Cat (Cls is_alnum) (Rep 0 62 (Cls name_char))"

definition label_pattern :: "(char \<Rightarrow> bool) \<Rightarrow> (char \<Rightarrow> bool) \<Rightarrow> re" where
  "label_pattern edge inner = Cat (Cls edge) (Rep 0 1 (Cat (Rep 0 61 (Cls inner)) (Cls edge)))"

definition host_pattern :: re where
  "host_pattern =
     Cat (label_pattern is_alnum host_inner)
         (Many (Cat (Cls (\<lambda>c. c = CHR ''.'')) (label_pattern is_alnum host_inner)))"

definition dns_label_pattern :: re where
  "dns_label_pattern = label_pattern low_edge low_inner"

definition unit_pattern :: re where
  "unit_pattern = Cat (Cls is_alnum) (Rep 0 255 (Cls unit_char))"

text \<open>The matchers.\<close>

definition first_then :: "(char \<Rightarrow> bool) \<Rightarrow> nat \<Rightarrow> (char \<Rightarrow> bool) \<Rightarrow> string \<Rightarrow> bool" where
  "first_then P n Q s = (case s of [] \<Rightarrow> False | c # cs \<Rightarrow> P c \<and> length cs \<le> n \<and> list_all Q cs)"

definition label_match :: "(char \<Rightarrow> bool) \<Rightarrow> (char \<Rightarrow> bool) \<Rightarrow> string \<Rightarrow> bool" where
  "label_match edge inner s \<longleftrightarrow>
     s \<noteq> [] \<and> length s \<le> 63 \<and> edge (hd s) \<and> edge (last s) \<and> list_all inner s"

definition ifaceNameRe :: "string \<Rightarrow> bool" where
  "ifaceNameRe = first_then alpha 14 name_char"

definition tokenNameRe :: "string \<Rightarrow> bool" where
  "tokenNameRe = first_then is_alnum 62 name_char"

definition hostNameRe :: "string \<Rightarrow> bool" where
  "hostNameRe s = list_all (label_match is_alnum host_inner) (Split s (CHR ''.''))"

definition dnsLabelRe :: "string \<Rightarrow> bool" where
  "dnsLabelRe = label_match low_edge low_inner"

definition unitNameRe :: "string \<Rightarrow> bool" where
  "unitNameRe = first_then is_alnum 255 unit_char"

section \<open>Validators\<close>

definition errf :: "string \<Rightarrow> goerr option" where
  "errf msg = Some (Plain (''VALIDATION: '' @ msg))"

definition NodeName :: "string \<Rightarrow> goerr option" where
  "NodeName name =
     (let n = ToLower (TrimSpace name)
      in if n = [] then errf ''node name is required''
         else if 63 < length n \<or> \<not> dnsLabelRe n
           then errf ''node name must be a lowercase DNS label (max 63)''
         else None)"

definition BackendName :: "string \<Rightarrow> goerr option" where
  "BackendName name = NodeName name"

definition TokenName :: "string \<Rightarrow> goerr option" where
  "TokenName name =
     (if \<not> tokenNameRe name then errf ''token name must be alphanumeric with ._- (max 63)'' else None)"

definition Username :: "string \<Rightarrow> goerr option" where
  "Username name =
     (let n = ToLower (TrimSpace name)
      in if n = [] then errf ''username is required''
         else if 63 < length n \<or> \<not> dnsLabelRe n
           then errf ''username must be a lowercase DNS label (max 63)''
         else None)"

definition HumanPassword :: "string \<Rightarrow> goerr option" where
  "HumanPassword pw =
     (if TrimSpace pw = [] then errf ''password is required''
      else if length pw < 10 then errf ''password must be at least 10 characters''
      else if 200 < length pw then errf ''password is too long''
      else None)"

definition IPv4 :: "string \<Rightarrow> goerr option" where
  "IPv4 s0 =
     (let s = TrimSpace s0
      in if s = [] then errf ''ip address is required''
         else case ParseAddr s of
           Some (IPv4Addr bs) \<Rightarrow>
             if v4_unspecified bs \<or> v4_multicast bs
             then errf (''IPv4 address '' @ Quote s @ '' is not usable'') else None
         | _ \<Rightarrow> errf (''invalid IPv4 address '' @ Quote s))"

definition OptionalIPv4 :: "string \<Rightarrow> goerr option" where
  "OptionalIPv4 s = (if TrimSpace s = [] then None else IPv4 s)"

definition CIDR :: "string \<Rightarrow> goerr option" where
  "CIDR s0 =
     (let s = TrimSpace s0
      in if s = [] then errf ''CIDR is required''
         else if \<not> ParseCIDR_ok s then errf (''invalid CIDR '' @ Quote s) else None)"

definition Port :: "int \<Rightarrow> goerr option" where
  "Port p = (if p < 1 \<or> 65535 < p then errf (''port '' @ Itoa p @ '' out of range 1-65535'') else None)"

definition OptionalPort :: "int \<Rightarrow> goerr option" where
  "OptionalPort p = (if p = 0 then None else Port p)"

definition InterfaceName :: "string \<Rightarrow> goerr option" where
  "InterfaceName name =
     (if \<not> ifaceNameRe name then errf (''invalid interface name '' @ Quote name) else None)"

definition Protocol :: "string \<Rightarrow> goerr option" where
  "Protocol p =
     (let u = ToUpper (TrimSpace p)
      in if u = ''TCP'' \<or> u = ''UDP'' then None
         else errf (''protocol must be TCP or UDP, got '' @ Quote p))"

definition TunnelType :: "string \<Rightarrow> goerr option" where
  "TunnelType t =
     (let u = ToUpper (TrimSpace t)
      in if u = ''WIREGUARD'' \<or> u = ''SSH_TUN'' then None
         else errf (''tunnel type must be WIREGUARD or SSH_TUN, got '' @ Quote t))"

definition Hostname :: "string \<Rightarrow> goerr option" where
  "Hostname s0 =
     (let s = ToLower (TrimSpace s0)
      in if s = [] \<or> 253 < length s \<or> \<not> hostNameRe s then errf (''invalid hostname '' @ Quote s)
         else None)"

definition Endpoint :: "string \<Rightarrow> goerr option" where
  "Endpoint s0 =
     (let s = TrimSpace s0
      in if s = [] then None
         else case SplitHostPort s of
           None \<Rightarrow> errf (''endpoint must be host:port, got '' @ Quote s)
         | Some (host, port) \<Rightarrow>
             if host = [] then errf ''endpoint host is required''
             else case (if ParseIP_ok host then None else Hostname host) of
               Some e \<Rightarrow> Some e
             | None \<Rightarrow>
                 let r = Atoi port
                 in if snd r \<noteq> NumOk then errf (''invalid endpoint port '' @ Quote port)
                    else Port (fst r))"

definition ListenAddr :: "string \<Rightarrow> goerr option" where
  "ListenAddr s0 =
     (let s = TrimSpace s0
      in if s = [] then errf ''listen address is required''
         else if HasPrefix s '':'' then
           (let r = Atoi (drop 1 s)
            in if snd r \<noteq> NumOk then errf (''invalid listen port in '' @ Quote s) else Port (fst r))
         else case SplitHostPort s of
           None \<Rightarrow> errf (''listen must be host:port or :port, got '' @ Quote s)
         | Some (host, port) \<Rightarrow>
             case (if host \<noteq> [] \<and> \<not> ParseIP_ok host then Hostname host else None) of
               Some e \<Rightarrow> Some e
             | None \<Rightarrow>
                 let r = Atoi port
                 in if snd r \<noteq> NumOk then errf (''invalid listen port '' @ Quote port)
                    else Port (fst r))"

definition OverlayPair :: "string \<Rightarrow> string \<Rightarrow> goerr option" where
  "OverlayPair local remote =
     (case IPv4 local of
        Some e \<Rightarrow> errf (''local_overlay_ip: '' @ TrimPrefix (err_text e) ''VALIDATION: '')
      | None \<Rightarrow>
          case IPv4 remote of
            Some e \<Rightarrow> errf (''remote_overlay_ip: '' @ TrimPrefix (err_text e) ''VALIDATION: '')
          | None \<Rightarrow>
              if local = remote then errf ''local and remote overlay IPs must differ'' else None)"

definition PathRef :: "string \<Rightarrow> goerr option" where
  "PathRef p0 =
     (let p = TrimSpace p0
      in if p = [] then None
         else if Contains p [CHR 0x00] \<or> ContainsAny p [CHR 0x0A, CHR 0x0D]
           then errf ''path contains illegal characters''
         else None)"

definition ServiceName :: "string \<Rightarrow> goerr option" where
  "ServiceName s0 =
     (let s = TrimSpace s0
      in if s = [] then None
         else if \<not> unitNameRe s then errf (''invalid systemd unit name '' @ Quote s) else None)"

definition Wrap :: "goerr option \<Rightarrow> goerr option" where
  "Wrap err = (case err of None \<Rightarrow> None
               | Some e \<Rightarrow> errf (TrimPrefix (err_text e) ''VALIDATION: ''))"

section \<open>The matchers decide the languages of the expressions\<close>

lemma concat_singletons: "set ws \<subseteq> {[c] | c. P c} \<Longrightarrow> length (concat ws) = length ws \<and> list_all P (concat ws)"
  by (induction ws) auto

lemma lang_Rep_Cls: "lang (Rep lo hi (Cls P)) = {s. lo \<le> length s \<and> length s \<le> hi \<and> list_all P s}"
proof (intro set_eqI iffI)
  fix s
  assume "s \<in> lang (Rep lo hi (Cls P))"
  then show "s \<in> {s. lo \<le> length s \<and> length s \<le> hi \<and> list_all P s}"
    using concat_singletons [of _ P] by auto
next
  fix s
  assume s: "s \<in> {s. lo \<le> length s \<and> length s \<le> hi \<and> list_all P s}"
  have "s = concat (map (\<lambda>c. [c]) s)" by simp
  with s show "s \<in> lang (Rep lo hi (Cls P))"
    by (auto simp: list_all_iff intro!: exI [of _ "map (\<lambda>c. [c]) s"])
qed

lemma lang_Cls_Cat: "s \<in> lang (Cat (Cls P) r) \<longleftrightarrow> (\<exists>c t. s = c # t \<and> P c \<and> t \<in> lang r)"
proof -
  have "s = [c] @ t \<longleftrightarrow> s = c # t" for c t by simp
  then show ?thesis unfolding lang.simps(1,2) by blast
qed

lemma lang_Cat_Cls: "s \<in> lang (Cat r (Cls P)) \<longleftrightarrow> (\<exists>t c. s = t @ [c] \<and> t \<in> lang r \<and> P c)"
  by auto

lemma first_then_lang: "first_then P n Q s \<longleftrightarrow> s \<in> lang (Cat (Cls P) (Rep 0 n (Cls Q)))"
  unfolding lang_Cls_Cat lang_Rep_Cls by (auto simp: first_then_def split: list.splits)

lemma ifaceNameRe_lang: "ifaceNameRe s \<longleftrightarrow> s \<in> lang iface_pattern"
  by (simp only: ifaceNameRe_def iface_pattern_def first_then_lang)

lemma tokenNameRe_lang: "tokenNameRe s \<longleftrightarrow> s \<in> lang token_pattern"
  by (simp only: tokenNameRe_def token_pattern_def first_then_lang)

lemma unitNameRe_lang: "unitNameRe s \<longleftrightarrow> s \<in> lang unit_pattern"
  by (simp only: unitNameRe_def unit_pattern_def first_then_lang)

lemma length_le_1: "length ws \<le> 1 \<longleftrightarrow> ws = [] \<or> (\<exists>w. ws = [w])"
  by (cases ws; cases "tl ws") auto

lemma lang_Opt: "s \<in> lang (Rep 0 1 r) \<longleftrightarrow> s = [] \<or> s \<in> lang r"
proof -
  have "s = concat ws \<and> set ws \<subseteq> lang r \<longleftrightarrow> s = w \<and> s \<in> lang r" if "ws = [w]" for ws w
    using that by auto
  moreover have "concat [s] = s" by simp
  ultimately show ?thesis unfolding lang.simps(3) length_le_1 mem_Collect_eq
    by (metis concat.simps(1) empty_set empty_subsetI le0)
qed

lemma label_match_lang:
  assumes "\<And>c. edge c \<Longrightarrow> inner c"
  shows "label_match edge inner s \<longleftrightarrow> s \<in> lang (label_pattern edge inner)"
proof (cases s)
  case Nil
  then show ?thesis by (simp add: label_match_def label_pattern_def lang_Cls_Cat del: lang.simps)
next
  case (Cons c t)
  then show ?thesis
    unfolding label_pattern_def lang_Cls_Cat lang_Opt lang_Cat_Cls lang_Rep_Cls
    by (cases t rule: rev_cases) (auto simp: label_match_def assms)
qed

lemma dnsLabelRe_lang: "dnsLabelRe s \<longleftrightarrow> s \<in> lang dns_label_pattern"
  unfolding dnsLabelRe_def dns_label_pattern_def by (rule label_match_lang) (simp add: low_inner_def)

lemma Join_dot_concat: "Join (w # ws) [c] = w @ concat (map ((#) c) ws)"
  by (induction ws arbitrary: w) auto

lemma label_match_no_dot: "label_match is_alnum host_inner w \<Longrightarrow> CHR ''.'' \<notin> set w"
  by (auto simp: label_match_def list_all_iff host_inner_def is_alnum_def is_lower_def is_upper_def
      is_digit_def)

lemma hostNameRe_lang: "hostNameRe s \<longleftrightarrow> s \<in> lang host_pattern"
proof -
  let ?L = "label_match is_alnum host_inner"
  have L: "lang (label_pattern is_alnum host_inner) = {w. ?L w}"
    using label_match_lang [of is_alnum host_inner] by (auto simp: host_inner_def)
  have D: "lang (Cat (Cls (\<lambda>c. c = CHR ''.'')) (label_pattern is_alnum host_inner)) =
           {CHR ''.'' # w | w. ?L w}"
    unfolding lang.simps(1,2) L by auto
  have M: "x \<in> lang (Many (Cat (Cls (\<lambda>c. c = CHR ''.'')) (label_pattern is_alnum host_inner))) \<longleftrightarrow>
           (\<exists>ws. x = concat (map ((#) (CHR ''.'')) ws) \<and> list_all ?L ws)" for x
  proof -
    have "set vs \<subseteq> {CHR ''.'' # w | w. ?L w} \<longleftrightarrow> (\<exists>ws. vs = map ((#) (CHR ''.'')) ws \<and> list_all ?L ws)" for vs
    proof (induction vs)
      case (Cons v vs)
      then show ?case by (auto simp: Cons_eq_map_conv)
    qed simp
    then show ?thesis unfolding lang.simps(4) D by auto
  qed
  have "s \<in> lang host_pattern \<longleftrightarrow> (\<exists>w ws. s = Join (w # ws) ''.'' \<and> list_all ?L (w # ws))"
    unfolding host_pattern_def lang.simps(2) L M [unfolded mem_Collect_eq] Join_dot_concat by (auto simp: M simp del: lang.simps)
  also have "\<dots> \<longleftrightarrow> hostNameRe s"
  proof
    assume "\<exists>w ws. s = Join (w # ws) ''.'' \<and> list_all ?L (w # ws)"
    then obtain w ws where s: "s = Join (w # ws) ''.''" and l: "list_all ?L (w # ws)" by blast
    have "Split s (CHR ''.'') = w # ws"
      unfolding s by (rule Split_Join) (use l label_match_no_dot in \<open>auto simp: list_all_iff\<close>)
    with l show "hostNameRe s" by (simp add: hostNameRe_def)
  next
    assume "hostNameRe s"
    moreover obtain w ws where "Split s (CHR ''.'') = w # ws"
      by (cases "Split s (CHR ''.'')") (auto simp: Split_def)
    ultimately show "\<exists>w ws. s = Join (w # ws) ''.'' \<and> list_all ?L (w # ws)"
      using Join_Split [of s "CHR ''.''"] by (auto simp: hostNameRe_def)
  qed
  finally show ?thesis by simp
qed

end
