(* ===== verification/Model.thy ===== *)
theory Model
  imports Validate
begin

text \<open>
  The data model the controller and the agent share (src/internal/model/model.go) and its
  normalisation and validation (src/internal/model/validate.go).

  Structs are records whose fields carry the Go names behind a prefix of the type. Identifiers and
  the string-typed enumerations (\<open>TunnelType\<close>, \<open>Protocol\<close>, \<open>Role\<close>) are strings, as in Go, because
  unvalidated values reach the code. Times and durations are integers of nanoseconds; time 0 is Go's
  zero time. A nil slice or map is the empty one.

  A \<open>Validate\<close> method normalises its receiver in place and then checks it: \<open>Tunnel_Validate t\<close>
  is the error it returns, and a caller that goes on with its receiver goes on with
  \<open>Tunnel_Normalize t\<close>.
\<close>

type_synonym ident = string
type_synonym gotime = int
type_synonym duration = int

definition Millisecond :: int where "Millisecond = 1000000"
definition Second :: int where "Second = 1000000000"
definition Minute :: int where "Minute = 60000000000"

section \<open>Records\<close>

record node =
  n_ID :: ident
  n_Name :: string
  n_PublicIP :: string
  n_Labels :: "string \<rightharpoonup> string"
  n_CreatedAt :: gotime
  n_UpdatedAt :: gotime

record backend =
  b_ID :: ident
  b_Name :: string
  b_NodeID :: ident
  b_Address :: string
  b_CreatedAt :: gotime
  b_UpdatedAt :: gotime

definition TunnelWireGuard :: string where "TunnelWireGuard = ''WIREGUARD''"
definition TunnelSSHTUN :: string where "TunnelSSHTUN = ''SSH_TUN''"

record tunnel =
  t_ID :: ident
  t_NodeID :: ident
  t_BackendID :: ident
  t_Type :: string
  t_InterfaceName :: string
  t_LocalOverlayIP :: string
  t_RemoteOverlayIP :: string
  t_ListenPort :: int
  t_Endpoint :: string
  t_AllowedIPs :: "string list"
  t_PersistentKeepalive :: int
  t_Priority :: int
  t_PrivateKeyPath :: string
  t_PublicKey :: string
  t_ServiceName :: string
  t_CreatedAt :: gotime
  t_UpdatedAt :: gotime

definition ProtoTCP :: string where "ProtoTCP = ''TCP''"
definition ProtoUDP :: string where "ProtoUDP = ''UDP''"

record port_mapping =
  m_ID :: ident
  m_NodeID :: ident
  m_BackendID :: ident
  m_Protocol :: string
  m_PublicPort :: int
  m_BackendPort :: int
  m_Enabled :: bool
  m_CreatedAt :: gotime
  m_UpdatedAt :: gotime

record mapping_patch =
  mp_NodeID :: "ident option"
  mp_BackendID :: "ident option"
  mp_Backend :: "string option"
  mp_Protocol :: "string option"
  mp_PublicPort :: "int option"
  mp_BackendPort :: "int option"
  mp_Enabled :: "bool option"

definition MappingPatch_Empty :: "mapping_patch \<Rightarrow> bool" where
  "MappingPatch_Empty p \<longleftrightarrow>
     mp_NodeID p = None \<and> mp_BackendID p = None \<and> mp_Backend p = None \<and> mp_Protocol p = None \<and>
     mp_PublicPort p = None \<and> mp_BackendPort p = None \<and> mp_Enabled p = None"

record sni_match =
  sm_Match :: string
  sm_Default :: bool
  sm_BackendID :: ident
  sm_Backend :: string

record sni_route =
  r_ID :: ident
  r_NodeID :: ident
  r_Listen :: string
  r_Matches :: "sni_match list"
  r_CreatedAt :: gotime
  r_UpdatedAt :: gotime

record health_check =
  hc_ID :: ident
  hc_BackendID :: ident
  hc_Protocol :: string
  hc_Port :: int
  hc_Interval :: duration
  hc_Timeout :: duration
  hc_CreatedAt :: gotime
  hc_UpdatedAt :: gotime

record failover_policy =
  p_ID :: ident
  p_NodeID :: ident
  p_BackendID :: ident
  p_AutomaticFailback :: bool
  p_AutomaticFailforward :: bool
  p_CheckInterval :: duration
  p_FailureThreshold :: int
  p_CreatedAt :: gotime
  p_UpdatedAt :: gotime

definition DefaultFailoverPolicy :: failover_policy where
  "DefaultFailoverPolicy =
     \<lparr>p_ID = [], p_NodeID = [], p_BackendID = [], p_AutomaticFailback = True,
      p_AutomaticFailforward = False, p_CheckInterval = 10 * Second, p_FailureThreshold = 3,
      p_CreatedAt = 0, p_UpdatedAt = 0\<rparr>"

text \<open>
  The persisted transport mode. Go's type is a string: a state file can hold any other text, which
  is \<open>OtherMode\<close>. The empty mode is a constructor of its own because the state machine treats it.
\<close>

datatype transport_mode =
  EmptyMode | WGPrimary | FailbackInProgress | SSHPrimary | Degraded | OtherMode string

definition mode_string :: "transport_mode \<Rightarrow> string" where
  "mode_string m = (case m of EmptyMode \<Rightarrow> [] | WGPrimary \<Rightarrow> ''WG_PRIMARY''
     | FailbackInProgress \<Rightarrow> ''FAILBACK_IN_PROGRESS'' | SSHPrimary \<Rightarrow> ''SSH_PRIMARY''
     | Degraded \<Rightarrow> ''DEGRADED'' | OtherMode s \<Rightarrow> s)"

record transport_state =
  ts_NodeID :: ident
  ts_BackendID :: ident
  ts_State :: transport_mode
  ts_ConsecutiveFailures :: int
  ts_PrimaryHealthy :: bool
  ts_FallbackHealthy :: bool
  ts_LastTransition :: gotime
  ts_LastReason :: string
  ts_UpdatedAt :: gotime

record failback_intent =
  fi_ID :: ident
  fi_NodeID :: ident
  fi_BackendID :: ident
  fi_Action :: string
  fi_CreatedAt :: gotime

record desired_state =
  d_Node :: node
  d_Backends :: "backend list"
  d_Tunnels :: "tunnel list"
  d_Mappings :: "port_mapping list"
  d_SniRoutes :: "sni_route list"
  d_HealthChecks :: "health_check list"
  d_FailoverPolicies :: "failover_policy list"
  d_FailbackIntents :: "failback_intent list"

record tunnel_actual =
  a_TunnelID :: ident
  a_Type :: string
  a_InterfaceName :: string
  a_InterfacePresent :: bool
  a_LocalOverlayIP :: string
  a_Endpoint :: string
  a_ListenPort :: int
  a_PublicKey :: string
  a_HandshakeAgeSec :: int
  a_RxBytes :: nat
  a_TxBytes :: nat
  a_ServiceActive :: bool

record firewall_rule =
  f_Chain :: string
  f_Comment :: string
  f_Spec :: string
  f_Managed :: bool

record conflict =
  c_Code :: string
  c_Target :: string
  c_Message :: string

record actual_state =
  as_NodeID :: ident
  as_Tunnels :: "tunnel_actual list"
  as_FirewallRules :: "firewall_rule list"
  as_HaproxyDigest :: string
  as_SniRoutes :: "sni_route list"
  as_TransportStates :: "transport_state list"
  as_Conflicts :: "conflict list"
  as_DiscoveredAt :: gotime

record apply_result =
  ar_DryRun :: bool
  ar_Applied :: bool
  ar_Plan :: string
  ar_Message :: string

section \<open>Roles\<close>

definition ParseRole :: "string \<Rightarrow> goerr + string" where
  "ParseRole s =
     (let r = ToLower (TrimSpace s)
      in if r = ''operator'' then Inr ''operator''
         else if r = ''readonly'' then Inr ''readonly''
         else if r = ''agent'' then Inr ''agent''
         else Inl (Validation ''role must be operator, readonly, or agent''))"

definition ParseHumanRole :: "string \<Rightarrow> goerr + string" where
  "ParseHumanRole s =
     (let r = ToLower (TrimSpace s)
      in if r = ''administrator'' then Inr ''administrator''
         else if r = ''operator'' then Inr ''operator''
         else if r = ''readonly'' then Inr ''readonly''
         else Inl (Validation ''role must be administrator, operator, or readonly''))"

section \<open>Normalisation and validation\<close>

definition strip_validation :: "goerr \<Rightarrow> string" where
  "strip_validation e = TrimPrefix (err_text e) ''VALIDATION: ''"

definition wrapVal :: "goerr option \<Rightarrow> goerr option" where
  "wrapVal err = (case err of None \<Rightarrow> None | Some e \<Rightarrow> Some (Validation (strip_validation e)))"

text \<open>
  \<open>first_err es\<close> is a sequence of checks \<open>if err := ...; err != nil { return err }\<close>: the first
  error of the list.
\<close>

fun first_err :: "goerr option list \<Rightarrow> goerr option" where
  "first_err [] = None"
| "first_err (Some e # es) = Some e"
| "first_err (None # es) = first_err es"

definition guard_err :: "bool \<Rightarrow> string \<Rightarrow> goerr option" where
  "guard_err bad msg = (if bad then Some (Validation msg) else None)"

definition prefix_err :: "string \<Rightarrow> goerr option \<Rightarrow> goerr option" where
  "prefix_err field err = (case err of None \<Rightarrow> None | Some e \<Rightarrow> Some (Validation (field @ strip_validation e)))"

definition Node_Normalize :: "node \<Rightarrow> node" where
  "Node_Normalize n = n\<lparr>n_Name := ToLower (TrimSpace (n_Name n)), n_PublicIP := TrimSpace (n_PublicIP n)\<rparr>"

definition Node_Validate :: "node \<Rightarrow> goerr option" where
  "Node_Validate n0 =
     (let n = Node_Normalize n0
      in first_err [wrapVal (NodeName (n_Name n)), prefix_err ''public_ip: '' (OptionalIPv4 (n_PublicIP n))])"

definition Backend_Normalize :: "backend \<Rightarrow> backend" where
  "Backend_Normalize b = b\<lparr>b_Name := ToLower (TrimSpace (b_Name b)), b_Address := TrimSpace (b_Address b)\<rparr>"

definition Backend_Validate :: "backend \<Rightarrow> goerr option" where
  "Backend_Validate b0 =
     (let b = Backend_Normalize b0
      in first_err [wrapVal (BackendName (b_Name b)),
                    guard_err (b_NodeID b = []) ''backend node_id is required'',
                    prefix_err ''address: '' (IPv4 (b_Address b))])"

definition Tunnel_Normalize :: "tunnel \<Rightarrow> tunnel" where
  "Tunnel_Normalize t =
     t\<lparr>t_Type := ToUpper (TrimSpace (t_Type t)),
       t_InterfaceName := TrimSpace (t_InterfaceName t),
       t_LocalOverlayIP := TrimSpace (t_LocalOverlayIP t),
       t_RemoteOverlayIP := TrimSpace (t_RemoteOverlayIP t),
       t_Endpoint := TrimSpace (t_Endpoint t),
       t_PrivateKeyPath := TrimSpace (t_PrivateKeyPath t),
       t_PublicKey := TrimSpace (t_PublicKey t),
       t_ServiceName := TrimSpace (t_ServiceName t)\<rparr>"

definition Tunnel_check :: "tunnel \<Rightarrow> goerr option" where
  "Tunnel_check t =
     first_err
      ([guard_err (t_NodeID t = []) ''tunnel node_id is required'',
        guard_err (t_BackendID t = []) ''tunnel backend_id is required'',
        wrapVal (TunnelType (t_Type t)),
        wrapVal (InterfaceName (t_InterfaceName t)),
        wrapVal (OverlayPair (t_LocalOverlayIP t) (t_RemoteOverlayIP t)),
        wrapVal (OptionalPort (t_ListenPort t)),
        wrapVal (Endpoint (t_Endpoint t))] @
       map (\<lambda>cidr. wrapVal (CIDR cidr)) (t_AllowedIPs t) @
       [guard_err (t_PersistentKeepalive t < 0 \<or> 3600 < t_PersistentKeepalive t)
          ''persistent_keepalive must be 0-3600'',
        wrapVal (PathRef (t_PrivateKeyPath t)),
        wrapVal (ServiceName (t_ServiceName t)),
        guard_err (t_Type t = TunnelWireGuard \<and> t_ListenPort t = 0)
          ''WIREGUARD tunnel requires listen_port'',
        guard_err (t_Type t = TunnelSSHTUN \<and> t_ServiceName t = [])
          ''SSH_TUN tunnel requires service_name (systemd unit)''])"

definition Tunnel_Validate :: "tunnel \<Rightarrow> goerr option" where
  "Tunnel_Validate t0 = Tunnel_check (Tunnel_Normalize t0)"

definition PortMapping_Normalize :: "port_mapping \<Rightarrow> port_mapping" where
  "PortMapping_Normalize m = m\<lparr>m_Protocol := ToUpper (TrimSpace (m_Protocol m))\<rparr>"

definition PortMapping_Validate :: "port_mapping \<Rightarrow> goerr option" where
  "PortMapping_Validate m0 =
     (let m = PortMapping_Normalize m0
      in first_err
          [guard_err (m_NodeID m = []) ''mapping node_id is required'',
           guard_err (m_BackendID m = []) ''mapping backend_id is required'',
           wrapVal (Protocol (m_Protocol m)),
           prefix_err ''public_port: '' (Port (m_PublicPort m)),
           prefix_err ''backend_port: '' (Port (m_BackendPort m))])"

definition SniRoute_Normalize :: "sni_route \<Rightarrow> sni_route" where
  "SniRoute_Normalize r =
     r\<lparr>r_Listen := TrimSpace (r_Listen r),
       r_Matches := map (\<lambda>m. m\<lparr>sm_Match := ToLower (TrimSpace (sm_Match m)),
                               sm_Backend := ToLower (TrimSpace (sm_Backend m))\<rparr>) (r_Matches r)\<rparr>"

text \<open>The loop over the matches: the index of the current one and the number of defaults so far.\<close>

fun sni_matches_check :: "nat \<Rightarrow> nat \<Rightarrow> sni_match list \<Rightarrow> goerr option" where
  "sni_matches_check i defaults [] =
     guard_err (defaults \<noteq> 1) ''sni_route requires exactly one default backend''"
| "sni_matches_check i defaults (m # ms) =
     (if sm_Backend m = [] \<and> sm_BackendID m = []
      then Some (Validation (''sni match '' @ Itoa (int i) @ '' requires backend or backend_id''))
      else if sm_Default m then sni_matches_check (i + 1) (defaults + 1) ms
      else if sm_Match m = []
      then Some (Validation (''sni match '' @ Itoa (int i) @ '' requires match hostname unless default''))
      else case wrapVal (Hostname (sm_Match m)) of
             Some e \<Rightarrow> Some e
           | None \<Rightarrow> sni_matches_check (i + 1) defaults ms)"

definition SniRoute_Validate :: "sni_route \<Rightarrow> goerr option" where
  "SniRoute_Validate r0 =
     (let r = SniRoute_Normalize r0
      in first_err
          [guard_err (r_NodeID r = []) ''sni_route node_id is required'',
           wrapVal (ListenAddr (r_Listen r)),
           guard_err (r_Matches r = []) ''sni_route requires at least one match'',
           sni_matches_check 0 0 (r_Matches r)])"

definition HealthCheck_Normalize :: "health_check \<Rightarrow> health_check" where
  "HealthCheck_Normalize h =
     h\<lparr>hc_Protocol := ToUpper (TrimSpace (hc_Protocol h)),
       hc_Interval := (if hc_Interval h = 0 then 10 * Second else hc_Interval h),
       hc_Timeout := (if hc_Timeout h = 0 then 2 * Second else hc_Timeout h)\<rparr>"

definition HealthCheck_Validate :: "health_check \<Rightarrow> goerr option" where
  "HealthCheck_Validate h0 =
     (let h = HealthCheck_Normalize h0
      in first_err
          [guard_err (hc_BackendID h = []) ''health_check backend_id is required'',
           wrapVal (Protocol (hc_Protocol h)),
           wrapVal (Port (hc_Port h)),
           guard_err (hc_Interval h < Second \<or> Minute < hc_Interval h)
             ''health_check interval must be 1s-60s'',
           guard_err (hc_Timeout h < 100 * Millisecond \<or> hc_Interval h \<le> hc_Timeout h)
             ''health_check timeout must be >=100ms and < interval''])"

definition ApplyDefaults :: "failover_policy \<Rightarrow> failover_policy" where
  "ApplyDefaults p =
     p\<lparr>p_CheckInterval := (if p_CheckInterval p = 0 then p_CheckInterval DefaultFailoverPolicy
                           else p_CheckInterval p),
       p_FailureThreshold := (if p_FailureThreshold p = 0 then p_FailureThreshold DefaultFailoverPolicy
                              else p_FailureThreshold p)\<rparr>"

definition FailoverPolicy_Validate :: "failover_policy \<Rightarrow> goerr option" where
  "FailoverPolicy_Validate p0 =
     (let p = ApplyDefaults p0
      in first_err
          [guard_err (p_NodeID p = []) ''failover_policy node_id is required'',
           guard_err (p_BackendID p = []) ''failover_policy backend_id is required'',
           guard_err (p_CheckInterval p < Second \<or> Minute < p_CheckInterval p)
             ''check_interval must be 1s-60s'',
           guard_err (p_FailureThreshold p < 1 \<or> 20 < p_FailureThreshold p)
             ''failure_threshold must be 1-20''])"

end
