(* ===== verification/Samples.thy ===== *)
theory Samples
  imports Model
begin

text \<open>
  Concrete inventory records on which the properties of the component theories are instantiated:
  one node, two backends, one WireGuard and one SSH tunnel, two mappings.
\<close>

definition sample_node :: node where
  "sample_node = \<lparr>n_ID = ''n1'', n_Name = ''edge'', n_PublicIP = ''198.51.100.7'', n_Labels = Map.empty,
     n_CreatedAt = 0, n_UpdatedAt = 0\<rparr>"

definition sample_backend :: "ident \<Rightarrow> string \<Rightarrow> backend" where
  "sample_backend i addr = \<lparr>b_ID = i, b_Name = i, b_NodeID = ''n1'', b_Address = addr,
     b_CreatedAt = 0, b_UpdatedAt = 0\<rparr>"

definition sample_mapping :: "ident \<Rightarrow> ident \<Rightarrow> int \<Rightarrow> port_mapping" where
  "sample_mapping i b port = \<lparr>m_ID = i, m_NodeID = ''n1'', m_BackendID = b, m_Protocol = ProtoTCP,
     m_PublicPort = port, m_BackendPort = 443, m_Enabled = True, m_CreatedAt = 0, m_UpdatedAt = 0\<rparr>"

definition sample_wg :: tunnel where
  "sample_wg = \<lparr>t_ID = ''t1'', t_NodeID = ''n1'', t_BackendID = ''b1'', t_Type = TunnelWireGuard,
     t_InterfaceName = ''wg0'', t_LocalOverlayIP = ''10.9.0.1'', t_RemoteOverlayIP = ''10.9.0.2'',
     t_ListenPort = 51820, t_Endpoint = [], t_AllowedIPs = [], t_PersistentKeepalive = 25,
     t_Priority = 0, t_PrivateKeyPath = ''/etc/wg/key'', t_PublicKey = [], t_ServiceName = [],
     t_CreatedAt = 0, t_UpdatedAt = 0\<rparr>"

definition sample_ssh :: tunnel where
  "sample_ssh = sample_wg\<lparr>t_ID := ''t2'', t_Type := TunnelSSHTUN, t_InterfaceName := ''tun0'',
     t_LocalOverlayIP := ''10.8.0.1'', t_RemoteOverlayIP := ''10.8.0.2'', t_ListenPort := 0,
     t_ServiceName := ''tun0.service''\<rparr>"

definition sample_desired :: "tunnel list \<Rightarrow> port_mapping list \<Rightarrow> backend list \<Rightarrow> desired_state" where
  "sample_desired ts ms bs = \<lparr>d_Node = sample_node, d_Backends = bs, d_Tunnels = ts, d_Mappings = ms,
     d_SniRoutes = [], d_HealthChecks = [], d_FailoverPolicies = [], d_FailbackIntents = []\<rparr>"

definition sample_route :: "ident \<Rightarrow> string \<Rightarrow> sni_match list \<Rightarrow> sni_route" where
  "sample_route i listen ms = \<lparr>r_ID = i, r_NodeID = ''n1'', r_Listen = listen, r_Matches = ms,
     r_CreatedAt = 0, r_UpdatedAt = 0\<rparr>"

definition sample_match :: "string \<Rightarrow> bool \<Rightarrow> ident \<Rightarrow> sni_match" where
  "sample_match host def b = \<lparr>sm_Match = host, sm_Default = def, sm_BackendID = b, sm_Backend = []\<rparr>"

end
