(* ===== verification/Reconcile.thy ===== *)
theory Reconcile
  imports Samples "HOL-Library.Multiset"
begin

text \<open>
  The planner (src/internal/reconcile/plan.go): \<open>Diff\<close> compares the desired state with the discovered
  one and returns the actions in a deterministic order, \<open>Plan_String\<close> prints a plan.

  Go iterates over the keys of its maps after sorting them; \<open>sorted_keys\<close> is that list. The lemmas
  say when a plan is empty (\<open>Diff_actions_Nil\<close>), that the state which realises the desired one has an
  empty plan, that a plan has at most one action per key, and that the order of the inventory does
  not matter.
\<close>

section \<open>Plans\<close>

datatype action_kind = KindAdd | KindChange | KindDelete

record action =
  ac_Kind :: action_kind
  ac_Target :: string
  ac_ID :: string
  ac_Before :: string
  ac_After :: string
  ac_Reason :: string

record plan =
  pl_Actions :: "action list"
  pl_Conflicts :: "conflict list"

definition Plan_Empty :: "plan \<Rightarrow> bool" where
  "Plan_Empty p \<longleftrightarrow> pl_Actions p = []"

definition HasConflicts :: "plan \<Rightarrow> bool" where
  "HasConflicts p \<longleftrightarrow> pl_Conflicts p \<noteq> []"

definition nl :: string where "nl = [CHR 0x0A]"

definition conflict_line :: "conflict \<Rightarrow> string" where
  "conflict_line c = ''CONFLICT: '' @ c_Code c @ '' '' @ c_Target c @ '': '' @ c_Message c @ nl"

definition action_line :: "action \<Rightarrow> string" where
  "action_line a =
     (case ac_Kind a of
        KindAdd \<Rightarrow> ''ADD: '' @ ac_Target a @ '' '' @ ac_After a @ nl
      | KindChange \<Rightarrow> ''CHANGE: '' @ ac_Target a @ '' '' @ ac_Before a @ '' -> '' @ ac_After a @ nl
      | KindDelete \<Rightarrow> ''DELETE: '' @ ac_Target a @ '' '' @ ac_Before a @ nl) @
     (if ac_Reason a \<noteq> [] then ''  reason: '' @ ac_Reason a @ nl else [])"

definition Plan_String :: "plan \<Rightarrow> string" where
  "Plan_String p =
     (if HasConflicts p then ''CONFLICT:'' @ nl @ concat (map conflict_line (pl_Conflicts p))
      else if Plan_Empty p then ''NO CHANGES'' @ nl
      else concat (map action_line (pl_Actions p)))"

definition mk_action :: "action_kind \<Rightarrow> string \<Rightarrow> string \<Rightarrow> string \<Rightarrow> string \<Rightarrow> action" where
  "mk_action k target ident bef aft =
     \<lparr>ac_Kind = k, ac_Target = target, ac_ID = ident, ac_Before = bef, ac_After = aft, ac_Reason = []\<rparr>"

section \<open>Lines and digests\<close>

definition MappingComment :: "ident \<Rightarrow> string" where
  "MappingComment ident = ''transitforge:mapping:'' @ ident"

text \<open>The backend of a mapping is looked up in a map; a missing one is Go's zero value.\<close>

definition spec_line :: "port_mapping \<Rightarrow> string \<Rightarrow> string" where
  "spec_line m dst =
     m_Protocol m @ '' dport '' @ Itoa (m_PublicPort m) @ '' -> '' @ dst @ '':'' @
     Itoa (m_BackendPort m) @ '' comment '' @ MappingComment (m_ID m)"

definition mappingRuleSpec :: "port_mapping \<Rightarrow> backend option \<Rightarrow> string" where
  "mappingRuleSpec m b =
     (let addr = (case b of None \<Rightarrow> [] | Some b \<Rightarrow> b_Address b);
          dst = (if addr = [] then m_BackendID m else addr)
      in spec_line m dst)"

definition tunnelDesiredLine :: "tunnel \<Rightarrow> string" where
  "tunnelDesiredLine t =
     t_Type t @ '' '' @ t_ID t @ '' '' @ t_LocalOverlayIP t @ ''->'' @ t_RemoteOverlayIP t @
     '' if='' @ t_InterfaceName t @ '' port='' @ Itoa (t_ListenPort t) @ '' endpoint='' @ t_Endpoint t"

definition tunnelActualLine :: "tunnel_actual \<Rightarrow> string" where
  "tunnelActualLine a =
     a_Type a @ '' if='' @ a_InterfaceName a @ '' present='' @ show_bool (a_InterfacePresent a) @
     '' local='' @ a_LocalOverlayIP a @ '' hs_age='' @ Itoa (a_HandshakeAgeSec a)"

definition tunnelChanged :: "tunnel \<Rightarrow> tunnel_actual \<Rightarrow> bool" where
  "tunnelChanged d a =
     (if \<not> a_InterfacePresent a then True
      else if t_LocalOverlayIP d \<noteq> [] \<and> a_LocalOverlayIP a \<noteq> [] \<and> t_LocalOverlayIP d \<noteq> a_LocalOverlayIP a
        then True
      else if t_ListenPort d \<noteq> 0 \<and> a_ListenPort a \<noteq> 0 \<and> t_ListenPort d \<noteq> a_ListenPort a then True
      else False)"

definition sniLine :: "sni_route \<Rightarrow> string" where
  "sniLine r = ''listen '' @ r_Listen r @ '' matches='' @ Itoa (int (length (r_Matches r)))"

definition sni_match_part :: "sni_match \<Rightarrow> string" where
  "sni_match_part m =
     sm_Match m @ '':'' @ sm_Backend m @ '':'' @ sm_BackendID m @ '':'' @ show_bool (sm_Default m)"

definition sni_parts :: "sni_route list \<Rightarrow> string list" where
  "sni_parts routes = concat (map (\<lambda>r. sniLine r # map sni_match_part (r_Matches r)) routes)"

definition SniDigest :: "sni_route list \<Rightarrow> string" where
  "SniDigest routes = Join (sort (sni_parts routes)) ''|''"

section \<open>Diff\<close>

definition sorted_keys :: "string list \<Rightarrow> string list" where
  "sorted_keys ks = sort (remdups ks)"

definition tunnel_action :: "(string \<rightharpoonup> tunnel) \<Rightarrow> (string \<rightharpoonup> tunnel_actual) \<Rightarrow> string \<Rightarrow> action list" where
  "tunnel_action des act name =
     (case (des name, act name) of
        (Some d, None) \<Rightarrow> [mk_action KindAdd ''tunnel'' (t_ID d) [] (tunnelDesiredLine d)]
      | (None, Some a) \<Rightarrow> [mk_action KindDelete ''tunnel'' [] (tunnelActualLine a) []]
      | (Some d, Some a) \<Rightarrow>
          (if tunnelChanged d a
           then [mk_action KindChange ''tunnel'' (t_ID d) (tunnelActualLine a) (tunnelDesiredLine d)]
           else [])
      | (None, None) \<Rightarrow> [])"

definition firewall_action ::
  "(ident \<rightharpoonup> backend) \<Rightarrow> (string \<rightharpoonup> port_mapping) \<Rightarrow> (string \<rightharpoonup> firewall_rule) \<Rightarrow> string \<Rightarrow> action list" where
  "firewall_action bes wanted managed c =
     (case (wanted c, managed c) of
        (Some m, None) \<Rightarrow>
          [mk_action KindAdd ''firewall'' (m_ID m) [] (mappingRuleSpec m (bes (m_BackendID m)))]
      | (None, Some r) \<Rightarrow> [mk_action KindDelete ''firewall'' [] (f_Spec r) []]
      | (Some m, Some r) \<Rightarrow>
          (let want = mappingRuleSpec m (bes (m_BackendID m))
           in if f_Spec r \<noteq> want then [mk_action KindChange ''firewall'' (m_ID m) (f_Spec r) want] else [])
      | (None, None) \<Rightarrow> [])"

definition haproxy_actions :: "desired_state \<Rightarrow> actual_state \<Rightarrow> action list" where
  "haproxy_actions desired actual =
     (if d_SniRoutes desired \<noteq> [] then
        (let wantDigest = SniDigest (d_SniRoutes desired)
         in if as_HaproxyDigest actual = [] then
              map (\<lambda>r. mk_action KindAdd ''haproxy'' (r_ID r) [] (sniLine r)) (d_SniRoutes desired)
            else if as_HaproxyDigest actual \<noteq> wantDigest then
              [mk_action KindChange ''haproxy'' [] (''digest='' @ as_HaproxyDigest actual) (''digest='' @ wantDigest)]
            else [])
      else if as_HaproxyDigest actual \<noteq> [] \<and> as_SniRoutes actual \<noteq> [] then
        [mk_action KindDelete ''haproxy'' [] ''managed SNI sections'' []]
      else [])"

definition desired_tunnels :: "desired_state \<Rightarrow> string \<rightharpoonup> tunnel" where
  "desired_tunnels d = index_by t_InterfaceName (d_Tunnels d)"

definition actual_tunnels :: "actual_state \<Rightarrow> string \<rightharpoonup> tunnel_actual" where
  "actual_tunnels a = index_by a_InterfaceName (as_Tunnels a)"

definition backend_by_id :: "desired_state \<Rightarrow> ident \<rightharpoonup> backend" where
  "backend_by_id d = index_by b_ID (d_Backends d)"

definition managed_rules :: "actual_state \<Rightarrow> firewall_rule list" where
  "managed_rules a = filter (\<lambda>r. f_Managed r \<and> f_Comment r \<noteq> []) (as_FirewallRules a)"

definition wanted_comments :: "desired_state \<Rightarrow> string \<rightharpoonup> port_mapping" where
  "wanted_comments d = index_by (\<lambda>m. MappingComment (m_ID m)) (d_Mappings d)"

definition tunnel_actions :: "desired_state \<Rightarrow> actual_state \<Rightarrow> action list" where
  "tunnel_actions d a =
     concat (map (tunnel_action (desired_tunnels d) (actual_tunnels a))
       (sorted_keys (map t_InterfaceName (d_Tunnels d) @ map a_InterfaceName (as_Tunnels a))))"

definition firewall_actions :: "desired_state \<Rightarrow> actual_state \<Rightarrow> action list" where
  "firewall_actions d a =
     concat (map (firewall_action (backend_by_id d) (wanted_comments d) (index_by f_Comment (managed_rules a)))
       (sorted_keys (map (\<lambda>m. MappingComment (m_ID m)) (d_Mappings d) @ map f_Comment (managed_rules a))))"

definition Diff :: "desired_state \<Rightarrow> actual_state \<Rightarrow> plan" where
  "Diff desired actual =
     \<lparr>pl_Actions = tunnel_actions desired actual @ firewall_actions desired actual @
                   haproxy_actions desired actual,
      pl_Conflicts = as_Conflicts actual\<rparr>"

section \<open>When a plan is empty\<close>

lemma set_sorted_keys [simp]: "set (sorted_keys ks) = set ks"
  by (simp add: sorted_keys_def)

lemma sorted_keys_cong: "set ks = set ks' \<Longrightarrow> sorted_keys ks = sorted_keys ks'"
  unfolding sorted_keys_def by (rule sorted_distinct_set_unique) auto

lemma MappingComment_inj [simp]: "MappingComment i = MappingComment j \<longleftrightarrow> i = j"
  by (simp add: MappingComment_def)

lemma tunnel_action_Nil:
  "tunnel_action des act n = [] \<longleftrightarrow>
     (case (des n, act n) of (None, None) \<Rightarrow> True | (Some d, Some a) \<Rightarrow> \<not> tunnelChanged d a | _ \<Rightarrow> False)"
  by (auto simp: tunnel_action_def split: option.splits)

lemma firewall_action_Nil:
  "firewall_action bes w mg c = [] \<longleftrightarrow>
     (case (w c, mg c) of (None, None) \<Rightarrow> True
      | (Some m, Some r) \<Rightarrow> f_Spec r = mappingRuleSpec m (bes (m_BackendID m)) | _ \<Rightarrow> False)"
  by (auto simp: firewall_action_def Let_def split: option.splits)

definition tunnels_match :: "desired_state \<Rightarrow> actual_state \<Rightarrow> bool" where
  "tunnels_match d a \<longleftrightarrow>
     dom (desired_tunnels d) = dom (actual_tunnels a) \<and>
     (\<forall>n t u. desired_tunnels d n = Some t \<longrightarrow> actual_tunnels a n = Some u \<longrightarrow> \<not> tunnelChanged t u)"

definition rules_match :: "desired_state \<Rightarrow> actual_state \<Rightarrow> bool" where
  "rules_match d a \<longleftrightarrow>
     dom (wanted_comments d) = f_Comment ` set (managed_rules a) \<and>
     (\<forall>c m r. wanted_comments d c = Some m \<longrightarrow> index_by f_Comment (managed_rules a) c = Some r \<longrightarrow>
        f_Spec r = mappingRuleSpec m (backend_by_id d (m_BackendID m)))"

definition haproxy_matches :: "desired_state \<Rightarrow> actual_state \<Rightarrow> bool" where
  "haproxy_matches d a \<longleftrightarrow>
     (if d_SniRoutes d \<noteq> [] then as_HaproxyDigest a = SniDigest (d_SniRoutes d)
      else as_HaproxyDigest a = [] \<or> as_SniRoutes a = [])"

lemma map_pair_agree:
  "(\<forall>k. case (f k, g k) of (None, None) \<Rightarrow> True | (Some x, Some y) \<Rightarrow> P x y | _ \<Rightarrow> False) \<longleftrightarrow>
   dom f = dom g \<and> (\<forall>k x y. f k = Some x \<longrightarrow> g k = Some y \<longrightarrow> P x y)"
proof -
  have "dom f = dom g \<longleftrightarrow> (\<forall>k. f k = None \<longleftrightarrow> g k = None)"
    unfolding set_eq_iff domIff by metis
  then show ?thesis by (simp split: option.splits) (metis option.distinct(1) option.exhaust)
qed

lemma map_pair_agree_on:
  assumes "dom f \<union> dom g \<subseteq> S"
  shows "(\<forall>k \<in> S. case (f k, g k) of (None, None) \<Rightarrow> True | (Some x, Some y) \<Rightarrow> P x y | _ \<Rightarrow> False) \<longleftrightarrow>
   dom f = dom g \<and> (\<forall>k x y. f k = Some x \<longrightarrow> g k = Some y \<longrightarrow> P x y)"
proof -
  let ?Q = "\<lambda>k. case (f k, g k) of (None, None) \<Rightarrow> True | (Some x, Some y) \<Rightarrow> P x y | _ \<Rightarrow> False"
  have "?Q k" if "k \<notin> S" for k
  proof -
    have "f k = None" "g k = None" using assms that by (auto simp: dom_def)
    then show ?thesis by simp
  qed
  then have "(\<forall>k \<in> S. ?Q k) \<longleftrightarrow> (\<forall>k. ?Q k)" by blast
  then show ?thesis by (simp only: map_pair_agree)
qed

lemma tunnel_actions_Nil: "tunnel_actions d a = [] \<longleftrightarrow> tunnels_match d a"
proof -
  have "tunnel_actions d a = [] \<longleftrightarrow>
    (\<forall>k \<in> t_InterfaceName ` set (d_Tunnels d) \<union> a_InterfaceName ` set (as_Tunnels a).
       tunnel_action (desired_tunnels d) (actual_tunnels a) k = [])"
    by (auto simp: tunnel_actions_def)
  then show ?thesis
    unfolding tunnel_action_Nil tunnels_match_def
    by (subst (asm) map_pair_agree_on)
      (auto simp: desired_tunnels_def actual_tunnels_def dom_index_by)
qed

lemma firewall_actions_Nil: "firewall_actions d a = [] \<longleftrightarrow> rules_match d a"
proof -
  have "firewall_actions d a = [] \<longleftrightarrow>
    (\<forall>k \<in> (\<lambda>m. MappingComment (m_ID m)) ` set (d_Mappings d) \<union> f_Comment ` set (managed_rules a).
       firewall_action (backend_by_id d) (wanted_comments d) (index_by f_Comment (managed_rules a)) k = [])"
    by (auto simp: firewall_actions_def)
  then show ?thesis
    unfolding firewall_action_Nil rules_match_def
    by (subst (asm) map_pair_agree_on) (auto simp: wanted_comments_def dom_index_by)
qed

lemma Join_not_Nil: "\<exists>w \<in> set ws. w \<noteq> [] \<Longrightarrow> Join ws sep \<noteq> []"
  by (induction ws sep rule: Join.induct) auto

lemma SniDigest_not_Nil: "rs \<noteq> [] \<Longrightarrow> SniDigest rs \<noteq> []"
proof -
  assume "rs \<noteq> []"
  then have "sniLine (hd rs) \<in> set (sni_parts rs)" by (cases rs) (auto simp: sni_parts_def)
  then have "sniLine (hd rs) \<in> set (sort (sni_parts rs))" by (simp only: set_sort)
  moreover have "sniLine (hd rs) \<noteq> []" by (simp add: sniLine_def)
  ultimately show ?thesis unfolding SniDigest_def by (intro Join_not_Nil) blast
qed

lemma haproxy_actions_Nil: "haproxy_actions d a = [] \<longleftrightarrow> haproxy_matches d a"
proof (cases "d_SniRoutes d = []")
  case False
  then have "SniDigest (d_SniRoutes d) \<noteq> []" by (rule SniDigest_not_Nil)
  with False show ?thesis by (auto simp: haproxy_actions_def haproxy_matches_def Let_def)
qed (simp add: haproxy_actions_def haproxy_matches_def)

lemma Diff_actions_Nil:
  "pl_Actions (Diff d a) = [] \<longleftrightarrow> tunnels_match d a \<and> rules_match d a \<and> haproxy_matches d a"
  by (simp add: Diff_def tunnel_actions_Nil firewall_actions_Nil haproxy_actions_Nil)


section \<open>The state that realises the desired one\<close>

definition realised_tunnel :: "tunnel \<Rightarrow> tunnel_actual" where
  "realised_tunnel t =
     \<lparr>a_TunnelID = t_ID t, a_Type = t_Type t, a_InterfaceName = t_InterfaceName t,
      a_InterfacePresent = True, a_LocalOverlayIP = t_LocalOverlayIP t, a_Endpoint = t_Endpoint t,
      a_ListenPort = t_ListenPort t, a_PublicKey = [], a_HandshakeAgeSec = 0, a_RxBytes = 0,
      a_TxBytes = 0, a_ServiceActive = True\<rparr>"

definition realised_rule :: "desired_state \<Rightarrow> port_mapping \<Rightarrow> firewall_rule" where
  "realised_rule d m =
     \<lparr>f_Chain = ''TRANSITFORGE_DNAT'', f_Comment = MappingComment (m_ID m),
      f_Spec = mappingRuleSpec m (backend_by_id d (m_BackendID m)), f_Managed = True\<rparr>"

definition realised :: "desired_state \<Rightarrow> actual_state" where
  "realised d =
     \<lparr>as_NodeID = n_ID (d_Node d), as_Tunnels = map realised_tunnel (d_Tunnels d),
      as_FirewallRules = map (realised_rule d) (d_Mappings d),
      as_HaproxyDigest = (if d_SniRoutes d = [] then [] else SniDigest (d_SniRoutes d)),
      as_SniRoutes = d_SniRoutes d, as_TransportStates = [], as_Conflicts = [], as_DiscoveredAt = 0\<rparr>"

lemma index_by_map:
  assumes "\<And>x. key' (f x) = key x"
  shows "index_by key' (map f xs) = map_option f \<circ> index_by key xs"
  by (induction xs rule: rev_induct) (auto simp: fun_eq_iff assms)

lemma managed_realised [simp]: "managed_rules (realised d) = map (realised_rule d) (d_Mappings d)"
  by (simp add: managed_rules_def realised_def realised_rule_def MappingComment_def filter_map comp_def)

lemma realised_matches: "tunnels_match d (realised d) \<and> rules_match d (realised d) \<and> haproxy_matches d (realised d)"
proof -
  have t: "actual_tunnels (realised d) = map_option realised_tunnel \<circ> desired_tunnels d"
    unfolding actual_tunnels_def desired_tunnels_def realised_def
    by (simp add: index_by_map realised_tunnel_def)
  have r: "index_by f_Comment (managed_rules (realised d)) = map_option (realised_rule d) \<circ> wanted_comments d"
    unfolding managed_realised wanted_comments_def by (rule index_by_map) (simp add: realised_rule_def)
  have "tunnels_match d (realised d)"
    by (auto simp: tunnels_match_def t dom_def tunnelChanged_def realised_tunnel_def)
  moreover have "rules_match d (realised d)"
    unfolding rules_match_def r
    by (auto simp: wanted_comments_def dom_index_by image_image realised_rule_def)
  ultimately show ?thesis by (simp add: haproxy_matches_def realised_def)
qed

text \<open>Reconciliation has a fixed point: the state in which every desired tunnel, mapping and route is
  present as desired has an empty plan with no conflict, whatever the desired state is.\<close>

lemma realised_plan_empty: "Plan_Empty (Diff d (realised d)) \<and> \<not> HasConflicts (Diff d (realised d))"
proof -
  have "Plan_Empty (Diff d (realised d))"
    unfolding Plan_Empty_def Diff_actions_Nil by (rule realised_matches)
  moreover have "as_Conflicts (realised d) = []" by (simp add: realised_def)
  ultimately show ?thesis by (simp add: HasConflicts_def Diff_def)
qed

section \<open>One action per mapping\<close>

definition is_apply :: "action \<Rightarrow> bool" where
  "is_apply x \<longleftrightarrow> ac_Target x = ''firewall'' \<and> ac_Kind x \<noteq> KindDelete"

lemma firewall_action_ids:
  assumes "\<And>c m. w c = Some m \<Longrightarrow> MappingComment (m_ID m) = c"
  shows "firewall_action bes w mg c = [] \<or>
         (\<exists>x. firewall_action bes w mg c = [x] \<and> ac_Target x = ''firewall'' \<and>
              (ac_Kind x \<noteq> KindDelete \<longrightarrow> MappingComment (ac_ID x) = c))"
  using assms by (auto simp: firewall_action_def mk_action_def Let_def split: option.splits)

lemma firewall_ids_distinct:
  fixes bes :: "ident \<rightharpoonup> backend" and mg :: "string \<rightharpoonup> firewall_rule"
  assumes "distinct ks" and w: "\<And>c m. w c = Some m \<Longrightarrow> MappingComment (m_ID m) = c"
  defines "ids \<equiv> \<lambda>ks. map ac_ID (filter is_apply (concat (map (firewall_action bes w mg) ks)))"
  shows "distinct (ids ks) \<and> MappingComment ` set (ids ks) \<subseteq> set ks"
  using assms(1)
proof (induction ks)
  case (Cons c ks)
  then have IH: "distinct (ids ks)" "MappingComment ` set (ids ks) \<subseteq> set ks" by simp_all
  have ids: "ids (c # ks) = map ac_ID (filter is_apply (firewall_action bes w mg c)) @ ids ks"
    by (simp add: ids_def)
  consider "firewall_action bes w mg c = []"
    | x where "firewall_action bes w mg c = [x]" "ac_Target x = ''firewall''"
        "ac_Kind x \<noteq> KindDelete \<longrightarrow> MappingComment (ac_ID x) = c"
    using firewall_action_ids [OF w] by blast
  then show ?case
  proof cases
    case 1
    then show ?thesis using IH by (auto simp: ids)
  next
    case 2
    then show ?thesis using IH Cons.prems by (auto simp: ids is_apply_def)
  qed
qed (simp add: ids_def)

lemma other_actions_not_apply:
  "filter is_apply (tunnel_actions d a) = []" "filter is_apply (haproxy_actions d a) = []"
proof -
  have "\<not> is_apply x" if "x \<in> set (tunnel_actions d a)" for x
    using that by (auto simp: tunnel_actions_def tunnel_action_def mk_action_def is_apply_def
        split: option.splits if_splits)
  then show "filter is_apply (tunnel_actions d a) = []" by (simp add: filter_empty_conv)
  have "\<not> is_apply x" if "x \<in> set (haproxy_actions d a)" for x
    using that by (auto simp: haproxy_actions_def mk_action_def is_apply_def Let_def split: if_splits)
  then show "filter is_apply (haproxy_actions d a) = []" by (simp add: filter_empty_conv)
qed

lemma wanted_comments_key: "wanted_comments d c = Some m \<Longrightarrow> MappingComment (m_ID m) = c"
  by (auto simp: wanted_comments_def dest: index_by_Some)

text \<open>A plan adds or changes the rules of a mapping at most once, even when the inventory lists a
  mapping twice.\<close>

lemma plan_applies_mapping_once:
  "distinct (map ac_ID (filter (\<lambda>x. ac_Target x = ''firewall'' \<and> ac_Kind x \<noteq> KindDelete)
     (pl_Actions (Diff d a))))"
proof -
  have "distinct (map ac_ID (filter is_apply (firewall_actions d a)))"
    unfolding firewall_actions_def
    by (rule conjunct1 [OF firewall_ids_distinct]) (auto simp: sorted_keys_def wanted_comments_key)
  then have "distinct (map ac_ID (filter is_apply (pl_Actions (Diff d a))))"
    using other_actions_not_apply [of d a] by (simp add: Diff_def)
  then show ?thesis by (simp only: is_apply_def [abs_def])
qed

section \<open>The order of the inventory\<close>

lemma index_by_mset:
  assumes "mset xs = mset ys" and "distinct (map key xs)"
  shows "index_by key xs = index_by key ys"
proof
  fix k
  have ys: "distinct (map key ys)" "set ys = set xs"
    using assms by (metis mset_map mset_eq_imp_distinct_iff, metis mset_eq_setD)
  show "index_by key xs k = index_by key ys k"
  proof (cases "k \<in> key ` set xs")
    case True
    then obtain x where "x \<in> set xs" "k = key x" by blast
    then show ?thesis using assms(2) ys by (simp add: index_by_distinct)
  next
    case False
    then have "index_by key xs k = None" "index_by key ys k = None"
      using ys by (simp_all add: index_by_None)
    then show ?thesis by simp
  qed
qed

text \<open>The tunnel and firewall actions of a plan, and the order they are in, do not depend on the
  order in which the inventory lists tunnels, backends and mappings, as long as interface names and
  identifiers are unique.\<close>

lemma plan_order_independent:
  assumes "mset (d_Tunnels d) = mset (d_Tunnels d')" and "mset (d_Mappings d) = mset (d_Mappings d')"
    and "mset (d_Backends d) = mset (d_Backends d')"
    and "distinct (map t_InterfaceName (d_Tunnels d))" and "distinct (map m_ID (d_Mappings d))"
    and "distinct (map b_ID (d_Backends d))"
  shows "tunnel_actions d a @ firewall_actions d a = tunnel_actions d' a @ firewall_actions d' a"
proof -
  have dm: "distinct (map (\<lambda>m. MappingComment (m_ID m)) (d_Mappings d))"
    using assms(5) by (simp add: distinct_map inj_on_def)
  have maps: "desired_tunnels d = desired_tunnels d'" "backend_by_id d = backend_by_id d'"
    "wanted_comments d = wanted_comments d'"
    unfolding desired_tunnels_def backend_by_id_def wanted_comments_def
    by (rule index_by_mset; fact assms dm)+
  have sets: "set (d_Tunnels d) = set (d_Tunnels d')" "set (d_Mappings d) = set (d_Mappings d')"
    using assms(1,2) by (blast dest: mset_eq_setD)+
  have "sorted_keys (map t_InterfaceName (d_Tunnels d) @ map a_InterfaceName (as_Tunnels a)) =
        sorted_keys (map t_InterfaceName (d_Tunnels d') @ map a_InterfaceName (as_Tunnels a))"
    "sorted_keys (map (\<lambda>m. MappingComment (m_ID m)) (d_Mappings d) @ map f_Comment (managed_rules a)) =
     sorted_keys (map (\<lambda>m. MappingComment (m_ID m)) (d_Mappings d') @ map f_Comment (managed_rules a))"
    by (rule sorted_keys_cong; simp only: set_append set_map sets)+
  with maps show ?thesis by (simp only: tunnel_actions_def firewall_actions_def)
qed

lemma plan_order_independent_witness:
  "tunnel_actions (sample_desired [sample_wg, sample_ssh] [sample_mapping ''m1'' ''b1'' 80, sample_mapping ''m2'' ''b1'' 81] []) (realised (sample_desired [] [] [])) @
   firewall_actions (sample_desired [sample_wg, sample_ssh] [sample_mapping ''m1'' ''b1'' 80, sample_mapping ''m2'' ''b1'' 81] []) (realised (sample_desired [] [] [])) =
   tunnel_actions (sample_desired [sample_ssh, sample_wg] [sample_mapping ''m2'' ''b1'' 81, sample_mapping ''m1'' ''b1'' 80] []) (realised (sample_desired [] [] [])) @
   firewall_actions (sample_desired [sample_ssh, sample_wg] [sample_mapping ''m2'' ''b1'' 81, sample_mapping ''m1'' ''b1'' 80] []) (realised (sample_desired [] [] []))"
  by (rule plan_order_independent)
    (simp_all add: sample_desired_def sample_wg_def sample_ssh_def sample_mapping_def)

section \<open>The digest of the routes\<close>

text \<open>The digest that decides whether HAProxy is reconfigured does not tie the matches to their
  route: exchanging the match lists of two routes, of equal length, leaves it unchanged, so that
  edit of the desired state gives an empty HAProxy plan.\<close>

lemma sni_digest_ignores_route_of_match:
  assumes "length ms1 = length ms2"
  shows "SniDigest [r1\<lparr>r_Matches := ms1\<rparr>, r2\<lparr>r_Matches := ms2\<rparr>] =
         SniDigest [r1\<lparr>r_Matches := ms2\<rparr>, r2\<lparr>r_Matches := ms1\<rparr>]"
proof -
  have "mset (sni_parts [r1\<lparr>r_Matches := ms1\<rparr>, r2\<lparr>r_Matches := ms2\<rparr>]) =
        mset (sni_parts [r1\<lparr>r_Matches := ms2\<rparr>, r2\<lparr>r_Matches := ms1\<rparr>])"
    using assms by (simp add: sni_parts_def sniLine_def)
  then have "sort (sni_parts [r1\<lparr>r_Matches := ms1\<rparr>, r2\<lparr>r_Matches := ms2\<rparr>]) =
             sort (sni_parts [r1\<lparr>r_Matches := ms2\<rparr>, r2\<lparr>r_Matches := ms1\<rparr>])"
    by (metis mset_sort properties_for_sort sorted_sort)
  then show ?thesis by (simp only: SniDigest_def)
qed

lemma sni_digest_ignores_route_of_match_witness:
  "SniDigest [(sample_route ''r1'' '':443'' [])\<lparr>r_Matches := [sample_match [] True ''b1'']\<rparr>,
              (sample_route ''r2'' '':8443'' [])\<lparr>r_Matches := [sample_match [] True ''b2'']\<rparr>] =
   SniDigest [(sample_route ''r1'' '':443'' [])\<lparr>r_Matches := [sample_match [] True ''b2'']\<rparr>,
              (sample_route ''r2'' '':8443'' [])\<lparr>r_Matches := [sample_match [] True ''b1'']\<rparr>]"
  by (rule sni_digest_ignores_route_of_match) simp

end
