(* ===== verification/CmdExec.thy ===== *)
theory CmdExec
  imports Model
begin

text \<open>
  Host effects. The allowlist of executables (src/internal/cmdexec/runner.go) is modelled as it is.
  The host behind it, that is the \<open>CommandRunner\<close> interface, the file system, the clock and the dialer,
  is not code of the repository: it is the record \<open>'h os\<close> of operations on a host state
  \<open>'h\<close>, an argument of every definition that touches the host. The theory TestHost gives it a
  concrete instance, the in-memory host of the repository's own tests.
\<close>

section \<open>The allowlist\<close>

definition allowed_names :: "string list" where
  "allowed_names =
     [''iptables'', ''iptables-save'', ''iptables-restore'', ''ip'', ''wg'', ''haproxy'', ''systemctl'',
      ''sysctl'', ''ping'', ''ss'', ''flock'', ''install'']"

text \<open>\<open>filepath.Base\<close> on a slash-separated path.\<close>

definition path_base :: "string \<Rightarrow> string" where
  "path_base p =
     (if p = [] then ''.''
      else let q = TrimRightFunc (\<lambda>c. c = CHR ''/'') p
           in if q = [] then ''/'' else last (Split q (CHR ''/'')))"

text \<open>\<open>filepath.Dir\<close> and \<open>filepath.Join\<close> on paths that are clean (no dot or empty elements).\<close>

definition path_dir :: "string \<Rightarrow> string" where
  "path_dir p =
     (let d = TrimRightFunc (\<lambda>c. c \<noteq> CHR ''/'') p; q = TrimRightFunc (\<lambda>c. c = CHR ''/'') d
      in if d = [] then ''.'' else if q = [] then ''/'' else q)"

definition path_join :: "string \<Rightarrow> string \<Rightarrow> string" where
  "path_join d f = (if d = [] then f else if d = ''/'' then d @ f else d @ ''/'' @ f)"

definition shell_chars :: string where
  "shell_chars = [CHR '' '', CHR 0x09, CHR 0x0A, CHR '';'', CHR ''&'', CHR ''|'', CHR ''$'', CHR 0x60, CHR ''<'', CHR ''>'']"

definition ValidateExecutable :: "string \<Rightarrow> goerr option" where
  "ValidateExecutable executable =
     (if executable = [] then Some (Plain ''empty executable'')
      else if ContainsAny executable shell_chars \<or> Contains executable [CHR 0x00]
        then Some (Plain ''illegal executable name'')
      else if path_base executable \<notin> set allowed_names
        then Some (Plain (''executable '' @ Quote (path_base executable) @ '' is not in the transitforge allowlist''))
      else None)"

definition ExitError :: "string \<Rightarrow> int \<Rightarrow> string \<Rightarrow> goerr" where
  "ExitError executable code stderr =
     Plain (executable @ '': exit '' @ Itoa code @ '': '' @ TrimSpace stderr)"

section \<open>The host\<close>

text \<open>The result of \<open>os.ReadFile\<close>: the contents, \<open>os.IsNotExist\<close>, or another error.\<close>

datatype read_result = FileData string | FileMissing | FileError goerr

text \<open>
  \<open>os_run stdin exe args\<close> is \<open>Run\<close> and \<open>RunStdin\<close>: it returns stdout, stderr and the error.
  \<open>os_remove\<close> is \<open>os.Remove\<close> with \<open>os.IsNotExist\<close> filtered out, the only way the code uses it.
  \<open>os_stamp layout\<close> is \<open>time.Now().UTC().Format(layout)\<close>.
\<close>

type_synonym cmd_result = "string \<times> string \<times> goerr option"

record 'h os =
  os_run :: "string \<Rightarrow> string \<Rightarrow> string list \<Rightarrow> 'h \<Rightarrow> cmd_result \<times> 'h"
  os_read :: "string \<Rightarrow> 'h \<Rightarrow> read_result"
  os_write :: "string \<Rightarrow> string \<Rightarrow> 'h \<Rightarrow> goerr option \<times> 'h"
  os_rename :: "string \<Rightarrow> string \<Rightarrow> 'h \<Rightarrow> goerr option \<times> 'h"
  os_remove :: "string \<Rightarrow> 'h \<Rightarrow> goerr option \<times> 'h"
  os_mkdir :: "string \<Rightarrow> 'h \<Rightarrow> goerr option \<times> 'h"
  os_now :: "'h \<Rightarrow> gotime"
  os_stamp :: "string \<Rightarrow> 'h \<Rightarrow> string"
  os_dial :: "string \<Rightarrow> string \<Rightarrow> 'h \<Rightarrow> goerr option"

definition run0 :: "'h os \<Rightarrow> string \<Rightarrow> string list \<Rightarrow> 'h \<Rightarrow> cmd_result \<times> 'h" where
  "run0 os exe args h = os_run os [] exe args h"

text \<open>
  A command whose failure is an error of the caller: \<open>run_or f exe args\<close> returns stdout, or the
  error \<open>f\<close> makes of the command's error and stderr.
\<close>

definition run_or :: "'h os \<Rightarrow> (goerr \<Rightarrow> string \<Rightarrow> goerr) \<Rightarrow> string \<Rightarrow> string list \<Rightarrow> ('h, goerr, string) act" where
  "run_or os f exe args h =
     (case run0 os exe args h of
        ((out, errb, Some e), h') \<Rightarrow> (Inl (f e errb), h')
      | ((out, errb, None), h') \<Rightarrow> (Inr out, h'))"

text \<open>\<open>fmt.Errorf("<what>: %w (%s)", err, strings.TrimSpace(string(errb)))\<close>.\<close>

definition cmd_err :: "string \<Rightarrow> goerr \<Rightarrow> string \<Rightarrow> goerr" where
  "cmd_err what e errb = wrapf (what @ '': '') e ('' ('' @ TrimSpace errb @ '')'')"

definition errA :: "('h \<Rightarrow> goerr option \<times> 'h) \<Rightarrow> ('h, goerr, unit) act" where
  "errA f h = (case f h of (Some e, h') \<Rightarrow> (Inl e, h') | (None, h') \<Rightarrow> (Inr (), h'))"

definition checkA :: "goerr option \<Rightarrow> ('h, goerr, unit) act" where
  "checkA err h = (case err of Some e \<Rightarrow> (Inl e, h) | None \<Rightarrow> (Inr (), h))"

text \<open>\<open>liftH m\<close> runs a host action beside the manager's state.\<close>

definition liftH :: "('h, 'e, 'a) act \<Rightarrow> ('m \<times> 'h, 'e, 'a) act" where
  "liftH m s = (case m (snd s) of (r, h') \<Rightarrow> (r, (fst s, h')))"

definition modM :: "('m \<Rightarrow> 'm) \<Rightarrow> ('m \<times> 'h, 'e, unit) act" where
  "modM f s = (Inr (), (f (fst s), snd s))"

text \<open>A command whose outcome is ignored.\<close>

definition tryA :: "('h, goerr, 'a) act \<Rightarrow> ('h, goerr, bool) act" where
  "tryA m h = (case m h of (Inl e, h') \<Rightarrow> (Inr False, h') | (Inr x, h') \<Rightarrow> (Inr True, h'))"

lemma checkA_None [simp]: "checkA None h = (Inr (), h)"
  by (simp add: checkA_def)

lemma checkA_Some [simp]: "checkA (Some e) h = (Inl e, h)"
  by (simp add: checkA_def)

lemma bind_checkA_None [simp]: "bindA (checkA None) f = f ()"
  by (simp add: bindA_def fun_eq_iff)

lemma bind_checkA_Some [simp]: "bindA (checkA (Some e)) f = Pair (Inl e)"
  by (simp add: bindA_def fun_eq_iff)

lemma run_or_Inr: "run_or os f exe args h = (Inr out, h') \<Longrightarrow> \<exists>errb. run0 os exe args h = ((out, errb, None), h')"
  by (auto simp: run_or_def split: prod.splits option.splits)

text \<open>
  What an accepted name can be: not empty, no blank or shell metacharacter, and its last path
  element one of the twelve names.
\<close>

lemma ValidateExecutable_iff:
  "ValidateExecutable e = None \<longleftrightarrow>
     e \<noteq> [] \<and> set e \<inter> set shell_chars = {} \<and> CHR 0x00 \<notin> set e \<and> path_base e \<in> set allowed_names"
proof -
  have "Contains e [CHR 0x00] \<longleftrightarrow> CHR 0x00 \<in> set e"
    by (auto simp: Contains_iff dest: split_list)
  moreover have "ContainsAny e shell_chars \<longleftrightarrow> set e \<inter> set shell_chars \<noteq> {}"
    by (auto simp: ContainsAny_def list_ex_iff)
  ultimately show ?thesis by (auto simp: ValidateExecutable_def)
qed

end
