(* ===== verification/Firewall.thy ===== *)
theory Firewall
  imports Reconcile CmdExec
begin

text \<open>
  The firewall manager (src/internal/firewall/manager.go and iptables.go): it owns the chains
  \<open>TRANSITFORGE_DNAT\<close>, \<open>TRANSITFORGE_FORWARD\<close> and \<open>TRANSITFORGE_SNAT\<close>, reads them with
  \<open>iptables -S\<close>, adds three rules per mapping and deletes rules by their comment.

  The manager's own state is \<open>fw_state\<close> (the snapshot and the rules of the last apply); operations
  that touch it act on a pair of it and the host. This theory holds the parsers of iptables output
  and the operations; FirewallText holds the theorems on the texts.
\<close>

section \<open>Names and texts (manager.go)\<close>

definition TableNAT :: string where "TableNAT = ''nat''"
definition TableFilter :: string where "TableFilter = ''filter''"
definition ChainDNAT :: string where "ChainDNAT = ''TRANSITFORGE_DNAT''"
definition ChainForward :: string where "ChainForward = ''TRANSITFORGE_FORWARD''"
definition ChainSNAT :: string where "ChainSNAT = ''TRANSITFORGE_SNAT''"
definition JumpComment :: string where "JumpComment = ''transitforge:jump''"
definition legacyChainDNAT :: string where "legacyChainDNAT = ''PROXYCTL_DNAT''"
definition legacyChainForward :: string where "legacyChainForward = ''PROXYCTL_FORWARD''"
definition legacyChainSNAT :: string where "legacyChainSNAT = ''PROXYCTL_SNAT''"
definition legacyJumpComment :: string where "legacyJumpComment = ''proxyctl:jump''"

definition isManagedMappingComment :: "string \<Rightarrow> bool" where
  "isManagedMappingComment cmt \<longleftrightarrow>
     HasPrefix cmt ''transitforge:mapping:'' \<or> HasPrefix cmt ''proxyctl:mapping:''"

definition MappingSpec :: "port_mapping \<Rightarrow> string \<Rightarrow> string" where
  "MappingSpec m backendAddr = spec_line m backendAddr"

definition BackendAddr :: "port_mapping \<Rightarrow> backend list \<Rightarrow> string" where
  "BackendAddr m backends =
     (case find (\<lambda>b. b_ID b = m_BackendID m) backends of Some b \<Rightarrow> b_Address b | None \<Rightarrow> [])"

section \<open>Parsing iptables output\<close>

definition comment_needle :: string where "comment_needle = ''--comment ''"

definition parseComment :: "string \<Rightarrow> string" where
  "parseComment line =
     (case Index line comment_needle of
        None \<Rightarrow> []
      | Some i \<Rightarrow>
          let rest = TrimSpace (drop (i + length comment_needle) line);
              quoted = HasPrefix rest [CHR 0x22];
              rest1 = (if quoted then drop 1 rest else rest)
          in case (if quoted then Index rest1 [CHR 0x22] else None) of
               Some j \<Rightarrow> take j rest1
             | None \<Rightarrow> (case Fields rest1 of [] \<Rightarrow> [] | f # fs \<Rightarrow> f))"

text \<open>The scan of the fields for the three values; a later flag overrides an earlier one.\<close>

fun scan_fields :: "string list \<Rightarrow> string \<times> int \<times> string \<Rightarrow> string \<times> int \<times> string" where
  "scan_fields [] acc = acc"
| "scan_fields [f] acc = acc"
| "scan_fields (f # v # fs) (proto, dport, dest) =
     scan_fields (v # fs)
       (if f = ''-p'' then (ToUpper v, dport, dest)
        else if f = ''--dport'' then (proto, fst (Atoi v), dest)
        else if f = ''--to-destination'' then (proto, dport, v)
        else (proto, dport, dest))"

definition specFromSaveLine :: "string \<Rightarrow> string \<Rightarrow> string" where
  "specFromSaveLine line cmt =
     (if \<not> isManagedMappingComment cmt then line
      else case scan_fields (Fields line) ([], 0, []) of
        (proto, dport, dest) \<Rightarrow>
          if proto \<noteq> [] \<and> 0 < dport \<and> dest \<noteq> []
          then proto @ '' dport '' @ Itoa dport @ '' -> '' @ dest @ '' comment '' @ cmt
          else line)"

definition commentFromSpec :: "string \<Rightarrow> string" where
  "commentFromSpec spec =
     (case LastIndex spec ''comment '' of
        None \<Rightarrow> []
      | Some i \<Rightarrow> TrimSpace (drop (i + length ''comment '') spec))"

text \<open>The loop of \<open>splitArgs\<close>: the word being read (reversed), and whether inside quotes.\<close>

fun split_args_loop :: "string \<Rightarrow> bool \<Rightarrow> string \<Rightarrow> string list" where
  "split_args_loop cur inQ [] = (if cur \<noteq> [] then [rev cur] else [])"
| "split_args_loop cur inQ (c # cs) =
     (if c = CHR 0x22 then split_args_loop cur (\<not> inQ) cs
      else if c = CHR '' '' \<and> \<not> inQ then
        (if cur \<noteq> [] then rev cur # split_args_loop [] inQ cs else split_args_loop [] inQ cs)
      else split_args_loop (c # cur) inQ cs)"

definition splitArgs :: "string \<Rightarrow> string list" where
  "splitArgs line = split_args_loop [] False line"

record rule_counter =
  rc_Comment :: string
  rc_Packets :: nat
  rc_Bytes :: nat
  rc_Spec :: string

record counters =
  co_Chain :: string
  co_Rules :: "rule_counter list"

definition counter_of_line :: "string \<Rightarrow> rule_counter list" where
  "counter_of_line line0 =
     (let line = TrimSpace line0
      in if line = [] \<or> HasPrefix line ''Chain'' \<or> HasPrefix line ''pkts'' then []
         else case Fields line of
           p # b # _ \<Rightarrow> [\<lparr>rc_Comment = parseComment line, rc_Packets = fst (ParseUint p),
                          rc_Bytes = fst (ParseUint b), rc_Spec = line\<rparr>]
         | _ \<Rightarrow> [])"

definition parseCounters :: "string \<Rightarrow> string \<Rightarrow> counters" where
  "parseCounters chain body =
     \<lparr>co_Chain = chain, co_Rules = concat (map counter_of_line (Split body (CHR 0x0A)))\<rparr>"

section \<open>Commands\<close>

record iptables_rule =
  ir_Table :: string
  ir_Chain :: string
  ir_Args :: "string list"
  ir_Comment :: string
  ir_Spec :: string

record fw_state =
  fw_BackupDir :: string
  fw_snapshot :: "string option"
  fw_lastAdd :: "iptables_rule list"
  fw_lastDel :: "iptables_rule list"

definition iptables :: "'h os \<Rightarrow> string list \<Rightarrow> ('h, goerr, string) act" where
  "iptables os args = run_or os (cmd_err (''iptables '' @ Join args '' '')) ''iptables'' args"

definition chainMissing :: "goerr \<Rightarrow> bool" where
  "chainMissing err =
     (let s = ToLower (err_text err) in Contains s ''no chain'' \<or> Contains s ''does not exist'')"

definition iptablesChainViews :: "(string \<times> string) list" where
  "iptablesChainViews =
     [(TableNAT, ChainDNAT), (TableFilter, ChainForward), (TableNAT, ChainSNAT),
      (TableNAT, legacyChainDNAT), (TableFilter, legacyChainForward), (TableNAT, legacyChainSNAT)]"

definition isDNATChain :: "string \<Rightarrow> bool" where
  "isDNATChain chain \<longleftrightarrow> chain = ChainDNAT \<or> chain = legacyChainDNAT"

text \<open>
  \<open>list_chain\<close> is \<open>iptables -t table -S chain\<close> with the chain's absence told from other errors:
  \<open>Inr None\<close> is the \<open>continue\<close> of the loops over the chains.
\<close>

definition list_chain :: "'h os \<Rightarrow> string \<Rightarrow> string \<Rightarrow> ('h, goerr, string option) act" where
  "list_chain os table chain h =
     (case iptables os [''-t'', table, ''-S'', chain] h of
        (Inl e, h') \<Rightarrow> (if chainMissing e then Inr None else Inl e, h')
      | (Inr out, h') \<Rightarrow> (Inr (Some out), h'))"

definition discover_line :: "string \<Rightarrow> string \<Rightarrow> firewall_rule list \<times> conflict list" where
  "discover_line chain line0 =
     (let line = TrimSpace line0
      in if line = [] \<or> HasPrefix line ''-N '' then ([], [])
         else
           let cmt = parseComment line;
               managed = isManagedMappingComment cmt;
               confl = (if cmt \<noteq> [] \<and> \<not> managed \<and> cmt \<noteq> JumpComment \<and> cmt \<noteq> legacyJumpComment
                        then [\<lparr>c_Code = ''UNMANAGED_RULE'', c_Target = chain,
                               c_Message = ''unmanaged rule in TransitForge chain: '' @ line\<rparr>]
                        else []);
               rules = (if managed \<and> \<not> isDNATChain chain then []
                        else [\<lparr>f_Chain = chain, f_Comment = cmt, f_Spec = specFromSaveLine line cmt,
                               f_Managed = managed\<rparr>])
           in (rules, confl))"

definition discover_output :: "string \<Rightarrow> string \<Rightarrow> firewall_rule list \<times> conflict list" where
  "discover_output chain out =
     (let rs = map (discover_line chain) (Split out (CHR 0x0A))
      in (concat (map fst rs), concat (map snd rs)))"

text \<open>The body of the loop over the chains.\<close>

definition discover_chain :: "'h os \<Rightarrow> string \<times> string \<Rightarrow> firewall_rule list \<times> conflict list \<Rightarrow>
    ('h, goerr, firewall_rule list \<times> conflict list) act" where
  "discover_chain os = (\<lambda>(table, chain) (rules, confl).
     bindA (list_chain os table chain) (\<lambda>out.
       case out of
         None \<Rightarrow> returnA (rules, confl)
       | Some body \<Rightarrow>
           let (rs, cs) = discover_output chain body in returnA (rules @ rs, confl @ cs)))"

definition fw_Discover :: "'h os \<Rightarrow> ('h, goerr, firewall_rule list \<times> conflict list) act" where
  "fw_Discover os = forA (discover_chain os) iptablesChainViews ([], [])"

definition fw_Plan :: "port_mapping list \<Rightarrow> backend list \<Rightarrow> firewall_rule list \<Rightarrow> plan" where
  "fw_Plan desired backends actual =
     (let zero_node = \<lparr>n_ID = [], n_Name = [], n_PublicIP = [], n_Labels = Map.empty, n_CreatedAt = 0,
                       n_UpdatedAt = 0\<rparr>;
          ds = \<lparr>d_Node = zero_node, d_Backends = backends, d_Tunnels = [], d_Mappings = desired,
                d_SniRoutes = [], d_HealthChecks = [], d_FailoverPolicies = [], d_FailbackIntents = []\<rparr>;
          st = \<lparr>as_NodeID = [], as_Tunnels = [], as_FirewallRules = actual, as_HaproxyDigest = [],
                as_SniRoutes = [], as_TransportStates = [], as_Conflicts = [], as_DiscoveredAt = 0\<rparr>;
          p = Diff ds st
      in \<lparr>pl_Actions = filter (\<lambda>a. ac_Target a = ''firewall'') (pl_Actions p), pl_Conflicts = pl_Conflicts p\<rparr>)"

section \<open>Changing the chains\<close>

definition mapping_rules :: "port_mapping \<Rightarrow> string \<Rightarrow> iptables_rule list" where
  "mapping_rules mp addr =
     (let proto = ToLower (m_Protocol mp); cmt = MappingComment (m_ID mp);
          dnatArgs = [''-p'', proto, ''-m'', proto, ''--dport'', Itoa (m_PublicPort mp),
                      ''-m'', ''comment'', ''--comment'', cmt,
                      ''-j'', ''DNAT'', ''--to-destination'', addr @ '':'' @ Itoa (m_BackendPort mp)];
          fwdArgs = [''-p'', proto, ''-m'', proto, ''-d'', addr, ''--dport'', Itoa (m_BackendPort mp),
                     ''-m'', ''comment'', ''--comment'', cmt, ''-j'', ''ACCEPT''];
          snatArgs = [''-p'', proto, ''-m'', proto, ''-d'', addr, ''--dport'', Itoa (m_BackendPort mp),
                      ''-m'', ''comment'', ''--comment'', cmt, ''-j'', ''MASQUERADE''];
          mk = (\<lambda>t c args. \<lparr>ir_Table = t, ir_Chain = c, ir_Args = args, ir_Comment = cmt,
                            ir_Spec = MappingSpec mp addr\<rparr>)
      in [mk TableNAT ChainDNAT dnatArgs, mk TableFilter ChainForward fwdArgs, mk TableNAT ChainSNAT snatArgs])"

definition rule_cmd :: "string \<Rightarrow> iptables_rule \<Rightarrow> string list" where
  "rule_cmd op r = [''-t'', ir_Table r, op, ir_Chain r] @ ir_Args r"

text \<open>One command per rule, stopping at the first error.\<close>

definition each_rule :: "'h os \<Rightarrow> string \<Rightarrow> iptables_rule list \<Rightarrow> ('h, goerr, unit) act" where
  "each_rule os op rules =
     forA (\<lambda>r _. bindA (iptables os (rule_cmd op r)) (\<lambda>_. returnA ())) rules ()"

definition addMappingRules :: "'h os \<Rightarrow> port_mapping \<Rightarrow> string \<Rightarrow> ('h, goerr, iptables_rule list) act" where
  "addMappingRules os mp addr =
     bindA (each_rule os ''-A'' (mapping_rules mp addr)) (\<lambda>_. returnA (mapping_rules mp addr))"

definition delete_line :: "'h os \<Rightarrow> string \<Rightarrow> string \<Rightarrow> string \<Rightarrow> string \<Rightarrow> iptables_rule list \<Rightarrow>
    ('h, goerr, iptables_rule list) act" where
  "delete_line os table chain cmt line0 deleted =
     (let line = TrimSpace line0
      in if parseComment line \<noteq> cmt \<or> \<not> HasPrefix line ''-A '' then returnA deleted
         else if length (splitArgs line) < 2 then returnA deleted
         else
           let ruleArgs = drop 2 (splitArgs line)
           in bindA (iptables os ([''-t'', table, ''-D'', chain] @ ruleArgs)) (\<lambda>_.
                returnA (deleted @ [\<lparr>ir_Table = table, ir_Chain = chain, ir_Args = ruleArgs,
                                     ir_Comment = cmt, ir_Spec = []\<rparr>])))"

definition delete_in_chain :: "'h os \<Rightarrow> string \<Rightarrow> string \<times> string \<Rightarrow> iptables_rule list \<Rightarrow>
    ('h, goerr, iptables_rule list) act" where
  "delete_in_chain os cmt = (\<lambda>(table, chain) deleted.
     bindA (list_chain os table chain) (\<lambda>out.
       case out of
         None \<Rightarrow> returnA deleted
       | Some body \<Rightarrow> forA (delete_line os table chain cmt) (Split body (CHR 0x0A)) deleted))"

definition deleteByCommentCopy :: "'h os \<Rightarrow> string \<Rightarrow> ('h, goerr, iptables_rule list) act" where
  "deleteByCommentCopy os cmt = forA (delete_in_chain os cmt) iptablesChainViews []"

definition deleteByComment :: "'h os \<Rightarrow> string \<Rightarrow> ('h, goerr, unit) act" where
  "deleteByComment os cmt = bindA (deleteByCommentCopy os cmt) (\<lambda>_. returnA ())"

definition jump_args :: "string \<Rightarrow> string \<Rightarrow> string \<Rightarrow> string list" where
  "jump_args parent cmt chain = [parent, ''-m'', ''comment'', ''--comment'', cmt, ''-j'', chain]"

definition drop_legacy_chain :: "'h os \<Rightarrow> string \<times> string \<times> string \<Rightarrow> unit \<Rightarrow> ('h, goerr, unit) act" where
  "drop_legacy_chain os = (\<lambda>(table, parent, chain) _.
     bindA (tryA (iptables os ([''-t'', table, ''-D''] @ jump_args parent legacyJumpComment chain))) (\<lambda>_.
     bindA (tryA (iptables os [''-t'', table, ''-F'', chain])) (\<lambda>_.
     bindA (tryA (iptables os [''-t'', table, ''-X'', chain])) (\<lambda>_. returnA ()))))"

definition dropLegacyChains :: "'h os \<Rightarrow> ('h, goerr, unit) act" where
  "dropLegacyChains os =
     forA (drop_legacy_chain os)
       [(TableNAT, ''PREROUTING'', legacyChainDNAT), (TableFilter, ''FORWARD'', legacyChainForward),
        (TableNAT, ''POSTROUTING'', legacyChainSNAT)] ()"

text \<open>One chain and its jump: created, and the jump appended, unless they are there.\<close>

definition ensure_chain :: "'h os \<Rightarrow> string \<times> string \<times> string \<Rightarrow> unit \<Rightarrow> ('h, goerr, unit) act" where
  "ensure_chain os = (\<lambda>(table, parent, chain) _.
     bindA (list_chain os table chain) (\<lambda>out.
     bindA (if out = None then bindA (iptables os [''-t'', table, ''-N'', chain]) (\<lambda>_. returnA ())
            else returnA ()) (\<lambda>_.
     bindA (tryA (iptables os ([''-t'', table, ''-C''] @ jump_args parent JumpComment chain))) (\<lambda>present.
       if present then returnA ()
       else bindA (iptables os ([''-t'', table, ''-A''] @ jump_args parent JumpComment chain)) (\<lambda>_. returnA ())))))"

definition ensureInfrastructure :: "'h os \<Rightarrow> ('h, goerr, unit) act" where
  "ensureInfrastructure os =
     bindA (forA (ensure_chain os)
       [(TableNAT, ''PREROUTING'', ChainDNAT), (TableFilter, ''FORWARD'', ChainForward),
        (TableNAT, ''POSTROUTING'', ChainSNAT)] ())
     (\<lambda>_. dropLegacyChains os)"

section \<open>The manager\<close>

definition backupLocked :: "'h os \<Rightarrow> (fw_state \<times> 'h, goerr, unit) act" where
  "backupLocked os =
     bindA (liftH (run_or os (cmd_err ''iptables-save'') ''iptables-save'' [])) (\<lambda>out.
     bindA (modM (\<lambda>m. m\<lparr>fw_snapshot := Some out\<rparr>)) (\<lambda>_ (m, h).
       if fw_BackupDir m = [] then (Inr (), (m, h))
       else bindA (liftH (errA (os_mkdir os (fw_BackupDir m)))) (\<lambda>_ (m, h).
              let name = path_join (fw_BackupDir m)
                    (''iptables-'' @ os_stamp os ''20060102T150405Z'' h @ ''.save'')
              in liftH (errA (os_write os name out)) (m, h)) (m, h)))"

definition restoreSnapshot :: "'h os \<Rightarrow> (fw_state \<times> 'h, goerr, unit) act" where
  "restoreSnapshot os = (\<lambda>(m, h).
     case fw_snapshot m of
       None \<Rightarrow> (Inl (Plain ''no iptables snapshot''), (m, h))
     | Some snap \<Rightarrow>
         (case os_run os snap ''iptables-restore'' [] h of
            ((out, errb, Some e), h') \<Rightarrow> (Inl (cmd_err ''iptables-restore'' e errb), (m, h'))
          | ((out, errb, None), h') \<Rightarrow> (Inr (), (m, h'))))"

definition apply_mapping :: "'h os \<Rightarrow> action_kind \<Rightarrow> port_mapping \<Rightarrow> string \<Rightarrow> (fw_state \<times> 'h, goerr, unit) act" where
  "apply_mapping os kind mp addr =
     bindA (liftH (checkA (IPv4 addr))) (\<lambda>_.
     bindA (liftH (checkA (Port (m_PublicPort mp)))) (\<lambda>_.
     bindA (liftH (checkA (Port (m_BackendPort mp)))) (\<lambda>_.
     bindA (if kind = KindChange then liftH (deleteByComment os (MappingComment (m_ID mp))) else returnA ()) (\<lambda>_.
     bindA (liftH (addMappingRules os mp addr)) (\<lambda>added.
       modM (\<lambda>m. m\<lparr>fw_lastAdd := fw_lastAdd m @ added\<rparr>))))))"

definition apply_action :: "'h os \<Rightarrow> port_mapping list \<Rightarrow> backend list \<Rightarrow> action \<Rightarrow> (fw_state \<times> 'h, goerr, unit) act" where
  "apply_action os desired backends a =
     (if ac_Target a \<noteq> ''firewall'' then returnA ()
      else case ac_Kind a of
        KindDelete \<Rightarrow>
          (let c = commentFromSpec (ac_Before a); cmt = (if c = [] then ac_ID a else c)
           in bindA (liftH (deleteByCommentCopy os cmt)) (\<lambda>deleted.
                modM (\<lambda>m. m\<lparr>fw_lastDel := fw_lastDel m @ deleted\<rparr>)))
      | kind \<Rightarrow>
          (case index_by (\<lambda>m. MappingComment (m_ID m)) desired (MappingComment (ac_ID a)) of
             None \<Rightarrow> failA (Plain (''apply firewall: mapping '' @ ac_ID a @ '' missing from desired''))
           | Some mp \<Rightarrow>
               let addr = BackendAddr mp backends
               in if addr = []
                  then failA (Validation (''firewall apply: backend address missing for mapping '' @ ac_ID a))
                  else apply_mapping os kind mp addr))"

definition fw_Apply :: "'h os \<Rightarrow> plan \<Rightarrow> port_mapping list \<Rightarrow> backend list \<Rightarrow> (fw_state \<times> 'h, goerr, unit) act" where
  "fw_Apply os plan desired backends =
     (if HasConflicts plan then failA (ErrConflict (Plan_String plan))
      else
        bindA (backupLocked os) (\<lambda>_.
        bindA (liftH (ensureInfrastructure os)) (\<lambda>_.
        bindA (modM (\<lambda>m. m\<lparr>fw_lastAdd := [], fw_lastDel := []\<rparr>)) (\<lambda>_.
          forA (\<lambda>a _. apply_action os desired backends a) (pl_Actions plan) ()))))"

definition fw_Rollback :: "'h os \<Rightarrow> (fw_state \<times> 'h, goerr, unit) act" where
  "fw_Rollback os = (\<lambda>(m, h).
     let on_error = (\<lambda>e h'. if fw_snapshot m \<noteq> None then restoreSnapshot os (m, h') else (Inl e, (m, h')))
     in if (fw_snapshot m = None \<or> fw_snapshot m = Some []) \<and> fw_lastAdd m = [] \<and> fw_lastDel m = []
        then (Inr (), (m, h))
        else case each_rule os ''-D'' (rev (fw_lastAdd m)) h of
          (Inl e, h') \<Rightarrow> on_error e h'
        | (Inr _, h1) \<Rightarrow>
            (case each_rule os ''-A'' (fw_lastDel m) h1 of
               (Inl e, h') \<Rightarrow> on_error e h'
             | (Inr _, h2) \<Rightarrow> (Inr (), (m\<lparr>fw_lastAdd := [], fw_lastDel := []\<rparr>, h2))))"

definition fw_Counters :: "'h os \<Rightarrow> ('h, goerr, counters list) act" where
  "fw_Counters os =
     forA (\<lambda>(table, chain) out h.
       case iptables os [''-t'', table, ''-L'', chain, ''-n'', ''-v'', ''-x''] h of
         (Inl e, h') \<Rightarrow> (if chainMissing e then Inr out else Inl e, h')
       | (Inr b, h') \<Rightarrow> (Inr (out @ [parseCounters chain b]), h'))
       iptablesChainViews []"

end
