(* ===== verification/WireGuard.thy ===== *)
theory WireGuard
  imports Samples CmdExec
begin

text \<open>
  The WireGuard manager (src/internal/wireguard/wg.go): discovery of the desired interfaces with \<open>ip\<close>
  and \<open>wg show dump\<close>, \<open>Apply\<close> of one tunnel, deletion, and the list of interfaces created since
  \<open>BeginTx\<close> that a rollback removes.

  The manager's state is that list; operations that extend it act on a pair of it and the host.
  A handshake age is a duration in whole seconds: Go divides in floating point, which can differ only
  in the last nanoseconds of a second.
\<close>

definition parseLocalIPv4 :: "string \<Rightarrow> string" where
  "parseLocalIPv4 out =
     (let fields = Fields out; idx = filter (\<lambda>i. fields ! i = ''inet'' \<and> i + 1 < length fields) [0..<length fields]
      in case idx of
           [] \<Rightarrow> []
         | i # _ \<Rightarrow> takeWhile (\<lambda>c. c \<noteq> CHR ''/'') (fields ! (i + 1)))"

definition ifaceMissing :: "goerr \<Rightarrow> string \<Rightarrow> bool" where
  "ifaceMissing err stderr =
     (let s = ToLower (err_text err @ '' '' @ stderr)
      in Contains s ''cannot find device'' \<or> Contains s ''does not exist'' \<or>
         Contains s ''no such device'' \<or> Contains s ''no such file'')"

definition RedactWG :: "string \<Rightarrow> string" where
  "RedactWG s = (if Contains (ToLower s) ''private'' then ''[redacted]'' else s)"

text \<open>Seconds from the year 1 to 1970, and the largest \<open>time.Duration\<close>.\<close>

definition unix_epoch :: int where "unix_epoch = 62135596800"
definition max_duration :: int where "max_duration = 9223372036854775807"

definition handshake_age :: "gotime \<Rightarrow> int \<Rightarrow> int" where
  "handshake_age now hs = max 0 (min max_duration (now - (hs + unix_epoch) * Second) div Second)"

definition parse_dump_iface :: "string list \<Rightarrow> tunnel_actual \<Rightarrow> tunnel_actual" where
  "parse_dump_iface fs act =
     (if 3 \<le> length fs then
        act\<lparr>a_PublicKey := fs ! 1,
            a_ListenPort := (if snd (Atoi (fs ! 2)) = NumOk then fst (Atoi (fs ! 2)) else a_ListenPort act)\<rparr>
      else act)"

definition parse_dump_peer :: "gotime \<Rightarrow> string list \<Rightarrow> tunnel_actual \<Rightarrow> tunnel_actual" where
  "parse_dump_peer now peer act =
     (if 8 \<le> length peer then
        (let hs = fst (ParseInt (peer ! 4))
         in act\<lparr>a_Endpoint := (if peer ! 2 = ''(none)'' then [] else peer ! 2),
                a_HandshakeAgeSec := (if 0 < hs then handshake_age now hs else a_HandshakeAgeSec act),
                a_RxBytes := fst (ParseUint (peer ! 5)),
                a_TxBytes := fst (ParseUint (peer ! 6))\<rparr>)
      else act)"

definition parseWGDump :: "gotime \<Rightarrow> string \<Rightarrow> tunnel_actual \<Rightarrow> tunnel_actual" where
  "parseWGDump now dump act =
     (case Split (TrimSpace dump) (CHR 0x0A) of
        [] \<Rightarrow> act
      | l0 # ls \<Rightarrow>
          let act1 = parse_dump_iface (Fields l0) act
          in case ls of [] \<Rightarrow> act1 | l1 # _ \<Rightarrow> parse_dump_peer now (Fields l1) act1)"

definition zero_actual :: "ident \<Rightarrow> string \<Rightarrow> string \<Rightarrow> tunnel_actual" where
  "zero_actual i typ iface =
     \<lparr>a_TunnelID = i, a_Type = typ, a_InterfaceName = iface, a_InterfacePresent = False,
      a_LocalOverlayIP = [], a_Endpoint = [], a_ListenPort = 0, a_PublicKey = [], a_HandshakeAgeSec = 0,
      a_RxBytes = 0, a_TxBytes = 0, a_ServiceActive = False\<rparr>"

definition link_show :: "string \<Rightarrow> string list" where
  "link_show iface = [''-o'', ''link'', ''show'', ''dev'', iface]"

definition addr_show :: "string \<Rightarrow> string list" where
  "addr_show iface = [''-o'', ''-4'', ''addr'', ''show'', ''dev'', iface]"

definition inspect :: "'h os \<Rightarrow> tunnel \<Rightarrow> ('h, goerr, tunnel_actual \<times> conflict list) act" where
  "inspect os t h =
     (let iface = t_InterfaceName t; act = zero_actual (t_ID t) TunnelWireGuard iface
      in case run0 os ''ip'' (link_show iface) h of
        ((out, errb, Some e), h1) \<Rightarrow>
          (if ifaceMissing e errb then (Inr (act, []), h1)
           else (Inl (wrapf (''ip link show '' @ iface @ '': '') e []), h1))
      | ((out, errb, None), h1) \<Rightarrow>
          (case run0 os ''ip'' (addr_show iface) h1 of
             ((addrOut, _, addrErr), h2) \<Rightarrow>
               (let act1 = act\<lparr>a_InterfacePresent := True,
                               a_LocalOverlayIP := (if addrErr = None then parseLocalIPv4 addrOut else [])\<rparr>
                in case run0 os ''wg'' [''show'', iface, ''dump''] h2 of
                     ((dump, dumpErrb, Some e), h3) \<Rightarrow>
                       (if ifaceMissing e dumpErrb
                        then (Inr (act1, [\<lparr>c_Code = ''NOT_WIREGUARD'', c_Target = iface,
                               c_Message = ''interface exists but is not a WireGuard device''\<rparr>]), h3)
                        else (Inl (wrapf ''wg show dump: '' e []), h3))
                   | ((dump, dumpErrb, None), h3) \<Rightarrow> (Inr (parseWGDump (os_now os h3) dump act1, []), h3))))"

definition wg_Discover :: "'h os \<Rightarrow> tunnel list \<Rightarrow> ('h, goerr, tunnel_actual list \<times> conflict list) act" where
  "wg_Discover os desired =
     forA (\<lambda>t (out, confl).
       if t_Type t \<noteq> TunnelWireGuard then returnA (out, confl)
       else bindA (checkA (InterfaceName (t_InterfaceName t))) (\<lambda>_.
            bindA (inspect os t) (\<lambda>(act, conf). returnA (out @ [act], confl @ conf))))
       desired ([], [])"

record wg_state =
  wg_createdIfaces :: "string list"

text \<open>The checks of \<open>Apply\<close>, made on the normalised tunnel before any command.\<close>

definition wg_checks :: "tunnel \<Rightarrow> goerr option" where
  "wg_checks t =
     first_err
       [Tunnel_check t,
        (if t_Type t \<noteq> TunnelWireGuard then Some (Validation (''WGManager cannot apply '' @ t_Type t)) else None),
        (if t_PrivateKeyPath t = []
         then Some (ErrConflict (''WIREGUARD tunnel '' @ t_InterfaceName t @
                     '' requires private_key_path (file reference, not a raw key)''))
         else None),
        PathRef (t_PrivateKeyPath t), InterfaceName (t_InterfaceName t), IPv4 (t_LocalOverlayIP t),
        Port (t_ListenPort t)]"

definition peer_args :: "tunnel \<Rightarrow> string list" where
  "peer_args t =
     [''set'', t_InterfaceName t, ''peer'', t_PublicKey t] @
     (if t_AllowedIPs t \<noteq> [] then [''allowed-ips'', Join (t_AllowedIPs t) '',''] else []) @
     (if t_Endpoint t \<noteq> [] then [''endpoint'', t_Endpoint t] else []) @
     (if 0 < t_PersistentKeepalive t then [''persistent-keepalive'', Itoa (t_PersistentKeepalive t)] else [])"

text \<open>The commands behind the creation of the interface; they touch the host only.\<close>

definition wg_configure :: "'h os \<Rightarrow> tunnel \<Rightarrow> ('h, goerr, unit) act" where
  "wg_configure os t h0 =
     (let iface = t_InterfaceName t in
      case run0 os ''ip'' (addr_show iface) h0 of
        ((cur, _, _), h1) \<Rightarrow>
          bindA (if parseLocalIPv4 cur \<noteq> t_LocalOverlayIP t
                 then run_or os (cmd_err ''ip addr replace'') ''ip''
                        [''addr'', ''replace'', t_LocalOverlayIP t @ ''/32'', ''dev'', iface]
                 else returnA []) (\<lambda>_.
          bindA (run_or os (cmd_err ''wg set listen-port/private-key'') ''wg''
                   [''set'', iface, ''listen-port'', Itoa (t_ListenPort t), ''private-key'', t_PrivateKeyPath t]) (\<lambda>_.
          bindA (if t_PublicKey t \<noteq> []
                 then bindA (checkA (if t_Endpoint t \<noteq> [] then Endpoint (t_Endpoint t) else None)) (\<lambda>_.
                      run_or os (cmd_err ''wg set peer'') ''wg'' (peer_args t))
                 else returnA []) (\<lambda>_.
          bindA (run_or os (cmd_err ''ip link set up'') ''ip'' [''link'', ''set'', iface, ''up'']) (\<lambda>_.
          returnA ())))) h1)"

definition wg_Apply :: "'h os \<Rightarrow> tunnel \<Rightarrow> (wg_state \<times> 'h, goerr, unit) act" where
  "wg_Apply os t0 s0 =
     (let t = Tunnel_Normalize t0; iface = t_InterfaceName t; w = fst s0; h = snd s0 in
      case wg_checks t of
        Some e \<Rightarrow> (Inl e, s0)
      | None \<Rightarrow>
          (case run0 os ''ip'' (link_show iface) h of
             ((_, _, None), h1) \<Rightarrow>
               (case wg_configure os t h1 of (r, h2) \<Rightarrow> (r, (w, h2)))
           | ((_, _, Some _), h1) \<Rightarrow>
               (case run0 os ''ip'' [''link'', ''add'', ''dev'', iface, ''type'', ''wireguard''] h1 of
                  ((_, errb, Some e), h2) \<Rightarrow> (Inl (cmd_err (''ip link add '' @ iface) e errb), (w, h2))
                | ((_, _, None), h2) \<Rightarrow>
                    (case wg_configure os t h2 of
                       (r, h3) \<Rightarrow> (r, (w\<lparr>wg_createdIfaces := wg_createdIfaces w @ [iface]\<rparr>, h3))))))"

definition wg_Delete :: "'h os \<Rightarrow> string \<Rightarrow> ('h, goerr, unit) act" where
  "wg_Delete os iface =
     bindA (checkA (InterfaceName iface)) (\<lambda>_ h.
       case run0 os ''ip'' [''link'', ''delete'', ''dev'', iface] h of
         ((_, errb, Some e), h') \<Rightarrow>
           (if ifaceMissing e errb then (Inr (), h')
            else (Inl (wrapf (''ip link delete '' @ iface @ '': '') e []), h'))
       | ((_, _, None), h') \<Rightarrow> (Inr (), h'))"

definition CreatedIfaces :: "wg_state \<Rightarrow> string list" where
  "CreatedIfaces w = wg_createdIfaces w"

definition BeginTx :: "wg_state \<Rightarrow> wg_state" where
  "BeginTx w = w\<lparr>wg_createdIfaces := []\<rparr>"

definition RollbackCreate :: "'h os \<Rightarrow> string \<Rightarrow> ('h, goerr, unit) act" where
  "RollbackCreate os iface = wg_Delete os iface"

end
