(* ===== verification/SshTun.thy ===== *)
theory SshTun
  imports Samples CmdExec
begin

text \<open>
  The SSH tunnel manager (src/internal/sshtun/manager.go): it inspects and starts an existing systemd
  unit and never writes configuration. It keeps no state.
\<close>

definition ssh_parseIPv4 :: "string \<Rightarrow> string" where
  "ssh_parseIPv4 out =
     (let fs = Fields out; idx = filter (\<lambda>i. fs ! i = ''inet'' \<and> i + 1 < length fs) [0..<length fs]
      in case idx of [] \<Rightarrow> [] | i # _ \<Rightarrow> takeWhile (\<lambda>c. c \<noteq> CHR ''/'') (fs ! (i + 1)))"

definition ssh_missing :: "goerr \<Rightarrow> string \<Rightarrow> bool" where
  "ssh_missing err stderr =
     (let s = ToLower (err_text err @ '' '' @ stderr)
      in Contains s ''cannot find device'' \<or> Contains s ''not found'' \<or> Contains s ''inactive'')"

definition ssh_actual :: "tunnel \<Rightarrow> tunnel_actual" where
  "ssh_actual t =
     \<lparr>a_TunnelID = t_ID t, a_Type = TunnelSSHTUN, a_InterfaceName = t_InterfaceName t,
      a_InterfacePresent = False, a_LocalOverlayIP = [], a_Endpoint = [], a_ListenPort = 0,
      a_PublicKey = [], a_HandshakeAgeSec = 0, a_RxBytes = 0, a_TxBytes = 0, a_ServiceActive = False\<rparr>"

text \<open>The record carries the interface name as given; the commands use the normalised tunnel.\<close>

definition ssh_Discover :: "'h os \<Rightarrow> tunnel \<Rightarrow> ('h, goerr, tunnel_actual \<times> conflict list) act" where
  "ssh_Discover os t0 =
     (let t = Tunnel_Normalize t0; act = ssh_actual t0 in
      bindA (checkA (Tunnel_Validate t0)) (\<lambda>_.
      bindA (checkA (ServiceName (t_ServiceName t))) (\<lambda>_ h.
        case run0 os ''systemctl'' [''is-active'', t_ServiceName t] h of
          ((out, _, err), h1) \<Rightarrow>
            (let act1 = act\<lparr>a_ServiceActive := (err = None \<and> TrimSpace out = ''active'')\<rparr>
             in case run0 os ''ip'' [''-o'', ''link'', ''show'', ''dev'', t_InterfaceName t] h1 of
                  ((_, errb, Some e), h2) \<Rightarrow>
                    (if ssh_missing e errb then (Inr (act1, []), h2)
                     else (Inl (wrapf (''ip link show '' @ t_InterfaceName t @ '': '') e []), h2))
                | ((_, _, None), h2) \<Rightarrow>
                    (case run0 os ''ip'' [''-o'', ''-4'', ''addr'', ''show'', ''dev'', t_InterfaceName t] h2 of
                       ((addrOut, _, _), h3) \<Rightarrow>
                         (Inr (act1\<lparr>a_InterfacePresent := True, a_LocalOverlayIP := ssh_parseIPv4 addrOut\<rparr>, []), h3))))))"

definition ssh_Apply :: "'h os \<Rightarrow> tunnel \<Rightarrow> ('h, goerr, unit) act" where
  "ssh_Apply os t0 =
     (let t = Tunnel_Normalize t0 in
      bindA (checkA (Tunnel_Validate t0)) (\<lambda>_.
      bindA (checkA (if t_Type t \<noteq> TunnelSSHTUN
                     then Some (Validation (''sshtun manager cannot apply '' @ t_Type t)) else None)) (\<lambda>_.
      bindA (run_or os (cmd_err (''systemctl start '' @ t_ServiceName t)) ''systemctl'' [''start'', t_ServiceName t]) (\<lambda>_.
      bindA (ssh_Discover os t) (\<lambda>(act, _).
        checkA (if a_ServiceActive act then None
                else Some (ErrConflict (''SSH TUN unit '' @ t_ServiceName t @ '' is not active after start''))))))))"

end
