(* ===== verification/Haproxy.thy ===== *)
theory Haproxy
  imports CmdExec Reconcile
begin

text \<open>
  The HAProxy manager (src/internal/haproxy/manager.go): the managed block between two marker lines of
  the HAProxy configuration, its rendering and parsing, and \<open>Discover\<close>, \<open>Apply\<close> and \<open>Rollback\<close> with the
  backup, the atomic write, the validation and the reload.

  \<open>Apply\<close> validates each route, and validation normalises the matches of a route in the array the
  caller shares, but the listen address only in the loop's copy: \<open>validate_routes\<close> returns the routes
  as the caller has them afterwards. \<open>fs[1]\<close> on a \<open>frontend\<close> line without a name is a panic in Go; here
  \<open>parseManaged\<close> is \<open>None\<close> there.
\<close>

section \<open>Markers\<close>

definition BeginMarker :: string where "BeginMarker = ''# BEGIN TRANSITFORGE MANAGED''"
definition EndMarker :: string where "EndMarker = ''# END TRANSITFORGE MANAGED''"
definition legacyBeginMarker :: string where "legacyBeginMarker = ''# BEGIN PROXYCTL MANAGED''"
definition legacyEndMarker :: string where "legacyEndMarker = ''# END PROXYCTL MANAGED''"

definition splitMarked :: "string \<Rightarrow> string \<Rightarrow> string \<Rightarrow> goerr + string \<times> string" where
  "splitMarked body beginMark endMark =
     (case (Index body beginMark, Index body endMark) of
        (None, None) \<Rightarrow> Inr (body, [])
      | (Some b, Some e) \<Rightarrow>
          if e < b then Inl (Plain (''mismatched '' @ beginMark @ '' / '' @ endMark @ '' markers''))
          else if Count body beginMark \<noteq> 1 \<or> Count body endMark \<noteq> 1
          then Inl (Plain ''duplicate TransitForge HAProxy markers'')
          else Inr (TrimSpace (take b body @ drop (e + length endMark) body),
                    TrimSpace (drop b (take (e + length endMark) body)))
      | _ \<Rightarrow> Inl (Plain (''mismatched '' @ beginMark @ '' / '' @ endMark @ '' markers'')))"

definition splitManaged :: "string \<Rightarrow> goerr + string \<times> string" where
  "splitManaged body =
     (case splitMarked body BeginMarker EndMarker of
        Inl e \<Rightarrow> Inl e
      | Inr (unmanaged, managed) \<Rightarrow>
          if managed \<noteq> [] \<or> Contains body BeginMarker \<or> Contains body EndMarker
          then Inr (unmanaged, managed)
          else splitMarked body legacyBeginMarker legacyEndMarker)"

definition is_nl :: "char \<Rightarrow> bool" where "is_nl c \<longleftrightarrow> c = CHR 0x0A"

definition joinConfig :: "string \<Rightarrow> string \<Rightarrow> string" where
  "joinConfig unmanaged managed =
     (let u = TrimRightFunc is_nl unmanaged; m = TrimLeftFunc is_nl managed
      in if u = [] then m else if m = [] then u @ nl else u @ nl @ nl @ m)"

section \<open>Rendering\<close>

definition sanitize_char :: "char \<Rightarrow> char" where
  "sanitize_char c = (if is_alnum c \<or> c = CHR ''_'' \<or> c = CHR ''-'' then c else CHR ''_'')"

definition sanitize :: "string \<Rightarrow> string" where
  "sanitize s = (let t = map sanitize_char s in if t = [] then ''x'' else t)"

definition resolveBackend :: "sni_match \<Rightarrow> (ident \<rightharpoonup> backend) \<Rightarrow> (string \<rightharpoonup> backend) \<Rightarrow> goerr + backend" where
  "resolveBackend m byID byName =
     (case (if sm_BackendID m \<noteq> [] then byID (sm_BackendID m) else None) of
        Some b \<Rightarrow> Inr b
      | None \<Rightarrow>
          (case (if sm_Backend m \<noteq> [] then byName (sm_Backend m) else None) of
             Some b \<Rightarrow> Inr b
           | None \<Rightarrow> Inl (Validation ''sni match references unknown backend'')))"

definition front_name :: "sni_route \<Rightarrow> string" where
  "front_name r =
     (if r_ID r = [] then ''transitforge_fe_'' @ sanitize (r_Listen r)
      else ''transitforge_fe_'' @ sanitize (r_ID r))"

definition be_name :: "sni_route \<Rightarrow> nat \<Rightarrow> string" where
  "be_name r i = ''transitforge_be_'' @ sanitize (r_ID r) @ ''_'' @ Itoa (int i)"

definition use_line :: "sni_route \<Rightarrow> nat \<times> sni_match \<Rightarrow> string" where
  "use_line r = (\<lambda>(i, m).
     if sm_Default m then []
     else ''    use_backend '' @ be_name r i @ '' if { req_ssl_sni -i '' @ sm_Match m @ '' }'' @ nl)"

definition backend_block :: "sni_route \<Rightarrow> nat \<times> backend \<Rightarrow> string" where
  "backend_block r = (\<lambda>(i, be).
     ''backend '' @ be_name r i @ nl @ ''    mode tcp'' @ nl @
     ''    server s1 '' @ b_Address be @ '':443'' @ nl @ nl)"

text \<open>The backends of a list of matches, or the first error.\<close>

fun resolve_all :: "(sni_match \<Rightarrow> goerr + backend) \<Rightarrow> sni_match list \<Rightarrow> goerr + backend list" where
  "resolve_all f [] = Inr []"
| "resolve_all f (m # ms) =
     (case f m of Inl e \<Rightarrow> Inl e
      | Inr b \<Rightarrow> (case resolve_all f ms of Inl e \<Rightarrow> Inl e | Inr bs \<Rightarrow> Inr (b # bs)))"

definition default_name :: "sni_route \<Rightarrow> string" where
  "default_name r =
     foldl (\<lambda>acc (i, m). if sm_Default m then be_name r i else acc) [] (enumerate 0 (r_Matches r))"

definition render_route :: "(sni_match \<Rightarrow> goerr + backend) \<Rightarrow> sni_route \<Rightarrow> goerr + string" where
  "render_route resolve r =
     (case resolve_all resolve (r_Matches r) of
        Inl e \<Rightarrow> Inl e
      | Inr bs \<Rightarrow>
          if default_name r = [] then Inl (Validation ''sni route missing default backend'')
          else Inr
            (''frontend '' @ front_name r @ nl @
             ''    bind '' @ r_Listen r @ nl @
             ''    mode tcp'' @ nl @
             ''    tcp-request inspect-delay 5s'' @ nl @
             ''    tcp-request content accept if { req_ssl_hello_type 1 }'' @ nl @
             concat (map (use_line r) (enumerate 0 (r_Matches r))) @
             ''    default_backend '' @ default_name r @ nl @ nl @
             concat (map (backend_block r) (enumerate 0 bs))))"

fun render_routes :: "(sni_match \<Rightarrow> goerr + backend) \<Rightarrow> sni_route list \<Rightarrow> goerr + string" where
  "render_routes resolve [] = Inr []"
| "render_routes resolve (r # rs) =
     (case render_route resolve r of Inl e \<Rightarrow> Inl e
      | Inr s \<Rightarrow> (case render_routes resolve rs of Inl e \<Rightarrow> Inl e | Inr t \<Rightarrow> Inr (s @ t)))"

definition digest_line :: "sni_route list \<Rightarrow> string" where
  "digest_line routes = ''# transitforge-sni-digest: '' @ SniDigest routes"

definition Render :: "sni_route list \<Rightarrow> backend list \<Rightarrow> goerr + string" where
  "Render routes backends =
     (if routes = [] then Inr []
      else
        let byID = index_by b_ID backends; byName = index_by b_Name backends
        in case render_routes (\<lambda>m. resolveBackend m byID byName) routes of
             Inl e \<Rightarrow> Inl e
           | Inr body \<Rightarrow>
               Inr (BeginMarker @ nl @ ''# Generated by transitforge. Do not edit this block.'' @ nl @
                    digest_line routes @ nl @ body @ EndMarker @ nl))"

section \<open>Parsing\<close>

definition trimFrontendName :: "string \<Rightarrow> string" where
  "trimFrontendName name = TrimPrefix (TrimPrefix name ''transitforge_fe_'') ''proxyctl_fe_''"

definition parsed_route :: "string \<Rightarrow> sni_route" where
  "parsed_route name =
     \<lparr>r_ID = trimFrontendName name, r_NodeID = [], r_Listen = [], r_Matches = [], r_CreatedAt = 0, r_UpdatedAt = 0\<rparr>"

definition parsed_match :: "string \<Rightarrow> bool \<Rightarrow> string \<Rightarrow> sni_match" where
  "parsed_match host def be = \<lparr>sm_Match = host, sm_Default = def, sm_BackendID = [], sm_Backend = be\<rparr>"

text \<open>\<open>cur\<close> points at the last route appended, so an update of it is an update of the last element.\<close>

definition upd_last :: "('a \<Rightarrow> 'a) \<Rightarrow> 'a list \<Rightarrow> 'a list" where
  "upd_last f xs = (if xs = [] then [] else butlast xs @ [f (last xs)])"

definition add_match :: "sni_match \<Rightarrow> sni_route \<Rightarrow> sni_route" where
  "add_match m r = r\<lparr>r_Matches := r_Matches r @ [m]\<rparr>"

definition parse_line :: "string \<Rightarrow> sni_route list \<Rightarrow> sni_route list option" where
  "parse_line line routes =
     (let fs = Fields (TrimSpace line) in
      case fs of
        [] \<Rightarrow> Some routes
      | kw # args \<Rightarrow>
          if kw = ''frontend'' then
            (case args of [] \<Rightarrow> None | name # _ \<Rightarrow> Some (routes @ [parsed_route name]))
          else if kw = ''bind'' then
            (case args of [] \<Rightarrow> Some routes | addr # _ \<Rightarrow> Some (upd_last (\<lambda>r. r\<lparr>r_Listen := addr\<rparr>) routes))
          else if kw = ''use_backend'' then
            (if 8 \<le> length fs
             then Some (upd_last (add_match (parsed_match
                          (TrimRightFunc (\<lambda>c. c = CHR ''}'') (last fs)) False (fs ! 1))) routes)
             else Some routes)
          else if kw = ''default_backend'' then
            (case args of [] \<Rightarrow> Some routes
             | be # _ \<Rightarrow> Some (upd_last (add_match (parsed_match [] True be)) routes))
          else Some routes)"

fun parse_lines :: "string list \<Rightarrow> sni_route list \<Rightarrow> sni_route list option" where
  "parse_lines [] routes = Some routes"
| "parse_lines (l # ls) routes =
     (case parse_line l routes of None \<Rightarrow> None | Some routes' \<Rightarrow> parse_lines ls routes')"

definition parseManaged :: "string \<Rightarrow> sni_route list option" where
  "parseManaged managed =
     (if managed = [] then Some [] else parse_lines (Split managed (CHR 0x0A)) [])"

definition digest_of_line :: "string \<Rightarrow> string option" where
  "digest_of_line line0 =
     (let line = TrimSpace line0
      in if HasPrefix line ''# transitforge-sni-digest:''
         then Some (TrimSpace (TrimPrefix line ''# transitforge-sni-digest:''))
         else if HasPrefix line ''# proxyctl-sni-digest:''
         then Some (TrimSpace (TrimPrefix line ''# proxyctl-sni-digest:''))
         else None)"

fun first_digest :: "string list \<Rightarrow> string" where
  "first_digest [] = []"
| "first_digest (l # ls) = (case digest_of_line l of Some d \<Rightarrow> d | None \<Rightarrow> first_digest ls)"

definition parseDigestComment :: "string \<Rightarrow> string" where
  "parseDigestComment managed = first_digest (Split managed (CHR 0x0A))"

definition portBoundElsewhere :: "string \<Rightarrow> sni_route list \<Rightarrow> bool" where
  "portBoundElsewhere unmanaged routes \<longleftrightarrow>
     list_ex (\<lambda>r. r_Listen r \<noteq> [] \<and> Contains (ToLower unmanaged) (''bind '' @ ToLower (r_Listen r))) routes"

section \<open>Files\<close>

definition readOrEmpty :: "'h os \<Rightarrow> string \<Rightarrow> 'h \<Rightarrow> goerr + string" where
  "readOrEmpty os path h =
     (case os_read os path h of FileData b \<Rightarrow> Inr b | FileMissing \<Rightarrow> Inr [] | FileError e \<Rightarrow> Inl e)"

definition writeFileAtomic :: "'h os \<Rightarrow> string \<Rightarrow> string \<Rightarrow> ('h, goerr, unit) act" where
  "writeFileAtomic os path body =
     bindA (errA (os_mkdir os (path_dir path))) (\<lambda>_.
     bindA (errA (os_write os (path @ ''.tmp'') body)) (\<lambda>_.
       errA (os_rename os (path @ ''.tmp'') path)))"

definition restoreFile :: "'h os \<Rightarrow> string \<Rightarrow> string \<Rightarrow> ('h, goerr, unit) act" where
  "restoreFile os path body =
     (if body = [] then errA (os_remove os path) else writeFileAtomic os path body)"

section \<open>The manager\<close>

record hp_state =
  hp_ConfigPath :: string
  hp_BackupDir :: string
  hp_UnitName :: string
  hp_ReloadMode :: string
  hp_lastBackup :: string
  hp_wroteOnce :: bool

definition skipSystemctl :: "hp_state \<Rightarrow> bool" where
  "skipSystemctl m = (let s = ToLower (TrimSpace (hp_ReloadMode m)) in s = ''external'' \<or> s = ''skip'')"

definition hp_unit :: "hp_state \<Rightarrow> string" where
  "hp_unit m = (if hp_UnitName m = [] then ''haproxy'' else hp_UnitName m)"

definition hp_Discover :: "'h os \<Rightarrow> hp_state \<Rightarrow> sni_route list \<Rightarrow>
    ('h, goerr, string \<times> sni_route list \<times> conflict list) act" where
  "hp_Discover os m desired h =
     (case os_read os (hp_ConfigPath m) h of
        FileMissing \<Rightarrow> (Inr ([], [], []), h)
      | FileError e \<Rightarrow> (Inl e, h)
      | FileData body \<Rightarrow>
          (case splitManaged body of
             Inl e \<Rightarrow> (Inr ([], [], [\<lparr>c_Code = ''HAPROXY_MARKERS'', c_Target = hp_ConfigPath m,
                                     c_Message = err_text e\<rparr>]), h)
           | Inr (unmanaged, managed) \<Rightarrow>
               (let conflicts =
                      (if portBoundElsewhere unmanaged desired
                       then [\<lparr>c_Code = ''HAPROXY_BIND_COLLISION'', c_Target = hp_ConfigPath m,
                              c_Message = ''unmanaged HAProxy config already binds a listen address managed by transitforge''\<rparr>]
                       else [])
                in case parseManaged managed of
                     None \<Rightarrow> (Inl (Plain ''panic: index out of range''), h)
                   | Some routes \<Rightarrow>
                       (let d = parseDigestComment managed
                        in (Inr (if d = [] \<and> managed \<noteq> [] then SniDigest routes else d, routes, conflicts), h)))))"

definition hp_reload :: "'h os \<Rightarrow> hp_state \<Rightarrow> ('h, goerr, unit) act" where
  "hp_reload os m h =
     (if skipSystemctl m then (Inr (), h)
      else case run0 os ''systemctl'' [''reload'', hp_unit m] h of
        ((_, errb, Some e), h') \<Rightarrow> (Inl (Plain (err_text e @ '' ('' @ TrimSpace errb @ '')'')), h')
      | ((_, _, None), h') \<Rightarrow> (Inr (), h'))"

definition hp_backup :: "'h os \<Rightarrow> string \<Rightarrow> (hp_state \<times> 'h, goerr, string) act" where
  "hp_backup os current = (\<lambda>(m0, h).
     let m = (if hp_BackupDir m0 = []
              then m0\<lparr>hp_BackupDir := path_join (path_dir (hp_ConfigPath m0)) ''transitforge-haproxy-backups''\<rparr>
              else m0)
     in bindA (liftH (errA (os_mkdir os (hp_BackupDir m)))) (\<lambda>_ (m, h).
          let name = path_join (hp_BackupDir m) (''haproxy-'' @ os_stamp os ''20060102T150405.000Z'' h @ ''.cfg'')
          in bindA (liftH (errA (os_write os name current))) (\<lambda>_. returnA name) (m, h)) (m, h))"

text \<open>The loop over the routes at the head of \<open>Apply\<close>: the first error, and the routes afterwards.\<close>

definition normalized_matches :: "sni_route \<Rightarrow> sni_route" where
  "normalized_matches r = r\<lparr>r_Matches := r_Matches (SniRoute_Normalize r)\<rparr>"

fun validate_routes :: "sni_route list \<Rightarrow> goerr option \<times> sni_route list" where
  "validate_routes [] = (None, [])"
| "validate_routes (r # rs) =
     (case first_err [SniRoute_Validate r, ListenAddr (r_Listen (SniRoute_Normalize r))] of
        Some e \<Rightarrow> (Some e, normalized_matches r # rs)
      | None \<Rightarrow> (case validate_routes rs of (e, rs') \<Rightarrow> (e, normalized_matches r # rs')))"

text \<open>The part of \<open>Apply\<close> behind the write: validation and reload, with the file restored on failure.\<close>

definition hp_activate :: "'h os \<Rightarrow> string \<Rightarrow> (hp_state \<times> 'h, goerr, unit) act" where
  "hp_activate os current = (\<lambda>(m, h).
     let path = hp_ConfigPath m in
     case run0 os ''haproxy'' [''-c'', ''-f'', path] h of
       ((_, errb, Some e), h1) \<Rightarrow>
         (case restoreFile os path current h1 of (_, h2) \<Rightarrow>
           (Inl (ErrConflict (''haproxy validation failed: '' @ err_text e @ '' ('' @ TrimSpace errb @ '')'')), (m, h2)))
     | ((_, _, None), h1) \<Rightarrow>
         (case hp_reload os m h1 of
            (Inr _, h2) \<Rightarrow> (Inr (), (m, h2))
          | (Inl e, h2) \<Rightarrow>
              (case restoreFile os path current h2 of (_, h3) \<Rightarrow>
                (case hp_reload os m h3 of (_, h4) \<Rightarrow>
                  (Inl (ErrConflict (''haproxy reload failed, config restored: '' @ err_text e)), (m, h4))))))"

text \<open>The new text of the configuration, before anything is written.\<close>

definition next_config :: "string \<Rightarrow> sni_route list \<Rightarrow> backend list \<Rightarrow> goerr + string" where
  "next_config current routes backends =
     (case splitManaged current of
        Inl e \<Rightarrow> Inl (ErrConflict (err_text e))
      | Inr (unmanaged, _) \<Rightarrow>
          if portBoundElsewhere unmanaged routes
          then Inl (ErrConflict ''unmanaged HAProxy section already binds a transitforge listen address'')
          else (case Render routes backends of
                  Inl e \<Rightarrow> Inl e
                | Inr rendered \<Rightarrow> Inr (joinConfig unmanaged rendered)))"

definition hp_write :: "'h os \<Rightarrow> string \<Rightarrow> string \<Rightarrow> (hp_state \<times> 'h, goerr, unit) act" where
  "hp_write os current nxt =
     bindA (hp_backup os current) (\<lambda>backup.
     bindA (modM (\<lambda>m. m\<lparr>hp_lastBackup := backup\<rparr>)) (\<lambda>_.
     bindA (\<lambda>(m, h). liftH (writeFileAtomic os (hp_ConfigPath m) nxt) (m, h)) (\<lambda>_.
     bindA (modM (\<lambda>m. m\<lparr>hp_wroteOnce := True\<rparr>)) (\<lambda>_.
       hp_activate os current))))"

definition hp_Apply :: "'h os \<Rightarrow> sni_route list \<Rightarrow> backend list \<Rightarrow> (hp_state \<times> 'h, goerr, unit) act" where
  "hp_Apply os routes0 backends = (\<lambda>(m, h).
     case validate_routes routes0 of
       (Some e, _) \<Rightarrow> (Inl e, (m, h))
     | (None, routes) \<Rightarrow>
         (case readOrEmpty os (hp_ConfigPath m) h of
            Inl e \<Rightarrow> (Inl e, (m, h))
          | Inr current \<Rightarrow>
              (case next_config current routes backends of
                 Inl e \<Rightarrow> (Inl e, (m, h))
               | Inr nxt \<Rightarrow> hp_write os current nxt (m, h))))"

definition hp_Rollback :: "'h os \<Rightarrow> (hp_state \<times> 'h, goerr, unit) act" where
  "hp_Rollback os = (\<lambda>(m, h).
     if hp_lastBackup m = [] then (Inr (), (m, h))
     else case os_read os (hp_lastBackup m) h of
       FileData b \<Rightarrow>
         (case restoreFile os (hp_ConfigPath m) b h of
            (Inl e, h1) \<Rightarrow> (Inl e, (m, h1))
          | (Inr _, h1) \<Rightarrow>
              (case hp_reload os m h1 of
                 (Inl e, h2) \<Rightarrow> (Inl (wrapf ''haproxy rollback reload: '' e []), (m, h2))
               | (Inr _, h2) \<Rightarrow> (Inr (), (m, h2))))
     | FileMissing \<Rightarrow> (Inl (Plain (''open '' @ hp_lastBackup m @ '': no such file or directory'')), (m, h))
     | FileError e \<Rightarrow> (Inl e, (m, h)))"

end
