(* ===== verification/Engine.thy ===== *)
theory Engine
  imports Firewall WireGuard SshTun Haproxy
begin

text \<open>
  The reconciliation engine (src/internal/engine/engine.go): it discovers what the managers see, plans,
  checks that every action has a manager, applies tunnels, HAProxy and firewall in that order,
  discovers again to verify, and rolls back when a step fails.

  The engine holds its managers by pointer, each of which may be nil: here an optional state of the
  firewall, WireGuard and HAProxy managers and a flag for the stateless SSH manager. Operations act on
  the engine and the host. Using a nil manager is a panic in Go and the error \<open>nil_panic\<close> here.

  The HAProxy manager normalises the matches of the desired routes in place, so \<open>applyPlan\<close> and
  \<open>Reconcile\<close> also return the desired state as the caller has it afterwards.
\<close>

record engine =
  en_FW :: "fw_state option"
  en_WG :: "wg_state option"
  en_HP :: "hp_state option"
  en_SSH :: bool

definition nil_panic :: goerr where
  "nil_panic = Plain ''panic: invalid memory address or nil pointer dereference''"

definition with_fw :: "(fw_state \<times> 'h, goerr, 'a) act \<Rightarrow> (engine \<times> 'h, goerr, 'a) act" where
  "with_fw m = (\<lambda>(e, h). case en_FW e of None \<Rightarrow> (Inl nil_panic, (e, h))
     | Some f \<Rightarrow> (case m (f, h) of (r, (f', h')) \<Rightarrow> (r, (e\<lparr>en_FW := Some f'\<rparr>, h'))))"

definition with_wg :: "(wg_state \<times> 'h, goerr, 'a) act \<Rightarrow> (engine \<times> 'h, goerr, 'a) act" where
  "with_wg m = (\<lambda>(e, h). case en_WG e of None \<Rightarrow> (Inl nil_panic, (e, h))
     | Some w \<Rightarrow> (case m (w, h) of (r, (w', h')) \<Rightarrow> (r, (e\<lparr>en_WG := Some w'\<rparr>, h'))))"

definition with_hp :: "(hp_state \<times> 'h, goerr, 'a) act \<Rightarrow> (engine \<times> 'h, goerr, 'a) act" where
  "with_hp m = (\<lambda>(e, h). case en_HP e of None \<Rightarrow> (Inl nil_panic, (e, h))
     | Some p \<Rightarrow> (case m (p, h) of (r, (p', h')) \<Rightarrow> (r, (e\<lparr>en_HP := Some p'\<rparr>, h'))))"

section \<open>Discovery\<close>

definition zero_state :: "ident \<Rightarrow> actual_state" where
  "zero_state i = \<lparr>as_NodeID = i, as_Tunnels = [], as_FirewallRules = [], as_HaproxyDigest = [],
     as_SniRoutes = [], as_TransportStates = [], as_Conflicts = [], as_DiscoveredAt = 0\<rparr>"

definition discover_fw :: "'h os \<Rightarrow> actual_state \<Rightarrow> (engine \<times> 'h, goerr, actual_state) act" where
  "discover_fw os st = (\<lambda>(e, h).
     if en_FW e = None then (Inr st, (e, h))
     else bindA (liftH (fw_Discover os)) (\<lambda>(rules, conflicts).
            returnA (st\<lparr>as_FirewallRules := rules, as_Conflicts := as_Conflicts st @ conflicts\<rparr>)) (e, h))"

definition discover_wg :: "'h os \<Rightarrow> desired_state \<Rightarrow> actual_state \<Rightarrow> (engine \<times> 'h, goerr, actual_state) act" where
  "discover_wg os desired st = (\<lambda>(e, h).
     if en_WG e = None then (Inr st, (e, h))
     else bindA (liftH (wg_Discover os (d_Tunnels desired))) (\<lambda>(tuns, conflicts).
            returnA (st\<lparr>as_Tunnels := as_Tunnels st @ tuns, as_Conflicts := as_Conflicts st @ conflicts\<rparr>)) (e, h))"

definition discover_ssh :: "'h os \<Rightarrow> desired_state \<Rightarrow> actual_state \<Rightarrow> (engine \<times> 'h, goerr, actual_state) act" where
  "discover_ssh os desired st = (\<lambda>(e, h).
     if \<not> en_SSH e then (Inr st, (e, h))
     else forA (\<lambda>t st. if t_Type t \<noteq> TunnelSSHTUN then returnA st
            else bindA (liftH (ssh_Discover os t)) (\<lambda>(act, conflicts).
              returnA (st\<lparr>as_Tunnels := as_Tunnels st @ [act], as_Conflicts := as_Conflicts st @ conflicts\<rparr>)))
          (d_Tunnels desired) st (e, h))"

definition discover_hp :: "'h os \<Rightarrow> desired_state \<Rightarrow> actual_state \<Rightarrow> (engine \<times> 'h, goerr, actual_state) act" where
  "discover_hp os desired st = (\<lambda>(e, h).
     case en_HP e of
       None \<Rightarrow> (Inr st, (e, h))
     | Some p \<Rightarrow>
         bindA (liftH (hp_Discover os p (d_SniRoutes desired))) (\<lambda>(digest, routes, conflicts).
           returnA (st\<lparr>as_HaproxyDigest := digest, as_SniRoutes := routes,
                        as_Conflicts := as_Conflicts st @ conflicts\<rparr>)) (e, h))"

definition engine_Discover :: "'h os \<Rightarrow> desired_state \<Rightarrow> (engine \<times> 'h, goerr, actual_state) act" where
  "engine_Discover os desired =
     bindA (discover_fw os (zero_state (n_ID (d_Node desired)))) (\<lambda>st.
     bindA (discover_wg os desired st) (\<lambda>st.
     bindA (discover_ssh os desired st) (\<lambda>st. discover_hp os desired st)))"

section \<open>Checking a plan\<close>

text \<open>A tunnel missing from the desired ones is Go's zero tunnel, whose type is empty.\<close>

definition type_of_id :: "desired_state \<Rightarrow> string \<Rightarrow> string" where
  "type_of_id desired i = (case index_by t_ID (d_Tunnels desired) i of Some t \<Rightarrow> t_Type t | None \<Rightarrow> [])"

definition validate_action :: "engine \<Rightarrow> desired_state \<Rightarrow> action \<Rightarrow> goerr option" where
  "validate_action e desired a =
     (if ac_Target a = ''firewall'' then
        (if en_FW e = None then Some (NotImplemented ''firewall manager is not configured'') else None)
      else if ac_Target a = ''tunnel'' then
        (if ac_Kind a = KindDelete then None
         else if type_of_id desired (ac_ID a) = TunnelWireGuard then
           (if en_WG e = None then Some (NotImplemented ''wireguard manager is not configured'') else None)
         else if type_of_id desired (ac_ID a) = TunnelSSHTUN then
           (if \<not> en_SSH e then Some (NotImplemented ''SSH_TUN apply is not enabled'') else None)
         else Some (NotImplemented ''unknown tunnel type''))
      else if ac_Target a = ''haproxy'' then
        (if en_HP e = None then Some (NotImplemented ''HAProxy manager is not configured'') else None)
      else Some (NotImplemented (''unknown plan target '' @ ac_Target a)))"

definition validatePlan :: "engine \<Rightarrow> plan \<Rightarrow> desired_state \<Rightarrow> goerr option" where
  "validatePlan e plan desired = first_err (map (validate_action e desired) (pl_Actions plan))"

section \<open>Applying a plan\<close>

definition ifaceFromBefore :: "string \<Rightarrow> string" where
  "ifaceFromBefore s =
     (case Index s ''if='' of
        None \<Rightarrow> []
      | Some i \<Rightarrow> (case Fields (drop (i + 3) s) of [] \<Rightarrow> [] | f # _ \<Rightarrow> f))"

definition apply_tunnel :: "'h os \<Rightarrow> desired_state \<Rightarrow> action \<Rightarrow> (engine \<times> 'h, goerr, unit) act" where
  "apply_tunnel os desired a =
     (if ac_Target a \<noteq> ''tunnel'' then returnA ()
      else if ac_Kind a = KindDelete then
        (let iface = ifaceFromBefore (ac_Before a)
         in if iface = [] then failA (Plain ''cannot delete tunnel without interface name'')
            else with_wg (liftH (wg_Delete os iface)))
      else case index_by t_ID (d_Tunnels desired) (ac_ID a) of
             None \<Rightarrow> failA (Plain (''plan references missing tunnel '' @ ac_ID a))
           | Some t \<Rightarrow>
               if t_Type t = TunnelWireGuard then with_wg (wg_Apply os t)
               else if t_Type t = TunnelSSHTUN then
                 (\<lambda>(e, h). if en_SSH e then liftH (ssh_Apply os t) (e, h) else (Inl nil_panic, (e, h)))
               else returnA ())"

definition apply_tunnels :: "'h os \<Rightarrow> plan \<Rightarrow> desired_state \<Rightarrow> (engine \<times> 'h, goerr, unit) act" where
  "apply_tunnels os plan desired = forA (\<lambda>a _. apply_tunnel os desired a) (pl_Actions plan) ()"

definition needs_haproxy :: "engine \<Rightarrow> plan \<Rightarrow> bool" where
  "needs_haproxy e plan \<longleftrightarrow> en_HP e \<noteq> None \<and> list_ex (\<lambda>a. ac_Target a = ''haproxy'') (pl_Actions plan)"

definition apply_haproxy :: "'h os \<Rightarrow> plan \<Rightarrow> desired_state \<Rightarrow> (engine \<times> 'h, goerr, unit) act" where
  "apply_haproxy os plan desired = (\<lambda>(e, h).
     if needs_haproxy e plan then with_hp (hp_Apply os (d_SniRoutes desired) (d_Backends desired)) (e, h)
     else (Inr (), (e, h)))"

definition apply_firewall :: "'h os \<Rightarrow> plan \<Rightarrow> desired_state \<Rightarrow> (engine \<times> 'h, goerr, unit) act" where
  "apply_firewall os plan desired = (\<lambda>(e, h).
     let fwPlan = \<lparr>pl_Actions = filter (\<lambda>a. ac_Target a = ''firewall'') (pl_Actions plan), pl_Conflicts = []\<rparr>
     in if en_FW e \<noteq> None \<and> \<not> Plan_Empty fwPlan
        then with_fw (fw_Apply os fwPlan (d_Mappings desired) (d_Backends desired)) (e, h)
        else (Inr (), (e, h)))"

text \<open>The desired state behind the call: the HAProxy stage, when reached, normalised the matches.\<close>

definition routes_normalized :: "desired_state \<Rightarrow> desired_state" where
  "routes_normalized desired = desired\<lparr>d_SniRoutes := snd (validate_routes (d_SniRoutes desired))\<rparr>"

definition applyPlan :: "'h os \<Rightarrow> plan \<Rightarrow> desired_state \<Rightarrow> engine \<times> 'h \<Rightarrow> ((goerr + unit) \<times> desired_state) \<times> engine \<times> 'h" where
  "applyPlan os plan desired s =
     (case apply_tunnels os plan desired s of
        (Inl e, s1) \<Rightarrow> ((Inl e, desired), s1)
      | (Inr _, s1) \<Rightarrow>
          (let d = (if needs_haproxy (fst s1) plan then routes_normalized desired else desired)
           in case apply_haproxy os plan desired s1 of
                (Inl e, s2) \<Rightarrow> ((Inl e, d), s2)
              | (Inr _, s2) \<Rightarrow> (case apply_firewall os plan d s2 of (r, s3) \<Rightarrow> ((r, d), s3))))"

section \<open>Rollback\<close>

text \<open>A step of the rollback: its error is noted behind a prefix and the next step runs.\<close>

definition noting :: "string \<Rightarrow> ('s, goerr, unit) act \<Rightarrow> string list \<Rightarrow> 's \<Rightarrow> string list \<times> 's" where
  "noting pre m errs s = (case m s of (Inl e, s') \<Rightarrow> (errs @ [pre @ err_text e], s') | (Inr _, s') \<Rightarrow> (errs, s'))"

fun rollback_ifaces :: "'h os \<Rightarrow> string list \<Rightarrow> string list \<Rightarrow> 'h \<Rightarrow> string list \<times> 'h" where
  "rollback_ifaces os [] errs h = (errs, h)"
| "rollback_ifaces os (i # is) errs h =
     (case noting (''wireguard '' @ i @ '': '') (RollbackCreate os i) errs h of (errs', h') \<Rightarrow> rollback_ifaces os is errs' h')"

definition engine_rollback :: "'h os \<Rightarrow> (engine \<times> 'h, goerr, unit) act" where
  "engine_rollback os s0 =
     (let (errs1, s1) = (if en_HP (fst s0) \<noteq> None then noting ''haproxy: '' (with_hp (hp_Rollback os)) [] s0 else ([], s0));
          (errs2, s2) = (if en_FW (fst s1) \<noteq> None then noting ''firewall: '' (with_fw (fw_Rollback os)) errs1 s1 else (errs1, s1));
          (errs3, s3) = (case en_WG (fst s2) of
             None \<Rightarrow> (errs2, s2)
           | Some w \<Rightarrow> (case rollback_ifaces os (CreatedIfaces w) errs2 (snd s2) of (errs, h) \<Rightarrow> (errs, (fst s2, h))))
      in if errs3 \<noteq> [] then (Inl (Plain (Join errs3 ''; '')), s3) else (Inr (), s3))"

section \<open>The round\<close>

record result =
  re_Plan :: plan
  re_Actual :: actual_state
  re_Applied :: bool
  re_Rolled :: bool

definition zero_result :: result where
  "zero_result = \<lparr>re_Plan = \<lparr>pl_Actions = [], pl_Conflicts = []\<rparr>, re_Actual = zero_state [],
     re_Applied = False, re_Rolled = False\<rparr>"

definition begin_tx :: "engine \<Rightarrow> engine" where
  "begin_tx e = e\<lparr>en_WG := map_option BeginTx (en_WG e)\<rparr>"

text \<open>The part behind a successful apply: discover again and compare.\<close>

definition engine_verify :: "'h os \<Rightarrow> plan \<Rightarrow> actual_state \<Rightarrow> desired_state \<Rightarrow> engine \<times> 'h \<Rightarrow>
    (result \<times> goerr option) \<times> engine \<times> 'h" where
  "engine_verify os plan actual desired s =
     (case engine_Discover os desired s of
        (Inl err, s1) \<Rightarrow>
          ((\<lparr>re_Plan = plan, re_Actual = actual, re_Applied = False, re_Rolled = True\<rparr>,
            Some (wrapf ''verify discover failed, rolled back: '' err [])), snd (engine_rollback os s1))
      | (Inr aft, s1) \<Rightarrow>
          (let verify = Diff desired aft
           in if \<not> Plan_Empty verify \<or> HasConflicts verify
              then ((\<lparr>re_Plan = plan, re_Actual = aft, re_Applied = False, re_Rolled = True\<rparr>,
                     Some (ErrConflict (''verify failed after apply:'' @ nl @ Plan_String verify))),
                    snd (engine_rollback os s1))
              else ((\<lparr>re_Plan = plan, re_Actual = aft, re_Applied = True, re_Rolled = False\<rparr>, None), s1)))"

definition Reconcile :: "'h os \<Rightarrow> desired_state \<Rightarrow> bool \<Rightarrow> engine \<times> 'h \<Rightarrow>
    (result \<times> goerr option \<times> desired_state) \<times> engine \<times> 'h" where
  "Reconcile os desired dryRun s =
     (case engine_Discover os desired s of
        (Inl err, s1) \<Rightarrow> ((zero_result, Some err, desired), s1)
      | (Inr actual, s1) \<Rightarrow>
          (let plan = Diff desired actual;
               res = \<lparr>re_Plan = plan, re_Actual = actual, re_Applied = False, re_Rolled = False\<rparr>
           in if HasConflicts plan then ((res, Some (ErrConflict (Plan_String plan)), desired), s1)
              else if Plan_Empty plan \<or> dryRun then ((res, None, desired), s1)
              else case validatePlan (fst s1) plan desired of
                Some err \<Rightarrow> ((res, Some err, desired), s1)
              | None \<Rightarrow>
                  (case applyPlan os plan desired (begin_tx (fst s1), snd s1) of
                     ((Inl err, d), s2) \<Rightarrow>
                       (case engine_rollback os s2 of
                          (Inl rbErr, s3) \<Rightarrow>
                            ((res, Some (wrapf (''apply failed: '' @ err_text err @ ''; rollback failed: '') rbErr []), d), s3)
                        | (Inr _, s3) \<Rightarrow>
                            ((res\<lparr>re_Rolled := True\<rparr>, Some (wrapf ''apply failed, rolled back: '' err []), d), s3))
                   | ((Inr _, d), s2) \<Rightarrow>
                       (case engine_verify os plan actual d s2 of ((r, err), s3) \<Rightarrow> ((r, err, d), s3)))))"

end
