(* ===== verification/TestHost.thy ===== *)
theory TestHost
  imports CmdExec "HOL-Library.AList"
begin

text \<open>
  The in-memory host of the repository (src/internal/testhost/host.go): a simulator of iptables, ip,
  wg, haproxy, systemctl and ping that implements the \<open>CommandRunner\<close> interface. It is the concrete
  host of the development: \<open>th_os\<close> packs it as an \<open>'h os\<close>.

  Go's maps are association lists, so the order of a listing over a map is the order of insertion
  (Go leaves it open). The tests run the agent's file operations on a real directory; here the host
  carries a small file system, a clock and the set of addresses that refuse a dial. An index out of
  range in the simulator, a panic in Go, is the error \<open>panic\<close>.
\<close>

record link =
  l_Name :: string
  l_Kind :: string
  l_Up :: bool
  l_Addrs :: "string list"
  l_Listen :: int
  l_PrivPath :: string
  l_PublicKey :: string
  l_PeerKey :: string
  l_Endpoint :: string
  l_Allowed :: string
  l_Keepalive :: int
  l_Handshake :: int
  l_Rx :: nat
  l_Tx :: nat

definition new_link :: "string \<Rightarrow> string \<Rightarrow> link" where
  "new_link name kind =
     \<lparr>l_Name = name, l_Kind = kind, l_Up = False, l_Addrs = [], l_Listen = 0, l_PrivPath = [],
      l_PublicKey = [], l_PeerKey = [], l_Endpoint = [], l_Allowed = [], l_Keepalive = 0,
      l_Handshake = 0, l_Rx = 0, l_Tx = 0\<rparr>"

type_synonym chains = "(string \<times> string list) list"

record host =
  h_NAT :: chains
  h_Filter :: chains
  h_Links :: "(string \<times> link) list"
  h_FailOn :: string
  h_Calls :: "string list list"
  h_Units :: "(string \<times> string) list"
  h_Unreachable :: "string list"
  h_Files :: "(string \<times> string) list"
  h_Now :: gotime
  h_Refused :: "string list"

definition new_host :: host where
  "new_host =
     \<lparr>h_NAT = [(''PREROUTING'', []), (''POSTROUTING'', [])],
      h_Filter = [(''FORWARD'', []), (''INPUT'', []), (''OUTPUT'', [])],
      h_Links = [], h_FailOn = [], h_Calls = [], h_Units = [], h_Unreachable = [],
      h_Files = [], h_Now = 1, h_Refused = []\<rparr>"

definition okR :: "string \<Rightarrow> host \<Rightarrow> cmd_result \<times> host" where
  "okR out h = ((out, [], None), h)"

definition errR :: "string \<Rightarrow> string \<Rightarrow> host \<Rightarrow> cmd_result \<times> host" where
  "errR errb msg h = (([], errb, Some (Plain msg)), h)"

text \<open>A slice of strings printed with \<open>%v\<close>.\<close>

definition show_args :: "string list \<Rightarrow> string" where
  "show_args args = ''['' @ Join args '' '' @ '']''"

definition lf :: string where "lf = [CHR 0x0A]"

section \<open>iptables\<close>

definition th_table :: "string \<Rightarrow> host \<Rightarrow> chains" where
  "th_table name h = (if name = ''nat'' then h_NAT h else h_Filter h)"

definition set_table :: "string \<Rightarrow> chains \<Rightarrow> host \<Rightarrow> host" where
  "set_table name cs h = (if name = ''nat'' then h\<lparr>h_NAT := cs\<rparr> else h\<lparr>h_Filter := cs\<rparr>)"

definition chain_rules :: "chains \<Rightarrow> string \<Rightarrow> string list" where
  "chain_rules cs c = (case map_of cs c of Some rs \<Rightarrow> rs | None \<Rightarrow> [])"

definition th_iptables_cmd :: "string \<Rightarrow> string list \<Rightarrow> host \<Rightarrow> cmd_result \<times> host" where
  "th_iptables_cmd table rest h =
     (let cs = th_table table h in
      case rest of
        [] \<Rightarrow> errR [] ''iptables: no command'' h
      | op # args \<Rightarrow>
          if op \<notin> set [''-N'', ''-S'', ''-A'', ''-D'', ''-C'', ''-L''] then
            errR [] (''unsupported iptables op '' @ op) h
          else case args of
            [] \<Rightarrow> errR [] (''iptables '' @ op @ (if op = ''-N'' \<or> op = ''-S'' then '' needs chain'' else [])) h
          | chain # spec \<Rightarrow>
              let rule = Join spec '' '' in
              if op = ''-N'' then
                (if map_of cs chain \<noteq> None then errR ''Chain already exists'' ''exists'' h
                 else okR [] (set_table table (AList.update chain [] cs) h))
              else if op = ''-S'' then
                (case map_of cs chain of
                   None \<Rightarrow> errR ''iptables: No chain/target/match by that name.'' ''no chain'' h
                 | Some rs \<Rightarrow> okR (''-N '' @ chain @ lf @ concat (map (\<lambda>r. ''-A '' @ chain @ '' '' @ r @ lf) rs)) h)
              else if op = ''-A'' then
                (case map_of cs chain of
                   None \<Rightarrow> errR ''No chain/target/match by that name.'' ''no chain'' h
                 | Some rs \<Rightarrow> okR [] (set_table table (AList.update chain (rs @ [rule]) cs) h))
              else if op = ''-D'' then
                (if rule \<in> set (chain_rules cs chain)
                 then okR [] (set_table table (AList.update chain (remove1 rule (chain_rules cs chain)) cs) h)
                 else errR ''Bad rule'' ''no matching rule'' h)
              else if op = ''-C'' then
                (if rule \<in> set (chain_rules cs chain) then okR [] h else errR ''Bad rule'' ''check failed'' h)
              else
                (case map_of cs chain of
                   None \<Rightarrow> errR ''No chain/target/match by that name.'' ''no chain'' h
                 | Some rs \<Rightarrow> okR (''Chain '' @ chain @ '' (0 references)'' @ lf @ '' pkts bytes target'' @ lf @
                                concat (map (\<lambda>r. ''    0     0 '' @ r @ lf) rs)) h))"

definition th_iptables :: "string list \<Rightarrow> host \<Rightarrow> cmd_result \<times> host" where
  "th_iptables args h =
     (case args of
        f # t # rest \<Rightarrow> if f = ''-t'' then th_iptables_cmd t rest h else th_iptables_cmd ''filter'' args h
      | _ \<Rightarrow> th_iptables_cmd ''filter'' args h)"

definition save_chains :: "chains \<Rightarrow> string" where
  "save_chains cs =
     concat (map (\<lambda>(c, rs). '':'' @ c @ '' - [0:0]'' @ lf @
                  concat (map (\<lambda>r. ''-A '' @ c @ '' '' @ r @ lf) rs)) cs)"

definition th_save :: "host \<Rightarrow> string" where
  "th_save h =
     ''*nat'' @ lf @ save_chains (h_NAT h) @ ''COMMIT'' @ lf @ ''*filter'' @ lf @
     save_chains (h_Filter h) @ ''COMMIT'' @ lf"

text \<open>\<open>strings.SplitN(line, " ", 3)\<close>: at most three pieces, the last one unsplit.\<close>

definition split3 :: "string \<Rightarrow> (string \<times> string \<times> string) option" where
  "split3 s =
     (case IndexByte s (CHR '' '') of None \<Rightarrow> None
      | Some i \<Rightarrow>
          let r = drop (i + 1) s
          in case IndexByte r (CHR '' '') of None \<Rightarrow> None
             | Some j \<Rightarrow> Some (take i s, take j r, drop (j + 1) r))"

text \<open>One line of \<open>restore\<close>; \<open>None\<close> for a chain line without a name, where Go indexes an empty slice.\<close>

definition restore_line :: "string \<Rightarrow> string \<times> host \<Rightarrow> (string \<times> host) option" where
  "restore_line line0 = (\<lambda>(table, h).
     let line = TrimSpace line0; known = (table = ''nat'' \<or> table = ''filter'')
     in if line = ''*nat'' then Some (''nat'', h)
        else if line = ''*filter'' then Some (''filter'', h)
        else if HasPrefix line '':'' then
          (case Fields (drop 1 line) of
             [] \<Rightarrow> None
           | name # _ \<Rightarrow> Some (table, if known then set_table table (AList.update name [] (th_table table h)) h else h))
        else if HasPrefix line ''-A '' then
          (case split3 line of
             None \<Rightarrow> Some (table, h)
           | Some (_, c, rule) \<Rightarrow>
               Some (table, if known
                       then set_table table (AList.update c (chain_rules (th_table table h) c @ [rule]) (th_table table h)) h
                       else h))
        else Some (table, h))"

definition th_restore :: "string \<Rightarrow> host \<Rightarrow> cmd_result \<times> host" where
  "th_restore stdin h =
     (case fold (\<lambda>l acc. Option.bind acc (restore_line l)) (Split stdin (CHR 0x0A)) (Some ([], h\<lparr>h_NAT := [], h_Filter := []\<rparr>)) of
        Some (_, h') \<Rightarrow> okR [] h'
      | None \<Rightarrow> errR [] ''panic'' h)"

section \<open>ip and wg\<close>

text \<open>The value behind the last occurrence of a flag, as the loops over the arguments find it.\<close>

fun flag_value :: "string \<Rightarrow> string list \<Rightarrow> string \<Rightarrow> string" where
  "flag_value f (a # v # rest) acc = flag_value f (v # rest) (if a = f then v else acc)"
| "flag_value f args acc = acc"

definition link_line :: "link \<Rightarrow> string" where
  "link_line l = ''1: '' @ l_Name l @ '': <...,state '' @ (if l_Up l then ''UP'' else ''DOWN'') @ ''>'' @ lf"

definition no_device :: "host \<Rightarrow> cmd_result \<times> host" where
  "no_device h = errR ''Cannot find device'' ''cannot find device'' h"

definition th_ip_addr :: "string list \<Rightarrow> host \<Rightarrow> cmd_result \<times> host" where
  "th_ip_addr args h =
     (let dev = flag_value ''dev'' args [] in
      case args of
        [] \<Rightarrow> errR [] ''ip addr'' h
      | op # rest \<Rightarrow>
          if op = ''replace'' \<or> op = ''add'' then
            (case rest of
               [] \<Rightarrow> errR [] ''panic'' h
             | cidr # _ \<Rightarrow>
                 (case map_of (h_Links h) dev of
                    None \<Rightarrow> no_device h
                  | Some l \<Rightarrow> okR [] (h\<lparr>h_Links := AList.update dev (l\<lparr>l_Addrs := [cidr]\<rparr>) (h_Links h)\<rparr>)))
          else if op = ''show'' then
            (case map_of (h_Links h) dev of
               None \<Rightarrow> no_device h
             | Some l \<Rightarrow> okR (concat (map (\<lambda>a. ''1: '' @ l_Name l @ ''    inet '' @ a @ lf) (l_Addrs l))) h)
          else errR [] (''ip addr '' @ show_args args) h)"

definition th_ip_link :: "string list \<Rightarrow> host \<Rightarrow> cmd_result \<times> host" where
  "th_ip_link args h =
     (let name = flag_value ''dev'' args [] in
      case args of
        [] \<Rightarrow> errR [] ''ip link'' h
      | op # rest \<Rightarrow>
          if op = ''add'' then
            (if name = [] then errR [] ''ip link add: no dev'' h
             else if map_of (h_Links h) name \<noteq> None then errR ''File exists'' ''exists'' h
             else okR [] (h\<lparr>h_Links := AList.update name (new_link name (flag_value ''type'' args [])) (h_Links h)\<rparr>))
          else if op = ''delete'' \<or> op = ''del'' then
            (let n = (if name = [] \<and> rest \<noteq> [] then hd rest else name)
             in if map_of (h_Links h) n = None then no_device h
                else okR [] (h\<lparr>h_Links := AList.delete n (h_Links h)\<rparr>))
          else if op = ''set'' then
            (case rest of
               [] \<Rightarrow> errR [] ''panic'' h
             | n # _ \<Rightarrow>
                 (case map_of (h_Links h) n of
                    None \<Rightarrow> no_device h
                  | Some l \<Rightarrow> okR [] (h\<lparr>h_Links := AList.update n (l\<lparr>l_Up := (l_Up l \<or> ''up'' \<in> set args)\<rparr>) (h_Links h)\<rparr>)))
          else if op = ''show'' then
            (if name = [] then okR (concat (map (link_line \<circ> snd) (h_Links h))) h
             else case map_of (h_Links h) name of None \<Rightarrow> no_device h | Some l \<Rightarrow> okR (link_line l) h)
          else errR [] (''ip link '' @ show_args args) h)"

definition th_ip :: "string list \<Rightarrow> host \<Rightarrow> cmd_result \<times> host" where
  "th_ip args h =
     (case dropWhile (\<lambda>a. HasPrefix a ''-'') args of
        [] \<Rightarrow> errR [] ''ip: no args'' h
      | op # rest \<Rightarrow>
          if op = ''link'' then th_ip_link rest h
          else if op = ''addr'' then th_ip_addr rest h
          else errR [] (''ip: unsupported '' @ show_args args) h)"

text \<open>The loop of \<open>wgSet\<close>; \<open>None\<close> when a flag has no value behind it.\<close>

fun wg_set_args :: "string list \<Rightarrow> link \<Rightarrow> link option" where
  "wg_set_args [] l = Some l"
| "wg_set_args (a # rest) l =
     (if a \<notin> set [''listen-port'', ''private-key'', ''peer'', ''allowed-ips'', ''endpoint'', ''persistent-keepalive'']
      then wg_set_args rest l
      else case rest of
        [] \<Rightarrow> None
      | v # vs \<Rightarrow>
          wg_set_args vs
            (if a = ''listen-port'' then l\<lparr>l_Listen := fst (Atoi v)\<rparr>
             else if a = ''private-key'' then l\<lparr>l_PrivPath := v\<rparr>
             else if a = ''peer'' then l\<lparr>l_PeerKey := v\<rparr>
             else if a = ''allowed-ips'' then l\<lparr>l_Allowed := v\<rparr>
             else if a = ''endpoint'' then l\<lparr>l_Endpoint := v\<rparr>
             else l\<lparr>l_Keepalive := fst (Atoi v)\<rparr>))"

definition th_wg_set :: "string list \<Rightarrow> host \<Rightarrow> cmd_result \<times> host" where
  "th_wg_set args h =
     (case args of
        [] \<Rightarrow> errR [] ''wg set'' h
      | iface # rest \<Rightarrow>
          (case map_of (h_Links h) iface of
             None \<Rightarrow> errR ''No such device'' ''no such device'' h
           | Some l \<Rightarrow>
               (case wg_set_args rest l of
                  None \<Rightarrow> errR [] ''panic'' h
                | Some l' \<Rightarrow> okR [] (h\<lparr>h_Links := AList.update iface l' (h_Links h)\<rparr>))))"

definition emptyDash :: "string \<Rightarrow> string" where
  "emptyDash s = (if s = [] then ''(none)'' else s)"

definition wg_dump :: "link \<Rightarrow> string" where
  "wg_dump l =
     replicate 64 (CHR ''0'') @ '' '' @
     (if l_PublicKey l = [] then replicate 64 (CHR ''1'') else l_PublicKey l) @ '' '' @
     Itoa (l_Listen l) @ '' off'' @ lf @
     (if l_PeerKey l = [] then []
      else l_PeerKey l @ '' (none) '' @ emptyDash (l_Endpoint l) @ '' '' @ emptyDash (l_Allowed l) @ '' '' @
           Itoa (l_Handshake l) @ '' '' @ Itoa (int (l_Rx l)) @ '' '' @ Itoa (int (l_Tx l)) @ '' '' @
           Itoa (l_Keepalive l) @ lf)"

definition th_wg :: "string list \<Rightarrow> host \<Rightarrow> cmd_result \<times> host" where
  "th_wg args h =
     (case args of
        op # rest \<Rightarrow>
          if op = ''set'' then th_wg_set rest h
          else if op \<noteq> ''show'' then errR [] (''wg '' @ show_args args) h
          else (case rest of
            [] \<Rightarrow> errR [] (''wg '' @ show_args args) h
          | iface # flags \<Rightarrow>
              (case map_of (h_Links h) iface of
                 None \<Rightarrow> errR ''Unable to access interface: No such device'' ''no such device'' h
               | Some l \<Rightarrow>
                   if l_Kind l \<noteq> ''wireguard''
                   then errR ''Unable to access interface: No such device'' ''no such device'' h
                   else if flags \<noteq> [] \<and> hd flags = ''dump'' then okR (wg_dump l) h
                   else errR [] (''wg show '' @ show_args args) h))
      | [] \<Rightarrow> errR [] (''wg '' @ show_args args) h)"

section \<open>The other commands\<close>

definition th_haproxy :: "string list \<Rightarrow> host \<Rightarrow> cmd_result \<times> host" where
  "th_haproxy args h =
     (if args \<noteq> [] \<and> hd args = ''-c'' then okR (''Configuration file is valid'' @ lf) h
      else errR [] (''haproxy '' @ show_args args) h)"

definition unit_state :: "host \<Rightarrow> string \<Rightarrow> string" where
  "unit_state h u = (case map_of (h_Units h) u of Some s \<Rightarrow> if s = [] then ''inactive'' else s | None \<Rightarrow> ''inactive'')"

definition th_systemctl :: "string list \<Rightarrow> host \<Rightarrow> cmd_result \<times> host" where
  "th_systemctl args h =
     (case args of
        op # u # rest \<Rightarrow>
          if op = ''reload'' then okR [] h
          else if op = ''restart'' then errR [] ''restart is forbidden'' h
          else if op = ''is-active'' then
            (if unit_state h u = ''active'' then okR (''active'' @ lf) h
             else ((unit_state h u @ lf, [], Some (Plain ''inactive'')), h))
          else if op = ''start'' then okR [] (h\<lparr>h_Units := AList.update u ''active'' (h_Units h)\<rparr>)
          else if op = ''show'' then okR (''ActiveState='' @ unit_state h (last args) @ lf) h
          else errR [] (''systemctl '' @ show_args args) h
      | _ \<Rightarrow> errR [] (''systemctl '' @ show_args args) h)"

definition th_ping :: "string list \<Rightarrow> host \<Rightarrow> cmd_result \<times> host" where
  "th_ping args h =
     (if args = [] then errR [] ''panic'' h
      else if last args \<in> set (h_Unreachable h) then errR ''100% packet loss'' ''ping failed'' h
      else okR (''1 packets transmitted, 1 received'' @ lf) h)"

text \<open>\<open>exec\<close>: the allowlist, the call log, the one-shot injected failure, and the dispatch.\<close>

definition th_exec :: "string \<Rightarrow> string \<Rightarrow> string list \<Rightarrow> host \<Rightarrow> cmd_result \<times> host" where
  "th_exec stdin exe args h0 =
     (case ValidateExecutable exe of
        Some e \<Rightarrow> (([], [], Some e), h0)
      | None \<Rightarrow>
          let h = h0\<lparr>h_Calls := h_Calls h0 @ [exe # args]\<rparr>;
              joined = exe @ '' '' @ Join args '' ''
          in if h_FailOn h \<noteq> [] \<and> Contains joined (h_FailOn h)
             then errR ''injected failure'' (''injected failure: '' @ h_FailOn h) (h\<lparr>h_FailOn := []\<rparr>)
             else if exe = ''iptables'' then th_iptables args h
             else if exe = ''iptables-save'' then okR (th_save h) h
             else if exe = ''iptables-restore'' then th_restore stdin h
             else if exe = ''ip'' then th_ip args h
             else if exe = ''wg'' then th_wg args h
             else if exe = ''haproxy'' then th_haproxy args h
             else if exe = ''systemctl'' then th_systemctl args h
             else if exe = ''ping'' then th_ping args h
             else errR [] (''unexpected executable '' @ exe) h)"

definition MappingRuleCount :: "host \<Rightarrow> nat" where
  "MappingRuleCount h =
     length (filter (\<lambda>r. Contains r ''transitforge:mapping:'') (chain_rules (h_NAT h) ''TRANSITFORGE_DNAT''))"

text \<open>The file system, clock and dialer beside the simulator, and the whole host.\<close>

definition th_os :: "host os" where
  "th_os =
     \<lparr>os_run = th_exec,
      os_read = (\<lambda>p h. case map_of (h_Files h) p of Some b \<Rightarrow> FileData b | None \<Rightarrow> FileMissing),
      os_write = (\<lambda>p b h. (None, h\<lparr>h_Files := AList.update p b (h_Files h)\<rparr>)),
      os_rename = (\<lambda>p q h. case map_of (h_Files h) p of
          None \<Rightarrow> (Some (Plain ''no such file''), h)
        | Some b \<Rightarrow> (None, h\<lparr>h_Files := AList.update q b (AList.delete p (h_Files h))\<rparr>)),
      os_remove = (\<lambda>p h. (None, h\<lparr>h_Files := AList.delete p (h_Files h)\<rparr>)),
      os_mkdir = (\<lambda>p h. (None, h)),
      os_now = h_Now,
      os_stamp = (\<lambda>layout h. layout),
      os_dial = (\<lambda>net addr h. if addr \<in> set (h_Refused h) then Some (Plain ''connection refused'') else None)\<rparr>"

end
