(* ===== verification/FirewallText.thy ===== *)
theory FirewallText
  imports Firewall
begin

text \<open>
  The texts of the firewall: the lines iptables prints for the rules the manager adds are read back
  to exactly the specification the planner wants (\<open>dnat_line_spec\<close>), to the mapping's comment
  (\<open>parseComment_rule_line\<close>), and to the arguments a deletion needs (\<open>splitArgs_Join\<close>).
\<close>

section \<open>Words of a line\<close>

definition plain_char :: "char \<Rightarrow> bool" where
  "plain_char c \<longleftrightarrow> \<not> is_space c \<and> c \<noteq> CHR 0x22"

definition plain_word :: "string \<Rightarrow> bool" where
  "plain_word w \<longleftrightarrow> w \<noteq> [] \<and> list_all plain_char w"

lemma plain_word_word: "plain_word w \<Longrightarrow> word w"
  by (simp add: plain_word_def word_def list_all_iff plain_char_def)

lemma plain_word_append [simp]:
  "u \<noteq> [] \<Longrightarrow> v \<noteq> [] \<Longrightarrow> plain_word (u @ v) \<longleftrightarrow> plain_word u \<and> plain_word v"
  by (auto simp: plain_word_def)

lemma plain_word_Cons [simp]: "v \<noteq> [] \<Longrightarrow> plain_word (c # v) \<longleftrightarrow> plain_char c \<and> plain_word v"
  by (simp add: plain_word_def)

lemma plain_char_digit: "is_digit c \<Longrightarrow> plain_char c"
  by (auto simp: plain_char_def is_space_not) (simp add: is_digit_def)

lemma plain_word_Itoa [simp]: "plain_word (Itoa i)"
  by (auto simp: plain_word_def list_all_iff dest!: set_Itoa plain_char_digit)
    (simp add: plain_char_def is_space_def)

lemma plain_char_blank: "plain_char c \<Longrightarrow> c \<noteq> CHR '' '' \<and> c \<noteq> CHR 0x22"
  by (auto simp: plain_char_def)

lemma plain_word_no_blank: "plain_word w \<Longrightarrow> CHR '' '' \<notin> set w"
  by (auto simp: plain_word_def list_all_iff dest: plain_char_blank)

lemma split_args_word:
  assumes "list_all plain_char w"
  shows "split_args_loop cur False (w @ r) = split_args_loop (rev w @ cur) False r"
  using assms by (induction w arbitrary: cur) (auto dest: plain_char_blank)

lemma splitArgs_Join:
  assumes "\<forall>w \<in> set ws. plain_word w"
  shows "splitArgs (Join ws '' '') = ws"
  using assms
proof (induction ws)
  case (Cons w ws)
  then have w: "w \<noteq> []" "list_all plain_char w" by (auto simp: plain_word_def)
  show ?case
  proof (cases ws)
    case Nil
    with w split_args_word [of w "[]" "[]"] show ?thesis by (simp add: splitArgs_def)
  next
    case (Cons v vs)
    with Cons.IH Cons.prems have "split_args_loop [] False (Join ws '' '') = ws"
      by (simp add: splitArgs_def)
    with Cons w show ?thesis
      by (simp add: splitArgs_def split_args_word)
  qed
qed (simp add: splitArgs_def)

text \<open>
  The first place a needle \<open>n\<close> with a blank behind it occurs in a line: no word before it may end
  with \<open>n\<close>.
\<close>

definition ends_with :: "string \<Rightarrow> string \<Rightarrow> bool" where
  "ends_with w n \<longleftrightarrow> HasPrefix (rev w) (rev n)"

lemma ends_with_iff: "ends_with w n \<longleftrightarrow> (\<exists>u. w = u @ n)"
  unfolding ends_with_def HasPrefix_iff by (metis rev_append rev_rev_ident)

lemma HasPrefix_blank:
  assumes "CHR '' '' \<notin> set n" and "CHR '' '' \<notin> set u"
  shows "HasPrefix (u @ CHR '' '' # r) (n @ '' '') \<longleftrightarrow> u = n"
proof
  assume "HasPrefix (u @ CHR '' '' # r) (n @ '' '')"
  then obtain v where "u @ CHR '' '' # r = n @ CHR '' '' # v" by (auto simp: HasPrefix_iff)
  then show "u = n"
    using assms by (simp add: split_first_eq)
qed (simp add: HasPrefix_iff)

lemma Index_skip_word:
  assumes "CHR '' '' \<notin> set n" and "n \<noteq> []" and "CHR '' '' \<notin> set u" and "\<not> ends_with u n"
  shows "Index (u @ CHR '' '' # r) (n @ '' '') = map_option (\<lambda>i. length u + 1 + i) (Index r (n @ '' ''))"
  using assms(3,4)
proof (induction u)
  case Nil
  have "\<not> HasPrefix (CHR '' '' # r) (n @ '' '')" using HasPrefix_blank [of n "[]" r] assms by simp
  then show ?case by (cases "Index r (n @ '' '')") auto
next
  case (Cons c u)
  have "\<not> HasPrefix (c # u @ CHR '' '' # r) (n @ '' '')"
    using HasPrefix_blank [of n "c # u" r] Cons.prems assms by (auto simp: ends_with_iff)
  moreover have "\<not> ends_with u n" using Cons.prems by (auto simp: ends_with_iff)
  ultimately show ?case using Cons by (cases "Index r (n @ '' '')") auto
qed

lemma Index_word:
  assumes "CHR '' '' \<notin> set n" and "n \<noteq> []"
    and "\<forall>w \<in> set us. CHR '' '' \<notin> set w \<and> \<not> ends_with w n"
  shows "Index (concat (map (\<lambda>w. w @ '' '') us) @ n @ CHR '' '' # r) (n @ '' '') =
         Some (length (concat (map (\<lambda>w. w @ '' '') us)))"
  using assms(3)
proof (induction us)
  case Nil
  show ?case using Index_here [of "n @ '' ''" r] by simp
next
  case (Cons w us)
  then show ?case using Index_skip_word [OF assms(1,2), of w] by simp
qed

lemma Join_words: "ws \<noteq> [] \<Longrightarrow> Join (us @ ws) '' '' = concat (map (\<lambda>w. w @ '' '') us) @ Join ws '' ''"
  by (induction us) (auto simp: Join_Cons)

text \<open>The last place of a needle whose last character does not occur behind it.\<close>

lemma LastIndex_none_last:
  "n \<noteq> [] \<Longrightarrow> last n \<notin> set (drop (length n - 1) s) \<Longrightarrow> LastIndex s n = None"
proof (induction s)
  case (Cons c s)
  have "\<not> HasPrefix (c # s) n"
  proof
    assume "HasPrefix (c # s) n"
    then obtain r where "c # s = n @ r" by (auto simp: HasPrefix_iff)
    moreover obtain m a where "n = m @ [a]" using Cons.prems(1) by (cases n rule: rev_cases) auto
    ultimately show False using Cons.prems(2) by simp
  qed
  moreover have "last n \<notin> set (drop (length n - 1) s)"
  proof (cases "length n - 1")
    case (Suc m)
    then show ?thesis using Cons.prems(2) set_drop_subset_set_drop [of m "Suc m" s] by auto
  qed (use Cons.prems(2) in simp)
  ultimately show ?case using Cons by simp
qed simp

lemma LastIndex_found:
  assumes "n \<noteq> []" and "last n \<notin> set r"
  shows "LastIndex (u @ n @ r) n = Some (length u)"
proof -
  obtain c cs where n: "n = c # cs" using assms(1) by (cases n) auto
  have "LastIndex (cs @ r) n = None"
    by (rule LastIndex_none_last) (use assms n in simp_all)
  moreover have "HasPrefix (c # cs @ r) n" using HasPrefix_append [of n r] by (simp add: n)
  ultimately have "LastIndex (n @ r) n = Some 0" by (simp add: n)
  then show ?thesis using LastIndex_Some_append by fastforce
qed

section \<open>Lines of words\<close>

lemma Join_ends:
  assumes "ws \<noteq> []" and "\<forall>w \<in> set ws. w \<noteq> []"
  shows "Join ws sep \<noteq> [] \<and> hd (Join ws sep) = hd (hd ws) \<and> last (Join ws sep) = last (last ws)"
  using assms by (induction ws sep rule: Join.induct) auto

lemma TrimSpace_Join:
  assumes "\<forall>w \<in> set ws. word w"
  shows "TrimSpace (Join ws '' '') = Join ws '' ''"
proof (cases "ws = []")
  case False
  have w: "\<forall>w \<in> set ws. w \<noteq> []" using assms by (auto simp: word_def)
  have "word (hd ws)" "word (last ws)" using assms False by auto
  then have "\<not> is_space (hd (hd ws))" "\<not> is_space (last (last ws))" by (auto simp: word_def)
  then show ?thesis using Join_ends [OF False w, of "'' ''"] by (intro TrimSpace_id) simp
qed simp

lemma parseComment_words:
  assumes "\<forall>w \<in> set us. plain_word w \<and> \<not> ends_with w ''--comment''"
    and "plain_word cmt" and "\<forall>w \<in> set rest. plain_word w"
  shows "parseComment (Join (us @ ''--comment'' # cmt # rest) '' '') = cmt"
proof -
  let ?u = "concat (map (\<lambda>w. w @ '' '') us)" and ?t = "Join (cmt # rest) '' ''"
  have line: "Join (us @ ''--comment'' # cmt # rest) '' '' = ?u @ ''--comment'' @ CHR '' '' # ?t"
    by (subst Join_words) (simp_all add: Join_Cons)
  have ix: "Index (?u @ ''--comment'' @ CHR '' '' # ?t) comment_needle = Some (length ?u)"
    using Index_word [of "''--comment''" us ?t] assms(1) plain_word_no_blank
    by (simp add: comment_needle_def)
  have drop: "drop (length ?u + length comment_needle) (?u @ ''--comment'' @ CHR '' '' # ?t) = ?t"
    by (simp add: comment_needle_def)
  have words: "\<forall>w \<in> set (cmt # rest). word w" using assms(2,3) plain_word_word by auto
  have trim: "TrimSpace ?t = ?t" by (rule TrimSpace_Join [OF words])
  have fields: "Fields ?t = cmt # rest" by (rule Fields_Join [OF words])
  have "hd ?t = hd cmt" "?t \<noteq> []"
    using Join_ends [of "cmt # rest" "'' ''"] words by (auto simp: word_def)
  moreover have "hd cmt \<noteq> CHR 0x22" using assms(2) by (cases cmt) (auto simp: plain_word_def plain_char_def)
  ultimately have nq: "\<not> HasPrefix ?t [CHR 0x22]" by (cases ?t) auto
  show ?thesis
    unfolding parseComment_def line ix option.case drop trim by (simp add: nq fields Let_def)
qed

text \<open>The line \<open>iptables -S\<close> prints for a rule.\<close>

definition rule_line :: "iptables_rule \<Rightarrow> string" where
  "rule_line r = Join (''-A'' # ir_Chain r # ir_Args r) '' ''"

text \<open>
  The mappings the controller accepts: a protocol in upper case, ports in range, an identifier
  without blanks or quotes, and an address of digits and dots, which is what \<open>IPv4\<close> lets through.
\<close>

definition addr_word :: "string \<Rightarrow> bool" where
  "addr_word a \<longleftrightarrow> a \<noteq> [] \<and> list_all (\<lambda>c. is_digit c \<or> c = CHR ''.'') a"

definition wf_mapping :: "port_mapping \<Rightarrow> string \<Rightarrow> bool" where
  "wf_mapping mp addr \<longleftrightarrow>
     (m_Protocol mp = ProtoTCP \<or> m_Protocol mp = ProtoUDP) \<and>
     1 \<le> m_PublicPort mp \<and> m_PublicPort mp \<le> 65535 \<and> 1 \<le> m_BackendPort mp \<and> m_BackendPort mp \<le> 65535 \<and>
     plain_word (m_ID mp) \<and> addr_word addr"

lemma Join_dots_addr: "\<forall>w \<in> set ws. list_all is_digit w \<Longrightarrow> list_all (\<lambda>c. is_digit c \<or> c = CHR ''.'') (Join ws ''.'')"
  by (induction ws "''.''" rule: Join.induct) (auto simp: list_all_iff)

lemma IPv4_addr_word:
  assumes "IPv4 a = None" and "TrimSpace a = a"
  shows "addr_word a"
proof -
  obtain bs where "parse_ipv4 a = Some bs" "a \<noteq> []"
    using assms by (auto simp: IPv4_def Let_def errf_def ParseAddr_def parse_ipv6_def
        split: if_splits option.splits ip_addr.splits)
  then have a: "a = dotted bs" "a \<noteq> []" by (auto simp: parse_ipv4_iff)
  have "\<forall>w \<in> set (map nat_digits bs). list_all is_digit w"
    by (auto simp: list_all_iff dest: nat_digits_is_digit)
  then show ?thesis using Join_dots_addr a by (simp add: addr_word_def dotted_def)
qed

lemma addr_plain_char: "is_digit c \<or> c = CHR ''.'' \<Longrightarrow> plain_char c"
  by (auto simp: plain_char_digit) (simp add: plain_char_def is_space_def)

lemma addr_plain_word: "addr_word a \<Longrightarrow> plain_word a"
  by (auto simp: addr_word_def plain_word_def list_all_iff intro: addr_plain_char)

lemma addr_word_hd: "addr_word a \<Longrightarrow> a = c # cs \<Longrightarrow> is_digit c \<or> c = CHR ''.''"
  by (simp add: addr_word_def)

lemma ends_with_last: "n \<noteq> [] \<Longrightarrow> w \<noteq> [] \<Longrightarrow> last w \<noteq> last n \<Longrightarrow> \<not> ends_with w n"
  by (auto simp: ends_with_iff)

lemma addr_not_comment: "addr_word a \<Longrightarrow> \<not> ends_with a ''--comment''"
  by (rule ends_with_last) (auto simp: addr_word_def list_all_iff is_digit_def dest!: last_in_set)

lemma Itoa_nonneg_digits: "0 \<le> p \<Longrightarrow> c \<in> set (Itoa p) \<Longrightarrow> is_digit c"
  by (auto simp: Itoa_def dest: nat_digits_is_digit)

lemma Itoa_addr_word: "0 \<le> p \<Longrightarrow> addr_word (Itoa p)"
  using Itoa_nonneg_digits by (auto simp: addr_word_def list_all_iff)

lemma addr_word_not_dash: "addr_word a \<Longrightarrow> a \<noteq> CHR ''-'' # s"
  by (auto simp: addr_word_def is_digit_def)

lemma plain_word_comment: "plain_word i \<Longrightarrow> plain_word (MappingComment i)"
  by (simp add: MappingComment_def plain_word_def plain_char_def is_space_def)

lemma wf_mapping_words:
  assumes "wf_mapping mp addr" and "r \<in> set (mapping_rules mp addr)"
  shows "\<forall>w \<in> set (''-A'' # ir_Chain r # ir_Args r). plain_word w"
proof -
  have a: "plain_word addr" "addr \<noteq> []" and c: "plain_word (MappingComment (m_ID mp))"
    using assms(1) addr_plain_word plain_word_comment by (auto simp: wf_mapping_def addr_word_def)
  have "plain_char (CHR '':'')" by (simp add: plain_char_def is_space_def)
  with a have d: "plain_word (addr @ '':'' @ Itoa (m_BackendPort mp))" by simp
  have pr: "plain_word (ToLower (m_Protocol mp))"
    using assms(1) by (auto simp: wf_mapping_def ProtoTCP_def ProtoUDP_def plain_word_def plain_char_def
        is_space_def)
  have l: "plain_word ''-A''" "plain_word ''-p''" "plain_word ''-m''" "plain_word ''-d''" "plain_word ''-j''"
    "plain_word ''--dport''" "plain_word ''comment''" "plain_word ''--comment''" "plain_word ''DNAT''"
    "plain_word ''--to-destination''" "plain_word ''ACCEPT''" "plain_word ''MASQUERADE''"
    "plain_word ChainDNAT" "plain_word ChainForward" "plain_word ChainSNAT"
    by (simp_all add: plain_word_def plain_char_def is_space_def ChainDNAT_def ChainForward_def ChainSNAT_def)
  show ?thesis using assms(2) a c d pr l by (auto simp: mapping_rules_def Let_def)
qed

text \<open>The comment of each of the three rules of a mapping.\<close>

lemma parseComment_rule_line:
  assumes wf: "wf_mapping mp addr" and r: "r \<in> set (mapping_rules mp addr)"
  shows "parseComment (rule_line r) = MappingComment (m_ID mp)"
proof -
  note words = wf_mapping_words [OF wf r]
  have a: "addr_word addr" "addr_word (Itoa (m_PublicPort mp))" "addr_word (Itoa (m_BackendPort mp))"
    using wf Itoa_addr_word by (auto simp: wf_mapping_def)
  have ne: "\<not> ends_with addr ''--comment''" "\<not> ends_with (Itoa (m_PublicPort mp)) ''--comment''"
    "\<not> ends_with (Itoa (m_BackendPort mp)) ''--comment''"
    using addr_not_comment a by blast+
  have pe: "\<not> ends_with (ToLower (m_Protocol mp)) ''--comment''"
    using wf by (auto simp: wf_mapping_def ProtoTCP_def ProtoUDP_def ends_with_def)
  obtain us rest where split: "''-A'' # ir_Chain r # ir_Args r =
      us @ ''--comment'' # MappingComment (m_ID mp) # rest"
    and us: "\<forall>w \<in> set us. \<not> ends_with w ''--comment''"
  proof -
    let ?lit = "[''-A'', ''-p'', ''-m'', ''--dport'', ''comment'', ''-d'', ChainDNAT, ChainForward, ChainSNAT]"
    have lit: "\<forall>w \<in> set ?lit. \<not> ends_with w ''--comment''"
      by (simp add: ends_with_def ChainDNAT_def ChainForward_def ChainSNAT_def)
    let ?p = "ToLower (m_Protocol mp)"
    consider "r = mapping_rules mp addr ! 0" | "r = mapping_rules mp addr ! 1" | "r = mapping_rules mp addr ! 2"
      using r by (auto simp: mapping_rules_def Let_def)
    then show ?thesis
    proof cases
      case 1
      show ?thesis
        by (rule that [of "[''-A'', ChainDNAT, ''-p'', ?p, ''-m'', ?p, ''--dport'', Itoa (m_PublicPort mp),
              ''-m'', ''comment'']"]) (use 1 ne pe lit in \<open>auto simp: mapping_rules_def Let_def\<close>)
    next
      case 2
      show ?thesis
        by (rule that [of "[''-A'', ChainForward, ''-p'', ?p, ''-m'', ?p, ''-d'', addr, ''--dport'',
              Itoa (m_BackendPort mp), ''-m'', ''comment'']"])
          (use 2 ne pe lit in \<open>auto simp: mapping_rules_def Let_def\<close>)
    next
      case 3
      show ?thesis
        by (rule that [of "[''-A'', ChainSNAT, ''-p'', ?p, ''-m'', ?p, ''-d'', addr, ''--dport'',
              Itoa (m_BackendPort mp), ''-m'', ''comment'']"])
          (use 3 ne pe lit in \<open>auto simp: mapping_rules_def Let_def\<close>)
    qed
  qed
  show ?thesis
    unfolding rule_line_def split by (rule parseComment_words) (use words us in \<open>auto simp: split\<close>)
qed

lemma MappingComment_managed [simp]: "isManagedMappingComment (MappingComment i)"
  by (simp add: isManagedMappingComment_def MappingComment_def)

lemma ToUpper_ToLower_proto:
  "p = ProtoTCP \<or> p = ProtoUDP \<Longrightarrow> ToUpper (ToLower p) = p"
  by (auto simp: ProtoTCP_def ProtoUDP_def)

lemma scan_dnat:
  assumes "wf_mapping mp addr"
  shows "scan_fields (''-A'' # ir_Chain (hd (mapping_rules mp addr)) # ir_Args (hd (mapping_rules mp addr))) ([], 0, []) =
         (m_Protocol mp, m_PublicPort mp, addr @ '':'' @ Itoa (m_BackendPort mp))"
proof -
  have p: "m_Protocol mp = ProtoTCP \<or> m_Protocol mp = ProtoUDP" using assms by (simp add: wf_mapping_def)
  then have up: "ToUpper (ToLower (m_Protocol mp)) = m_Protocol mp" by (rule ToUpper_ToLower_proto)
  have lp: "ToLower (m_Protocol mp) \<noteq> CHR ''-'' # s" for s
    using p by (auto simp: ProtoTCP_def ProtoUDP_def)
  have ports: "Itoa (m_PublicPort mp) \<noteq> CHR ''-'' # s" for s
    using assms by (intro addr_word_not_dash Itoa_addr_word) (simp add: wf_mapping_def)
  have at: "fst (Atoi (Itoa (m_PublicPort mp))) = m_PublicPort mp"
    using assms by (subst Atoi_Itoa) (auto simp: wf_mapping_def)
  show ?thesis
    by (simp add: mapping_rules_def Let_def MappingComment_def ChainDNAT_def up lp ports at)
qed

lemma dnat_line_parsed:
  assumes "wf_mapping mp addr"
  shows "specFromSaveLine (rule_line (hd (mapping_rules mp addr))) (MappingComment (m_ID mp)) = spec_line mp addr"
proof -
  let ?r = "hd (mapping_rules mp addr)"
  have r: "?r \<in> set (mapping_rules mp addr)" by (simp add: mapping_rules_def Let_def)
  have "\<forall>w \<in> set (''-A'' # ir_Chain ?r # ir_Args ?r). word w"
    using wf_mapping_words [OF assms r] plain_word_word by blast
  then have fields: "Fields (rule_line ?r) = ''-A'' # ir_Chain ?r # ir_Args ?r"
    unfolding rule_line_def by (rule Fields_Join)
  have "m_Protocol mp \<noteq> []" "0 < m_PublicPort mp" "addr \<noteq> []"
    using assms by (auto simp: wf_mapping_def ProtoTCP_def ProtoUDP_def addr_word_def)
  then show ?thesis
    unfolding specFromSaveLine_def fields scan_dnat [OF assms] by (simp add: spec_line_def)
qed

text \<open>What the agent writes it reads back: the line iptables prints for the DNAT rule of a valid
  mapping is parsed to exactly the specification the planner computes from the mapping, and to the
  mapping's comment. So a mapping whose rule is in place is never changed again.\<close>

lemma dnat_line_spec:
  assumes "wf_mapping mp addr" and "b_Address be = addr"
  shows "specFromSaveLine (rule_line (hd (mapping_rules mp addr))) (MappingComment (m_ID mp)) =
           mappingRuleSpec mp (Some be) \<and>
         parseComment (rule_line (hd (mapping_rules mp addr))) = MappingComment (m_ID mp)"
proof -
  have "hd (mapping_rules mp addr) \<in> set (mapping_rules mp addr)" by (simp add: mapping_rules_def Let_def)
  moreover have "addr \<noteq> []" using assms(1) by (simp add: wf_mapping_def addr_word_def)
  ultimately show ?thesis
    using parseComment_rule_line [OF assms(1)] dnat_line_parsed [OF assms(1)] assms(2)
    by (simp add: mappingRuleSpec_def)
qed

lemma commentFromSpec_spec:
  assumes "wf_mapping mp addr"
  shows "commentFromSpec (spec_line mp addr) = MappingComment (m_ID mp)"
proof -
  let ?c = "MappingComment (m_ID mp)"
  have pw: "plain_word ?c" using assms plain_word_comment by (auto simp: wf_mapping_def)
  have "CHR '' '' \<notin> set ?c" using pw by (rule plain_word_no_blank)
  then have "LastIndex (u @ ''comment '' @ ?c) ''comment '' = Some (length u)" for u
    by (intro LastIndex_found) simp_all
  moreover obtain u where u: "spec_line mp addr = u @ ''comment '' @ ?c"
  proof
    show "spec_line mp addr = (m_Protocol mp @ '' dport '' @ Itoa (m_PublicPort mp) @ '' -> '' @ addr @ '':'' @
      Itoa (m_BackendPort mp) @ '' '') @ ''comment '' @ ?c" by (simp add: spec_line_def)
  qed
  moreover have "TrimSpace ?c = ?c"
    using plain_word_word [OF pw] by (intro TrimSpace_no_space) (simp add: word_def)
  ultimately show ?thesis by (simp add: commentFromSpec_def)
qed

text \<open>A deletion finds its rules: the comment recovered from a planned specification is the
  mapping's comment, and splitting the line iptables prints for one of the mapping's rules gives the
  arguments the rule was added with.\<close>

lemma delete_texts:
  assumes "wf_mapping mp addr" and "r \<in> set (mapping_rules mp addr)"
  shows "commentFromSpec (MappingSpec mp addr) = MappingComment (m_ID mp) \<and>
         drop 2 (splitArgs (rule_line r)) = ir_Args r"
proof -
  have "splitArgs (rule_line r) = ''-A'' # ir_Chain r # ir_Args r"
    unfolding rule_line_def by (rule splitArgs_Join) (rule wf_mapping_words [OF assms])
  then show ?thesis using commentFromSpec_spec [OF assms(1)] by (simp add: MappingSpec_def)
qed

text \<open>What the controller validated is such a mapping.\<close>

lemma wf_mapping_validated:
  assumes "PortMapping_Validate mp = None" and "PortMapping_Normalize mp = mp"
    and "IPv4 addr = None" and "TrimSpace addr = addr" and "plain_word (m_ID mp)"
  shows "wf_mapping mp addr"
proof -
  have none: "first_err [e1, e2, e3, e4, e5] = None \<longleftrightarrow> e1 = None \<and> e2 = None \<and> e3 = None \<and> e4 = None \<and> e5 = None"
    for e1 e2 e3 e4 e5
    by (cases e1; cases e2; cases e3; cases e4; cases e5) auto
  have p: "m_Protocol mp = ToUpper (TrimSpace (m_Protocol mp))"
    using assms(2) by (metis PortMapping_Normalize_def port_mapping.select_convs(4)
        port_mapping.update_convs(4) port_mapping.surjective)
  have "Protocol (m_Protocol mp) = None" "Port (m_PublicPort mp) = None" "Port (m_BackendPort mp) = None"
    using assms(1,2) by (auto simp: PortMapping_Validate_def none wrapVal_def prefix_err_def
        simp del: first_err.simps split: option.splits)
  then show ?thesis
    using assms(3-5) p IPv4_addr_word
    by (auto simp: wf_mapping_def Protocol_def Port_def errf_def Let_def ProtoTCP_def ProtoUDP_def
        split: if_splits)
qed

lemma dnat_line_spec_witness:
  "specFromSaveLine (rule_line (hd (mapping_rules (sample_mapping ''m1'' ''b1'' 8443) ''10.9.0.2'')))
     (MappingComment ''m1'') =
   mappingRuleSpec (sample_mapping ''m1'' ''b1'' 8443) (Some (sample_backend ''b1'' ''10.9.0.2''))"
  using dnat_line_spec [of "sample_mapping ''m1'' ''b1'' 8443" "''10.9.0.2''" "sample_backend ''b1'' ''10.9.0.2''"]
  by (simp add: wf_mapping_def sample_mapping_def sample_backend_def plain_word_def plain_char_def
      is_space_def addr_word_def is_digit_def)

end
