(* ===== verification/FirewallHost.thy ===== *)
theory FirewallHost
  imports FirewallText
begin

text \<open>
  The firewall manager on a host that behaves like iptables. The locale \<open>iptables_host\<close> is the
  contract: \<open>rules h (table, chain)\<close> are the rules of a chain, \<open>ok h\<close> says that commands do not fail
  for outside reasons, and the laws say what \<open>-S\<close>, \<open>-A\<close>, \<open>-D\<close>, \<open>-N\<close>, \<open>-C\<close> and \<open>iptables-save\<close> do.

  The abstract state of the firewall is the list of installed mappings with their addresses:
  \<open>installed h L\<close>. The lemmas of the locale are a simulation: \<open>Discover\<close> reads \<open>L\<close>, adding a mapping
  appends to \<open>L\<close>, deleting by comment filters \<open>L\<close>, and \<open>Apply\<close> of a plan is \<open>abs_plan\<close> on \<open>L\<close>.
\<close>

section \<open>Listings\<close>

definition chain_text :: "string \<Rightarrow> string list \<Rightarrow> string" where
  "chain_text c rs = ''-N '' @ c @ nl @ concat (map (\<lambda>r. ''-A '' @ c @ '' '' @ r @ nl) rs)"

definition is_table :: "string \<Rightarrow> bool" where
  "is_table t \<longleftrightarrow> t = TableNAT \<or> t = TableFilter"

definition rkey :: "iptables_rule \<Rightarrow> string \<times> string" where
  "rkey r = (ir_Table r, ir_Chain r)"

definition rtext :: "iptables_rule \<Rightarrow> string" where
  "rtext r = Join (ir_Args r) '' ''"

text \<open>A rule text whose line is made of words that neither blanks nor quotes break.\<close>

definition good_text :: "string \<Rightarrow> string \<Rightarrow> bool" where
  "good_text c x \<longleftrightarrow> (\<exists>args. args \<noteq> [] \<and> x = Join args '' '' \<and> (\<forall>w \<in> set (''-A'' # c # args). plain_word w))"

definition line_of :: "string \<Rightarrow> string \<Rightarrow> string" where
  "line_of c x = ''-A '' @ c @ '' '' @ x"

definition has_comment :: "string \<Rightarrow> string \<Rightarrow> string \<Rightarrow> bool" where
  "has_comment cmt c x \<longleftrightarrow> parseComment (line_of c x) = cmt"

lemma line_of_Join: "args \<noteq> [] \<Longrightarrow> line_of c (Join args '' '') = Join (''-A'' # c # args) '' ''"
  by (simp add: line_of_def Join_Cons)

lemma good_text_line:
  assumes "good_text c x"
  shows "TrimSpace (line_of c x) = line_of c x" and "HasPrefix (line_of c x) ''-A ''"
    and "Join (drop 2 (splitArgs (line_of c x))) '' '' = x" and "2 \<le> length (splitArgs (line_of c x))"
    and "\<not> HasPrefix (line_of c x) ''-N ''" and "line_of c x \<noteq> []" and "CHR 0x0A \<notin> set (line_of c x)"
proof -
  obtain args where a: "args \<noteq> []" "x = Join args '' ''" "\<forall>w \<in> set (''-A'' # c # args). plain_word w"
    using assms by (auto simp: good_text_def)
  have l: "line_of c x = Join (''-A'' # c # args) '' ''" unfolding a(2) by (rule line_of_Join) (rule a(1))
  show "TrimSpace (line_of c x) = line_of c x"
    unfolding l by (rule TrimSpace_Join) (use a plain_word_word in blast)
  have "splitArgs (line_of c x) = ''-A'' # c # args" unfolding l by (rule splitArgs_Join) (rule a)
  then show "Join (drop 2 (splitArgs (line_of c x))) '' '' = x" "2 \<le> length (splitArgs (line_of c x))"
    using a by simp_all
  show "HasPrefix (line_of c x) ''-A ''" "\<not> HasPrefix (line_of c x) ''-N ''" "line_of c x \<noteq> []"
    by (simp_all add: line_of_def)
  have "Fields (line_of c x) = ''-A'' # c # args"
    unfolding l by (rule Fields_Join) (use a plain_word_word in blast)
  have "CHR 0x0A \<notin> set (Join ws '' '')" if "\<forall>w \<in> set ws. plain_word w" for ws
    using that by (induction ws "'' ''" rule: Join.induct)
      (auto simp: plain_word_def list_all_iff plain_char_def is_space_def)
  then show "CHR 0x0A \<notin> set (line_of c x)" unfolding l using a by blast
qed

lemma chain_text_Split:
  assumes "\<forall>x \<in> set rs. good_text c x" and "CHR 0x0A \<notin> set c"
  shows "Split (chain_text c rs) (CHR 0x0A) = (''-N '' @ c) # map (line_of c) rs @ [[]]"
proof -
  have "chain_text c rs = Join ((''-N '' @ c) # map (line_of c) rs @ [[]]) [CHR 0x0A]"
  proof -
    have "concat (map (\<lambda>r. ''-A '' @ c @ '' '' @ r @ nl) rs) = Join (map (line_of c) rs @ [[]]) [CHR 0x0A]"
      by (induction rs) (simp_all add: Join_Cons line_of_def nl_def)
    then show ?thesis by (simp add: chain_text_def Join_Cons nl_def)
  qed
  moreover have "\<forall>w \<in> set ((''-N '' @ c) # map (line_of c) rs @ [[]]). CHR 0x0A \<notin> set w"
    using assms good_text_line(7) by auto
  ultimately show ?thesis using Split_Join by (metis list.distinct(1))
qed

text \<open>Removing one occurrence of every text with a property leaves the texts without it.\<close>

lemma fold_remove1_filter: "fold remove1 (filter P xs) (filter (\<lambda>x. \<not> P x) ys @ xs) = filter (\<lambda>x. \<not> P x) (ys @ xs)"
proof (induction xs arbitrary: ys)
  case (Cons x xs)
  show ?case
  proof (cases "P x")
    case True
    then have "remove1 x (filter (\<lambda>x. \<not> P x) ys @ x # xs) = filter (\<lambda>x. \<not> P x) ys @ xs"
      by (simp add: remove1_append)
    with True Cons show ?thesis by simp
  next
    case False
    then show ?thesis using Cons [of "ys @ [x]"] by simp
  qed
qed simp

type_synonym chain_key = "string \<times> string"

section \<open>The installed mappings\<close>

text \<open>
  The abstract state: the mappings whose rules are in the chains, with the address each was given.
  A chain that does not exist counts as empty; the legacy chains are absent.
\<close>

type_synonym chain_map = "string \<times> string \<Rightarrow> string list option"

definition managed_keys :: "(string \<times> string) list" where
  "managed_keys = [(TableNAT, ChainDNAT), (TableFilter, ChainForward), (TableNAT, ChainSNAT)]"

definition legacy_keys :: "(string \<times> string) list" where
  "legacy_keys = [(TableNAT, legacyChainDNAT), (TableFilter, legacyChainForward), (TableNAT, legacyChainSNAT)]"

lemmas name_defs = TableNAT_def TableFilter_def ChainDNAT_def ChainForward_def ChainSNAT_def
  legacyChainDNAT_def legacyChainForward_def legacyChainSNAT_def

definition contents :: "chain_map \<Rightarrow> string \<times> string \<Rightarrow> string list" where
  "contents R k = (case R k of None \<Rightarrow> [] | Some xs \<Rightarrow> xs)"

definition rule_for :: "string \<times> string \<Rightarrow> port_mapping \<times> string \<Rightarrow> iptables_rule" where
  "rule_for k p = hd (filter (\<lambda>r. rkey r = k) (mapping_rules (fst p) (snd p)))"

definition installed :: "chain_map \<Rightarrow> (port_mapping \<times> string) list \<Rightarrow> bool" where
  "installed R L \<longleftrightarrow>
     (\<forall>k \<in> set managed_keys. contents R k = map (\<lambda>p. rtext (rule_for k p)) L) \<and>
     (\<forall>k \<in> set legacy_keys. R k = None) \<and> (\<forall>p \<in> set L. wf_mapping (fst p) (snd p))"

definition ready :: "chain_map \<Rightarrow> bool" where
  "ready R \<longleftrightarrow> (\<forall>k \<in> set managed_keys. R k \<noteq> None)"

definition parents :: "chain_map \<Rightarrow> bool" where
  "parents R \<longleftrightarrow> R (TableNAT, ''PREROUTING'') \<noteq> None \<and> R (TableFilter, ''FORWARD'') \<noteq> None \<and>
                 R (TableNAT, ''POSTROUTING'') \<noteq> None"

lemma filter_mapping_rules:
  "filter (\<lambda>r. rkey r = k) (mapping_rules m a) = (if k \<in> set managed_keys then [rule_for k (m, a)] else [])"
  by (auto simp: mapping_rules_def Let_def rkey_def rule_for_def managed_keys_def name_defs)

lemma rule_for_in: "k \<in> set managed_keys \<Longrightarrow> rule_for k (m, a) \<in> set (mapping_rules m a) \<and> rkey (rule_for k (m, a)) = k"
proof -
  assume "k \<in> set managed_keys"
  then have "rule_for k (m, a) \<in> set (filter (\<lambda>r. rkey r = k) (mapping_rules m a))"
    by (simp add: filter_mapping_rules)
  then show ?thesis by simp
qed

lemma managed_tables: "k \<in> set managed_keys \<Longrightarrow> is_table (fst k) \<and> CHR 0x0A \<notin> set (snd k)"
  by (auto simp: managed_keys_def is_table_def name_defs)

lemma rule_line_of: "ir_Args r \<noteq> [] \<Longrightarrow> rule_line r = line_of (ir_Chain r) (rtext r)"
  by (simp add: rule_line_def rtext_def line_of_Join)

lemma rule_for_text:
  assumes "k \<in> set managed_keys" and "wf_mapping (fst p) (snd p)"
  shows "good_text (snd k) (rtext (rule_for k p))"
    and "parseComment (line_of (snd k) (rtext (rule_for k p))) = MappingComment (m_ID (fst p))"
proof -
  let ?r = "rule_for k p"
  have r: "?r \<in> set (mapping_rules (fst p) (snd p))" "ir_Chain ?r = snd k"
    using rule_for_in [OF assms(1), of "fst p" "snd p"] by (cases k; simp add: rkey_def)+
  have args: "ir_Args ?r \<noteq> []" using r(1) by (auto simp: mapping_rules_def Let_def)
  show "good_text (snd k) (rtext ?r)"
    using wf_mapping_words [OF assms(2) r(1)] args r(2) by (auto simp: good_text_def rtext_def)
  show "parseComment (line_of (snd k) (rtext ?r)) = MappingComment (m_ID (fst p))"
    using parseComment_rule_line [OF assms(2) r(1)] rule_line_of [OF args] r(2) by simp
qed

text \<open>The rule the planner reads for an installed mapping.\<close>

definition seen_rule :: "port_mapping \<times> string \<Rightarrow> firewall_rule" where
  "seen_rule p =
     \<lparr>f_Chain = ChainDNAT, f_Comment = MappingComment (m_ID (fst p)), f_Spec = spec_line (fst p) (snd p),
      f_Managed = True\<rparr>"

lemma discover_managed_text:
  assumes "k \<in> set managed_keys" and "\<forall>p \<in> set L. wf_mapping (fst p) (snd p)"
  shows "discover_output (snd k) (chain_text (snd k) (map (\<lambda>p. rtext (rule_for k p)) L)) =
    (if snd k = ChainDNAT then map seen_rule L else [], [])"
proof -
  let ?c = "snd k" and ?xs = "map (\<lambda>p. rtext (rule_for k p)) L"
  have good: "\<forall>x \<in> set ?xs. good_text ?c x" using rule_for_text(1) [OF assms(1)] assms(2) by auto
  have split: "Split (chain_text ?c ?xs) (CHR 0x0A) = (''-N '' @ ?c) # map (line_of ?c) ?xs @ [[]]"
    using good managed_tables [OF assms(1)] by (intro chain_text_Split) auto
  have c: "?c \<in> {ChainDNAT, ChainForward, ChainSNAT}" using assms(1) by (auto simp: managed_keys_def)
  then have first: "discover_line ?c (''-N '' @ ?c) = ([], [])"
    by (auto simp: discover_line_def name_defs TrimSpace_id is_space_def)
  have last: "discover_line ?c [] = ([], [])" by (simp add: discover_line_def)
  have line: "discover_line ?c (line_of ?c (rtext (rule_for k p))) =
      (if ?c = ChainDNAT then [seen_rule p] else [], [])" if "p \<in> set L" for p
  proof -
    have wf: "wf_mapping (fst p) (snd p)" using assms(2) that by blast
    note gt = good_text_line [OF rule_for_text(1) [OF assms(1) wf]] and cm = rule_for_text(2) [OF assms(1) wf]
    have "specFromSaveLine (line_of ?c (rtext (rule_for k p))) (MappingComment (m_ID (fst p))) =
          spec_line (fst p) (snd p)" if dn: "?c = ChainDNAT"
    proof -
      have k: "k = (TableNAT, ChainDNAT)" using assms(1) dn by (auto simp: managed_keys_def name_defs)
      have r: "rule_for k p = hd (mapping_rules (fst p) (snd p))"
        by (simp add: rule_for_def k mapping_rules_def Let_def rkey_def)
      have "rule_line (hd (mapping_rules (fst p) (snd p))) = line_of ?c (rtext (rule_for k p))"
        unfolding r by (subst rule_line_of) (simp_all add: mapping_rules_def Let_def dn)
      then show ?thesis using dnat_line_parsed [OF wf] by simp
    qed
    moreover have "isDNATChain ?c \<longleftrightarrow> ?c = ChainDNAT" using c by (auto simp: isDNATChain_def name_defs)
    ultimately show ?thesis
      using gt(1,5,6) by (simp add: discover_line_def Let_def cm seen_rule_def)
  qed
  have "map (discover_line ?c) (map (line_of ?c) ?xs) =
        map (\<lambda>p. (if ?c = ChainDNAT then [seen_rule p] else [], [])) L"
    using line by simp
  then have "map (discover_line ?c) (Split (chain_text ?c ?xs) (CHR 0x0A)) =
        ([], []) # map (\<lambda>p. (if ?c = ChainDNAT then [seen_rule p] else [], [])) L @ [([], [])]"
    unfolding split list.map map_append first last by simp
  then show ?thesis
    unfolding discover_output_def by (simp add: Let_def comp_def)
qed

declare split_paired_All [simp del] split_paired_Ex [simp del]

text \<open>What a command leaves alone: the set of existing chains, and every chain outside a set.\<close>

definition same_chains :: "chain_map \<Rightarrow> chain_map \<Rightarrow> bool" where
  "same_chains R R' \<longleftrightarrow> (\<forall>k. R' k = None \<longleftrightarrow> R k = None)"

definition only_at :: "(string \<times> string) set \<Rightarrow> chain_map \<Rightarrow> chain_map \<Rightarrow> bool" where
  "only_at S R R' \<longleftrightarrow> (\<forall>k. k \<notin> S \<longrightarrow> R' k = R k)"

lemma same_chains_refl [simp]: "same_chains R R" by (simp add: same_chains_def)
lemma only_at_refl [simp]: "only_at S R R" by (simp add: only_at_def)

lemma same_chains_trans: "same_chains R R1 \<Longrightarrow> same_chains R1 R2 \<Longrightarrow> same_chains R R2"
  by (simp add: same_chains_def)

lemma only_at_trans: "only_at S R R1 \<Longrightarrow> only_at T R1 R2 \<Longrightarrow> only_at (S \<union> T) R R2"
  by (simp add: only_at_def)

lemma only_at_mono: "only_at S R R' \<Longrightarrow> S \<subseteq> T \<Longrightarrow> only_at T R R'"
  by (auto simp: only_at_def)

lemma only_at_contents: "only_at S R R' \<Longrightarrow> k \<notin> S \<Longrightarrow> contents R' k = contents R k"
  by (simp add: only_at_def contents_def)

lemma same_chains_ready: "same_chains R R' \<Longrightarrow> ready R \<Longrightarrow> ready R'"
  by (simp add: same_chains_def ready_def)

lemma same_chains_None: "same_chains R R' \<Longrightarrow> R k = None \<Longrightarrow> R' k = None"
  by (simp add: same_chains_def)

definition parent_keys :: "(string \<times> string) list" where
  "parent_keys = [(TableNAT, ''PREROUTING''), (TableFilter, ''FORWARD''), (TableNAT, ''POSTROUTING'')]"

text \<open>\<open>keeps\<close>: the installed mappings are as before and no chain in use is lost.\<close>

definition keeps :: "chain_map \<Rightarrow> chain_map \<Rightarrow> bool" where
  "keeps R R' \<longleftrightarrow>
     (\<forall>k \<in> set managed_keys. contents R' k = contents R k) \<and>
     (\<forall>k \<in> set legacy_keys. R k = None \<longrightarrow> R' k = None) \<and>
     (\<forall>k \<in> set managed_keys \<union> set parent_keys. R k \<noteq> None \<longrightarrow> R' k \<noteq> None)"

lemma keeps_refl [simp]: "keeps R R" by (simp add: keeps_def)

lemma keeps_trans: "keeps R R1 \<Longrightarrow> keeps R1 R2 \<Longrightarrow> keeps R R2"
  by (simp add: keeps_def)

lemma parents_iff: "parents R \<longleftrightarrow> (\<forall>k \<in> set parent_keys. R k \<noteq> None)"
  by (simp add: parents_def parent_keys_def)

lemma keeps_installed: "keeps R R' \<Longrightarrow> installed R L \<Longrightarrow> installed R' L"
  by (simp add: keeps_def installed_def)

lemma keeps_parents: "keeps R R' \<Longrightarrow> parents R \<Longrightarrow> parents R'"
  by (simp add: keeps_def parents_iff)

lemma keeps_ready: "keeps R R' \<Longrightarrow> ready R \<Longrightarrow> ready R'"
  by (simp add: keeps_def ready_def)

lemma keys_apart:
  "p \<in> set parent_keys \<Longrightarrow> p \<notin> set managed_keys \<and> p \<notin> set legacy_keys"
  "k \<in> set legacy_keys \<Longrightarrow> k \<notin> set managed_keys \<and> k \<notin> set parent_keys"
  by (auto simp: parent_keys_def managed_keys_def legacy_keys_def name_defs)

lemma keeps_parent:
  assumes "only_at {p} R R'" and "p \<in> set parent_keys" and "R p \<noteq> None \<longrightarrow> R' p \<noteq> None"
  shows "keeps R R'"
proof -
  have "R' k = R k" if "k \<noteq> p" for k using assms(1) that by (simp add: only_at_def)
  then show ?thesis using assms(2,3) keys_apart(1) [OF assms(2)] unfolding keeps_def contents_def
    by (metis UnE)
qed

lemma keeps_legacy:
  assumes "only_at {k} R R'" and "k \<in> set legacy_keys" and "R k = None \<longrightarrow> R' k = None"
  shows "keeps R R'"
proof -
  have "R' j = R j" if "j \<noteq> k" for j using assms(1) that by (simp add: only_at_def)
  then show ?thesis using assms(2,3) keys_apart(2) [OF assms(2)] unfolding keeps_def contents_def
    by (metis UnE)
qed

lemma keeps_new: "R k = None \<Longrightarrow> k \<in> set managed_keys \<Longrightarrow> keeps R (R(k \<mapsto> []))"
  using keys_apart(2) by (auto simp: keeps_def contents_def)

definition without :: "string \<Rightarrow> (port_mapping \<times> string) list \<Rightarrow> (port_mapping \<times> string) list" where
  "without cmt L = filter (\<lambda>p. MappingComment (m_ID (fst p)) \<noteq> cmt) L"

locale iptables_host =
  fixes os :: "'h os"
    and rules :: "'h \<Rightarrow> chain_key \<Rightarrow> string list option"
    and ok :: "'h \<Rightarrow> bool"
  assumes list_law: "ok h \<Longrightarrow> is_table t \<Longrightarrow>
      \<exists>h'. list_chain os t c h = (Inr (map_option (chain_text c) (rules h (t, c))), h') \<and>
           ok h' \<and> rules h' = rules h"
    and append_law: "ok h \<Longrightarrow> is_table t \<Longrightarrow> rules h (t, c) = Some rs \<Longrightarrow>
      \<exists>out h'. iptables os ([''-t'', t, ''-A'', c] @ args) h = (Inr out, h') \<and>
           ok h' \<and> rules h' = (rules h)((t, c) \<mapsto> rs @ [Join args '' ''])"
    and delete_law: "ok h \<Longrightarrow> is_table t \<Longrightarrow> rules h (t, c) = Some rs \<Longrightarrow>
      Join args '' '' \<in> set rs \<Longrightarrow>
      \<exists>out h'. iptables os ([''-t'', t, ''-D'', c] @ args) h = (Inr out, h') \<and>
           ok h' \<and> rules h' = (rules h)((t, c) \<mapsto> remove1 (Join args '' '') rs)"
    and new_law: "ok h \<Longrightarrow> is_table t \<Longrightarrow> rules h (t, c) = None \<Longrightarrow>
      \<exists>out h'. iptables os [''-t'', t, ''-N'', c] h = (Inr out, h') \<and> ok h' \<and> rules h' = (rules h)((t, c) \<mapsto> [])"
    and frame_law: "ok h \<Longrightarrow> is_table t \<Longrightarrow> op \<in> set [''-C'', ''-D'', ''-F'', ''-X''] \<Longrightarrow>
      iptables os ([''-t'', t, op, c] @ args) h = (r, h') \<Longrightarrow>
      ok h' \<and> (\<forall>k. k \<noteq> (t, c) \<longrightarrow> rules h' k = rules h k) \<and> (op = ''-C'' \<longrightarrow> rules h' = rules h) \<and>
      (rules h (t, c) \<noteq> None \<and> op \<noteq> ''-X'' \<longrightarrow> rules h' (t, c) \<noteq> None) \<and>
      (rules h (t, c) = None \<longrightarrow> rules h' (t, c) = None)"
    and save_law: "ok h \<Longrightarrow>
      \<exists>out errb h'. os_run os [] ''iptables-save'' [] h = ((out, errb, None), h') \<and> ok h' \<and> rules h' = rules h"
    and mkdir_law: "ok h \<Longrightarrow> \<exists>h'. os_mkdir os dir h = (None, h') \<and> ok h' \<and> rules h' = rules h"
    and write_law: "ok h \<Longrightarrow> \<exists>h'. os_write os (path_join dir (''iptables-'' @ stamp @ ''.save'')) body h = (None, h') \<and>
      ok h' \<and> rules h' = rules h"
begin

text \<open>One command per rule: the chains grow by the rules' texts, in order.\<close>

lemma each_append:
  assumes "ok h" and "\<forall>r \<in> set rs. is_table (ir_Table r) \<and> rules h (rkey r) \<noteq> None"
  shows "\<exists>h'. each_rule os ''-A'' rs h = (Inr (), h') \<and> ok h' \<and>
    (\<forall>k. rules h' k = map_option (\<lambda>old. old @ map rtext (filter (\<lambda>r. rkey r = k) rs)) (rules h k))"
  using assms
proof (induction rs arbitrary: h)
  case Nil
  have "map_option (\<lambda>old. old) x = x" for x :: "string list option" by (cases x) auto
  with Nil show ?case by (simp add: each_rule_def)
next
  case (Cons r rs)
  obtain old where old: "rules h (rkey r) = Some old" using Cons.prems(2) by auto
  have t: "is_table (ir_Table r)" using Cons.prems(2) by simp
  obtain out h1 where h1: "iptables os ([''-t'', ir_Table r, ''-A'', ir_Chain r] @ ir_Args r) h = (Inr out, h1)"
    "ok h1" "rules h1 = (rules h)(rkey r \<mapsto> old @ [rtext r])"
    using append_law [OF Cons.prems(1) t, of "ir_Chain r" old "ir_Args r"] old
    by (auto simp: rkey_def rtext_def)
  have "\<exists>h'. each_rule os ''-A'' rs h1 = (Inr (), h') \<and> ok h' \<and>
    (\<forall>k. rules h' k = map_option (\<lambda>old. old @ map rtext (filter (\<lambda>r. rkey r = k) rs)) (rules h1 k))"
    using Cons.prems h1 by (intro Cons.IH) auto
  moreover have "each_rule os ''-A'' (r # rs) h = each_rule os ''-A'' rs h1"
    using h1(1) by (simp add: each_rule_def bindA_def rule_cmd_def)
  ultimately show ?case using h1(3) old by auto
qed

lemma each_delete:
  assumes "ok h" and "\<forall>r \<in> set rs. is_table (ir_Table r)"
    and "\<forall>k. \<forall>xs. rules h k = Some xs \<longrightarrow> mset (map rtext (filter (\<lambda>r. rkey r = k) rs)) \<subseteq># mset xs"
    and "\<forall>r \<in> set rs. rules h (rkey r) \<noteq> None"
  shows "\<exists>h'. each_rule os ''-D'' rs h = (Inr (), h') \<and> ok h' \<and>
    (\<forall>k. rules h' k = map_option (fold remove1 (map rtext (filter (\<lambda>r. rkey r = k) rs))) (rules h k))"
  using assms
proof (induction rs arbitrary: h)
  case Nil
  have "map_option (\<lambda>old. old) x = x" for x :: "string list option" by (cases x) auto
  with Nil show ?case by (simp add: each_rule_def id_def)
next
  case (Cons r rs)
  obtain old where old: "rules h (rkey r) = Some old" using Cons.prems(4) by auto
  have t: "is_table (ir_Table r)" using Cons.prems(2) by simp
  have sub: "add_mset (rtext r) (mset (map rtext (filter (\<lambda>x. rkey x = rkey r) rs))) \<subseteq># mset old"
    using Cons.prems(3) old by fastforce
  then have mem: "rtext r \<in> set old" by (metis insert_subset_eq_iff set_mset_mset)
  obtain out h1 where h1: "iptables os ([''-t'', ir_Table r, ''-D'', ir_Chain r] @ ir_Args r) h = (Inr out, h1)"
    "ok h1" "rules h1 = (rules h)(rkey r \<mapsto> remove1 (rtext r) old)"
    using delete_law [OF Cons.prems(1) t, of "ir_Chain r" old "ir_Args r"] old mem
    by (auto simp: rkey_def rtext_def)
  have "\<exists>h'. each_rule os ''-D'' rs h1 = (Inr (), h') \<and> ok h' \<and>
    (\<forall>k. rules h' k = map_option (fold remove1 (map rtext (filter (\<lambda>r. rkey r = k) rs))) (rules h1 k))"
  proof (rule Cons.IH)
    show "\<forall>k. \<forall>xs. rules h1 k = Some xs \<longrightarrow> mset (map rtext (filter (\<lambda>r. rkey r = k) rs)) \<subseteq># mset xs"
    proof (intro allI impI)
      fix k xs
      assume xs: "rules h1 k = Some xs"
      show "mset (map rtext (filter (\<lambda>r. rkey r = k) rs)) \<subseteq># mset xs"
      proof (cases "k = rkey r")
        case True
        then have "mset xs = mset old - {#rtext r#}" using xs h1(3) by auto
        with True sub show ?thesis by (simp add: insert_subset_eq_iff)
      next
        case False
        then show ?thesis using xs h1(3) Cons.prems(3) [rule_format, of k xs] by simp
      qed
    qed
  qed (use Cons.prems h1 in auto)
  moreover have "each_rule os ''-D'' (r # rs) h = each_rule os ''-D'' rs h1"
    using h1(1) by (simp add: each_rule_def bindA_def rule_cmd_def)
  ultimately show ?case using h1(3) old by auto
qed

text \<open>The loop of a deletion over one chain: what has the comment goes, what has not stays.\<close>

lemma delete_lines:
  assumes "ok h" and "is_table t" and "rules h (t, c) = Some cur" and "\<forall>x \<in> set xs. good_text c x"
    and "mset (filter (has_comment cmt c) xs) \<subseteq># mset cur"
  shows "\<exists>acc' h'. forA (delete_line os t c cmt) (map (line_of c) xs @ [[]]) acc h = (Inr acc', h') \<and> ok h' \<and>
           rules h' = (rules h)((t, c) \<mapsto> fold remove1 (filter (has_comment cmt c) xs) cur)"
  using assms
proof (induction xs arbitrary: h cur acc)
  case Nil
  then show ?case by (auto simp: delete_line_def Let_def fun_upd_idem bindA_def)
next
  case (Cons x xs)
  note gt = good_text_line [of c x] and x = Cons.prems(4) [THEN bspec, of x, simplified]
  let ?rest = "forA (delete_line os t c cmt) (map (line_of c) xs @ [[]])"
  show ?case
  proof (cases "has_comment cmt c x")
    case False
    then have "delete_line os t c cmt (line_of c x) acc = returnA acc"
      using gt x by (simp add: delete_line_def has_comment_def)
    then show ?thesis using Cons.IH [OF Cons.prems(1-3), of acc] Cons.prems False
      by (simp add: bindA_def)
  next
    case True
    let ?args = "drop 2 (splitArgs (line_of c x))"
    have sub: "add_mset x (mset (filter (has_comment cmt c) xs)) \<subseteq># mset cur"
      using Cons.prems(5) True by simp
    then have mem: "x \<in> set cur" by (metis insert_subset_eq_iff set_mset_mset)
    have args: "Join ?args '' '' = x" using gt(3) x by blast
    obtain out h1 where h1: "iptables os ([''-t'', t, ''-D'', c] @ ?args) h = (Inr out, h1)" "ok h1"
      "rules h1 = (rules h)((t, c) \<mapsto> remove1 x cur)"
      using delete_law [OF Cons.prems(1-3), of ?args] mem unfolding args by auto
    obtain acc1 where step: "delete_line os t c cmt (line_of c x) acc h = (Inr acc1, h1)"
      using True gt x h1(1) by (simp add: delete_line_def has_comment_def Let_def bindA_def not_less)
    have sub1: "mset (filter (has_comment cmt c) xs) \<subseteq># mset (remove1 x cur)"
      using sub by (simp add: insert_subset_eq_iff)
    have cur1: "rules h1 (t, c) = Some (remove1 x cur)" by (simp add: h1(3))
    have good1: "\<forall>x \<in> set xs. good_text c x" using Cons.prems(4) by simp
    obtain acc2 h2 where h2: "?rest acc1 h1 = (Inr acc2, h2)" "ok h2"
      "rules h2 = (rules h1)((t, c) \<mapsto> fold remove1 (filter (has_comment cmt c) xs) (remove1 x cur))"
      using Cons.IH [OF h1(2) Cons.prems(2) cur1 good1 sub1, of acc1] by blast
    have r2: "rules h2 = (rules h)((t, c) \<mapsto> fold remove1 (filter (has_comment cmt c) xs) (remove1 x cur))"
      unfolding h2(3) h1(3) by (rule fun_upd_upd)
    have "fold remove1 (filter (has_comment cmt c) (x # xs)) cur =
          fold remove1 (filter (has_comment cmt c) xs) (remove1 x cur)" by (simp add: True)
    moreover have "forA (delete_line os t c cmt) (map (line_of c) (x # xs) @ [[]]) acc h = ?rest acc1 h1"
      by (simp add: bindA_def step)
    ultimately show ?thesis using h2(1,2) r2 by metis
  qed
qed

lemma delete_chain:
  assumes "ok h" and "is_table t" and "rules h (t, c) = Some xs" and "\<forall>x \<in> set xs. good_text c x"
    and "CHR 0x0A \<notin> set c"
  shows "\<exists>acc' h'. forA (delete_line os t c cmt) (Split (chain_text c xs) (CHR 0x0A)) acc h = (Inr acc', h') \<and>
           ok h' \<and> rules h' = (rules h)((t, c) \<mapsto> filter (\<lambda>x. \<not> has_comment cmt c x) xs)"
proof -
  have "\<not> HasPrefix (TrimSpace (''-N '' @ c)) ''-A ''"
  proof
    assume p: "HasPrefix (TrimSpace (''-N '' @ c)) ''-A ''"
    have "dropWhile is_space (''-N '' @ c) = ''-N '' @ c" by (simp add: is_space_def)
    then have "\<exists>u. ''-N '' @ c = TrimSpace (''-N '' @ c) @ u"
      unfolding TrimSpace_def TrimLeftFunc_def TrimRightFunc_def
      by (metis rev_append rev_rev_ident takeWhile_dropWhile_id)
    with p show False by (auto simp: HasPrefix_iff)
  qed
  then have first: "delete_line os t c cmt (''-N '' @ c) acc = returnA acc" by (simp add: delete_line_def)
  have split: "Split (chain_text c xs) (CHR 0x0A) = (''-N '' @ c) # map (line_of c) xs @ [[]]"
    by (rule chain_text_Split) (fact assms)+
  have fold: "fold remove1 (filter (has_comment cmt c) xs) xs = filter (\<lambda>x. \<not> has_comment cmt c x) xs"
    using fold_remove1_filter [of "has_comment cmt c" xs "[]"] by simp
  show ?thesis
    unfolding split forA.simps(2) first
    using delete_lines [OF assms(1-4), of cmt acc] multiset_filter_subset [of "has_comment cmt c" "mset xs"]
    by (simp add: fold flip: mset_filter)
qed

text \<open>Discovery reads the installed mappings and changes nothing.\<close>

lemma discover_managed_chain:
  assumes k: "(t, c) \<in> set managed_keys" and "ok h" and "installed (rules h) L"
  shows "\<exists>h'. discover_chain os (t, c) (rs, cs) h =
      (Inr (rs @ (if c = ChainDNAT then map seen_rule L else []), cs), h') \<and> ok h' \<and> rules h' = rules h"
proof -
  obtain h1 where h1: "list_chain os t c h = (Inr (map_option (chain_text c) (rules h (t, c))), h1)"
    "ok h1" "rules h1 = rules h" using list_law [OF assms(2)] managed_tables [OF k] by auto
  have wf: "\<forall>p \<in> set L. wf_mapping (fst p) (snd p)" using assms(3) by (simp add: installed_def)
  have "contents (rules h) (t, c) = map (\<lambda>p. rtext (rule_for (t, c) p)) L"
    using assms(3) k unfolding installed_def by blast
  then consider "rules h (t, c) = None" "L = []"
    | "rules h (t, c) = Some (map (\<lambda>p. rtext (rule_for (t, c) p)) L)"
    by (auto simp: contents_def split: option.splits)
  then show ?thesis
    using h1 discover_managed_text [OF k wf] by cases (simp_all add: discover_chain_def bindA_def)
qed

lemma discover_legacy_chain:
  assumes "(t, c) \<in> set legacy_keys" and "ok h" and "installed (rules h) L"
  shows "\<exists>h'. discover_chain os (t, c) acc h = (Inr acc, h') \<and> ok h' \<and> rules h' = rules h"
proof -
  have "is_table t" "rules h (t, c) = None"
    using assms by (auto simp: legacy_keys_def is_table_def installed_def)
  then show ?thesis using list_law [OF assms(2), of t c] by (cases acc) (auto simp: discover_chain_def bindA_def)
qed

lemma views_split: "iptablesChainViews = managed_keys @ legacy_keys"
  by (simp add: iptablesChainViews_def managed_keys_def legacy_keys_def)

lemma discover_chains:
  assumes "set ks \<subseteq> set (managed_keys @ legacy_keys)" and "ok h" and "installed (rules h) L"
  shows "\<exists>h'. forA (discover_chain os) ks (rs, cs) h =
      (Inr (rs @ concat (map (\<lambda>k. if snd k = ChainDNAT then map seen_rule L else []) ks), cs), h') \<and>
      ok h' \<and> rules h' = rules h"
  using assms
proof (induction ks arbitrary: rs h)
  case (Cons k ks)
  obtain t c where k: "k = (t, c)" by (cases k)
  have "\<exists>h1. discover_chain os k (rs, cs) h =
      (Inr (rs @ (if c = ChainDNAT then map seen_rule L else []), cs), h1) \<and> ok h1 \<and> rules h1 = rules h"
  proof (cases "k \<in> set managed_keys")
    case True
    then show ?thesis unfolding k by (rule discover_managed_chain) (fact Cons.prems)+
  next
    case False
    then have "k \<in> set legacy_keys" using Cons.prems(1) by auto
    moreover then have "c \<noteq> ChainDNAT" by (auto simp: k legacy_keys_def name_defs)
    ultimately show ?thesis
      using discover_legacy_chain [of t c h L "(rs, cs)"] Cons.prems(2,3) unfolding k by simp
  qed
  then obtain h1 where h1: "discover_chain os k (rs, cs) h =
      (Inr (rs @ (if c = ChainDNAT then map seen_rule L else []), cs), h1)" "ok h1" "rules h1 = rules h" by blast
  then show ?case
    using Cons.IH [of h1 "rs @ (if c = ChainDNAT then map seen_rule L else [])"] Cons.prems
    by (simp add: bindA_def k)
qed simp

lemma Discover_installed:
  assumes "ok h" and "installed (rules h) L"
  shows "\<exists>h'. fw_Discover os h = (Inr (map seen_rule L, []), h') \<and> ok h' \<and> rules h' = rules h"
proof -
  have "concat (map (\<lambda>k. if snd k = ChainDNAT then map seen_rule L else []) iptablesChainViews) = map seen_rule L"
    by (simp add: iptablesChainViews_def name_defs)
  then show ?thesis
    using discover_chains [of iptablesChainViews h L "[]" "[]"] assms by (simp add: fw_Discover_def views_split)
qed

text \<open>Adding a mapping appends it.\<close>

lemma add_installed:
  assumes "ok h" and "installed (rules h) L" and "ready (rules h)" and "wf_mapping m a"
  shows "\<exists>h'. addMappingRules os m a h = (Inr (mapping_rules m a), h') \<and> ok h' \<and>
    installed (rules h') (L @ [(m, a)]) \<and> same_chains (rules h) (rules h') \<and>
    only_at (set managed_keys) (rules h) (rules h')"
proof -
  have "\<forall>r \<in> set (mapping_rules m a). is_table (ir_Table r) \<and> rules h (rkey r) \<noteq> None"
    using assms(3) by (auto simp: ready_def managed_keys_def mapping_rules_def Let_def is_table_def rkey_def)
  then obtain h1 where h1: "each_rule os ''-A'' (mapping_rules m a) h = (Inr (), h1)" "ok h1"
    and R: "\<And>k. rules h1 k = map_option (\<lambda>old. old @ map rtext (filter (\<lambda>r. rkey r = k) (mapping_rules m a))) (rules h k)"
    using each_append [OF assms(1)] by blast
  have same: "rules h1 k = rules h k" if "k \<notin> set managed_keys" for k
    using that by (cases "rules h k") (simp_all add: R filter_mapping_rules)
  have "contents (rules h1) k = map (\<lambda>p. rtext (rule_for k p)) (L @ [(m, a)])" if k: "k \<in> set managed_keys" for k
  proof -
    obtain old where "rules h k = Some old" "old = map (\<lambda>p. rtext (rule_for k p)) L"
      using k assms(2,3) by (fastforce simp: installed_def ready_def contents_def)
    then show ?thesis using k by (simp add: R filter_mapping_rules contents_def)
  qed
  moreover have "k \<notin> set managed_keys" if "k \<in> set legacy_keys" for k
    using that by (auto simp: legacy_keys_def managed_keys_def name_defs)
  ultimately have "installed (rules h1) (L @ [(m, a)])"
    using assms(2,4) same by (auto simp: installed_def)
  moreover have "same_chains (rules h) (rules h1)" by (simp add: same_chains_def R)
  ultimately show ?thesis using h1 same by (auto simp: addMappingRules_def bindA_def only_at_def)
qed

text \<open>Deleting by comment filters the installed mappings.\<close>

lemma delete_in_managed:
  assumes k: "k \<in> set managed_keys" and "ok h" and "\<forall>p \<in> set L. wf_mapping (fst p) (snd p)"
    and "contents (rules h) k = map (\<lambda>p. rtext (rule_for k p)) L"
  shows "\<exists>acc' h'. delete_in_chain os cmt k acc h = (Inr acc', h') \<and> ok h' \<and>
    same_chains (rules h) (rules h') \<and> only_at {k} (rules h) (rules h') \<and>
    contents (rules h') k = map (\<lambda>p. rtext (rule_for k p)) (without cmt L)"
proof -
  obtain t c where kk: "k = (t, c)" by (cases k)
  note tab = managed_tables [OF k, unfolded kk, simplified]
  obtain h1 where h1: "list_chain os t c h = (Inr (map_option (chain_text c) (rules h k)), h1)"
    "ok h1" "rules h1 = rules h" using list_law [OF assms(2)] tab by (auto simp: kk)
  show ?thesis
  proof (cases "rules h k")
    case None
    then have "L = []" using assms(4) by (simp add: contents_def)
    then show ?thesis
      using None h1 by (auto simp: delete_in_chain_def bindA_def contents_def without_def kk)
  next
    case (Some xs)
    then have xs: "xs = map (\<lambda>p. rtext (rule_for k p)) L" using assms(4) by (simp add: contents_def)
    have good: "\<forall>x \<in> set xs. good_text c x"
      using rule_for_text(1) [OF k] assms(3) by (auto simp: xs kk)
    have "has_comment cmt c (rtext (rule_for k p)) \<longleftrightarrow> MappingComment (m_ID (fst p)) = cmt" if "p \<in> set L" for p
      using rule_for_text(2) [OF k] assms(3) that by (simp add: has_comment_def kk)
    then have filt: "filter (\<lambda>x. \<not> has_comment cmt c x) xs = map (\<lambda>p. rtext (rule_for k p)) (without cmt L)"
      by (auto simp: xs without_def filter_map comp_def cong: filter_cong)
    have cur: "rules h1 (t, c) = Some xs" using Some h1(3) by (simp add: kk)
    obtain acc' h2 where h2: "forA (delete_line os t c cmt) (Split (chain_text c xs) (CHR 0x0A)) acc h1 = (Inr acc', h2)"
      "ok h2" "rules h2 = (rules h1)(k \<mapsto> filter (\<lambda>x. \<not> has_comment cmt c x) xs)"
      using delete_chain [OF h1(2) _ cur good, of cmt acc] tab unfolding kk by blast
    have "same_chains (rules h) (rules h2)" "only_at {k} (rules h) (rules h2)"
      using Some by (simp_all add: h2(3) h1(3) same_chains_def only_at_def)
    moreover have "contents (rules h2) k = map (\<lambda>p. rtext (rule_for k p)) (without cmt L)"
      by (simp add: h2(3) contents_def filt)
    moreover have "delete_in_chain os cmt k acc h = (Inr acc', h2)"
      using h1(1) h2(1) Some by (simp add: delete_in_chain_def bindA_def kk)
    ultimately show ?thesis using h2(2) by blast
  qed
qed

lemma delete_in_legacy:
  assumes "k \<in> set legacy_keys" and "ok h" and "rules h k = None"
  shows "\<exists>acc' h'. delete_in_chain os cmt k acc h = (Inr acc', h') \<and> ok h' \<and>
    same_chains (rules h) (rules h') \<and> only_at {k} (rules h) (rules h')"
proof -
  obtain t c where k: "k = (t, c)" by (cases k)
  have "is_table t" using assms(1) by (auto simp: legacy_keys_def is_table_def k)
  then obtain h' where h': "list_chain os t c h = (Inr None, h')" "ok h'" "rules h' = rules h"
    using list_law [OF assms(2), of t c] assms(3) by (auto simp: k)
  then show ?thesis by (auto simp: delete_in_chain_def bindA_def k)
qed

lemma delete_in_chains:
  assumes "set ks \<subseteq> set (managed_keys @ legacy_keys)" and "distinct ks" and "ok h"
    and "\<forall>p \<in> set L. wf_mapping (fst p) (snd p)" and "\<forall>k \<in> set legacy_keys. rules h k = None"
    and "\<forall>k \<in> set ks \<inter> set managed_keys. contents (rules h) k = map (\<lambda>p. rtext (rule_for k p)) L"
  shows "\<exists>acc' h'. forA (delete_in_chain os cmt) ks acc h = (Inr acc', h') \<and> ok h' \<and>
    same_chains (rules h) (rules h') \<and> only_at (set ks) (rules h) (rules h') \<and>
    (\<forall>k \<in> set ks \<inter> set managed_keys. contents (rules h') k = map (\<lambda>p. rtext (rule_for k p)) (without cmt L))"
  using assms
proof (induction ks arbitrary: acc h)
  case (Cons k ks)
  have "k \<in> set managed_keys \<Longrightarrow> contents (rules h) k = map (\<lambda>p. rtext (rule_for k p)) L"
    using Cons.prems(6) by simp
  then obtain acc1 h1 where h1: "delete_in_chain os cmt k acc h = (Inr acc1, h1)" "ok h1"
    "same_chains (rules h) (rules h1)" "only_at {k} (rules h) (rules h1)"
    "k \<in> set managed_keys \<longrightarrow> contents (rules h1) k = map (\<lambda>p. rtext (rule_for k p)) (without cmt L)"
    using delete_in_managed [OF _ Cons.prems(3,4), of k cmt acc] delete_in_legacy [of k h cmt acc] Cons.prems(1,3,5)
    by (cases "k \<in> set managed_keys") auto
  have "\<forall>k' \<in> set ks \<inter> set managed_keys. contents (rules h1) k' = map (\<lambda>p. rtext (rule_for k' p)) L"
  proof
    fix k'
    assume k': "k' \<in> set ks \<inter> set managed_keys"
    then have "contents (rules h1) k' = contents (rules h) k'"
      using Cons.prems(2) by (intro only_at_contents [OF h1(4)]) auto
    then show "contents (rules h1) k' = map (\<lambda>p. rtext (rule_for k' p)) L" using Cons.prems(6) k' by simp
  qed
  moreover have "\<forall>k \<in> set legacy_keys. rules h1 k = None"
    using Cons.prems(5) same_chains_None [OF h1(3)] by blast
  ultimately obtain acc2 h2 where h2: "forA (delete_in_chain os cmt) ks acc1 h1 = (Inr acc2, h2)" "ok h2"
    "same_chains (rules h1) (rules h2)" "only_at (set ks) (rules h1) (rules h2)"
    "\<forall>k \<in> set ks \<inter> set managed_keys. contents (rules h2) k = map (\<lambda>p. rtext (rule_for k p)) (without cmt L)"
    using Cons.IH [of h1 acc1] Cons.prems(1-4) h1(2) by auto
  have "k \<in> set managed_keys \<longrightarrow> contents (rules h2) k = map (\<lambda>p. rtext (rule_for k p)) (without cmt L)"
    using h1(5) only_at_contents [OF h2(4), of k] Cons.prems(2) by simp
  moreover have "only_at (set (k # ks)) (rules h) (rules h2)" using only_at_trans [OF h1(4) h2(4)] by simp
  moreover have "forA (delete_in_chain os cmt) (k # ks) acc h = (Inr acc2, h2)"
    using h1(1) h2(1) by (simp add: bindA_def)
  ultimately show ?case using h2 same_chains_trans [OF h1(3) h2(3)] by (intro exI [of _ acc2] exI [of _ h2]) auto
qed auto

lemma delete_installed:
  assumes "ok h" and "installed (rules h) L"
  shows "\<exists>acc h'. deleteByCommentCopy os cmt h = (Inr acc, h') \<and> ok h' \<and> installed (rules h') (without cmt L) \<and>
    same_chains (rules h) (rules h') \<and> only_at (set (managed_keys @ legacy_keys)) (rules h) (rules h')"
proof -
  have d: "distinct iptablesChainViews" by (simp add: iptablesChainViews_def name_defs)
  obtain acc h1 where h1: "forA (delete_in_chain os cmt) iptablesChainViews [] h = (Inr acc, h1)" "ok h1"
    "same_chains (rules h) (rules h1)" "only_at (set iptablesChainViews) (rules h) (rules h1)"
    "\<forall>k \<in> set iptablesChainViews \<inter> set managed_keys. contents (rules h1) k = map (\<lambda>p. rtext (rule_for k p)) (without cmt L)"
    using delete_in_chains [of iptablesChainViews h L cmt "[]"] assms d
    by (auto simp: views_split installed_def)
  have "installed (rules h1) (without cmt L)"
    using h1(5) assms(2) same_chains_None [OF h1(3)]
    by (auto simp: installed_def views_split without_def)
  then show ?thesis using h1 by (auto simp: deleteByCommentCopy_def views_split)
qed

text \<open>The infrastructure: every chain exists afterwards and the installed mappings are untouched.\<close>

lemma try_frame:
  assumes "ok h" and "is_table t" and "op \<in> set [''-C'', ''-D'', ''-F'', ''-X'']"
  shows "\<exists>b h'. tryA (iptables os ([''-t'', t, op, c] @ args)) h = (Inr b, h') \<and> ok h' \<and>
    only_at {(t, c)} (rules h) (rules h') \<and> (op = ''-C'' \<longrightarrow> rules h' = rules h) \<and>
    (rules h (t, c) \<noteq> None \<and> op \<noteq> ''-X'' \<longrightarrow> rules h' (t, c) \<noteq> None) \<and>
    (rules h (t, c) = None \<longrightarrow> rules h' (t, c) = None)"
proof (cases "iptables os ([''-t'', t, op, c] @ args) h")
  case (Pair r h')
  note fr = frame_law [OF assms Pair]
  have "\<exists>b. tryA (iptables os ([''-t'', t, op, c] @ args)) h = (Inr b, h')"
    using Pair by (cases r) (auto simp: tryA_def)
  then obtain b where "tryA (iptables os ([''-t'', t, op, c] @ args)) h = (Inr b, h')" ..
  then show ?thesis using fr by (auto simp: only_at_def)
qed

lemma ensure_chain_ok:
  assumes "ok h" and k: "(t, c) \<in> set managed_keys" and p: "(t, p) \<in> set parent_keys" and "parents (rules h)"
  shows "\<exists>h'. ensure_chain os (t, p, c) () h = (Inr (), h') \<and> ok h' \<and> keeps (rules h) (rules h') \<and>
    rules h' (t, c) \<noteq> None"
proof -
  have t: "is_table t" using managed_tables [OF k] by simp
  obtain h1 where h1: "list_chain os t c h = (Inr (map_option (chain_text c) (rules h (t, c))), h1)"
    "ok h1" "rules h1 = rules h" using list_law [OF assms(1) t] by blast
  obtain h2 where h2: "(if map_option (chain_text c) (rules h (t, c)) = None
      then bindA (iptables os [''-t'', t, ''-N'', c]) (\<lambda>_. returnA ()) else returnA ()) h1 = (Inr (), h2)"
    "ok h2" "keeps (rules h) (rules h2)" "rules h2 (t, c) \<noteq> None"
    using new_law [OF h1(2) t, of c] keeps_new [OF _ k, of "rules h"] h1(2,3)
    by (cases "rules h (t, c)") (auto simp: bindA_def)
  obtain b h3 where h3: "tryA (iptables os ([''-t'', t, ''-C'', p] @ tl (jump_args p JumpComment c))) h2 = (Inr b, h3)"
    "ok h3" "rules h3 = rules h2"
    using try_frame [OF h2(2) t, of "''-C''" p "tl (jump_args p JumpComment c)"] by auto
  have par: "rules h3 (t, p) \<noteq> None"
    using keeps_parents [OF h2(3) assms(4)] p by (simp add: h3(3) parents_iff)
  then obtain old where old: "rules h3 (t, p) = Some old" by auto
  obtain out h4 where h4: "iptables os ([''-t'', t, ''-A'', p] @ tl (jump_args p JumpComment c)) h3 = (Inr out, h4)"
    "ok h4" "rules h4 = (rules h3)((t, p) \<mapsto> old @ [Join (tl (jump_args p JumpComment c)) '' ''])"
    using append_law [OF h3(2) t old] by blast
  have k4: "keeps (rules h2) (rules h4)"
    by (rule keeps_parent [OF _ p]) (simp_all add: h4(3) h3(3) only_at_def)
  have c4: "rules h4 (t, c) \<noteq> None" using h2(4) by (simp add: h4(3) h3(3))
  have run: "ensure_chain os (t, p, c) () h = (Inr (), if b then h3 else h4)"
    using h1(1) h2(1) h3(1) h4(1) by (simp add: ensure_chain_def bindA_def jump_args_def)
  show ?thesis
    using run h2 h3 h4(2) c4 keeps_trans [OF h2(3) k4] by (cases b) auto
qed

lemma drop_legacy_ok:
  assumes "ok h" and k: "(t, c) \<in> set legacy_keys" and p: "(t, p) \<in> set parent_keys"
  shows "\<exists>h'. drop_legacy_chain os (t, p, c) () h = (Inr (), h') \<and> ok h' \<and> keeps (rules h) (rules h')"
proof -
  have t: "is_table t" using k by (auto simp: legacy_keys_def is_table_def)
  obtain b1 h1 where h1: "tryA (iptables os ([''-t'', t, ''-D'', p] @ tl (jump_args p legacyJumpComment c))) h = (Inr b1, h1)"
    "ok h1" "only_at {(t, p)} (rules h) (rules h1)" "rules h (t, p) \<noteq> None \<longrightarrow> rules h1 (t, p) \<noteq> None"
    using try_frame [OF assms(1) t, of "''-D''" p "tl (jump_args p legacyJumpComment c)"] by auto
  obtain b2 h2 where h2: "tryA (iptables os ([''-t'', t, ''-F'', c] @ [])) h1 = (Inr b2, h2)" "ok h2"
    "only_at {(t, c)} (rules h1) (rules h2)" "rules h1 (t, c) = None \<longrightarrow> rules h2 (t, c) = None"
    using try_frame [OF h1(2) t, of "''-F''" c "[]"] by auto
  obtain b3 h3 where h3: "tryA (iptables os ([''-t'', t, ''-X'', c] @ [])) h2 = (Inr b3, h3)" "ok h3"
    "only_at {(t, c)} (rules h2) (rules h3)" "rules h2 (t, c) = None \<longrightarrow> rules h3 (t, c) = None"
    using try_frame [OF h2(2) t, of "''-X''" c "[]"] by auto
  have "keeps (rules h) (rules h3)"
    using keeps_parent [OF h1(3) p h1(4)] keeps_legacy [OF h2(3) k h2(4)] keeps_legacy [OF h3(3) k h3(4)]
    by (blast intro: keeps_trans)
  then show ?thesis
    using h1(1) h2(1) h3(1,2) by (simp add: drop_legacy_chain_def bindA_def jump_args_def)
qed

lemma ensureInfrastructure_ok:
  assumes "ok h" and "parents (rules h)"
  shows "\<exists>h'. ensureInfrastructure os h = (Inr (), h') \<and> ok h' \<and> keeps (rules h) (rules h') \<and> ready (rules h')"
proof -
  note keys = managed_keys_def parent_keys_def legacy_keys_def
  obtain h1 where h1: "ensure_chain os (TableNAT, ''PREROUTING'', ChainDNAT) () h = (Inr (), h1)" "ok h1"
    "keeps (rules h) (rules h1)" "rules h1 (TableNAT, ChainDNAT) \<noteq> None"
    using ensure_chain_ok [OF assms(1), of TableNAT ChainDNAT "''PREROUTING''"] assms(2) by (auto simp: keys)
  note p1 = keeps_parents [OF h1(3) assms(2)]
  obtain h2 where h2: "ensure_chain os (TableFilter, ''FORWARD'', ChainForward) () h1 = (Inr (), h2)" "ok h2"
    "keeps (rules h1) (rules h2)" "rules h2 (TableFilter, ChainForward) \<noteq> None"
    using ensure_chain_ok [OF h1(2), of TableFilter ChainForward "''FORWARD''"] p1 by (auto simp: keys)
  note p2 = keeps_parents [OF h2(3) p1]
  obtain h3 where h3: "ensure_chain os (TableNAT, ''POSTROUTING'', ChainSNAT) () h2 = (Inr (), h3)" "ok h3"
    "keeps (rules h2) (rules h3)" "rules h3 (TableNAT, ChainSNAT) \<noteq> None"
    using ensure_chain_ok [OF h2(2), of TableNAT ChainSNAT "''POSTROUTING''"] p2 by (auto simp: keys)
  obtain h4 where h4: "drop_legacy_chain os (TableNAT, ''PREROUTING'', legacyChainDNAT) () h3 = (Inr (), h4)" "ok h4"
    "keeps (rules h3) (rules h4)" using drop_legacy_ok [OF h3(2), of TableNAT legacyChainDNAT "''PREROUTING''"] by (auto simp: keys)
  obtain h5 where h5: "drop_legacy_chain os (TableFilter, ''FORWARD'', legacyChainForward) () h4 = (Inr (), h5)" "ok h5"
    "keeps (rules h4) (rules h5)" using drop_legacy_ok [OF h4(2), of TableFilter legacyChainForward "''FORWARD''"] by (auto simp: keys)
  obtain h6 where h6: "drop_legacy_chain os (TableNAT, ''POSTROUTING'', legacyChainSNAT) () h5 = (Inr (), h6)" "ok h6"
    "keeps (rules h5) (rules h6)" using drop_legacy_ok [OF h5(2), of TableNAT legacyChainSNAT "''POSTROUTING''"] by (auto simp: keys)
  have k36: "keeps (rules h3) (rules h6)" using h4(3) h5(3) h6(3) by (blast intro: keeps_trans)
  have "ready (rules h3)"
    using h1(4) h2(3,4) h3(3,4) by (auto simp: ready_def keeps_def keys)
  then have "ready (rules h6)" by (rule keeps_ready [OF k36])
  moreover have "keeps (rules h) (rules h6)" using h1(3) h2(3) h3(3) k36 by (blast intro: keeps_trans)
  moreover have "ensureInfrastructure os h = (Inr (), h6)"
    by (simp add: ensureInfrastructure_def dropLegacyChains_def bindA_def h1(1) h2(1) h3(1) h4(1) h5(1) h6(1))
  ultimately show ?thesis using h6(2) by blast
qed

end

end
