(* ===== verification/FirewallConverge.thy ===== *)
theory FirewallConverge
  imports FirewallHost
begin

text \<open>
  Convergence of the firewall. \<open>abs_action\<close> is what one action of a plan does to the list of installed
  mappings. \<open>abs_plan_matches\<close> is about the planner alone: the plan computed from the installed
  mappings, applied to them, gives a list that matches the desired state. The second half, in the
  locale of the host, shows that \<open>Apply\<close> implements \<open>abs_action\<close> on every host that behaves like
  iptables; together they give \<open>Apply_converges\<close>.
\<close>

type_synonym installation = "(port_mapping \<times> string) list"

definition abs_action :: "port_mapping list \<Rightarrow> backend list \<Rightarrow> action \<Rightarrow> installation \<Rightarrow> installation" where
  "abs_action desired backends a L =
     (if ac_Target a \<noteq> ''firewall'' then L
      else case ac_Kind a of
        KindDelete \<Rightarrow>
          (let c = commentFromSpec (ac_Before a) in without (if c = [] then ac_ID a else c) L)
      | kind \<Rightarrow>
          (case index_by (\<lambda>m. MappingComment (m_ID m)) desired (MappingComment (ac_ID a)) of
             None \<Rightarrow> L
           | Some mp \<Rightarrow>
               (if kind = KindChange then without (MappingComment (m_ID mp)) L else L) @
               [(mp, BackendAddr mp backends)]))"

definition applicable :: "port_mapping list \<Rightarrow> backend list \<Rightarrow> action \<Rightarrow> bool" where
  "applicable desired backends a \<longleftrightarrow>
     (ac_Target a = ''firewall'' \<and> ac_Kind a \<noteq> KindDelete \<longrightarrow>
       (\<exists>mp. index_by (\<lambda>m. MappingComment (m_ID m)) desired (MappingComment (ac_ID a)) = Some mp \<and>
             IPv4 (BackendAddr mp backends) = None \<and> wf_mapping mp (BackendAddr mp backends)))"

text \<open>A desired state the controller would hand out, as far as the firewall is concerned.\<close>

definition valid_firewall :: "desired_state \<Rightarrow> bool" where
  "valid_firewall d \<longleftrightarrow>
     distinct (map b_ID (d_Backends d)) \<and>
     (\<forall>m \<in> set (d_Mappings d). \<exists>b \<in> set (d_Backends d).
        b_ID b = m_BackendID m \<and> IPv4 (b_Address b) = None \<and> wf_mapping m (b_Address b))"

section \<open>The plan of the installed mappings\<close>

definition comment_of :: "port_mapping \<times> string \<Rightarrow> string" where
  "comment_of p = MappingComment (m_ID (fst p))"

definition at_comment :: "string \<Rightarrow> installation \<Rightarrow> installation" where
  "at_comment c L = filter (\<lambda>p. comment_of p = c) L"

lemma index_by_last:
  "index_by key xs k = (let ys = filter (\<lambda>x. key x = k) xs in if ys = [] then None else Some (last ys))"
  by (induction xs rule: rev_induct) (auto simp: Let_def)

lemma managed_seen: "as_FirewallRules a = map seen_rule L \<Longrightarrow> managed_rules a = map seen_rule L"
  by (simp add: managed_rules_def filter_map comp_def seen_rule_def MappingComment_def)

lemma index_seen:
  "index_by f_Comment (map seen_rule L) c =
     (if at_comment c L = [] then None else Some (seen_rule (last (at_comment c L))))"
proof -
  have "filter (\<lambda>r. f_Comment r = c) (map seen_rule L) = map seen_rule (at_comment c L)"
    by (simp add: at_comment_def filter_map comp_def seen_rule_def comment_of_def)
  then show ?thesis by (simp add: index_by_last Let_def last_map)
qed

lemma valid_backend:
  assumes "valid_firewall d" and "m \<in> set (d_Mappings d)"
  obtains b where "backend_by_id d (m_BackendID m) = Some b" and "BackendAddr m (d_Backends d) = b_Address b"
    and "IPv4 (b_Address b) = None" and "wf_mapping m (b_Address b)"
proof -
  obtain b where b: "b \<in> set (d_Backends d)" "b_ID b = m_BackendID m" "IPv4 (b_Address b) = None"
    "wf_mapping m (b_Address b)" using assms by (auto simp: valid_firewall_def)
  have dist: "distinct (map b_ID (d_Backends d))" using assms by (simp add: valid_firewall_def)
  have "backend_by_id d (m_BackendID m) = Some b"
    unfolding backend_by_id_def b(2) [symmetric] by (rule index_by_distinct [OF dist b(1)])
  moreover have "find (\<lambda>x. b_ID x = m_BackendID m) (d_Backends d) = Some b"
    unfolding b(2) [symmetric] by (rule find_distinct_key [OF dist b(1)])
  ultimately show ?thesis using that b by (simp add: BackendAddr_def)
qed

text \<open>What the plan wants at one comment.\<close>

definition settled :: "desired_state \<Rightarrow> string \<Rightarrow> installation \<Rightarrow> bool" where
  "settled d c L \<longleftrightarrow>
     (case wanted_comments d c of
        None \<Rightarrow> at_comment c L = []
      | Some m \<Rightarrow> at_comment c L \<noteq> [] \<and>
          spec_line (fst (last (at_comment c L))) (snd (last (at_comment c L))) =
          mappingRuleSpec m (backend_by_id d (m_BackendID m)))"

definition acts_at :: "desired_state \<Rightarrow> installation \<Rightarrow> string \<Rightarrow> action list" where
  "acts_at d L c = firewall_action (backend_by_id d) (wanted_comments d) (index_by f_Comment (map seen_rule L)) c"

abbreviation do_acts :: "desired_state \<Rightarrow> action list \<Rightarrow> installation \<Rightarrow> installation" where
  "do_acts d as L \<equiv> fold (abs_action (d_Mappings d) (d_Backends d)) as L"

lemma at_comment_without: "at_comment c (without c' L) = (if c = c' then [] else at_comment c L)"
  by (auto simp: at_comment_def without_def comment_of_def filter_empty_conv intro: filter_cong)

lemma at_comment_append: "at_comment c (L @ M) = at_comment c L @ at_comment c M"
  by (simp add: at_comment_def)

lemma wanted_in: "wanted_comments d c = Some m \<Longrightarrow> m \<in> set (d_Mappings d) \<and> c = MappingComment (m_ID m)"
  by (auto simp: wanted_comments_def dest: index_by_Some)

text \<open>The actions of one comment settle it and leave the others alone.\<close>

lemma acts_at_settle:
  assumes v: "valid_firewall d" and wf: "\<forall>p \<in> set L. wf_mapping (fst p) (snd p)"
    and same: "at_comment c M = at_comment c L"
  shows "settled d c (do_acts d (acts_at d L c) M)"
    and "c' \<noteq> c \<Longrightarrow> at_comment c' (do_acts d (acts_at d L c) M) = at_comment c' M"
    and "\<forall>x \<in> set (acts_at d L c). applicable (d_Mappings d) (d_Backends d) x"
proof -
  have goal: "settled d c (do_acts d (acts_at d L c) M) \<and>
    (c' \<noteq> c \<longrightarrow> at_comment c' (do_acts d (acts_at d L c) M) = at_comment c' M) \<and>
    (\<forall>x \<in> set (acts_at d L c). applicable (d_Mappings d) (d_Backends d) x)"
  proof (cases "wanted_comments d c")
    case None
    show ?thesis
    proof (cases "at_comment c L = []")
      case True
      then show ?thesis using None same by (simp add: acts_at_def firewall_action_def index_seen settled_def)
    next
      case False
      let ?p = "last (at_comment c L)"
      have "?p \<in> set (at_comment c L)" using False by simp
      then have p: "wf_mapping (fst ?p) (snd ?p)" "comment_of ?p = c" using wf by (auto simp: at_comment_def)
      then have cm: "commentFromSpec (spec_line (fst ?p) (snd ?p)) = c"
        using commentFromSpec_spec [of "fst ?p" "snd ?p"] by (simp add: comment_of_def)
      have "c \<noteq> []" using p(2) by (auto simp: comment_of_def MappingComment_def)
      then show ?thesis
        using None False cm
        by (simp add: acts_at_def firewall_action_def index_seen settled_def abs_action_def mk_action_def
            seen_rule_def at_comment_without applicable_def Let_def)
    qed
  next
    case (Some m)
    have m: "m \<in> set (d_Mappings d)" "c = MappingComment (m_ID m)" using wanted_in [OF Some] by blast+
    obtain b where b: "backend_by_id d (m_BackendID m) = Some b" "BackendAddr m (d_Backends d) = b_Address b"
      "IPv4 (b_Address b) = None" "wf_mapping m (b_Address b)" by (rule valid_backend [OF v m(1)])
    have look: "index_by (\<lambda>m. MappingComment (m_ID m)) (d_Mappings d) (MappingComment (m_ID m)) = Some m"
      using Some m(2) by (simp add: wanted_comments_def)
    have "b_Address b \<noteq> []" using b(4) by (simp add: wf_mapping_def addr_word_def)
    then have spec: "mappingRuleSpec m (Some b) = spec_line m (b_Address b)" by (simp add: mappingRuleSpec_def)
    have one: "at_comment c' [(m, b_Address b)] = (if c' = c then [(m, b_Address b)] else [])" for c'
      by (simp add: at_comment_def comment_of_def m(2))
    show ?thesis
      using Some same b look spec one m(2)
      by (cases "at_comment c L = []")
        (auto simp: acts_at_def firewall_action_def index_seen settled_def abs_action_def mk_action_def Let_def
          seen_rule_def at_comment_without at_comment_append applicable_def)
  qed
  then show "settled d c (do_acts d (acts_at d L c) M)"
    and "c' \<noteq> c \<Longrightarrow> at_comment c' (do_acts d (acts_at d L c) M) = at_comment c' M"
    and "\<forall>x \<in> set (acts_at d L c). applicable (d_Mappings d) (d_Backends d) x" by blast+
qed

lemma settled_cong: "at_comment c L = at_comment c M \<Longrightarrow> settled d c L = settled d c M"
  by (simp add: settled_def split: option.splits)

lemma acts_settle_all:
  assumes v: "valid_firewall d" and wf: "\<forall>p \<in> set L. wf_mapping (fst p) (snd p)"
    and "distinct ks" and "\<forall>c \<in> set ks. at_comment c M = at_comment c L"
  shows "(\<forall>c \<in> set ks. settled d c (do_acts d (concat (map (acts_at d L) ks)) M)) \<and>
         (\<forall>c. c \<notin> set ks \<longrightarrow> at_comment c (do_acts d (concat (map (acts_at d L) ks)) M) = at_comment c M)"
  using assms(3,4)
proof (induction ks arbitrary: M)
  case (Cons k ks)
  let ?M = "do_acts d (acts_at d L k) M"
  have k: "settled d k ?M" "\<And>c. c \<noteq> k \<Longrightarrow> at_comment c ?M = at_comment c M"
    using acts_at_settle [OF v wf, of k M] Cons.prems(2) by auto
  let ?N = "do_acts d (concat (map (acts_at d L) ks)) ?M"
  have "at_comment c ?M = at_comment c L" if c: "c \<in> set ks" for c
  proof -
    have "c \<noteq> k" using c Cons.prems(1) by auto
    then show ?thesis using k(2) c Cons.prems(2) by simp
  qed
  then have IH: "\<forall>c \<in> set ks. settled d c ?N" "\<forall>c. c \<notin> set ks \<longrightarrow> at_comment c ?N = at_comment c ?M"
    using Cons.IH [of ?M] Cons.prems(1) by auto
  have "at_comment k ?N = at_comment k ?M" using IH(2) Cons.prems(1) by simp
  then have "settled d k ?N" using k(1) settled_cong by blast
  then show ?case using IH k(2) by auto
qed simp

lemma at_comment_Nil: "at_comment c L = [] \<longleftrightarrow> c \<notin> f_Comment ` set (map seen_rule L)"
  by (force simp: at_comment_def comment_of_def seen_rule_def filter_empty_conv)

lemma settled_matches:
  assumes "\<forall>c. settled d c L" and "as_FirewallRules a = map seen_rule L"
  shows "rules_match d a"
proof -
  have dom: "c \<in> dom (wanted_comments d) \<longleftrightarrow> c \<in> f_Comment ` set (map seen_rule L)" for c
    using assms(1) [rule_format, of c]
    by (cases "wanted_comments d c") (simp_all add: settled_def at_comment_Nil domIff)
  have spec: "f_Spec r = mappingRuleSpec m (backend_by_id d (m_BackendID m))"
    if "wanted_comments d c = Some m" "index_by f_Comment (map seen_rule L) c = Some r" for c m r
    using assms(1) [rule_format, of c] that by (auto simp: settled_def index_seen seen_rule_def split: if_splits)
  show ?thesis
    unfolding rules_match_def managed_seen [OF assms(2)] using dom spec by blast
qed

lemma abs_plan_matches:
  assumes v: "valid_firewall d" and wf: "\<forall>p \<in> set L. wf_mapping (fst p) (snd p)"
    and a: "as_FirewallRules a = map seen_rule L"
    and a': "as_FirewallRules a' = map seen_rule (do_acts d (firewall_actions d a) L)"
  shows "firewall_actions d a' = []"
    and "\<forall>x \<in> set (firewall_actions d a). applicable (d_Mappings d) (d_Backends d) x"
proof -
  define ks where "ks = sorted_keys (map (\<lambda>m. MappingComment (m_ID m)) (d_Mappings d) @ map f_Comment (map seen_rule L))"
  have acts: "firewall_actions d a = concat (map (acts_at d L) ks)"
    by (simp only: firewall_actions_def managed_seen [OF a] ks_def acts_at_def [abs_def])
  have "distinct ks" by (simp add: ks_def sorted_keys_def)
  then have s: "\<forall>c \<in> set ks. settled d c (do_acts d (firewall_actions d a) L)"
    "\<forall>c. c \<notin> set ks \<longrightarrow> at_comment c (do_acts d (firewall_actions d a) L) = at_comment c L"
    unfolding acts using acts_settle_all [OF v wf, of ks L] by blast+
  have "settled d c (do_acts d (firewall_actions d a) L)" for c
  proof (cases "c \<in> set ks")
    case False
    then have "wanted_comments d c = None" "at_comment c L = []"
      by (auto simp: ks_def wanted_comments_def index_by_None at_comment_def comment_of_def seen_rule_def
          filter_empty_conv)
    then show ?thesis using s(2) False by (simp add: settled_def)
  qed (use s(1) in blast)
  then show "firewall_actions d a' = []"
    unfolding firewall_actions_Nil using settled_matches [OF _ a'] by blast
  show "\<forall>x \<in> set (firewall_actions d a). applicable (d_Mappings d) (d_Backends d) x"
    unfolding acts using acts_at_settle(3) [OF v wf refl] by auto
qed

section \<open>Apply on a host\<close>

text \<open>The states \<open>fw_Plan\<close> hands to \<open>Diff\<close>.\<close>

definition firewall_desired :: "port_mapping list \<Rightarrow> backend list \<Rightarrow> desired_state" where
  "firewall_desired ms bs =
     \<lparr>d_Node = \<lparr>n_ID = [], n_Name = [], n_PublicIP = [], n_Labels = Map.empty, n_CreatedAt = 0, n_UpdatedAt = 0\<rparr>,
      d_Backends = bs, d_Tunnels = [], d_Mappings = ms, d_SniRoutes = [], d_HealthChecks = [],
      d_FailoverPolicies = [], d_FailbackIntents = []\<rparr>"

definition rules_actual :: "firewall_rule list \<Rightarrow> actual_state" where
  "rules_actual rs =
     \<lparr>as_NodeID = [], as_Tunnels = [], as_FirewallRules = rs, as_HaproxyDigest = [], as_SniRoutes = [],
      as_TransportStates = [], as_Conflicts = [], as_DiscoveredAt = 0\<rparr>"

lemma firewall_action_target: "x \<in> set (firewall_actions d a) \<Longrightarrow> ac_Target x = ''firewall''"
  by (auto simp: firewall_actions_def firewall_action_def mk_action_def Let_def split: option.splits if_splits)

lemma fw_Plan_firewall:
  "fw_Plan ms bs rs =
     \<lparr>pl_Actions = firewall_actions (firewall_desired ms bs) (rules_actual rs), pl_Conflicts = []\<rparr>"
proof -
  have "filter (\<lambda>a. ac_Target a = ''firewall'') (firewall_actions d a) = firewall_actions d a" for d a
    by (simp add: filter_id_conv firewall_action_target)
  moreover have "tunnel_actions (firewall_desired ms bs) (rules_actual rs) = []"
    "haproxy_actions (firewall_desired ms bs) (rules_actual rs) = []"
    by (simp_all add: tunnel_actions_def haproxy_actions_def firewall_desired_def rules_actual_def sorted_keys_def)
  ultimately show ?thesis
    by (simp add: fw_Plan_def Let_def Diff_def flip: firewall_desired_def rules_actual_def)
      (simp add: rules_actual_def)
qed

definition valid_mappings :: "port_mapping list \<Rightarrow> backend list \<Rightarrow> bool" where
  "valid_mappings ms bs \<longleftrightarrow>
     distinct (map b_ID bs) \<and>
     (\<forall>m \<in> set ms. \<exists>b \<in> set bs. b_ID b = m_BackendID m \<and> IPv4 (b_Address b) = None \<and> wf_mapping m (b_Address b))"


lemma liftH_apply: "m h = (r, h') \<Longrightarrow> liftH m (s, h) = (r, (s, h'))"
  by (simp add: liftH_def)

definition texts_at :: "string \<times> string \<Rightarrow> iptables_rule list \<Rightarrow> string list" where
  "texts_at k rs = map rtext (filter (\<lambda>r. rkey r = k) rs)"

lemma fold_remove1_suffix:
  "distinct xs \<Longrightarrow> set xs \<inter> set old = {} \<Longrightarrow> fold remove1 (rev xs) (old @ xs) = old"
proof (induction xs rule: rev_induct)
  case (snoc y xs)
  then have "remove1 y (old @ xs @ [y]) = old @ xs" by (simp add: remove1_append)
  with snoc show ?case by simp
qed simp

context iptables_host
begin

lemma apply_mapping_ok:
  assumes "ok h" and "installed (rules h) L" and "ready (rules h)" and "wf_mapping mp addr" and "IPv4 addr = None"
  shows "\<exists>m' h'. apply_mapping os kind mp addr (m, h) = (Inr (), (m', h')) \<and> ok h' \<and>
    installed (rules h') ((if kind = KindChange then without (MappingComment (m_ID mp)) L else L) @ [(mp, addr)]) \<and>
    same_chains (rules h) (rules h')"
proof -
  have ports: "Port (m_PublicPort mp) = None" "Port (m_BackendPort mp) = None"
    using assms(4) by (auto simp: wf_mapping_def Port_def)
  obtain h1 where h1: "(if kind = KindChange then liftH (deleteByComment os (MappingComment (m_ID mp))) else returnA ()) (m, h) =
      (Inr (), (m, h1))" "ok h1" "same_chains (rules h) (rules h1)"
    "installed (rules h1) (if kind = KindChange then without (MappingComment (m_ID mp)) L else L)"
    using delete_installed [OF assms(1,2), of "MappingComment (m_ID mp)"] assms(1,2)
    by (cases "kind = KindChange") (auto simp: deleteByComment_def liftH_def bindA_def)
  obtain h2 where "addMappingRules os mp addr h1 = (Inr (mapping_rules mp addr), h2)" "ok h2"
    "same_chains (rules h1) (rules h2)"
    "installed (rules h2) ((if kind = KindChange then without (MappingComment (m_ID mp)) L else L) @ [(mp, addr)])"
    using add_installed [OF h1(2,4) same_chains_ready [OF h1(3) assms(3)] assms(4)] by blast
  then show ?thesis
    using h1 ports assms(5) same_chains_trans [OF h1(3)]
    by (auto simp: apply_mapping_def bindA_def liftH_def modM_def)
qed

lemma apply_action_ok:
  assumes "ok h" and "installed (rules h) L" and "ready (rules h)" and "applicable desired backends a"
  shows "\<exists>m' h'. apply_action os desired backends a (m, h) = (Inr (), (m', h')) \<and> ok h' \<and>
    installed (rules h') (abs_action desired backends a L) \<and> same_chains (rules h) (rules h')"
proof (cases "ac_Target a = ''firewall''")
  case False
  then show ?thesis using assms by (auto simp: apply_action_def abs_action_def)
next
  case fw: True
  show ?thesis
  proof (cases "ac_Kind a = KindDelete")
    case True
    let ?c = "if commentFromSpec (ac_Before a) = [] then ac_ID a else commentFromSpec (ac_Before a)"
    obtain del h1 where "deleteByCommentCopy os ?c h = (Inr del, h1)" "ok h1"
      "installed (rules h1) (without ?c L)" "same_chains (rules h) (rules h1)"
      using delete_installed [OF assms(1,2)] by blast
    then show ?thesis
      using fw True by (auto simp: apply_action_def abs_action_def Let_def bindA_def liftH_def modM_def)
  next
    case False
    then obtain mp where mp: "index_by (\<lambda>m. MappingComment (m_ID m)) desired (MappingComment (ac_ID a)) = Some mp"
      "IPv4 (BackendAddr mp backends) = None" "wf_mapping mp (BackendAddr mp backends)"
      using assms(4) fw by (auto simp: applicable_def)
    have ne: "BackendAddr mp backends \<noteq> []" using mp(3) by (simp add: wf_mapping_def addr_word_def)
    show ?thesis
      using apply_mapping_ok [OF assms(1-3) mp(3,2), of "ac_Kind a" m] fw False mp(1) ne
      by (cases "ac_Kind a") (auto simp: apply_action_def abs_action_def Let_def)
  qed
qed

lemma apply_actions_ok:
  assumes "ok h" and "installed (rules h) L" and "ready (rules h)" and "\<forall>a \<in> set acts. applicable desired backends a"
  shows "\<exists>m' h'. forA (\<lambda>a _. apply_action os desired backends a) acts () (m, h) = (Inr (), (m', h')) \<and> ok h' \<and>
    installed (rules h') (fold (abs_action desired backends) acts L) \<and> same_chains (rules h) (rules h')"
  using assms
proof (induction acts arbitrary: h m L)
  case Nil
  then show ?case by auto
next
  case (Cons a acts)
  have a: "applicable desired backends a" using Cons.prems(4) by simp
  obtain m1 h1 where h1: "apply_action os desired backends a (m, h) = (Inr (), (m1, h1))" "ok h1"
    "installed (rules h1) (abs_action desired backends a L)" "same_chains (rules h) (rules h1)"
    using apply_action_ok [OF Cons.prems(1-3) a] by blast
  obtain m2 h2 where "forA (\<lambda>a _. apply_action os desired backends a) acts () (m1, h1) = (Inr (), (m2, h2))" "ok h2"
    "installed (rules h2) (fold (abs_action desired backends) acts (abs_action desired backends a L))"
    "same_chains (rules h1) (rules h2)"
    using Cons.IH [OF h1(2,3) same_chains_ready [OF h1(4) Cons.prems(3)]] Cons.prems(4) by fastforce
  then show ?case using h1 same_chains_trans [OF h1(4)] by (auto simp: bindA_def)
qed

lemma backup_ok:
  assumes "ok h"
  shows "\<exists>m' h'. backupLocked os (m, h) = (Inr (), (m', h')) \<and> ok h' \<and> rules h' = rules h"
proof -
  obtain out errb h1 where h1: "os_run os [] ''iptables-save'' [] h = ((out, errb, None), h1)" "ok h1" "rules h1 = rules h"
    using save_law [OF assms] by blast
  obtain h2 where h2: "os_mkdir os (fw_BackupDir m) h1 = (None, h2)" "ok h2" "rules h2 = rules h"
    using mkdir_law [OF h1(2)] h1(3) by metis
  obtain h3 where "os_write os (path_join (fw_BackupDir m) (''iptables-'' @ os_stamp os ''20060102T150405Z'' h2 @ ''.save'')) out h2 =
      (None, h3)" "ok h3" "rules h3 = rules h" using write_law [OF h2(2)] h2(3) by metis
  then show ?thesis
    using h1 h2 by (auto simp: backupLocked_def bindA_def liftH_def modM_def run_or_def run0_def errA_def Let_def)
qed

lemma Apply_converges:
  assumes "ok h" and "installed (rules h) L" and "parents (rules h)" and "valid_firewall d"
    and a: "as_FirewallRules a = map seen_rule L"
  shows "\<exists>m' h' L'. fw_Apply os \<lparr>pl_Actions = firewall_actions d a, pl_Conflicts = []\<rparr> (d_Mappings d) (d_Backends d) (m, h) =
      (Inr (), (m', h')) \<and> ok h' \<and> installed (rules h') L' \<and> parents (rules h') \<and>
      (\<forall>a'. as_FirewallRules a' = map seen_rule L' \<longrightarrow> firewall_actions d a' = [])"
proof -
  have wf: "\<forall>p \<in> set L. wf_mapping (fst p) (snd p)" using assms(2) by (simp add: installed_def)
  obtain m1 h1 where h1: "backupLocked os (m, h) = (Inr (), (m1, h1))" "ok h1" "rules h1 = rules h"
    using backup_ok [OF assms(1)] by blast
  obtain h2 where h2: "ensureInfrastructure os h1 = (Inr (), h2)" "ok h2" "keeps (rules h) (rules h2)" "ready (rules h2)"
    using ensureInfrastructure_ok [OF h1(2)] assms(3) h1(3) by auto
  let ?after = "a\<lparr>as_FirewallRules := map seen_rule (do_acts d (firewall_actions d a) L)\<rparr>"
  have app: "\<forall>x \<in> set (firewall_actions d a). applicable (d_Mappings d) (d_Backends d) x"
    by (rule abs_plan_matches(2) [OF assms(4) wf a, of ?after]) simp
  note inst2 = keeps_installed [OF h2(3) assms(2)] and par2 = keeps_parents [OF h2(3) assms(3)]
  obtain m3 h3 where h3: "forA (\<lambda>a _. apply_action os (d_Mappings d) (d_Backends d) a) (firewall_actions d a) ()
      (m1\<lparr>fw_lastAdd := [], fw_lastDel := []\<rparr>, h2) = (Inr (), (m3, h3))" "ok h3"
    "installed (rules h3) (do_acts d (firewall_actions d a) L)" "same_chains (rules h2) (rules h3)"
    using apply_actions_ok [OF h2(2) inst2 h2(4) app] by blast
  have "parents (rules h3)" using par2 h3(4) by (simp add: parents_def same_chains_def)
  moreover have "fw_Apply os \<lparr>pl_Actions = firewall_actions d a, pl_Conflicts = []\<rparr> (d_Mappings d) (d_Backends d) (m, h) =
      (Inr (), (m3, h3))"
    using h1(1) h2(1) h3(1) by (simp add: fw_Apply_def HasConflicts_def bindA_def liftH_def modM_def)
  ultimately show ?thesis
    using h3(2,3) abs_plan_matches(1) [OF assms(4) wf a] by blast
qed

text \<open>The round of the manager: discover, plan with \<open>fw_Plan\<close>, apply, discover again.\<close>

lemma round_converges:
  assumes "ok h" and "installed (rules h) L" and "parents (rules h)" and "valid_mappings ms bs"
  shows "\<exists>r1 h1 m2 h2 r3 h3.
    fw_Discover os h = (Inr (r1, []), h1) \<and>
    fw_Apply os (fw_Plan ms bs r1) ms bs (m, h1) = (Inr (), (m2, h2)) \<and>
    fw_Discover os h2 = (Inr (r3, []), h3) \<and> Plan_Empty (fw_Plan ms bs r3)"
proof -
  let ?d = "firewall_desired ms bs"
  have v: "valid_firewall ?d" using assms(4) by (simp add: valid_firewall_def valid_mappings_def firewall_desired_def)
  have d: "d_Mappings ?d = ms" "d_Backends ?d = bs" by (simp_all add: firewall_desired_def)
  obtain h1 where h1: "fw_Discover os h = (Inr (map seen_rule L, []), h1)" "ok h1" "rules h1 = rules h"
    using Discover_installed [OF assms(1,2)] by blast
  have i1: "installed (rules h1) L" "parents (rules h1)" using assms(2,3) h1(3) by simp_all
  obtain m2 h2 L' where h2: "fw_Apply os (fw_Plan ms bs (map seen_rule L)) ms bs (m, h1) = (Inr (), (m2, h2))"
    "ok h2" "installed (rules h2) L'"
    "\<forall>a'. as_FirewallRules a' = map seen_rule L' \<longrightarrow> firewall_actions ?d a' = []"
    using Apply_converges [OF h1(2) i1 v, of "rules_actual (map seen_rule L)" m]
    by (auto simp: d fw_Plan_firewall rules_actual_def)
  obtain h3 where h3: "fw_Discover os h2 = (Inr (map seen_rule L', []), h3)"
    using Discover_installed [OF h2(2,3)] by blast
  have "Plan_Empty (fw_Plan ms bs (map seen_rule L'))"
    using h2(4) by (simp add: Plan_Empty_def fw_Plan_firewall rules_actual_def)
  then show ?thesis using h1(1) h2(1) h3 by blast
qed

text \<open>Rolling back the rules an apply added.\<close>

lemma rollback_restores:
  assumes "ok h" and rs: "\<forall>r \<in> set rs. is_table (ir_Table r) \<and> rules h (rkey r) \<noteq> None"
    and fresh: "\<forall>k. distinct (texts_at k rs) \<and> set (texts_at k rs) \<inter> set (contents (rules h) k) = {}"
    and m: "fw_lastAdd m = rs" "fw_lastDel m = []"
  shows "\<exists>h1 h2 m'. each_rule os ''-A'' rs h = (Inr (), h1) \<and> fw_Rollback os (m, h1) = (Inr (), (m', h2)) \<and>
    rules h2 = rules h \<and> fw_lastAdd m' = []"
proof -
  obtain h1 where h1: "each_rule os ''-A'' rs h = (Inr (), h1)" "ok h1"
    and R1: "\<And>k. rules h1 k = map_option (\<lambda>old. old @ texts_at k rs) (rules h k)"
    using each_append [OF assms(1) rs] unfolding texts_at_def by blast
  have rev: "map rtext (filter (\<lambda>r. rkey r = k) (rev rs)) = rev (texts_at k rs)" for k
    by (simp add: texts_at_def rev_filter rev_map flip: rev_filter)
  obtain h2 where h2: "each_rule os ''-D'' (rev rs) h1 = (Inr (), h2)" "ok h2"
    and R2: "\<And>k. rules h2 k = map_option (fold remove1 (rev (texts_at k rs))) (rules h1 k)"
    using each_delete [OF h1(2), of "rev rs"] rs unfolding rev by (fastforce simp: R1)
  have "rules h2 k = rules h k" for k
    using fold_remove1_suffix [of "texts_at k rs"] fresh [rule_format, of k]
    by (cases "rules h k") (simp_all add: R1 R2 contents_def)
  then have "rules h2 = rules h" by blast
  then show ?thesis
    using h1(1) h2(1) m by (cases "rs = []") (auto simp: fw_Rollback_def Let_def each_rule_def fun_eq_iff)
qed

end

section \<open>What a rollback does not know\<close>

lemma apply_mapping_error_state:
  "apply_mapping os kind mp addr (m, h) = (Inl e, (m', h')) \<Longrightarrow> m' = m"
  by (auto simp: apply_mapping_def liftH_def modM_def elim!: bindA_InlE bindA_InrE
      split: prod.splits if_splits)

lemma apply_action_error_state:
  "apply_action os ds bs a (m, h) = (Inl e, (m', h')) \<Longrightarrow> m' = m"
  by (auto simp: apply_action_def liftH_def modM_def Let_def dest: apply_mapping_error_state
      elim!: bindA_InlE bindA_InrE split: prod.splits if_splits option.splits action_kind.splits)

text \<open>An action that fails midway is not undone: the manager logs the rules of an action only when
  all of its commands succeeded, so after a failed first action \<open>Rollback\<close> issues no command and
  reports success, with the rules the action had already added or deleted left as they are.\<close>

lemma failed_action_not_rolled_back:
  assumes "apply_action os ds bs a (m, h) = (Inl e, (m', h'))"
    and "fw_lastAdd m = []" and "fw_lastDel m = []"
  shows "fst (fw_Rollback os (m', h')) = Inr () \<and> snd (snd (fw_Rollback os (m', h'))) = h'"
  using apply_action_error_state [OF assms(1)] assms(2,3)
  by (auto simp: fw_Rollback_def each_rule_def Let_def)

text \<open>A host on which the second command fails.\<close>

definition flaky_os :: "nat os" where
  "flaky_os =
     \<lparr>os_run = (\<lambda>stdin exe args n. if n = 1 then (([], [], Some (Plain ''exit 4'')), n + 1) else (([], [], None), n + 1)),
      os_read = (\<lambda>p h. FileMissing), os_write = (\<lambda>p b h. (None, h)), os_rename = (\<lambda>p q h. (None, h)),
      os_remove = (\<lambda>p h. (None, h)), os_mkdir = (\<lambda>p h. (None, h)), os_now = (\<lambda>h. 1),
      os_stamp = (\<lambda>l h. l), os_dial = (\<lambda>n a h. None)\<rparr>"

lemma failed_action_not_rolled_back_witness:
  "\<exists>e m' h'. apply_action flaky_os [sample_mapping ''m1'' ''b1'' 8443] [sample_backend ''b1'' ''10.9.0.2'']
      (mk_action KindAdd ''firewall'' ''m1'' [] []) (\<lparr>fw_BackupDir = [], fw_snapshot = Some ''s'', fw_lastAdd = [], fw_lastDel = []\<rparr>, 0) =
      (Inl e, (m', h')) \<and> 1 < h' \<and> snd (snd (fw_Rollback flaky_os (m', h'))) = h'"
proof -
  let ?m = "\<lparr>fw_BackupDir = [], fw_snapshot = Some ''s'', fw_lastAdd = [], fw_lastDel = []\<rparr>"
  let ?run = "apply_action flaky_os [sample_mapping ''m1'' ''b1'' 8443] [sample_backend ''b1'' ''10.9.0.2'']
      (mk_action KindAdd ''firewall'' ''m1'' [] []) (?m, 0)"
  have v: "IPv4 ''10.9.0.2'' = None" by code_simp
  have "\<exists>e. ?run = (Inl e, (?m, 2))"
    by (simp add: apply_action_def mk_action_def index_by_find sample_mapping_def sample_backend_def BackendAddr_def
        apply_mapping_def v Port_def bindA_def liftH_def addMappingRules_def each_rule_def mapping_rules_def
        iptables_def run_or_def run0_def flaky_os_def Let_def)
  then obtain e where run: "?run = (Inl e, (?m, 2))" ..
  have "snd (snd (fw_Rollback flaky_os (?m, 2))) = 2"
    using failed_action_not_rolled_back [OF run] by simp
  with run show ?thesis by (metis one_less_numeral_iff semiring_norm(76))
qed

end
