(* ===== verification/TestFirewall.thy ===== *)
theory TestFirewall
  imports TestHost FirewallConverge
begin

text \<open>
  The in-memory host keeps the contract of \<open>iptables_host\<close> as long as no failure is injected, so what
  is proved of the firewall manager on such hosts holds on it. The theorems at the end run the whole
  round: discover, plan, apply, discover again.
\<close>

definition th_rules :: "host \<Rightarrow> chain_map" where
  "th_rules h = (\<lambda>(t, c). if is_table t then map_of (th_table t h) c else None)"

text \<open>
  No failure is injected. The links and one file \<open>p\<close> are fixed along, so that a law about a state that is
  still \<open>th_ok\<close> says the command did not touch them; \<open>p\<close> must not have the name of a firewall backup.
\<close>

definition th_ok :: "(string \<times> link) list \<Rightarrow> string option \<Rightarrow> string \<Rightarrow> host \<Rightarrow> bool" where
  "th_ok L F p h \<longleftrightarrow> h_FailOn h = [] \<and> h_Links h = L \<and> map_of (h_Files h) p = F \<and>
     (\<forall>dir stamp. p \<noteq> path_join dir (''iptables-'' @ stamp @ ''.save''))"

lemma th_okI: "h_FailOn h = [] \<Longrightarrow> th_ok (h_Links h) (map_of (h_Files h) []) [] h"
  by (simp add: th_ok_def path_join_def)

abbreviation logged :: "string list \<Rightarrow> host \<Rightarrow> host" where
  "logged call h \<equiv> h\<lparr>h_Calls := h_Calls h @ [call]\<rparr>"

lemma executables_allowed:
  "ValidateExecutable ''iptables'' = None" "ValidateExecutable ''iptables-save'' = None"
  "ValidateExecutable ''iptables-restore'' = None" "ValidateExecutable ''ip'' = None"
  "ValidateExecutable ''wg'' = None" "ValidateExecutable ''haproxy'' = None"
  "ValidateExecutable ''systemctl'' = None" "ValidateExecutable ''ping'' = None"
  by code_simp+

lemma th_exec_iptables:
  "th_ok L F p h \<Longrightarrow> th_exec stdin ''iptables'' args h = th_iptables args (logged (''iptables'' # args) h)"
  by (simp add: th_exec_def executables_allowed th_ok_def Let_def)

lemma th_ok_logged [simp]: "th_ok L F p (logged call h) = th_ok L F p h"
  by (simp add: th_ok_def)

lemma th_rules_logged [simp]: "th_rules (logged call h) = th_rules h"
  by (simp add: th_rules_def th_table_def fun_eq_iff)

lemma th_ok_set_table [simp]: "th_ok L F p (set_table t cs h) = th_ok L F p h"
  by (simp add: th_ok_def set_table_def)

lemma th_rules_set_table:
  "is_table t \<Longrightarrow> th_rules (set_table t (AList.update c v (th_table t h)) h) = (th_rules h)((t, c) \<mapsto> v)"
  by (auto simp: th_rules_def set_table_def th_table_def is_table_def name_defs fun_eq_iff update_conv')

lemma th_table_logged [simp]: "th_table t (logged call h) = th_table t h"
  by (simp add: th_table_def)

lemma th_rules_set_logged:
  "is_table t \<Longrightarrow> th_rules (set_table t (AList.update c v (th_table t h)) (logged call h)) = (th_rules h)((t, c) \<mapsto> v)"
  using th_rules_set_table [of t c v "logged call h"] by simp

lemma iptables_th:
  "th_ok L F p h \<Longrightarrow> iptables th_os ([''-t'', t] @ rest) h =
     (case th_iptables_cmd t rest (logged (''iptables'' # ''-t'' # t # rest) h) of
        ((out, errb, Some e), h') \<Rightarrow> (Inl (cmd_err (''iptables '' @ Join (''-t'' # t # rest) '' '') e errb), h')
      | ((out, errb, None), h') \<Rightarrow> (Inr out, h'))"
  by (simp add: iptables_def run_or_def run0_def th_os_def th_exec_iptables th_iptables_def
      split: prod.splits option.splits)

lemma chainMissing_no_chain: "chainMissing (cmd_err what (Plain ''no chain'') errb)"
proof -
  have "ToLower ''no chain'' = ''no chain''" by code_simp
  then have "ToLower (err_text (cmd_err what (Plain ''no chain'') errb)) =
    ToLower (what @ '': '') @ ''no chain'' @ ToLower ('' ('' @ TrimSpace errb @ '')'')"
    by (simp add: cmd_err_def wrapf_def ToLower_def)
  then show ?thesis unfolding chainMissing_def Let_def Contains_iff by blast
qed

lemma th_list:
  assumes "th_ok L F p h" and "is_table t"
  shows "\<exists>h'. list_chain th_os t c h = (Inr (map_option (chain_text c) (th_rules h (t, c))), h') \<and>
    th_ok L F p h' \<and> th_rules h' = th_rules h"
proof -
  have m: "th_rules h (t, c) = map_of (th_table t h) c" using assms(2) by (simp add: th_rules_def)
  show ?thesis
    using assms iptables_th [OF assms(1), of t "[''-S'', c]"]
    by (cases "map_of (th_table t h) c")
      (auto simp: list_chain_def th_iptables_cmd_def okR_def errR_def m chainMissing_no_chain
        chain_text_def nl_def lf_def)
qed

lemma th_cmd_frame:
  assumes "op \<in> set [''-C'', ''-D'', ''-F'', ''-X'']"
  shows "snd (th_iptables_cmd t (op # c # args) g) = g \<or>
    (\<exists>v. op = ''-D'' \<and> map_of (th_table t g) c \<noteq> None \<and>
         snd (th_iptables_cmd t (op # c # args) g) = set_table t (AList.update c v (th_table t g)) g)"
  using assms by (auto simp: th_iptables_cmd_def okR_def errR_def chain_rules_def Let_def
      split: option.splits if_splits)

lemma iptables_th_host:
  "th_ok L F p h \<Longrightarrow> snd (iptables th_os ([''-t'', t] @ rest) h) =
     snd (th_iptables_cmd t rest (logged (''iptables'' # ''-t'' # t # rest) h))"
  unfolding iptables_th by (simp split: prod.splits option.splits)

interpretation th: iptables_host th_os th_rules "th_ok L F p" for L F p
proof unfold_locales
  fix h t c
  assume "th_ok L F p h" "is_table t"
  then show "\<exists>h'. list_chain th_os t c h = (Inr (map_option (chain_text c) (th_rules h (t, c))), h') \<and>
    th_ok L F p h' \<and> th_rules h' = th_rules h" by (rule th_list)
next
  fix h t c rs args
  assume a: "th_ok L F p h" "is_table t" "th_rules h (t, c) = Some rs"
  have "map_of (th_table t h) c = Some rs" using a by (simp add: th_rules_def)
  then show "\<exists>out h'. iptables th_os ([''-t'', t, ''-A'', c] @ args) h = (Inr out, h') \<and> th_ok L F p h' \<and>
    th_rules h' = (th_rules h)((t, c) \<mapsto> rs @ [Join args '' ''])"
    using iptables_th [OF a(1), of t "''-A'' # c # args"] a th_rules_set_logged [OF a(2)]
    by (auto simp: th_iptables_cmd_def okR_def)
next
  fix h t c rs args
  assume a: "th_ok L F p h" "is_table t" "th_rules h (t, c) = Some rs" "Join args '' '' \<in> set rs"
  have m: "map_of (th_table t h) c = Some rs" using a by (simp add: th_rules_def)
  then show "\<exists>out h'. iptables th_os ([''-t'', t, ''-D'', c] @ args) h = (Inr out, h') \<and> th_ok L F p h' \<and>
    th_rules h' = (th_rules h)((t, c) \<mapsto> remove1 (Join args '' '') rs)"
    using iptables_th [OF a(1), of t "''-D'' # c # args"] a th_rules_set_logged [OF a(2)]
    by (auto simp: th_iptables_cmd_def okR_def chain_rules_def)
next
  fix h t c
  assume a: "th_ok L F p h" "is_table t" "th_rules h (t, c) = None"
  have "map_of (th_table t h) c = None" using a by (simp add: th_rules_def)
  then show "\<exists>out h'. iptables th_os [''-t'', t, ''-N'', c] h = (Inr out, h') \<and> th_ok L F p h' \<and>
    th_rules h' = (th_rules h)((t, c) \<mapsto> [])"
    using iptables_th [OF a(1), of t "[''-N'', c]"] a th_rules_set_logged [OF a(2)]
    by (auto simp: th_iptables_cmd_def okR_def)
next
  fix h t op c args r h'
  assume a: "th_ok L F p h" "is_table t" "op \<in> set [''-C'', ''-D'', ''-F'', ''-X'']"
    and r: "iptables th_os ([''-t'', t, op, c] @ args) h = (r, h')"
  let ?h = "logged (''iptables'' # ''-t'' # t # op # c # args) h"
  have "h' = ?h \<or> (\<exists>v. op = ''-D'' \<and> map_of (th_table t h) c \<noteq> None \<and>
      h' = set_table t (AList.update c v (th_table t ?h)) ?h)"
    using th_cmd_frame [OF a(3), of t c args ?h] iptables_th_host [OF a(1), of t "op # c # args"] r by simp
  then consider "h' = ?h" | v where "op = ''-D''" "th_rules h (t, c) \<noteq> None"
      "h' = set_table t (AList.update c v (th_table t ?h)) ?h"
    using a(2) by (auto simp: th_rules_def)
  then show "th_ok L F p h' \<and> (\<forall>k. k \<noteq> (t, c) \<longrightarrow> th_rules h' k = th_rules h k) \<and>
      (op = ''-C'' \<longrightarrow> th_rules h' = th_rules h) \<and>
      (th_rules h (t, c) \<noteq> None \<and> op \<noteq> ''-X'' \<longrightarrow> th_rules h' (t, c) \<noteq> None) \<and>
      (th_rules h (t, c) = None \<longrightarrow> th_rules h' (t, c) = None)"
    using a(1,2) by cases (simp_all add: th_rules_set_logged)
next
  fix h
  assume "th_ok L F p h"
  then show "\<exists>out errb h'. os_run th_os [] ''iptables-save'' [] h = ((out, errb, None), h') \<and> th_ok L F p h' \<and>
    th_rules h' = th_rules h"
    by (simp add: th_os_def th_exec_def executables_allowed Let_def okR_def th_ok_def)
next
  fix h dir
  assume "th_ok L F p h"
  then show "\<exists>h'. os_mkdir th_os dir h = (None, h') \<and> th_ok L F p h' \<and> th_rules h' = th_rules h"
    by (simp add: th_os_def)
next
  fix h dir stamp body
  assume "th_ok L F p h"
  then show "\<exists>h'. os_write th_os (path_join dir (''iptables-'' @ stamp @ ''.save'')) body h = (None, h') \<and> th_ok L F p h' \<and>
    th_rules h' = th_rules h"
    by (auto simp: th_os_def th_ok_def th_rules_def th_table_def fun_eq_iff update_conv')
qed

section \<open>One round on the host\<close>

text \<open>C23: The firewall converges in one round. From any installed set of mappings, whatever was desired
  before, discovering, planning and applying a valid desired set of mappings succeeds, and the rules
  discovered afterwards need no further change: added mappings are in, changed ones replaced,
  dropped ones gone.\<close>

theorem firewall_round_converges:
  assumes "h_FailOn h = []" and "installed (th_rules h) L" and "parents (th_rules h)" and "valid_mappings ms bs"
  shows "\<exists>r1 h1 m2 h2 r3 h3.
    fw_Discover th_os h = (Inr (r1, []), h1) \<and>
    fw_Apply th_os (fw_Plan ms bs r1) ms bs (m, h1) = (Inr (), (m2, h2)) \<and>
    fw_Discover th_os h2 = (Inr (r3, []), h3) \<and> Plan_Empty (fw_Plan ms bs r3)"
  by (rule th.round_converges [OF th_okI [OF assms(1)] assms(2-4)])

definition empty_fw :: fw_state where
  "empty_fw = \<lparr>fw_BackupDir = [], fw_snapshot = None, fw_lastAdd = [], fw_lastDel = []\<rparr>"

lemma new_host_ready: "h_FailOn new_host = []" "installed (th_rules new_host) []" "parents (th_rules new_host)"
  by (simp_all add: new_host_def installed_def parents_def th_rules_def is_table_def th_table_def contents_def
      managed_keys_def legacy_keys_def name_defs)

lemma sample_valid: "valid_mappings [sample_mapping ''m1'' ''b1'' 8443] [sample_backend ''b1'' ''10.9.0.2'']"
proof -
  have "IPv4 ''10.9.0.2'' = None" by code_simp
  then show ?thesis
    by (simp add: valid_mappings_def sample_mapping_def sample_backend_def wf_mapping_def plain_word_def
        plain_char_def is_space_def addr_word_def is_digit_def)
qed

lemma firewall_round_converges_witness:
  "\<exists>r1 h1 m2 h2 r3 h3.
    fw_Discover th_os new_host = (Inr (r1, []), h1) \<and>
    fw_Apply th_os (fw_Plan [sample_mapping ''m1'' ''b1'' 8443] [sample_backend ''b1'' ''10.9.0.2''] r1)
      [sample_mapping ''m1'' ''b1'' 8443] [sample_backend ''b1'' ''10.9.0.2''] (empty_fw, h1) = (Inr (), (m2, h2)) \<and>
    fw_Discover th_os h2 = (Inr (r3, []), h3) \<and>
    Plan_Empty (fw_Plan [sample_mapping ''m1'' ''b1'' 8443] [sample_backend ''b1'' ''10.9.0.2''] r3)"
  using firewall_round_converges [OF new_host_ready sample_valid] by blast


definition chained_host :: host where
  "chained_host = new_host\<lparr>h_NAT := h_NAT new_host @ [(ChainDNAT, []), (ChainSNAT, [])],
                           h_Filter := h_Filter new_host @ [(ChainForward, [])]\<rparr>"


end
