(* ===== verification/TunnelHost.thy ===== *)
theory TunnelHost
  imports TestFirewall WireGuard SshTun
begin

text \<open>
  The tunnel managers on a host. The first sections evaluate the link commands of the in-memory host
  on symbolic names and read back what its \<open>ip\<close> and \<open>wg\<close> print; on them rest the theorems that an
  applied WireGuard tunnel is discovered as desired and that undoing a creation restores the links.
  The theorem on SSH tunnels holds on every host.
\<close>

section \<open>The link commands of the host\<close>

lemma run_ip: "h_FailOn h = [] \<Longrightarrow> run0 th_os ''ip'' args h = th_ip args (logged (''ip'' # args) h)"
  by (simp add: run0_def th_os_def th_exec_def executables_allowed Let_def)

lemma run_wg: "h_FailOn h = [] \<Longrightarrow> run0 th_os ''wg'' args h = th_wg args (logged (''wg'' # args) h)"
  by (simp add: run0_def th_os_def th_exec_def executables_allowed Let_def)

definition addr_out :: "link \<Rightarrow> string" where
  "addr_out l = concat (map (\<lambda>a. ''1: '' @ l_Name l @ ''    inet '' @ a @ lf) (l_Addrs l))"

text \<open>Words of the command line that an interface name must not be, to be told from them.\<close>

definition plain_iface :: "string \<Rightarrow> bool" where
  "plain_iface i \<longleftrightarrow> InterfaceName i = None \<and> i \<notin> {''dev'', ''type'', ''inet''}"

lemma plain_iface_word: "plain_iface i \<Longrightarrow> word i"
proof -
  assume "plain_iface i"
  then have "ifaceNameRe i" by (simp add: plain_iface_def InterfaceName_def errf_def split: if_splits)
  then obtain c cs where "i = c # cs" "alpha c" "list_all name_char cs"
    by (auto simp: ifaceNameRe_def first_then_def split: list.splits)
  moreover have "\<not> is_space x" if "alpha x \<or> name_char x" for x
    using that by (auto simp: alpha_def name_char_def is_alnum_def dest: is_space_not) (simp_all add: is_space_def)
  ultimately show "word i" by (auto simp: word_def list_all_iff)
qed

lemma plain_iface_ne: "plain_iface i \<Longrightarrow> i \<noteq> []"
  using plain_iface_word by (auto simp: word_def)

lemma no_dash [simp]: "\<not> HasPrefix ''link'' ''-''" "\<not> HasPrefix ''addr'' ''-''" "HasPrefix ''-o'' ''-''" "HasPrefix ''-4'' ''-''"
  by code_simp+

lemma run_link_show:
  assumes "h_FailOn h = []" and "i \<noteq> []"
  shows "run0 th_os ''ip'' (link_show i) h =
    (case map_of (h_Links h) i of None \<Rightarrow> no_device | Some l \<Rightarrow> okR (link_line l)) (logged (''ip'' # link_show i) h)"
  using assms by (simp add: run_ip link_show_def th_ip_def th_ip_link_def split: option.splits)

lemma run_addr_show:
  assumes "h_FailOn h = []"
  shows "run0 th_os ''ip'' (addr_show i) h =
    (case map_of (h_Links h) i of None \<Rightarrow> no_device | Some l \<Rightarrow> okR (addr_out l)) (logged (''ip'' # addr_show i) h)"
  using assms by (simp add: run_ip addr_show_def th_ip_def th_ip_addr_def addr_out_def split: option.splits)

text \<open>What a command did: no failure is injected, one link is as given, and nothing else changed.\<close>

definition sets_link :: "host \<Rightarrow> string \<Rightarrow> link \<Rightarrow> host \<Rightarrow> bool" where
  "sets_link h i l h' \<longleftrightarrow> h_FailOn h' = [] \<and> map_of (h_Links h') = (map_of (h_Links h))(i \<mapsto> l) \<and>
     h_NAT h' = h_NAT h \<and> h_Filter h' = h_Filter h \<and> h_Files h' = h_Files h"

lemma run_link_add:
  assumes "h_FailOn h = []" and "plain_iface i" and "map_of (h_Links h) i = None"
  shows "\<exists>out h'. run0 th_os ''ip'' [''link'', ''add'', ''dev'', i, ''type'', ''wireguard''] h = ((out, [], None), h') \<and>
    sets_link h i (new_link i ''wireguard'') h'"
  using assms plain_iface_ne [OF assms(2)]
  by (simp add: run_ip th_ip_def th_ip_link_def okR_def sets_link_def update_conv' plain_iface_def)

lemma run_addr_replace:
  assumes "h_FailOn h = []" and "map_of (h_Links h) i = Some l" and "a \<noteq> ''dev''"
  shows "\<exists>out h'. run0 th_os ''ip'' [''addr'', ''replace'', a, ''dev'', i] h = ((out, [], None), h') \<and>
    sets_link h i (l\<lparr>l_Addrs := [a]\<rparr>) h'"
  using assms by (simp add: run_ip th_ip_def th_ip_addr_def okR_def sets_link_def update_conv')

lemma run_link_up:
  assumes "h_FailOn h = []" and "map_of (h_Links h) i = Some l"
  shows "\<exists>out h'. run0 th_os ''ip'' [''link'', ''set'', i, ''up''] h = ((out, [], None), h') \<and>
    sets_link h i (l\<lparr>l_Up := True\<rparr>) h'"
  using assms by (simp add: run_ip th_ip_def th_ip_link_def okR_def sets_link_def update_conv')

lemma run_wg_set:
  assumes "h_FailOn h = []" and "map_of (h_Links h) i = Some l" and "wg_set_args args l = Some l'"
  shows "\<exists>out h'. run0 th_os ''wg'' (''set'' # i # args) h = ((out, [], None), h') \<and> sets_link h i l' h'"
  using assms by (simp add: run_wg th_wg_def th_wg_set_def okR_def sets_link_def update_conv')

lemma run_link_delete:
  assumes "h_FailOn h = []" and "i \<noteq> []"
  shows "run0 th_os ''ip'' [''link'', ''delete'', ''dev'', i] h =
    (let g = logged [''ip'', ''link'', ''delete'', ''dev'', i] h
     in if map_of (h_Links h) i = None then no_device g else okR [] (g\<lparr>h_Links := AList.delete i (h_Links h)\<rparr>))"
  using assms by (simp add: run_ip th_ip_def th_ip_link_def Let_def)

lemma missing_device: "ifaceMissing (Plain ''cannot find device'') ''Cannot find device''"
  by code_simp

section \<open>Reading the addresses and the dump\<close>

lemma parse_addr_line:
  assumes "word n" and "n \<noteq> ''inet''" and "word a" and "CHR ''/'' \<notin> set a"
  shows "parseLocalIPv4 (''1: '' @ n @ ''    inet '' @ (a @ ''/32'') @ lf) = a"
proof -
  have w: "word ''1:''" "word ''inet''" "word ''/32''" by code_simp+
  have "Fields (''1:'' @ '' '' @ n @ '' '' @ ''  '' @ '' '' @ ''inet'' @ '' '' @ (a @ ''/32'') @ lf) =
    Fields ''1:'' @ Fields n @ Fields ''  '' @ Fields ''inet'' @ Fields ((a @ ''/32'') @ lf)"
    by (simp only: Fields_blank)
  moreover have "Fields ''  '' = []" by code_simp
  moreover have "Fields ((a @ ''/32'') @ lf) = [a @ ''/32'']"
    using Fields_spaces [of lf "a @ ''/32''"] Fields_1 [OF word_append [OF assms(3) w(3)]]
    by (simp add: lf_def is_space_def)
  ultimately have f: "Fields (''1: '' @ n @ ''    inet '' @ (a @ ''/32'') @ lf) = [''1:'', n, ''inet'', a @ ''/32'']"
    using Fields_1 [OF w(1)] Fields_1 [OF w(2)] Fields_1 [OF assms(1)] by simp
  have "[0..<4::nat] = [0, 1, 2, 3]" by (simp add: upt_rec)
  then have "[0..<Suc (Suc (Suc (Suc 0)))] = [0, 1, 2, 3]" by simp
  moreover have "takeWhile (\<lambda>c. c \<noteq> CHR ''/'') (a @ ''/32'') = a"
    using assms(4) by (subst takeWhile_append2) auto
  ultimately show ?thesis unfolding parseLocalIPv4_def f Let_def using assms(2) by simp
qed


lemma TrimSpace_keeps_head:
  assumes "u \<noteq> []" and "\<not> is_space (hd u)" and "\<not> is_space (last u)"
  shows "TrimSpace (u @ v) = u @ TrimRightFunc is_space v"
proof -
  have l: "dropWhile is_space (u @ v) = u @ v" using assms(1,2) by (cases u) auto
  have r: "dropWhile is_space (rev u) = rev u" using assms(1,3) by (rule dropWhile_rev_last)
  have "dropWhile is_space (rev v @ rev u) = dropWhile is_space (rev v) @ rev u"
  proof (cases "dropWhile is_space (rev v) = []")
    case True
    then have "\<forall>x \<in> set (rev v). is_space x" by (simp only: dropWhile_eq_Nil_conv)
    then have "dropWhile is_space (rev v @ rev u) = dropWhile is_space (rev u)" by (intro dropWhile_append2) blast
    with True r show ?thesis by simp
  next
    case False
    then obtain x where "x \<in> set (rev v)" "\<not> is_space x" by (auto simp: dropWhile_eq_Nil_conv)
    then show ?thesis by (rule dropWhile_append1)
  qed
  then show ?thesis by (simp add: TrimSpace_def TrimLeftFunc_def TrimRightFunc_def l)
qed

lemma Split_first_line:
  assumes "u \<noteq> []" and "\<not> is_space (hd u)" and "\<not> is_space (last u)" and "CHR 0x0A \<notin> set u"
  shows "\<exists>ls. Split (TrimSpace (u @ lf @ v)) (CHR 0x0A) = u # ls"
proof -
  have u: "split_by (\<lambda>x. x = CHR 0x0A) u = [u]" using assms(4) by (intro split_by_none) auto
  obtain w where w: "lf @ v = TrimRightFunc is_space (lf @ v) @ w"
    using TrimRightFunc_split [of "lf @ v" is_space] by blast
  show ?thesis
  proof (cases "TrimRightFunc is_space (lf @ v)")
    case Nil
    then show ?thesis using TrimSpace_keeps_head [OF assms(1-3), of "lf @ v"] u by (simp add: Split_def)
  next
    case (Cons c cs)
    with w have "c = CHR 0x0A" by (simp add: lf_def)
    then show ?thesis
      using TrimSpace_keeps_head [OF assms(1-3), of "lf @ v"] Cons u by (simp add: Split_def split_by_append)
  qed
qed

lemma word_replicate: "0 < n \<Longrightarrow> \<not> is_space c \<Longrightarrow> word (replicate n c)"
  by (simp add: word_def)

lemma word_ends: "word w \<Longrightarrow> w \<noteq> [] \<and> \<not> is_space (hd w) \<and> \<not> is_space (last w) \<and> CHR 0x0A \<notin> set w"
  by (auto simp: word_def is_space_def)

lemma wg_dump_line:
  assumes "l_PublicKey l = [] \<or> word (l_PublicKey l)"
  obtains z p v where "word z" and "word p" and "wg_dump l = Join [z, p, Itoa (l_Listen l), ''off''] '' '' @ lf @ v"
proof
  show "word (replicate 64 (CHR ''0''))" by (rule word_replicate) (simp_all add: is_space_def)
  have "word (replicate 64 (CHR ''1''))" by (rule word_replicate) (simp_all add: is_space_def)
  then show "word (if l_PublicKey l = [] then replicate 64 (CHR ''1'') else l_PublicKey l)" using assms by auto
  show "wg_dump l = Join [replicate 64 (CHR ''0''), if l_PublicKey l = [] then replicate 64 (CHR ''1'') else l_PublicKey l,
      Itoa (l_Listen l), ''off''] '' '' @ lf @
    (if l_PeerKey l = [] then []
      else l_PeerKey l @ '' (none) '' @ emptyDash (l_Endpoint l) @ '' '' @ emptyDash (l_Allowed l) @ '' '' @
           Itoa (l_Handshake l) @ '' '' @ Itoa (int (l_Rx l)) @ '' '' @ Itoa (int (l_Tx l)) @ '' '' @
           Itoa (l_Keepalive l) @ lf)"
    by (simp only: wg_dump_def Join.simps append_assoc append.simps)
qed

lemma dump_listen:
  assumes "l_PublicKey l = [] \<or> word (l_PublicKey l)" and "1 \<le> l_Listen l" and "l_Listen l \<le> 65535"
  shows "a_ListenPort (parseWGDump now (wg_dump l) act) = l_Listen l \<and>
    a_InterfacePresent (parseWGDump now (wg_dump l) act) = a_InterfacePresent act \<and>
    a_LocalOverlayIP (parseWGDump now (wg_dump l) act) = a_LocalOverlayIP act"
proof -
  obtain z p v where w: "word z" "word p" and d: "wg_dump l = Join [z, p, Itoa (l_Listen l), ''off''] '' '' @ lf @ v"
    using wg_dump_line [OF assms(1)] by blast
  let ?ws = "[z, p, Itoa (l_Listen l), ''off'']"
  have "word ''off''" by code_simp
  then have ws: "\<forall>w \<in> set ?ws. word w" using w by simp
  then have f: "Fields (Join ?ws '' '') = ?ws" by (rule Fields_Join)
  have "Join ?ws '' '' \<noteq> []" "\<not> is_space (hd (Join ?ws '' ''))" "\<not> is_space (last (Join ?ws '' ''))"
    "CHR 0x0A \<notin> set (Join ?ws '' '')"
    using w word_ends [OF w(1)] word_ends [OF w(2)] word_ends [OF word_Itoa] by (auto simp: is_space_def)
  from Split_first_line [OF this] obtain ls where
    ls: "Split (TrimSpace (Join ?ws '' '' @ lf @ v)) (CHR 0x0A) = Join ?ws '' '' # ls" by blast
  have "Atoi (Itoa (l_Listen l)) = (l_Listen l, NumOk)" using assms(2,3) by simp
  then show ?thesis
    unfolding parseWGDump_def d ls list.case f
    by (auto simp: parse_dump_iface_def parse_dump_peer_def Let_def split: list.splits)
qed


section \<open>Configuring an interface\<close>

text \<open>What the manager needs of an interface that is there already: a WireGuard device under its own
  name, whose public key the dump can show.\<close>

definition wg_link :: "string \<Rightarrow> link \<Rightarrow> bool" where
  "wg_link i l \<longleftrightarrow> l_Kind l = ''wireguard'' \<and> l_Name l = i \<and> (l_PublicKey l = [] \<or> word (l_PublicKey l))"

lemma wg_set_listen:
  "1 \<le> p \<Longrightarrow> p \<le> 65535 \<Longrightarrow> wg_set_args [''listen-port'', Itoa p, ''private-key'', k] l = Some (l\<lparr>l_Listen := p, l_PrivPath := k\<rparr>)"
  by simp

definition same_identity :: "link \<Rightarrow> link \<Rightarrow> bool" where
  "same_identity l l' \<longleftrightarrow> l_Kind l' = l_Kind l \<and> l_Name l' = l_Name l \<and> l_PublicKey l' = l_PublicKey l"

lemma wg_set_peer:
  "\<exists>l'. wg_set_args (drop 2 (peer_args t)) l = Some l' \<and> same_identity l l' \<and> l_Listen l' = l_Listen l \<and> l_Addrs l' = l_Addrs l"
  by (simp add: peer_args_def same_identity_def)

lemma peer_args_head: "peer_args t = ''set'' # t_InterfaceName t # drop 2 (peer_args t)"
  by (simp add: peer_args_def)

lemma addr_of_replaced:
  assumes "plain_iface i" and "l_Name l = i" and "IPv4 a = None" and "TrimSpace a = a"
  shows "parseLocalIPv4 (addr_out (l\<lparr>l_Addrs := [a @ ''/32'']\<rparr>)) = a"
proof -
  have "addr_word a" by (rule IPv4_addr_word) fact+
  then have "word a" "CHR ''/'' \<notin> set a"
    by (auto simp: addr_word_def word_def list_all_iff is_digit_def is_space_def)
  from parse_addr_line [OF plain_iface_word [OF assms(1)] _ this] assms(1,2) show ?thesis
    by (simp add: addr_out_def plain_iface_def)
qed

lemma sets_link_trans:
  "sets_link h i l h1 \<Longrightarrow> sets_link h1 i l' h2 \<Longrightarrow> sets_link h i l' h2"
  by (simp add: sets_link_def)

lemma sets_link_dest: "sets_link h i l h' \<Longrightarrow> h_FailOn h' = [] \<and> map_of (h_Links h') i = Some l"
  by (simp add: sets_link_def)

lemma sets_link_logged: "h_FailOn h = [] \<Longrightarrow> map_of (h_Links h) i = Some l \<Longrightarrow> sets_link h i l (logged c h)"
  by (auto simp: sets_link_def fun_eq_iff)

lemma run_or_ok: "run0 os exe args h = ((out, errb, None), h') \<Longrightarrow> run_or os f exe args h = (Inr out, h')"
  by (simp add: run_or_def)

lemma bind_run_or_ok: "run0 os exe args h = ((out, errb, None), h') \<Longrightarrow> bindA (run_or os f exe args) k h = k out h'"
  by (simp add: run_or_def bindA_def)

lemma configure_addr:
  assumes "h_FailOn h = []" and "map_of (h_Links h) i = Some l" and "wg_link i l" and "plain_iface i"
    and "IPv4 a = None" and "TrimSpace a = a"
  shows "\<exists>cur errb e h1 out h2 l'. run0 th_os ''ip'' (addr_show i) h = ((cur, errb, e), h1) \<and>
    (if parseLocalIPv4 cur \<noteq> a
     then run_or th_os (cmd_err ''ip addr replace'') ''ip'' [''addr'', ''replace'', a @ ''/32'', ''dev'', i]
     else returnA []) h1 = (Inr out, h2) \<and> sets_link h i l' h2 \<and> same_identity l l' \<and>
    parseLocalIPv4 (addr_out l') = a"
proof -
  let ?g = "logged (''ip'' # addr_show i) h"
  have r: "run0 th_os ''ip'' (addr_show i) h = ((addr_out l, [], None), ?g)"
    using assms(1,2) by (simp add: run_addr_show okR_def)
  show ?thesis
  proof (cases "parseLocalIPv4 (addr_out l) = a")
    case True
    then show ?thesis using r sets_link_logged [OF assms(1,2)] by (fastforce simp: same_identity_def)
  next
    case False
    have "a @ ''/32'' \<noteq> ''dev''" by (rule notI, drule arg_cong [where f = last]) simp
    then obtain out h2 where "run0 th_os ''ip'' [''addr'', ''replace'', a @ ''/32'', ''dev'', i] ?g = ((out, [], None), h2)"
      "sets_link ?g i (l\<lparr>l_Addrs := [a @ ''/32'']\<rparr>) h2"
      using run_addr_replace [of ?g i l "a @ ''/32''"] assms(1,2) by auto
    moreover have "parseLocalIPv4 (addr_out (l\<lparr>l_Addrs := [a @ ''/32'']\<rparr>)) = a"
      using addr_of_replaced [OF assms(4) _ assms(5,6)] assms(3) by (simp add: wg_link_def)
    ultimately show ?thesis using r False
      by (intro exI [of _ "addr_out l"] exI [of _ "[]"] exI [of _ None] exI [of _ ?g] exI [of _ out] exI [of _ h2]
          exI [of _ "l\<lparr>l_Addrs := [a @ ''/32'']\<rparr>"])
        (simp add: run_or_ok same_identity_def sets_link_def)
  qed
qed


text \<open>What \<open>Apply\<close> leaves of the interface of a tunnel.\<close>

definition configured :: "tunnel \<Rightarrow> link \<Rightarrow> bool" where
  "configured t l \<longleftrightarrow> wg_link (t_InterfaceName t) l \<and> l_Listen l = t_ListenPort t \<and> l_Up l \<and>
     parseLocalIPv4 (addr_out l) = t_LocalOverlayIP t"

lemma wg_link_same: "wg_link i l \<Longrightarrow> same_identity l l' \<Longrightarrow> wg_link i l'"
  by (simp add: wg_link_def same_identity_def)

lemma same_identity_trans: "same_identity a b \<Longrightarrow> same_identity b c \<Longrightarrow> same_identity a c"
  by (simp add: same_identity_def)

lemma addr_out_cong: "l_Name l' = l_Name l \<Longrightarrow> l_Addrs l' = l_Addrs l \<Longrightarrow> addr_out l' = addr_out l"
  by (simp add: addr_out_def)

lemma configure_ok:
  assumes "h_FailOn h = []" and "map_of (h_Links h) (t_InterfaceName t) = Some l" and "wg_link (t_InterfaceName t) l"
    and "plain_iface (t_InterfaceName t)" and "IPv4 (t_LocalOverlayIP t) = None"
    and "TrimSpace (t_LocalOverlayIP t) = t_LocalOverlayIP t" and "1 \<le> t_ListenPort t" and "t_ListenPort t \<le> 65535"
    and "Endpoint (t_Endpoint t) = None"
  shows "\<exists>h' l'. wg_configure th_os t h = (Inr (), h') \<and> sets_link h (t_InterfaceName t) l' h' \<and> configured t l'"
proof -
  let ?i = "t_InterfaceName t"
  let ?addr = "\<lambda>cur. if parseLocalIPv4 cur \<noteq> t_LocalOverlayIP t
     then run_or th_os (cmd_err ''ip addr replace'') ''ip'' [''addr'', ''replace'', t_LocalOverlayIP t @ ''/32'', ''dev'', ?i]
     else returnA []"
  let ?peer = "if t_PublicKey t \<noteq> []
        then bindA (checkA (if t_Endpoint t \<noteq> [] then Endpoint (t_Endpoint t) else None)) (\<lambda>_.
             run_or th_os (cmd_err ''wg set peer'') ''wg'' (peer_args t))
        else returnA []"
  obtain cur errb e h1 out h2 l2 where a: "run0 th_os ''ip'' (addr_show ?i) h = ((cur, errb, e), h1)"
    "?addr cur h1 = (Inr out, h2)" "sets_link h ?i l2 h2" "same_identity l l2"
    "parseLocalIPv4 (addr_out l2) = t_LocalOverlayIP t"
    using configure_addr [OF assms(1-6)] by metis
  let ?l3 = "l2\<lparr>l_Listen := t_ListenPort t, l_PrivPath := t_PrivateKeyPath t\<rparr>"
  obtain out3 h3 where w: "run0 th_os ''wg'' [''set'', ?i, ''listen-port'', Itoa (t_ListenPort t), ''private-key'', t_PrivateKeyPath t] h2 =
      ((out3, [], None), h3)" "sets_link h2 ?i ?l3 h3"
    using run_wg_set [OF _ _ wg_set_listen [OF assms(7,8)]] sets_link_dest [OF a(3)] by blast
  obtain l4 where l4: "wg_set_args (drop 2 (peer_args t)) ?l3 = Some l4" "same_identity ?l3 l4" "l_Listen l4 = l_Listen ?l3"
    "l_Addrs l4 = l_Addrs ?l3" using wg_set_peer by blast
  have "\<exists>out4 h4 l5. ?peer h3 = (Inr out4, h4) \<and> sets_link h3 ?i l5 h4 \<and> same_identity ?l3 l5 \<and>
        l_Listen l5 = l_Listen ?l3 \<and> l_Addrs l5 = l_Addrs ?l3"
  proof (cases "t_PublicKey t = []")
    case True
    have "sets_link h3 ?i ?l3 h3" using sets_link_dest [OF w(2)] by (auto simp: sets_link_def fun_eq_iff)
    then show ?thesis using True by (auto simp: same_identity_def)
  next
    case False
    obtain out4 h4 where "run0 th_os ''wg'' (peer_args t) h3 = ((out4, [], None), h4)" "sets_link h3 ?i l4 h4"
      using run_wg_set [OF _ _ l4(1)] sets_link_dest [OF w(2)] peer_args_head [of t] by metis
    then show ?thesis using False assms(9) l4 by (auto simp: run_or_ok)
  qed
  then obtain out4 h4 l5 where p: "?peer h3 = (Inr out4, h4)" "sets_link h3 ?i l5 h4" "same_identity ?l3 l5"
        "l_Listen l5 = l_Listen ?l3" "l_Addrs l5 = l_Addrs ?l3" by blast
  obtain out5 h5 where u: "run0 th_os ''ip'' [''link'', ''set'', ?i, ''up''] h4 = ((out5, [], None), h5)"
    "sets_link h4 ?i (l5\<lparr>l_Up := True\<rparr>) h5"
    using run_link_up [of h4 ?i l5] sets_link_dest [OF p(2)] by blast
  have "wg_configure th_os t h = (Inr (), h5)"
    unfolding wg_configure_def Let_def a(1) prod.case
    by (simp only: bindA_Inr [of "?addr cur", OF a(2)] bind_run_or_ok [OF w(1)] bindA_Inr [of ?peer, OF p(1)]
        bind_run_or_ok [OF u(1)] returnA_apply)
  moreover have "sets_link h ?i (l5\<lparr>l_Up := True\<rparr>) h5"
    using a(3) w(2) p(2) u(2) by (simp add: sets_link_def)
  moreover have "configured t (l5\<lparr>l_Up := True\<rparr>)"
  proof -
    have "same_identity l2 l5" "l_Listen l5 = t_ListenPort t" "l_Addrs l5 = l_Addrs l2"
      using p(3-5) by (simp_all add: same_identity_def)
    moreover have "addr_out (l5\<lparr>l_Up := True\<rparr>) = addr_out l2"
      using calculation by (intro addr_out_cong) (simp_all add: same_identity_def)
    ultimately show ?thesis using a(4,5) assms(3) by (simp add: configured_def wg_link_def same_identity_def)
  qed
  ultimately show ?thesis by blast
qed

lemma first_err_None [simp]: "first_err es = None \<longleftrightarrow> (\<forall>e \<in> set es. e = None)"
  by (induction es rule: first_err.induct) auto

lemma inspect_configured:
  assumes "h_FailOn h = []" and "map_of (h_Links h) (t_InterfaceName t) = Some l" and "configured t l"
    and "t_InterfaceName t \<noteq> []" and "1 \<le> t_ListenPort t" and "t_ListenPort t \<le> 65535"
  shows "\<exists>act h'. inspect th_os t h = (Inr (act, []), h') \<and> \<not> tunnelChanged t act \<and> a_InterfacePresent act \<and>
    a_LocalOverlayIP act = t_LocalOverlayIP t \<and> a_ListenPort act = t_ListenPort t"
proof -
  let ?i = "t_InterfaceName t"
  let ?g1 = "logged (''ip'' # link_show ?i) h"
  let ?g2 = "logged (''ip'' # addr_show ?i) ?g1"
  let ?g3 = "logged [''wg'', ''show'', ?i, ''dump''] ?g2"
  let ?act = "(zero_actual (t_ID t) TunnelWireGuard ?i)\<lparr>a_InterfacePresent := True, a_LocalOverlayIP := t_LocalOverlayIP t\<rparr>"
  have 1: "run0 th_os ''ip'' (link_show ?i) h = ((link_line l, [], None), ?g1)"
    using assms by (simp add: run_link_show okR_def)
  have 2: "run0 th_os ''ip'' (addr_show ?i) ?g1 = ((addr_out l, [], None), ?g2)"
    using assms(1,2) by (simp add: run_addr_show okR_def)
  have 3: "run0 th_os ''wg'' [''show'', ?i, ''dump''] ?g2 = ((wg_dump l, [], None), ?g3)"
    using assms(1-3) by (simp add: run_wg th_wg_def okR_def configured_def wg_link_def)
  have "inspect th_os t h = (Inr (parseWGDump (os_now th_os ?g3) (wg_dump l) ?act, []), ?g3)"
    unfolding inspect_def Let_def 1 prod.case option.case 2 3
    using assms(3) by (simp add: configured_def)
  moreover have "l_PublicKey l = [] \<or> word (l_PublicKey l)" "l_Listen l = t_ListenPort t"
    using assms(3) by (simp_all add: configured_def wg_link_def)
  ultimately show ?thesis using dump_listen [of l "os_now th_os ?g3" ?act] assms(5,6)
    by (simp add: tunnelChanged_def)
qed


section \<open>Applying a tunnel\<close>

lemma wg_checks_facts:
  assumes "wg_checks (Tunnel_Normalize t) = None"
  defines "n \<equiv> Tunnel_Normalize t"
  shows "InterfaceName (t_InterfaceName n) = None" "IPv4 (t_LocalOverlayIP n) = None"
    "TrimSpace (t_LocalOverlayIP n) = t_LocalOverlayIP n" "1 \<le> t_ListenPort n" "t_ListenPort n \<le> 65535"
    "Endpoint (t_Endpoint n) = None"
proof -
  have c: "Tunnel_check n = None" "InterfaceName (t_InterfaceName n) = None" "IPv4 (t_LocalOverlayIP n) = None"
    "Port (t_ListenPort n) = None"
    using assms(1) unfolding n_def wg_checks_def first_err_None by simp_all
  show "InterfaceName (t_InterfaceName n) = None" "IPv4 (t_LocalOverlayIP n) = None" by (fact c)+
  show "TrimSpace (t_LocalOverlayIP n) = t_LocalOverlayIP n" by (simp add: n_def Tunnel_Normalize_def)
  show "1 \<le> t_ListenPort n" "t_ListenPort n \<le> 65535"
    using c(4) by (simp_all add: Port_def errf_def split: if_splits)
  have "wrapVal (Endpoint (t_Endpoint n)) = None" using c(1) unfolding Tunnel_check_def first_err_None by simp
  then show "Endpoint (t_Endpoint n) = None" by (simp add: wrapVal_def split: option.splits)
qed

definition links_ready :: "host \<Rightarrow> string \<Rightarrow> bool" where
  "links_ready h i \<longleftrightarrow> h_FailOn h = [] \<and> plain_iface i \<and>
     (case map_of (h_Links h) i of None \<Rightarrow> True | Some l \<Rightarrow> wg_link i l)"

lemma wg_apply_ok:
  assumes "wg_checks (Tunnel_Normalize t) = None" and "links_ready h (t_InterfaceName (Tunnel_Normalize t))"
  shows "\<exists>h' l. wg_Apply th_os t (w, h) =
      (Inr (), (if map_of (h_Links h) (t_InterfaceName (Tunnel_Normalize t)) = None
                then w\<lparr>wg_createdIfaces := wg_createdIfaces w @ [t_InterfaceName (Tunnel_Normalize t)]\<rparr> else w, h')) \<and>
    sets_link h (t_InterfaceName (Tunnel_Normalize t)) l h' \<and> configured (Tunnel_Normalize t) l"
proof -
  let ?t = "Tunnel_Normalize t" and ?i = "t_InterfaceName (Tunnel_Normalize t)"
  let ?g = "logged (''ip'' # link_show ?i) h"
  have r: "h_FailOn h = []" "plain_iface ?i" using assms(2) by (simp_all add: links_ready_def)
  note f = wg_checks_facts [OF assms(1)]
  have ne: "?i \<noteq> []" by (rule plain_iface_ne) (rule r(2))
  show ?thesis
  proof (cases "map_of (h_Links h) ?i")
    case None
    have 1: "run0 th_os ''ip'' (link_show ?i) h = (([], ''Cannot find device'', Some (Plain ''cannot find device'')), ?g)"
      using r ne None by (simp add: run_link_show no_device_def errR_def)
    obtain out h2 where 2: "run0 th_os ''ip'' [''link'', ''add'', ''dev'', ?i, ''type'', ''wireguard''] ?g = ((out, [], None), h2)"
      "sets_link ?g ?i (new_link ?i ''wireguard'') h2" using run_link_add [of ?g ?i] r None by auto
    have "wg_link ?i (new_link ?i ''wireguard'')" by (simp add: wg_link_def new_link_def)
    then obtain h3 l where 3: "wg_configure th_os ?t h2 = (Inr (), h3)" "sets_link h2 ?i l h3" "configured ?t l"
      using configure_ok [of h2 ?t "new_link ?i ''wireguard''"] sets_link_dest [OF 2(2)] r(2) f by blast
    have "sets_link h ?i l h3" using 2(2) 3(2) by (simp add: sets_link_def)
    moreover have "wg_Apply th_os t (w, h) = (Inr (), (w\<lparr>wg_createdIfaces := wg_createdIfaces w @ [?i]\<rparr>, h3))"
      unfolding wg_Apply_def Let_def fst_conv snd_conv assms(1) option.case 1 prod.case 2(1) 3(1) ..
    ultimately show ?thesis using None 3(3) by auto
  next
    case (Some l0)
    have 1: "run0 th_os ''ip'' (link_show ?i) h = ((link_line l0, [], None), ?g)"
      using r ne Some by (simp add: run_link_show okR_def)
    have "wg_link ?i l0" using assms(2) Some by (simp add: links_ready_def)
    then obtain h3 l where 3: "wg_configure th_os ?t ?g = (Inr (), h3)" "sets_link ?g ?i l h3" "configured ?t l"
      using configure_ok [of ?g ?t l0] Some r f by auto
    have "sets_link h ?i l h3" using 3(2) by (simp add: sets_link_def)
    moreover have "wg_Apply th_os t (w, h) = (Inr (), (w, h3))"
      unfolding wg_Apply_def Let_def fst_conv snd_conv assms(1) option.case 1 prod.case 3(1) ..
    ultimately show ?thesis using Some 3(3) by auto
  qed
qed

text \<open>Applying a WireGuard tunnel converges: on a host where the commands work and the interface name
  is free or belongs to a WireGuard device, \<open>Apply\<close> of a tunnel that passes the checks succeeds, and
  the interface discovered afterwards is present with the desired address and port, so the planner
  has no further change for it. Every other interface is untouched, and the interface is recorded
  as created exactly when it was not there.\<close>

lemma wg_apply_converges:
  assumes "wg_checks (Tunnel_Normalize t) = None" and "links_ready h (t_InterfaceName (Tunnel_Normalize t))"
  shows "\<exists>w' h' act h''. wg_Apply th_os t (w, h) = (Inr (), (w', h')) \<and>
    inspect th_os (Tunnel_Normalize t) h' = (Inr (act, []), h'') \<and> a_InterfacePresent act \<and>
    \<not> tunnelChanged (Tunnel_Normalize t) act \<and>
    (\<forall>j. j \<noteq> t_InterfaceName (Tunnel_Normalize t) \<longrightarrow> map_of (h_Links h') j = map_of (h_Links h) j) \<and>
    wg_createdIfaces w' = wg_createdIfaces w @
      (if map_of (h_Links h) (t_InterfaceName (Tunnel_Normalize t)) = None then [t_InterfaceName (Tunnel_Normalize t)] else [])"
proof -
  let ?t = "Tunnel_Normalize t" and ?i = "t_InterfaceName (Tunnel_Normalize t)"
  obtain h' l where a: "wg_Apply th_os t (w, h) =
      (Inr (), (if map_of (h_Links h) ?i = None then w\<lparr>wg_createdIfaces := wg_createdIfaces w @ [?i]\<rparr> else w, h'))"
    "sets_link h ?i l h'" "configured ?t l" using wg_apply_ok [OF assms] by blast
  have "?i \<noteq> []" using assms(2) by (simp add: links_ready_def plain_iface_ne)
  then obtain act h'' where "inspect th_os ?t h' = (Inr (act, []), h'')" "\<not> tunnelChanged ?t act" "a_InterfacePresent act"
    using inspect_configured [of h' ?t l] sets_link_dest [OF a(2)] a(3) wg_checks_facts [OF assms(1)] by blast
  then show ?thesis using a by (auto simp: sets_link_def)
qed

text \<open>Undoing a creation restores the links: when \<open>Apply\<close> created the interface, \<open>RollbackCreate\<close> of it
  succeeds and every interface is what it was before, and deleting an interface that is not there
  is not an error.\<close>

lemma wg_rollback_create_restores:
  assumes "wg_checks (Tunnel_Normalize t) = None" and "links_ready h (t_InterfaceName (Tunnel_Normalize t))"
    and "map_of (h_Links h) (t_InterfaceName (Tunnel_Normalize t)) = None"
  shows "\<exists>w' h' h''. wg_Apply th_os t (w, h) = (Inr (), (w', h')) \<and>
    RollbackCreate th_os (last (CreatedIfaces w')) h' = (Inr (), h'') \<and> map_of (h_Links h'') = map_of (h_Links h) \<and>
    fst (RollbackCreate th_os (last (CreatedIfaces w')) h) = Inr ()"
proof -
  let ?i = "t_InterfaceName (Tunnel_Normalize t)"
  obtain h' l where a: "wg_Apply th_os t (w, h) = (Inr (), (w\<lparr>wg_createdIfaces := wg_createdIfaces w @ [?i]\<rparr>, h'))"
    "sets_link h ?i l h'" using wg_apply_ok [OF assms(1,2), of w] assms(3) by auto
  have r: "?i \<noteq> []" "InterfaceName ?i = None" "h_FailOn h = []"
    using assms(2) by (simp_all add: links_ready_def plain_iface_ne plain_iface_def)
  have "map_of (h_Links h) = (map_of (h_Links h))(?i := None)" using assms(3) by (auto simp: fun_eq_iff)
  with a(2) r have "\<exists>h''. RollbackCreate th_os ?i h' = (Inr (), h'') \<and> map_of (h_Links h'') = map_of (h_Links h)"
    by (simp add: RollbackCreate_def wg_Delete_def run_link_delete sets_link_def Let_def okR_def delete_conv')
  moreover have "fst (RollbackCreate th_os ?i h) = Inr ()"
    using r assms(3) missing_device
    by (simp add: RollbackCreate_def wg_Delete_def run_link_delete Let_def no_device_def errR_def)
  ultimately show ?thesis using a(1) by (auto simp: CreatedIfaces_def)
qed

lemma sample_wg_ready: "wg_checks (Tunnel_Normalize sample_wg) = None" "t_InterfaceName (Tunnel_Normalize sample_wg) = ''wg0''"
  "links_ready new_host ''wg0''" "map_of (h_Links new_host) ''wg0'' = None"
proof -
  show "wg_checks (Tunnel_Normalize sample_wg) = None" by code_simp
  show "t_InterfaceName (Tunnel_Normalize sample_wg) = ''wg0''" by code_simp
  have "InterfaceName ''wg0'' = None" by code_simp
  then show "links_ready new_host ''wg0''" "map_of (h_Links new_host) ''wg0'' = None"
    by (simp_all add: links_ready_def plain_iface_def new_host_def)
qed


lemma wg_apply_converges_witness:
  "\<exists>w' h' act h''. wg_Apply th_os sample_wg (\<lparr>wg_createdIfaces = []\<rparr>, new_host) = (Inr (), (w', h')) \<and>
    inspect th_os (Tunnel_Normalize sample_wg) h' = (Inr (act, []), h'') \<and> a_InterfacePresent act \<and>
    \<not> tunnelChanged (Tunnel_Normalize sample_wg) act \<and>
    (\<forall>j. j \<noteq> t_InterfaceName (Tunnel_Normalize sample_wg) \<longrightarrow> map_of (h_Links h') j = map_of (h_Links new_host) j) \<and>
    wg_createdIfaces w' = [''wg0'']"
  using wg_apply_converges [of sample_wg new_host "\<lparr>wg_createdIfaces = []\<rparr>"] sample_wg_ready by simp

lemma wg_rollback_create_restores_witness:
  "\<exists>w' h' h''. wg_Apply th_os sample_wg (\<lparr>wg_createdIfaces = []\<rparr>, new_host) = (Inr (), (w', h')) \<and>
    RollbackCreate th_os (last (CreatedIfaces w')) h' = (Inr (), h'') \<and> map_of (h_Links h'') = map_of (h_Links new_host) \<and>
    fst (RollbackCreate th_os (last (CreatedIfaces w')) new_host) = Inr ()"
  using wg_rollback_create_restores [of sample_wg new_host "\<lparr>wg_createdIfaces = []\<rparr>"] sample_wg_ready by simp

section \<open>SSH tunnels\<close>

lemma Tunnel_Normalize_idem [simp]: "Tunnel_Normalize (Tunnel_Normalize t) = Tunnel_Normalize t"
  by (simp add: Tunnel_Normalize_def TrimSpace_ToUpper)

text \<open>An SSH tunnel is only reported applied when it runs: on every host, \<open>Apply\<close> succeeds only for a
  valid SSH tunnel whose unit was started without error and which \<open>systemctl is-active\<close>, asked after
  the start, reports as active.\<close>

lemma ssh_apply_means_active:
  assumes "ssh_Apply os t h = (Inr (), h')"
  shows "Tunnel_Validate t = None \<and> t_Type (Tunnel_Normalize t) = TunnelSSHTUN \<and>
    (\<exists>o1 e1 h1 o2 e2 h2.
       run0 os ''systemctl'' [''start'', t_ServiceName (Tunnel_Normalize t)] h = ((o1, e1, None), h1) \<and>
       run0 os ''systemctl'' [''is-active'', t_ServiceName (Tunnel_Normalize t)] h1 = ((o2, e2, None), h2) \<and>
       TrimSpace o2 = ''active'')"
proof -
  let ?t = "Tunnel_Normalize t"
  have v: "Tunnel_Validate t = None" and ty: "t_Type ?t = TunnelSSHTUN"
    and rest: "bindA (run_or os (cmd_err (''systemctl start '' @ t_ServiceName ?t)) ''systemctl'' [''start'', t_ServiceName ?t]) (\<lambda>_.
      bindA (ssh_Discover os ?t) (\<lambda>(act, _).
        checkA (if a_ServiceActive act then None
                else Some (ErrConflict (''SSH TUN unit '' @ t_ServiceName ?t @ '' is not active after start''))))) h = (Inr (), h')"
    using assms by (auto simp: ssh_Apply_def Let_def bindA_def checkA_def split: option.splits if_splits)
  obtain out h1 where 1: "run_or os (cmd_err (''systemctl start '' @ t_ServiceName ?t)) ''systemctl'' [''start'', t_ServiceName ?t] h = (Inr out, h1)"
    and r2: "bindA (ssh_Discover os ?t) (\<lambda>(act, _).
        checkA (if a_ServiceActive act then None
                else Some (ErrConflict (''SSH TUN unit '' @ t_ServiceName ?t @ '' is not active after start'')))) h1 = (Inr (), h')"
    by (rule bindA_InrE [OF rest])
  obtain act cf h2 where 2: "ssh_Discover os ?t h1 = (Inr (act, cf), h2)" and a: "a_ServiceActive act"
    using r2 by (auto simp: bindA_def checkA_def split: prod.splits sum.splits if_splits)
  from run_or_Inr [OF 1] obtain e1 where "run0 os ''systemctl'' [''start'', t_ServiceName ?t] h = ((out, e1, None), h1)" by blast
  moreover obtain o2 e2 r h3 where 3: "run0 os ''systemctl'' [''is-active'', t_ServiceName ?t] h1 = ((o2, e2, r), h3)"
    by (metis prod_cases3 surj_pair)
  have "r = None \<and> TrimSpace o2 = ''active''"
    using 2 a unfolding ssh_Discover_def Let_def Tunnel_Normalize_idem
    by (auto simp: bindA_def checkA_def 3 split: option.splits prod.splits if_splits)
  ultimately show ?thesis using v ty 3 by blast
qed

lemma ssh_apply_means_active_witness:
  "\<exists>h' o1 e1 h1 o2 e2 h2. ssh_Apply th_os sample_ssh new_host = (Inr (), h') \<and>
     run0 th_os ''systemctl'' [''start'', ''tun0.service''] new_host = ((o1, e1, None), h1) \<and>
     run0 th_os ''systemctl'' [''is-active'', ''tun0.service''] h1 = ((o2, e2, None), h2) \<and> TrimSpace o2 = ''active''"
proof -
  have "isl (fst (ssh_Apply th_os sample_ssh new_host)) = False" by code_simp
  then obtain h' where a: "ssh_Apply th_os sample_ssh new_host = (Inr (), h')"
    by (cases "ssh_Apply th_os sample_ssh new_host"; cases "fst (ssh_Apply th_os sample_ssh new_host)") auto
  moreover have "t_ServiceName (Tunnel_Normalize sample_ssh) = ''tun0.service''" by code_simp
  ultimately show ?thesis using ssh_apply_means_active [OF a] by auto
qed

end
