(* ===== verification/HaproxyText.thy ===== *)
theory HaproxyText
  imports Haproxy
begin

text \<open>
  The text of the managed HAProxy block: it is found again in the file it was joined into, its digest
  comment is the digest of the routes, and parsing it gives back one route per rendered route.

  The lemmas work on lines: a needle without a newline, such as a marker, lies within one line.
\<close>

section \<open>Lines\<close>

definition unlines :: "string list \<Rightarrow> string" where
  "unlines ls = concat (map (\<lambda>l. l @ nl) ls)"

lemma unlines_simps [simp]: "unlines [] = []" "unlines (l # ls) = l @ nl @ unlines ls"
  "unlines (ls @ ms) = unlines ls @ unlines ms"
  by (simp_all add: unlines_def)

lemma unlines_Join: "unlines (ls @ [l]) = Join (ls @ [l]) nl @ nl"
  by (induction ls) (auto simp: Join_Cons)

lemma unlines_concat: "unlines (concat (map f xs)) = concat (map (\<lambda>x. unlines (f x)) xs)"
  by (induction xs) auto

lemma HasPrefix_before:
  "c \<notin> set p \<Longrightarrow> HasPrefix (u @ c # r) p \<longleftrightarrow> HasPrefix u p"
proof (induction u p rule: HasPrefix.induct)
  case (2 p ps)
  then show ?case by auto
qed auto

text \<open>A needle without a newline is found in a line, or behind it.\<close>

lemma Index_line:
  assumes "\<not> Contains l sub" and "CHR 0x0A \<notin> set sub" and "sub \<noteq> []"
  shows "Index (l @ nl @ r) sub = map_option ((+) (length l + 1)) (Index r sub)"
  using assms(1)
proof (induction l)
  case Nil
  have "\<not> HasPrefix (CHR 0x0A # r) sub" using HasPrefix_before [OF assms(2), of "[]" r] assms(3)
    by (cases sub) auto
  then show ?case by (cases "Index r sub") (auto simp: nl_def)
next
  case (Cons a l)
  have "\<not> HasPrefix (a # l) sub" using Cons.prems by (auto simp: Contains_def)
  then have "\<not> HasPrefix (a # l @ nl @ r) sub"
    using HasPrefix_before [OF assms(2), of "a # l" r] by (simp add: nl_def)
  moreover have "\<not> Contains l sub" using Cons.prems by (auto simp: Contains_def split: if_splits)
  ultimately show ?case using Cons.IH by (cases "Index r sub") auto
qed

lemma Index_unlines:
  assumes "\<forall>l \<in> set ls. \<not> Contains l sub" and "CHR 0x0A \<notin> set sub" and "sub \<noteq> []"
  shows "Index (unlines ls @ r) sub = map_option ((+) (length (unlines ls))) (Index r sub)"
  using assms(1)
proof (induction ls)
  case Nil
  show ?case by (cases "Index r sub") auto
next
  case (Cons l ls)
  then show ?case using Index_line [OF _ assms(2,3), of l "unlines ls @ r"]
    by (cases "Index r sub") (auto simp: nl_def)
qed

lemma not_Contains_hd: "sub \<noteq> [] \<Longrightarrow> hd sub \<notin> set l \<Longrightarrow> \<not> Contains l sub"
  by (simp add: Contains_def Index_none)

lemma Split_Join_nl:
  assumes "ls \<noteq> []" and "\<forall>l \<in> set ls. CHR 0x0A \<notin> set l"
  shows "Split (Join ls nl) (CHR 0x0A) = ls"
  unfolding nl_def by (rule Split_Join) fact+

section \<open>Trimming a block\<close>

lemma TrimSpace_block: "\<not> is_space (hd (x @ y)) \<Longrightarrow> x \<noteq> [] \<Longrightarrow> y \<noteq> [] \<Longrightarrow> \<not> is_space (last y) \<Longrightarrow> TrimSpace (x @ y) = x @ y"
  by (rule TrimSpace_id) simp

lemma is_nl_space: "is_nl c \<Longrightarrow> is_space c"
  by (simp add: is_nl_def is_space_def)

lemma TrimSpace_TrimRight_nl: "TrimSpace (TrimRightFunc is_nl u) = TrimSpace u"
proof -
  obtain v where v: "u = TrimRightFunc is_nl u @ v" "\<forall>c \<in> set v. is_nl c"
    using TrimRightFunc_split by blast
  then have "TrimSpace (TrimRightFunc is_nl u @ v) = TrimSpace (TrimRightFunc is_nl u)"
    by (intro TrimSpace_append_space) (auto simp: is_nl_space)
  then show ?thesis using v(1) by simp
qed

lemma Contains_TrimRight: "\<not> Contains u sub \<Longrightarrow> \<not> Contains (TrimRightFunc P u) sub"
proof -
  obtain v where "u = TrimRightFunc P u @ v" using TrimRightFunc_split by blast
  then show "\<not> Contains u sub \<Longrightarrow> \<not> Contains (TrimRightFunc P u) sub"
    unfolding Contains_iff by (metis append.assoc)
qed


section \<open>The split of a joined configuration\<close>

definition block :: "string list \<Rightarrow> string" where
  "block ls = unlines (BeginMarker # ls) @ EndMarker"

lemma marker_facts:
  "CHR 0x0A \<notin> set BeginMarker" "CHR 0x0A \<notin> set EndMarker" "BeginMarker \<noteq> []" "EndMarker \<noteq> []"
  "\<not> Contains EndMarker BeginMarker" "\<not> Contains BeginMarker EndMarker"
  "hd BeginMarker = CHR ''#''" "hd EndMarker = CHR ''#''"
  by (simp_all add: BeginMarker_def EndMarker_def Contains_def)

lemma block_ends: "TrimSpace (block ls) = block ls" "block ls \<noteq> []" "TrimLeftFunc is_nl (block ls @ r) = block ls @ r"
  unfolding block_def
  by (rule TrimSpace_id) (simp_all add: BeginMarker_def EndMarker_def is_space_def TrimLeftFunc_def is_nl_def)

lemma Index_skip_u:
  assumes "pre = [] \<or> pre = u @ nl @ nl" and "\<not> Contains u sub" and "CHR 0x0A \<notin> set sub" and "sub \<noteq> []"
  shows "Index (pre @ r) sub = map_option ((+) (length pre)) (Index r sub)"
proof -
  have e: "\<not> Contains [] sub" using assms(4) by (simp add: Contains_def)
  have "map_option f (map_option g x) = map_option (f \<circ> g) x" for f g and x :: "nat option" by (cases x) auto
  with assms(1) show ?thesis
    using Index_line [OF assms(2-4), of "nl @ r"] Index_line [OF e assms(3,4), of r]
    by (cases "Index r sub") (auto simp: nl_def)
qed

lemma split_block:
  assumes pre: "pre = [] \<and> u = [] \<or> pre = u @ nl @ nl"
    and u: "\<not> Contains u BeginMarker" "\<not> Contains u EndMarker"
    and ls: "\<forall>l \<in> set ls. \<not> Contains l BeginMarker \<and> \<not> Contains l EndMarker"
  shows "splitManaged (pre @ block ls @ nl) = Inr (TrimSpace u, block ls)"
proof -
  let ?body = "pre @ block ls @ nl" and ?rest = "unlines ls @ EndMarker @ nl"
  let ?e = "length pre + length (unlines (BeginMarker # ls))"
  have p: "pre = [] \<or> pre = u @ nl @ nl" using pre by blast
  have noB: "Index (EndMarker @ nl) BeginMarker = None" "Index nl EndMarker = None"
    by (simp_all add: BeginMarker_def EndMarker_def nl_def)
  have B: "Index ?body BeginMarker = Some (length pre)"
    unfolding Index_skip_u [OF p u(1) marker_facts(1,3)] by (simp add: block_def)
  have B2: "Index (nl @ ?rest) BeginMarker = None"
    using Index_unlines [of "[] # ls" BeginMarker "EndMarker @ nl"] ls marker_facts noB(1)
    by (auto simp: Contains_def)
  have E: "Index ?body EndMarker = Some ?e"
    unfolding Index_skip_u [OF p u(2) marker_facts(2,4)]
    using Index_unlines [of "BeginMarker # ls" EndMarker "EndMarker @ nl"] ls marker_facts
    by (simp add: block_def)
  have cB: "Count ?body BeginMarker = 1"
    using B B2 marker_facts(3)
    by (subst Count.simps) (simp, subst Count.simps, simp add: block_def)
  have cE: "Count ?body EndMarker = 1"
    using E noB(2) marker_facts(4)
    by (subst Count.simps) (simp, subst Count.simps, simp add: block_def)
  have "splitMarked ?body BeginMarker EndMarker = Inr (TrimSpace (pre @ nl), TrimSpace (block ls))"
    unfolding splitMarked_def B E prod.case option.case using cB cE by (simp add: block_def)
  moreover have "TrimSpace (pre @ nl) = TrimSpace u"
    using pre TrimSpace_append_space [of "nl @ nl @ nl" u] TrimSpace_append_space [of nl "[]"]
    by (auto simp: nl_def is_space_def)
  ultimately show ?thesis by (simp add: splitManaged_def block_ends)
qed

lemma joinConfig_block:
  "joinConfig u (block ls @ nl) =
     (if TrimRightFunc is_nl u = [] then [] else TrimRightFunc is_nl u @ nl @ nl) @ block ls @ nl"
  using block_ends(2) [of ls] by (simp add: joinConfig_def block_ends(3))

lemma split_join:
  assumes "\<not> Contains u BeginMarker" "\<not> Contains u EndMarker"
    and "\<forall>l \<in> set ls. \<not> Contains l BeginMarker \<and> \<not> Contains l EndMarker"
  shows "splitManaged (joinConfig u (block ls @ nl)) = Inr (TrimSpace u, block ls)"
proof -
  let ?u = "TrimRightFunc is_nl u"
  have "splitManaged ((if ?u = [] then [] else ?u @ nl @ nl) @ block ls @ nl) = Inr (TrimSpace ?u, block ls)"
    by (rule split_block) (use assms in \<open>auto simp: Contains_TrimRight\<close>)
  then show ?thesis by (simp only: joinConfig_block TrimSpace_TrimRight_nl)
qed

section \<open>The lines of the rendered block\<close>

definition use_lines :: "sni_route \<Rightarrow> nat \<times> sni_match \<Rightarrow> string list" where
  "use_lines r = (\<lambda>(i, m).
     if sm_Default m then []
     else [''    use_backend '' @ be_name r i @ '' if { req_ssl_sni -i '' @ sm_Match m @ '' }''])"

definition backend_lines :: "sni_route \<Rightarrow> nat \<times> backend \<Rightarrow> string list" where
  "backend_lines r = (\<lambda>(i, be).
     [''backend '' @ be_name r i, ''    mode tcp'', ''    server s1 '' @ b_Address be @ '':443'', []])"

definition route_lines :: "sni_route \<Rightarrow> backend list \<Rightarrow> string list" where
  "route_lines r bs =
     [''frontend '' @ front_name r, ''    bind '' @ r_Listen r, ''    mode tcp'',
      ''    tcp-request inspect-delay 5s'', ''    tcp-request content accept if { req_ssl_hello_type 1 }''] @
     concat (map (use_lines r) (enumerate 0 (r_Matches r))) @
     [''    default_backend '' @ default_name r, []] @
     concat (map (backend_lines r) (enumerate 0 bs))"

lemma render_route_lines:
  assumes "render_route f r = Inr s"
  shows "\<exists>bs. resolve_all f (r_Matches r) = Inr bs \<and> s = unlines (route_lines r bs) \<and> default_name r \<noteq> []"
proof -
  have "concat (map (use_line r) xs) = unlines (concat (map (use_lines r) xs))" for xs
    by (induction xs) (auto simp: use_line_def use_lines_def)
  moreover have "concat (map (backend_block r) xs) = unlines (concat (map (backend_lines r) xs))" for xs
    by (induction xs) (auto simp: backend_block_def backend_lines_def)
  ultimately show ?thesis using assms
    by (auto simp: render_route_def route_lines_def split: sum.splits if_splits)
qed

lemma resolve_all_set: "resolve_all f ms = Inr bs \<Longrightarrow> b \<in> set bs \<Longrightarrow> \<exists>m \<in> set ms. f m = Inr b"
  by (induction ms arbitrary: bs) (auto split: sum.splits)

text \<open>The lines of all routes, with the backends each route resolves to.\<close>

lemma render_routes_lines:
  assumes "render_routes f rs = Inr s"
  shows "\<exists>bss. s = unlines (concat (map (\<lambda>(r, bs). route_lines r bs) (zip rs bss))) \<and> length bss = length rs \<and>
    (\<forall>(r, bs) \<in> set (zip rs bss). default_name r \<noteq> [] \<and> resolve_all f (r_Matches r) = Inr bs)"
  using assms
proof (induction rs arbitrary: s)
  case (Cons r rs)
  then obtain a t where a: "render_route f r = Inr a" and t: "render_routes f rs = Inr t" and s: "s = a @ t"
    by (auto split: sum.splits)
  from render_route_lines [OF a] obtain bs where
    "resolve_all f (r_Matches r) = Inr bs" "a = unlines (route_lines r bs)" "default_name r \<noteq> []" by blast
  moreover from Cons.IH [OF t] obtain bss where
    "t = unlines (concat (map (\<lambda>(r, bs). route_lines r bs) (zip rs bss)))" "length bss = length rs"
    "\<forall>(r, bs) \<in> set (zip rs bss). default_name r \<noteq> [] \<and> resolve_all f (r_Matches r) = Inr bs" by blast
  ultimately show ?case using s by (intro exI [of _ "bs # bss"]) auto
qed auto

definition block_lines :: "sni_route list \<Rightarrow> backend list list \<Rightarrow> string list" where
  "block_lines rs bss =
     [''# Generated by transitforge. Do not edit this block.'', digest_line rs] @
     concat (map (\<lambda>(r, bs). route_lines r bs) (zip rs bss))"

text \<open>What the texts of the routes and backends must not contain: blanks, newlines and comment signs.\<close>

definition clean :: "string \<Rightarrow> bool" where
  "clean s \<longleftrightarrow> (\<forall>c \<in> set s. \<not> is_space c \<and> c \<noteq> CHR ''#'')"

definition clean_match :: "sni_match \<Rightarrow> bool" where
  "clean_match m \<longleftrightarrow> clean (sm_Match m) \<and> clean (sm_Backend m) \<and> clean (sm_BackendID m) \<and>
     (sm_Default m \<or> sm_Match m \<noteq> [])"

definition clean_route :: "sni_route \<Rightarrow> bool" where
  "clean_route r \<longleftrightarrow> r_Listen r \<noteq> [] \<and> clean (r_Listen r) \<and> (\<forall>m \<in> set (r_Matches r). clean_match m)"

definition clean_config :: "sni_route list \<Rightarrow> backend list \<Rightarrow> bool" where
  "clean_config rs bs \<longleftrightarrow> (\<forall>r \<in> set rs. clean_route r) \<and> (\<forall>b \<in> set bs. clean (b_Address b))"

lemma Render_block:
  assumes "Render rs bes = Inr s" and "rs \<noteq> []"
  shows "\<exists>bss. s = block (block_lines rs bss) @ nl \<and> length bss = length rs \<and>
    (\<forall>(r, bs) \<in> set (zip rs bss). default_name r \<noteq> [] \<and> set bs \<subseteq> set bes)"
proof -
  let ?f = "\<lambda>m. resolveBackend m (index_by b_ID bes) (index_by b_Name bes)"
  obtain t where t: "render_routes ?f rs = Inr t"
    and s: "s = BeginMarker @ nl @ ''# Generated by transitforge. Do not edit this block.'' @ nl @
                    digest_line rs @ nl @ t @ EndMarker @ nl"
    using assms by (auto simp: Render_def Let_def split: sum.splits)
  from render_routes_lines [OF t] obtain bss where
    b: "t = unlines (concat (map (\<lambda>(r, bs). route_lines r bs) (zip rs bss)))" "length bss = length rs"
    "\<forall>(r, bs) \<in> set (zip rs bss). default_name r \<noteq> [] \<and> resolve_all ?f (r_Matches r) = Inr bs" by blast
  have "b \<in> set bes" if "?f m = Inr b" for m b
    using that by (auto simp: resolveBackend_def dest: index_by_Some split: option.splits if_splits)
  then have "set bs \<subseteq> set bes" if "resolve_all ?f ms = Inr bs" for ms bs
    using resolve_all_set [OF that] by blast
  then show ?thesis using b s
    by (intro exI [of _ bss]) (auto simp: block_def block_lines_def split_beta)
qed

section \<open>Which characters the lines have\<close>

definition no_hash_nl :: "string \<Rightarrow> bool" where
  "no_hash_nl s \<longleftrightarrow> CHR ''#'' \<notin> set s \<and> CHR 0x0A \<notin> set s"

lemma no_hash_nl_append [simp]: "no_hash_nl (a @ b) \<longleftrightarrow> no_hash_nl a \<and> no_hash_nl b"
  "no_hash_nl []" "no_hash_nl (c # a) \<longleftrightarrow> c \<noteq> CHR ''#'' \<and> c \<noteq> CHR 0x0A \<and> no_hash_nl a"
  by (auto simp: no_hash_nl_def)

lemma clean_no_hash_nl: "clean s \<Longrightarrow> no_hash_nl s"
  by (auto simp: clean_def no_hash_nl_def is_space_def)

lemma Itoa_no_hash_nl [simp]: "no_hash_nl (Itoa i)"
  using set_Itoa [of "CHR ''#''" i] set_Itoa [of "CHR 0x0A" i] by (auto simp: no_hash_nl_def is_digit_def)

lemma set_sanitize: "c \<in> set (sanitize s) \<Longrightarrow> is_alnum c \<or> c = CHR ''_'' \<or> c = CHR ''-''"
  by (auto simp: sanitize_def Let_def sanitize_char_def is_alnum_def is_lower_def split: if_splits)

lemma sanitize_word [simp]: "word (sanitize s)" "no_hash_nl (sanitize s)"
proof -
  have "sanitize s \<noteq> []" by (simp add: sanitize_def Let_def)
  moreover have "\<not> is_space c \<and> c \<noteq> CHR ''#''" if "c \<in> set (sanitize s)" for c
    using set_sanitize [OF that] by (auto dest: is_alnum_not_space) (auto simp: is_space_def is_alnum_def is_lower_def is_upper_def is_digit_def)
  ultimately show "word (sanitize s)" "no_hash_nl (sanitize s)"
    by (auto simp: word_def no_hash_nl_def is_space_def)
qed

lemma names_no_hash_nl [simp]: "no_hash_nl (front_name r)" "no_hash_nl (be_name r i)"
  by (simp_all add: front_name_def be_name_def)

lemma default_name_cases: "default_name r = [] \<or> (\<exists>i. default_name r = be_name r i)"
proof -
  have "foldl (\<lambda>acc (i, m). if sm_Default m then be_name r i else acc) acc xs = acc \<or>
    (\<exists>i. foldl (\<lambda>acc (i, m). if sm_Default m then be_name r i else acc) acc xs = be_name r i)" for acc xs
    by (induction xs arbitrary: acc) (auto simp del: foldl_Cons, simp_all split: if_splits, blast+)
  then show ?thesis by (simp add: default_name_def)
qed

lemma default_name_no_hash_nl [simp]: "no_hash_nl (default_name r)"
  using default_name_cases [of r] by auto

lemma set_enumerate_snd: "(i, x) \<in> set (enumerate n xs) \<Longrightarrow> x \<in> set xs"
  by (metis enumerate_eq_zip set_zip_rightD)

lemma route_lines_no_hash_nl:
  assumes "clean_route r" and "\<forall>b \<in> set bs. clean (b_Address b)" and "l \<in> set (route_lines r bs)"
  shows "no_hash_nl l"
  using assms
  by (auto simp: route_lines_def use_lines_def backend_lines_def clean_route_def clean_match_def
      clean_no_hash_nl dest!: set_enumerate_snd split: if_splits)

lemma Join_no_hash_nl: "\<forall>w \<in> set ws. no_hash_nl w \<Longrightarrow> no_hash_nl sep \<Longrightarrow> no_hash_nl (Join ws sep)"
  by (induction ws sep rule: Join.induct) auto

lemma SniDigest_no_hash_nl:
  assumes "\<forall>r \<in> set rs. clean_route r"
  shows "no_hash_nl (SniDigest rs)"
proof -
  have "no_hash_nl p" if "p \<in> set (sni_parts rs)" for p
    using that assms by (auto simp: sni_parts_def sniLine_def sni_match_part_def clean_route_def clean_match_def
        show_bool_def clean_no_hash_nl)
  then show ?thesis unfolding SniDigest_def by (intro Join_no_hash_nl) auto
qed


section \<open>Parsing the lines\<close>

lemma word_names [simp]: "word (front_name r)" "word (be_name r i)"
proof -
  have w: "word ''transitforge_fe_''" "word ''transitforge_be_''" "word ''_''" by code_simp+
  show "word (front_name r)" "word (be_name r i)"
    unfolding front_name_def be_name_def if_distrib [of word]
    by (simp_all only: word_append w sanitize_word word_Itoa if_cancel)
qed

lemma clean_word: "clean s \<Longrightarrow> s \<noteq> [] \<Longrightarrow> word s"
  by (simp add: clean_def word_def)

lemma parse_frontend: "parse_line (''frontend '' @ front_name r) rs = Some (rs @ [parsed_route (front_name r)])"
  using Fields_blank [of "''frontend''" "front_name r"]
  by (simp add: parse_line_def Fields_1) (simp add: Fields_def is_space_def)

lemma parse_bind:
  assumes "word l"
  shows "parse_line (''    bind '' @ l) rs = Some (upd_last (\<lambda>r. r\<lparr>r_Listen := l\<rparr>) rs)"
  using Fields_blank [of "''    bind''" l] assms
  by (simp add: parse_line_def Fields_1) (simp add: Fields_def is_space_def)


lemma parse_use:
  assumes "word m"
  shows "parse_line (''    use_backend '' @ be_name r i @ '' if { req_ssl_sni -i '' @ m @ '' }'') rs =
    Some (upd_last (add_match (parsed_match [] False (be_name r i))) rs)"
proof -
  let ?ws = "[be_name r i, ''if'', ''{'', ''req_ssl_sni'', ''-i'', m, ''}'']"
  have w: "word ''if''" "word ''{''" "word ''req_ssl_sni''" "word ''-i''" "word ''}''" by code_simp+
  have "Fields (''    use_backend'' @ '' '' @ Join ?ws '' '') = Fields ''    use_backend'' @ ?ws"
    by (rule Fields_words) (simp add: w assms)
  moreover have "Fields ''    use_backend'' = [''use_backend'']" by code_simp
  ultimately have "Fields (''    use_backend '' @ be_name r i @ '' if { req_ssl_sni -i '' @ m @ '' }'') = ''use_backend'' # ?ws"
    by simp
  then show ?thesis unfolding parse_line_def Let_def Fields_TrimSpace
    by (simp add: TrimRightFunc_def)
qed

lemma parse_default:
  assumes "word d"
  shows "parse_line (''    default_backend '' @ d) rs = Some (upd_last (add_match (parsed_match [] True d)) rs)"
  using Fields_blank [of "''    default_backend''" d] assms
  by (simp add: parse_line_def Fields_1) (simp add: Fields_def is_space_def)


lemma parse_other:
  assumes "Fields pre = [kw]" and "kw \<notin> {''frontend'', ''bind'', ''use_backend'', ''default_backend''}"
  shows "parse_line (pre @ '' '' @ rest) rs = Some rs"
  using assms by (simp only: parse_line_def Let_def Fields_TrimSpace Fields_blank) simp

lemma parse_lines_append:
  "parse_lines (xs @ ys) rs = (case parse_lines xs rs of None \<Rightarrow> None | Some rs' \<Rightarrow> parse_lines ys rs')"
  by (induction xs arbitrary: rs) (auto split: option.splits)

lemma parse_lines_ignored: "\<forall>l \<in> set ls. \<forall>rs. parse_line l rs = Some rs \<Longrightarrow> parse_lines ls rs = Some rs"
  by (induction ls) auto

lemma upd_last_snoc [simp]: "upd_last f (xs @ [x]) = xs @ [f x]"
  by (simp add: upd_last_def)

lemma parse_fixed_lines:
  "parse_line [] rs = Some rs" "parse_line ''    mode tcp'' rs = Some rs"
  "parse_line ''    tcp-request inspect-delay 5s'' rs = Some rs"
  "parse_line ''    tcp-request content accept if { req_ssl_hello_type 1 }'' rs = Some rs"
proof -
  have f: "Fields ''    mode'' = [''mode'']" "Fields ''    tcp-request'' = [''tcp-request'']" by code_simp+
  show "parse_line [] rs = Some rs" by (simp add: parse_line_def)
  show "parse_line ''    mode tcp'' rs = Some rs" using parse_other [OF f(1), of "''tcp''"] by simp
  show "parse_line ''    tcp-request inspect-delay 5s'' rs = Some rs"
    using parse_other [OF f(2), of "''inspect-delay 5s''"] by simp
  show "parse_line ''    tcp-request content accept if { req_ssl_hello_type 1 }'' rs = Some rs"
    using parse_other [OF f(2), of "''content accept if { req_ssl_hello_type 1 }''"] by simp
qed

lemma parse_backend_lines: "l \<in> set (backend_lines r x) \<Longrightarrow> parse_line l rs = Some rs"
proof -
  have f: "Fields ''backend'' = [''backend'']" "Fields ''    server'' = [''server'']" by code_simp+
  have "parse_line (''backend '' @ n) rs = Some rs" for n using parse_other [OF f(1), of n] by simp
  moreover have "parse_line (''    server s1 '' @ n) rs = Some rs" for n
    using parse_other [OF f(2), of "''s1 '' @ n"] by simp
  ultimately show "l \<in> set (backend_lines r x) \<Longrightarrow> parse_line l rs = Some rs"
    using parse_fixed_lines by (auto simp: backend_lines_def split: prod.splits)
qed

definition parsed_uses :: "sni_route \<Rightarrow> (nat \<times> sni_match) list \<Rightarrow> sni_match list" where
  "parsed_uses r xs = map (\<lambda>(i, m). parsed_match [] False (be_name r i)) (filter (\<lambda>(i, m). \<not> sm_Default m) xs)"

lemma parse_use_lines:
  assumes "\<forall>(i, m) \<in> set xs. clean_match m"
  shows "parse_lines (concat (map (use_lines r) xs)) (rs @ [q]) =
    Some (rs @ [q\<lparr>r_Matches := r_Matches q @ parsed_uses r xs\<rparr>])"
  using assms
proof (induction xs arbitrary: q)
  case Nil
  show ?case by (simp add: parsed_uses_def)
next
  case (Cons x xs)
  obtain i m where x: "x = (i, m)" by (cases x)
  show ?case
  proof (cases "sm_Default m")
    case True
    then show ?thesis using Cons x by (simp add: use_lines_def parsed_uses_def)
  next
    case False
    then have "word (sm_Match m)" using Cons.prems x by (auto simp: clean_match_def clean_word)
    from parse_use [OF this, of r i "rs @ [q]"] False show ?thesis
      using Cons x by (simp add: use_lines_def parsed_uses_def add_match_def)
  qed
qed

text \<open>What parsing gives back of a route: the sanitised name, the listen address, and the matches
  without their host names.\<close>

definition parsed_of :: "sni_route \<Rightarrow> sni_route" where
  "parsed_of r = (parsed_route (front_name r))\<lparr>r_Listen := r_Listen r,
     r_Matches := parsed_uses r (enumerate 0 (r_Matches r)) @ [parsed_match [] True (default_name r)]\<rparr>"

lemma parse_route_lines:
  assumes "clean_route r" and "default_name r \<noteq> []"
  shows "parse_lines (route_lines r bs) rs = Some (rs @ [parsed_of r])"
proof -
  have m: "\<forall>(i, m) \<in> set (enumerate 0 (r_Matches r)). clean_match m"
    using assms(1) by (auto simp: clean_route_def dest: set_enumerate_snd)
  have l: "word (r_Listen r)" using assms(1) by (simp add: clean_route_def clean_word)
  have d: "word (default_name r)" using assms(2) default_name_cases [of r] by auto
  have b: "parse_lines (concat (map (backend_lines r) xs)) qs = Some qs" for xs qs
    by (rule parse_lines_ignored) (auto simp: parse_backend_lines)
  show ?thesis
    unfolding route_lines_def parse_lines_append parse_lines.simps parse_frontend option.case
      parse_bind [OF l] upd_last_snoc parse_fixed_lines parse_use_lines [OF m] parse_default [OF d] b
    by (simp add: add_match_def parsed_of_def parsed_route_def)
qed

lemma parse_all_routes:
  assumes "\<forall>(r, bs) \<in> set ps. clean_route r \<and> default_name r \<noteq> []"
  shows "parse_lines (concat (map (\<lambda>(r, bs). route_lines r bs) ps)) rs = Some (rs @ map (parsed_of \<circ> fst) ps)"
  using assms
proof (induction ps arbitrary: rs)
  case (Cons p ps)
  obtain r bs where p: "p = (r, bs)" by (cases p)
  with Cons.prems have "parse_lines (route_lines r bs) rs = Some (rs @ [parsed_of r])"
    by (intro parse_route_lines) auto
  then show ?case using Cons p by (simp add: parse_lines_append)
qed simp


section \<open>The block as a whole\<close>

lemma block_Join: "block ls = Join (BeginMarker # ls @ [EndMarker]) nl"
  using unlines_Join [of "BeginMarker # ls" EndMarker] by (simp add: block_def)

lemma hd_digest: "hd (digest_line rs) = CHR ''#''"
  by (simp add: digest_line_def)

lemma no_marker: "CHR ''#'' \<notin> set l \<Longrightarrow> \<not> Contains l BeginMarker \<and> \<not> Contains l EndMarker"
  using not_Contains_hd [OF marker_facts(3)] not_Contains_hd [OF marker_facts(4)] by (simp add: marker_facts(7,8))

lemma not_marker_line:
  assumes "no_hash_nl (tl l)" and "\<not> HasPrefix l BeginMarker" and "\<not> HasPrefix l EndMarker"
  shows "\<not> Contains l BeginMarker \<and> \<not> Contains l EndMarker"
proof (cases l)
  case Nil
  then show ?thesis by (simp add: Contains_def BeginMarker_def EndMarker_def)
next
  case (Cons c t)
  then have "\<not> Contains t BeginMarker" "\<not> Contains t EndMarker"
    using assms(1) no_marker [of t] by (auto simp: no_hash_nl_def)
  then show ?thesis using Cons assms(2,3) by (simp add: Contains_def)
qed

lemma clean_tl: "no_hash_nl l \<Longrightarrow> no_hash_nl (tl l)"
  by (cases l) auto

lemma block_lines_ok:
  assumes "\<forall>r \<in> set rs. clean_route r" and "\<forall>b \<in> set bes. clean (b_Address b)"
    and "\<forall>(r, bs) \<in> set (zip rs bss). set bs \<subseteq> set bes" and "l \<in> set (block_lines rs bss)"
  shows "\<not> Contains l BeginMarker \<and> \<not> Contains l EndMarker \<and> CHR 0x0A \<notin> set l"
proof -
  consider "l = ''# Generated by transitforge. Do not edit this block.''" | "l = digest_line rs"
    | r bs where "(r, bs) \<in> set (zip rs bss)" "l \<in> set (route_lines r bs)"
    using assms(4) by (auto simp: block_lines_def)
  then show ?thesis
  proof cases
    case 1
    then show ?thesis using not_marker_line [of l] by (simp add: BeginMarker_def EndMarker_def)
  next
    case 2
    then show ?thesis using not_marker_line [of l] SniDigest_no_hash_nl [OF assms(1)]
      by (simp add: digest_line_def BeginMarker_def EndMarker_def no_hash_nl_def)
  next
    case 3
    then have "r \<in> set rs" "set bs \<subseteq> set bes" using assms(3) by (auto dest: set_zip_leftD)
    then have "no_hash_nl l" using route_lines_no_hash_nl [of r bs l] 3(2) assms(1,2) by blast
    then show ?thesis using no_marker [of l] by (simp add: no_hash_nl_def)
  qed
qed

lemma clean_digest:
  assumes "rs \<noteq> []" and "\<forall>r \<in> set rs. clean_route r"
  shows "TrimSpace (SniDigest rs) = SniDigest rs"
proof -
  have p: "p \<noteq> [] \<and> \<not> is_space (hd p) \<and> \<not> is_space (last p)" if "p \<in> set (sni_parts rs)" for p
  proof -
    consider r where "p = sniLine r" | m where "clean_match m" "p = sni_match_part m"
      using \<open>p \<in> set (sni_parts rs)\<close> assms(2) by (auto simp: sni_parts_def clean_route_def)
    then show ?thesis
    proof cases
      case 1
      have "last (Itoa i) \<in> set (Itoa i)" for i by simp
      then have "\<not> is_space (last (Itoa i))" for i using word_Itoa [of i] by (auto simp: word_def)
      with 1 show ?thesis by (simp add: sniLine_def) (simp add: is_space_def)
    next
      case 2
      have "\<not> is_space (last (show_bool b))" "show_bool b \<noteq> []" for b by (simp_all add: show_bool_def is_space_def)
      moreover have "\<not> is_space (hd p)"
        using 2 by (cases "sm_Match m") (simp_all add: sni_match_part_def is_space_def clean_match_def clean_def)
      ultimately show ?thesis using 2(2) by (simp add: sni_match_part_def)
    qed
  qed
  have J: "Join ws ''|'' \<noteq> [] \<and> \<not> is_space (hd (Join ws ''|'')) \<and> \<not> is_space (last (Join ws ''|''))"
    if "ws \<noteq> []" "\<forall>p \<in> set ws. p \<noteq> [] \<and> \<not> is_space (hd p) \<and> \<not> is_space (last p)" for ws
    using that
  proof (induction ws)
    case (Cons w ws)
    then show ?case by (cases ws) (auto simp: hd_append)
  qed simp
  have "sni_parts rs \<noteq> []" using assms(1) by (cases rs) (auto simp: sni_parts_def)
  then have "sort (sni_parts rs) \<noteq> []" by (metis set_empty set_sort)
  then show ?thesis unfolding SniDigest_def using J [of "sort (sni_parts rs)"] p
    by (intro TrimSpace_id) auto
qed

lemma block_digest:
  assumes "rs \<noteq> []" and "\<forall>r \<in> set rs. clean_route r"
    and "\<forall>l \<in> set (block_lines rs bss). CHR 0x0A \<notin> set l"
  shows "parseDigestComment (block (block_lines rs bss)) = SniDigest rs"
proof -
  have split: "Split (block (block_lines rs bss)) (CHR 0x0A) = BeginMarker # block_lines rs bss @ [EndMarker]"
    unfolding block_Join by (rule Split_Join_nl) (use assms(3) marker_facts in auto)
  have none: "digest_of_line BeginMarker = None" "digest_of_line ''# Generated by transitforge. Do not edit this block.'' = None"
    by code_simp+
  have "TrimSpace (digest_line rs) = digest_line rs"
    by (rule TrimSpace_id)
      (use clean_digest [OF assms(1,2)] TrimSpace_ends [of "SniDigest rs"] SniDigest_not_Nil [OF assms(1)]
        in \<open>simp add: digest_line_def is_space_def\<close>)
  then have "digest_of_line (digest_line rs) = Some (TrimSpace ('' '' @ SniDigest rs))"
    using TrimPrefix_append [of "''# transitforge-sni-digest:''" "'' '' @ SniDigest rs"]
    by (simp add: digest_of_line_def digest_line_def)
  also have "TrimSpace ('' '' @ SniDigest rs) = SniDigest rs"
    using clean_digest [OF assms(1,2)] by (simp add: TrimSpace_def TrimLeftFunc_def)
  finally show ?thesis unfolding parseDigestComment_def split unfolding block_lines_def by (simp add: none)
qed

lemma block_parse:
  assumes "\<forall>(r, bs) \<in> set (zip rs bss). clean_route r \<and> default_name r \<noteq> []" and "length bss = length rs"
    and "\<forall>l \<in> set (block_lines rs bss). CHR 0x0A \<notin> set l"
  shows "parseManaged (block (block_lines rs bss)) = Some (map parsed_of rs)"
proof -
  have split: "Split (block (block_lines rs bss)) (CHR 0x0A) = BeginMarker # block_lines rs bss @ [EndMarker]"
    unfolding block_Join by (rule Split_Join_nl) (use assms(3) marker_facts in auto)
  have h: "Fields ''#'' = [''#'']" by code_simp
  have hash: "parse_line (''# '' @ x) qs = Some qs" for x qs using parse_other [OF h, of x qs] by simp
  have c: "parse_line BeginMarker qs = Some qs" "parse_line EndMarker qs = Some qs" "parse_line (digest_line rs) qs = Some qs"
    "parse_line ''# Generated by transitforge. Do not edit this block.'' qs = Some qs" for qs
    using hash [of "''BEGIN TRANSITFORGE MANAGED''"] hash [of "''END TRANSITFORGE MANAGED''"]
      hash [of "''transitforge-sni-digest: '' @ SniDigest rs"] hash [of "''Generated by transitforge. Do not edit this block.''"]
    by (simp_all add: BeginMarker_def EndMarker_def digest_line_def)
  have "map (parsed_of \<circ> fst) (zip rs bss) = map parsed_of rs" using assms(2) by (simp flip: map_map)
  then show ?thesis
    unfolding parseManaged_def split unfolding block_lines_def
    by (simp add: c parse_lines_append parse_all_routes [OF assms(1)] block_ends(2))
qed

lemma rendered_block:
  assumes "Render rs bes = Inr s" and "rs \<noteq> []" and "clean_config rs bes"
    and "\<not> Contains u BeginMarker" and "\<not> Contains u EndMarker"
  shows "\<exists>m. splitManaged (joinConfig u s) = Inr (TrimSpace u, m) \<and> m \<noteq> [] \<and>
    parseDigestComment m = SniDigest rs \<and> parseManaged m = Some (map parsed_of rs)"
proof -
  from Render_block [OF assms(1,2)] obtain bss where
    s: "s = block (block_lines rs bss) @ nl" and len: "length bss = length rs"
    and bs: "\<forall>(r, bs) \<in> set (zip rs bss). default_name r \<noteq> [] \<and> set bs \<subseteq> set bes" by blast
  have c: "\<forall>r \<in> set rs. clean_route r" "\<forall>b \<in> set bes. clean (b_Address b)"
    using assms(3) by (auto simp: clean_config_def)
  have ok: "\<not> Contains l BeginMarker \<and> \<not> Contains l EndMarker \<and> CHR 0x0A \<notin> set l"
    if "l \<in> set (block_lines rs bss)" for l
    by (rule block_lines_ok [OF c _ that]) (use bs in auto)
  have d: "\<forall>(r, bs) \<in> set (zip rs bss). clean_route r \<and> default_name r \<noteq> []"
    using bs c(1) by (auto dest: set_zip_leftD)
  have "splitManaged (joinConfig u s) = Inr (TrimSpace u, block (block_lines rs bss))"
    unfolding s by (rule split_join) (use assms(4,5) ok in auto)
  moreover have "parseDigestComment (block (block_lines rs bss)) = SniDigest rs"
    by (rule block_digest) (use assms(2) c ok in auto)
  moreover have "parseManaged (block (block_lines rs bss)) = Some (map parsed_of rs)"
    by (rule block_parse) (use d len ok in auto)
  ultimately show ?thesis using block_ends(2) by blast
qed

text \<open>C28: The managed block survives the file: joined below any hand-written configuration that has no
  marker of its own, the rendered block is found again, the hand-written part is unchanged up to
  surrounding blanks, the digest comment reads back as the digest of the routes, and parsing gives
  one route per rendered route with its listen address and backends.\<close>

theorem managed_block_roundtrip:
  assumes "Render rs bes = Inr s" and "rs \<noteq> []" and "clean_config rs bes"
    and "\<not> Contains u BeginMarker" and "\<not> Contains u EndMarker"
  shows "\<exists>m. splitManaged (joinConfig u s) = Inr (TrimSpace u, m) \<and>
    parseDigestComment m = SniDigest rs \<and> parseManaged m = Some (map parsed_of rs)"
  using rendered_block [OF assms] by blast

definition sample_sni :: "sni_route list" where
  "sample_sni = [sample_route ''r1'' '':443'' [sample_match ''a.example'' False ''b1'', sample_match [] True ''b2'']]"

definition sample_backends :: "backend list" where
  "sample_backends = [sample_backend ''b1'' ''10.9.0.2'', sample_backend ''b2'' ''10.9.0.3'']"

lemma sample_sni_clean: "clean_config sample_sni sample_backends" "sample_sni \<noteq> []"
  by (simp_all add: clean_config_def sample_sni_def sample_backends_def sample_route_def sample_backend_def
      clean_route_def sample_match_def clean_match_def clean_def is_space_def)

lemma sample_sni_renders: "\<exists>s. Render sample_sni sample_backends = Inr s"
  by (simp add: Render_def sample_sni_def sample_backends_def sample_route_def sample_backend_def sample_match_def
      render_route_def resolveBackend_def index_by_find default_name_def be_name_def)

lemma managed_block_roundtrip_witness:
  "\<exists>s m. Render sample_sni sample_backends = Inr s \<and>
    splitManaged (joinConfig ''defaults'' s) = Inr (TrimSpace ''defaults'', m) \<and>
    parseDigestComment m = SniDigest sample_sni \<and> parseManaged m = Some (map parsed_of sample_sni)"
proof -
  obtain s where "Render sample_sni sample_backends = Inr s" using sample_sni_renders by blast
  moreover have "\<not> Contains ''defaults'' BeginMarker" "\<not> Contains ''defaults'' EndMarker"
    by (simp_all add: Contains_def BeginMarker_def EndMarker_def)
  ultimately show ?thesis using managed_block_roundtrip [of sample_sni sample_backends s "''defaults''"] sample_sni_clean by blast
qed

text \<open>Parsing the block loses the host names: the line \<open>use_backend ... { req_ssl_sni -i HOST }\<close> is
  read by its last word, the closing brace, so every match read back has an empty host name.\<close>

lemma parsed_matches_have_no_host:
  assumes "Render rs bes = Inr s" and "rs \<noteq> []" and "clean_config rs bes"
    and "splitManaged (joinConfig [] s) = Inr (u, m)" and "parseManaged m = Some qs"
  shows "length qs = length rs \<and> (\<forall>q \<in> set qs. \<forall>x \<in> set (r_Matches q). sm_Match x = [])"
proof -
  have "\<not> Contains [] BeginMarker" "\<not> Contains [] EndMarker"
    by (simp_all add: Contains_def BeginMarker_def EndMarker_def)
  from rendered_block [OF assms(1-3) this] assms(4,5) have "qs = map parsed_of rs" by auto
  then show ?thesis
    by (auto simp: parsed_of_def parsed_route_def parsed_uses_def parsed_match_def)
qed

lemma parsed_matches_have_no_host_witness:
  "\<exists>s u m qs. Render sample_sni sample_backends = Inr s \<and> splitManaged (joinConfig [] s) = Inr (u, m) \<and>
    parseManaged m = Some qs \<and> length qs = 1 \<and> (\<forall>q \<in> set qs. \<forall>x \<in> set (r_Matches q). sm_Match x = [])"
proof -
  obtain s where s: "Render sample_sni sample_backends = Inr s" using sample_sni_renders by blast
  have "\<not> Contains [] BeginMarker" "\<not> Contains [] EndMarker"
    by (simp_all add: Contains_def BeginMarker_def EndMarker_def)
  from rendered_block [OF s sample_sni_clean(2,1) this] obtain m qs where
    m: "splitManaged (joinConfig [] s) = Inr (TrimSpace [], m)" "parseManaged m = Some qs" by blast
  have "length sample_sni = 1" by (simp add: sample_sni_def)
  with parsed_matches_have_no_host [OF s sample_sni_clean(2,1) m] s m show ?thesis by auto
qed

end
