(* ===== verification/HaproxyHost.thy ===== *)
theory HaproxyHost
  imports HaproxyText TestHost
begin

text \<open>
  The HAProxy manager on a host. The locale \<open>file_host\<close> is what it relies on of the file system: a read
  returns what was written, a rename moves, and the commands \<open>haproxy\<close> and \<open>systemctl\<close> do not touch files.
  Under these laws \<open>Apply\<close> is all or nothing, \<open>Rollback\<close> restores the file and \<open>Discover\<close> reads what
  \<open>Apply\<close> wrote. The in-memory host satisfies them.
\<close>

section \<open>A host with a working disk\<close>

text \<open>The text of a file, a missing one being empty, as \<open>readOrEmpty\<close> has it.\<close>

definition text_in :: "(string \<Rightarrow> string option) \<Rightarrow> string \<Rightarrow> string" where
  "text_in fs p = (case fs p of Some b \<Rightarrow> b | None \<Rightarrow> [])"

text \<open>The directory and the name of the backup file. No clock may make it the name of the configuration.\<close>

definition backup_dir :: "hp_state \<Rightarrow> string" where
  "backup_dir m = (if hp_BackupDir m = [] then path_join (path_dir (hp_ConfigPath m)) ''transitforge-haproxy-backups'' else hp_BackupDir m)"

definition backup_name :: "hp_state \<Rightarrow> string \<Rightarrow> string" where
  "backup_name m stamp = path_join (backup_dir m) (''haproxy-'' @ stamp @ ''.cfg'')"

definition backup_apart :: "hp_state \<Rightarrow> bool" where
  "backup_apart m \<longleftrightarrow> (\<forall>stamp. backup_name m stamp \<notin> {hp_ConfigPath m, hp_ConfigPath m @ ''.tmp''})"

lemma portBound_TrimSpace: "portBoundElsewhere (TrimSpace u) rs \<Longrightarrow> portBoundElsewhere u rs"
proof -
  obtain a b where "u = a @ TrimSpace u @ b" using TrimSpace_part by blast
  then have u: "ToLower u = ToLower a @ ToLower (TrimSpace u) @ ToLower b" by (metis ToLower_def map_append)
  have "Contains (ToLower u) x" if "Contains (ToLower (TrimSpace u)) x" for x
    using that unfolding u Contains_iff by (metis append.assoc)
  then show "portBoundElsewhere (TrimSpace u) rs \<Longrightarrow> portBoundElsewhere u rs"
    by (auto simp: portBoundElsewhere_def list_ex_iff)
qed

locale file_host =
  fixes os :: "'h os" and files :: "'h \<Rightarrow> string \<Rightarrow> string option"
  assumes read_file: "os_read os p h = (case files h p of Some b \<Rightarrow> FileData b | None \<Rightarrow> FileMissing)"
    and write_file: "\<exists>h'. os_write os p b h = (None, h') \<and> files h' = (files h)(p \<mapsto> b)"
    and rename_file: "files h p = Some b \<Longrightarrow> \<exists>h'. os_rename os p q h = (None, h') \<and> files h' = (files h)(p := None, q \<mapsto> b)"
    and remove_file: "\<exists>h'. os_remove os p h = (None, h') \<and> files h' = (files h)(p := None)"
    and mkdir_files: "\<exists>h'. os_mkdir os p h = (None, h') \<and> files h' = files h"
    and run_files: "exe \<in> {''haproxy'', ''systemctl''} \<Longrightarrow> run0 os exe args h = (r, h') \<Longrightarrow> files h' = files h"
begin

lemma readOrEmpty_text: "readOrEmpty os p h = Inr (text_in (files h) p)"
  by (simp add: readOrEmpty_def read_file text_in_def split: option.splits)

lemma write_atomic:
  obtains h' where "writeFileAtomic os p b h = (Inr (), h')" and "files h' = (files h)(p @ ''.tmp'' := None, p \<mapsto> b)"
proof -
  obtain h1 where h1: "os_mkdir os (path_dir p) h = (None, h1)" "files h1 = files h" using mkdir_files by blast
  obtain h2 where h2: "os_write os (p @ ''.tmp'') b h1 = (None, h2)" "files h2 = (files h1)(p @ ''.tmp'' \<mapsto> b)"
    using write_file by blast
  obtain h3 where h3: "os_rename os (p @ ''.tmp'') p h2 = (None, h3)"
      "files h3 = (files h2)(p @ ''.tmp'' := None, p \<mapsto> b)"
    using rename_file [of h2 "p @ ''.tmp''" b p] h2(2) by auto
  have "writeFileAtomic os p b h = (Inr (), h3)"
    by (simp add: writeFileAtomic_def bindA_def errA_def h1 h2 h3)
  moreover have "files h3 = (files h)(p @ ''.tmp'' := None, p \<mapsto> b)" using h1 h2 h3 by simp
  ultimately show ?thesis using that by blast
qed

lemma restore_file:
  obtains h' where "restoreFile os p b h = (Inr (), h')" and "text_in (files h') p = b"
proof (cases "b = []")
  case True
  obtain h1 where "os_remove os p h = (None, h1)" "files h1 = (files h)(p := None)" using remove_file by blast
  with True that show ?thesis by (simp add: restoreFile_def errA_def text_in_def)
next
  case False
  obtain h1 where "writeFileAtomic os p b h = (Inr (), h1)" "files h1 = (files h)(p @ ''.tmp'' := None, p \<mapsto> b)"
    by (rule write_atomic)
  with False that show ?thesis by (simp add: restoreFile_def text_in_def)
qed

lemma reload_files: "hp_reload os m h = (r, h') \<Longrightarrow> files h' = files h"
  using run_files [of "''systemctl''" "[''reload'', hp_unit m]" h]
  by (auto simp: hp_reload_def split: if_splits prod.splits option.splits)

lemma text_in_cong: "files h' = files h \<Longrightarrow> text_in (files h') p = text_in (files h) p"
  by (simp add: text_in_def)

text \<open>Behind the write: on success the file stays, on failure it is the previous text again.\<close>

lemma activate_text:
  assumes "hp_activate os cur (m, h) = (r, (m', h'))"
  shows "m' = m \<and> (if isl r then text_in (files h') (hp_ConfigPath m) = cur else files h' = files h)"
proof -
  let ?p = "hp_ConfigPath m"
  obtain out errb e h1 where run: "run0 os ''haproxy'' [''-c'', ''-f'', ?p] h = ((out, errb, e), h1)"
    by (metis prod_cases3 surj_pair)
  have f1: "files h1 = files h" using run_files [OF _ run] by simp
  show ?thesis
  proof (cases e)
    case (Some x)
    obtain h2 where "restoreFile os ?p cur h1 = (Inr (), h2)" "text_in (files h2) ?p = cur" by (rule restore_file)
    with run Some assms show ?thesis by (auto simp: hp_activate_def)
  next
    case None
    obtain r2 h2 where rl: "hp_reload os m h1 = (r2, h2)" by fastforce
    show ?thesis
    proof (cases r2)
      case (Inr x)
      then show ?thesis using run None assms rl reload_files [OF rl] f1 by (auto simp: hp_activate_def)
    next
      case (Inl x)
      obtain h3 where h3: "restoreFile os ?p cur h2 = (Inr (), h3)" "text_in (files h3) ?p = cur" by (rule restore_file)
      obtain r4 h4 where h4: "hp_reload os m h3 = (r4, h4)" by fastforce
      show ?thesis using run None assms rl Inl h3 h4 text_in_cong [OF reload_files [OF h4]]
        by (auto simp: hp_activate_def)
    qed
  qed
qed

lemma backup_ok:
  obtains n h' where "hp_backup os cur (m, h) = (Inr n, (m\<lparr>hp_BackupDir := backup_dir m\<rparr>, h'))"
    and "files h' = (files h)(n \<mapsto> cur)" and "n \<noteq> []"
    and "\<exists>stamp. n = backup_name m stamp"
proof -
  let ?m = "m\<lparr>hp_BackupDir := backup_dir m\<rparr>"
  have m: "(if hp_BackupDir m = []
              then m\<lparr>hp_BackupDir := path_join (path_dir (hp_ConfigPath m)) ''transitforge-haproxy-backups''\<rparr>
              else m) = ?m" by (simp add: backup_dir_def)
  obtain h1 where h1: "os_mkdir os (backup_dir m) h = (None, h1)" "files h1 = files h" using mkdir_files by blast
  let ?n = "backup_name m (os_stamp os ''20060102T150405.000Z'' h1)"
  obtain h2 where h2: "os_write os ?n cur h1 = (None, h2)" "files h2 = (files h1)(?n \<mapsto> cur)" using write_file by blast
  have "hp_backup os cur (m, h) = (Inr ?n, (?m, h2))"
    unfolding hp_backup_def prod.case m Let_def
    using h1 h2 by (simp add: bindA_def liftH_def errA_def backup_name_def)
  moreover have "?n \<noteq> []" by (simp add: backup_name_def path_join_def)
  moreover have "files h2 = (files h)(?n \<mapsto> cur)" using h1 h2 by simp
  ultimately show ?thesis using that by blast
qed

lemma write_spec:
  assumes "hp_write os cur nxt (m, h) = (r, (m', h'))" and "text_in (files h) (hp_ConfigPath m) = cur" and "backup_apart m"
  shows "hp_ConfigPath m' = hp_ConfigPath m \<and> hp_lastBackup m' \<noteq> [] \<and>
    text_in (files h') (hp_ConfigPath m) = (if isl r then cur else nxt) \<and>
    (\<not> isl r \<longrightarrow> files h' (hp_lastBackup m') = Some cur)"
proof -
  let ?p = "hp_ConfigPath m"
  obtain n h1 where b: "hp_backup os cur (m, h) = (Inr n, (m\<lparr>hp_BackupDir := backup_dir m\<rparr>, h1))"
    "files h1 = (files h)(n \<mapsto> cur)" "n \<noteq> []"
    "\<exists>stamp. n = backup_name m stamp"
    by (rule backup_ok)
  obtain stamp where "n = backup_name m stamp" using b(4) by blast
  then have n: "n \<noteq> ?p" "n \<noteq> ?p @ ''.tmp''" using assms(3) by (simp_all add: backup_apart_def)
  obtain h2 where w: "writeFileAtomic os ?p nxt h1 = (Inr (), h2)" "files h2 = (files h1)(?p @ ''.tmp'' := None, ?p \<mapsto> nxt)"
    by (rule write_atomic)
  let ?m = "m\<lparr>hp_BackupDir := backup_dir m, hp_lastBackup := n, hp_wroteOnce := True\<rparr>"
  have "hp_activate os cur (?m, h2) = (r, (m', h'))"
    using assms(1) b(1) w(1) by (simp add: hp_write_def bindA_def modM_def liftH_def)
  from activate_text [OF this] show ?thesis
    using b w n by (auto simp: text_in_def)
qed

lemma apply_all_or_nothing:
  assumes "hp_Apply os rs bes (m, h) = (r, (m', h'))" and "backup_apart m"
  shows "if isl r then text_in (files h') (hp_ConfigPath m) = text_in (files h) (hp_ConfigPath m)
    else next_config (text_in (files h) (hp_ConfigPath m)) (snd (validate_routes rs)) bes = Inr (text_in (files h') (hp_ConfigPath m)) \<and>
      hp_ConfigPath m' = hp_ConfigPath m \<and> hp_lastBackup m' \<noteq> [] \<and>
      files h' (hp_lastBackup m') = Some (text_in (files h) (hp_ConfigPath m))"
proof -
  obtain ve rs' where v: "validate_routes rs = (ve, rs')" by fastforce
  show ?thesis
  proof (cases ve)
    case (Some e)
    then show ?thesis using assms v by (auto simp: hp_Apply_def)
  next
    case None
    show ?thesis
    proof (cases "next_config (text_in (files h) (hp_ConfigPath m)) rs' bes")
      case (Inl e)
      then show ?thesis using assms v None by (auto simp: hp_Apply_def readOrEmpty_text)
    next
      case (Inr nxt)
      then have "hp_write os (text_in (files h) (hp_ConfigPath m)) nxt (m, h) = (r, (m', h'))"
        using assms v None by (simp add: hp_Apply_def readOrEmpty_text)
      from write_spec [OF this refl assms(2)] Inr v show ?thesis by auto
    qed
  qed
qed

lemma rollback_restores_text:
  assumes "hp_Apply os rs bes (m, h) = (Inr (), (m1, h1))" and "backup_apart m"
    and "hp_Rollback os (m1, h1) = (r, (m2, h2))"
  shows "text_in (files h2) (hp_ConfigPath m) = text_in (files h) (hp_ConfigPath m)"
proof -
  let ?p = "hp_ConfigPath m"
  from apply_all_or_nothing [OF assms(1,2)] have a: "hp_ConfigPath m1 = ?p" "hp_lastBackup m1 \<noteq> []"
    "files h1 (hp_lastBackup m1) = Some (text_in (files h) ?p)" by simp_all
  obtain h3 where h3: "restoreFile os ?p (text_in (files h) ?p) h1 = (Inr (), h3)" "text_in (files h3) ?p = text_in (files h) ?p"
    by (rule restore_file)
  obtain r4 h4 where h4: "hp_reload os m1 h3 = (r4, h4)" by fastforce
  from h4 have "text_in (files h4) ?p = text_in (files h) ?p" using reload_files text_in_cong h3(2) by metis
  moreover have "h2 = h4" using assms(3) a h3 h4 by (auto simp: hp_Rollback_def read_file split: sum.splits)
  ultimately show ?thesis by simp
qed

text \<open>What a successful apply wrote is what discovery reads.\<close>

lemma apply_then_discover:
  assumes "hp_Apply os rs bes (m, h) = (Inr (), (m1, h1))" and "backup_apart m"
    and "validate_routes rs = (None, rs')" and "rs' \<noteq> []" and "clean_config rs' bes"
    and "splitManaged (text_in (files h) (hp_ConfigPath m)) = Inr (u, old)"
    and "\<not> Contains u BeginMarker" and "\<not> Contains u EndMarker"
  shows "hp_Discover os m1 rs' h1 = (Inr (SniDigest rs', map parsed_of rs', []), h1)"
proof -
  let ?p = "hp_ConfigPath m"
  from apply_all_or_nothing [OF assms(1,2)] assms(3)
  have n: "next_config (text_in (files h) ?p) rs' bes = Inr (text_in (files h1) ?p)" and p: "hp_ConfigPath m1 = ?p"
    by simp_all
  then obtain s where s: "Render rs' bes = Inr s" "text_in (files h1) ?p = joinConfig u s"
    and b: "\<not> portBoundElsewhere u rs'"
    using assms(6) by (auto simp: next_config_def split: if_splits sum.splits)
  from rendered_block [OF s(1) assms(4,5,7,8)] obtain mg where
    mg: "splitManaged (joinConfig u s) = Inr (TrimSpace u, mg)" "mg \<noteq> []"
    "parseDigestComment mg = SniDigest rs'" "parseManaged mg = Some (map parsed_of rs')" by blast
  have "joinConfig u s \<noteq> []"
  proof
    assume "joinConfig u s = []"
    then have "splitManaged [] = Inr (TrimSpace u, mg)" using mg(1) by simp
    moreover have "splitManaged [] = Inr ([], [])"
      by (simp add: splitManaged_def splitMarked_def BeginMarker_def EndMarker_def legacyBeginMarker_def
          legacyEndMarker_def Contains_def)
    ultimately show False using mg(2) by simp
  qed
  then have f: "files h1 ?p = Some (joinConfig u s)" using s(2) by (auto simp: text_in_def split: option.splits)
  have "SniDigest rs' \<noteq> []" by (rule SniDigest_not_Nil) (rule assms(4))
  moreover have "\<not> portBoundElsewhere (TrimSpace u) rs'"
    using b portBound_TrimSpace by blast
  ultimately show ?thesis using p f mg by (simp add: hp_Discover_def read_file)
qed

end

section \<open>The in-memory host\<close>

interpretation fh: file_host th_os "\<lambda>h. map_of (h_Files h)"
proof
  fix h p b q
  show "os_read th_os p h = (case map_of (h_Files h) p of Some b \<Rightarrow> FileData b | None \<Rightarrow> FileMissing)"
    by (simp add: th_os_def)
  show "\<exists>h'. os_write th_os p b h = (None, h') \<and> map_of (h_Files h') = (map_of (h_Files h))(p \<mapsto> b)"
    by (simp add: th_os_def update_conv' )
  show "\<exists>h'. os_remove th_os p h = (None, h') \<and> map_of (h_Files h') = (map_of (h_Files h))(p := None)"
    by (simp add: th_os_def delete_conv')
  show "\<exists>h'. os_mkdir th_os p h = (None, h') \<and> map_of (h_Files h') = map_of (h_Files h)"
    by (simp add: th_os_def)
  show "\<exists>h'. os_rename th_os p q h = (None, h') \<and> map_of (h_Files h') = (map_of (h_Files h))(p := None, q \<mapsto> b)"
    if "map_of (h_Files h) p = Some b"
    using that by (simp add: th_os_def update_conv' delete_conv')
next
  fix exe args h r h'
  assume "exe \<in> {''haproxy'', ''systemctl''}" "run0 th_os exe args h = (r, h')"
  then show "map_of (h_Files h') = map_of (h_Files h)"
    by (auto simp: run0_def th_os_def th_exec_def th_haproxy_def th_systemctl_def okR_def errR_def Let_def
        split: option.splits if_splits list.splits)
qed

text \<open>The rest of the host, which the HAProxy manager does not touch.\<close>

definition rest_kept :: "host \<Rightarrow> host \<Rightarrow> bool" where
  "rest_kept h h' \<longleftrightarrow> h_FailOn h' = h_FailOn h \<and> h_NAT h' = h_NAT h \<and> h_Filter h' = h_Filter h \<and> h_Links h' = h_Links h"

lemma th_activate_ok:
  assumes "h_FailOn h = []"
  shows "\<exists>h'. hp_activate th_os cur (m, h) = (Inr (), (m, h')) \<and> rest_kept h h'"
proof -
  have e: "ValidateExecutable ''haproxy'' = None" "ValidateExecutable ''systemctl'' = None" by code_simp+
  show ?thesis using assms
    by (simp add: hp_activate_def run0_def th_os_def th_exec_def e hp_reload_def th_haproxy_def th_systemctl_def
        okR_def Let_def rest_kept_def)
qed

lemma th_write_ok:
  assumes "h_FailOn h = []"
  shows "\<exists>m' h'. hp_write th_os cur nxt (m, h) = (Inr (), (m', h')) \<and> rest_kept h h'"
proof -
  obtain n m1 h1 where b: "hp_backup th_os cur (m, h) = (Inr n, (m1, h1))" by (rule fh.backup_ok) blast
  then have f1: "rest_kept h h1"
    by (auto simp: hp_backup_def bindA_def liftH_def errA_def th_os_def Let_def rest_kept_def)
  obtain h2 where w: "writeFileAtomic th_os (hp_ConfigPath m1) nxt h1 = (Inr (), h2)" by (rule fh.write_atomic)
  then have f2: "rest_kept h1 h2"
    by (auto simp: writeFileAtomic_def bindA_def errA_def th_os_def rest_kept_def split: option.splits)
  then have "h_FailOn h2 = []" using f1 assms by (simp add: rest_kept_def)
  from th_activate_ok [OF this, of cur "m1\<lparr>hp_lastBackup := n, hp_wroteOnce := True\<rparr>"] obtain h3 where
    "hp_activate th_os cur (m1\<lparr>hp_lastBackup := n, hp_wroteOnce := True\<rparr>, h2) =
      (Inr (), (m1\<lparr>hp_lastBackup := n, hp_wroteOnce := True\<rparr>, h3))" "rest_kept h2 h3" by blast
  then have "hp_write th_os cur nxt (m, h) = (Inr (), (m1\<lparr>hp_lastBackup := n, hp_wroteOnce := True\<rparr>, h3))" "rest_kept h h3"
    using b w f1 f2 by (simp_all add: hp_write_def bindA_def modM_def liftH_def rest_kept_def)
  then show ?thesis by blast
qed

lemma th_text: "readOrEmpty th_os p h = Inr (text_in (map_of (h_Files h)) p)"
  by (rule fh.readOrEmpty_text)


text \<open>Rolling back a successful apply restores the configuration file, even when the reload behind it
  fails.\<close>

lemma haproxy_rollback_restores:
  assumes "hp_Apply th_os rs bes (m, h) = (Inr (), (m1, h1))" and "backup_apart m"
    and "hp_Rollback th_os (m1, h1) = (r, (m2, h2))"
  shows "readOrEmpty th_os (hp_ConfigPath m) h2 = readOrEmpty th_os (hp_ConfigPath m) h"
  using fh.rollback_restores_text [OF assms] by (simp add: th_text)

text \<open>C27: HAProxy converges in one apply: on a host where the commands succeed, valid routes whose
  backends resolve are applied, and what discovery reads afterwards is the digest of the routes
  with no conflict, so the planner has no further HAProxy action.\<close>

theorem haproxy_round_converges:
  assumes "h_FailOn h = []" and "backup_apart m" and "validate_routes rs = (None, rs')" and "rs' \<noteq> []"
    and "clean_config rs' bes" and "readOrEmpty th_os (hp_ConfigPath m) h = Inr cur"
    and "splitManaged cur = Inr (u, old)" and "\<not> Contains u BeginMarker" and "\<not> Contains u EndMarker"
    and "next_config cur rs' bes = Inr nxt"
  shows "\<exists>m1 h1 dg qs. hp_Apply th_os rs bes (m, h) = (Inr (), (m1, h1)) \<and>
    hp_Discover th_os m1 rs' h1 = (Inr (dg, qs, []), h1) \<and>
    haproxy_actions (d\<lparr>d_SniRoutes := rs'\<rparr>) (a\<lparr>as_HaproxyDigest := dg\<rparr>) = []"
proof -
  have cur: "cur = text_in (map_of (h_Files h)) (hp_ConfigPath m)" using assms(6) th_text by simp
  obtain m1 h1 where a: "hp_Apply th_os rs bes (m, h) = (Inr (), (m1, h1))"
    using th_write_ok [OF assms(1), of cur nxt m] assms(3,6,10) by (auto simp: hp_Apply_def)
  from fh.apply_then_discover [OF a assms(2-5) assms(7) [unfolded cur] assms(8,9)]
  have "hp_Discover th_os m1 rs' h1 = (Inr (SniDigest rs', map parsed_of rs', []), h1)" .
  moreover have "haproxy_actions (d\<lparr>d_SniRoutes := rs'\<rparr>) (a\<lparr>as_HaproxyDigest := SniDigest rs'\<rparr>) = []"
    using assms(4) SniDigest_not_Nil [OF assms(4)] by (simp add: haproxy_actions_def Let_def)
  ultimately show ?thesis using a by blast
qed

section \<open>Instances\<close>

definition sample_hp :: hp_state where
  "sample_hp = \<lparr>hp_ConfigPath = ''/h.cfg'', hp_BackupDir = ''/b'', hp_UnitName = [], hp_ReloadMode = [],
     hp_lastBackup = [], hp_wroteOnce = False\<rparr>"

lemma sample_hp_apart: "backup_apart sample_hp"
  by (simp add: backup_apart_def backup_name_def backup_dir_def path_join_def sample_hp_def)

lemma sample_sni_valid: "validate_routes sample_sni = (None, sample_sni)"
proof -
  have "SniRoute_Validate (sample_route ''r1'' '':443'' [sample_match ''a.example'' False ''b1'', sample_match [] True ''b2'']) = None"
    "ListenAddr '':443'' = None" "TrimSpace '':443'' = '':443''" "ToLower (TrimSpace ''a.example'') = ''a.example''"
    by code_simp+
  then show ?thesis
    by (simp add: sample_sni_def sample_route_def sample_match_def normalized_matches_def SniRoute_Normalize_def ToLower_def)
qed

lemma empty_split: "splitManaged [] = Inr ([], [])"
  by (simp add: splitManaged_def splitMarked_def BeginMarker_def EndMarker_def legacyBeginMarker_def
      legacyEndMarker_def Contains_def)

lemma sample_next: "\<exists>nxt. next_config [] sample_sni sample_backends = Inr nxt"
  using sample_sni_renders
  by (auto simp: next_config_def empty_split portBoundElsewhere_def sample_sni_def sample_route_def Contains_def ToLower_def)

lemma sample_read: "readOrEmpty th_os (hp_ConfigPath sample_hp) new_host = Inr []"
  by (simp add: readOrEmpty_def th_os_def new_host_def)

lemma haproxy_round_converges_witness:
  "\<exists>m1 h1 dg qs. hp_Apply th_os sample_sni sample_backends (sample_hp, new_host) = (Inr (), (m1, h1)) \<and>
    hp_Discover th_os m1 sample_sni h1 = (Inr (dg, qs, []), h1) \<and>
    haproxy_actions ((sample_desired [] [] [])\<lparr>d_SniRoutes := sample_sni\<rparr>)
      ((realised (sample_desired [] [] []))\<lparr>as_HaproxyDigest := dg\<rparr>) = []"
proof -
  obtain nxt where n: "next_config [] sample_sni sample_backends = Inr nxt" using sample_next by blast
  have "h_FailOn new_host = []" "\<not> Contains [] BeginMarker" "\<not> Contains [] EndMarker"
    by (simp_all add: new_host_def Contains_def BeginMarker_def EndMarker_def)
  from haproxy_round_converges [OF this(1) sample_hp_apart sample_sni_valid sample_sni_clean(2,1) sample_read empty_split this(2,3) n]
  show ?thesis .
qed

lemma sample_applied: "\<exists>m1 h1. hp_Apply th_os sample_sni sample_backends (sample_hp, new_host) = (Inr (), (m1, h1))"
proof -
  obtain nxt where n: "next_config [] sample_sni sample_backends = Inr nxt" using sample_next by blast
  have "h_FailOn new_host = []" by (simp add: new_host_def)
  from th_write_ok [OF this, of "[]" nxt sample_hp] obtain m1 h1 where
    "hp_write th_os [] nxt (sample_hp, new_host) = (Inr (), (m1, h1))" by blast
  then have "hp_Apply th_os sample_sni sample_backends (sample_hp, new_host) = (Inr (), (m1, h1))"
    by (simp add: hp_Apply_def sample_sni_valid sample_read n)
  then show ?thesis by blast
qed

lemma haproxy_rollback_restores_witness:
  "\<exists>m1 h1 r m2 h2. hp_Apply th_os sample_sni sample_backends (sample_hp, new_host) = (Inr (), (m1, h1)) \<and>
    hp_Rollback th_os (m1, h1) = (r, (m2, h2)) \<and>
    readOrEmpty th_os (hp_ConfigPath sample_hp) h2 = readOrEmpty th_os (hp_ConfigPath sample_hp) new_host"
proof -
  obtain m1 h1 where a: "hp_Apply th_os sample_sni sample_backends (sample_hp, new_host) = (Inr (), (m1, h1))"
    using sample_applied by blast
  obtain r m2 h2 where b: "hp_Rollback th_os (m1, h1) = (r, (m2, h2))" by (metis surj_pair)
  from haproxy_rollback_restores [OF a sample_hp_apart b] a b show ?thesis by blast
qed


end
