(* ===== verification/EngineLaws.thy ===== *)
theory EngineLaws
  imports Engine TunnelHost HaproxyHost
begin

text \<open>
  What a round of the engine may claim, on every host: \<open>reconcile_cases\<close> splits a round by where it
  stopped, and the theorems read off the cases.
\<close>

section \<open>What a round may claim\<close>

lemma reconcile_cases:
  assumes "Reconcile os d dry s = ((res, err, d'), s')"
  obtains (discover) e where "engine_Discover os d s = (Inl e, s')" "res = zero_result" "err = Some e" "d' = d"
  | (conflict) a where "engine_Discover os d s = (Inr a, s')" "HasConflicts (Diff d a)" "err = Some (ErrConflict (Plan_String (Diff d a)))"
      "re_Actual res = a" "\<not> re_Applied res" "\<not> re_Rolled res" "re_Plan res = Diff d a" "d' = d"
  | (idle) a where "engine_Discover os d s = (Inr a, s')" "\<not> HasConflicts (Diff d a)" "Plan_Empty (Diff d a) \<or> dry"
      "re_Actual res = a" "\<not> re_Applied res" "\<not> re_Rolled res" "re_Plan res = Diff d a" "d' = d" "err = None"
  | (invalid) a e where "engine_Discover os d s = (Inr a, s')" "\<not> HasConflicts (Diff d a)" "\<not> Plan_Empty (Diff d a)" "\<not> dry"
      "re_Actual res = a" "\<not> re_Applied res" "\<not> re_Rolled res" "re_Plan res = Diff d a" "d' = d" "err = Some e"
  | (failed) a s1 e s2 e' where "engine_Discover os d s = (Inr a, s1)" "\<not> HasConflicts (Diff d a)" "\<not> Plan_Empty (Diff d a)" "\<not> dry"
      "applyPlan os (Diff d a) d (begin_tx (fst s1), snd s1) = ((Inl e, d'), s2)" "s' = snd (engine_rollback os s2)"
      "err = Some e'" "\<not> re_Applied res" "re_Rolled res \<longleftrightarrow> \<not> isl (fst (engine_rollback os s2))" "re_Plan res = Diff d a"
  | (applied) a s1 s2 where "engine_Discover os d s = (Inr a, s1)" "\<not> HasConflicts (Diff d a)" "\<not> Plan_Empty (Diff d a)" "\<not> dry"
      "validatePlan (fst s1) (Diff d a) d = None"
      "applyPlan os (Diff d a) d (begin_tx (fst s1), snd s1) = ((Inr (), d'), s2)"
      "engine_verify os (Diff d a) a d' s2 = ((res, err), s')"
proof -
  obtain r s1 where D: "engine_Discover os d s = (r, s1)" by (metis surj_pair)
  show thesis
  proof (cases r)
    case (Inl e)
    then show ?thesis using assms D by (intro discover) (auto simp: Reconcile_def)
  next
    case (Inr a)
    let ?p = "Diff d a"
    consider "HasConflicts ?p" | "\<not> HasConflicts ?p" "Plan_Empty ?p \<or> dry"
      | "\<not> HasConflicts ?p" "\<not> Plan_Empty ?p" "\<not> dry" by blast
    then show ?thesis
    proof cases
      case 1
      then show ?thesis using assms D Inr by (intro conflict [of a]) (auto simp: Reconcile_def Let_def)
    next
      case 2
      then show ?thesis using assms D Inr by (intro idle [of a]) (auto simp: Reconcile_def Let_def)
    next
      case 3
      show ?thesis
      proof (cases "validatePlan (fst s1) ?p d")
        case (Some e)
        then show ?thesis using assms D Inr 3 by (intro invalid [of a e]) (auto simp: Reconcile_def Let_def)
      next
        case None
        obtain ra da s2 where A: "applyPlan os ?p d (begin_tx (fst s1), snd s1) = ((ra, da), s2)" by (metis surj_pair)
        show ?thesis
        proof (cases ra)
          case (Inl e)
          obtain rr s3 where R: "engine_rollback os s2 = (rr, s3)" by (metis surj_pair)
          show ?thesis
            using assms D Inr 3 None A Inl R
            by (cases rr) (intro failed [of a s1 e s2]; auto simp: Reconcile_def Let_def)+
        next
          case (Inr u)
          obtain rv ev s3 where V: "engine_verify os ?p a da s2 = ((rv, ev), s3)" by (metis surj_pair)
          have "Reconcile os d dry s = ((rv, ev, da), s3)"
            using D \<open>r = Inr a\<close> 3 None A Inr V by (simp add: Reconcile_def Let_def)
          then show ?thesis using assms D \<open>r = Inr a\<close> 3 None A Inr V by (intro applied [of a s1 s2]) auto
        qed
      qed
    qed
  qed
qed

lemma verify_ok:
  assumes "engine_verify os p a d s = ((res, None), s')"
  shows "Plan_Empty (Diff d (re_Actual res)) \<and> \<not> HasConflicts (Diff d (re_Actual res)) \<and> re_Applied res \<and> \<not> re_Rolled res \<and>
    re_Plan res = p \<and> engine_Discover os d s = (Inr (re_Actual res), s')"
  using assms by (auto simp: engine_verify_def Let_def split: prod.splits sum.splits if_splits)

lemma verify_failed:
  assumes "engine_verify os p a d s = ((res, Some e), s')"
  shows "\<not> re_Applied res \<and> re_Rolled res"
  using assms by (auto simp: engine_verify_def Let_def split: prod.splits sum.splits if_splits)

text \<open>C30: A live round that returns no error has converged, on every host: the state discovered last
  needs no further action and shows no conflict, nothing was rolled back, and the round reports
  changes applied exactly when its plan had any.\<close>

theorem reconcile_success_means_converged:
  assumes "Reconcile os d False s = ((res, None, d'), s')"
  shows "Plan_Empty (Diff d' (re_Actual res)) \<and> \<not> HasConflicts (Diff d' (re_Actual res)) \<and> \<not> re_Rolled res \<and>
    (re_Applied res \<longleftrightarrow> \<not> Plan_Empty (re_Plan res)) \<and> (\<exists>s0. engine_Discover os d' s0 = (Inr (re_Actual res), s'))"
  using assms
proof (cases rule: reconcile_cases)
  case (applied a s1 s2)
  from verify_ok [OF applied(7)] show ?thesis using applied(3) by metis
next
  case (idle a)
  then show ?thesis by metis
qed simp_all

text \<open>A dry run changes nothing: the engine and the host are as discovery alone leaves them, on every
  host, nothing is reported applied or rolled back, and the desired state is untouched.\<close>

lemma dry_run_only_discovers:
  assumes "Reconcile os d True s = ((res, err, d'), s')"
  shows "s' = snd (engine_Discover os d s) \<and> \<not> re_Applied res \<and> \<not> re_Rolled res \<and> d' = d"
  using assms by (cases rule: reconcile_cases) (auto simp: zero_result_def)

text \<open>A conflict stops a round before any change, on every host.\<close>

lemma conflicts_stop_the_round:
  assumes "engine_Discover os d s = (Inr a, s1)" and "as_Conflicts a \<noteq> []"
  shows "Reconcile os d dry s =
    ((\<lparr>re_Plan = Diff d a, re_Actual = a, re_Applied = False, re_Rolled = False\<rparr>,
      Some (ErrConflict (Plan_String (Diff d a))), d), s1)"
  using assms by (simp add: Reconcile_def Let_def HasConflicts_def Diff_def)

section \<open>Deleting tunnels\<close>

lemma parseWGDump_name [simp]: "a_InterfaceName (parseWGDump now dump act) = a_InterfaceName act"
proof -
  have "a_InterfaceName (parse_dump_iface fs x) = a_InterfaceName x" "a_InterfaceName (parse_dump_peer now fs x) = a_InterfaceName x" for fs x
    by (simp_all add: parse_dump_iface_def parse_dump_peer_def Let_def)
  then show ?thesis by (simp add: parseWGDump_def Let_def split: list.splits)
qed

lemma inspect_name: "inspect os t h = (Inr (act, cf), h') \<Longrightarrow> a_InterfaceName act = t_InterfaceName t"
  unfolding inspect_def Let_def zero_actual_def
  by (simp only: split: prod.splits option.splits if_splits) (simp_all split: if_splits, (blast | force)+)

lemma forA_acc_inv:
  assumes "\<And>x acc s acc' s'. x \<in> set xs \<Longrightarrow> P acc \<Longrightarrow> f x acc s = (Inr acc', s') \<Longrightarrow> P acc'" and "P acc"
    and "forA f xs acc s = (Inr acc', s')"
  shows "P acc'"
  using assms
proof (induction xs arbitrary: acc s)
  case (Cons x xs)
  from Cons.prems(3) obtain acc1 s1 where 1: "f x acc s = (Inr acc1, s1)" "forA f xs acc1 s1 = (Inr acc', s')"
    by (auto elim: bindA_InrE)
  have "P acc1" using Cons.prems(1) [of x acc s acc1 s1] Cons.prems(2) 1(1) by simp
  show ?case by (rule Cons.IH [OF _ \<open>P acc1\<close> 1(2)]) (use Cons.prems(1) in \<open>meson list.set_intros(2)\<close>)
qed simp

lemma wg_Discover_step:
  assumes "(if t_Type t \<noteq> TunnelWireGuard then returnA (out, confl)
       else bindA (checkA (InterfaceName (t_InterfaceName t))) (\<lambda>_.
            bindA (inspect os t) (\<lambda>(act, conf). returnA (out @ [act], confl @ conf)))) h = (Inr (out', confl'), h')"
  shows "out' = out \<or> (\<exists>act. out' = out @ [act] \<and> a_InterfaceName act = t_InterfaceName t)"
proof (cases "t_Type t = TunnelWireGuard")
  case True
  then have "bindA (checkA (InterfaceName (t_InterfaceName t))) (\<lambda>_.
            bindA (inspect os t) (\<lambda>(act, conf). returnA (out @ [act], confl @ conf))) h = (Inr (out', confl'), h')"
    using assms by simp
  then obtain h1 where "bindA (inspect os t) (\<lambda>(act, conf). returnA (out @ [act], confl @ conf)) h1 = (Inr (out', confl'), h')"
    by (rule bindA_InrE) blast
  then obtain act conf h2 where "inspect os t h1 = (Inr (act, conf), h2)" "out' = out @ [act]"
    by (elim bindA_InrE) (auto split: prod.splits)
  then show ?thesis using inspect_name [of os t h1 act conf h2] by simp
qed (use assms in simp)

lemma wg_Discover_names:
  assumes "wg_Discover os ts h = (Inr (tuns, cf), h')" and "a \<in> set tuns"
  shows "a_InterfaceName a \<in> t_InterfaceName ` set ts"
proof -
  let ?P = "\<lambda>x :: tunnel_actual list \<times> conflict list. \<forall>a \<in> set (fst x). a_InterfaceName a \<in> t_InterfaceName ` set ts"
  have "?P (tuns, cf)"
  proof (rule forA_acc_inv [of ts ?P, OF _ _ assms(1) [unfolded wg_Discover_def]])
    fix t acc h acc' h'
    assume "t \<in> set ts" "?P acc" and f: "(case acc of (out, confl) \<Rightarrow> if t_Type t \<noteq> TunnelWireGuard then returnA (out, confl)
       else bindA (checkA (InterfaceName (t_InterfaceName t))) (\<lambda>_.
            bindA (inspect os t) (\<lambda>(act, conf). returnA (out @ [act], confl @ conf)))) h = (Inr acc', h')"
    moreover have "fst acc' = fst acc \<or> (\<exists>act. fst acc' = fst acc @ [act] \<and> a_InterfaceName act = t_InterfaceName t)"
      using f by (cases acc; cases acc') (simp only: prod.case fst_conv, rule wg_Discover_step)
    ultimately show "?P acc'" by auto
  qed simp
  then show ?thesis using assms(2) by simp
qed

lemma ssh_Discover_name:
  assumes "ssh_Discover os t0 h = (Inr (act, cf), h')"
  shows "a_InterfaceName act = t_InterfaceName t0"
proof -
  let ?t = "Tunnel_Normalize t0"
  obtain o1 e1 r1 h1 where 1: "run0 os ''systemctl'' [''is-active'', t_ServiceName ?t] h = ((o1, e1, r1), h1)"
    by (metis prod_cases3 surj_pair)
  obtain o2 e2 r2 h2 where 2: "run0 os ''ip'' [''-o'', ''link'', ''show'', ''dev'', t_InterfaceName ?t] h1 = ((o2, e2, r2), h2)"
    by (metis prod_cases3 surj_pair)
  obtain o3 e3 r3 h3 where 3: "run0 os ''ip'' [''-o'', ''-4'', ''addr'', ''show'', ''dev'', t_InterfaceName ?t] h2 = ((o3, e3, r3), h3)"
    by (metis prod_cases3 surj_pair)
  have n: "a_InterfaceName (ssh_actual t0) = t_InterfaceName t0" by (simp add: ssh_actual_def)
  have v: "Tunnel_Validate t0 = None" "ServiceName (t_ServiceName ?t) = None"
    using assms unfolding ssh_Discover_def Let_def
    by (cases "Tunnel_Validate t0"; cases "ServiceName (t_ServiceName ?t)"; simp)+
  show ?thesis
  proof (cases r2)
    case None
    then show ?thesis using assms n unfolding ssh_Discover_def Let_def v bind_checkA_None 1 prod.case 2 option.case 3 by auto
  next
    case (Some e)
    then show ?thesis using assms n unfolding ssh_Discover_def Let_def v bind_checkA_None 1 prod.case 2 option.case
      by (auto split: if_splits)
  qed
qed

lemma engine_Discover_names:
  assumes "engine_Discover os d s = (Inr a, s')" and "x \<in> set (as_Tunnels a)"
  shows "a_InterfaceName x \<in> t_InterfaceName ` set (d_Tunnels d)"
proof -
  let ?P = "\<lambda>st. \<forall>x \<in> set (as_Tunnels st). a_InterfaceName x \<in> t_InterfaceName ` set (d_Tunnels d)"
  obtain st1 s1 st2 s2 st3 s3 where
    1: "discover_fw os (zero_state (n_ID (d_Node d))) s = (Inr st1, s1)" and 2: "discover_wg os d st1 s1 = (Inr st2, s2)"
    and 3: "discover_ssh os d st2 s2 = (Inr st3, s3)" and 4: "discover_hp os d st3 s3 = (Inr a, s')"
    using assms(1) unfolding engine_Discover_def by (elim bindA_InrE) blast
  have "?P st1" using 1 by (cases s) (auto simp: discover_fw_def zero_state_def liftH_def bindA_def split: if_splits prod.splits sum.splits)
  moreover have "?P st2" if "?P st1"
  proof (cases "en_WG (fst s1)")
    case (Some w)
    then have "bindA (liftH (wg_Discover os (d_Tunnels d))) (\<lambda>(tuns, conflicts).
        returnA (st1\<lparr>as_Tunnels := as_Tunnels st1 @ tuns, as_Conflicts := as_Conflicts st1 @ conflicts\<rparr>)) s1 = (Inr st2, s2)"
      using 2 by (cases s1) (simp add: discover_wg_def)
    then obtain tuns cf h' where "wg_Discover os (d_Tunnels d) (snd s1) = (Inr (tuns, cf), h')" "as_Tunnels st2 = as_Tunnels st1 @ tuns"
      by (elim bindA_InrE) (auto simp: liftH_def split: prod.splits)
    then show ?thesis using that wg_Discover_names by fastforce
  qed (use 2 that in \<open>cases s1; simp add: discover_wg_def\<close>)
  moreover have "?P st3" if "?P st2"
  proof (cases "en_SSH (fst s2)")
    case True
    let ?f = "\<lambda>t st. if t_Type t \<noteq> TunnelSSHTUN then returnA st
            else bindA (liftH (ssh_Discover os t)) (\<lambda>(act, conflicts).
              returnA (st\<lparr>as_Tunnels := as_Tunnels st @ [act], as_Conflicts := as_Conflicts st @ conflicts\<rparr>))"
    have F: "forA ?f (d_Tunnels d) st2 s2 = (Inr st3, s3)" using 3 True by (cases s2) (simp add: discover_ssh_def)
    show ?thesis
    proof (rule forA_acc_inv [of "d_Tunnels d" ?P ?f, OF _ that F])
      fix t st s st' s'
      assume a: "t \<in> set (d_Tunnels d)" "?P st" "?f t st s = (Inr st', s')"
      show "?P st'"
      proof (cases "t_Type t = TunnelSSHTUN")
        case True
        then have "bindA (liftH (ssh_Discover os t)) (\<lambda>(act, conflicts).
              returnA (st\<lparr>as_Tunnels := as_Tunnels st @ [act], as_Conflicts := as_Conflicts st @ conflicts\<rparr>)) s = (Inr st', s')"
          using a(3) by simp
        then obtain act cf h' where "ssh_Discover os t (snd s) = (Inr (act, cf), h')" "as_Tunnels st' = as_Tunnels st @ [act]"
          by (elim bindA_InrE) (auto simp: liftH_def split: prod.splits)
        then show ?thesis using a(1,2) ssh_Discover_name by fastforce
      qed (use a in simp)
    qed
  next
    case False
    then show ?thesis using 3 that by (cases s2) (simp add: discover_ssh_def)
  qed
  moreover have "?P a" if "?P st3"
    using 4 that by (cases s3) (auto simp: discover_hp_def liftH_def bindA_def split: option.splits prod.splits sum.splits)
  ultimately show ?thesis using assms(2) by blast
qed

text \<open>The engine never removes a tunnel: discovery looks at the interfaces of desired tunnels only, so
  no plan it makes deletes one. An interface whose tunnel left the inventory stays on the host.\<close>

lemma engine_never_deletes_tunnels:
  assumes "engine_Discover os d s = (Inr a, s')" and "x \<in> set (pl_Actions (Diff d a))" and "ac_Target x = ''tunnel''"
  shows "ac_Kind x \<noteq> KindDelete"
proof -
  have des: "desired_tunnels d n \<noteq> None" if "actual_tunnels a n = Some y" for n y
  proof -
    have "y \<in> set (as_Tunnels a)" "a_InterfaceName y = n" using index_by_Some [OF that [unfolded actual_tunnels_def]] by simp_all
    then have "n \<in> t_InterfaceName ` set (d_Tunnels d)" using engine_Discover_names [OF assms(1)] by blast
    then show ?thesis by (simp add: desired_tunnels_def index_by_None)
  qed
  have "x \<notin> set (firewall_actions d a)" "x \<notin> set (haproxy_actions d a)"
    using assms(3) by (auto simp: firewall_actions_def firewall_action_def haproxy_actions_def mk_action_def Let_def
        split: option.splits if_splits)
  then have "x \<in> set (tunnel_actions d a)" using assms(2) by (simp add: Diff_def)
  then obtain n where "x \<in> set (tunnel_action (desired_tunnels d) (actual_tunnels a) n)" by (auto simp: tunnel_actions_def)
  then show ?thesis using des [of n]
    by (cases "desired_tunnels d n"; cases "actual_tunnels a n") (auto simp: tunnel_action_def mk_action_def split: if_splits)
qed

text \<open>The interface named in a deletion is the one the plan means: the name read from the printed line
  of a discovered tunnel is its interface name.\<close>

lemma iface_from_actual_line:
  assumes "word (a_InterfaceName a)" and "a_Type a \<in> {TunnelWireGuard, TunnelSSHTUN}"
  shows "ifaceFromBefore (tunnelActualLine a) = a_InterfaceName a"
proof -
  let ?r = "''present='' @ show_bool (a_InterfacePresent a) @
     '' local='' @ a_LocalOverlayIP a @ '' hs_age='' @ Itoa (a_HandshakeAgeSec a)"
  have l: "tunnelActualLine a = (a_Type a @ '' '') @ ''if='' @ a_InterfaceName a @ '' '' @ ?r"
    by (simp add: tunnelActualLine_def)
  have "CHR ''i'' \<notin> set (a_Type a @ '' '')" using assms(2) by (auto simp: TunnelWireGuard_def TunnelSSHTUN_def)
  then have "Index (tunnelActualLine a) ''if='' = Some (length (a_Type a @ '' ''))"
    unfolding l by (intro Index_found) simp_all
  moreover have "drop (length (a_Type a @ '' '') + 3) (tunnelActualLine a) = a_InterfaceName a @ '' '' @ ?r"
    unfolding l by simp
  moreover have "Fields (a_InterfaceName a @ '' '' @ ?r) = a_InterfaceName a # Fields ?r"
    unfolding Fields_blank using Fields_1 [OF assms(1)] by simp
  ultimately show ?thesis unfolding ifaceFromBefore_def by (simp only: option.case list.case)
qed

section \<open>Instances\<close>

definition lone_engine :: engine where
  "lone_engine = \<lparr>en_FW = None, en_WG = Some \<lparr>wg_createdIfaces = []\<rparr>, en_HP = None, en_SSH = False\<rparr>"

definition marked_host :: host where
  "marked_host = new_host\<lparr>h_Files := [(''/h.cfg'', BeginMarker)]\<rparr>"

lemma dry_run_only_discovers_witness:
  "\<exists>res err d' s'. Reconcile th_os (sample_desired [sample_wg] [] []) True (lone_engine, new_host) = ((res, err, d'), s') \<and>
    s' = snd (engine_Discover th_os (sample_desired [sample_wg] [] []) (lone_engine, new_host)) \<and>
    \<not> re_Applied res \<and> \<not> re_Rolled res \<and> d' = sample_desired [sample_wg] [] []"
proof -
  obtain res err d' s' where "Reconcile th_os (sample_desired [sample_wg] [] []) True (lone_engine, new_host) = ((res, err, d'), s')"
    by (metis surj_pair)
  from dry_run_only_discovers [OF this] this show ?thesis by blast
qed

end
