(* ===== verification/EngineHost.thy ===== *)
theory EngineHost
  imports EngineLaws
begin

text \<open>
  Whole rounds of the engine on the in-memory host, with the firewall, WireGuard and HAProxy managers.
  The sections follow the round: what discovery sees of a host, what applying the tunnels, the routes
  and the rules of its plan leaves, and what the discovery behind it sees. They meet in
  \<open>ready_round\<close>: on a node that is ready, a round ends at rest.
\<close>

section \<open>Discovery on the host\<close>

text \<open>What discovery sees of the interface of a tunnel.\<close>

definition act_of :: "tunnel \<Rightarrow> gotime \<Rightarrow> link option \<Rightarrow> tunnel_actual" where
  "act_of t now lk =
     (case lk of
        None \<Rightarrow> zero_actual (t_ID t) TunnelWireGuard (t_InterfaceName t)
      | Some l \<Rightarrow> parseWGDump now (wg_dump l)
          ((zero_actual (t_ID t) TunnelWireGuard (t_InterfaceName t))
             \<lparr>a_InterfacePresent := True, a_LocalOverlayIP := parseLocalIPv4 (addr_out l)\<rparr>))"

definition only_calls :: "host \<Rightarrow> host \<Rightarrow> bool" where
  "only_calls h h' \<longleftrightarrow> (\<exists>cs. h' = h\<lparr>h_Calls := cs\<rparr>)"

lemma only_calls_same:
  "only_calls h h' \<Longrightarrow> h_FailOn h' = h_FailOn h \<and> h_NAT h' = h_NAT h \<and> h_Filter h' = h_Filter h \<and>
     h_Links h' = h_Links h \<and> h_Files h' = h_Files h \<and> h_Now h' = h_Now h \<and> th_rules h' = th_rules h"
  by (auto simp: only_calls_def th_rules_def th_table_def fun_eq_iff)

lemma only_calls_refl [simp]: "only_calls h h"
  unfolding only_calls_def by (rule exI [of _ "h_Calls h"]) simp

lemma only_calls_trans: "only_calls h h1 \<Longrightarrow> only_calls h1 h2 \<Longrightarrow> only_calls h h2"
  by (auto simp: only_calls_def)

lemma inspect_seen:
  assumes "links_ready h (t_InterfaceName t)"
  shows "\<exists>h'. inspect th_os t h = (Inr (act_of t (h_Now h) (map_of (h_Links h) (t_InterfaceName t)), []), h') \<and> only_calls h h'"
proof -
  let ?i = "t_InterfaceName t"
  let ?g1 = "logged (''ip'' # link_show ?i) h"
  let ?g2 = "logged (''ip'' # addr_show ?i) ?g1"
  let ?g3 = "logged [''wg'', ''show'', ?i, ''dump''] ?g2"
  have r: "h_FailOn h = []" "?i \<noteq> []" using assms by (simp_all add: links_ready_def plain_iface_ne)
  show ?thesis
  proof (cases "map_of (h_Links h) ?i")
    case None
    have 1: "run0 th_os ''ip'' (link_show ?i) h = (([], ''Cannot find device'', Some (Plain ''cannot find device'')), ?g1)"
      using r None by (simp add: run_link_show no_device_def errR_def)
    have "inspect th_os t h = (Inr (zero_actual (t_ID t) TunnelWireGuard ?i, []), ?g1)"
      unfolding inspect_def Let_def 1 prod.case option.case using missing_device by simp
    then show ?thesis using None by (auto simp: act_of_def only_calls_def)
  next
    case (Some l)
    then have l: "wg_link ?i l" using assms by (simp add: links_ready_def)
    have 1: "run0 th_os ''ip'' (link_show ?i) h = ((link_line l, [], None), ?g1)"
      using r Some by (simp add: run_link_show okR_def)
    have 2: "run0 th_os ''ip'' (addr_show ?i) ?g1 = ((addr_out l, [], None), ?g2)"
      using r Some by (simp add: run_addr_show okR_def)
    have 3: "run0 th_os ''wg'' [''show'', ?i, ''dump''] ?g2 = ((wg_dump l, [], None), ?g3)"
      using r Some l by (simp add: run_wg th_wg_def okR_def wg_link_def)
    have "os_now th_os ?g3 = h_Now h" by (simp add: th_os_def)
    then have "inspect th_os t h = (Inr (act_of t (h_Now h) (Some l), []), ?g3)"
      unfolding inspect_def Let_def 1 prod.case option.case 2 3 by (simp add: act_of_def)
    then show ?thesis using Some by (auto simp: only_calls_def)
  qed
qed

lemma links_ready_cong: "only_calls h h' \<Longrightarrow> links_ready h' i = links_ready h i"
  using only_calls_same [of h h'] by (simp add: links_ready_def)

lemma wg_Discover_seen_from:
  assumes "\<forall>t \<in> set ts. t_Type t = TunnelWireGuard \<and> links_ready h (t_InterfaceName t)"
  shows "\<exists>h'. forA (\<lambda>t (out, confl).
       if t_Type t \<noteq> TunnelWireGuard then returnA (out, confl)
       else bindA (checkA (InterfaceName (t_InterfaceName t))) (\<lambda>_.
            bindA (inspect th_os t) (\<lambda>(act, conf). returnA (out @ [act], confl @ conf)))) ts (out, confl) h =
      (Inr (out @ map (\<lambda>t. act_of t (h_Now h) (map_of (h_Links h) (t_InterfaceName t))) ts, confl), h') \<and> only_calls h h'"
  using assms
proof (induction ts arbitrary: out h)
  case Nil
  then show ?case by simp
next
  case (Cons t ts)
  have t: "t_Type t = TunnelWireGuard" "links_ready h (t_InterfaceName t)" using Cons.prems by simp_all
  then have i: "InterfaceName (t_InterfaceName t) = None" by (simp add: links_ready_def plain_iface_def)
  obtain h1 where h1: "inspect th_os t h = (Inr (act_of t (h_Now h) (map_of (h_Links h) (t_InterfaceName t)), []), h1)"
    "only_calls h h1" using inspect_seen [OF t(2)] by blast
  note same = only_calls_same [OF h1(2)]
  have "\<forall>t \<in> set ts. t_Type t = TunnelWireGuard \<and> links_ready h1 (t_InterfaceName t)"
    using Cons.prems links_ready_cong [OF h1(2)] by simp
  from Cons.IH [OF this, of "out @ [act_of t (h_Now h) (map_of (h_Links h) (t_InterfaceName t))]"]
  obtain h2 where h2: "forA (\<lambda>t (out, confl).
       if t_Type t \<noteq> TunnelWireGuard then returnA (out, confl)
       else bindA (checkA (InterfaceName (t_InterfaceName t))) (\<lambda>_.
            bindA (inspect th_os t) (\<lambda>(act, conf). returnA (out @ [act], confl @ conf)))) ts
       (out @ [act_of t (h_Now h) (map_of (h_Links h) (t_InterfaceName t))], confl) h1 =
      (Inr (out @ map (\<lambda>t. act_of t (h_Now h) (map_of (h_Links h) (t_InterfaceName t))) (t # ts), confl), h2)"
    "only_calls h1 h2" using same by auto
  have step: "bindA (inspect th_os t) (\<lambda>(act, conf). returnA (out @ [act], confl @ conf)) h =
      (Inr (out @ [act_of t (h_Now h) (map_of (h_Links h) (t_InterfaceName t))], confl), h1)"
    by (simp add: bindA_def h1(1))
  show ?case using t(1) i step h2 only_calls_trans [OF h1(2) h2(2)] by (simp add: bindA_def)
qed

lemma wg_Discover_seen:
  assumes "\<forall>t \<in> set ts. t_Type t = TunnelWireGuard \<and> links_ready h (t_InterfaceName t)"
  shows "\<exists>h'. wg_Discover th_os ts h =
      (Inr (map (\<lambda>t. act_of t (h_Now h) (map_of (h_Links h) (t_InterfaceName t))) ts, []), h') \<and> only_calls h h'"
  using wg_Discover_seen_from [OF assms, of "[]" "[]"] by (simp add: wg_Discover_def)


section \<open>One discovery\<close>

text \<open>The part of a host that discovery depends on, and that it does not change.\<close>

definition tunnels_ok :: "tunnel list \<Rightarrow> host \<Rightarrow> bool" where
  "tunnels_ok ts h \<longleftrightarrow> distinct (map t_InterfaceName ts) \<and> distinct (map t_ID ts) \<and>
     (\<forall>t \<in> set ts. t_Type t = TunnelWireGuard \<and> Tunnel_Normalize t = t \<and> wg_checks t = None \<and>
        links_ready h (t_InterfaceName t))"

definition hp_sees :: "hp_state \<Rightarrow> sni_route list \<Rightarrow> string option \<Rightarrow> string \<Rightarrow> sni_route list \<Rightarrow> bool" where
  "hp_sees m rs F dg qs \<longleftrightarrow>
     (\<forall>h. map_of (h_Files h) (hp_ConfigPath m) = F \<longrightarrow> hp_Discover th_os m rs h = (Inr (dg, qs, []), h))"

lemma th_rules_cong: "h_NAT h' = h_NAT h \<Longrightarrow> h_Filter h' = h_Filter h \<Longrightarrow> th_rules h' = th_rules h"
  by (simp add: th_rules_def th_table_def fun_eq_iff)

lemma th_ok_only_calls: "only_calls h h' \<Longrightarrow> th_ok L F p h' = th_ok L F p h"
  using only_calls_same [of h h'] by (simp add: th_ok_def)

lemma tunnels_ok_links: "h_FailOn h' = h_FailOn h \<Longrightarrow> h_Links h' = h_Links h \<Longrightarrow> tunnels_ok ts h' = tunnels_ok ts h"
  by (simp add: tunnels_ok_def links_ready_def)

lemma discover_ssh_none:
  assumes "\<forall>t \<in> set (d_Tunnels d). t_Type t \<noteq> TunnelSSHTUN"
  shows "discover_ssh os d st s = (Inr st, s)"
proof -
  have "forA (\<lambda>t st. if t_Type t \<noteq> TunnelSSHTUN then returnA st
            else bindA (liftH (ssh_Discover os t)) (\<lambda>(act, conflicts).
              returnA (st\<lparr>as_Tunnels := as_Tunnels st @ [act], as_Conflicts := as_Conflicts st @ conflicts\<rparr>))) ts st s = (Inr st, s)"
    if "\<forall>t \<in> set ts. t_Type t \<noteq> TunnelSSHTUN" for ts
    using that by (induction ts) (simp_all add: bindA_def)
  from this [OF assms] show ?thesis by (cases s) (simp add: discover_ssh_def)
qed

definition seen_by :: "desired_state \<Rightarrow> (string \<times> link) list \<Rightarrow> (port_mapping \<times> string) list \<Rightarrow> string \<Rightarrow> sni_route list \<Rightarrow>
    actual_state \<Rightarrow> bool" where
  "seen_by d L I dg qs a \<longleftrightarrow> as_Conflicts a = [] \<and> as_FirewallRules a = map seen_rule I \<and>
     as_HaproxyDigest a = dg \<and> as_SniRoutes a = qs \<and>
     (\<exists>now. as_Tunnels a = map (\<lambda>t. act_of t now (map_of L (t_InterfaceName t))) (d_Tunnels d))"

lemma engine_sees:
  assumes e: "en_FW e = Some f" "en_WG e = Some w" "en_HP e = Some m"
    and ok: "th_ok L F (hp_ConfigPath m) h" "installed (th_rules h) I" "tunnels_ok (d_Tunnels d) h"
    and hp: "hp_sees m (d_SniRoutes d) F dg qs"
  shows "\<exists>a h'. engine_Discover th_os d (e, h) = (Inr a, (e, h')) \<and> seen_by d L I dg qs a \<and>
    th_ok L F (hp_ConfigPath m) h' \<and> th_rules h' = th_rules h"
proof -
  let ?st0 = "zero_state (n_ID (d_Node d))"
  obtain h1 where h1: "fw_Discover th_os h = (Inr (map seen_rule I, []), h1)" "th_ok L F (hp_ConfigPath m) h1" "th_rules h1 = th_rules h"
    using th.Discover_installed [OF ok(1,2)] by blast
  let ?st1 = "?st0\<lparr>as_FirewallRules := map seen_rule I\<rparr>"
  have 1: "discover_fw th_os ?st0 (e, h) = (Inr ?st1, (e, h1))"
    using h1(1) e(1) by (simp add: discover_fw_def bindA_def liftH_def zero_state_def)
  have L: "h_Links h1 = L" "h_Links h = L" "h_FailOn h1 = h_FailOn h" using h1(2) ok(1) by (simp_all add: th_ok_def)
  have "tunnels_ok (d_Tunnels d) h1" using tunnels_ok_links [of h1 h] L ok(3) by simp
  then have "\<forall>t \<in> set (d_Tunnels d). t_Type t = TunnelWireGuard \<and> links_ready h1 (t_InterfaceName t)"
    by (simp add: tunnels_ok_def)
  from wg_Discover_seen [OF this] obtain h2 where
    h2: "wg_Discover th_os (d_Tunnels d) h1 =
      (Inr (map (\<lambda>t. act_of t (h_Now h1) (map_of L (t_InterfaceName t))) (d_Tunnels d), []), h2)" "only_calls h1 h2"
    using L by auto
  let ?st2 = "?st1\<lparr>as_Tunnels := map (\<lambda>t. act_of t (h_Now h1) (map_of L (t_InterfaceName t))) (d_Tunnels d)\<rparr>"
  have 2: "discover_wg th_os d ?st1 (e, h1) = (Inr ?st2, (e, h2))"
    using h2(1) e(2) by (simp add: discover_wg_def bindA_def liftH_def zero_state_def)
  have "\<forall>t \<in> set (d_Tunnels d). t_Type t \<noteq> TunnelSSHTUN"
    using ok(3) by (simp add: tunnels_ok_def TunnelSSHTUN_def TunnelWireGuard_def)
  then have 3: "discover_ssh th_os d ?st2 (e, h2) = (Inr ?st2, (e, h2))" by (rule discover_ssh_none)
  have ok2: "th_ok L F (hp_ConfigPath m) h2" "th_rules h2 = th_rules h"
    using th_ok_only_calls [OF h2(2)] h1(2,3) only_calls_same [OF h2(2)] by simp_all
  then have "hp_Discover th_os m (d_SniRoutes d) h2 = (Inr (dg, qs, []), h2)" using hp by (simp add: hp_sees_def th_ok_def)
  then have 4: "discover_hp th_os d ?st2 (e, h2) = (Inr (?st2\<lparr>as_HaproxyDigest := dg, as_SniRoutes := qs\<rparr>), (e, h2))"
    using e(3) by (simp add: discover_hp_def bindA_def liftH_def zero_state_def)
  have "engine_Discover th_os d (e, h) = (Inr (?st2\<lparr>as_HaproxyDigest := dg, as_SniRoutes := qs\<rparr>), (e, h2))"
    unfolding engine_Discover_def by (simp only: bindA_def 1 2 3 4 prod.case sum.case)
  then show ?thesis using ok2 by (auto simp: seen_by_def zero_state_def)
qed

section \<open>What discovery says of a configured link\<close>

lemma dump_now:
  "a_InterfacePresent (parseWGDump now dump act) = a_InterfacePresent (parseWGDump now' dump act) \<and>
   a_LocalOverlayIP (parseWGDump now dump act) = a_LocalOverlayIP (parseWGDump now' dump act) \<and>
   a_ListenPort (parseWGDump now dump act) = a_ListenPort (parseWGDump now' dump act)"
proof -
  have "a_InterfacePresent (parse_dump_peer now fs x) = a_InterfacePresent (parse_dump_peer now' fs x)"
    "a_LocalOverlayIP (parse_dump_peer now fs x) = a_LocalOverlayIP (parse_dump_peer now' fs x)"
    "a_ListenPort (parse_dump_peer now fs x) = a_ListenPort (parse_dump_peer now' fs x)" for fs x
    by (simp_all add: parse_dump_peer_def Let_def)
  then show ?thesis unfolding parseWGDump_def Let_def by (simp split: list.splits)
qed

lemma act_of_changed_now: "tunnelChanged t (act_of t now lk) = tunnelChanged t (act_of t now' lk)"
  unfolding act_of_def tunnelChanged_def by (cases lk) (simp_all add: dump_now [of now _ _ now'])

lemma act_of_name: "a_InterfaceName (act_of t now lk) = t_InterfaceName t"
  by (simp add: act_of_def zero_actual_def split: option.splits)

lemma act_of_configured:
  assumes "configured t l" and "1 \<le> t_ListenPort t" and "t_ListenPort t \<le> 65535"
  shows "\<not> tunnelChanged t (act_of t now (Some l))"
proof -
  have "l_PublicKey l = [] \<or> word (l_PublicKey l)" "l_Listen l = t_ListenPort t" "parseLocalIPv4 (addr_out l) = t_LocalOverlayIP t"
    using assms(1) by (simp_all add: configured_def wg_link_def)
  then show ?thesis using dump_listen [of l now] assms(2,3) by (simp add: act_of_def tunnelChanged_def)
qed

lemma seen_tunnel_actions:
  assumes "seen_by d L I dg qs a" and "distinct (map t_InterfaceName (d_Tunnels d))" and "x \<in> set (tunnel_actions d a)"
  obtains t now where "t \<in> set (d_Tunnels d)" "ac_Target x = ''tunnel''" "ac_Kind x = KindChange" "ac_ID x = t_ID t"
    "tunnelChanged t (act_of t now (map_of L (t_InterfaceName t)))"
proof -
  obtain now where ts: "as_Tunnels a = map (\<lambda>t. act_of t now (map_of L (t_InterfaceName t))) (d_Tunnels d)"
    using assms(1) by (auto simp: seen_by_def)
  have act: "actual_tunnels a = map_option (\<lambda>t. act_of t now (map_of L (t_InterfaceName t))) \<circ> desired_tunnels d"
    unfolding actual_tunnels_def desired_tunnels_def ts by (rule index_by_map) (rule act_of_name)
  from assms(3) obtain n where n: "x \<in> set (tunnel_action (desired_tunnels d) (actual_tunnels a) n)" by (auto simp: tunnel_actions_def)
  then obtain t where t: "desired_tunnels d n = Some t" by (cases "desired_tunnels d n") (simp_all add: tunnel_action_def act)
  then have "t \<in> set (d_Tunnels d)" by (auto simp: desired_tunnels_def dest: index_by_Some)
  moreover have "x = mk_action KindChange ''tunnel'' (t_ID t) (tunnelActualLine (act_of t now (map_of L (t_InterfaceName t)))) (tunnelDesiredLine t)"
    "tunnelChanged t (act_of t now (map_of L (t_InterfaceName t)))"
    using n t by (auto simp: tunnel_action_def act split: if_splits)
  ultimately show ?thesis using that by (simp add: mk_action_def)
qed

lemma seen_tunnel_changed:
  assumes "seen_by d L I dg qs a" and "distinct (map t_InterfaceName (d_Tunnels d))" and "t \<in> set (d_Tunnels d)"
    and "tunnelChanged t (act_of t now (map_of L (t_InterfaceName t)))"
  shows "\<exists>x \<in> set (tunnel_actions d a). ac_ID x = t_ID t"
proof -
  obtain now' where ts: "as_Tunnels a = map (\<lambda>t. act_of t now' (map_of L (t_InterfaceName t))) (d_Tunnels d)"
    using assms(1) by (auto simp: seen_by_def)
  have act: "actual_tunnels a = map_option (\<lambda>t. act_of t now' (map_of L (t_InterfaceName t))) \<circ> desired_tunnels d"
    unfolding actual_tunnels_def desired_tunnels_def ts by (rule index_by_map) (rule act_of_name)
  have d: "desired_tunnels d (t_InterfaceName t) = Some t"
    unfolding desired_tunnels_def using assms(2,3) by (rule index_by_distinct)
  have c: "tunnelChanged t (act_of t now' (map_of L (t_InterfaceName t)))" using assms(4) act_of_changed_now by metis
  have "t_InterfaceName t \<in> set (sorted_keys (map t_InterfaceName (d_Tunnels d) @ map a_InterfaceName (as_Tunnels a)))"
    using assms(3) by simp
  moreover have "tunnel_action (desired_tunnels d) (actual_tunnels a) (t_InterfaceName t) =
      [mk_action KindChange ''tunnel'' (t_ID t) (tunnelActualLine (act_of t now' (map_of L (t_InterfaceName t)))) (tunnelDesiredLine t)]"
    using d c by (simp add: tunnel_action_def act)
  ultimately have "mk_action KindChange ''tunnel'' (t_ID t) (tunnelActualLine (act_of t now' (map_of L (t_InterfaceName t)))) (tunnelDesiredLine t)
      \<in> set (tunnel_actions d a)" unfolding tunnel_actions_def by force
  then show ?thesis by (rule rev_bexI) (simp add: mk_action_def)
qed


section \<open>Applying the tunnels of a plan\<close>

text \<open>Where the links of the desired tunnels stand while a plan is applied: those in \<open>done\<close> are
  configured, every other one is configured or as it was.\<close>

definition tunnels_done :: "tunnel list \<Rightarrow> ident set \<Rightarrow> host \<Rightarrow> host \<Rightarrow> bool" where
  "tunnels_done ts done h0 h \<longleftrightarrow> h_FailOn h = [] \<and> h_NAT h = h_NAT h0 \<and> h_Filter h = h_Filter h0 \<and> h_Files h = h_Files h0 \<and>
     (\<forall>t \<in> set ts. (\<exists>l. map_of (h_Links h) (t_InterfaceName t) = Some l \<and> configured t l) \<or>
        t_ID t \<notin> done \<and> map_of (h_Links h) (t_InterfaceName t) = map_of (h_Links h0) (t_InterfaceName t))"

lemma tunnels_done_ready:
  assumes "tunnels_done ts done h0 h" and "tunnels_ok ts h0"
  shows "tunnels_ok ts h"
proof -
  have "links_ready h (t_InterfaceName t)" if t: "t \<in> set ts" for t
  proof -
    have r: "links_ready h0 (t_InterfaceName t)" using assms(2) t by (simp add: tunnels_ok_def)
    from assms(1) t consider l where "map_of (h_Links h) (t_InterfaceName t) = Some l" "configured t l"
      | "map_of (h_Links h) (t_InterfaceName t) = map_of (h_Links h0) (t_InterfaceName t)"
      by (auto simp: tunnels_done_def)
    then show ?thesis
      using r assms(1) by cases (auto simp: links_ready_def tunnels_done_def configured_def)
  qed
  then show ?thesis using assms(2) by (simp add: tunnels_ok_def)
qed

lemma apply_tunnel_step:
  assumes "tunnels_done ts done h0 h" and "tunnels_ok ts h0" and "t \<in> set ts" and "d_Tunnels d = ts"
    and "ac_Target x = ''tunnel''" and "ac_Kind x = KindChange" and "ac_ID x = t_ID t" and "en_WG e = Some w"
  shows "\<exists>w' h'. apply_tunnel th_os d x (e, h) = (Inr (), (e\<lparr>en_WG := Some w'\<rparr>, h')) \<and> tunnels_done ts (insert (t_ID t) done) h0 h'"
proof -
  have ok: "tunnels_ok ts h" by (rule tunnels_done_ready) fact+
  have t: "t_Type t = TunnelWireGuard" "Tunnel_Normalize t = t" "wg_checks t = None" "links_ready h (t_InterfaceName t)"
    "index_by t_ID ts (t_ID t) = Some t"
    using ok assms(3) index_by_distinct [of t_ID ts t] by (simp_all add: tunnels_ok_def)
  obtain w' h' l where a: "wg_Apply th_os t (w, h) = (Inr (), (w', h'))" "sets_link h (t_InterfaceName t) l h'" "configured t l"
    using wg_apply_ok [of t h w] t(2-4) by auto
  have "apply_tunnel th_os d x (e, h) = (Inr (), (e\<lparr>en_WG := Some w'\<rparr>, h'))"
    using assms(4-8) t a(1) by (simp add: apply_tunnel_def with_wg_def)
  moreover have "tunnels_done ts (insert (t_ID t) done) h0 h'"
  proof -
    have "(\<exists>l. map_of (h_Links h') (t_InterfaceName u) = Some l \<and> configured u l) \<or>
        t_ID u \<notin> insert (t_ID t) done \<and> map_of (h_Links h') (t_InterfaceName u) = map_of (h_Links h0) (t_InterfaceName u)"
      if u: "u \<in> set ts" for u
    proof (cases "u = t")
      case True
      then show ?thesis using a(2,3) sets_link_dest by blast
    next
      case False
      then have "t_InterfaceName u \<noteq> t_InterfaceName t" "t_ID u \<noteq> t_ID t"
        using assms(2,3) u by (auto simp: tunnels_ok_def distinct_map inj_on_def)
      then show ?thesis using a(2) assms(1) u by (auto simp: sets_link_def tunnels_done_def)
    qed
    then show ?thesis using a(2) assms(1) by (simp add: tunnels_done_def sets_link_def)
  qed
  ultimately show ?thesis by blast
qed

lemma apply_tunnels_ok:
  assumes "tunnels_ok ts h0" and "d_Tunnels d = ts" and "en_WG e = Some w" and "tunnels_done ts done h0 h"
    and "\<forall>x \<in> set xs. ac_Target x = ''tunnel'' \<longrightarrow> ac_Kind x = KindChange \<and> (\<exists>t \<in> set ts. ac_ID x = t_ID t)"
  shows "\<exists>w' h'. forA (\<lambda>a _. apply_tunnel th_os d a) xs () (e, h) = (Inr (), (e\<lparr>en_WG := Some w'\<rparr>, h')) \<and>
    tunnels_done ts (done \<union> ac_ID ` {x \<in> set xs. ac_Target x = ''tunnel''}) h0 h'"
  using assms(3-5)
proof (induction xs arbitrary: e w h "done")
  case Nil
  then have "e\<lparr>en_WG := Some w\<rparr> = e" by simp
  then show ?case using Nil.prems by (intro exI [of _ w] exI [of _ h]) simp
next
  case (Cons x xs)
  let ?f = "\<lambda>a _. apply_tunnel th_os d a"
  have xs: "\<forall>x \<in> set xs. ac_Target x = ''tunnel'' \<longrightarrow> ac_Kind x = KindChange \<and> (\<exists>t \<in> set ts. ac_ID x = t_ID t)"
    using Cons.prems(3) by simp
  show ?case
  proof (cases "ac_Target x = ''tunnel''")
    case True
    then obtain t where t: "t \<in> set ts" "ac_ID x = t_ID t" "ac_Kind x = KindChange" using Cons.prems(3) by auto
    obtain w1 h1 where 1: "apply_tunnel th_os d x (e, h) = (Inr (), (e\<lparr>en_WG := Some w1\<rparr>, h1))"
      "tunnels_done ts (insert (t_ID t) done) h0 h1"
      using apply_tunnel_step [OF Cons.prems(2) assms(1) t(1) assms(2) True t(3,2) Cons.prems(1)] by blast
    from Cons.IH [OF _ 1(2) xs, of "e\<lparr>en_WG := Some w1\<rparr>" w1] obtain w2 h2 where
      2: "forA ?f xs () (e\<lparr>en_WG := Some w1\<rparr>, h1) = (Inr (), (e\<lparr>en_WG := Some w2\<rparr>, h2))"
      "tunnels_done ts (insert (t_ID t) done \<union> ac_ID ` {x \<in> set xs. ac_Target x = ''tunnel''}) h0 h2" by auto
    have "{y \<in> set (x # xs). ac_Target y = ''tunnel''} = insert x {y \<in> set xs. ac_Target y = ''tunnel''}" using True by auto
    then have "insert (t_ID t) done \<union> ac_ID ` {x \<in> set xs. ac_Target x = ''tunnel''} =
        done \<union> ac_ID ` {y \<in> set (x # xs). ac_Target y = ''tunnel''}" using t(2) by (simp del: list.set)
    then show ?thesis using 1(1) 2 by (auto simp: bindA_def)
  next
    case False
    then have s: "apply_tunnel th_os d x (e, h) = (Inr (), (e, h))" by (simp add: apply_tunnel_def)
    from Cons.IH [OF Cons.prems(1,2) xs] obtain w2 h2 where
      2: "forA ?f xs () (e, h) = (Inr (), (e\<lparr>en_WG := Some w2\<rparr>, h2))"
      "tunnels_done ts (done \<union> ac_ID ` {x \<in> set xs. ac_Target x = ''tunnel''}) h0 h2" by auto
    have "ac_ID ` {y \<in> set (x # xs). ac_Target y = ''tunnel''} = ac_ID ` {x \<in> set xs. ac_Target x = ''tunnel''}"
      using False by auto
    then show ?thesis using s 2 by (auto simp: bindA_def)
  qed
qed

lemma done_no_actions:
  assumes "tunnels_ok (d_Tunnels d) h0" and "tunnels_done (d_Tunnels d) (ac_ID ` {x \<in> set xs. ac_Target x = ''tunnel''}) h0 h"
    and "seen_by d (h_Links h0) I dg qs a" and "set (tunnel_actions d a) \<subseteq> set xs"
    and "seen_by d (h_Links h) I' dg' qs' a'"
  shows "tunnel_actions d a' = []"
proof (rule ccontr)
  assume "tunnel_actions d a' \<noteq> []"
  then obtain x where x: "x \<in> set (tunnel_actions d a')" using last_in_set by blast
  have dis: "distinct (map t_InterfaceName (d_Tunnels d))" using assms(1) by (simp add: tunnels_ok_def)
  obtain t now where t: "t \<in> set (d_Tunnels d)" "tunnelChanged t (act_of t now (map_of (h_Links h) (t_InterfaceName t)))"
    using seen_tunnel_actions [OF assms(5) dis x] by metis
  have "wg_checks (Tunnel_Normalize t) = None" "Tunnel_Normalize t = t" using assms(1) t(1) by (simp_all add: tunnels_ok_def)
  then have p: "1 \<le> t_ListenPort t" "t_ListenPort t \<le> 65535" using wg_checks_facts [of t] by simp_all
  have "(\<exists>l. map_of (h_Links h) (t_InterfaceName t) = Some l \<and> configured t l) \<or>
      t_ID t \<notin> ac_ID ` {x \<in> set xs. ac_Target x = ''tunnel''} \<and>
      map_of (h_Links h) (t_InterfaceName t) = map_of (h_Links h0) (t_InterfaceName t)"
    using assms(2) t(1) by (simp add: tunnels_done_def)
  moreover have False if l: "map_of (h_Links h) (t_InterfaceName t) = Some l" "configured t l" for l
    using t(2) act_of_configured [OF l(2) p, of now] l(1) by simp
  ultimately have nd: "t_ID t \<notin> ac_ID ` {x \<in> set xs. ac_Target x = ''tunnel''}" and
    "map_of (h_Links h) (t_InterfaceName t) = map_of (h_Links h0) (t_InterfaceName t)" by blast+
  then have "tunnelChanged t (act_of t now (map_of (h_Links h0) (t_InterfaceName t)))" using t(2) by simp
  from seen_tunnel_changed [OF assms(3) dis t(1) this] obtain y where
    y: "y \<in> set (tunnel_actions d a)" "ac_ID y = t_ID t" by blast
  moreover have "ac_Target y = ''tunnel''" using seen_tunnel_actions [OF assms(3) dis y(1)] by metis
  ultimately have "y \<in> {x \<in> set xs. ac_Target x = ''tunnel''}" using assms(4) by blast
  then show False using nd y(2) by force
qed


section \<open>Applying the routes and the rules of a plan\<close>

definition haproxy_ok :: "desired_state \<Rightarrow> hp_state \<Rightarrow> host \<Rightarrow> bool" where
  "haproxy_ok d m h \<longleftrightarrow>
     backup_apart m \<and> (\<forall>dir stamp. hp_ConfigPath m \<noteq> path_join dir (''iptables-'' @ stamp @ ''.save'')) \<and>
     d_SniRoutes d \<noteq> [] \<and> validate_routes (d_SniRoutes d) = (None, d_SniRoutes d) \<and>
     clean_config (d_SniRoutes d) (d_Backends d) \<and>
     (\<exists>u old qs nxt. splitManaged (text_in (map_of (h_Files h)) (hp_ConfigPath m)) = Inr (u, old) \<and>
        \<not> Contains u BeginMarker \<and> \<not> Contains u EndMarker \<and> parseManaged old = Some qs \<and>
        next_config (text_in (map_of (h_Files h)) (hp_ConfigPath m)) (d_SniRoutes d) (d_Backends d) = Inr nxt)"

lemma haproxy_ok_files:
  "map_of (h_Files h') (hp_ConfigPath m) = map_of (h_Files h) (hp_ConfigPath m) \<Longrightarrow> haproxy_ok d m h' = haproxy_ok d m h"
  by (simp add: haproxy_ok_def text_in_def)

lemma hp_Discover_file:
  assumes "map_of (h_Files h) (hp_ConfigPath m) = map_of (h_Files h') (hp_ConfigPath m)"
  shows "hp_Discover th_os m rs h' = (fst (hp_Discover th_os m rs h), h')"
  using assms by (auto simp: hp_Discover_def fh.read_file Let_def split: option.splits sum.splits prod.splits)

lemma hp_seesI:
  assumes "hp_Discover th_os m rs h = (Inr (dg, qs, []), h')"
  shows "hp_sees m rs (map_of (h_Files h) (hp_ConfigPath m)) dg qs"
  unfolding hp_sees_def using hp_Discover_file [of h m _ rs] assms by simp

lemma haproxy_ok_sees:
  assumes "haproxy_ok d m h"
  shows "\<exists>dg qs. hp_sees m (d_SniRoutes d) (map_of (h_Files h) (hp_ConfigPath m)) dg qs"
proof -
  let ?p = "hp_ConfigPath m"
  obtain u old qs nxt where o: "splitManaged (text_in (map_of (h_Files h)) ?p) = Inr (u, old)" "parseManaged old = Some qs"
    "next_config (text_in (map_of (h_Files h)) ?p) (d_SniRoutes d) (d_Backends d) = Inr nxt"
    using assms by (auto simp: haproxy_ok_def)
  then have b: "\<not> portBoundElsewhere u (d_SniRoutes d)" by (auto simp: next_config_def split: if_splits)
  have "\<exists>dg qs. hp_Discover th_os m (d_SniRoutes d) h = (Inr (dg, qs, []), h)"
  proof (cases "map_of (h_Files h) ?p")
    case None
    then show ?thesis by (simp add: hp_Discover_def fh.read_file)
  next
    case (Some cur)
    then show ?thesis using o b by (simp add: hp_Discover_def fh.read_file text_in_def Let_def)
  qed
  then show ?thesis using hp_seesI by blast
qed

lemma hp_Apply_sees:
  assumes "haproxy_ok d m h" and "h_FailOn h = []"
  shows "\<exists>m1 h1. hp_Apply th_os (d_SniRoutes d) (d_Backends d) (m, h) = (Inr (), (m1, h1)) \<and> rest_kept h h1 \<and>
    hp_ConfigPath m1 = hp_ConfigPath m \<and>
    hp_sees m1 (d_SniRoutes d) (map_of (h_Files h1) (hp_ConfigPath m)) (SniDigest (d_SniRoutes d)) (map parsed_of (d_SniRoutes d))"
proof -
  let ?p = "hp_ConfigPath m" and ?rs = "d_SniRoutes d" and ?bes = "d_Backends d"
  obtain u old nxt where o: "splitManaged (text_in (map_of (h_Files h)) ?p) = Inr (u, old)"
    "\<not> Contains u BeginMarker" "\<not> Contains u EndMarker" "next_config (text_in (map_of (h_Files h)) ?p) ?rs ?bes = Inr nxt"
    and r: "backup_apart m" "validate_routes ?rs = (None, ?rs)" "?rs \<noteq> []" "clean_config ?rs ?bes"
    using assms by (auto simp: haproxy_ok_def)
  obtain m1 h1 where w: "hp_write th_os (text_in (map_of (h_Files h)) ?p) nxt (m, h) = (Inr (), (m1, h1))" "rest_kept h h1"
    using th_write_ok [OF assms(2)] by blast
  then have a: "hp_Apply th_os ?rs ?bes (m, h) = (Inr (), (m1, h1))" using r(2) o(4) by (simp add: hp_Apply_def th_text)
  have p: "hp_ConfigPath m1 = ?p" using fh.apply_all_or_nothing [OF a r(1)] by simp
  from hp_seesI [OF fh.apply_then_discover [OF a r(1,2) r(3,4) o(1-3)]] p a w(2) show ?thesis by auto
qed

lemma seen_digest:
  assumes "seen_by d L I dg qs a" and "d_SniRoutes d \<noteq> []"
  shows "haproxy_actions d a = [] \<longleftrightarrow> dg = SniDigest (d_SniRoutes d)"
  unfolding haproxy_actions_Nil haproxy_matches_def using assms by (simp add: seen_by_def)

lemma plan_targets:
  "filter (\<lambda>a. ac_Target a = ''firewall'') (pl_Actions (Diff d a)) = firewall_actions d a"
  "list_ex (\<lambda>a. ac_Target a = ''haproxy'') (pl_Actions (Diff d a)) \<longleftrightarrow> haproxy_actions d a \<noteq> []"
proof -
  have t: "ac_Target x = ''tunnel''" if "x \<in> set (tunnel_actions d a)" for x
    using that by (auto simp: tunnel_actions_def tunnel_action_def mk_action_def split: option.splits if_splits)
  have f: "ac_Target x = ''firewall''" if "x \<in> set (firewall_actions d a)" for x
    using that by (rule firewall_action_target)
  have h: "ac_Target x = ''haproxy''" if "x \<in> set (haproxy_actions d a)" for x
    using that by (auto simp: haproxy_actions_def mk_action_def Let_def split: if_splits)
  have "filter (\<lambda>a. ac_Target a = ''firewall'') (tunnel_actions d a) = []" "filter (\<lambda>a. ac_Target a = ''firewall'') (haproxy_actions d a) = []"
    "filter (\<lambda>a. ac_Target a = ''firewall'') (firewall_actions d a) = firewall_actions d a"
    using t f h by (auto simp: filter_empty_conv filter_id_conv)
  then show "filter (\<lambda>a. ac_Target a = ''firewall'') (pl_Actions (Diff d a)) = firewall_actions d a" by (simp add: Diff_def)
  have "haproxy_actions d a \<noteq> [] \<Longrightarrow> \<exists>x \<in> set (haproxy_actions d a). ac_Target x = ''haproxy''" using h last_in_set by blast
  then show "list_ex (\<lambda>a. ac_Target a = ''haproxy'') (pl_Actions (Diff d a)) \<longleftrightarrow> haproxy_actions d a \<noteq> []"
    using t f by (force simp: Diff_def list_ex_iff)
qed

lemma apply_haproxy_ok:
  assumes "en_HP e = Some m" and "haproxy_ok d m h" and "h_FailOn h = []"
    and "seen_by d L I dg qs a" and "hp_sees m (d_SniRoutes d) (map_of (h_Files h) (hp_ConfigPath m)) dg qs"
  shows "\<exists>m' h' qs'. apply_haproxy th_os (Diff d a) d (e, h) = (Inr (), (e\<lparr>en_HP := Some m'\<rparr>, h')) \<and> rest_kept h h' \<and>
    hp_ConfigPath m' = hp_ConfigPath m \<and>
    hp_sees m' (d_SniRoutes d) (map_of (h_Files h') (hp_ConfigPath m)) (SniDigest (d_SniRoutes d)) qs'"
proof (cases "haproxy_actions d a = []")
  case True
  have "d_SniRoutes d \<noteq> []" using assms(2) by (simp add: haproxy_ok_def)
  then have "dg = SniDigest (d_SniRoutes d)" using seen_digest [OF assms(4)] True by simp
  moreover have "apply_haproxy th_os (Diff d a) d (e, h) = (Inr (), (e, h))"
    using True by (simp add: apply_haproxy_def needs_haproxy_def plan_targets)
  moreover have "e\<lparr>en_HP := Some m\<rparr> = e" using assms(1) by simp
  moreover have "rest_kept h h" by (simp add: rest_kept_def)
  ultimately show ?thesis using assms(5) by (intro exI [of _ m] exI [of _ h] exI [of _ qs]) simp
next
  case False
  then have "apply_haproxy th_os (Diff d a) d (e, h) = with_hp (hp_Apply th_os (d_SniRoutes d) (d_Backends d)) (e, h)"
    using assms(1) by (simp add: apply_haproxy_def needs_haproxy_def plan_targets)
  moreover obtain m1 h1 where a: "hp_Apply th_os (d_SniRoutes d) (d_Backends d) (m, h) = (Inr (), (m1, h1))" "rest_kept h h1"
    "hp_ConfigPath m1 = hp_ConfigPath m"
    "hp_sees m1 (d_SniRoutes d) (map_of (h_Files h1) (hp_ConfigPath m)) (SniDigest (d_SniRoutes d)) (map parsed_of (d_SniRoutes d))"
    using hp_Apply_sees [OF assms(2,3)] by blast
  ultimately have "apply_haproxy th_os (Diff d a) d (e, h) = (Inr (), (e\<lparr>en_HP := Some m1\<rparr>, h1))"
    using assms(1) by (simp add: with_hp_def)
  then show ?thesis using a(2-4) by blast
qed

lemma apply_firewall_ok:
  assumes "en_FW e = Some f" and "th_ok L F p h" and "installed (th_rules h) I" and "parents (th_rules h)"
    and "valid_firewall d" and "seen_by d L' I dg qs a"
  shows "\<exists>f' h' I'. apply_firewall th_os (Diff d a) d (e, h) = (Inr (), (e\<lparr>en_FW := Some f'\<rparr>, h')) \<and>
    th_ok L F p h' \<and> installed (th_rules h') I' \<and>
    (\<forall>a'. as_FirewallRules a' = map seen_rule I' \<longrightarrow> firewall_actions d a' = [])"
proof (cases "firewall_actions d a = []")
  case True
  have "firewall_actions d a' = []" if "as_FirewallRules a' = map seen_rule I" for a'
  proof -
    have "managed_rules a' = managed_rules a" using that assms(6) by (simp add: managed_rules_def seen_by_def)
    then show ?thesis using True by (simp only: firewall_actions_def)
  qed
  moreover have "e\<lparr>en_FW := Some f\<rparr> = e" using assms(1) by simp
  moreover have "apply_firewall th_os (Diff d a) d (e, h) = (Inr (), (e, h))"
    using True by (simp add: apply_firewall_def plan_targets Plan_Empty_def)
  ultimately show ?thesis using assms(2,3) by (intro exI [of _ f] exI [of _ h] exI [of _ I]) simp
next
  case False
  have r: "as_FirewallRules a = map seen_rule I" using assms(6) by (simp add: seen_by_def)
  from th.Apply_converges [OF assms(2-5) r, of f] obtain f' h' I' where
    a: "fw_Apply th_os \<lparr>pl_Actions = firewall_actions d a, pl_Conflicts = []\<rparr> (d_Mappings d) (d_Backends d) (f, h) = (Inr (), (f', h'))"
    "th_ok L F p h'" "installed (th_rules h') I'" "\<forall>a'. as_FirewallRules a' = map seen_rule I' \<longrightarrow> firewall_actions d a' = []"
    by blast
  have "apply_firewall th_os (Diff d a) d (e, h) = (Inr (), (e\<lparr>en_FW := Some f'\<rparr>, h'))"
    using False a(1) assms(1) by (simp add: apply_firewall_def plan_targets Plan_Empty_def with_fw_def)
  then show ?thesis using a(2-4) by blast
qed


section \<open>The whole round\<close>

definition node_ready :: "desired_state \<Rightarrow> engine \<Rightarrow> host \<Rightarrow> bool" where
  "node_ready d e h \<longleftrightarrow> h_FailOn h = [] \<and> en_FW e \<noteq> None \<and> en_WG e \<noteq> None \<and>
     tunnels_ok (d_Tunnels d) h \<and> valid_firewall d \<and> (\<exists>I. installed (th_rules h) I) \<and> parents (th_rules h) \<and>
     (\<exists>m. en_HP e = Some m \<and> haproxy_ok d m h)"

lemma plan_valid:
  assumes "en_FW e \<noteq> None" and "en_WG e \<noteq> None" and "en_HP e \<noteq> None" and "seen_by d L I dg qs a" and "tunnels_ok (d_Tunnels d) h"
  shows "validatePlan e (Diff d a) d = None"
proof -
  have dis: "distinct (map t_InterfaceName (d_Tunnels d))" "distinct (map t_ID (d_Tunnels d))"
    using assms(5) by (simp_all add: tunnels_ok_def)
  have "validate_action e d x = None" if x: "x \<in> set (pl_Actions (Diff d a))" for x
  proof -
    consider "x \<in> set (tunnel_actions d a)" | "x \<in> set (firewall_actions d a)" | "x \<in> set (haproxy_actions d a)"
      using x by (auto simp: Diff_def)
    then show ?thesis
    proof cases
      case 1
      then obtain t now where t: "t \<in> set (d_Tunnels d)" "ac_Target x = ''tunnel''" "ac_ID x = t_ID t"
        using seen_tunnel_actions [OF assms(4) dis(1)] by metis
      have "type_of_id d (ac_ID x) = TunnelWireGuard"
        using t assms(5) index_by_distinct [OF dis(2) t(1)] by (simp add: type_of_id_def tunnels_ok_def)
      then show ?thesis using t(2) assms(2) by (auto simp: validate_action_def)
    next
      case 2
      then have "ac_Target x = ''firewall''" by (rule firewall_action_target)
      then show ?thesis using assms(1) by (simp add: validate_action_def)
    next
      case 3
      then have "ac_Target x = ''haproxy''" by (auto simp: haproxy_actions_def mk_action_def Let_def split: if_splits)
      then show ?thesis using assms(3) by (simp add: validate_action_def)
    qed
  qed
  then show ?thesis by (simp add: validatePlan_def)
qed

lemma applyPlan_ok:
  assumes e: "en_FW e = Some f" "en_WG e = Some w" "en_HP e = Some m" and hok: "haproxy_ok d m h"
    and ok: "th_ok L F (hp_ConfigPath m) h" "installed (th_rules h) I" "parents (th_rules h)" "tunnels_ok (d_Tunnels d) h" "valid_firewall d"
    and s: "seen_by d L I dg qs a" and hp: "hp_sees m (d_SniRoutes d) F dg qs"
  shows "\<exists>f' w' m' h' L' F' I' qs'. applyPlan th_os (Diff d a) d (e, h) =
      ((Inr (), d), (e\<lparr>en_WG := Some w', en_HP := Some m', en_FW := Some f'\<rparr>, h')) \<and>
    hp_ConfigPath m' = hp_ConfigPath m \<and> th_ok L' F' (hp_ConfigPath m) h' \<and> installed (th_rules h') I' \<and>
    hp_sees m' (d_SniRoutes d) F' (SniDigest (d_SniRoutes d)) qs' \<and>
    (\<forall>a' dg' qs'. seen_by d L' I' dg' qs' a' \<longrightarrow> tunnel_actions d a' = [] \<and> firewall_actions d a' = []) \<and>
    tunnels_ok (d_Tunnels d) h'"
proof -
  let ?p = "hp_ConfigPath m" and ?acts = "pl_Actions (Diff d a)" and ?ts = "d_Tunnels d"
  have L: "h_Links h = L" "h_FailOn h = []" "map_of (h_Files h) ?p = F" using ok(1) by (simp_all add: th_ok_def)
  have dis: "distinct (map t_InterfaceName ?ts)" using ok(4) by (simp add: tunnels_ok_def)
  have td0: "tunnels_done ?ts {} h h" using L by (simp add: tunnels_done_def)
  have acts: "\<forall>x \<in> set ?acts. ac_Target x = ''tunnel'' \<longrightarrow> ac_Kind x = KindChange \<and> (\<exists>t \<in> set ?ts. ac_ID x = t_ID t)"
  proof (intro ballI impI)
    fix x assume "x \<in> set ?acts" "ac_Target x = ''tunnel''"
    then have "x \<in> set (tunnel_actions d a)"
      by (auto simp: Diff_def haproxy_actions_def mk_action_def Let_def dest: firewall_action_target split: if_splits)
    then show "ac_Kind x = KindChange \<and> (\<exists>t \<in> set ?ts. ac_ID x = t_ID t)"
      using seen_tunnel_actions [OF s dis] by metis
  qed
  obtain w' h1 where 1: "apply_tunnels th_os (Diff d a) d (e, h) = (Inr (), (e\<lparr>en_WG := Some w'\<rparr>, h1))"
    and td: "tunnels_done ?ts (ac_ID ` {x \<in> set ?acts. ac_Target x = ''tunnel''}) h h1"
    using apply_tunnels_ok [OF ok(4) refl e(2) td0 acts] unfolding apply_tunnels_def Un_empty_left by blast
  let ?e1 = "e\<lparr>en_WG := Some w'\<rparr>"
  have f1: "h_Files h1 = h_Files h" "h_FailOn h1 = []" "th_rules h1 = th_rules h"
    using td th_rules_cong [of h1 h] by (simp_all add: tunnels_done_def)
  have hok1: "haproxy_ok d m h1" using haproxy_ok_files hok f1(1) by metis
  obtain m' h2 qs' where 2: "apply_haproxy th_os (Diff d a) d (?e1, h1) = (Inr (), (?e1\<lparr>en_HP := Some m'\<rparr>, h2))" "rest_kept h1 h2"
    "hp_ConfigPath m' = ?p" "hp_sees m' (d_SniRoutes d) (map_of (h_Files h2) ?p) (SniDigest (d_SniRoutes d)) qs'"
    using apply_haproxy_ok [of ?e1 m d h1, OF _ hok1 f1(2) s] e(3) hp f1(1) L(3) by auto
  let ?e2 = "?e1\<lparr>en_HP := Some m'\<rparr>"
  have r2: "th_rules h2 = th_rules h" "h_Links h2 = h_Links h1" "h_FailOn h2 = []"
    using 2(2) f1 th_rules_cong [of h2 h1] by (simp_all add: rest_kept_def)
  have ok2: "th_ok (h_Links h1) (map_of (h_Files h2) ?p) ?p h2" using r2 ok(1) by (simp add: th_ok_def)
  obtain f' h3 I' where 3: "apply_firewall th_os (Diff d a) d (?e2, h2) = (Inr (), (?e2\<lparr>en_FW := Some f'\<rparr>, h3))"
    "th_ok (h_Links h1) (map_of (h_Files h2) ?p) ?p h3" "installed (th_rules h3) I'"
    "\<forall>a'. as_FirewallRules a' = map seen_rule I' \<longrightarrow> firewall_actions d a' = []"
    using apply_firewall_ok [of ?e2 f, OF _ ok2 _ _ ok(5) s] e(1) ok(2,3) r2(1) by auto
  have "routes_normalized d = d" using hok by (simp add: routes_normalized_def haproxy_ok_def)
  then have A: "applyPlan th_os (Diff d a) d (e, h) = ((Inr (), d), (?e2\<lparr>en_FW := Some f'\<rparr>, h3))"
    using 1 2(1) 3(1) by (simp add: applyPlan_def Let_def)
  have l3: "h_Links h3 = h_Links h1" "h_FailOn h3 = h_FailOn h1" using 3(2) f1(2) by (simp_all add: th_ok_def)
  have s0: "seen_by d (h_Links h) I dg qs a" using s L(1) by simp
  have sub: "set (tunnel_actions d a) \<subseteq> set ?acts" by (auto simp: Diff_def)
  have "tunnels_ok ?ts h3" using tunnels_ok_links [OF l3(2,1)] tunnels_done_ready [OF td ok(4)] by simp
  moreover have "tunnel_actions d a' = [] \<and> firewall_actions d a' = []"
    if "seen_by d (h_Links h1) I' dg' qs'' a'" for dg' qs'' a'
    using done_no_actions [OF ok(4) td s0 sub that] 3(4) that by (simp add: seen_by_def)
  ultimately show ?thesis using A 2(3,4) 3(2,3) by blast
qed

lemma seen_same_plan:
  assumes "seen_by d L I dg qs a" and "seen_by d L I dg qs a'" and "distinct (map t_InterfaceName (d_Tunnels d))"
    and "Plan_Empty (Diff d a)"
  shows "Plan_Empty (Diff d a')"
proof -
  have n: "tunnel_actions d a = []" "firewall_actions d a = []" "haproxy_actions d a = []"
    using assms(4) by (simp_all add: Plan_Empty_def Diff_def)
  have "tunnel_actions d a' = []"
  proof (rule ccontr)
    assume "tunnel_actions d a' \<noteq> []"
    then obtain x where "x \<in> set (tunnel_actions d a')" using last_in_set by blast
    then obtain t now where "t \<in> set (d_Tunnels d)" "tunnelChanged t (act_of t now (map_of L (t_InterfaceName t)))"
      using seen_tunnel_actions [OF assms(2,3)] by metis
    then show False using seen_tunnel_changed [OF assms(1,3)] n(1) by auto
  qed
  moreover have "managed_rules a' = managed_rules a" using assms(1,2) by (simp add: seen_by_def managed_rules_def)
  then have "firewall_actions d a' = []" using n(2) by (simp only: firewall_actions_def)
  moreover have "as_HaproxyDigest a' = as_HaproxyDigest a" "as_SniRoutes a' = as_SniRoutes a"
    using assms(1,2) by (simp_all add: seen_by_def)
  then have "haproxy_actions d a' = []" using n(3) by (simp only: haproxy_actions_def)
  ultimately show ?thesis by (simp add: Plan_Empty_def Diff_def)
qed

text \<open>A host on which nothing is to be done, and stays to be done.\<close>

definition at_rest :: "desired_state \<Rightarrow> engine \<times> host \<Rightarrow> bool" where
  "at_rest d s \<longleftrightarrow> (\<exists>a s'. engine_Discover th_os d s = (Inr a, s') \<and> Plan_Empty (Diff d a) \<and> as_Conflicts a = [])"

lemma at_restI:
  assumes e: "en_FW e = Some f" "en_WG e = Some w" "en_HP e = Some m"
    and ok: "th_ok L F (hp_ConfigPath m) h" "installed (th_rules h) I" "tunnels_ok (d_Tunnels d) h"
    and hp: "hp_sees m (d_SniRoutes d) F dg qs" and a: "seen_by d L I dg qs a" "Plan_Empty (Diff d a)"
  shows "at_rest d (e, h)"
proof -
  obtain a' h' where 1: "engine_Discover th_os d (e, h) = (Inr a', (e, h'))" "seen_by d L I dg qs a'"
    using engine_sees [OF e ok hp] by blast
  moreover have "distinct (map t_InterfaceName (d_Tunnels d))" using ok(3) by (simp add: tunnels_ok_def)
  ultimately show ?thesis using seen_same_plan [OF a(1) 1(2) _ a(2)] by (auto simp: at_rest_def seen_by_def)
qed

lemma at_rest_idle:
  assumes "at_rest d s"
  shows "\<exists>res s'. Reconcile th_os d dry s = ((res, None, d), s') \<and> Plan_Empty (re_Plan res) \<and> \<not> re_Applied res"
  using assms by (auto simp: at_rest_def Reconcile_def Let_def HasConflicts_def Diff_def)

lemma ready_round:
  assumes "node_ready d e h"
  shows "\<exists>res s'. Reconcile th_os d False (e, h) = ((res, None, d), s') \<and> at_rest d s' \<and>
    Plan_Empty (Diff d (re_Actual res)) \<and> \<not> HasConflicts (Diff d (re_Actual res)) \<and> \<not> re_Rolled res"
proof -
  obtain f w m I where e: "en_FW e = Some f" "en_WG e = Some w" "en_HP e = Some m" and hok: "haproxy_ok d m h"
    and i: "installed (th_rules h) I" "parents (th_rules h)" and t: "tunnels_ok (d_Tunnels d) h" and v: "valid_firewall d"
    and f0: "h_FailOn h = []" using assms by (auto simp: node_ready_def)
  let ?p = "hp_ConfigPath m" and ?L = "h_Links h" and ?F = "map_of (h_Files h) (hp_ConfigPath m)"
  have ok: "th_ok ?L ?F ?p h" using hok f0 by (simp add: th_ok_def haproxy_ok_def)
  obtain dg qs where hp: "hp_sees m (d_SniRoutes d) ?F dg qs" using haproxy_ok_sees [OF hok] by blast
  obtain a h1 where 1: "engine_Discover th_os d (e, h) = (Inr a, (e, h1))" "seen_by d ?L I dg qs a" "th_ok ?L ?F ?p h1"
    "th_rules h1 = th_rules h" using engine_sees [OF e ok i(1) t hp] by blast
  have c: "\<not> HasConflicts (Diff d a)" using 1(2) by (simp add: seen_by_def HasConflicts_def Diff_def)
  show ?thesis
  proof (cases "Plan_Empty (Diff d a)")
    case True
    then have "at_rest d (e, h1)"
      using at_restI [OF e 1(3) _ _ hp 1(2)] i(1) 1(4) tunnels_ok_links [of h1 h] t 1(3) f0 by (simp add: th_ok_def)
    then show ?thesis using True 1(1) c by (simp add: Reconcile_def Let_def)
  next
    case False
    let ?e = "begin_tx e"
    have e1: "en_FW ?e = Some f" "en_WG ?e = Some (BeginTx w)" "en_HP ?e = Some m" using e by (simp_all add: begin_tx_def)
    have t1: "tunnels_ok (d_Tunnels d) h1" using tunnels_ok_links [of h1 h] t 1(3) f0 by (simp add: th_ok_def)
    have hok1: "haproxy_ok d m h1" using haproxy_ok_files [of h1 m h d] hok 1(3) by (simp add: th_ok_def)
    have i1: "installed (th_rules h1) I" "parents (th_rules h1)" using i 1(4) by simp_all
    obtain f' w' m' h' L' F' I' qs' where A: "applyPlan th_os (Diff d a) d (?e, h1) =
        ((Inr (), d), (?e\<lparr>en_WG := Some w', en_HP := Some m', en_FW := Some f'\<rparr>, h'))"
      "hp_ConfigPath m' = ?p" "th_ok L' F' ?p h'" "installed (th_rules h') I'"
      "hp_sees m' (d_SniRoutes d) F' (SniDigest (d_SniRoutes d)) qs'"
      "\<forall>a' dg' qs'. seen_by d L' I' dg' qs' a' \<longrightarrow> tunnel_actions d a' = [] \<and> firewall_actions d a' = []"
      "tunnels_ok (d_Tunnels d) h'"
      using applyPlan_ok [OF e1 hok1 1(3) i1 t1 v 1(2) hp] by blast
    let ?e2 = "?e\<lparr>en_WG := Some w', en_HP := Some m', en_FW := Some f'\<rparr>"
    have e2: "en_FW ?e2 = Some f'" "en_WG ?e2 = Some w'" "en_HP ?e2 = Some m'" by simp_all
    obtain a' h2 where 2: "engine_Discover th_os d (?e2, h') = (Inr a', (?e2, h2))" "seen_by d L' I' (SniDigest (d_SniRoutes d)) qs' a'"
      "th_ok L' F' ?p h2" "th_rules h2 = th_rules h'"
      using engine_sees [OF e2 _ A(4,7,5)] A(2,3) by metis
    have "haproxy_actions d a' = []" using seen_digest [OF 2(2)] hok by (simp add: haproxy_ok_def)
    then have z: "Plan_Empty (Diff d a')" "\<not> HasConflicts (Diff d a')"
      using A(6) 2(2) by (auto simp: Plan_Empty_def Diff_def HasConflicts_def seen_by_def)
    have "tunnels_ok (d_Tunnels d) h2" using tunnels_ok_links [of h2 h'] A(3,7) 2(3) by (simp add: th_ok_def)
    then have rest: "at_rest d (?e2, h2)" using at_restI [OF e2 _ _ _ A(5) 2(2) z(1)] A(2,4) 2(3,4) by simp
    have "validatePlan e (Diff d a) d = None" using plan_valid [OF _ _ _ 1(2) t] e by simp
    then have "Reconcile th_os d False (e, h) =
      ((\<lparr>re_Plan = Diff d a, re_Actual = a', re_Applied = True, re_Rolled = False\<rparr>, None, d), (?e2, h2))"
      using 1(1) c False A(1) 2(1) z by (simp add: Reconcile_def engine_verify_def Let_def)
    then show ?thesis using z rest by simp
  qed
qed

text \<open>C29: A whole round converges. On a node where the host commands work, the desired tunnels are valid
  WireGuard tunnels whose interface names are free or WireGuard devices, the mappings point to
  backends with addresses, the managed chains hold mapping rules and the HAProxy configuration can
  be joined with the rendered routes, one round of the engine with all three managers succeeds: it
  discovers, plans, applies tunnels, routes and rules and verifies without rolling back. The round
  after it finds nothing to do.\<close>

theorem engine_round_converges:
  assumes "node_ready d e h"
  shows "\<exists>res s' res2 s2. Reconcile th_os d False (e, h) = ((res, None, d), s') \<and> \<not> re_Rolled res \<and>
    Plan_Empty (Diff d (re_Actual res)) \<and> \<not> HasConflicts (Diff d (re_Actual res)) \<and>
    Reconcile th_os d False s' = ((res2, None, d), s2) \<and> Plan_Empty (re_Plan res2) \<and> \<not> re_Applied res2"
proof -
  obtain res s' where "Reconcile th_os d False (e, h) = ((res, None, d), s')" "at_rest d s'" "\<not> re_Rolled res"
    "Plan_Empty (Diff d (re_Actual res))" "\<not> HasConflicts (Diff d (re_Actual res))"
    using ready_round [OF assms] by blast
  then show ?thesis using at_rest_idle [of d s' False] by blast
qed


section \<open>Instances\<close>

definition sample_inventory :: desired_state where
  "sample_inventory = (sample_desired [sample_wg] [sample_mapping ''m1'' ''b1'' 8443] sample_backends)\<lparr>d_SniRoutes := sample_sni\<rparr>"

definition sample_engine :: engine where
  "sample_engine = \<lparr>en_FW = Some empty_fw, en_WG = Some \<lparr>wg_createdIfaces = []\<rparr>, en_HP = Some sample_hp, en_SSH = False\<rparr>"

lemma sample_node_ready: "node_ready sample_inventory sample_engine new_host"
proof -
  have "tunnels_ok [sample_wg] new_host"
  proof -
    have "Tunnel_Normalize sample_wg = sample_wg" by code_simp
    moreover have "t_Type sample_wg = TunnelWireGuard" "t_InterfaceName sample_wg = ''wg0''" by (simp_all add: sample_wg_def)
    ultimately show ?thesis using sample_wg_ready by (simp add: tunnels_ok_def)
  qed
  moreover have "valid_firewall sample_inventory"
    unfolding valid_firewall_def sample_inventory_def sample_desired_def sample_backends_def
    using sample_valid by (auto simp: valid_mappings_def sample_mapping_def sample_backend_def)
  moreover have "haproxy_ok sample_inventory sample_hp new_host"
  proof -
    have "text_in (map_of (h_Files new_host)) (hp_ConfigPath sample_hp) = []" by (simp add: text_in_def new_host_def)
    moreover have "''/h.cfg'' \<noteq> path_join dir (''iptables-'' @ stamp @ ''.save'')" for dir stamp
    proof
      assume "''/h.cfg'' = path_join dir (''iptables-'' @ stamp @ ''.save'')"
      then have "last ''/h.cfg'' = last (path_join dir (''iptables-'' @ stamp @ ''.save''))" by simp
      then show False by (simp add: path_join_def split: if_splits)
    qed
    moreover have "\<not> Contains [] BeginMarker" "\<not> Contains [] EndMarker" "parseManaged [] = Some []"
      by (simp_all add: Contains_def BeginMarker_def EndMarker_def parseManaged_def)
    ultimately show ?thesis
      using sample_hp_apart sample_sni_valid sample_sni_clean sample_next empty_split
      unfolding haproxy_ok_def sample_inventory_def sample_desired_def by (simp add: sample_hp_def)
  qed
  ultimately show ?thesis
    using new_host_ready by (auto simp: node_ready_def sample_engine_def sample_inventory_def sample_desired_def)
qed

lemma engine_round_converges_witness:
  "\<exists>res s' res2 s2. Reconcile th_os sample_inventory False (sample_engine, new_host) = ((res, None, sample_inventory), s') \<and> \<not> re_Rolled res \<and>
    Plan_Empty (Diff sample_inventory (re_Actual res)) \<and> \<not> HasConflicts (Diff sample_inventory (re_Actual res)) \<and>
    Reconcile th_os sample_inventory False s' = ((res2, None, sample_inventory), s2) \<and> Plan_Empty (re_Plan res2) \<and> \<not> re_Applied res2"
  by (rule engine_round_converges [OF sample_node_ready])

lemma reconcile_success_means_converged_witness:
  "\<exists>res s'. Reconcile th_os sample_inventory False (sample_engine, new_host) = ((res, None, sample_inventory), s') \<and>
    Plan_Empty (Diff sample_inventory (re_Actual res)) \<and> \<not> HasConflicts (Diff sample_inventory (re_Actual res)) \<and> \<not> re_Rolled res \<and>
    (re_Applied res \<longleftrightarrow> \<not> Plan_Empty (re_Plan res)) \<and> (\<exists>s0. engine_Discover th_os sample_inventory s0 = (Inr (re_Actual res), s'))"
proof -
  obtain res s' where r: "Reconcile th_os sample_inventory False (sample_engine, new_host) = ((res, None, sample_inventory), s')"
    using ready_round [OF sample_node_ready] by blast
  from reconcile_success_means_converged [OF r] r show ?thesis by blast
qed

lemma engine_never_deletes_tunnels_witness:
  "\<exists>a s' x. engine_Discover th_os sample_inventory (sample_engine, new_host) = (Inr a, s') \<and>
    x \<in> set (pl_Actions (Diff sample_inventory a)) \<and> ac_Target x = ''tunnel'' \<and> ac_Kind x \<noteq> KindDelete"
proof -
  obtain f w m I where e: "en_FW sample_engine = Some f" "en_WG sample_engine = Some w" "en_HP sample_engine = Some m"
    and hok: "haproxy_ok sample_inventory m new_host" and i: "installed (th_rules new_host) I"
    and t: "tunnels_ok (d_Tunnels sample_inventory) new_host" "h_FailOn new_host = []"
    using sample_node_ready by (auto simp: node_ready_def)
  let ?F = "map_of (h_Files new_host) (hp_ConfigPath m)"
  have ok: "th_ok (h_Links new_host) ?F (hp_ConfigPath m) new_host" using hok t(2) by (simp add: th_ok_def haproxy_ok_def)
  obtain dg qs where hp: "hp_sees m (d_SniRoutes sample_inventory) ?F dg qs" using haproxy_ok_sees [OF hok] by blast
  obtain a s' where a: "engine_Discover th_os sample_inventory (sample_engine, new_host) = (Inr a, s')"
    "seen_by sample_inventory (h_Links new_host) I dg qs a" using engine_sees [OF e ok i t(1) hp] by blast
  have dis: "distinct (map t_InterfaceName (d_Tunnels sample_inventory))" using t(1) by (simp add: tunnels_ok_def)
  have "tunnelChanged sample_wg (act_of sample_wg 0 (map_of (h_Links new_host) (t_InterfaceName sample_wg)))"
    by (simp add: new_host_def act_of_def tunnelChanged_def zero_actual_def)
  moreover have "sample_wg \<in> set (d_Tunnels sample_inventory)" by (simp add: sample_inventory_def sample_desired_def)
  ultimately obtain x where x: "x \<in> set (tunnel_actions sample_inventory a)" using seen_tunnel_changed [OF a(2) dis] by blast
  then have "ac_Target x = ''tunnel''" using seen_tunnel_actions [OF a(2) dis] by metis
  moreover have "x \<in> set (pl_Actions (Diff sample_inventory a))" using x by (simp add: Diff_def)
  ultimately show ?thesis using a(1) engine_never_deletes_tunnels [OF a(1), of x] by blast
qed

end
