(* ===== verification/Health.thy ===== *)
theory Health
  imports CmdExec
begin

text \<open>
  The health checks (src/internal/health/checker.go): the ping of the overlay address, the probe of a
  backend port, and the two verdicts the failover state machine reads, \<open>PrimaryFailed\<close> and
  \<open>FallbackHealthy\<close>.
\<close>

record snapshot =
  s_InterfacePresent :: bool
  s_UnitActive :: bool
  s_OverlayReachable :: bool
  s_HandshakeAgeSec :: int
  s_ProbesTotal :: int
  s_ProbesFailed :: int

definition zero_snapshot :: snapshot where
  "zero_snapshot =
     \<lparr>s_InterfacePresent = False, s_UnitActive = False, s_OverlayReachable = False,
      s_HandshakeAgeSec = 0, s_ProbesTotal = 0, s_ProbesFailed = 0\<rparr>"

definition OverlayPing :: "'h os \<Rightarrow> string \<Rightarrow> ('h, goerr, bool) act" where
  "OverlayPing os ip h =
     (case IPv4 ip of
        Some e \<Rightarrow> (Inl e, h)
      | None \<Rightarrow>
          (case run0 os ''ping'' [''-c'', ''1'', ''-W'', ''2'', ip] h of
             ((out, errb, Some e), h') \<Rightarrow> (Inr False, h')
           | ((out, errb, None), h') \<Rightarrow> (Inr True, h')))"

definition ProbeBackend :: "'h os \<Rightarrow> string \<Rightarrow> string \<Rightarrow> int \<Rightarrow> 'h \<Rightarrow> goerr + bool" where
  "ProbeBackend os addr proto port h =
     (case IPv4 addr of
        Some e \<Rightarrow> Inl e
      | None \<Rightarrow>
          (case Port port of
             Some e \<Rightarrow> Inl e
           | None \<Rightarrow>
               Inr (os_dial os (if proto = ProtoUDP then ''udp'' else ''tcp'')
                      (JoinHostPort addr (Itoa port)) h = None)))"

definition PrimaryFailed :: "snapshot \<Rightarrow> int \<Rightarrow> bool" where
  "PrimaryFailed h probeNeed =
     (if \<not> s_InterfacePresent h then True
      else let probesBad0 = (0 < s_ProbesTotal h \<and> probeNeed \<le> s_ProbesFailed h);
               probesBad = (if 0 < s_ProbesTotal h \<and> s_ProbesFailed h = s_ProbesTotal h then True
                            else probesBad0);
               hsStale = (180 < s_HandshakeAgeSec h);
               overlayBad = (\<not> s_OverlayReachable h)
           in probesBad \<and> (hsStale \<or> overlayBad))"

definition FallbackHealthy :: "snapshot \<Rightarrow> bool" where
  "FallbackHealthy h \<longleftrightarrow>
     s_UnitActive h \<and> s_InterfacePresent h \<and> s_OverlayReachable h \<and> s_ProbesFailed h = 0"

definition Snapshot_String :: "snapshot \<Rightarrow> string" where
  "Snapshot_String s =
     ''iface='' @ show_bool (s_InterfacePresent s) @ '' unit='' @ show_bool (s_UnitActive s) @
     '' overlay='' @ show_bool (s_OverlayReachable s) @ '' hs='' @ Itoa (s_HandshakeAgeSec s) @
     '' probes='' @ Itoa (s_ProbesTotal s - s_ProbesFailed s) @ ''/'' @ Itoa (s_ProbesTotal s)"

text \<open>
  The verdict in one line: the interface is gone, or enough probes failed (two, or all of them)
  while the handshake is stale or the overlay does not answer. A tunnel with no TCP mapping has no
  probe, and then only a missing interface fails it.
\<close>

lemma PrimaryFailed_iff:
  "PrimaryFailed h n \<longleftrightarrow>
     \<not> s_InterfacePresent h \<or>
     0 < s_ProbesTotal h \<and> (n \<le> s_ProbesFailed h \<or> s_ProbesFailed h = s_ProbesTotal h) \<and>
     (180 < s_HandshakeAgeSec h \<or> \<not> s_OverlayReachable h)"
  by (auto simp: PrimaryFailed_def)

lemma PrimaryFailed_no_probes: "s_ProbesTotal h = 0 \<Longrightarrow> PrimaryFailed h n \<longleftrightarrow> \<not> s_InterfacePresent h"
  by (simp add: PrimaryFailed_iff)

lemma zero_snapshot_verdicts [simp]: "PrimaryFailed zero_snapshot n" "\<not> FallbackHealthy zero_snapshot"
  by (simp_all add: PrimaryFailed_iff FallbackHealthy_def zero_snapshot_def)

end
