(* ===== verification/Transport.thy ===== *)
theory Transport
  imports Health
begin

text \<open>
  The transport state machine (src/internal/failover/machine.go): \<open>Step\<close> takes the persisted state
  of one node/backend pair, the policy, the two health snapshots and the operator's intent to the
  next state and the cutover it asks for.

  The branch lemmas below give the next mode, the counter and the cutover of every mode; the
  properties are stated over them. \<open>mode_edge\<close> is the graph of the modes, \<open>run\<close> the rounds of
  the agent: each starts from the state the one before it left.
\<close>

record input =
  i_Current :: transport_state
  i_Policy :: failover_policy
  i_Primary :: snapshot
  i_Fallback :: snapshot
  i_FailForward :: bool
  i_Now :: gotime

record decision =
  d_Next :: transport_state
  d_CutoverToSSH :: bool
  d_CutoverToWG :: bool
  d_Critical :: bool
  d_Event :: string
  d_Reason :: string

definition critical_reason :: string where
  "critical_reason = ''CRITICAL_NO_HEALTHY_TRANSPORT''"

definition EventFailbackStarted :: string where "EventFailbackStarted = ''failback_started''"
definition EventFailbackCompleted :: string where "EventFailbackCompleted = ''failback_completed''"
definition EventTransportDegraded :: string where "EventTransportDegraded = ''transport_degraded''"

definition plain_decision :: "transport_state \<Rightarrow> decision" where
  "plain_decision st =
     \<lparr>d_Next = st, d_CutoverToSSH = False, d_CutoverToWG = False, d_Critical = False,
      d_Event = [], d_Reason = []\<rparr>"

text \<open>The state every branch starts from: the empty mode is \<open>WG_PRIMARY\<close>, the verdicts are fresh.\<close>

definition refreshed :: "gotime \<Rightarrow> input \<Rightarrow> transport_state" where
  "refreshed now inp =
     (let st = i_Current inp
      in st\<lparr>ts_State := (if ts_State st = EmptyMode then WGPrimary else ts_State st),
            ts_PrimaryHealthy := \<not> PrimaryFailed (i_Primary inp) 2,
            ts_FallbackHealthy := FallbackHealthy (i_Fallback inp),
            ts_UpdatedAt := now\<rparr>)"

definition moved :: "transport_mode \<Rightarrow> gotime \<Rightarrow> string \<Rightarrow> transport_state \<Rightarrow> transport_state" where
  "moved mode now reason st =
     st\<lparr>ts_State := mode, ts_LastTransition := now, ts_LastReason := reason\<rparr>"

definition step_wg_primary :: "gotime \<Rightarrow> failover_policy \<Rightarrow> transport_state \<Rightarrow> decision" where
  "step_wg_primary now pol st =
     (if ts_PrimaryHealthy st then plain_decision (st\<lparr>ts_ConsecutiveFailures := 0\<rparr>)
      else
        let st1 = st\<lparr>ts_ConsecutiveFailures := ts_ConsecutiveFailures st + 1\<rparr>
        in if ts_ConsecutiveFailures st1 < p_FailureThreshold pol then
             plain_decision (st1\<lparr>ts_LastReason := ''primary unhealthy, counting failures''\<rparr>)
           else if \<not> ts_FallbackHealthy st1 then
             (plain_decision (moved Degraded now critical_reason st1))
               \<lparr>d_Critical := True, d_Event := EventTransportDegraded, d_Reason := critical_reason\<rparr>
           else if \<not> p_AutomaticFailback pol then
             plain_decision
               (st1\<lparr>ts_LastReason := ''threshold reached but automatic_failback is false''\<rparr>)
           else
             (plain_decision (moved FailbackInProgress now ''automatic failback to SSH_TUN'' st1))
               \<lparr>d_CutoverToSSH := True, d_Event := EventFailbackStarted,
                d_Reason := ''automatic failback to SSH_TUN''\<rparr>)"

definition step_failback_in_progress :: "gotime \<Rightarrow> transport_state \<Rightarrow> decision" where
  "step_failback_in_progress now st =
     (if ts_FallbackHealthy st then
        (plain_decision ((moved SSHPrimary now ''failback completed'' st)\<lparr>ts_ConsecutiveFailures := 0\<rparr>))
          \<lparr>d_Event := EventFailbackCompleted\<rparr>
      else
        (plain_decision (moved Degraded now critical_reason st))
          \<lparr>d_Critical := True, d_Event := EventTransportDegraded\<rparr>)"

definition step_ssh_primary :: "gotime \<Rightarrow> failover_policy \<Rightarrow> bool \<Rightarrow> transport_state \<Rightarrow> decision" where
  "step_ssh_primary now pol failForward st =
     (if failForward then
        (if ts_PrimaryHealthy st then
           (plain_decision ((moved WGPrimary now ''operator fail-forward'' st)\<lparr>ts_ConsecutiveFailures := 0\<rparr>))
             \<lparr>d_CutoverToWG := True, d_Event := EventFailbackCompleted, d_Reason := ''operator fail-forward''\<rparr>
         else plain_decision
           (st\<lparr>ts_LastReason := ''operator fail-forward requested but WireGuard primary is not healthy''\<rparr>))
      else if \<not> ts_FallbackHealthy st \<and> \<not> ts_PrimaryHealthy st then
        (plain_decision (moved Degraded now critical_reason st))
          \<lparr>d_Critical := True, d_Event := EventTransportDegraded\<rparr>
      else if \<not> ts_FallbackHealthy st \<and> ts_PrimaryHealthy st then
        (plain_decision (moved Degraded now ''SSH_TUN unhealthy; fail-forward requires operator action'' st))
          \<lparr>d_Event := EventTransportDegraded\<rparr>
      else if p_AutomaticFailforward pol \<and> ts_PrimaryHealthy st then
        plain_decision (st\<lparr>ts_LastReason :=
          ''automatic_failforward is ignored unless explicitly requested via API; staying SSH_PRIMARY''\<rparr>)
      else plain_decision st)"

definition step_degraded :: "gotime \<Rightarrow> failover_policy \<Rightarrow> bool \<Rightarrow> transport_state \<Rightarrow> decision" where
  "step_degraded now pol failForward st =
     (if failForward \<and> ts_PrimaryHealthy st then
        (plain_decision ((moved WGPrimary now ''operator fail-forward from DEGRADED'' st)
           \<lparr>ts_ConsecutiveFailures := 0\<rparr>))\<lparr>d_CutoverToWG := True\<rparr>
      else if p_AutomaticFailback pol \<and> \<not> ts_PrimaryHealthy st \<and> ts_FallbackHealthy st then
        (plain_decision (moved FailbackInProgress now ''recovering via SSH_TUN from DEGRADED'' st))
          \<lparr>d_CutoverToSSH := True, d_Event := EventFailbackStarted\<rparr>
      else plain_decision st)"

definition Step :: "gotime \<Rightarrow> input \<Rightarrow> decision" where
  "Step clock inp =
     (let pol = ApplyDefaults (i_Policy inp);
          now = (if i_Now inp = 0 then clock else i_Now inp);
          st = refreshed now inp
      in case ts_State st of
           WGPrimary \<Rightarrow> step_wg_primary now pol st
         | FailbackInProgress \<Rightarrow> step_failback_in_progress now st
         | SSHPrimary \<Rightarrow> step_ssh_primary now pol (i_FailForward inp) st
         | Degraded \<Rightarrow> step_degraded now pol (i_FailForward inp) st
         | _ \<Rightarrow> plain_decision st)"

section \<open>What a step can do\<close>

lemma ApplyDefaults_fields [simp]:
  "p_AutomaticFailback (ApplyDefaults p) = p_AutomaticFailback p"
  "p_AutomaticFailforward (ApplyDefaults p) = p_AutomaticFailforward p"
  "p_FailureThreshold (ApplyDefaults p) = (if p_FailureThreshold p = 0 then 3 else p_FailureThreshold p)"
  by (simp_all add: ApplyDefaults_def DefaultFailoverPolicy_def)

lemma refreshed_fields [simp]:
  "ts_PrimaryHealthy (refreshed now inp) = (\<not> PrimaryFailed (i_Primary inp) 2)"
  "ts_FallbackHealthy (refreshed now inp) = FallbackHealthy (i_Fallback inp)"
  "ts_ConsecutiveFailures (refreshed now inp) = ts_ConsecutiveFailures (i_Current inp)"
  "ts_State (refreshed now inp) =
     (if ts_State (i_Current inp) = EmptyMode then WGPrimary else ts_State (i_Current inp))"
  "ts_UpdatedAt (refreshed now inp) = now"
  "ts_NodeID (refreshed now inp) = ts_NodeID (i_Current inp)"
  "ts_BackendID (refreshed now inp) = ts_BackendID (i_Current inp)"
  by (simp_all add: refreshed_def Let_def)

lemma moved_fields [simp]:
  "ts_State (moved m now r st) = m" "ts_LastReason (moved m now r st) = r"
  "ts_ConsecutiveFailures (moved m now r st) = ts_ConsecutiveFailures st"
  "ts_LastTransition (moved m now r st) = now"
  "ts_NodeID (moved m now r st) = ts_NodeID st" "ts_BackendID (moved m now r st) = ts_BackendID st"
  "ts_PrimaryHealthy (moved m now r st) = ts_PrimaryHealthy st"
  "ts_FallbackHealthy (moved m now r st) = ts_FallbackHealthy st"
  by (simp_all add: moved_def)

lemmas step_branch_defs =
  step_wg_primary_def step_failback_in_progress_def step_ssh_primary_def step_degraded_def
  plain_decision_def Let_def

abbreviation primary_ok :: "input \<Rightarrow> bool" where
  "primary_ok inp \<equiv> \<not> PrimaryFailed (i_Primary inp) 2"

abbreviation fallback_ok :: "input \<Rightarrow> bool" where
  "fallback_ok inp \<equiv> FallbackHealthy (i_Fallback inp)"

text \<open>The mode a step starts from, and the threshold it counts to.\<close>

definition mode_of :: "input \<Rightarrow> transport_mode" where
  "mode_of inp = (if ts_State (i_Current inp) = EmptyMode then WGPrimary else ts_State (i_Current inp))"

definition threshold_of :: "failover_policy \<Rightarrow> int" where
  "threshold_of p = (if p_FailureThreshold p = 0 then 3 else p_FailureThreshold p)"

text \<open>
  One equation per mode, over \<open>mode_of\<close>: these rewrite \<open>Step\<close> away in every proof below.
\<close>

lemma Step_by_mode:
  assumes "mode_of inp = m"
  shows "Step c inp =
    (let now = (if i_Now inp = 0 then c else i_Now inp); st = refreshed now inp;
         pol = ApplyDefaults (i_Policy inp)
     in case m of
          WGPrimary \<Rightarrow> step_wg_primary now pol st
        | FailbackInProgress \<Rightarrow> step_failback_in_progress now st
        | SSHPrimary \<Rightarrow> step_ssh_primary now pol (i_FailForward inp) st
        | Degraded \<Rightarrow> step_degraded now pol (i_FailForward inp) st
        | _ \<Rightarrow> plain_decision st)"
  using assms by (simp add: Step_def mode_of_def Let_def)

lemma Step_keeps_key:
  "ts_NodeID (d_Next (Step c inp)) = ts_NodeID (i_Current inp)"
  "ts_BackendID (d_Next (Step c inp)) = ts_BackendID (i_Current inp)"
  by (cases "mode_of inp"; simp add: Step_by_mode step_branch_defs)+

lemma Step_verdicts:
  "ts_PrimaryHealthy (d_Next (Step c inp)) = primary_ok inp"
  "ts_FallbackHealthy (d_Next (Step c inp)) = fallback_ok inp"
  by (cases "mode_of inp"; simp add: Step_by_mode step_branch_defs)+

text \<open>The next mode, the counter and the cutovers as functions of the mode, the verdicts and the policy.\<close>

lemma Step_mode:
  "ts_State (d_Next (Step c inp)) =
     (case mode_of inp of
        WGPrimary \<Rightarrow>
          if primary_ok inp \<or> ts_ConsecutiveFailures (i_Current inp) + 1 < threshold_of (i_Policy inp)
          then WGPrimary
          else if \<not> fallback_ok inp then Degraded
          else if p_AutomaticFailback (i_Policy inp) then FailbackInProgress else WGPrimary
      | FailbackInProgress \<Rightarrow> if fallback_ok inp then SSHPrimary else Degraded
      | SSHPrimary \<Rightarrow>
          if i_FailForward inp then (if primary_ok inp then WGPrimary else SSHPrimary)
          else if fallback_ok inp then SSHPrimary else Degraded
      | Degraded \<Rightarrow>
          if i_FailForward inp \<and> primary_ok inp then WGPrimary
          else if p_AutomaticFailback (i_Policy inp) \<and> \<not> primary_ok inp \<and> fallback_ok inp
            then FailbackInProgress
          else Degraded
      | m \<Rightarrow> m)"
  by (cases "mode_of inp") (auto simp: Step_by_mode step_branch_defs threshold_of_def mode_of_def
      split: if_splits)

lemma Step_failures:
  "ts_ConsecutiveFailures (d_Next (Step c inp)) =
     (case mode_of inp of
        WGPrimary \<Rightarrow> if primary_ok inp then 0 else ts_ConsecutiveFailures (i_Current inp) + 1
      | FailbackInProgress \<Rightarrow> if fallback_ok inp then 0 else ts_ConsecutiveFailures (i_Current inp)
      | SSHPrimary \<Rightarrow> if i_FailForward inp \<and> primary_ok inp then 0 else ts_ConsecutiveFailures (i_Current inp)
      | Degraded \<Rightarrow> if i_FailForward inp \<and> primary_ok inp then 0 else ts_ConsecutiveFailures (i_Current inp)
      | _ \<Rightarrow> ts_ConsecutiveFailures (i_Current inp))"
  by (cases "mode_of inp") (auto simp: Step_by_mode step_branch_defs split: if_splits)

text \<open>C18: A step asks for the cutover to WireGuard (fail-forward) exactly when the operator asked for
  it, the WireGuard primary is healthy and the pair is on SSH or degraded. The policy's
  \<open>automatic_failforward\<close> has no part in it.\<close>

theorem cutover_to_wg_iff:
  "d_CutoverToWG (Step c inp) \<longleftrightarrow>
     i_FailForward inp \<and> \<not> PrimaryFailed (i_Primary inp) 2 \<and>
     (ts_State (i_Current inp) = SSHPrimary \<or> ts_State (i_Current inp) = Degraded)"
  by (cases "mode_of inp")
    (auto simp: Step_by_mode step_branch_defs mode_of_def split: if_splits)

lemma cutover_to_ssh_cases:
  "d_CutoverToSSH (Step c inp) \<longleftrightarrow>
     p_AutomaticFailback (i_Policy inp) \<and> \<not> primary_ok inp \<and> fallback_ok inp \<and>
     (mode_of inp = WGPrimary \<and>
        threshold_of (i_Policy inp) \<le> ts_ConsecutiveFailures (i_Current inp) + 1
      \<or> mode_of inp = Degraded)"
  by (cases "mode_of inp")
    (auto simp: Step_by_mode step_branch_defs threshold_of_def split: if_splits)

text \<open>A step asks for the cutover to SSH (failback) exactly when the policy allows automatic
  failback, the primary has failed, the fallback is healthy, and either this is the failure that
  reaches the threshold in WireGuard mode or the pair is degraded.\<close>

lemma cutover_to_ssh_iff:
  "d_CutoverToSSH (Step c inp) \<longleftrightarrow>
     p_AutomaticFailback (i_Policy inp) \<and> PrimaryFailed (i_Primary inp) 2 \<and>
     FallbackHealthy (i_Fallback inp) \<and>
     (ts_State (i_Current inp) \<in> {EmptyMode, WGPrimary} \<and>
        threshold_of (i_Policy inp) \<le> ts_ConsecutiveFailures (i_Current inp) + 1
      \<or> ts_State (i_Current inp) = Degraded)"
  by (auto simp: cutover_to_ssh_cases mode_of_def)

text \<open>A step raises the critical alarm exactly when it enters \<open>DEGRADED\<close> from another mode with an
  unhealthy fallback, except from SSH while the WireGuard primary is healthy. From
  \<open>FAILBACK_IN_PROGRESS\<close> the alarm is raised whatever the health of the primary.\<close>

lemma critical_iff:
  "d_Critical (Step c inp) \<longleftrightarrow>
     ts_State (d_Next (Step c inp)) = Degraded \<and> ts_State (i_Current inp) \<noteq> Degraded \<and>
     (PrimaryFailed (i_Primary inp) 2 \<or> ts_State (i_Current inp) = FailbackInProgress)"
  by (cases "mode_of inp")
    (auto simp: Step_by_mode step_branch_defs mode_of_def threshold_of_def split: if_splits)

section \<open>Rounds\<close>

text \<open>
  A round of the agent runs \<open>Step\<close> on the state the round before it stored (any clock, and
  whatever the checks report). \<open>mode_edge\<close> is the graph of the modes.
\<close>

inductive round :: "transport_state \<Rightarrow> input \<Rightarrow> transport_state \<Rightarrow> bool" where
  round: "round st inp (d_Next (Step c (inp\<lparr>i_Current := st\<rparr>)))"

inductive run :: "transport_state \<Rightarrow> input list \<Rightarrow> transport_state \<Rightarrow> bool" where
  run_Nil: "run st [] st"
| run_snoc: "run st inps st1 \<Longrightarrow> round st1 inp st2 \<Longrightarrow> run st (inps @ [inp]) st2"

inductive mode_edge :: "transport_mode \<Rightarrow> transport_mode \<Rightarrow> bool" where
  stay: "mode_edge m m"
| init: "mode_edge EmptyMode WGPrimary"
| failback: "mode_edge WGPrimary FailbackInProgress"
| init_failback: "mode_edge EmptyMode FailbackInProgress"
| init_degrade: "mode_edge EmptyMode Degraded"
| degrade: "m \<in> {WGPrimary, FailbackInProgress, SSHPrimary} \<Longrightarrow> mode_edge m Degraded"
| complete: "mode_edge FailbackInProgress SSHPrimary"
| forward: "m \<in> {SSHPrimary, Degraded} \<Longrightarrow> mode_edge m WGPrimary"
| recover: "mode_edge Degraded FailbackInProgress"

inductive_simps round_iff: "round st inp st'"
inductive_cases mode_edgeE: "mode_edge m m'"
inductive_cases run_NilE: "run st [] st'"

lemma run_cases_snoc: "run st (inps @ [inp]) st2 \<Longrightarrow> \<exists>st1. run st inps st1 \<and> round st1 inp st2"
  by (erule run.cases) auto

lemma run_Nil_iff [simp]: "run st [] st' \<longleftrightarrow> st' = st"
  by (auto intro: run_Nil elim: run_NilE)

text \<open>The mode after a step is a successor of the mode before it in the documented graph; in
  particular \<open>SSH_PRIMARY\<close> is entered only from \<open>FAILBACK_IN_PROGRESS\<close>.\<close>

lemma step_follows_mode_graph:
  "mode_edge (ts_State (i_Current inp)) (ts_State (d_Next (Step c inp)))"
  by (cases "ts_State (i_Current inp)") (auto simp: Step_mode mode_of_def intro: mode_edge.intros)

lemma round_mode:
  assumes "round st inp st'"
  obtains c where "st' = d_Next (Step c (inp\<lparr>i_Current := st\<rparr>))"
  using assms by (auto simp: round_iff)

text \<open>The modes that traffic leaves only by an operator's request.\<close>

definition off_wg :: "transport_mode \<Rightarrow> bool" where
  "off_wg m \<longleftrightarrow> m \<in> {FailbackInProgress, SSHPrimary, Degraded}"

lemma round_off_wg: "round st inp st' \<Longrightarrow> \<not> i_FailForward inp \<Longrightarrow> off_wg (ts_State st) \<Longrightarrow> off_wg (ts_State st')"
  by (elim round_mode) (auto simp: Step_mode mode_of_def off_wg_def)

text \<open>C19: Over any number of rounds without an operator's fail-forward request, whatever the policies
  say and the checks report, a pair that has left WireGuard stays off it: no sequence of health
  reports makes the agent fail forward.\<close>

theorem never_fails_forward_alone:
  assumes "run st inps st'" and "off_wg (ts_State st)" and "\<forall>inp \<in> set inps. \<not> i_FailForward inp"
  shows "off_wg (ts_State st')"
  using assms
proof (induction rule: run.induct)
  case (run_snoc st inps st1 inp st2)
  then show ?case using round_off_wg by simp
qed simp

definition sample_state :: "transport_mode \<Rightarrow> int \<Rightarrow> transport_state" where
  "sample_state m k =
     \<lparr>ts_NodeID = ''n'', ts_BackendID = ''b'', ts_State = m, ts_ConsecutiveFailures = k,
      ts_PrimaryHealthy = True, ts_FallbackHealthy = False, ts_LastTransition = 0, ts_LastReason = [],
      ts_UpdatedAt = 0\<rparr>"

definition sample_input :: "failover_policy \<Rightarrow> bool \<Rightarrow> bool \<Rightarrow> input" where
  "sample_input pol primary fallback =
     \<lparr>i_Current = sample_state WGPrimary 0, i_Policy = pol,
      i_Primary = zero_snapshot\<lparr>s_InterfacePresent := primary\<rparr>,
      i_Fallback = zero_snapshot\<lparr>s_InterfacePresent := fallback, s_UnitActive := fallback,
                                 s_OverlayReachable := fallback\<rparr>,
      i_FailForward = False, i_Now = 1\<rparr>"

lemma run_one: "run st [inp] (d_Next (Step c (inp\<lparr>i_Current := st\<rparr>)))"
  using run_snoc [OF run_Nil round] by (metis append_Nil)

lemma never_fails_forward_alone_witness:
  "off_wg (ts_State (d_Next (Step 0 ((sample_input (DefaultFailoverPolicy\<lparr>p_AutomaticFailforward := True\<rparr>)
     True False)\<lparr>i_Current := sample_state SSHPrimary 0\<rparr>))))"
  by (rule never_fails_forward_alone [OF run_one])
    (simp_all add: off_wg_def sample_state_def sample_input_def)

section \<open>Counting failures\<close>

definition failing :: "int \<Rightarrow> input \<Rightarrow> bool" where
  "failing th inp \<longleftrightarrow>
     PrimaryFailed (i_Primary inp) 2 \<and> FallbackHealthy (i_Fallback inp) \<and>
     p_AutomaticFailback (i_Policy inp) \<and> threshold_of (i_Policy inp) = th"

lemma round_failing:
  assumes "round st inp st'" and "failing th inp"
  shows "ts_State st = WGPrimary \<Longrightarrow>
           ts_ConsecutiveFailures st' = ts_ConsecutiveFailures st + 1 \<and>
           ts_State st' = (if ts_ConsecutiveFailures st + 1 < th then WGPrimary else FailbackInProgress)"
    and "ts_State st = FailbackInProgress \<Longrightarrow> ts_State st' = SSHPrimary"
    and "ts_State st = SSHPrimary \<Longrightarrow> ts_State st' = SSHPrimary"
proof -
  obtain c where st': "st' = d_Next (Step c (inp\<lparr>i_Current := st\<rparr>))"
    using assms(1) by (rule round_mode)
  show "ts_State st = WGPrimary \<Longrightarrow>
          ts_ConsecutiveFailures st' = ts_ConsecutiveFailures st + 1 \<and>
          ts_State st' = (if ts_ConsecutiveFailures st + 1 < th then WGPrimary else FailbackInProgress)"
    and "ts_State st = FailbackInProgress \<Longrightarrow> ts_State st' = SSHPrimary"
    and "ts_State st = SSHPrimary \<Longrightarrow> ts_State st' = SSHPrimary"
    using assms(2) unfolding st' by (auto simp: Step_mode Step_failures mode_of_def failing_def)
qed


text \<open>The number of failing rounds at the end of a run.\<close>

definition trailing_failures :: "input list \<Rightarrow> nat" where
  "trailing_failures inps = length (takeWhile (\<lambda>inp. PrimaryFailed (i_Primary inp) 2) (rev inps))"

lemma trailing_failures_snoc [simp]:
  "trailing_failures (inps @ [inp]) =
     (if PrimaryFailed (i_Primary inp) 2 then Suc (trailing_failures inps) else 0)"
  by (simp add: trailing_failures_def)

lemma failures_bounded:
  assumes "run st inps st'" and "ts_ConsecutiveFailures st \<le> 0"
    and "ts_State st' = WGPrimary \<or> ts_State st' = EmptyMode"
  shows "ts_ConsecutiveFailures st' \<le> int (trailing_failures inps)"
  using assms
proof (induction rule: run.induct)
  case (run_Nil st)
  then show ?case by simp
next
  case (run_snoc st inps st1 inp st2)
  obtain c where st2: "st2 = d_Next (Step c (inp\<lparr>i_Current := st1\<rparr>))"
    using run_snoc.hyps(2) by (rule round_mode)
  show ?case
    using run_snoc.IH run_snoc.prems unfolding st2
    by (cases "ts_State st1") (auto simp: Step_mode Step_failures mode_of_def split: if_splits)
qed

text \<open>C21: A failback out of WireGuard mode is preceded by a full threshold of consecutive failing
  rounds: one healthy round anywhere among the last ones and the agent does not fail back.\<close>

theorem failback_needs_consecutive_failures:
  assumes "run st inps st'" and "ts_ConsecutiveFailures st \<le> 0"
    and "ts_State st' = WGPrimary"
    and "d_CutoverToSSH (Step c (inp\<lparr>i_Current := st'\<rparr>))"
  shows "threshold_of (i_Policy inp) \<le> int (trailing_failures (inps @ [inp]))"
proof -
  have "PrimaryFailed (i_Primary inp) 2"
    and "threshold_of (i_Policy inp) \<le> ts_ConsecutiveFailures st' + 1"
    using assms(3,4) by (auto simp: cutover_to_ssh_cases mode_of_def)
  with failures_bounded [OF assms(1,2)] assms(3) show ?thesis by simp
qed


lemma failback_needs_consecutive_failures_witness:
  "threshold_of (DefaultFailoverPolicy\<lparr>p_FailureThreshold := 1\<rparr>) \<le>
     int (trailing_failures ([] @ [sample_input (DefaultFailoverPolicy\<lparr>p_FailureThreshold := 1\<rparr>) False True]))"
  using failback_needs_consecutive_failures [OF run_Nil [of "sample_state WGPrimary 0"], of 0
      "sample_input (DefaultFailoverPolicy\<lparr>p_FailureThreshold := 1\<rparr>) False True"]
  by (simp add: sample_state_def sample_input_def cutover_to_ssh_cases mode_of_def PrimaryFailed_iff
      FallbackHealthy_def zero_snapshot_def threshold_of_def DefaultFailoverPolicy_def)

end
