(* ===== verification/StateFile.thy ===== *)
theory StateFile
  imports Transport
begin

text \<open>
  The persisted transport states of a node (src/internal/failover/state.go): the file
  \<open>transport-state.json\<close>, its \<open>Get\<close> and \<open>Put\<close> by node and backend, and \<open>Load\<close> and \<open>Save\<close> with
  the write to a temporary file and the rename.

  The JSON text is encoding/json's: \<open>Load\<close> and \<open>Save\<close> take the codec of the struct as an argument.

  The locale \<open>keyed_store\<close> is the contract of \<open>Get\<close> and \<open>Put\<close>; the round of the failover controller
  uses nothing else of them.
\<close>

record state_file =
  sf_Version :: int
  sf_UpdatedAt :: gotime
  sf_Entries :: "transport_state list"

record state_codec =
  jc_marshal :: "state_file \<Rightarrow> goerr + string"
  jc_unmarshal :: "string \<Rightarrow> goerr + state_file"

definition stateVersion :: int where "stateVersion = 1"

definition StatePath :: "string \<Rightarrow> string" where
  "StatePath dir = path_join dir ''transport-state.json''"

definition empty_file :: state_file where
  "empty_file = \<lparr>sf_Version = stateVersion, sf_UpdatedAt = 0, sf_Entries = []\<rparr>"

definition Load :: "'h os \<Rightarrow> state_codec \<Rightarrow> string \<Rightarrow> ('h, goerr, state_file) act" where
  "Load os jc dir h =
     (case os_read os (StatePath dir) h of
        FileMissing \<Rightarrow> (Inr empty_file, h)
      | FileError e \<Rightarrow> (Inl e, h)
      | FileData b \<Rightarrow>
          (case jc_unmarshal jc b of
             Inl e \<Rightarrow> (Inl (wrapf ''transport-state.json: '' e []), h)
           | Inr f \<Rightarrow> (Inr f, h)))"

definition Save :: "'h os \<Rightarrow> state_codec \<Rightarrow> string \<Rightarrow> state_file \<Rightarrow> ('h, goerr, unit) act" where
  "Save os jc dir f =
     bindA (errA (os_mkdir os dir)) (\<lambda>_ h.
       case jc_marshal jc (f\<lparr>sf_Version := stateVersion, sf_UpdatedAt := os_now os h\<rparr>) of
         Inl e \<Rightarrow> (Inl e, h)
       | Inr b \<Rightarrow>
           bindA (errA (os_write os (StatePath dir @ ''.tmp'') b))
             (\<lambda>_. errA (os_rename os (StatePath dir @ ''.tmp'') (StatePath dir))) h)"

definition has_key :: "ident \<Rightarrow> ident \<Rightarrow> transport_state \<Rightarrow> bool" where
  "has_key node be e \<longleftrightarrow> ts_NodeID e = node \<and> ts_BackendID e = be"

definition initial_state :: "ident \<Rightarrow> ident \<Rightarrow> transport_state" where
  "initial_state node be =
     \<lparr>ts_NodeID = node, ts_BackendID = be, ts_State = WGPrimary, ts_ConsecutiveFailures = 0,
      ts_PrimaryHealthy = False, ts_FallbackHealthy = False, ts_LastTransition = 0,
      ts_LastReason = [], ts_UpdatedAt = 0\<rparr>"

definition Get :: "transport_state list \<Rightarrow> ident \<Rightarrow> ident \<Rightarrow> transport_state" where
  "Get entries node be =
     (case find (has_key node be) entries of Some e \<Rightarrow> e | None \<Rightarrow> initial_state node be)"

fun Put :: "transport_state list \<Rightarrow> transport_state \<Rightarrow> transport_state list" where
  "Put [] st = [st]"
| "Put (e # es) st =
     (if has_key (ts_NodeID st) (ts_BackendID st) e then st # es else e # Put es st)"

section \<open>The contract of a keyed store\<close>

text \<open>
  What the controller relies on: a lookup returns what was stored last under its key, storing keeps
  every other key, and a lookup always answers for the key asked.
\<close>

locale keyed_store =
  fixes lookup :: "'s \<Rightarrow> 'k \<Rightarrow> 'v" and store :: "'s \<Rightarrow> 'v \<Rightarrow> 's" and key :: "'v \<Rightarrow> 'k"
  assumes lookup_same: "lookup (store s v) (key v) = v"
    and lookup_other: "k \<noteq> key v \<Longrightarrow> lookup (store s v) k = lookup s k"
    and key_lookup: "key (lookup s k) = k"
begin

lemma lookup_store: "lookup (store s v) k = (if k = key v then v else lookup s k)"
  by (simp add: lookup_same lookup_other)

lemma lookup_fold_other: "k \<notin> key ` set vs \<Longrightarrow> lookup (foldl store s vs) k = lookup s k"
  by (induction vs arbitrary: s) (auto simp: lookup_store)

lemma lookup_fold:
  "distinct (map key vs) \<Longrightarrow> v \<in> set vs \<Longrightarrow> lookup (foldl store s vs) (key v) = v"
proof (induction vs arbitrary: s)
  case (Cons w ws)
  show ?case
  proof (cases "v = w")
    case True
    then show ?thesis using Cons.prems by (simp add: lookup_fold_other lookup_store)
  next
    case False
    then show ?thesis using Cons by auto
  qed
qed simp

text \<open>A loop that reads a key, computes its next value and stores it.\<close>

lemma lookup_update:
  assumes "\<And>v. key (f v) = key v"
  shows "lookup (store s (f (lookup s k))) k' = (if k' = k then f (lookup s k) else lookup s k')"
  by (simp add: lookup_store assms key_lookup)

end

lemma has_key_self [simp]: "has_key (ts_NodeID st) (ts_BackendID st) st"
  by (simp add: has_key_def)

lemma find_Put:
  "find (has_key n b) (Put es st) =
     (if n = ts_NodeID st \<and> b = ts_BackendID st then Some st else find (has_key n b) es)"
  by (induction es st rule: Put.induct) (auto simp: has_key_def [abs_def])

lemma has_key_find: "find (has_key n b) es = Some e \<Longrightarrow> ts_NodeID e = n \<and> ts_BackendID e = b"
  by (auto simp: find_Some_iff has_key_def)

interpretation ts: keyed_store "\<lambda>es k. Get es (fst k) (snd k)" Put "\<lambda>st. (ts_NodeID st, ts_BackendID st)"
  by unfold_locales
    (auto simp: Get_def find_Put initial_state_def dest: has_key_find split: option.splits)

text \<open>The entries stay one per key, in the order they were first stored.\<close>

definition entry_keys :: "transport_state list \<Rightarrow> (ident \<times> ident) list" where
  "entry_keys es = map (\<lambda>e. (ts_NodeID e, ts_BackendID e)) es"

lemma Put_keys:
  "entry_keys (Put es st) =
     (if (ts_NodeID st, ts_BackendID st) \<in> set (entry_keys es) then entry_keys es
      else entry_keys es @ [(ts_NodeID st, ts_BackendID st)])"
  by (induction es st rule: Put.induct) (auto simp: entry_keys_def has_key_def)

lemma Put_distinct: "distinct (entry_keys es) \<Longrightarrow> distinct (entry_keys (Put es st))"
  by (simp add: Put_keys)

text \<open>C22: The store of transport states keeps one entry per node and backend: after a \<open>Put\<close>, \<open>Get\<close>
  returns the stored state for its key and what it returned before for every other key, and the
  entries' keys stay distinct.\<close>

theorem state_store_correct:
  assumes "distinct (entry_keys es)"
  shows "Get (Put es st) n b = (if n = ts_NodeID st \<and> b = ts_BackendID st then st else Get es n b) \<and>
         distinct (entry_keys (Put es st))"
  using ts.lookup_store [of es st "(n, b)"] Put_distinct [OF assms] by simp

lemma state_store_correct_witness:
  "Get (Put [] (initial_state ''n'' ''b'')) ''n'' ''b'' = initial_state ''n'' ''b'' \<and>
   distinct (entry_keys (Put [] (initial_state ''n'' ''b'')))"
  using state_store_correct [of "[]" "initial_state ''n'' ''b''" "''n''" "''b''"]
  by (simp add: entry_keys_def initial_state_def)

section \<open>The two copies of the entries in a round\<close>

text \<open>
  A round loads the file and keeps \<open>prev := *file\<close>, a copy of the struct: both slices share one array
  until an append outgrows its capacity. \<open>Put\<close> then writes an existing entry through to the copy, too.
  \<open>cp_cap\<close> is the capacity of the array the entries were decoded into.
\<close>

record copies =
  cp_file :: "transport_state list"
  cp_prev :: "transport_state list"
  cp_shared :: bool
  cp_cap :: nat

definition copy_of :: "nat \<Rightarrow> transport_state list \<Rightarrow> copies" where
  "copy_of cap es = \<lparr>cp_file = es, cp_prev = es, cp_shared = True, cp_cap = cap\<rparr>"

definition entry_index :: "transport_state list \<Rightarrow> transport_state \<Rightarrow> nat option" where
  "entry_index es st =
     (if list_ex (has_key (ts_NodeID st) (ts_BackendID st)) es
      then Some (length (takeWhile (\<lambda>e. \<not> has_key (ts_NodeID st) (ts_BackendID st) e) es))
      else None)"

definition Put_copies :: "copies \<Rightarrow> transport_state \<Rightarrow> copies" where
  "Put_copies cp st =
     (case entry_index (cp_file cp) st of
        Some i \<Rightarrow> cp\<lparr>cp_file := (cp_file cp)[i := st],
                     cp_prev := (if cp_shared cp then (cp_prev cp)[i := st] else cp_prev cp)\<rparr>
      | None \<Rightarrow> cp\<lparr>cp_file := cp_file cp @ [st],
                   cp_shared := (cp_shared cp \<and> length (cp_file cp) < cp_cap cp)\<rparr>)"

lemma Put_index:
  "Put es st = (case entry_index es st of Some i \<Rightarrow> es[i := st] | None \<Rightarrow> es @ [st])"
  by (induction es st rule: Put.induct) (auto simp: entry_index_def)

lemma Put_copies_file [simp]: "cp_file (Put_copies cp st) = Put (cp_file cp) st"
  by (simp add: Put_copies_def Put_index split: option.splits)

lemma entry_index_less: "entry_index es st = Some i \<Longrightarrow> i < length es"
  by (induction es arbitrary: i) (auto simp: entry_index_def split: if_splits)

text \<open>As long as the array is shared, the copy is a prefix of the entries: the updated ones.\<close>

definition copies_inv :: "copies \<Rightarrow> bool" where
  "copies_inv cp \<longleftrightarrow> (cp_shared cp \<longrightarrow> cp_prev cp = take (length (cp_prev cp)) (cp_file cp))"

lemma copies_inv_init: "copies_inv (copy_of cap es)"
  by (simp add: copies_inv_def copy_of_def)

lemma copies_inv_Put: "copies_inv cp \<Longrightarrow> copies_inv (Put_copies cp st)"
proof -
  assume inv: "copies_inv cp"
  show ?thesis
  proof (cases "entry_index (cp_file cp) st")
    case None
    have "length (cp_prev cp) \<le> length (cp_file cp)" if "cp_shared cp"
      using inv that by (metis copies_inv_def length_take min.cobounded1)
    with None inv show ?thesis by (simp add: copies_inv_def Put_copies_def)
  next
    case (Some i)
    show ?thesis
    proof (cases "cp_shared cp")
      case True
      then have p: "cp_prev cp = take (length (cp_prev cp)) (cp_file cp)"
        using inv by (simp add: copies_inv_def)
      have "(cp_prev cp)[i := st] = take (length (cp_prev cp)) ((cp_file cp)[i := st])"
        by (subst p) (simp add: take_update_swap)
      moreover have "length (cp_prev cp) \<le> length (cp_file cp)"
        using p by (metis length_take min.cobounded1)
      ultimately show ?thesis using True Some by (simp add: copies_inv_def Put_copies_def)
    qed (simp add: copies_inv_def Put_copies_def Some)
  qed
qed

end
