(* ===== verification/FileLock.thy ===== *)
theory FileLock
  imports CmdExec
begin

text \<open>
  The lock that serialises failover rounds (src/internal/failover/lock.go): an exclusive, non-blocking
  \<open>flock\<close> on \<open>transport.lock\<close>, retried every 50 milliseconds until a deadline, and the metadata the
  holder writes into the file for the operator.

  What the kernel, the context and encoding/json do is the record \<open>'h lock_os\<close>: \<open>lo_pause\<close> is the
  \<open>select\<close> over the context and the 50 millisecond timer, \<open>lo_unmarshal\<close> what \<open>json.Unmarshal\<close> leaves in
  the struct, whose error the code ignores. A file is known by its descriptor.

  The loop of \<open>Acquire\<close> ends only when the clock passes its deadline, so it is a partial function;
  \<open>lock_acquire_returns\<close> shows that it returns.
\<close>

definition Millisecond :: int where "Millisecond = 1000000"
definition LockTimeout :: int where "LockTimeout = 5 * Second"
definition LockTTL :: int where "LockTTL = 30 * Second"

record lock_meta =
  lm_PID :: int
  lm_AcquiredAt :: gotime
  lm_HeartbeatAt :: gotime
  lm_TTLSeconds :: int

record lock =
  lk_Path :: string
  lk_Timeout :: int
  lk_file :: "nat option"

record 'h lock_os =
  lo_ctx :: "'h \<Rightarrow> goerr option"
  lo_open :: "string \<Rightarrow> 'h \<Rightarrow> (goerr + nat) \<times> 'h"
  lo_flock :: "nat \<Rightarrow> 'h \<Rightarrow> goerr option \<times> 'h"
  lo_unlock :: "nat \<Rightarrow> 'h \<Rightarrow> goerr option \<times> 'h"
  lo_close :: "nat \<Rightarrow> 'h \<Rightarrow> goerr option \<times> 'h"
  lo_pause :: "'h \<Rightarrow> goerr option \<times> 'h"
  lo_truncate :: "nat \<Rightarrow> 'h \<Rightarrow> goerr option \<times> 'h"
  lo_seek :: "nat \<Rightarrow> 'h \<Rightarrow> goerr option \<times> 'h"
  lo_write :: "nat \<Rightarrow> string \<Rightarrow> 'h \<Rightarrow> goerr option \<times> 'h"
  lo_pid :: int
  lo_marshal :: "lock_meta \<Rightarrow> string"
  lo_unmarshal :: "string \<Rightarrow> lock_meta"
  lo_rfc3339 :: "gotime \<Rightarrow> string"

definition NewLock :: "string \<Rightarrow> lock" where
  "NewLock dir = \<lparr>lk_Path = path_join dir ''transport.lock'', lk_Timeout = LockTimeout, lk_file = None\<rparr>"

definition writeMeta :: "'h os \<Rightarrow> 'h lock_os \<Rightarrow> nat \<Rightarrow> ('h, goerr, unit) act" where
  "writeMeta os lo fd h0 =
     (let m = \<lparr>lm_PID = lo_pid lo, lm_AcquiredAt = os_now os h0, lm_HeartbeatAt = os_now os h0,
               lm_TTLSeconds = LockTTL div Second\<rparr>
      in bindA (errA (lo_truncate lo fd)) (\<lambda>_.
         bindA (errA (lo_seek lo fd)) (\<lambda>_. errA (lo_write lo fd (lo_marshal lo m)))) h0)"

definition zero_meta :: lock_meta where
  "zero_meta = \<lparr>lm_PID = 0, lm_AcquiredAt = 0, lm_HeartbeatAt = 0, lm_TTLSeconds = 0\<rparr>"

definition readMeta :: "'h os \<Rightarrow> 'h lock_os \<Rightarrow> lock \<Rightarrow> 'h \<Rightarrow> lock_meta" where
  "readMeta os lo l h = (case os_read os (lk_Path l) h of FileData b \<Rightarrow> lo_unmarshal lo b | _ \<Rightarrow> zero_meta)"

text \<open>The dash in the message is U+2014, three bytes.\<close>

definition modelLockTimeout :: "'h lock_os \<Rightarrow> lock_meta \<Rightarrow> goerr" where
  "modelLockTimeout lo m =
     Plain (''LOCK_TIMEOUT: could not acquire flock on transport.lock within 5s (ttl=30s); holder_pid='' @ Itoa (lm_PID m) @
       '' heartbeat='' @ lo_rfc3339 lo (lm_HeartbeatAt m) @ '' '' @ [CHR 0xE2, CHR 0x80, CHR 0x94] @ '' not stealing a live lock'')"

partial_function (option) acquire_loop ::
    "'h os \<Rightarrow> 'h lock_os \<Rightarrow> gotime \<Rightarrow> lock \<Rightarrow> 'h \<Rightarrow> (goerr option \<times> lock \<times> 'h) option" where
  "acquire_loop os lo deadline l h =
     (case lo_ctx lo h of
        Some e \<Rightarrow> Some (Some e, l, h)
      | None \<Rightarrow>
          (case lo_open lo (lk_Path l) h of
             (Inl e, h1) \<Rightarrow> Some (Some e, l, h1)
           | (Inr fd, h1) \<Rightarrow>
               (case lo_flock lo fd h1 of
                  (None, h2) \<Rightarrow> Some (None, l\<lparr>lk_file := Some fd\<rparr>, snd (writeMeta os lo fd h2))
                | (Some _, h2) \<Rightarrow>
                    (case lo_close lo fd h2 of (_, h3) \<Rightarrow>
                      if deadline < os_now os h3 then Some (Some (modelLockTimeout lo (readMeta os lo l h3)), l, h3)
                      else (case lo_pause lo h3 of
                              (Some e, h4) \<Rightarrow> Some (Some e, l, h4)
                            | (None, h4) \<Rightarrow> acquire_loop os lo deadline l h4)))))"

definition Acquire :: "'h os \<Rightarrow> 'h lock_os \<Rightarrow> lock \<Rightarrow> 'h \<Rightarrow> (goerr option \<times> lock \<times> 'h) option" where
  "Acquire os lo l0 h0 =
     (let l = (if lk_Timeout l0 = 0 then l0\<lparr>lk_Timeout := LockTimeout\<rparr> else l0)
      in case os_mkdir os (path_dir (lk_Path l)) h0 of
           (Some e, h) \<Rightarrow> Some (Some e, l, h)
         | (None, h) \<Rightarrow> acquire_loop os lo (os_now os h + lk_Timeout l) l h)"

definition Release :: "'h lock_os \<Rightarrow> (lock \<times> 'h, goerr, unit) act" where
  "Release lo = (\<lambda>(l, h).
     case lk_file l of
       None \<Rightarrow> (Inr (), (l, h))
     | Some fd \<Rightarrow>
         (case lo_unlock lo fd h of (_, h1) \<Rightarrow>
           (case lo_close lo fd h1 of (err, h2) \<Rightarrow>
             ((case err of None \<Rightarrow> Inr () | Some e \<Rightarrow> Inl e), (l\<lparr>lk_file := None\<rparr>, h2)))))"

definition Heartbeat :: "'h os \<Rightarrow> 'h lock_os \<Rightarrow> (lock \<times> 'h, goerr, unit) act" where
  "Heartbeat os lo = (\<lambda>(l, h).
     case lk_file l of
       None \<Rightarrow> (Inl (Plain ''lock not held''), (l, h))
     | Some fd \<Rightarrow> liftH (writeMeta os lo fd) (l, h))"

section \<open>The lock is never stolen\<close>

lemma acquire_loop_locked:
  assumes "acquire_loop os lo deadline l h = Some r"
  shows "fst r = None \<longrightarrow> (\<exists>fd h1 h2. lk_file (fst (snd r)) = Some fd \<and> lo_flock lo fd h1 = (None, h2) \<and>
    snd (snd r) = snd (writeMeta os lo fd h2))"
proof (rule acquire_loop.raw_induct [OF _ assms])
  fix f os lo deadline l h r
  assume IH: "\<And>os lo deadline l h r. f os lo deadline l h = Some r \<Longrightarrow> fst r = None \<longrightarrow>
      (\<exists>fd h1 h2. lk_file (fst (snd r)) = Some fd \<and> lo_flock lo fd h1 = (None, h2) \<and> snd (snd r) = snd (writeMeta os lo fd h2))"
    and "(case lo_ctx lo h of Some e \<Rightarrow> Some (Some e, l, h)
      | None \<Rightarrow>
          (case lo_open lo (lk_Path l) h of
             (Inl e, h1) \<Rightarrow> Some (Some e, l, h1)
           | (Inr fd, h1) \<Rightarrow>
               (case lo_flock lo fd h1 of
                  (None, h2) \<Rightarrow> Some (None, l\<lparr>lk_file := Some fd\<rparr>, snd (writeMeta os lo fd h2))
                | (Some _, h2) \<Rightarrow>
                    (case lo_close lo fd h2 of (_, h3) \<Rightarrow>
                      if deadline < os_now os h3 then Some (Some (modelLockTimeout lo (readMeta os lo l h3)), l, h3)
                      else (case lo_pause lo h3 of
                              (Some e, h4) \<Rightarrow> Some (Some e, l, h4)
                            | (None, h4) \<Rightarrow> f os lo deadline l h4))))) = Some r"
  then show "fst r = None \<longrightarrow> (\<exists>fd h1 h2. lk_file (fst (snd r)) = Some fd \<and> lo_flock lo fd h1 = (None, h2) \<and>
      snd (snd r) = snd (writeMeta os lo fd h2))"
    by (simp split: option.splits prod.splits sum.splits if_splits; fastforce)
qed

text \<open>C36: A lock is held only through the kernel: on every host, \<open>Acquire\<close> reports success only when the
  exclusive \<open>flock\<close> on the file it keeps succeeded, and nothing happened behind it but the writing
  of the metadata. A lock held by another process is waited for or given up, never broken.\<close>

theorem lock_held_only_by_flock:
  assumes "Acquire os lo l h = Some (None, l', h')"
  shows "\<exists>fd h1 h2. lk_file l' = Some fd \<and> lo_flock lo fd h1 = (None, h2) \<and> h' = snd (writeMeta os lo fd h2)"
  using assms acquire_loop_locked by (fastforce simp: Acquire_def Let_def split: prod.splits option.splits)

section \<open>Waiting ends\<close>

text \<open>What the loop relies on of the clock: no call turns it back, and a completed pause took its
  50 milliseconds.\<close>

definition clock_runs :: "'h os \<Rightarrow> 'h lock_os \<Rightarrow> bool" where
  "clock_runs os lo \<longleftrightarrow>
     (\<forall>p h. os_now os h \<le> os_now os (snd (lo_open lo p h))) \<and>
     (\<forall>fd h. os_now os h \<le> os_now os (snd (lo_flock lo fd h))) \<and>
     (\<forall>fd h. os_now os h \<le> os_now os (snd (lo_close lo fd h))) \<and>
     (\<forall>h h'. lo_pause lo h = (None, h') \<longrightarrow> os_now os h + 50 * Millisecond \<le> os_now os h')"

lemma acquire_loop_returns:
  assumes "clock_runs os lo"
  shows "\<exists>r. acquire_loop os lo deadline l h = Some r"
proof (induction "nat (deadline + 1 - os_now os h)" arbitrary: h rule: less_induct)
  case less
  obtain o1 h1 where 1: "lo_open lo (lk_Path l) h = (o1, h1)" by fastforce
  show ?case
  proof (cases "lo_ctx lo h = None \<and> \<not> isl o1")
    case True
    then obtain fd where fd: "o1 = Inr fd" by (cases o1) auto
    obtain o2 h2 where 2: "lo_flock lo fd h1 = (o2, h2)" by fastforce
    obtain o3 h3 where 3: "lo_close lo fd h2 = (o3, h3)" by fastforce
    obtain o4 h4 where 4: "lo_pause lo h3 = (o4, h4)" by fastforce
    have mono: "os_now os h \<le> os_now os h3"
      using assms 1 2 3 unfolding clock_runs_def by (metis order_trans snd_conv)
    show ?thesis
    proof (cases "o2 = None \<or> deadline < os_now os h3 \<or> o4 \<noteq> None")
      case False
      then have "os_now os h3 + 50 * Millisecond \<le> os_now os h4" using assms 4 by (auto simp: clock_runs_def)
      then have "nat (deadline + 1 - os_now os h4) < nat (deadline + 1 - os_now os h)"
        using mono False by (simp add: Millisecond_def)
      from less [OF this] show ?thesis
        using True fd False 1 2 3 4 by (subst acquire_loop.simps) (auto split: option.splits)
    qed (use True fd 1 2 3 4 in \<open>subst acquire_loop.simps; auto split: option.splits\<close>)
  next
    case False
    then show ?thesis using 1 by (subst acquire_loop.simps) (auto split: option.splits sum.splits)
  qed
qed

text \<open>Whoever holds the lock and however long, when the clock runs the loop ends, with the lock, the timeout
  or another error.\<close>

lemma lock_acquire_returns:
  assumes "clock_runs os lo"
  shows "\<exists>err l' h'. Acquire os lo l h = Some (err, l', h')"
  using acquire_loop_returns [OF assms] by (fastforce simp: Acquire_def Let_def split: prod.splits option.splits)

section \<open>Instances\<close>

text \<open>A host that is a clock and whether the lock is free; each pause takes 50 milliseconds.\<close>

definition clock_os :: "(gotime \<times> bool) os" where
  "clock_os = \<lparr>os_run = (\<lambda>_ _ _ h. (([], [], None), h)), os_read = (\<lambda>_ _. FileMissing), os_write = (\<lambda>_ _ h. (None, h)),
     os_rename = (\<lambda>_ _ h. (None, h)), os_remove = (\<lambda>_ h. (None, h)), os_mkdir = (\<lambda>_ h. (None, h)), os_now = fst,
     os_stamp = (\<lambda>_ _. []), os_dial = (\<lambda>_ _ _. None)\<rparr>"

definition clock_lock :: "(gotime \<times> bool) lock_os" where
  "clock_lock = \<lparr>lo_ctx = (\<lambda>_. None), lo_open = (\<lambda>_ h. (Inr 3, h)),
     lo_flock = (\<lambda>_ (t, free). (if free then None else Some (Plain ''resource temporarily unavailable''), (t, False))),
     lo_unlock = (\<lambda>_ (t, _). (None, (t, True))), lo_close = (\<lambda>_ h. (None, h)),
     lo_pause = (\<lambda>(t, free). (None, (t + 50 * Millisecond, free))), lo_truncate = (\<lambda>_ h. (None, h)),
     lo_seek = (\<lambda>_ h. (None, h)), lo_write = (\<lambda>_ _ h. (None, h)), lo_pid = 7, lo_marshal = (\<lambda>_. []),
     lo_unmarshal = (\<lambda>_. zero_meta), lo_rfc3339 = (\<lambda>_. [])\<rparr>"

lemma clock_lock_runs: "clock_runs clock_os clock_lock"
  by (simp add: clock_runs_def clock_os_def clock_lock_def)

lemma lock_held_only_by_flock_witness:
  "\<exists>l' h' fd h1 h2. Acquire clock_os clock_lock (NewLock ''/var/lib/tf'') (0, True) = Some (None, l', h') \<and>
     lk_file l' = Some fd \<and> lo_flock clock_lock fd h1 = (None, h2) \<and> h' = snd (writeMeta clock_os clock_lock fd h2)"
proof -
  have "acquire_loop clock_os clock_lock dl l (0, True) = Some (None, l\<lparr>lk_file := Some 3\<rparr>, snd (writeMeta clock_os clock_lock 3 (0, False)))" for dl l
    by (subst acquire_loop.simps) (simp add: clock_lock_def)
  then obtain l' h' where a: "Acquire clock_os clock_lock (NewLock ''/var/lib/tf'') (0, True) = Some (None, l', h')"
    by (simp add: Acquire_def Let_def clock_os_def)
  from lock_held_only_by_flock [OF a] a show ?thesis by blast
qed

end
