(* ===== verification/FailoverCtl.thy ===== *)
theory FailoverCtl
  imports Engine StateFile FileLock
begin

text \<open>
  The failover controller (src/internal/failover/controller.go): one round takes the lock, loads the
  transport states, reconciles the node with the addresses those states call for, checks both
  transports of every backend, steps the state machine, cuts over when it asks for it, and saves the
  states.

  The controller holds its engine by pointer, which may be nil; its SSH manager and health checker
  have no state of their own and are flags. The engine changes along, so the operations act on the
  controller and the host. Slices of the desired state are shared: what the engine normalises in the
  routes it was handed, the controller's own desired state shows afterwards.

  Log messages are left out.
\<close>

record controller =
  co_Dir :: string
  co_Engine :: "engine option"
  co_SSH :: bool
  co_Health :: bool
  co_Live :: bool

section \<open>Reading the desired state\<close>

definition splitTunnels :: "desired_state \<Rightarrow> ident \<Rightarrow> tunnel option \<times> tunnel option" where
  "splitTunnels ds be =
     foldl (\<lambda>(wg, ssh) t.
       if t_BackendID t \<noteq> be then (wg, ssh)
       else if t_Type t = TunnelWireGuard then (Some t, ssh)
       else if t_Type t = TunnelSSHTUN then (wg, Some t)
       else (wg, ssh)) (None, None) (d_Tunnels ds)"

definition policyFor :: "desired_state \<Rightarrow> ident \<Rightarrow> failover_policy" where
  "policyFor ds be =
     (case find (\<lambda>p. p_BackendID p = be) (d_FailoverPolicies ds) of
        Some p \<Rightarrow> p
      | None \<Rightarrow> DefaultFailoverPolicy\<lparr>p_NodeID := n_ID (d_Node ds), p_BackendID := be\<rparr>)"

definition hasIntent :: "desired_state \<Rightarrow> ident \<Rightarrow> bool" where
  "hasIntent ds be \<longleftrightarrow>
     list_ex (\<lambda>i. fi_BackendID i = be \<and> (fi_Action i = ''fail_forward'' \<or> fi_Action i = [])) (d_FailbackIntents ds)"

definition rewriteBackendAddr :: "desired_state \<Rightarrow> ident \<Rightarrow> string \<Rightarrow> desired_state" where
  "rewriteBackendAddr ds be addr =
     ds\<lparr>d_Backends := map (\<lambda>b. if b_ID b = be then b\<lparr>b_Address := addr\<rparr> else b) (d_Backends ds)\<rparr>"

definition applyStoredOverlays :: "desired_state \<Rightarrow> transport_state list \<Rightarrow> desired_state" where
  "applyStoredOverlays ds entries =
     foldl (\<lambda>out e.
       if ts_State e \<noteq> SSHPrimary \<and> ts_State e \<noteq> FailbackInProgress then out
       else case snd (splitTunnels ds (ts_BackendID e)) of
              None \<Rightarrow> out
            | Some ssh \<Rightarrow> rewriteBackendAddr out (ts_BackendID e) (t_RemoteOverlayIP ssh)) ds entries"

section \<open>Health of the two transports\<close>

text \<open>A check whose error is ignored is a failed check.\<close>

definition probe :: "'h os \<Rightarrow> backend \<Rightarrow> desired_state \<Rightarrow> string \<Rightarrow> 'h \<Rightarrow> snapshot \<Rightarrow> snapshot" where
  "probe os b ds addr h s =
     foldl (\<lambda>s m.
       if m_BackendID m \<noteq> b_ID b \<or> m_Protocol m \<noteq> ProtoTCP then s
       else s\<lparr>s_ProbesTotal := s_ProbesTotal s + 1,
              s_ProbesFailed := (if ProbeBackend os addr (m_Protocol m) (m_BackendPort m) h = Inr True
                                 then s_ProbesFailed s else s_ProbesFailed s + 1)\<rparr>) s (d_Mappings ds)"

definition overlay_checks :: "controller \<Rightarrow> 'h os \<Rightarrow> tunnel \<Rightarrow> backend \<Rightarrow> desired_state \<Rightarrow> snapshot \<Rightarrow> 'h \<Rightarrow> snapshot \<times> 'h" where
  "overlay_checks c os t b ds s h =
     (if co_Health c then
        (case OverlayPing os (t_RemoteOverlayIP t) h of (ok, h') \<Rightarrow>
          (probe os b ds (t_RemoteOverlayIP t) h' (s\<lparr>s_OverlayReachable := (ok = Inr True)\<rparr>), h'))
      else (s, h))"

definition primaryHealth :: "controller \<Rightarrow> 'h os \<Rightarrow> tunnel \<Rightarrow> backend \<Rightarrow> desired_state \<Rightarrow> ('h, goerr, snapshot) act" where
  "primaryHealth c os t b ds h =
     (case co_Engine c of
        Some e \<Rightarrow>
          if en_WG e = None then (case overlay_checks c os t b ds zero_snapshot h of (s, h') \<Rightarrow> (Inr s, h'))
          else (case wg_Discover os [t] h of
                  (Inl err, h1) \<Rightarrow> (Inl err, h1)
                | (Inr (acts, _), h1) \<Rightarrow>
                    (let s = (case acts of [] \<Rightarrow> zero_snapshot
                              | a # _ \<Rightarrow> zero_snapshot\<lparr>s_InterfacePresent := a_InterfacePresent a,
                                                       s_HandshakeAgeSec := a_HandshakeAgeSec a\<rparr>)
                     in case overlay_checks c os t b ds s h1 of (s', h') \<Rightarrow> (Inr s', h')))
      | None \<Rightarrow> (case overlay_checks c os t b ds zero_snapshot h of (s, h') \<Rightarrow> (Inr s, h')))"

definition fallbackHealth :: "controller \<Rightarrow> 'h os \<Rightarrow> tunnel \<Rightarrow> backend \<Rightarrow> desired_state \<Rightarrow> ('h, goerr, snapshot) act" where
  "fallbackHealth c os t b ds h =
     (if co_SSH c then
        (case ssh_Discover os t h of
           (Inl err, h1) \<Rightarrow> (Inl err, h1)
         | (Inr (act, _), h1) \<Rightarrow>
             (case overlay_checks c os t b ds
                     (zero_snapshot\<lparr>s_InterfacePresent := a_InterfacePresent act, s_UnitActive := a_ServiceActive act\<rparr>) h1 of
                (s, h') \<Rightarrow> (Inr s, h')))
      else (case overlay_checks c os t b ds zero_snapshot h of (s, h') \<Rightarrow> (Inr s, h')))"

section \<open>Cutover\<close>

text \<open>The engine's round on the controller, and the desired state behind it as its caller sees it.\<close>

definition ctl_reconcile :: "'h os \<Rightarrow> engine \<Rightarrow> desired_state \<Rightarrow> bool \<Rightarrow> controller \<times> 'h \<Rightarrow>
    (goerr option \<times> sni_route list) \<times> controller \<times> 'h" where
  "ctl_reconcile os e eff dryRun = (\<lambda>(c, h).
     case Reconcile os eff dryRun (e, h) of
       ((_, err, eff'), (e', h')) \<Rightarrow> ((err, d_SniRoutes eff'), (c\<lparr>co_Engine := Some e'\<rparr>, h')))"

definition cutover_reconcile :: "'h os \<Rightarrow> desired_state \<Rightarrow> desired_state \<Rightarrow> (controller \<times> 'h, goerr, desired_state) act" where
  "cutover_reconcile os desired eff = (\<lambda>(c, h).
     case co_Engine c of
       None \<Rightarrow> (Inl (Plain ''cutover engine not configured''), (c, h))
     | Some e \<Rightarrow>
         (case ctl_reconcile os e eff False (c, h) of
            ((Some err, _), s) \<Rightarrow> (Inl err, s)
          | ((None, routes), s) \<Rightarrow> (Inr (desired\<lparr>d_SniRoutes := routes\<rparr>), s)))"

definition cutover :: "'h os \<Rightarrow> desired_state \<Rightarrow> backend \<Rightarrow> tunnel option \<Rightarrow> tunnel option \<Rightarrow> decision \<Rightarrow>
    (controller \<times> 'h, goerr, desired_state) act" where
  "cutover os desired b wgTun sshTun dec = (\<lambda>(c, h).
     if d_CutoverToSSH dec then
       (case sshTun of
          None \<Rightarrow> (Inl (ErrConflict ''SSH_TUN tunnel missing; cannot fail back''), (c, h))
        | Some ssh \<Rightarrow>
            bindA (liftH (if co_SSH c then ssh_Apply os ssh else returnA ())) (\<lambda>_.
            bindA (liftH (fallbackHealth c os ssh b desired)) (\<lambda>fb.
            bindA (checkA (if FallbackHealthy fb then None
                           else Some (ErrConflict ''SSH fallback is not healthy; refusing cutover''))) (\<lambda>_.
              cutover_reconcile os desired (rewriteBackendAddr desired (b_ID b) (t_RemoteOverlayIP ssh))))) (c, h))
     else if d_CutoverToWG dec then
       (case wgTun of
          None \<Rightarrow> (Inl (ErrConflict ''WIREGUARD tunnel missing; cannot fail forward''), (c, h))
        | Some wg \<Rightarrow> cutover_reconcile os desired (rewriteBackendAddr desired (b_ID b) (t_RemoteOverlayIP wg)) (c, h))
     else cutover_reconcile os desired desired (c, h))"

section \<open>One round\<close>

text \<open>The loop variables: the desired state, the loaded entries with the copy made of them, the output.\<close>

type_synonym round_acc = "desired_state \<times> copies \<times> transport_state list"

definition round_input :: "desired_state \<Rightarrow> ident \<Rightarrow> transport_state \<Rightarrow> snapshot \<Rightarrow> snapshot \<Rightarrow> gotime \<Rightarrow> input" where
  "round_input ds be cur prim fb now =
     \<lparr>i_Current = cur, i_Policy = policyFor ds be, i_Primary = prim, i_Fallback = fb,
      i_FailForward = hasIntent ds be, i_Now = now\<rparr>"

definition backend_decision :: "controller \<Rightarrow> 'h os \<Rightarrow> desired_state \<Rightarrow> backend \<Rightarrow> tunnel \<Rightarrow> tunnel option \<Rightarrow> transport_state \<Rightarrow>
    ('h, goerr, decision) act" where
  "backend_decision c os ds b wgTun sshTun cur =
     bindA (primaryHealth c os wgTun b ds) (\<lambda>prim.
     bindA (case sshTun of None \<Rightarrow> returnA zero_snapshot | Some ssh \<Rightarrow> fallbackHealth c os ssh b ds) (\<lambda>fb h.
       (Inr (Step (os_now os h) (round_input ds (b_ID b) cur prim fb (os_now os h))), h)))"

definition round_backend :: "'h os \<Rightarrow> state_codec \<Rightarrow> bool \<Rightarrow> backend \<Rightarrow> round_acc \<Rightarrow> (controller \<times> 'h, goerr, round_acc) act" where
  "round_backend os jc live b = (\<lambda>(ds, cp, out) (c, h).
     case splitTunnels ds (b_ID b) of
       (None, _) \<Rightarrow> (Inr (ds, cp, out), (c, h))
     | (Some wg, sshTun) \<Rightarrow>
         (case backend_decision c os ds b wg sshTun (Get (cp_file cp) (n_ID (d_Node ds)) (b_ID b)) h of
            (Inl err, h1) \<Rightarrow> (Inl err, (c, h1))
          | (Inr dec, h1) \<Rightarrow>
              if live \<and> (d_CutoverToSSH dec \<or> d_CutoverToWG dec) then
                (case cutover os ds b (Some wg) sshTun dec (c, h1) of
                   (Inl err, (c', h2)) \<Rightarrow>
                     (Inl err, (c', snd (Save os jc (co_Dir c) (empty_file\<lparr>sf_Entries := cp_prev cp\<rparr>) h2)))
                 | (Inr ds', s2) \<Rightarrow> (Inr (ds', Put_copies cp (d_Next dec), out @ [d_Next dec]), s2))
              else (Inr (ds, Put_copies cp (d_Next dec), out @ [d_Next dec]), (c, h1))))"

text \<open>The part of \<open>RunOnce\<close> under the lock. \<open>cap\<close> is the capacity of the slice the decoder made of the
  entries; a missing file has none.\<close>

definition round_body :: "'h os \<Rightarrow> state_codec \<Rightarrow> (transport_state list \<Rightarrow> nat) \<Rightarrow> desired_state \<Rightarrow> bool \<Rightarrow> controller \<times> 'h \<Rightarrow>
    (bool \<times> transport_state list \<times> goerr option) \<times> controller \<times> 'h" where
  "round_body os jc cap desired dryRun = (\<lambda>(c, h).
     case Load os jc (co_Dir c) h of
       (Inl err, h1) \<Rightarrow> ((False, [], Some err), (c, h1))
     | (Inr file, h1) \<Rightarrow>
         (let live = (co_Live c \<and> \<not> dryRun);
              eff = applyStoredOverlays desired (sf_Entries file);
              ((err, routes), s2) = (case co_Engine c of
                 None \<Rightarrow> ((None, d_SniRoutes desired), (c, h1))
               | Some e \<Rightarrow> ctl_reconcile os e eff (\<not> live) (c, h1))
          in case err of
               Some e \<Rightarrow> ((False, [], Some e), s2)
             | None \<Rightarrow>
                 (case forA (round_backend os jc live) (d_Backends desired)
                         (desired\<lparr>d_SniRoutes := routes\<rparr>, copy_of (cap (sf_Entries file)) (sf_Entries file), []) s2 of
                    (Inl e, s3) \<Rightarrow> ((False, [], Some e), s3)
                  | (Inr (_, cp, out), (c3, h3)) \<Rightarrow>
                      (case Save os jc (co_Dir c) (file\<lparr>sf_Entries := cp_file cp\<rparr>) h3 of
                         (Inl e, h4) \<Rightarrow> ((False, out, Some e), (c3, h4))
                       | (Inr _, h4) \<Rightarrow> ((True, out, None), (c3, h4))))))"

text \<open>The heartbeat is written at the end of a round without error; its own error is ignored, as is that
  of the deferred release. A round returns nothing when the lock never answers.\<close>

definition RunOnce :: "'h os \<Rightarrow> state_codec \<Rightarrow> (transport_state list \<Rightarrow> nat) \<Rightarrow> 'h lock_os \<Rightarrow> desired_state \<Rightarrow> bool \<Rightarrow>
    controller \<times> 'h \<Rightarrow> ((transport_state list \<times> goerr option) \<times> controller \<times> 'h) option" where
  "RunOnce os jc cap lo desired dryRun = (\<lambda>(c, h).
     case Acquire os lo (NewLock (co_Dir c)) h of
       None \<Rightarrow> None
     | Some (Some err, _, h1) \<Rightarrow> Some (([], Some err), (c, h1))
     | Some (None, l, h1) \<Rightarrow>
         (case round_body os jc cap desired dryRun (c, h1) of
            ((done, out, err), (c2, h2)) \<Rightarrow>
              (let h3 = (if done then snd (snd (Heartbeat os lo (l, h2))) else h2)
               in Some ((out, err), (c2, snd (snd (Release lo (l, h3))))))))"

end
