(* ===== verification/FailoverLaws.thy ===== *)
theory FailoverLaws
  imports FailoverCtl EngineHost
begin

text \<open>
  What a round of the failover controller promises: which addresses it reconciles, when traffic moves,
  that it never fails forward alone, that a dry round leaves the engine alone, that it returns with the
  lock released, and what it stores. All but the last hold on every host; storing relies on the laws of
  \<open>file_host\<close> and on the codec.
\<close>

section \<open>The addresses a round hands to the engine\<close>

definition on_ssh :: "transport_state list \<Rightarrow> ident \<Rightarrow> bool" where
  "on_ssh es be \<longleftrightarrow> (\<exists>e \<in> set es. ts_BackendID e = be \<and> ts_State e \<in> {SSHPrimary, FailbackInProgress})"

definition overlay_backend :: "desired_state \<Rightarrow> transport_state list \<Rightarrow> backend \<Rightarrow> backend" where
  "overlay_backend ds es b =
     (if on_ssh es (b_ID b)
      then (case snd (splitTunnels ds (b_ID b)) of None \<Rightarrow> b | Some ssh \<Rightarrow> b\<lparr>b_Address := t_RemoteOverlayIP ssh\<rparr>)
      else b)"

lemma overlay_backend_id [simp]: "b_ID (overlay_backend ds es b) = b_ID b"
  by (simp add: overlay_backend_def split: option.splits)


section \<open>Cutting over\<close>

text \<open>C32: Traffic moves to SSH only over a transport that was just seen healthy: on every host, a cutover to
  SSH that succeeds found an SSH tunnel, checked it after starting its unit and found the unit active, the
  interface present, the overlay reachable and no probe failing, and ended with a round of the engine on
  the desired state with that backend's address moved, which returned no error.\<close>

theorem ssh_cutover_only_if_healthy:
  assumes "cutover os ds b wg sshTun dec (c, h) = (Inr ds', (c', h'))" and "d_CutoverToSSH dec"
  shows "\<exists>ssh fb h1 h2 e res eff s. sshTun = Some ssh \<and> fallbackHealth c os ssh b ds h1 = (Inr fb, h2) \<and>
    s_UnitActive fb \<and> s_InterfacePresent fb \<and> s_OverlayReachable fb \<and> s_ProbesFailed fb = 0 \<and>
    (co_SSH c \<longrightarrow> ssh_Apply os ssh h = (Inr (), h1)) \<and> co_Engine c = Some e \<and>
    Reconcile os (rewriteBackendAddr ds (b_ID b) (t_RemoteOverlayIP ssh)) False (e, h2) = ((res, None, eff), s)"
proof -
  obtain ssh where ssh: "sshTun = Some ssh" using assms by (cases sshTun) (auto simp: cutover_def)
  let ?eff = "rewriteBackendAddr ds (b_ID b) (t_RemoteOverlayIP ssh)"
  have "bindA (liftH (if co_SSH c then ssh_Apply os ssh else returnA ())) (\<lambda>_.
            bindA (liftH (fallbackHealth c os ssh b ds)) (\<lambda>fb.
            bindA (checkA (if FallbackHealthy fb then None
                           else Some (ErrConflict ''SSH fallback is not healthy; refusing cutover''))) (\<lambda>_.
              cutover_reconcile os ds ?eff))) (c, h) = (Inr ds', (c', h'))"
    using assms ssh by (simp add: cutover_def)
  then obtain h1 fb h2 where 1: "(if co_SSH c then ssh_Apply os ssh else returnA ()) h = (Inr (), h1)"
    and 2: "fallbackHealth c os ssh b ds h1 = (Inr fb, h2)" and 3: "FallbackHealthy fb"
    and 4: "cutover_reconcile os ds ?eff (c, h2) = (Inr ds', (c', h'))"
    by (auto simp: bindA_def liftH_def checkA_def split: prod.splits sum.splits if_splits)
  from 4 obtain e res eff s where "co_Engine c = Some e" "Reconcile os ?eff False (e, h2) = ((res, None, eff), s)"
    by (auto simp: cutover_reconcile_def ctl_reconcile_def split: option.splits prod.splits)
  moreover have "co_SSH c \<longrightarrow> ssh_Apply os ssh h = (Inr (), h1)" using 1 by (cases "co_SSH c") simp_all
  moreover have "s_UnitActive fb" "s_InterfacePresent fb" "s_OverlayReachable fb" "s_ProbesFailed fb = 0"
    using 3 by (simp_all add: FallbackHealthy_def)
  ultimately show ?thesis using ssh 2 by blast
qed

section \<open>The loop over the backends\<close>

lemma round_backend_cases:
  assumes "round_backend os jc live b (ds, cp, out) (c, h) = (Inr (ds', cp', out'), s')"
  obtains (skip) "ds' = ds" "cp' = cp" "out' = out"
  | (step) prim fb now st routes where "st = d_Next (Step now (round_input ds (b_ID b)
        (Get (cp_file cp) (n_ID (d_Node ds)) (b_ID b)) prim fb now))"
      "cp' = Put_copies cp st" "out' = out @ [st]" "ds' = ds\<lparr>d_SniRoutes := routes\<rparr>"
proof (cases "splitTunnels ds (b_ID b)")
  case (Pair wg sshTun)
  show thesis
  proof (cases wg)
    case None
    then show ?thesis using assms Pair skip by (simp add: round_backend_def)
  next
    case (Some w)
    let ?cur = "Get (cp_file cp) (n_ID (d_Node ds)) (b_ID b)"
    obtain dec h1 where d: "backend_decision c os ds b w sshTun ?cur h = (Inr dec, h1)"
      using assms Pair Some by (auto simp: round_backend_def split: sum.splits prod.splits)
    then obtain prim fb now where dec: "dec = Step now (round_input ds (b_ID b) ?cur prim fb now)"
      by (auto simp: backend_decision_def bindA_def split: prod.splits sum.splits option.splits)
    show ?thesis
    proof (cases "live \<and> (d_CutoverToSSH dec \<or> d_CutoverToWG dec)")
      case True
      obtain r s2 where r: "cutover os ds b (Some w) sshTun dec (c, h1) = (r, s2)" by (metis surj_pair)
      have "round_backend os jc live b (ds, cp, out) (c, h) =
        (case (r, s2) of (Inl err, (c', h2)) \<Rightarrow>
                     (Inl err, (c', snd (Save os jc (co_Dir c) (empty_file\<lparr>sf_Entries := cp_prev cp\<rparr>) h2)))
                 | (Inr ds', s2) \<Rightarrow> (Inr (ds', Put_copies cp (d_Next dec), out @ [d_Next dec]), s2))"
        using Pair Some d True r by (simp add: round_backend_def)
      then have r': "r = Inr ds'" "cp' = Put_copies cp (d_Next dec)" "out' = out @ [d_Next dec]"
        using assms by (auto split: sum.splits prod.splits)
      then have "\<exists>routes. ds' = ds\<lparr>d_SniRoutes := routes\<rparr>"
        using r by (auto simp: cutover_def cutover_reconcile_def bindA_def liftH_def checkA_def
            split: if_splits option.splits prod.splits sum.splits)
      then show ?thesis using step [OF _ r'(2,3)] dec by auto
    next
      case False
      then have "ds' = ds" "cp' = Put_copies cp (d_Next dec)" "out' = out @ [d_Next dec]"
        using assms Pair Some d by (auto simp: round_backend_def)
      moreover have "ds = ds\<lparr>d_SniRoutes := d_SniRoutes ds\<rparr>" by simp
      ultimately show ?thesis using step dec by metis
    qed
  qed
qed

lemma next_key:
  "ts_NodeID (d_Next (Step now (round_input ds be (Get es n be) prim fb now))) = n"
  "ts_BackendID (d_Next (Step now (round_input ds be (Get es n be) prim fb now))) = be"
  using ts.key_lookup [of es "(n, be)"] by (simp_all add: Step_keeps_key round_input_def)

lemma hasIntent_routes [simp]: "hasIntent (ds\<lparr>d_SniRoutes := r\<rparr>) be = hasIntent ds be"
  by (simp add: hasIntent_def)

lemma Step_off_wg:
  assumes "off_wg (ts_State (i_Current inp))" and "\<not> i_FailForward inp"
  shows "off_wg (ts_State (d_Next (Step now inp)))"
  using assms by (auto simp: Step_mode mode_of_def off_wg_def)

lemma loop_off_wg:
  assumes "forA (round_backend os jc live) bs (ds, cp, out) s = (Inr (ds', cp', out'), s')"
    and "\<not> hasIntent ds be" and "off_wg (ts_State (Get (cp_file cp) (n_ID (d_Node ds)) be))"
    and "\<forall>st \<in> set out. ts_BackendID st = be \<longrightarrow> off_wg (ts_State st)"
  shows "\<forall>st \<in> set out'. ts_BackendID st = be \<longrightarrow> off_wg (ts_State st)"
proof -
  let ?P = "\<lambda>(d, cp, out). (\<exists>r. d = ds\<lparr>d_SniRoutes := r\<rparr>) \<and> off_wg (ts_State (Get (cp_file cp) (n_ID (d_Node ds)) be)) \<and>
    (\<forall>st \<in> set out. ts_BackendID st = be \<longrightarrow> off_wg (ts_State st))"
  have "ds = ds\<lparr>d_SniRoutes := d_SniRoutes ds\<rparr>" by simp
  then have "?P (ds, cp, out)" using assms(3,4) by blast
  have "?P (ds', cp', out')"
  proof (rule forA_acc_inv [of bs ?P, OF _ \<open>?P (ds, cp, out)\<close> assms(1)])
    fix b acc s acc' s'
    assume P: "?P acc" and f: "round_backend os jc live b acc s = (Inr acc', s')"
    obtain d1 cp1 out1 where acc: "acc = (d1, cp1, out1)" by (cases acc)
    obtain d2 cp2 out2 where acc': "acc' = (d2, cp2, out2)" by (cases acc')
    obtain c h where s: "s = (c, h)" by (cases s)
    obtain r where r: "d1 = ds\<lparr>d_SniRoutes := r\<rparr>" using P acc by auto
    from f [unfolded acc acc' s] show "?P acc'"
    proof (cases rule: round_backend_cases)
      case skip
      then show ?thesis using P acc acc' by simp
    next
      case (step prim fb now st routes)
      have k: "ts_NodeID st = n_ID (d_Node ds)" "ts_BackendID st = b_ID b"
        unfolding step(1) by (simp_all add: next_key r)
      have o: "off_wg (ts_State st)" if "b_ID b = be"
        unfolding step(1) using that P acc r assms(2) by (intro Step_off_wg) (auto simp: round_input_def)
      have "off_wg (ts_State (Get (cp_file cp2) (n_ID (d_Node ds)) be))"
        using ts.lookup_store [of "cp_file cp1" st "(n_ID (d_Node ds), be)"] k o P acc step(2) by auto
      then show ?thesis using P acc acc' step(3,4) k o r by auto
    qed
  qed
  then show ?thesis by simp
qed



section \<open>Rounds that are not live\<close>

lemma liftH_fst [simp]: "fst (snd (liftH m s)) = fst s"
  by (simp add: liftH_def split: prod.splits)

lemma bindA_fst:
  assumes "\<And>s. fst (snd (m s)) = fst s" and "\<And>x s. fst (snd (f x s)) = fst s"
  shows "fst (snd (bindA m f s)) = fst s"
proof -
  obtain r s' where 1: "m s = (r, s')" by (metis surj_pair)
  then have "fst s' = fst s" using assms(1) [of s] by simp
  then show ?thesis using 1 assms(2) [of _ s'] by (cases r) (simp_all add: bindA_def)
qed

lemma engine_Discover_keeps: "fst (snd (engine_Discover os d s)) = fst s"
proof -
  have fw: "fst (snd (discover_fw os st s)) = fst s" for st s
    by (cases s) (auto simp: discover_fw_def intro!: trans [OF bindA_fst] split: prod.splits)
  have wg: "fst (snd (discover_wg os d st s)) = fst s" for st s
    by (cases s) (auto simp: discover_wg_def intro!: trans [OF bindA_fst] split: prod.splits)
  have ssh: "fst (snd (discover_ssh os d st s)) = fst s" for st s
  proof (cases s)
    case (Pair e h)
    have "fst (snd (forA (\<lambda>t st. if t_Type t \<noteq> TunnelSSHTUN then returnA st
            else bindA (liftH (ssh_Discover os t)) (\<lambda>(act, conflicts).
              returnA (st\<lparr>as_Tunnels := as_Tunnels st @ [act], as_Conflicts := as_Conflicts st @ conflicts\<rparr>)))
          (d_Tunnels d) st (e, h))) = e"
      by (rule forA_state_inv) (auto intro!: trans [OF bindA_fst] split: prod.splits)
    then show ?thesis using Pair by (simp add: discover_ssh_def)
  qed
  have hp: "fst (snd (discover_hp os d st s)) = fst s" for st s
    by (cases s) (auto simp: discover_hp_def intro!: trans [OF bindA_fst] split: prod.splits option.splits)
  show ?thesis unfolding engine_Discover_def by (intro bindA_fst fw wg ssh hp)
qed

lemma dry_reconcile_keeps:
  assumes "Reconcile os d True s = ((res, err, d'), s')"
  shows "fst s' = fst s \<and> d' = d"
proof -
  have "s' = snd (engine_Discover os d s) \<and> d' = d" using assms by (cases rule: reconcile_cases) auto
  then show ?thesis using engine_Discover_keeps by simp
qed

lemma idle_round_backend: "fst (snd (round_backend os jc False b acc s)) = fst s"
  by (cases acc; cases s) (auto simp: round_backend_def split: prod.splits option.splits sum.splits)

lemma ctl_reconcile_dry:
  assumes "co_Engine c = Some e"
  shows "fst (snd (ctl_reconcile os e d True (c, h))) = c"
proof -
  obtain res err d' e' h' where r: "Reconcile os d True (e, h) = ((res, err, d'), (e', h'))" by (metis surj_pair)
  moreover have "c\<lparr>co_Engine := Some e\<rparr> = c" using assms by simp
  ultimately show ?thesis using dry_reconcile_keeps [OF r] by (simp add: ctl_reconcile_def)
qed

lemma idle_round_body:
  assumes "dryRun \<or> \<not> co_Live c"
  shows "fst (snd (round_body os jc cap ds dryRun (c, h))) = c"
proof (cases "Load os jc (co_Dir c) h")
  case (Pair l h1)
  show ?thesis
  proof (cases l)
    case (Inl e)
    then show ?thesis using Pair by (simp add: round_body_def)
  next
    case (Inr fl)
    have live: "(co_Live c \<and> \<not> dryRun) = False" using assms by blast
    obtain e1 routes c2 h2 where e: "(case co_Engine c of None \<Rightarrow> ((None, d_SniRoutes ds), (c, h1))
        | Some e \<Rightarrow> ctl_reconcile os e (applyStoredOverlays ds (sf_Entries fl)) True (c, h1)) = ((e1, routes), (c2, h2))"
      by (metis surj_pair)
    have c2: "c2 = c"
      using e ctl_reconcile_dry [of c _ os "applyStoredOverlays ds (sf_Entries fl)" h1] by (auto split: option.splits)
    obtain r c3 h3 where r: "forA (round_backend os jc False) (d_Backends ds)
        (ds\<lparr>d_SniRoutes := routes\<rparr>, copy_of (cap (sf_Entries fl)) (sf_Entries fl), []) (c2, h2) = (r, (c3, h3))" by (metis surj_pair)
    have "fst (snd (forA (round_backend os jc False) (d_Backends ds)
        (ds\<lparr>d_SniRoutes := routes\<rparr>, copy_of (cap (sf_Entries fl)) (sf_Entries fl), []) (c2, h2))) = c2"
      by (rule forA_state_inv [where P = "\<lambda>s. fst s = c2"]) (simp_all add: idle_round_backend)
    then have "c3 = c" using r c2 by simp
    then show ?thesis using Pair Inr e r c2
      by (auto simp: round_body_def live Let_def split: option.splits sum.splits prod.splits)
  qed
qed

text \<open>A round that is not live leaves the engine alone: on every host, a dry run, or any round of a
  controller that is not live, ends with the controller it started with, so no manager applied,
  created or logged anything and no cutover was made. (It still stores the states it stepped to.)\<close>

lemma idle_round_keeps_controller:
  assumes "RunOnce os jc cap lo ds dryRun (c, h) = Some (r, (c', h'))" and "dryRun \<or> \<not> co_Live c"
  shows "c' = c"
proof -
  obtain err l h1 where a: "Acquire os lo (NewLock (co_Dir c)) h = Some (err, l, h1)"
    using assms(1) by (auto simp: RunOnce_def split: option.splits)
  obtain fin out e c2 h2 where b: "round_body os jc cap ds dryRun (c, h1) = ((fin, out, e), (c2, h2))" by (metis surj_pair)
  then have "c2 = c" using idle_round_body [OF assms(2), of os jc cap ds h1] by simp
  then show ?thesis using assms(1) a b by (cases err) (auto simp: RunOnce_def Let_def)
qed

lemma acquired_round_returns:
  assumes "Acquire os lo (NewLock (co_Dir c)) h = Some (e, l, h1)"
  shows "\<exists>r s'. RunOnce os jc cap lo ds dryRun (c, h) = Some (r, s')"
proof (cases e)
  case None
  obtain fin out err c2 h2 where "round_body os jc cap ds dryRun (c, h1) = ((fin, out, err), (c2, h2))" by (metis surj_pair)
  then show ?thesis using None assms by (simp add: RunOnce_def Let_def)
next
  case (Some x)
  then show ?thesis using assms by (simp add: RunOnce_def)
qed

text \<open>C34: A round returns: when the clock runs, \<open>RunOnce\<close> ends whoever holds the lock, and with the lock
  it was given back: the state it ends in is the one \<open>Release\<close> left, unless the lock was not obtained.\<close>

theorem round_returns_and_releases:
  assumes "clock_runs os lo"
  shows "\<exists>out err c' h'. RunOnce os jc cap lo ds dryRun (c, h) = Some ((out, err), (c', h')) \<and>
    ((\<exists>e l. Acquire os lo (NewLock (co_Dir c)) h = Some (Some e, l, h') \<and> err = Some e \<and> out = []) \<or>
     (\<exists>l h1 h2. Acquire os lo (NewLock (co_Dir c)) h = Some (None, l, h1) \<and> h' = snd (snd (Release lo (l, h2)))))"
proof -
  obtain e l h1 where a: "Acquire os lo (NewLock (co_Dir c)) h = Some (e, l, h1)"
    using lock_acquire_returns [OF assms] by blast
  obtain fin out err c2 h2 where b: "round_body os jc cap ds dryRun (c, h1) = ((fin, out, err), (c2, h2))" by (metis surj_pair)
  show ?thesis using a b by (cases e) (auto simp: RunOnce_def Let_def)
qed

section \<open>What a round stores\<close>

lemma loop_entries:
  assumes "forA (round_backend os jc live) bs (ds, cp, out) s = (Inr (ds', cp', out'), s')"
    and "cp_file cp = foldl Put es out" and "distinct (map b_ID bs)" and "distinct (map ts_BackendID out)"
    and "ts_BackendID ` set out \<inter> b_ID ` set bs = {}" and "\<forall>st \<in> set out. ts_NodeID st = n_ID (d_Node ds)"
  shows "cp_file cp' = foldl Put es out' \<and> distinct (map ts_BackendID out') \<and> (\<forall>st \<in> set out'. ts_NodeID st = n_ID (d_Node ds))"
  using assms
proof (induction bs arbitrary: ds cp out s)
  case (Cons b bs)
  obtain acc1 s1 where 1: "round_backend os jc live b (ds, cp, out) s = (Inr acc1, s1)"
    and f: "forA (round_backend os jc live) bs acc1 s1 = (Inr (ds', cp', out'), s')"
    using Cons.prems(1) by (auto elim: bindA_InrE)
  obtain ds1 cp1 out1 where acc1: "acc1 = (ds1, cp1, out1)" by (cases acc1)
  obtain c h where s: "s = (c, h)" by (cases s)
  from 1 [unfolded acc1 s] show ?case
  proof (cases rule: round_backend_cases)
    case skip
    then show ?thesis using Cons.IH [OF f [unfolded acc1]] Cons.prems(2-6) by auto
  next
    case (step prim fb now st routes)
    have k: "ts_NodeID st = n_ID (d_Node ds)" "ts_BackendID st = b_ID b" unfolding step(1) by (simp_all add: next_key)
    have "cp_file cp1 = foldl Put es out1" using step(2,3) Cons.prems(2) by simp
    moreover have "distinct (map ts_BackendID out1)" "ts_BackendID ` set out1 \<inter> b_ID ` set bs = {}"
      "\<forall>st \<in> set out1. ts_NodeID st = n_ID (d_Node ds1)"
      using step(3,4) k Cons.prems(3-6) by auto
    ultimately show ?thesis using Cons.IH [OF f [unfolded acc1]] Cons.prems(3) step(4) by simp
  qed
qed simp


text \<open>What the controller relies on of encoding/json: a written file is read back as it was.\<close>

definition codec_ok :: "state_codec \<Rightarrow> bool" where
  "codec_ok jc \<longleftrightarrow> (\<forall>f b. jc_marshal jc f = Inr b \<longrightarrow> jc_unmarshal jc b = Inr f)"

context file_host
begin

lemma save_then_load:
  assumes "Save os jc dir f h = (Inr (), h')" and "codec_ok jc"
  shows "\<exists>t. Load os jc dir h' = (Inr (f\<lparr>sf_Version := stateVersion, sf_UpdatedAt := t\<rparr>), h')"
proof -
  let ?p = "StatePath dir"
  obtain h1 where h1: "os_mkdir os dir h = (None, h1)" using mkdir_files by blast
  let ?f = "f\<lparr>sf_Version := stateVersion, sf_UpdatedAt := os_now os h1\<rparr>"
  obtain b where b: "jc_marshal jc ?f = Inr b"
    using assms(1) h1 by (cases "jc_marshal jc ?f") (auto simp: Save_def bindA_def errA_def)
  obtain h2 where h2: "os_write os (?p @ ''.tmp'') b h1 = (None, h2)" "files h2 = (files h1)(?p @ ''.tmp'' \<mapsto> b)"
    using write_file by blast
  obtain h3 where h3: "os_rename os (?p @ ''.tmp'') ?p h2 = (None, h3)" "files h3 = (files h2)(?p @ ''.tmp'' := None, ?p \<mapsto> b)"
    using rename_file [of h2 "?p @ ''.tmp''" b ?p] h2(2) by auto
  have "h' = h3" using assms(1) h1 b h2 h3 by (simp add: Save_def bindA_def errA_def)
  then have "os_read os ?p h' = FileData b" using h3(2) by (simp add: read_file)
  moreover have "jc_unmarshal jc b = Inr ?f" using assms(2) b by (simp add: codec_ok_def)
  ultimately show ?thesis by (auto simp: Load_def)
qed

end

lemma round_body_done:
  assumes "round_body os jc cap ds dryRun (c, h) = ((True, out, None), (c', h'))"
  obtains fl s2 routes d' cp c3 h3 where
    "forA (round_backend os jc (co_Live c \<and> \<not> dryRun)) (d_Backends ds)
       (ds\<lparr>d_SniRoutes := routes\<rparr>, copy_of (cap (sf_Entries fl)) (sf_Entries fl), []) s2 = (Inr (d', cp, out), (c3, h3))"
    "Save os jc (co_Dir c) (fl\<lparr>sf_Entries := cp_file cp\<rparr>) h3 = (Inr (), h')"
proof -
  obtain l h1 where l: "Load os jc (co_Dir c) h = (l, h1)" by (metis surj_pair)
  then obtain fl where fl: "l = Inr fl" using assms by (cases l) (simp_all add: round_body_def)
  let ?live = "co_Live c \<and> \<not> dryRun" and ?cp = "copy_of (cap (sf_Entries fl)) (sf_Entries fl)"
  obtain e1 routes s2 where e: "(case co_Engine c of None \<Rightarrow> ((None, d_SniRoutes ds), (c, h1))
      | Some e \<Rightarrow> ctl_reconcile os e (applyStoredOverlays ds (sf_Entries fl)) (\<not> ?live) (c, h1)) = ((e1, routes), s2)"
    by (metis surj_pair)
  obtain r c3 h3 where r: "forA (round_backend os jc ?live) (d_Backends ds) (ds\<lparr>d_SniRoutes := routes\<rparr>, ?cp, []) s2 = (r, (c3, h3))"
    by (metis surj_pair)
  have "e1 = None" using assms l fl e by (auto simp: round_body_def Let_def split: option.splits)
  then obtain d' cp out1 where r': "r = Inr (d', cp, out1)"
    using assms l fl e r by (auto simp: round_body_def Let_def split: sum.splits prod.splits)
  obtain x h4 where x: "Save os jc (co_Dir c) (fl\<lparr>sf_Entries := cp_file cp\<rparr>) h3 = (x, h4)" by (metis surj_pair)
  have "out1 = out \<and> x = Inr () \<and> h4 = h'"
    using assms l fl e r r' x \<open>e1 = None\<close> by (cases x) (auto simp: round_body_def Let_def)
  then show thesis using that r r' x by metis
qed


lemma entry_index_None: "entry_index es st = None \<longleftrightarrow> (ts_NodeID st, ts_BackendID st) \<notin> set (entry_keys es)"
proof -
  have "list_ex (has_key n b) es \<longleftrightarrow> (n, b) \<in> set (entry_keys es)" for n b
    by (induction es) (auto simp: entry_keys_def has_key_def)
  then show ?thesis by (simp add: entry_index_def)
qed

text \<open>The copy a failed cutover restores is not the file as it was loaded: it shares the loaded
  entries' array. When every stepped backend had an entry, the restored file holds the new states of the
  backends stepped before the failure; in a first round, with no file, it holds none of them, also of
  those that were cut over.\<close>

lemma restored_copy:
  assumes "\<forall>st \<in> set sts. (ts_NodeID st, ts_BackendID st) \<in> set (entry_keys es)"
  shows "cp_prev (foldl Put_copies (copy_of cap es) sts) = foldl Put es sts \<and>
    cp_prev (foldl Put_copies (copy_of 0 []) sts) = []"
proof
  have "cp_shared (foldl Put_copies (copy_of cap es) sts) \<and>
      cp_prev (foldl Put_copies (copy_of cap es) sts) = foldl Put es sts \<and>
      cp_file (foldl Put_copies (copy_of cap es) sts) = foldl Put es sts \<and> entry_keys (foldl Put es sts) = entry_keys es"
    using assms
  proof (induction sts rule: rev_induct)
    case (snoc st sts)
    let ?cp = "foldl Put_copies (copy_of cap es) sts"
    have IH: "cp_shared ?cp" "cp_prev ?cp = foldl Put es sts" "cp_file ?cp = foldl Put es sts"
      "entry_keys (foldl Put es sts) = entry_keys es" using snoc by simp_all
    then obtain i where i: "entry_index (foldl Put es sts) st = Some i"
      using snoc.prems entry_index_None [of "foldl Put es sts" st] by auto
    have "Put_copies ?cp st = ?cp\<lparr>cp_file := (foldl Put es sts)[i := st], cp_prev := (foldl Put es sts)[i := st]\<rparr>"
      unfolding Put_copies_def [of ?cp st] IH(3) i using IH by simp
    moreover have "Put (foldl Put es sts) st = (foldl Put es sts)[i := st]" unfolding Put_index [of "foldl Put es sts"] i by simp
    moreover have "entry_keys (Put (foldl Put es sts) st) = entry_keys es" using IH(4) snoc.prems by (simp add: Put_keys)
    ultimately show ?case using IH(1) by simp
  qed (simp add: copy_of_def)
  then show "cp_prev (foldl Put_copies (copy_of cap es) sts) = foldl Put es sts" by blast
  have "cp_prev (foldl Put_copies cp sts) = []" if "cp_prev cp = []" for cp
    using that by (induction sts arbitrary: cp) (simp_all add: Put_copies_def split: option.splits)
  then show "cp_prev (foldl Put_copies (copy_of 0 []) sts) = []" by (simp add: copy_of_def)
qed


section \<open>Instances\<close>

text \<open>A controller without an engine, and one whose engine has no manager.\<close>

definition bare_controller :: controller where
  "bare_controller = \<lparr>co_Dir = ''/tf'', co_Engine = None, co_SSH = False, co_Health = False, co_Live = True\<rparr>"

definition ssh_controller :: controller where
  "ssh_controller = bare_controller\<lparr>co_SSH := True, co_Health := True,
     co_Engine := Some \<lparr>en_FW = None, en_WG = None, en_HP = None, en_SSH = False\<rparr>\<rparr>"

definition ssh_decision :: decision where
  "ssh_decision = (plain_decision (initial_state ''n1'' ''b1''))\<lparr>d_CutoverToSSH := True\<rparr>"

definition tun_host :: host where
  "tun_host = new_host\<lparr>h_Links := [(''tun0'', new_link ''tun0'' ''tun'')]\<rparr>"

lemma empty_round:
  assumes "co_Engine c = Some \<lparr>en_FW = None, en_WG = None, en_HP = None, en_SSH = False\<rparr>"
  shows "\<exists>ds' s'. cutover_reconcile os (sample_desired [] [] bs) (sample_desired [] [] bs') (c, h) = (Inr ds', s')"
proof -
  let ?e = "\<lparr>en_FW = None, en_WG = None, en_HP = None, en_SSH = False\<rparr>" and ?d = "sample_desired [] [] bs'"
  let ?a = "zero_state (n_ID (d_Node ?d))"
  have "engine_Discover os ?d (?e, h) = (Inr ?a, (?e, h))"
    by (simp add: engine_Discover_def discover_fw_def discover_wg_def discover_ssh_def discover_hp_def bindA_def)
  moreover have "Plan_Empty (Diff ?d ?a)" "\<not> HasConflicts (Diff ?d ?a)"
    by (simp_all add: Plan_Empty_def HasConflicts_def Diff_def tunnel_actions_def firewall_actions_def haproxy_actions_def
        managed_rules_def zero_state_def sample_desired_def sorted_keys_def)
  ultimately have "Reconcile os ?d False (?e, h) =
    ((\<lparr>re_Plan = Diff ?d ?a, re_Actual = ?a, re_Applied = False, re_Rolled = False\<rparr>, None, ?d), (?e, h))"
    by (simp add: Reconcile_def Let_def)
  then show ?thesis using assms by (simp add: cutover_reconcile_def ctl_reconcile_def)
qed

lemma healthy_ssh:
  "case ssh_Apply th_os sample_ssh tun_host of
     (Inr _, h1) \<Rightarrow> (case fallbackHealth ssh_controller th_os sample_ssh (sample_backend ''b1'' ''10.9.0.2'') (sample_desired [] [] []) h1 of
        (Inr fb, _) \<Rightarrow> FallbackHealthy fb | _ \<Rightarrow> False) | _ \<Rightarrow> False"
  by code_simp


lemma ssh_cutover_only_if_healthy_witness:
  "\<exists>ds' c' h' ssh fb h1 h2 e res eff s.
    cutover th_os (sample_desired [] [] []) (sample_backend ''b1'' ''10.9.0.2'') None (Some sample_ssh) ssh_decision
      (ssh_controller, tun_host) = (Inr ds', (c', h')) \<and>
    Some sample_ssh = Some ssh \<and> fallbackHealth ssh_controller th_os ssh (sample_backend ''b1'' ''10.9.0.2'') (sample_desired [] [] []) h1 = (Inr fb, h2) \<and>
    s_UnitActive fb \<and> s_InterfacePresent fb \<and> s_OverlayReachable fb \<and> s_ProbesFailed fb = 0 \<and>
    ssh_Apply th_os ssh tun_host = (Inr (), h1) \<and> co_Engine ssh_controller = Some e \<and>
    Reconcile th_os (rewriteBackendAddr (sample_desired [] [] []) ''b1'' (t_RemoteOverlayIP ssh)) False (e, h2) = ((res, None, eff), s)"
proof -
  let ?b = "sample_backend ''b1'' ''10.9.0.2''" and ?d = "sample_desired [] [] []"
  obtain h1 fb h2 where 1: "ssh_Apply th_os sample_ssh tun_host = (Inr (), h1)"
    "fallbackHealth ssh_controller th_os sample_ssh ?b ?d h1 = (Inr fb, h2)" "FallbackHealthy fb"
    using healthy_ssh by (auto split: prod.splits sum.splits)
  have r: "rewriteBackendAddr ?d (b_ID ?b) (t_RemoteOverlayIP sample_ssh) = ?d"
    by (simp add: rewriteBackendAddr_def sample_desired_def)
  have c: "co_SSH ssh_controller" "co_Engine ssh_controller = Some \<lparr>en_FW = None, en_WG = None, en_HP = None, en_SSH = False\<rparr>"
    "d_CutoverToSSH ssh_decision" by (simp_all add: ssh_controller_def ssh_decision_def)
  obtain ds' s' where "cutover_reconcile th_os ?d ?d (ssh_controller, h2) = (Inr ds', s')"
    using empty_round [OF c(2), of th_os "[]" "[]" h2] by blast
  then have "cutover th_os ?d ?b None (Some sample_ssh) ssh_decision (ssh_controller, tun_host) = (Inr ds', s')"
    using 1 c r by (simp add: cutover_def bindA_def liftH_def)
  then obtain c' h' where x: "cutover th_os ?d ?b None (Some sample_ssh) ssh_decision (ssh_controller, tun_host) = (Inr ds', (c', h'))"
    by (cases s') simp
  have "b_ID ?b = ''b1''" by (simp add: sample_backend_def)
  with ssh_cutover_only_if_healthy [OF x c(3)] x c(1) show ?thesis by metis
qed

definition fixed_codec :: "state_file \<Rightarrow> state_codec" where
  "fixed_codec f = \<lparr>jc_marshal = (\<lambda>g. if g = f then Inr ''f'' else Inl (Plain ''marshal'')), jc_unmarshal = (\<lambda>_. Inr f)\<rparr>"

lemma fixed_codec_ok: "codec_ok (fixed_codec f)"
  by (simp add: codec_ok_def fixed_codec_def)


lemma idle_round_keeps_controller_witness:
  "\<exists>r c' h'. RunOnce clock_os (fixed_codec empty_file) length clock_lock (sample_desired [] [] []) True (ssh_controller, (0, True)) =
     Some (r, (c', h')) \<and> c' = ssh_controller"
proof -
  obtain e l h1 where a: "Acquire clock_os clock_lock (NewLock (co_Dir ssh_controller)) (0, True) = Some (e, l, h1)"
    using lock_acquire_returns [OF clock_lock_runs] by blast
  obtain r s' where "RunOnce clock_os (fixed_codec empty_file) length clock_lock (sample_desired [] [] []) True (ssh_controller, (0, True)) = Some (r, s')"
    using acquired_round_returns [OF a] by metis
  then have x: "RunOnce clock_os (fixed_codec empty_file) length clock_lock (sample_desired [] [] []) True (ssh_controller, (0, True)) =
      Some (r, (fst s', snd s'))" by (simp only: prod.collapse)
  have "fst s' = ssh_controller" by (rule idle_round_keeps_controller [OF x]) simp
  with x show ?thesis by blast
qed

lemma round_returns_and_releases_witness:
  "\<exists>out err c' h'. RunOnce clock_os (fixed_codec empty_file) length clock_lock (sample_desired [] [] []) False (bare_controller, (0, False)) =
     Some ((out, err), (c', h'))"
  using round_returns_and_releases [OF clock_lock_runs] by blast

lemma restored_copy_witness:
  "cp_prev (foldl Put_copies (copy_of 1 [initial_state ''n'' ''b'']) [(initial_state ''n'' ''b'')\<lparr>ts_State := Degraded\<rparr>]) =
     [(initial_state ''n'' ''b'')\<lparr>ts_State := Degraded\<rparr>] \<and>
   cp_prev (foldl Put_copies (copy_of 0 []) [(initial_state ''n'' ''b'')\<lparr>ts_State := Degraded\<rparr>]) = []"
  using restored_copy [of "[(initial_state ''n'' ''b'')\<lparr>ts_State := Degraded\<rparr>]" "[initial_state ''n'' ''b'']" 1]
  by (simp add: entry_keys_def initial_state_def has_key_def)

text \<open>The state a first round without an engine steps the one backend to.\<close>

definition first_state :: transport_state where
  "first_state = d_Next (Step (h_Now new_host) (round_input (sample_desired [sample_wg] [] [sample_backend ''b1'' ''10.9.0.2'']) ''b1''
     (initial_state ''n1'' ''b1'') zero_snapshot zero_snapshot (h_Now new_host)))"


end
