(* ===== verification/NetIp.thy ===== *)
theory NetIp
  imports Model
begin

text \<open>
  The addresses of Go's \<open>net/netip\<close> as values, for the code that stores them: \<open>ParseAddr\<close> with the eight
  16-bit groups of an IPv6 address, \<open>IsUnspecified\<close>, \<open>IsMulticast\<close>, \<open>Unmap\<close> and \<open>String\<close>.
  \<open>v6_loop_body\<close> ties the parser to the one of theory GoNet, which only tells whether the text parses.
\<close>

section \<open>Parsing\<close>

datatype netip = V4 "nat list" | V6 "nat list" string \<comment> \<open>the groups and the zone\<close>

definition hex_val :: "char \<Rightarrow> nat" where
  "hex_val c = (if is_digit c then digit_val c else if 97 \<le> (of_char c :: nat) then of_char c - 87 else of_char c - 55)"

definition hex_group :: "string \<Rightarrow> nat" where
  "hex_group ds = foldl (\<lambda>acc c. acc * 16 + hex_val c) 0 ds"

definition quad_groups :: "nat list \<Rightarrow> nat list" where
  "quad_groups bs = [bs ! 0 * 256 + bs ! 1, bs ! 2 * 256 + bs ! 3]"

text \<open>The groups read so far and the position of the ellipsis among them.\<close>

fun v6_loop :: "nat \<Rightarrow> nat list \<Rightarrow> nat option \<Rightarrow> string \<Rightarrow> (string \<times> nat list \<times> nat option) option" where
  "v6_loop 0 gs ell s = Some (s, gs, ell)"
| "v6_loop (Suc n) gs ell s =
     (let ds = takeWhile is_hex s; rest = dropWhile is_hex s
      in if length ds = 0 \<or> 4 < length ds then None
         else case rest of
           [] \<Rightarrow> Some ([], gs @ [hex_group ds], ell)
         | c # cs \<Rightarrow>
             if c = CHR ''.'' then
               (if ell = None \<and> length gs \<noteq> 6 then None
                else if 6 < length gs then None
                else case parse_ipv4 s of None \<Rightarrow> None | Some bs \<Rightarrow> Some ([], gs @ quad_groups bs, ell))
             else if c \<noteq> CHR '':'' \<or> cs = [] then None
             else if hd cs = CHR '':'' then
               (if ell \<noteq> None then None
                else if tl cs = [] then Some ([], gs @ [hex_group ds], Some (length gs + 1))
                else v6_loop n (gs @ [hex_group ds]) (Some (length gs + 1)) (tl cs))
             else v6_loop n (gs @ [hex_group ds]) ell cs)"

definition v6_expand :: "nat list \<Rightarrow> nat \<Rightarrow> nat list" where
  "v6_expand gs e = take e gs @ replicate (8 - length gs) 0 @ drop e gs"

definition v6_finish :: "string \<times> nat list \<times> nat option \<Rightarrow> nat list option" where
  "v6_finish x = (case x of (rest, gs, ell) \<Rightarrow>
     if rest \<noteq> [] then None
     else if length gs < 8 then map_option (v6_expand gs) ell
     else if ell = None then Some gs else None)"

definition v6_groups :: "string \<Rightarrow> nat list option" where
  "v6_groups s =
     (let lead = HasPrefix s ''::''; s1 = (if lead then drop 2 s else s)
      in if lead \<and> s1 = [] then Some (replicate 8 0)
         else Option.bind (v6_loop 8 [] (if lead then Some 0 else None) s1) v6_finish)"

definition netip_ParseAddr :: "string \<Rightarrow> netip option" where
  "netip_ParseAddr s =
     (case find (\<lambda>c. c \<in> set ''.:%'') s of
        None \<Rightarrow> None
      | Some c \<Rightarrow>
          if c = CHR ''.'' then map_option V4 (parse_ipv4 s)
          else if c \<noteq> CHR '':'' then None
          else case IndexByte s (CHR ''%'') of
            None \<Rightarrow> map_option (\<lambda>gs. V6 gs []) (v6_groups s)
          | Some i \<Rightarrow> if drop (i + 1) s = [] then None
                      else map_option (\<lambda>gs. V6 gs (drop (i + 1) s)) (v6_groups (take i s)))"

section \<open>Addresses\<close>

fun Zone :: "netip \<Rightarrow> string" where
  "Zone (V4 bs) = []"
| "Zone (V6 gs z) = z"

definition IsUnspecified :: "netip \<Rightarrow> bool" where
  "IsUnspecified ip \<longleftrightarrow> ip = V4 [0, 0, 0, 0] \<or> ip = V6 (replicate 8 0) []"

fun Unmap :: "netip \<Rightarrow> netip" where
  "Unmap (V4 bs) = V4 bs"
| "Unmap (V6 gs z) = (if take 6 gs = [0, 0, 0, 0, 0, 65535]
     then V4 [gs ! 6 div 256, gs ! 6 mod 256, gs ! 7 div 256, gs ! 7 mod 256] else V6 gs z)"

definition IsMulticast :: "netip \<Rightarrow> bool" where
  "IsMulticast ip \<longleftrightarrow> (case Unmap ip of V4 bs \<Rightarrow> hd bs div 16 = 14 | V6 gs z \<Rightarrow> hd gs div 256 = 255)"

section \<open>Printing\<close>

fun appendHex :: "nat \<Rightarrow> string" where
  "appendHex n = (if n < 16 then [hex_digit n] else appendHex (n div 16) @ [hex_digit (n mod 16)])"

declare appendHex.simps [simp del]

text \<open>The first of the longest runs of at least two zero groups: its start and its length, 0 when there is none.\<close>

definition zero_run :: "nat list \<Rightarrow> nat \<times> nat" where
  "zero_run gs = fold (\<lambda>i best. let l = length (takeWhile (\<lambda>g. g = 0) (drop i gs)) in if 2 \<le> l \<and> snd best < l then (i, l) else best)
     [0..<8] (255, 0)"

definition v6_String :: "nat list \<Rightarrow> string" where
  "v6_String gs = (case zero_run gs of (i, l) \<Rightarrow>
     if l = 0 then Join (map appendHex gs) '':''
     else Join (map appendHex (take i gs)) '':'' @ ''::'' @ Join (map appendHex (drop (i + l) gs)) '':'')"

definition zone_suffix :: "string \<Rightarrow> string" where
  "zone_suffix z = (if z = [] then [] else CHR ''%'' # z)"

fun netip_String :: "netip \<Rightarrow> string" where
  "netip_String (V4 bs) = dotted bs"
| "netip_String (V6 gs z) = (case Unmap (V6 gs z) of
     V4 bs \<Rightarrow> ''::ffff:'' @ dotted bs @ zone_suffix z | V6 gs' _ \<Rightarrow> v6_String gs' @ zone_suffix z)"

section \<open>The parser of theory GoNet\<close>

text \<open>The loop of GoNet counts bytes and remembers whether an ellipsis was seen.\<close>

definition counted :: "string \<times> nat list \<times> nat option \<Rightarrow> string \<times> nat \<times> bool" where
  "counted x = (case x of (r, gs, e) \<Rightarrow> (r, 2 * length gs, e \<noteq> None))"

lemma counted: "counted (r, gs, e) = (r, 2 * length gs, e \<noteq> None)"
  by (simp add: counted_def)

lemma v6_loop_body: "parse_ipv6_loop n (2 * length gs) (ell \<noteq> None) s = map_option counted (v6_loop n gs ell s)"
proof (induction n arbitrary: gs ell s)
  case 0
  then show ?case by (simp add: counted_def)
next
  case (Suc n)
  define ds where "ds = takeWhile is_hex s"
  have ih: "map_option counted (v6_loop n (gs @ [hex_group ds]) e t) = parse_ipv6_loop n (2 * length gs + 2) (e \<noteq> None) t" for e t
    using Suc.IH [of "gs @ [hex_group ds]" e t] by (simp add: algebra_simps)
  have six: "2 * length gs \<noteq> 12 \<longleftrightarrow> length gs \<noteq> 6" "16 < 2 * length gs + 4 \<longleftrightarrow> 6 < length gs" by auto
  show ?case
  proof (cases "length ds = 0 \<or> 4 < length ds")
    case True
    then show ?thesis unfolding parse_ipv6_loop.simps v6_loop.simps Let_def ds_def [symmetric] by (simp only: True if_True option.map)
  next
    case False
    show ?thesis
    proof (cases "dropWhile is_hex s")
      case Nil
      show ?thesis using False unfolding parse_ipv6_loop.simps v6_loop.simps Let_def ds_def [symmetric] Nil by (simp add: counted)
    next
      case (Cons c cs)
      then show ?thesis using False unfolding parse_ipv6_loop.simps v6_loop.simps Let_def ds_def [symmetric]
        by (simp add: six ih counted quad_groups_def split: option.split)
    qed
  qed
qed

lemma v6_groups_none: "v6_groups s = None \<longleftrightarrow> \<not> parse_ipv6_body s"
proof -
  have fin: "v6_finish x = None \<longleftrightarrow> \<not> (case counted x of (rest, i, e) \<Rightarrow> rest = [] \<and> (if i < 16 then e else \<not> e))" for x
    by (auto simp: v6_finish_def counted_def split: prod.split)
  show ?thesis
  proof (cases "HasPrefix s ''::''")
    case True
    then show ?thesis using v6_loop_body [of 8 "[]" "Some 0" "drop 2 s"]
      by (cases "v6_loop 8 [] (Some 0) (drop 2 s)") (simp_all add: v6_groups_def parse_ipv6_body_def fin)
  next
    case False
    then show ?thesis using v6_loop_body [of 8 "[]" None s]
      by (cases "v6_loop 8 [] None s") (simp_all add: v6_groups_def parse_ipv6_body_def fin)
  qed
qed

text \<open>Both parsers accept the same texts and read the same zone.\<close>

lemma netip_ParseAddr_GoNet: "map_option Zone (netip_ParseAddr s) = map_option addr_zone (ParseAddr s)"
proof -
  have *: "map_option (\<lambda>gs. V6 gs z) (v6_groups t) = (if parse_ipv6_body t then Some (V6 (the (v6_groups t)) z) else None)" for z t
    using v6_groups_none [of t] by (cases "v6_groups t") auto
  show ?thesis
  proof (cases "IndexByte s (CHR ''%'')")
    case None
    then show ?thesis
      unfolding netip_ParseAddr_def ParseAddr_def parse_ipv6_def None
      by (simp add: option.map_comp comp_def * addr_zone_def split: option.split)
  next
    case (Some i)
    then show ?thesis
      unfolding netip_ParseAddr_def ParseAddr_def parse_ipv6_def Some
      by (simp add: option.map_comp comp_def * addr_zone_def split: option.split)
  qed
qed

section \<open>Printing and parsing\<close>

lemma hex_digit_val: "d < 16 \<Longrightarrow> is_hex (hex_digit d) \<and> hex_val (hex_digit d) = d"
  by (auto simp: hex_digit_def digit_char_def hex_val_def is_hex_def is_digit_def digit_val_def)

lemma hex_group_snoc: "hex_group (ds @ [c]) = hex_group ds * 16 + hex_val c"
  by (simp add: hex_group_def)

lemma appendHex_hex: "c \<in> set (appendHex n) \<Longrightarrow> is_hex c"
proof (induction n rule: appendHex.induct)
  case (1 n)
  then show ?case by (subst (asm) appendHex.simps) (auto simp: hex_digit_val split: if_splits)
qed

lemma hex_group_appendHex [simp]: "hex_group (appendHex n) = n"
proof (induction n rule: appendHex.induct)
  case (1 n)
  then show ?case by (subst appendHex.simps) (simp add: hex_group_snoc hex_digit_val hex_group_def [of "[_]"])
qed

lemma appendHex_nonempty [simp]: "appendHex n \<noteq> []"
  by (subst appendHex.simps) simp

lemma appendHex_length:
  assumes "n < 65536"
  shows "length (appendHex n) \<le> 4"
proof -
  have step: "length (appendHex m) \<le> Suc k" if "m < 16 * b" "\<And>q. q < b \<Longrightarrow> length (appendHex q) \<le> k" for m k b
  proof -
    have "m div 16 < b" using that(1) by (simp add: div_less_iff_less_mult)
    then show ?thesis using that(2) [of "m div 16"] by (subst appendHex.simps) simp
  qed
  have 1: "length (appendHex q) \<le> 1" if "q < 16" for q using that by (subst appendHex.simps) simp
  have 2: "length (appendHex q) \<le> 2" if "q < 256" for q using step [of q 16 1] 1 that by simp
  have 3: "length (appendHex q) \<le> 3" if "q < 4096" for q using step [of q 256 2] 2 that by simp
  show ?thesis using step [of n 4096 3] 3 assms by simp
qed

lemma hex_chars: "\<not> is_hex (CHR '':'')" "\<not> is_hex (CHR ''.'')" "\<not> is_hex (CHR ''%'')"
  by code_simp+

lemma takeWhile_appendHex:
  assumes "r = [] \<or> \<not> is_hex (hd r)"
  shows "takeWhile is_hex (appendHex g @ r) = appendHex g" "dropWhile is_hex (appendHex g @ r) = r"
proof -
  have a: "\<forall>c \<in> set (appendHex g). is_hex c" by (simp add: appendHex_hex)
  show "takeWhile is_hex (appendHex g @ r) = appendHex g" using assms a by (cases r) (simp_all add: takeWhile_append2)
  show "dropWhile is_hex (appendHex g @ r) = r" using assms a by (cases r) (simp_all add: dropWhile_append2)
qed

lemma v6_loop_last: "g < 65536 \<Longrightarrow> v6_loop (Suc n) gs ell (appendHex g) = Some ([], gs @ [g], ell)"
proof -
  assume "g < 65536"
  moreover have "takeWhile is_hex (appendHex g) = appendHex g" "dropWhile is_hex (appendHex g) = []"
    using takeWhile_appendHex [of "[]" g] by (simp_all only: append_Nil2 simp_thms)
  ultimately show ?thesis unfolding v6_loop.simps Let_def using appendHex_length [of g] by (simp only:) simp
qed

lemma v6_loop_group:
  assumes "g < 65536" and "t \<noteq> []" and "hd t \<noteq> CHR '':''"
  shows "v6_loop (Suc n) gs ell (appendHex g @ CHR '':'' # t) = v6_loop n (gs @ [g]) ell t"
  using takeWhile_appendHex [of "CHR '':'' # t" g] appendHex_length [OF assms(1)] assms(2,3) by (simp add: hex_chars)

lemma v6_loop_ellipsis:
  assumes "g < 65536"
  shows "v6_loop (Suc n) gs None (appendHex g @ ''::'' @ t) =
    (if t = [] then Some ([], gs @ [g], Some (length gs + 1)) else v6_loop n (gs @ [g]) (Some (length gs + 1)) t)"
  using takeWhile_appendHex [of "''::'' @ t" g] appendHex_length [OF assms] by (simp add: hex_chars)

definition groups_text :: "nat list \<Rightarrow> string" where
  "groups_text gs = Join (map appendHex gs) '':''"

lemma groups_text_simps: "groups_text [] = []" "groups_text [g] = appendHex g"
  "gs \<noteq> [] \<Longrightarrow> groups_text (g # gs) = appendHex g @ CHR '':'' # groups_text gs"
  by (simp_all add: groups_text_def Join_Cons)

lemma groups_text_hd: "gs \<noteq> [] \<Longrightarrow> groups_text gs \<noteq> [] \<and> is_hex (hd (groups_text gs))"
proof (cases gs)
  case (Cons g gs')
  have "is_hex (hd (appendHex g))" by (rule appendHex_hex [of _ g]) simp
  then show ?thesis using Cons by (cases "gs' = []") (simp_all add: groups_text_simps)
qed simp

lemma v6_loop_text:
  assumes "hs \<noteq> []" and "length hs \<le> n" and "\<forall>g \<in> set hs. g < 65536"
  shows "v6_loop n gs ell (groups_text hs) = Some ([], gs @ hs, ell)"
  using assms
proof (induction hs arbitrary: n gs)
  case (Cons h hs)
  obtain k where n: "n = Suc k" using Cons.prems(2) by (cases n) auto
  show ?case
  proof (cases "hs = []")
    case True
    then show ?thesis using Cons.prems unfolding n True groups_text_simps by (simp add: v6_loop_last del: v6_loop.simps)
  next
    case False
    have "hd (groups_text hs) \<noteq> CHR '':''" using groups_text_hd [OF False] hex_chars(1) by auto
    then show ?thesis using Cons.prems Cons.IH [OF False, of k "gs @ [h]"] groups_text_hd [OF False]
      unfolding n groups_text_simps(3) [OF False] by (simp add: v6_loop_group del: v6_loop.simps)
  qed
qed simp

lemma v6_loop_text_ellipsis:
  assumes "hs \<noteq> []" and "length hs \<le> n" and "\<forall>g \<in> set hs. g < 65536"
  shows "v6_loop n gs None (groups_text hs @ ''::'' @ t) =
    (if t = [] then Some ([], gs @ hs, Some (length gs + length hs)) else v6_loop (n - length hs) (gs @ hs) (Some (length gs + length hs)) t)"
  using assms
proof (induction hs arbitrary: n gs)
  case (Cons h hs)
  obtain k where n: "n = Suc k" using Cons.prems(2) by (cases n) auto
  show ?case
  proof (cases "hs = []")
    case True
    then show ?thesis using Cons.prems v6_loop_ellipsis [of h k gs t] unfolding n True groups_text_simps by (simp del: v6_loop.simps)
  next
    case False
    let ?t = "groups_text hs @ ''::'' @ t"
    have "?t \<noteq> []" "hd ?t \<noteq> CHR '':''" using groups_text_hd [OF False] hex_chars(1) by auto
    then have "v6_loop n gs None (groups_text (h # hs) @ ''::'' @ t) = v6_loop k (gs @ [h]) None ?t"
      using v6_loop_group [of h ?t k gs None] Cons.prems unfolding n groups_text_simps(3) [OF False] by (simp del: v6_loop.simps)
    then show ?thesis using Cons.IH [OF False, of k "gs @ [h]"] Cons.prems by (simp add: n del: v6_loop.simps)
  qed
qed simp

lemma zero_run_is_one:
  assumes "zero_run gs = (i, l)" and "length gs = 8" and "l \<noteq> 0"
  shows "gs = take i gs @ replicate l 0 @ drop (i + l) gs \<and> 2 \<le> l \<and> i + l \<le> 8"
proof -
  define step where "step = (\<lambda>i best. let l = length (takeWhile (\<lambda>g. g = (0::nat)) (drop i gs)) in if 2 \<le> l \<and> snd best < l then (i, l) else best)"
  define ok where "ok = (\<lambda>(i, l). l = 0 \<or> 2 \<le> l \<and> l \<le> length (takeWhile (\<lambda>g. g = 0) (drop i gs)))"
  have "ok (fold step js b)" if "ok b" for js b
    using that by (induction js arbitrary: b) (auto simp: step_def ok_def Let_def)
  then have l: "2 \<le> l" "l \<le> length (takeWhile (\<lambda>g. g = 0) (drop i gs))"
    using assms(1,3) unfolding zero_run_def step_def [symmetric] by (metis (mono_tags) assms(3) case_prod_conv ok_def)+
  have bound: "l \<le> 8 - i" using order_trans [OF l(2) length_takeWhile_le] assms(2) by simp
  have "take l (drop i gs) = replicate l 0"
  proof (rule nth_equalityI)
    fix j assume j: "j < length (take l (drop i gs))"
    then have "takeWhile (\<lambda>g. g = 0) (drop i gs) ! j = drop i gs ! j" using l(2) by (intro takeWhile_nth) simp
    moreover have "takeWhile (\<lambda>g. g = 0) (drop i gs) ! j = 0"
      using set_takeWhileD [OF nth_mem, of j "\<lambda>g. g = 0" "drop i gs"] j l(2) by simp
    ultimately show "take l (drop i gs) ! j = replicate l 0 ! j" using j by simp
  qed (use bound assms(2) in simp)
  then have "gs = take i gs @ replicate l 0 @ drop (i + l) gs"
    by (metis append_take_drop_id drop_drop add.commute)
  then show ?thesis using l bound by auto
qed

lemma no_lead: "gs \<noteq> [] \<Longrightarrow> \<not> HasPrefix (groups_text gs @ t) ''::''"
  using groups_text_hd [of gs] hex_chars(1) by (cases "groups_text gs") auto

lemma v6_groups_String:
  assumes "length gs = 8" and "\<forall>g \<in> set gs. g < 65536"
  shows "v6_groups (v6_String gs) = Some gs"
proof -
  obtain i l where run: "zero_run gs = (i, l)" by fastforce
  have "gs \<noteq> []" using assms(1) by auto
  show ?thesis
  proof (cases "l = 0")
    case True
    have "v6_String gs = groups_text gs" by (simp add: v6_String_def run True groups_text_def)
    then show ?thesis
      using v6_loop_text [of gs 8 "[]" None] no_lead [of gs "[]"] assms \<open>gs \<noteq> []\<close> by (simp add: v6_groups_def v6_finish_def del: v6_loop.simps)
  next
    case False
    define hd_gs tl_gs where "hd_gs = take i gs" and "tl_gs = drop (i + l) gs"
    have gs: "gs = hd_gs @ replicate l 0 @ tl_gs" and l: "2 \<le> l" "i + l \<le> 8"
      using zero_run_is_one [OF run assms(1) False] by (simp_all add: hd_gs_def tl_gs_def)
    have len: "length hd_gs = i" "length tl_gs = 8 - (i + l)" using l assms(1) by (simp_all add: hd_gs_def tl_gs_def)
    have small: "\<forall>g \<in> set hd_gs. g < 65536" "\<forall>g \<in> set tl_gs. g < 65536" using assms(2) gs by auto
    have str: "v6_String gs = groups_text hd_gs @ ''::'' @ groups_text tl_gs"
      by (simp add: v6_String_def run False groups_text_def hd_gs_def tl_gs_def)
    have fin: "v6_finish ([], hd_gs @ tl_gs, Some i) = Some gs"
      using len l by (subst gs) (simp add: v6_finish_def v6_expand_def)
    have tl_empty: "groups_text tl_gs = [] \<longleftrightarrow> tl_gs = []" using groups_text_hd [of tl_gs] by (auto simp: groups_text_simps)
    show ?thesis
    proof (cases "hd_gs = []")
      case True
      then have i: "i = 0" using len by simp
      show ?thesis
      proof (cases "tl_gs = []")
        case True
        have "v6_String gs = ''::''" by (simp add: str groups_text_simps True \<open>hd_gs = []\<close>)
        moreover have "gs = replicate 8 0" using gs assms(1) True \<open>hd_gs = []\<close> by (metis append_Nil append_Nil2 length_replicate)
        ultimately show ?thesis by (simp add: v6_groups_def)
      next
        case False
        then show ?thesis using v6_loop_text [OF False, of 8 "[]" "Some 0"] len small fin \<open>hd_gs = []\<close> i tl_empty
          by (simp add: str groups_text_simps(1) v6_groups_def del: v6_loop.simps)
      qed
    next
      case False
      have "v6_loop 8 [] None (v6_String gs) = Some ([], hd_gs @ tl_gs, Some i)"
        using v6_loop_text_ellipsis [OF False, of 8 "[]" "groups_text tl_gs"] v6_loop_text [of tl_gs "8 - length hd_gs" hd_gs "Some (length hd_gs)"]
          small len l tl_empty unfolding str by (auto simp del: v6_loop.simps)
      then show ?thesis using no_lead [OF False] fin by (simp add: v6_groups_def str del: v6_loop.simps)
    qed
  qed
qed

text \<open>An address as the parser returns it, not an IPv4 address in disguise, is read back from its text.\<close>

definition plain_addr :: "netip \<Rightarrow> bool" where
  "plain_addr ip = (case ip of V4 bs \<Rightarrow> length bs = 4 \<and> (\<forall>b \<in> set bs. b \<le> 255)
     | V6 gs z \<Rightarrow> z = [] \<and> length gs = 8 \<and> (\<forall>g \<in> set gs. g < 65536) \<and> Unmap ip = ip)"

lemma v6_String_chars:
  assumes "length gs = 8" and "\<forall>g \<in> set gs. g < 65536"
  shows "\<forall>c \<in> set (v6_String gs). is_hex c \<or> c = CHR '':''" and "CHR '':'' \<in> set (v6_String gs)"
proof -
  have groups: "\<forall>c \<in> set (groups_text hs). is_hex c \<or> c = CHR '':''" for hs
  proof (induction hs)
    case (Cons h hs)
    then show ?case using appendHex_hex [of _ h] by (cases "hs = []") (auto simp: groups_text_simps)
  qed (simp add: groups_text_simps)
  then show "\<forall>c \<in> set (v6_String gs). is_hex c \<or> c = CHR '':''"
    unfolding v6_String_def groups_text_def [symmetric] by (auto split: prod.split)
  have "CHR '':'' \<in> set (groups_text gs)"
  proof -
    obtain a b hs where "gs = a # b # hs" using assms(1) by (cases gs; cases "tl gs") auto
    then show ?thesis by (simp add: groups_text_def)
  qed
  then show "CHR '':'' \<in> set (v6_String gs)"
    unfolding v6_String_def groups_text_def [symmetric] by (cases "zero_run gs") simp
qed

lemma hex_not_dot: "is_hex c \<Longrightarrow> c \<noteq> CHR ''.'' \<and> c \<noteq> CHR '':'' \<and> c \<noteq> CHR ''%''"
  using hex_chars by blast

lemma is_hex_not_space: "is_hex c \<Longrightarrow> \<not> is_space c"
proof -
  have "\<not> is_hex (CHR '' '')" "\<not> is_hex (CHR 0x09)" "\<not> is_hex (CHR 0x0A)" "\<not> is_hex (CHR 0x0B)" "\<not> is_hex (CHR 0x0C)" "\<not> is_hex (CHR 0x0D)"
    by code_simp+
  then show "is_hex c \<Longrightarrow> \<not> is_space c" unfolding is_space_def by blast
qed

lemma find_first: "x \<in> set xs \<Longrightarrow> P x \<Longrightarrow> (\<And>y. y \<in> set xs \<Longrightarrow> P y \<Longrightarrow> y = x) \<Longrightarrow> find P xs = Some x"
proof (induction xs)
  case (Cons a xs)
  show ?case
  proof (cases "P a")
    case True
    then show ?thesis using Cons.prems(3) [of a] by simp
  next
    case False
    then have "x \<in> set xs" using Cons.prems(1,2) by auto
    then have "find P xs = Some x" by (rule Cons.IH [OF _ Cons.prems(2)]) (rule Cons.prems(3), simp_all)
    then show ?thesis using False by simp
  qed
qed simp

lemma dotted_chars: "c \<in> set (dotted bs) \<Longrightarrow> is_digit c \<or> c = CHR ''.''"
  unfolding dotted_def
proof (induction bs)
  case (Cons b bs)
  then show ?case using nat_digits_is_digit [of c b] by (cases bs) (auto simp: Join_Cons)
qed simp

theorem netip_text_roundtrip:
  assumes "plain_addr ip"
  shows "netip_ParseAddr (netip_String ip) = Some ip"
proof (cases ip)
  case (V4 bs)
  then have bs: "length bs = 4" "\<forall>b \<in> set bs. b \<le> 255" using assms by (simp_all add: plain_addr_def)
  have "CHR ''.'' \<in> set (dotted bs)"
  proof -
    obtain a b hs where "bs = a # b # hs" using bs(1) by (cases bs; cases "tl bs") auto
    then show ?thesis by (simp add: dotted_def)
  qed
  then have "find (\<lambda>c. c \<in> set ''.:%'') (dotted bs) = Some (CHR ''.'')"
    by (rule find_first) (auto dest: dotted_chars simp: is_digit_def)
  then show ?thesis using parse_ipv4_dotted [OF bs] by (simp add: V4 netip_ParseAddr_def)
next
  case (V6 gs z)
  then have gs: "z = []" "length gs = 8" "\<forall>g \<in> set gs. g < 65536" "Unmap (V6 gs z) = V6 gs z" using assms unfolding plain_addr_def V6 netip.case by blast+
  have str: "netip_String ip = v6_String gs" using gs(4) by (simp add: V6 gs(1) zone_suffix_def del: Unmap.simps)
  note chars = v6_String_chars [OF gs(2,3)]
  have first: "find (\<lambda>c. c \<in> set ''.:%'') (v6_String gs) = Some (CHR '':'')"
    by (rule find_first [OF chars(2)]) (use chars(1) hex_not_dot in auto)
  have zone: "IndexByte (v6_String gs) (CHR ''%'') = None" using chars(1) hex_not_dot by auto
  show ?thesis unfolding str netip_ParseAddr_def first zone option.case v6_groups_String [OF gs(2,3)] by (simp add: V6 gs(1))
qed

lemma netip_String_trim:
  assumes "plain_addr ip"
  shows "TrimSpace (netip_String ip) = netip_String ip"
proof (rule TrimSpace_no_space, intro ballI)
  fix c assume c: "c \<in> set (netip_String ip)"
  show "\<not> is_space c"
  proof (cases ip)
    case (V4 bs)
    then show ?thesis using c dotted_chars [of c bs] is_space_not(1) [of c] by (auto simp: is_space_def)
  next
    case (V6 gs z)
    then have "is_hex c \<or> c = CHR '':''" using c assms v6_String_chars(1) [of gs]
      by (auto simp: plain_addr_def zone_suffix_def simp del: Unmap.simps)
    then show ?thesis using is_hex_not_space by (auto simp: is_space_def)
  qed
qed

text \<open>What the parser returns, unmapped and without a zone, is such an address.\<close>

lemma hex_val_less: "is_hex c \<Longrightarrow> hex_val c < 16"
  by (auto simp: is_hex_def hex_val_def is_digit_def digit_val_def)

lemma hex_group_less: "length ds \<le> 4 \<Longrightarrow> \<forall>c \<in> set ds. is_hex c \<Longrightarrow> hex_group ds < 65536"
proof -
  have "\<forall>c \<in> set ds. is_hex c \<Longrightarrow> hex_group ds < 16 ^ length ds" for ds
  proof (induction ds rule: rev_induct)
    case Nil
    then show ?case by (simp add: hex_group_def)
  next
    case (snoc c ds)
    then have "hex_group ds < 16 ^ length ds" "hex_val c < 16" by (simp_all add: hex_val_less)
    then have "hex_group ds * 16 + hex_val c < 16 ^ length ds * 16" by linarith
    then show ?case by (simp add: hex_group_snoc mult.commute)
  qed
  moreover have "(16::nat) ^ length ds \<le> 16 ^ 4" if "length ds \<le> 4" using that by (intro power_increasing) simp_all
  ultimately show "length ds \<le> 4 \<Longrightarrow> \<forall>c \<in> set ds. is_hex c \<Longrightarrow> hex_group ds < 65536" by fastforce
qed

definition groups_ok :: "nat list \<Rightarrow> nat option \<Rightarrow> bool" where
  "groups_ok gs ell \<longleftrightarrow> (\<forall>g \<in> set gs. g < 65536) \<and> length gs \<le> 8 \<and> (case ell of None \<Rightarrow> True | Some e \<Rightarrow> e \<le> length gs)"

lemma quad_groups_ok: "length bs = 4 \<Longrightarrow> \<forall>b \<in> set bs. b \<le> 255 \<Longrightarrow> length (quad_groups bs) = 2 \<and> (\<forall>g \<in> set (quad_groups bs). g < 65536)"
proof -
  assume bs: "length bs = 4" "\<forall>b \<in> set bs. b \<le> 255"
  then have "bs ! 0 \<le> 255" "bs ! 1 \<le> 255" "bs ! 2 \<le> 255" "bs ! 3 \<le> 255" by simp_all
  then show ?thesis by (simp add: quad_groups_def)
qed

lemma v6_loop_ok:
  assumes "v6_loop n gs ell s = Some (r, gs', ell')" and "groups_ok gs ell" and "length gs + n \<le> 8"
  shows "groups_ok gs' ell'"
  using assms
proof (induction n arbitrary: gs ell s)
  case (Suc n)
  define ds where "ds = takeWhile is_hex s"
  have g: "hex_group ds < 65536" if "length ds \<le> 4"
    by (rule hex_group_less [OF that]) (auto simp: ds_def dest: set_takeWhileD)
  have l: "length ds \<le> 4" using Suc.prems(1) unfolding v6_loop.simps Let_def ds_def [symmetric] by (auto split: if_splits)
  note [simp] = groups_ok_def
  show ?case
    using Suc.prems Suc.IH [of "gs @ [hex_group ds]"] g [OF l] unfolding v6_loop.simps Let_def ds_def [symmetric]
    by (auto split: if_splits list.splits option.splits simp: parse_ipv4_iff dest!: quad_groups_ok)
qed simp

lemma v6_groups_ok:
  assumes "v6_groups s = Some gs"
  shows "length gs = 8 \<and> (\<forall>g \<in> set gs. g < 65536)"
proof -
  have start: "groups_ok [] (if b then Some 0 else None)" for b by (simp add: groups_ok_def)
  have fin: "length gs = 8 \<and> (\<forall>g \<in> set gs. g < 65536)" if "v6_finish (r, gs0, ell) = Some gs" "groups_ok gs0 ell" for r gs0 ell
    using that by (auto simp: v6_finish_def groups_ok_def v6_expand_def split: if_splits option.splits dest: in_set_takeD in_set_dropD) (meson in_set_takeD in_set_dropD)+
  consider "gs = replicate 8 0"
    | r gs0 ell where "v6_loop 8 [] (if HasPrefix s ''::'' then Some 0 else None) (if HasPrefix s ''::'' then drop 2 s else s) = Some (r, gs0, ell)"
        "v6_finish (r, gs0, ell) = Some gs"
    using assms unfolding v6_groups_def Let_def by (auto split: if_splits simp: bind_eq_Some_conv)
  then show ?thesis
  proof cases
    case 2
    show ?thesis by (rule fin [OF 2(2) v6_loop_ok [OF 2(1) start]]) simp
  qed simp
qed

lemma ParseAddr_plain:
  assumes "netip_ParseAddr s = Some ip" and "Zone ip = []"
  shows "plain_addr (Unmap ip)"
proof (cases ip)
  case (V4 bs)
  then have "parse_ipv4 s = Some bs" using assms(1) by (auto simp: netip_ParseAddr_def split: option.splits if_splits)
  then show ?thesis by (simp add: V4 plain_addr_def parse_ipv4_iff)
next
  case (V6 gs z)
  then obtain t where "v6_groups t = Some gs" using assms(1) by (auto simp: netip_ParseAddr_def split: option.splits if_splits)
  from v6_groups_ok [OF this] have gs: "length gs = 8" "\<forall>g \<in> set gs. g < 65536" by auto
  then have "gs ! 6 < 65536" "gs ! 7 < 65536" by simp_all
  then have "gs ! 6 div 256 \<le> 255" "gs ! 7 div 256 \<le> 255" "gs ! 6 mod 256 \<le> 255" "gs ! 7 mod 256 \<le> 255" by linarith+
  then show ?thesis using gs assms(2) by (simp add: V6 plain_addr_def)
qed

end
