(* ===== verification/ForeignNode.thy ===== *)
theory ForeignNode
  imports NetIp
begin

text \<open>
  Imported foreign nodes (src/internal/model/foreign_node.go): the input with its normalisation and validation,
  and patches. \<open>Foreign_Validate\<close> returns the input as the Go method leaves its receiver, or the error. The
  labels are the list of the map's entries in the order in which \<open>range\<close> visits them.

  \<open>foreign_validate_again\<close> states what a second validation does, which every write of such a node runs.
\<close>

section \<open>Data\<close>

definition ProviderUnmanaged :: string where "ProviderUnmanaged = ''UNMANAGED''"
definition Provider3XUI :: string where "Provider3XUI = ''3X_UI''"
definition ProviderSharX :: string where "ProviderSharX = ''SHARX''"

record foreign_input =
  fi_Name :: string
  fi_PublicAddress :: string
  fi_ManagementAddress :: string
  fi_Country :: string
  fi_OverlayAddresses :: "string list"
  fi_ProviderType :: string
  fi_Labels :: "(string \<times> string) list"

record foreign_node =
  fn_ID :: ident
  fn_Input :: foreign_input
  fn_CreatedAt :: gotime
  fn_UpdatedAt :: gotime

record foreign_patch =
  fp_Name :: "string option"
  fp_PublicAddress :: "string option"
  fp_ManagementAddress :: "string option"
  fp_Country :: "string option"
  fp_OverlayAddresses :: "string list option"
  fp_ProviderType :: "string option"
  fp_Labels :: "(string \<times> string) list option"

definition or_keep :: "'a option \<Rightarrow> 'a \<Rightarrow> 'a" where
  "or_keep p old = (case p of None \<Rightarrow> old | Some v \<Rightarrow> v)"

definition ForeignPatch_Apply :: "foreign_patch \<Rightarrow> foreign_input \<Rightarrow> foreign_input" where
  "ForeignPatch_Apply p n =
     \<lparr>fi_Name = or_keep (fp_Name p) (fi_Name n), fi_PublicAddress = or_keep (fp_PublicAddress p) (fi_PublicAddress n),
      fi_ManagementAddress = or_keep (fp_ManagementAddress p) (fi_ManagementAddress n),
      fi_Country = or_keep (fp_Country p) (fi_Country n),
      fi_OverlayAddresses = or_keep (fp_OverlayAddresses p) (fi_OverlayAddresses n),
      fi_ProviderType = or_keep (fp_ProviderType p) (fi_ProviderType n), fi_Labels = or_keep (fp_Labels p) (fi_Labels n)\<rparr>"

section \<open>Validation\<close>

definition unusable :: "netip \<Rightarrow> bool" where
  "unusable ip \<longleftrightarrow> Zone ip \<noteq> [] \<or> IsUnspecified ip \<or> IsMulticast ip"

definition foreignAddress :: "string \<Rightarrow> goerr option" where
  "foreignAddress address = (case netip_ParseAddr address of
     Some ip \<Rightarrow> if unusable ip then Some (Validation ''unusable IP address'') else None
   | None \<Rightarrow> Hostname address)"

definition bad_overlay :: goerr where
  "bad_overlay = Validation ''overlay_addresses must contain usable IP addresses without CIDR prefixes''"

fun overlay_loop :: "string list \<Rightarrow> netip list \<Rightarrow> string list \<Rightarrow> goerr + string list" where
  "overlay_loop [] seen addresses = Inr addresses"
| "overlay_loop (raw # rest) seen addresses =
     (case netip_ParseAddr (TrimSpace raw) of
        None \<Rightarrow> Inl bad_overlay
      | Some ip \<Rightarrow> if unusable ip then Inl bad_overlay
          else let ip' = Unmap ip
               in if ip' \<in> set seen then overlay_loop rest seen addresses
                  else overlay_loop rest (ip' # seen) (addresses @ [netip_String ip']))"

fun label_check :: "(string \<times> string) list \<Rightarrow> goerr option" where
  "label_check [] = None"
| "label_check ((k, v) # rest) =
     (if TokenName k \<noteq> None then Some (Validation ''label keys must be alphanumeric with ._- (max 63)'')
      else if 256 < length v \<or> ContainsAny v [CHR 0x00, CHR 0x0D, CHR 0x0A]
        then Some (Validation ''label values must be single-line text (max 256 bytes)'')
      else label_check rest)"

definition country_ok :: "string \<Rightarrow> bool" where
  "country_ok c \<longleftrightarrow> c = [] \<or> length c = 2 \<and> is_upper (c ! 0) \<and> is_upper (c ! 1)"

definition Foreign_Normalize :: "foreign_input \<Rightarrow> foreign_input" where
  "Foreign_Normalize n = n\<lparr>fi_Name := ToLower (TrimSpace (fi_Name n)), fi_PublicAddress := ToLower (TrimSpace (fi_PublicAddress n)),
     fi_ManagementAddress := ToLower (TrimSpace (fi_ManagementAddress n)), fi_Country := ToUpper (TrimSpace (fi_Country n)),
     fi_ProviderType := (let p = ToUpper (TrimSpace (fi_ProviderType n)) in if p = [] then ProviderUnmanaged else p)\<rparr>"

definition field_check :: "foreign_input \<Rightarrow> goerr option" where
  "field_check n = first_err
     [wrapVal (NodeName (fi_Name n)),
      map_option (\<lambda>e. Validation (''public_address: '' @ err_text e)) (foreignAddress (fi_PublicAddress n)),
      if fi_ManagementAddress n = [] then None
      else map_option (\<lambda>e. Validation (''management_address: '' @ err_text e)) (foreignAddress (fi_ManagementAddress n)),
      if country_ok (fi_Country n) then None else Some (Validation ''country must be a two-letter country code''),
      if fi_ProviderType n \<in> {ProviderUnmanaged, Provider3XUI, ProviderSharX} then None
      else Some (Validation ''provider_type must be UNMANAGED, 3X_UI, or SHARX''),
      if 32 < length (fi_OverlayAddresses n) then Some (Validation ''at most 32 overlay addresses are allowed'') else None]"

definition labels_check :: "(string \<times> string) list \<Rightarrow> goerr option" where
  "labels_check ls = (if 32 < length ls then Some (Validation ''at most 32 labels are allowed'') else label_check ls)"

definition Foreign_Validate :: "foreign_input \<Rightarrow> goerr + foreign_input" where
  "Foreign_Validate n0 =
     (let n = Foreign_Normalize n0
      in case field_check n of Some e \<Rightarrow> Inl e
         | None \<Rightarrow> (case overlay_loop (fi_OverlayAddresses n) [] [] of
             Inl e \<Rightarrow> Inl e
           | Inr addresses \<Rightarrow> (case labels_check (fi_Labels n) of
               Some e \<Rightarrow> Inl e | None \<Rightarrow> Inr (n\<lparr>fi_OverlayAddresses := addresses\<rparr>))))"

section \<open>A second validation\<close>

text \<open>What the overlay loop collects: distinct printed addresses, none of them multicast.\<close>

definition any_host :: netip where
  "any_host = V4 [0, 0, 0, 0]"

definition stored_addr :: "netip \<Rightarrow> bool" where
  "stored_addr ip \<longleftrightarrow> plain_addr ip \<and> \<not> IsMulticast ip \<and> (IsUnspecified ip \<longrightarrow> ip = any_host)"

lemma Unmap_idem: "plain_addr (Unmap ip) \<Longrightarrow> Unmap (Unmap ip) = Unmap ip"
  by (cases "Unmap ip") (auto simp: plain_addr_def)

lemma stored_Unmap:
  assumes "netip_ParseAddr s = Some ip" and "\<not> unusable ip"
  shows "stored_addr (Unmap ip)"
proof -
  have z: "Zone ip = []" and u: "\<not> IsUnspecified ip" and m: "\<not> IsMulticast ip" using assms(2) by (auto simp: unusable_def)
  have p: "plain_addr (Unmap ip)" by (rule ParseAddr_plain [OF assms(1) z])
  have "\<not> IsMulticast (Unmap ip)" using m Unmap_idem [OF p] by (simp add: IsMulticast_def)
  moreover have "Unmap ip = any_host" if "IsUnspecified (Unmap ip)"
  proof (cases ip)
    case (V4 bs)
    then show ?thesis using that by (simp add: IsUnspecified_def any_host_def)
  next
    case (V6 gs z)
    then show ?thesis using that u by (auto simp: IsUnspecified_def any_host_def split: if_splits)
  qed
  ultimately show ?thesis using p by (simp add: stored_addr_def)
qed

lemma overlay_loop_stored:
  assumes "overlay_loop raws seen acc = Inr out" and "\<forall>ip \<in> set seen. stored_addr ip" and "distinct seen"
  shows "\<exists>ips. out = acc @ map netip_String ips \<and> distinct ips \<and> set ips \<inter> set seen = {} \<and> (\<forall>ip \<in> set ips. stored_addr ip) \<and>
    length ips \<le> length raws"
  using assms
proof (induction raws seen acc rule: overlay_loop.induct)
  case (2 raw rest seen acc)
  obtain ip where ip: "netip_ParseAddr (TrimSpace raw) = Some ip" "\<not> unusable ip"
    using "2.prems"(1) by (auto split: option.splits if_splits)
  show ?case
  proof (cases "Unmap ip \<in> set seen")
    case True
    have loop: "overlay_loop rest seen acc = Inr out" using "2.prems"(1) ip True by simp
    obtain ips where "out = acc @ map netip_String ips \<and> distinct ips \<and> set ips \<inter> set seen = {} \<and> (\<forall>ip \<in> set ips. stored_addr ip) \<and>
        length ips \<le> length rest"
      using "2.IH"(1) [OF ip refl True loop "2.prems"(2,3)] by blast
    then show ?thesis by (intro exI [of _ ips]) simp
  next
    case False
    have loop: "overlay_loop rest (Unmap ip # seen) (acc @ [netip_String (Unmap ip)]) = Inr out" using "2.prems"(1) ip False by (simp add: Let_def)
    have stored: "\<forall>x \<in> set (Unmap ip # seen). stored_addr x" using "2.prems"(2) stored_Unmap [OF ip] by simp
    have dist: "distinct (Unmap ip # seen)" using False "2.prems"(3) by simp
    obtain ips where ips: "out = (acc @ [netip_String (Unmap ip)]) @ map netip_String ips" "distinct ips"
        "set ips \<inter> set (Unmap ip # seen) = {}" "\<forall>x \<in> set ips. stored_addr x" "length ips \<le> length rest"
      using "2.IH"(2) [OF ip refl False loop stored dist] by blast
    show ?thesis by (rule exI [of _ "Unmap ip # ips"]) (use ips stored False in auto)
  qed
qed simp

lemma overlay_loop_again:
  assumes "distinct ips" and "set ips \<inter> set seen = {}" and "\<forall>ip \<in> set ips. stored_addr ip"
  shows "overlay_loop (map netip_String ips) seen acc = (if any_host \<in> set ips then Inl bad_overlay else Inr (acc @ map netip_String ips))"
  using assms
proof (induction ips arbitrary: seen acc)
  case (Cons ip ips)
  have ip: "plain_addr ip" "\<not> IsMulticast ip" "IsUnspecified ip \<longrightarrow> ip = any_host" using Cons.prems(3) by (auto simp: stored_addr_def)
  have parse: "netip_ParseAddr (TrimSpace (netip_String ip)) = Some ip"
    using netip_String_trim [OF ip(1)] netip_text_roundtrip [OF ip(1)] by simp
  have zone: "Zone ip = []" using ip(1) by (cases ip) (auto simp: plain_addr_def)
  have unmap: "Unmap ip = ip" using ip(1) by (cases ip) (auto simp: plain_addr_def)
  show ?case
  proof (cases "ip = any_host")
    case True
    then have "unusable ip" by (simp add: unusable_def IsUnspecified_def any_host_def)
    then have "overlay_loop (map netip_String (ip # ips)) seen acc = Inl bad_overlay" by (simp add: parse)
    then show ?thesis unfolding True by simp
  next
    case False
    then have "\<not> unusable ip" using ip zone by (simp add: unusable_def)
    then show ?thesis using Cons.prems Cons.IH [of "ip # seen" "acc @ [netip_String ip]"] False by (auto simp: parse unmap)
  qed
qed simp

lemma any_host_text:
  assumes "\<forall>ip \<in> set ips. stored_addr ip"
  shows "''0.0.0.0'' \<in> set (map netip_String ips) \<longleftrightarrow> any_host \<in> set ips"
proof -
  have host: "netip_String any_host = ''0.0.0.0''" by code_simp
  have "ip = any_host" if "ip \<in> set ips" "netip_String ip = netip_String any_host" for ip
  proof -
    have "plain_addr any_host" by (simp add: plain_addr_def any_host_def)
    then show ?thesis using netip_text_roundtrip assms that by (metis option.inject stored_addr_def)
  qed
  then show ?thesis unfolding host [symmetric] set_map by (metis imageE imageI)
qed

lemma Foreign_Validate_Inr:
  assumes "Foreign_Validate n = Inr m"
  shows "field_check (Foreign_Normalize n) = None \<and> labels_check (fi_Labels n) = None \<and>
    (\<exists>addresses. overlay_loop (fi_OverlayAddresses n) [] [] = Inr addresses \<and> m = (Foreign_Normalize n)\<lparr>fi_OverlayAddresses := addresses\<rparr>)"
  using assms by (auto simp: Foreign_Validate_def Foreign_Normalize_def Let_def split: option.splits sum.splits)

lemma Foreign_Normalize_idem: "Foreign_Normalize (Foreign_Normalize n) = Foreign_Normalize n"
proof -
  have "ToUpper (TrimSpace ProviderUnmanaged) = ProviderUnmanaged" "ProviderUnmanaged \<noteq> []" by code_simp+
  then show ?thesis by (simp add: Foreign_Normalize_def Let_def)
qed

lemma Foreign_Normalize_overlays: "Foreign_Normalize (n\<lparr>fi_OverlayAddresses := a\<rparr>) = (Foreign_Normalize n)\<lparr>fi_OverlayAddresses := a\<rparr>"
  by (simp add: Foreign_Normalize_def)

lemma field_check_None: "field_check n = None \<longleftrightarrow> wrapVal (NodeName (fi_Name n)) = None \<and> foreignAddress (fi_PublicAddress n) = None \<and>
    (fi_ManagementAddress n = [] \<or> foreignAddress (fi_ManagementAddress n) = None) \<and> country_ok (fi_Country n) \<and>
    fi_ProviderType n \<in> {ProviderUnmanaged, Provider3XUI, ProviderSharX} \<and> length (fi_OverlayAddresses n) \<le> 32"
proof -
  have "first_err es = None \<longleftrightarrow> (\<forall>e \<in> set es. e = None)" for es by (induction es rule: first_err.induct) auto
  then show ?thesis unfolding field_check_def by auto
qed

lemma validate_twice:
  assumes "Foreign_Validate n = Inr m"
  shows "Foreign_Validate m = (if ''0.0.0.0'' \<in> set (fi_OverlayAddresses m) then Inl bad_overlay else Inr m)"
proof -
  obtain addresses where first: "field_check (Foreign_Normalize n) = None" "labels_check (fi_Labels n) = None"
      "overlay_loop (fi_OverlayAddresses n) [] [] = Inr addresses" and m: "m = (Foreign_Normalize n)\<lparr>fi_OverlayAddresses := addresses\<rparr>"
    using Foreign_Validate_Inr [OF assms] by blast
  obtain ips where ips: "addresses = map netip_String ips" "distinct ips" "\<forall>ip \<in> set ips. stored_addr ip" "length ips \<le> length (fi_OverlayAddresses n)"
    using overlay_loop_stored [OF first(3)] by auto
  have norm: "Foreign_Normalize m = m"
    using Foreign_Normalize_idem [of n] Foreign_Normalize_overlays by (simp add: m)
  have "fi_OverlayAddresses (Foreign_Normalize n) = fi_OverlayAddresses n" by (simp add: Foreign_Normalize_def)
  then have fields: "field_check m = None" using first(1) ips(1,4) unfolding m by (auto simp: field_check_None)
  have labels: "labels_check (fi_Labels m) = None" using first(2) by (simp add: m Foreign_Normalize_def)
  have "overlay_loop (fi_OverlayAddresses m) [] [] = (if ''0.0.0.0'' \<in> set (fi_OverlayAddresses m) then Inl bad_overlay else Inr (fi_OverlayAddresses m))"
    using overlay_loop_again [OF ips(2) _ ips(3), of "[]" "[]"] any_host_text [OF ips(3)] by (simp add: m ips(1))
  then show ?thesis by (simp add: Foreign_Validate_def Let_def norm fields labels)
qed

text \<open>C12: Validation is idempotent with one exception: an input that it accepted is accepted unchanged when it is
  validated again, unless it now lists the overlay address 0.0.0.0, which only the text of ::ffff:0.0.0.0 gets past
  the first validation; the second one refuses it.\<close>

theorem foreign_validate_again:
  assumes "Foreign_Validate n = Inr m"
  shows "Foreign_Validate m = (if ''0.0.0.0'' \<in> set (fi_OverlayAddresses m) then Inl bad_overlay else Inr m)"
  using assms by (rule validate_twice)

section \<open>Witness\<close>

definition sample_foreign :: foreign_input where
  "sample_foreign = \<lparr>fi_Name = '' Edge-1'', fi_PublicAddress = ''Edge.Example'', fi_ManagementAddress = [], fi_Country = ''nl'',
     fi_OverlayAddresses = ['' 10.0.0.7'', ''10.0.0.7''], fi_ProviderType = [], fi_Labels = [(''site'', ''ams'')]\<rparr>"

definition stored_foreign :: foreign_input where
  "stored_foreign = \<lparr>fi_Name = ''edge-1'', fi_PublicAddress = ''edge.example'', fi_ManagementAddress = [], fi_Country = ''NL'',
     fi_OverlayAddresses = [''10.0.0.7''], fi_ProviderType = ''UNMANAGED'', fi_Labels = [(''site'', ''ams'')]\<rparr>"

lemma sample_foreign_fields:
  "field_check (Foreign_Normalize sample_foreign) = None" "labels_check (fi_Labels sample_foreign) = None"
  "(Foreign_Normalize sample_foreign)\<lparr>fi_OverlayAddresses := [''10.0.0.7'']\<rparr> = stored_foreign"
  by code_simp+

lemma sample_foreign_overlays: "overlay_loop [raw, ''10.0.0.7''] [] [] = Inr [''10.0.0.7'']" if "TrimSpace raw = ''10.0.0.7''"
proof -
  have "TrimSpace ''10.0.0.7'' = ''10.0.0.7''" "netip_ParseAddr ''10.0.0.7'' = Some (V4 [10, 0, 0, 7])" "netip_String (V4 [10, 0, 0, 7]) = ''10.0.0.7''"
    by code_simp+
  moreover have "\<not> unusable (V4 [10, 0, 0, 7])" by (simp add: unusable_def IsUnspecified_def IsMulticast_def)
  ultimately show ?thesis using that by simp
qed

lemma sample_foreign_validates: "Foreign_Validate sample_foreign = Inr stored_foreign"
proof -
  have "TrimSpace '' 10.0.0.7'' = ''10.0.0.7''" by code_simp
  then have loop: "overlay_loop (fi_OverlayAddresses sample_foreign) [] [] = Inr [''10.0.0.7'']"
    using sample_foreign_overlays by (simp add: sample_foreign_def)
  have "fi_OverlayAddresses (Foreign_Normalize sample_foreign) = fi_OverlayAddresses sample_foreign"
    "fi_Labels (Foreign_Normalize sample_foreign) = fi_Labels sample_foreign" by (simp_all add: Foreign_Normalize_def)
  then show ?thesis using sample_foreign_fields loop by (simp add: Foreign_Validate_def Let_def)
qed

lemma foreign_validate_again_witness: "Foreign_Validate stored_foreign = Inr stored_foreign"
  using foreign_validate_again [OF sample_foreign_validates] by (simp add: stored_foreign_def)

text \<open>The exception: the address is neither unspecified nor multicast before it is unmapped.\<close>

lemma mapped_any_host: "overlay_loop [''::ffff:0.0.0.0''] [] [] = Inr [''0.0.0.0'']"
proof -
  have "TrimSpace ''::ffff:0.0.0.0'' = ''::ffff:0.0.0.0''" "parse_ipv4 ''0.0.0.0'' = Some [0, 0, 0, 0]" "netip_String (V4 [0, 0, 0, 0]) = ''0.0.0.0''"
    "find (\<lambda>c. c \<in> set ''.:%'') ''::ffff:0.0.0.0'' = Some (CHR '':'')" "IndexByte ''::ffff:0.0.0.0'' (CHR ''%'') = None"
    by code_simp+
  note [simp] = this
  have [simp]: "is_hex (CHR ''f'')" "is_hex (CHR ''0'')" "\<not> is_hex (CHR '':'')" "\<not> is_hex (CHR ''.'')"
    by (simp_all add: is_hex_def is_digit_def)
  have g: "hex_group ''ffff'' = 65535" "hex_group ''0'' = 0"
    by (simp_all add: hex_group_def hex_val_def is_digit_def digit_val_def)
  have eight: "(8::nat) = Suc (Suc 6)" and five: "replicate 5 (0::nat) = [0, 0, 0, 0, 0]" by (simp_all add: numeral_eq_Suc)
  have two: "v6_loop (Suc (Suc n)) [] (Some 0) ''ffff:0.0.0.0'' = Some ([], [65535, 0, 0], Some 0)" for n
    unfolding v6_loop.simps(2) [where s = "''ffff:0.0.0.0''"] by (simp add: g quad_groups_def)
  have "v6_loop 8 [] (Some 0) ''ffff:0.0.0.0'' = Some ([], [65535, 0, 0], Some 0)"
    using two [of 6] unfolding eight .
  then have "v6_groups ''::ffff:0.0.0.0'' = Some [0, 0, 0, 0, 0, 65535, 0, 0]"
    by (simp add: v6_groups_def v6_finish_def v6_expand_def five)
  then have parse: "netip_ParseAddr ''::ffff:0.0.0.0'' = Some (V6 [0, 0, 0, 0, 0, 65535, 0, 0] [])"
    unfolding netip_ParseAddr_def by simp
  have unmap: "Unmap (V6 [0, 0, 0, 0, 0, 65535, 0, 0] []) = V4 [0, 0, 0, 0]" by simp
  have "[0, 0, 0, 0, 0, 65535, 0, 0] \<noteq> replicate 8 (0::nat)"
  proof
    assume "[0, 0, 0, 0, 0, 65535, 0, 0] = replicate 8 (0::nat)"
    then have "set [0, 0, 0, 0, 0, 65535, 0, 0] = set (replicate 8 (0::nat))" by (rule arg_cong)
    then show False by simp
  qed
  then have "\<not> unusable (V6 [0, 0, 0, 0, 0, 65535, 0, 0] [])"
    unfolding unusable_def IsMulticast_def unmap by (simp add: IsUnspecified_def)
  then show ?thesis using parse unmap by (simp del: Unmap.simps netip_String.simps)
qed

end
