(* ===== verification/Db.thy ===== *)
theory Db
  imports ForeignNode
begin

text \<open>
  What the SQLite store keeps and how its statements run (src/internal/store/store.go, sqlite.go and the
  schema in store/migrations).

  A table is the list of its rows in the order of insertion. A statement first passes the driver, which
  may fail (closed database, cancelled context) without touching the tables; then the constraints of the
  schema are checked in the order SQLite does: CHECK, UNIQUE (the primary key included), foreign keys. The
  error values of violated constraints belong to the driver and are fields of \<open>env\<close>.

  A time column holds the RFC 3339 text with nanoseconds, which \<open>parseTime\<close> reads back exactly; it is
  modelled by the time itself, the empty text by 0, the zero time. A JSON column is modelled by the value
  that \<open>json.Marshal\<close> encodes and \<open>json.Unmarshal\<close> gives back. A boolean column is an integer 0 or 1.
\<close>

section \<open>Records\<close>

record user =
  u_ID :: ident
  u_Username :: string
  u_DisplayName :: string
  u_PasswordHash :: string
  u_Role :: string
  u_Locale :: string
  u_TOTPSecret :: string
  u_TOTPPending :: string
  u_TOTPEnabled :: bool
  u_Disabled :: bool
  u_CreatedAt :: gotime
  u_UpdatedAt :: gotime
  u_LastLoginAt :: gotime

record recovery_code =
  rc_ID :: ident
  rc_UserID :: ident
  rc_Hash :: string
  rc_UsedAt :: gotime

record token =
  tk_ID :: ident
  tk_Name :: string
  tk_Hash :: string
  tk_Role :: string
  tk_CreatedAt :: gotime
  tk_Revoked :: bool

record agent_status =
  ag_NodeID :: ident
  ag_Healthy :: bool
  ag_LastReconcile :: gotime
  ag_LastHeartbeat :: gotime
  ag_Version :: string
  ag_TransportStates :: "transport_state list"

record audit_event =
  au_ID :: ident
  au_Timestamp :: gotime
  au_Actor :: string
  au_Action :: string
  au_Resource :: string
  au_ResourceID :: string
  au_Detail :: string
  au_Success :: bool

text \<open>The tables. A row of \<open>agent_status\<close> carries the reported state next to the status.\<close>

record 'w db =
  db_nodes :: "node list"
  db_backends :: "backend list"
  db_tunnels :: "tunnel list"
  db_mappings :: "port_mapping list"
  db_sni :: "sni_route list"
  db_checks :: "health_check list"
  db_policies :: "failover_policy list"
  db_intents :: "failback_intent list"
  db_status :: "(agent_status \<times> actual_state) list"
  db_tokens :: "token list"
  db_users :: "user list"
  db_codes :: "recovery_code list"
  db_audit :: "audit_event list"
  db_foreign :: "foreign_node list"
  db_world :: 'w

definition empty_db :: "'w \<Rightarrow> 'w db" where
  "empty_db w = \<lparr>db_nodes = [], db_backends = [], db_tunnels = [], db_mappings = [], db_sni = [], db_checks = [],
     db_policies = [], db_intents = [], db_status = [], db_tokens = [], db_users = [], db_codes = [], db_audit = [],
     db_foreign = [], db_world = w\<rparr>"

text \<open>
  What the controller calls outside its own code: the driver, \<open>time.Now\<close>, \<open>rand.Read\<close>, bcrypt, HMAC and
  SHA-256. \<open>e_bcrypt\<close> is \<open>GenerateFromPassword\<close> at the configured cost, \<open>e_compare h p\<close> says that
  \<open>CompareHashAndPassword\<close> returns nil.
\<close>

record 'w env =
  e_driver :: "string \<Rightarrow> 'w \<Rightarrow> goerr option \<times> 'w"
  e_check :: goerr
  e_unique :: goerr
  e_fk :: goerr
  e_now :: "'w \<Rightarrow> gotime \<times> 'w"
  e_rand :: "nat \<Rightarrow> 'w \<Rightarrow> (goerr + string) \<times> 'w"
  e_bcrypt :: "string \<Rightarrow> 'w \<Rightarrow> (goerr + string) \<times> 'w"
  e_compare :: "string \<Rightarrow> string \<Rightarrow> bool"
  e_hmac_sha1 :: "string \<Rightarrow> string \<Rightarrow> string"
  e_hmac_sha256 :: "string \<Rightarrow> string \<Rightarrow> string"
  e_sha256 :: "string \<Rightarrow> string"

type_synonym ('w, 'a) dbact = "('w db, goerr, 'a) act"

section \<open>Errors of the store\<close>

text \<open>
  \<open>errors.Is\<close> compares error values along the wrapped ones. The two sentinels are identified by their
  text, so a driver error with the same text counts as the sentinel.
\<close>

primrec errors_Is :: "goerr \<Rightarrow> goerr \<Rightarrow> bool" where
  "errors_Is (Coded c) t = (Coded c = t)"
| "errors_Is (Plain s) t = (Plain s = t)"
| "errors_Is (Wrapped s e) t = (Wrapped s e = t \<or> errors_Is e t)"

definition ErrNoRows :: goerr where "ErrNoRows = Plain ''sql: no rows in result set''"
definition ErrNotFound :: goerr where "ErrNotFound = Plain ''not found''"

definition IsNotFound :: "goerr \<Rightarrow> bool" where
  "IsNotFound err \<longleftrightarrow> errors_Is err ErrNotFound \<or> errors_Is err ErrNoRows"

definition wrap_err :: "string \<Rightarrow> goerr \<Rightarrow> goerr" where
  "wrap_err op err = (if errors_Is err ErrNoRows then ErrNotFound else wrapf (op @ '': '') err [])"

definition isUnique :: "goerr \<Rightarrow> bool" where
  "isUnique err \<longleftrightarrow> Contains (ToLower (err_text err)) ''unique constraint''"

definition isFK :: "goerr \<Rightarrow> bool" where
  "isFK err \<longleftrightarrow> Contains (ToLower (err_text err)) ''foreign key''"

text \<open>\<open>onErr f m\<close> replaces the error of \<open>m\<close>, the idiom \<open>if err != nil { return f(err) }\<close>.\<close>

definition onErr :: "('e \<Rightarrow> 'e) \<Rightarrow> ('s, 'e, 'a) act \<Rightarrow> ('s, 'e, 'a) act" where
  "onErr f m = (\<lambda>s. case m s of (Inl e, s') \<Rightarrow> (Inl (f e), s') | (Inr x, s') \<Rightarrow> (Inr x, s'))"

section \<open>Statements\<close>

definition lift_world :: "('w \<Rightarrow> (goerr + 'a) \<times> 'w) \<Rightarrow> ('w, 'a) dbact" where
  "lift_world f = (\<lambda>s. case f (db_world s) of (r, w) \<Rightarrow> (r, s\<lparr>db_world := w\<rparr>))"

definition nowA :: "'w env \<Rightarrow> ('w, gotime) dbact" where
  "nowA env = lift_world (\<lambda>w. case e_now env w of (t, w') \<Rightarrow> (Inr t, w'))"

definition driver :: "'w env \<Rightarrow> string \<Rightarrow> ('w, unit) dbact" where
  "driver env op = lift_world (\<lambda>w. case e_driver env op w of (None, w') \<Rightarrow> (Inr (), w') | (Some e, w') \<Rightarrow> (Inl e, w'))"

definition nowRFC3339 :: "'w env \<Rightarrow> gotime \<Rightarrow> ('w, gotime) dbact" where
  "nowRFC3339 env t = (if t = 0 then nowA env else returnA t)"

text \<open>Rows are read after the statement has started; a failure while reading them is reported as it is.\<close>

definition query :: "'w env \<Rightarrow> string \<Rightarrow> ('w db \<Rightarrow> 'a) \<Rightarrow> ('w, 'a) dbact" where
  "query env op f = bindA (onErr (wrap_err op) (driver env op)) (\<lambda>_. bindA (driver env (op @ ''/rows'')) (\<lambda>_. (\<lambda>s. (Inr (f s), s))))"

definition queryRow :: "'w env \<Rightarrow> string \<Rightarrow> ('w db \<Rightarrow> 'a option) \<Rightarrow> ('w, 'a) dbact" where
  "queryRow env op f = onErr (wrap_err op) (bindA (driver env op)
     (\<lambda>_ s. case f s of None \<Rightarrow> (Inl ErrNoRows, s) | Some x \<Rightarrow> (Inr x, s)))"

text \<open>A writing statement returns the number of rows it affected.\<close>

definition exec :: "'w env \<Rightarrow> string \<Rightarrow> ('w db \<Rightarrow> goerr option list) \<Rightarrow> ('w db \<Rightarrow> nat \<times> 'w db) \<Rightarrow> ('w, nat) dbact" where
  "exec env op violated change = bindA (driver env op)
     (\<lambda>_ s. case first_err (violated s) of Some e \<Rightarrow> (Inl e, s) | None \<Rightarrow> (Inr (fst (change s)), snd (change s)))"

definition constraint :: "bool \<Rightarrow> goerr \<Rightarrow> goerr option" where
  "constraint ok e = (if ok then None else Some e)"

text \<open>\<open>UPDATE ... WHERE\<close> touches the rows in place; an update of no row is \<open>ErrNotFound\<close>.\<close>

definition upd_where :: "('r \<Rightarrow> bool) \<Rightarrow> ('r \<Rightarrow> 'r) \<Rightarrow> 'r list \<Rightarrow> 'r list" where
  "upd_where P f rows = map (\<lambda>r. if P r then f r else r) rows"

definition some_row :: "nat \<Rightarrow> ('w, unit) dbact" where
  "some_row n = (if n = 0 then failA ErrNotFound else returnA ())"

text \<open>A transaction: an error rolls the tables back.\<close>

definition transaction :: "'w env \<Rightarrow> string \<Rightarrow> ('w, unit) dbact \<Rightarrow> ('w, unit) dbact" where
  "transaction env op body = (\<lambda>s.
     case bindA (driver env (op @ ''/begin'')) (\<lambda>_. bindA body (\<lambda>_. driver env (op @ ''/commit''))) s of
       (Inl e, s') \<Rightarrow> (Inl e, s\<lparr>db_world := db_world s'\<rparr>)
     | (Inr _, s') \<Rightarrow> (Inr (), s'))"

section \<open>Identifiers\<close>

definition hexEncode :: "string \<Rightarrow> string" where
  "hexEncode b = concat (map (\<lambda>c. [hex_digit (of_char c div 16), hex_digit (of_char c mod 16)]) b)"

definition UnixNano :: "gotime \<Rightarrow> int" where
  "UnixNano t = t - 62135596800 * Second"

definition ident_New :: "'w env \<Rightarrow> ('w, ident) dbact" where
  "ident_New env = (\<lambda>s. case lift_world (e_rand env 16) s of
     (Inr b, s') \<Rightarrow> (Inr (hexEncode b), s')
   | (Inl _, s') \<Rightarrow> bindA (nowA env) (\<lambda>t. returnA (Itoa (UnixNano t))) s')"

section \<open>What actions do to the tables\<close>

text \<open>
  \<open>same_tables s s'\<close>: only the world differs. \<open>reads Q m\<close>: \<open>m\<close> leaves the tables alone and a value \<open>u\<close>
  it returns satisfies \<open>Q s u\<close>, as long as the tables stay those of \<open>s\<close>. \<open>effects R m\<close>: \<open>m\<close> fails and
  leaves the tables alone, or it returns \<open>x\<close> and \<open>R s x s'\<close> relates the tables. \<open>keeps I m\<close>: \<open>m\<close> keeps the
  invariant \<open>I\<close>, whether it fails or not; \<open>keeps_from P I m\<close> is the same for the states in which \<open>P\<close> holds.
\<close>

definition same_tables :: "'w db \<Rightarrow> 'w db \<Rightarrow> bool" where
  "same_tables s s' \<longleftrightarrow> s' = s\<lparr>db_world := db_world s'\<rparr>"

definition reads :: "('w db \<Rightarrow> 'a \<Rightarrow> bool) \<Rightarrow> ('w, 'a) dbact \<Rightarrow> bool" where
  "reads Q m \<longleftrightarrow> (\<forall>s r s1. m s = (r, s1) \<longrightarrow> same_tables s s1 \<and> (\<forall>u. r = Inr u \<longrightarrow> (\<forall>t. same_tables s t \<longrightarrow> Q t u)))"

abbreviation reads_only :: "('w, 'a) dbact \<Rightarrow> bool" where
  "reads_only \<equiv> reads (\<lambda>_ _. True)"

definition effects :: "('w db \<Rightarrow> 'a \<Rightarrow> 'w db \<Rightarrow> bool) \<Rightarrow> ('w, 'a) dbact \<Rightarrow> bool" where
  "effects R m \<longleftrightarrow> (\<forall>s r s'. m s = (r, s') \<longrightarrow>
     (case r of Inl e \<Rightarrow> same_tables s s' | Inr x \<Rightarrow> (\<exists>s1. same_tables s s1 \<and> R s1 x s')))"

definition keeps_from :: "('w db \<Rightarrow> bool) \<Rightarrow> ('w db \<Rightarrow> bool) \<Rightarrow> ('w, 'a) dbact \<Rightarrow> bool" where
  "keeps_from P I m \<longleftrightarrow> (\<forall>s. P s \<longrightarrow> I s \<longrightarrow> I (snd (m s)))"

abbreviation keeps :: "('w db \<Rightarrow> bool) \<Rightarrow> ('w, 'a) dbact \<Rightarrow> bool" where
  "keeps \<equiv> keeps_from (\<lambda>_. True)"

named_theorems table_intros "composition rules for reads, effects and keeps"

lemma same_tables_refl [simp]: "same_tables s s"
  by (simp add: same_tables_def)

lemma same_tables_world [simp]: "same_tables s (s\<lparr>db_world := w\<rparr>)"
  by (simp add: same_tables_def)

lemma same_tables_trans: "same_tables s s1 \<Longrightarrow> same_tables s1 s2 \<Longrightarrow> same_tables s s2"
  by (cases s; cases s1; cases s2) (simp add: same_tables_def)

lemma same_tables_sym: "same_tables s s1 \<Longrightarrow> same_tables s1 s"
  by (cases s; cases s1) (simp add: same_tables_def)

lemma same_tablesE: "same_tables s s' \<Longrightarrow> (\<And>w. s' = s\<lparr>db_world := w\<rparr> \<Longrightarrow> thesis) \<Longrightarrow> thesis"
  unfolding same_tables_def by blast

lemma bindA_cases:
  assumes "bindA m f s = (r, s')"
  obtains e where "m s = (Inl e, s')" and "r = Inl e"
  | x s1 where "m s = (Inr x, s1)" and "f x s1 = (r, s')"
  using assms by (auto simp: bindA_def split: prod.splits sum.splits)

lemma onErr_Inr [simp]: "onErr f m s = (Inr x, s') \<longleftrightarrow> m s = (Inr x, s')"
  by (auto simp: onErr_def split: prod.splits sum.splits)

lemma onErr_cases:
  assumes "onErr f m s = (r, s')"
  obtains e where "m s = (Inl e, s')" and "r = Inl (f e)" | x where "m s = (Inr x, s')" and "r = Inr x"
  using assms by (auto simp: onErr_def split: prod.splits sum.splits)

lemma first_err_constraint [simp]: "first_err (constraint ok e # es) = None \<longleftrightarrow> ok \<and> first_err es = None"
  by (cases ok) (simp_all add: constraint_def)

subsection \<open>Reading\<close>

lemma reads_same: "reads Q m \<Longrightarrow> m s = (r, s') \<Longrightarrow> same_tables s s'"
  unfolding reads_def by blast

lemma reads_val: "reads Q m \<Longrightarrow> m s = (Inr u, s') \<Longrightarrow> Q s u \<and> Q s' u"
  unfolding reads_def using same_tables_refl by blast

lemma reads_mono: "reads Q m \<Longrightarrow> (\<And>s u. Q s u \<Longrightarrow> P s u) \<Longrightarrow> reads P m"
  unfolding reads_def by blast

lemma reads_return: "(\<And>s. Q s x) \<Longrightarrow> reads Q (returnA x)"
  by (simp add: reads_def)

lemma reads_fail [table_intros]: "reads Q (failA e)"
  by (simp add: reads_def)

lemma reads_only_return [table_intros]: "reads_only (returnA x)"
  by (simp add: reads_def)

lemma reads_bind:
  assumes m: "reads Q m" and f: "\<And>x. reads (\<lambda>s u. Q s x \<longrightarrow> P s u) (f x)"
  shows "reads P (bindA m f)"
  unfolding reads_def
proof (intro allI impI)
  fix s r s1
  assume "bindA m f s = (r, s1)"
  then show "same_tables s s1 \<and> (\<forall>u. r = Inr u \<longrightarrow> (\<forall>t. same_tables s t \<longrightarrow> P t u))"
  proof (cases rule: bindA_cases)
    case (1 e)
    then show ?thesis using reads_same [OF m] by blast
  next
    case (2 x s2)
    have s2: "same_tables s s2" by (rule reads_same [OF m 2(1)])
    have Q: "Q t x" if "same_tables s t" for t using m 2(1) that unfolding reads_def by blast
    have "same_tables s2 s1" by (rule reads_same [OF f 2(2)])
    moreover have "P t u" if "r = Inr u" "same_tables s t" for t u
      using f [of x] 2(2) that Q same_tables_trans [OF same_tables_sym [OF s2]] unfolding reads_def by blast
    ultimately show ?thesis using same_tables_trans s2 by blast
  qed
qed

lemma reads_only_bind [table_intros]: "reads_only m \<Longrightarrow> (\<And>x. reads_only (f x)) \<Longrightarrow> reads_only (bindA m f)"
  by (rule reads_bind) auto

lemma reads_onErr [table_intros]: "reads Q m \<Longrightarrow> reads Q (onErr f m)"
  unfolding reads_def by (auto elim: onErr_cases)

lemma reads_only_lift [table_intros]: "reads_only (lift_world f)"
  by (auto simp: reads_def lift_world_def split: prod.splits)

lemma reads_only_nowA [table_intros]: "reads_only (nowA env)"
  unfolding nowA_def by (rule table_intros)

lemma reads_only_driver [table_intros]: "reads_only (driver env op)"
  unfolding driver_def by (rule table_intros)

lemma reads_only_nowRFC3339 [table_intros]: "reads_only (nowRFC3339 env t)"
  unfolding nowRFC3339_def by (auto intro: table_intros)

text \<open>A query returns a function of the tables.\<close>

lemma reads_query: "(\<And>s w. f (s\<lparr>db_world := w\<rparr>) = f s) \<Longrightarrow> reads (\<lambda>s u. u = f s) (query env op f)"
proof -
  assume f: "\<And>s w. f (s\<lparr>db_world := w\<rparr>) = f s"
  have "reads (\<lambda>s u. u = f s) (\<lambda>s. (Inr (f s), s))" unfolding reads_def using f by (auto elim!: same_tablesE)
  then show ?thesis unfolding query_def
    by (intro reads_bind [where Q = "\<lambda>_ _. True"] table_intros) (auto elim: reads_mono)
qed

lemma reads_queryRow: "(\<And>s w. f (s\<lparr>db_world := w\<rparr>) = f s) \<Longrightarrow> reads (\<lambda>s u. f s = Some u) (queryRow env op f)"
proof -
  assume f: "\<And>s w. f (s\<lparr>db_world := w\<rparr>) = f s"
  have "reads (\<lambda>s u. f s = Some u) (\<lambda>s. case f s of None \<Rightarrow> (Inl ErrNoRows, s) | Some x \<Rightarrow> (Inr x, s))"
    unfolding reads_def using f by (auto elim!: same_tablesE split: option.splits)
  then show ?thesis unfolding queryRow_def
    by (intro reads_onErr reads_bind [where Q = "\<lambda>_ _. True"] table_intros) (auto elim: reads_mono)
qed

lemma reads_only_query [table_intros]: "reads_only (query env op f)"
proof -
  have "reads_only (\<lambda>s. (Inr (f s), s))" by (simp add: reads_def)
  then show ?thesis unfolding query_def by (intro table_intros)
qed

lemma reads_only_queryRow [table_intros]: "reads_only (queryRow env op f)"
proof -
  have "reads_only (\<lambda>s. case f s of None \<Rightarrow> (Inl ErrNoRows, s) | Some x \<Rightarrow> (Inr x, s))"
    by (auto simp: reads_def split: option.splits)
  then show ?thesis unfolding queryRow_def by (intro table_intros)
qed

lemma reads_only_ident_New [table_intros]: "reads_only (ident_New env)"
proof -
  have "reads_only (bindA (nowA env) (\<lambda>t. returnA (Itoa (UnixNano t))))" by (intro table_intros)
  moreover have "reads_only (lift_world (e_rand env 16))" by (rule table_intros)
  ultimately show ?thesis unfolding reads_def ident_New_def
    by (auto split: prod.splits sum.splits) (blast intro: same_tables_trans)+
qed

subsection \<open>Writing\<close>

lemma effects_Inr: "effects R m \<Longrightarrow> m s = (Inr x, s') \<Longrightarrow> \<exists>s1. same_tables s s1 \<and> R s1 x s'"
  by (fastforce simp: effects_def)

lemma effects_mono: "effects R m \<Longrightarrow> (\<And>s x s'. R s x s' \<Longrightarrow> T s x s') \<Longrightarrow> effects T m"
  unfolding effects_def by (fastforce split: sum.splits)

lemma effects_fail [table_intros]: "effects R (failA e)"
  by (simp add: effects_def)

lemma effects_bind_reads:
  assumes m: "reads Q m" and f: "\<And>u. effects (\<lambda>s x s'. Q s u \<longrightarrow> R s x s') (f u)"
  shows "effects R (bindA m f)"
  unfolding effects_def
proof (intro allI impI)
  fix s r s'
  assume "bindA m f s = (r, s')"
  then show "case r of Inl e \<Rightarrow> same_tables s s' | Inr x \<Rightarrow> \<exists>s1. same_tables s s1 \<and> R s1 x s'"
  proof (cases rule: bindA_cases)
    case (1 e)
    then show ?thesis using reads_same [OF m] by auto
  next
    case (2 u s1)
    have s1: "same_tables s s1" by (rule reads_same [OF m 2(1)])
    have Q: "Q t u" if "same_tables s1 t" for t
      using m 2(1) same_tables_trans [OF s1 that] unfolding reads_def by blast
    have c: "case r of Inl e \<Rightarrow> same_tables s1 s' | Inr x \<Rightarrow> (\<exists>s2. same_tables s1 s2 \<and> (Q s2 u \<longrightarrow> R s2 x s'))"
      using f [of u] 2(2) unfolding effects_def by blast
    show ?thesis
    proof (cases r)
      case (Inl e)
      then show ?thesis using c same_tables_trans [OF s1] by simp
    next
      case (Inr x)
      then obtain s2 where "same_tables s1 s2" "Q s2 u \<longrightarrow> R s2 x s'" using c by auto
      then show ?thesis using Inr Q same_tables_trans [OF s1] by auto
    qed
  qed
qed

lemma effects_bind_reads_only [table_intros]: "reads_only m \<Longrightarrow> (\<And>u. effects R (f u)) \<Longrightarrow> effects R (bindA m f)"
  by (rule effects_bind_reads) auto

lemma effects_then:
  assumes "effects R m" and "\<And>s x s'. R s x s' \<Longrightarrow> T s (g x) s'"
  shows "effects T (bindA m (\<lambda>x. returnA (g x)))"
  unfolding effects_def
proof (intro allI impI)
  fix s r s'
  assume "bindA m (\<lambda>x. returnA (g x)) s = (r, s')"
  then show "case r of Inl e \<Rightarrow> same_tables s s' | Inr y \<Rightarrow> \<exists>s1. same_tables s s1 \<and> T s1 y s'"
    by (cases rule: bindA_cases) (use assms in \<open>fastforce simp: effects_def\<close>)+
qed

lemma effects_onErr [table_intros]: "effects R m \<Longrightarrow> effects R (onErr f m)"
  unfolding effects_def by (fastforce elim!: onErr_cases)

lemma effects_exec:
  assumes "\<And>s. first_err (violated s) = None \<Longrightarrow> R s (fst (change s)) (snd (change s))"
  shows "effects R (exec env op violated change)"
proof -
  have "effects R (\<lambda>s. case first_err (violated s) of Some e \<Rightarrow> (Inl e, s) | None \<Rightarrow> (Inr (fst (change s)), snd (change s)))"
    unfolding effects_def using assms by (auto split: option.splits) (metis same_tables_refl)
  then show ?thesis unfolding exec_def by (intro effects_bind_reads_only table_intros)
qed

text \<open>An update that touched no row fails, and has changed nothing.\<close>

lemma effects_some_row:
  assumes "effects R m" and "\<And>s s'. R s 0 s' \<Longrightarrow> same_tables s s'" and "\<And>s n s'. 0 < n \<Longrightarrow> R s n s' \<Longrightarrow> T s () s'"
  shows "effects T (bindA m some_row)"
  unfolding effects_def
proof (intro allI impI)
  fix s r s'
  assume "bindA m some_row s = (r, s')"
  then show "case r of Inl e \<Rightarrow> same_tables s s' | Inr y \<Rightarrow> \<exists>s1. same_tables s s1 \<and> T s1 y s'"
  proof (cases rule: bindA_cases)
    case (1 e)
    then show ?thesis using assms(1) by (fastforce simp: effects_def)
  next
    case (2 n s1)
    obtain s2 where s2: "same_tables s s2" "R s2 n s1" using assms(1) 2(1) by (fastforce simp: effects_def)
    show ?thesis
    proof (cases "n = 0")
      case True
      then have "same_tables s s1" using s2 assms(2) same_tables_trans by blast
      then show ?thesis using 2(2) True by (auto simp: some_row_def)
    next
      case False
      then have "r = Inr ()" "s1 = s'" using 2(2) by (simp_all add: some_row_def)
      then show ?thesis using s2 assms(3) [of n s2 s1] False by auto
    qed
  qed
qed

subsection \<open>Invariants\<close>

definition of_tables :: "('w db \<Rightarrow> bool) \<Rightarrow> bool" where
  "of_tables I \<longleftrightarrow> (\<forall>s w. I (s\<lparr>db_world := w\<rparr>) = I s)"

lemma of_tables_same: "of_tables I \<Longrightarrow> same_tables s s' \<Longrightarrow> I s' = I s"
  by (auto simp: of_tables_def elim!: same_tablesE)

lemma keeps_reads: "of_tables I \<Longrightarrow> reads Q m \<Longrightarrow> keeps I m"
  unfolding keeps_from_def by (metis of_tables_same prod.collapse reads_same)

lemma keepsD: "keeps I m \<Longrightarrow> m s = (r, s') \<Longrightarrow> I s \<Longrightarrow> I s'"
  unfolding keeps_from_def by (metis snd_conv)

lemmas keeps_reads_only = keeps_reads [where Q = "\<lambda>_ _. True"]

lemma keeps_effects:
  assumes "of_tables I" and "of_tables P" and "effects R m" and "\<And>s x s'. R s x s' \<Longrightarrow> P s \<Longrightarrow> I s \<Longrightarrow> I s'"
  shows "keeps_from P I m"
  unfolding keeps_from_def
proof (intro allI impI)
  fix s
  assume s: "P s" "I s"
  obtain r s' where m: "m s = (r, s')" by fastforce
  have c: "case r of Inl e \<Rightarrow> same_tables s s' | Inr x \<Rightarrow> (\<exists>s1. same_tables s s1 \<and> R s1 x s')"
    using assms(3) m unfolding effects_def by blast
  show "I (snd (m s))"
  proof (cases r)
    case (Inl e)
    then show ?thesis using c m s of_tables_same [OF assms(1)] by simp
  next
    case (Inr x)
    then obtain s1 where "same_tables s s1" "R s1 x s'" using c by auto
    then show ?thesis using m s of_tables_same [OF assms(1)] of_tables_same [OF assms(2)] assms(4) by auto
  qed
qed

lemma keeps_from_bind_reads:
  assumes "of_tables I" and "of_tables P" and m: "reads Q m" and f: "\<And>u. keeps_from (\<lambda>s. P s \<and> Q s u) I (f u)"
  shows "keeps_from P I (bindA m f)"
  unfolding keeps_from_def
proof (intro allI impI)
  fix s
  assume s: "P s" "I s"
  obtain r s1 where ms: "m s = (r, s1)" by fastforce
  have same: "same_tables s s1" by (rule reads_same [OF m ms])
  then have "P s1" "I s1" using s of_tables_same [OF assms(1)] of_tables_same [OF assms(2)] by simp_all
  moreover have "Q s1 u" if "r = Inr u" for u using reads_val [OF m] ms that by blast
  ultimately show "I (snd (bindA m f s))"
    using ms f unfolding keeps_from_def by (cases r) (simp_all add: bindA_Inl bindA_Inr)
qed

lemma keeps_from_then: "keeps_from P I m \<Longrightarrow> (\<And>x. keeps I (f x)) \<Longrightarrow> keeps_from P I (bindA m f)"
  unfolding keeps_from_def by (auto simp: bindA_def split: prod.splits sum.splits)

lemma keeps_from_mono: "keeps_from P I m \<Longrightarrow> (\<And>s. Q s \<Longrightarrow> P s) \<Longrightarrow> keeps_from Q I m"
  by (simp add: keeps_from_def)

lemma keeps_from_weaken: "keeps I m \<Longrightarrow> keeps_from P I m"
  by (simp add: keeps_from_def)

lemma keeps_bind [table_intros]: "keeps I m \<Longrightarrow> (\<And>x. keeps I (f x)) \<Longrightarrow> keeps I (bindA m f)"
  unfolding keeps_from_def by (blast intro: bindA_state_inv)

lemma keeps_return [table_intros]: "keeps I (returnA x)" "keeps I (failA e)"
  by (simp_all add: keeps_from_def)

lemma keeps_onErr [table_intros]: "keeps I m \<Longrightarrow> keeps I (onErr f m)"
  unfolding keeps_from_def onErr_def by (fastforce split: prod.splits sum.splits)

lemma keeps_forA [table_intros]: "(\<And>x acc. keeps I (f x acc)) \<Longrightarrow> keeps I (forA f xs acc)"
proof (induction xs arbitrary: acc)
  case (Cons x xs)
  then show ?case by (simp add: keeps_bind)
qed (simp add: keeps_return)

lemma keeps_transaction: "of_tables I \<Longrightarrow> keeps I body \<Longrightarrow> keeps I (transaction env op body)"
proof -
  assume I: "of_tables I" and b: "keeps I body"
  have "keeps I (bindA (driver env (op @ ''/begin'')) (\<lambda>_. bindA body (\<lambda>_. driver env (op @ ''/commit''))))"
    by (intro keeps_bind b keeps_reads_only [OF I] reads_only_driver)
  then show ?thesis using I unfolding keeps_from_def transaction_def of_tables_def
    by (fastforce split: prod.splits sum.splits)
qed

end
