(* ===== verification/SqliteStore.thy ===== *)
theory SqliteStore
  imports Db
begin

text \<open>
  The inventory tables (src/internal/store/sqlite.go, scan.go): nodes, backends, tunnels, mappings, SNI
  routes, health checks, failover policies and intents, agent status, tokens and the audit trail, one
  definition per method, and the desired state assembled from them.

  Row order: a SELECT without ORDER BY returns rows in the order of insertion, ORDER BY sorts stably. A
  time column is compared as text: the date and time of day have a fixed width, so the text order is the
  order of the seconds and then of the text of the fraction (\<open>time_text\<close>).
\<close>

section \<open>Columns and errors\<close>

definition frac_text :: "int \<Rightarrow> string" where
  "frac_text ns = (if ns = 0 then ''Z''
     else CHR ''.'' # rev (dropWhile (\<lambda>c. c = CHR ''0'') (rev (replicate (9 - length (nat_digits (nat ns))) (CHR ''0'') @ nat_digits (nat ns)))) @ ''Z'')"

definition sort_time :: "('r \<Rightarrow> gotime) \<Rightarrow> 'r list \<Rightarrow> 'r list" where
  "sort_time t rows = sort_key (\<lambda>r. t r div Second) (sort_key (\<lambda>r. frac_text (t r mod Second)) rows)"

text \<open>A duration column holds whole milliseconds, truncated towards zero.\<close>

definition ms_column :: "duration \<Rightarrow> duration" where
  "ms_column d = (if d < 0 then - ((- d) div Millisecond) else d div Millisecond) * Millisecond"

text \<open>The errors of a writing statement: the conflict and the missing reference the method names, if any.\<close>

definition store_err :: "string \<Rightarrow> goerr option \<Rightarrow> goerr option \<Rightarrow> goerr \<Rightarrow> goerr" where
  "store_err op conflict missing e =
     (if conflict \<noteq> None \<and> isUnique e then the conflict
      else if missing \<noteq> None \<and> isFK e then the missing
      else wrap_err op e)"

definition stamped :: "'w env \<Rightarrow> gotime \<Rightarrow> gotime \<Rightarrow> (gotime \<Rightarrow> gotime \<Rightarrow> ('w, 'a) dbact) \<Rightarrow> ('w, 'a) dbact" where
  "stamped env c u k = bindA (nowRFC3339 env c) (\<lambda>c'. bindA (nowRFC3339 env u) (\<lambda>u'. k c' u'))"

definition insertA :: "'w env \<Rightarrow> string \<Rightarrow> (goerr \<Rightarrow> goerr) \<Rightarrow> ('w db \<Rightarrow> goerr option list) \<Rightarrow> ('w db \<Rightarrow> 'w db) \<Rightarrow> ('w, unit) dbact" where
  "insertA env op err violated add = bindA (onErr err (exec env op violated (\<lambda>s. (1, add s)))) (\<lambda>_. returnA ())"

text \<open>\<open>updateA\<close>: an UPDATE or DELETE by primary key; \<open>rows s\<close> are the keys of the table.\<close>

definition updateA :: "'w env \<Rightarrow> string \<Rightarrow> (goerr \<Rightarrow> goerr) \<Rightarrow> ident \<Rightarrow> ('w db \<Rightarrow> ident list) \<Rightarrow> ('w db \<Rightarrow> goerr option list) \<Rightarrow>
    ('w db \<Rightarrow> 'w db) \<Rightarrow> ('w, unit) dbact" where
  "updateA env op err key keys violated change =
     bindA (onErr err (exec env op (\<lambda>s. if key \<in> set (keys s) then violated s else [])
       (\<lambda>s. (length (filter (\<lambda>k. k = key) (keys s)), change s)))) some_row"

definition has_node :: "'w db \<Rightarrow> ident \<Rightarrow> bool" where
  "has_node s i \<longleftrightarrow> (\<exists>n \<in> set (db_nodes s). n_ID n = i)"

definition has_backend :: "'w db \<Rightarrow> ident \<Rightarrow> bool" where
  "has_backend s i \<longleftrightarrow> (\<exists>b \<in> set (db_backends s). b_ID b = i)"

section \<open>Nodes and backends\<close>

definition CreateNode :: "'w env \<Rightarrow> node \<Rightarrow> ('w, unit) dbact" where
  "CreateNode env n = stamped env (n_CreatedAt n) (n_UpdatedAt n) (\<lambda>c u.
     insertA env ''CreateNode'' (store_err ''CreateNode'' (Some (ErrConflict ''node name already exists'')) None)
       (\<lambda>s. [constraint (\<forall>r \<in> set (db_nodes s). n_ID r \<noteq> n_ID n \<and> n_Name r \<noteq> n_Name n) (e_unique env)])
       (\<lambda>s. s\<lparr>db_nodes := db_nodes s @ [n\<lparr>n_CreatedAt := c, n_UpdatedAt := u\<rparr>]\<rparr>))"

definition GetNode :: "'w env \<Rightarrow> ident \<Rightarrow> ('w, node) dbact" where
  "GetNode env i = queryRow env ''GetNode'' (\<lambda>s. find (\<lambda>r. n_ID r = i) (db_nodes s))"

definition GetNodeByName :: "'w env \<Rightarrow> string \<Rightarrow> ('w, node) dbact" where
  "GetNodeByName env name = queryRow env ''GetNode'' (\<lambda>s. find (\<lambda>r. n_Name r = name) (db_nodes s))"

definition ListNodes :: "'w env \<Rightarrow> ('w, node list) dbact" where
  "ListNodes env = query env ''ListNodes'' (\<lambda>s. sort_key n_Name (db_nodes s))"

definition backend_refs :: "'w env \<Rightarrow> backend \<Rightarrow> 'w db \<Rightarrow> goerr option" where
  "backend_refs env b s = constraint (has_node s (b_NodeID b)) (e_fk env)"

definition CreateBackend :: "'w env \<Rightarrow> backend \<Rightarrow> ('w, unit) dbact" where
  "CreateBackend env b = stamped env (b_CreatedAt b) (b_UpdatedAt b) (\<lambda>c u.
     insertA env ''CreateBackend'' (store_err ''CreateBackend'' (Some (ErrConflict ''backend name already exists'')) (Some (NotFound ''node'' (b_NodeID b))))
       (\<lambda>s. [constraint (\<forall>r \<in> set (db_backends s). b_ID r \<noteq> b_ID b \<and> b_Name r \<noteq> b_Name b) (e_unique env), backend_refs env b s])
       (\<lambda>s. s\<lparr>db_backends := db_backends s @ [b\<lparr>b_CreatedAt := c, b_UpdatedAt := u\<rparr>]\<rparr>))"

definition GetBackend :: "'w env \<Rightarrow> ident \<Rightarrow> ('w, backend) dbact" where
  "GetBackend env i = queryRow env ''GetBackend'' (\<lambda>s. find (\<lambda>r. b_ID r = i) (db_backends s))"

definition GetBackendByName :: "'w env \<Rightarrow> string \<Rightarrow> ('w, backend) dbact" where
  "GetBackendByName env name = queryRow env ''GetBackend'' (\<lambda>s. find (\<lambda>r. b_Name r = name) (db_backends s))"

definition ListBackends :: "'w env \<Rightarrow> ('w, backend list) dbact" where
  "ListBackends env = query env ''ListBackends'' (\<lambda>s. sort_key b_Name (db_backends s))"

definition ListBackendsByNode :: "'w env \<Rightarrow> ident \<Rightarrow> ('w, backend list) dbact" where
  "ListBackendsByNode env n = query env ''ListBackendsByNode'' (\<lambda>s. sort_key b_Name (filter (\<lambda>r. b_NodeID r = n) (db_backends s)))"

definition UpdateBackend :: "'w env \<Rightarrow> backend \<Rightarrow> ('w, unit) dbact" where
  "UpdateBackend env b = bindA (nowRFC3339 env (b_UpdatedAt b)) (\<lambda>u.
     updateA env ''UpdateBackend'' (store_err ''UpdateBackend'' (Some (ErrConflict ''backend name already exists'')) (Some (NotFound ''node'' (b_NodeID b))))
       (b_ID b) (\<lambda>s. map b_ID (db_backends s))
       (\<lambda>s. [constraint (\<forall>r \<in> set (db_backends s). b_ID r \<noteq> b_ID b \<longrightarrow> b_Name r \<noteq> b_Name b) (e_unique env), backend_refs env b s])
       (\<lambda>s. s\<lparr>db_backends := upd_where (\<lambda>r. b_ID r = b_ID b) (\<lambda>r. b\<lparr>b_CreatedAt := b_CreatedAt r, b_UpdatedAt := u\<rparr>) (db_backends s)\<rparr>))"

section \<open>Tunnels\<close>

definition CreateTunnel :: "'w env \<Rightarrow> tunnel \<Rightarrow> ('w, unit) dbact" where
  "CreateTunnel env t = stamped env (t_CreatedAt t) (t_UpdatedAt t) (\<lambda>c u.
     insertA env ''CreateTunnel'' (store_err ''CreateTunnel'' None (Some (NotFound ''node or backend'' (t_NodeID t @ ''/'' @ t_BackendID t))))
       (\<lambda>s. [constraint (t_Type t \<in> {TunnelWireGuard, TunnelSSHTUN}) (e_check env),
             constraint (\<forall>r \<in> set (db_tunnels s). t_ID r \<noteq> t_ID t) (e_unique env),
             constraint (has_node s (t_NodeID t) \<and> has_backend s (t_BackendID t)) (e_fk env)])
       (\<lambda>s. s\<lparr>db_tunnels := db_tunnels s @ [t\<lparr>t_CreatedAt := c, t_UpdatedAt := u\<rparr>]\<rparr>))"

definition GetTunnel :: "'w env \<Rightarrow> ident \<Rightarrow> ('w, tunnel) dbact" where
  "GetTunnel env i = queryRow env ''GetTunnel'' (\<lambda>s. find (\<lambda>r. t_ID r = i) (db_tunnels s))"

definition by_priority :: "tunnel list \<Rightarrow> tunnel list" where
  "by_priority ts = sort_key t_Priority (sort_key t_InterfaceName ts)"

definition ListTunnels :: "'w env \<Rightarrow> ('w, tunnel list) dbact" where
  "ListTunnels env = query env ''ListTunnels'' (\<lambda>s. by_priority (db_tunnels s))"

definition ListTunnelsByNode :: "'w env \<Rightarrow> ident \<Rightarrow> ('w, tunnel list) dbact" where
  "ListTunnelsByNode env n = query env ''ListTunnelsByNode'' (\<lambda>s. by_priority (filter (\<lambda>r. t_NodeID r = n) (db_tunnels s)))"

section \<open>Mappings\<close>

definition mapping_conflict :: "port_mapping \<Rightarrow> goerr" where
  "mapping_conflict m = ErrConflict (''mapping '' @ m_Protocol m @ ''/'' @ Itoa (m_PublicPort m) @ '' already exists on node'')"

definition mapping_checks :: "'w env \<Rightarrow> port_mapping \<Rightarrow> (port_mapping \<Rightarrow> bool) \<Rightarrow> 'w db \<Rightarrow> goerr option list" where
  "mapping_checks env m others s =
     [constraint (m_Protocol m \<in> {ProtoTCP, ProtoUDP}) (e_check env),
      constraint (\<forall>r \<in> set (db_mappings s). others r \<longrightarrow> m_ID r \<noteq> m_ID m \<and>
        (m_NodeID r, m_Protocol r, m_PublicPort r) \<noteq> (m_NodeID m, m_Protocol m, m_PublicPort m)) (e_unique env),
      constraint (has_node s (m_NodeID m) \<and> has_backend s (m_BackendID m)) (e_fk env)]"

definition CreateMapping :: "'w env \<Rightarrow> port_mapping \<Rightarrow> ('w, unit) dbact" where
  "CreateMapping env m = stamped env (m_CreatedAt m) (m_UpdatedAt m) (\<lambda>c u.
     insertA env ''CreateMapping'' (store_err ''CreateMapping'' (Some (mapping_conflict m)) (Some (NotFound ''node or backend'' (m_NodeID m))))
       (mapping_checks env m (\<lambda>_. True))
       (\<lambda>s. s\<lparr>db_mappings := db_mappings s @ [m\<lparr>m_Enabled := True, m_CreatedAt := c, m_UpdatedAt := u\<rparr>]\<rparr>))"

definition GetMapping :: "'w env \<Rightarrow> ident \<Rightarrow> ('w, port_mapping) dbact" where
  "GetMapping env i = queryRow env ''GetMapping'' (\<lambda>s. find (\<lambda>r. m_ID r = i) (db_mappings s))"

definition ListMappings :: "'w env \<Rightarrow> ('w, port_mapping list) dbact" where
  "ListMappings env = query env ''ListMappings'' (\<lambda>s. sort_key m_PublicPort (db_mappings s))"

definition ListMappingsByNode :: "'w env \<Rightarrow> ident \<Rightarrow> ('w, port_mapping list) dbact" where
  "ListMappingsByNode env n = query env ''ListMappingsByNode'' (\<lambda>s. sort_key m_PublicPort (filter (\<lambda>r. m_NodeID r = n) (db_mappings s)))"

definition UpdateMapping :: "'w env \<Rightarrow> port_mapping \<Rightarrow> ('w, unit) dbact" where
  "UpdateMapping env m = bindA (nowRFC3339 env (m_UpdatedAt m)) (\<lambda>u.
     updateA env ''UpdateMapping'' (store_err ''UpdateMapping'' (Some (mapping_conflict m)) (Some (NotFound ''node or backend'' (m_NodeID m))))
       (m_ID m) (\<lambda>s. map m_ID (db_mappings s)) (mapping_checks env m (\<lambda>r. m_ID r \<noteq> m_ID m))
       (\<lambda>s. s\<lparr>db_mappings := upd_where (\<lambda>r. m_ID r = m_ID m) (\<lambda>r. m\<lparr>m_CreatedAt := m_CreatedAt r, m_UpdatedAt := u\<rparr>) (db_mappings s)\<rparr>))"

definition DeleteMapping :: "'w env \<Rightarrow> ident \<Rightarrow> ('w, unit) dbact" where
  "DeleteMapping env i = updateA env ''DeleteMapping'' (wrap_err ''DeleteMapping'') i (\<lambda>s. map m_ID (db_mappings s)) (\<lambda>s. [])
     (\<lambda>s. s\<lparr>db_mappings := filter (\<lambda>r. m_ID r \<noteq> i) (db_mappings s)\<rparr>)"

definition filterEnabledMappings :: "port_mapping list \<Rightarrow> port_mapping list" where
  "filterEnabledMappings ms = filter m_Enabled ms"

section \<open>SNI routes, health checks, policies, intents\<close>

definition route_refs :: "'w env \<Rightarrow> sni_route \<Rightarrow> 'w db \<Rightarrow> goerr option" where
  "route_refs env r s = constraint (has_node s (r_NodeID r)) (e_fk env)"

definition CreateSniRoute :: "'w env \<Rightarrow> sni_route \<Rightarrow> ('w, unit) dbact" where
  "CreateSniRoute env r = stamped env (r_CreatedAt r) (r_UpdatedAt r) (\<lambda>c u.
     insertA env ''CreateSniRoute'' (store_err ''CreateSniRoute'' None (Some (NotFound ''node'' (r_NodeID r))))
       (\<lambda>s. [constraint (\<forall>x \<in> set (db_sni s). r_ID x \<noteq> r_ID r) (e_unique env), route_refs env r s])
       (\<lambda>s. s\<lparr>db_sni := db_sni s @ [r\<lparr>r_CreatedAt := c, r_UpdatedAt := u\<rparr>]\<rparr>))"

definition GetSniRoute :: "'w env \<Rightarrow> ident \<Rightarrow> ('w, sni_route) dbact" where
  "GetSniRoute env i = queryRow env ''GetSniRoute'' (\<lambda>s. find (\<lambda>r. r_ID r = i) (db_sni s))"

definition ListSniRoutes :: "'w env \<Rightarrow> ('w, sni_route list) dbact" where
  "ListSniRoutes env = query env ''ListSniRoutes'' (\<lambda>s. sort_key r_Listen (db_sni s))"

definition UpdateSniRoute :: "'w env \<Rightarrow> sni_route \<Rightarrow> ('w, unit) dbact" where
  "UpdateSniRoute env r = bindA (nowRFC3339 env (r_UpdatedAt r)) (\<lambda>u.
     updateA env ''UpdateSniRoute'' (store_err ''UpdateSniRoute'' None (Some (NotFound ''node'' (r_NodeID r))))
       (r_ID r) (\<lambda>s. map r_ID (db_sni s)) (\<lambda>s. [route_refs env r s])
       (\<lambda>s. s\<lparr>db_sni := upd_where (\<lambda>x. r_ID x = r_ID r) (\<lambda>x. r\<lparr>r_CreatedAt := r_CreatedAt x, r_UpdatedAt := u\<rparr>) (db_sni s)\<rparr>))"

definition ListSniRoutesByNode :: "'w env \<Rightarrow> ident \<Rightarrow> ('w, sni_route list) dbact" where
  "ListSniRoutesByNode env n = query env ''ListSniRoutesByNode'' (\<lambda>s. filter (\<lambda>r. r_NodeID r = n) (db_sni s))"

definition CreateHealthCheck :: "'w env \<Rightarrow> health_check \<Rightarrow> ('w, unit) dbact" where
  "CreateHealthCheck env h = stamped env (hc_CreatedAt h) (hc_UpdatedAt h) (\<lambda>c u.
     insertA env ''CreateHealthCheck'' (store_err ''CreateHealthCheck'' None (Some (NotFound ''backend'' (hc_BackendID h))))
       (\<lambda>s. [constraint (\<forall>x \<in> set (db_checks s). hc_ID x \<noteq> hc_ID h) (e_unique env), constraint (has_backend s (hc_BackendID h)) (e_fk env)])
       (\<lambda>s. s\<lparr>db_checks := db_checks s @ [h\<lparr>hc_Interval := ms_column (hc_Interval h), hc_Timeout := ms_column (hc_Timeout h),
                hc_CreatedAt := c, hc_UpdatedAt := u\<rparr>]\<rparr>))"

definition ListHealthChecksByBackend :: "'w env \<Rightarrow> ident \<Rightarrow> ('w, health_check list) dbact" where
  "ListHealthChecksByBackend env b = query env ''ListHealthChecksByBackend'' (\<lambda>s. filter (\<lambda>h. hc_BackendID h = b) (db_checks s))"

definition CreateFailoverPolicy :: "'w env \<Rightarrow> failover_policy \<Rightarrow> ('w, unit) dbact" where
  "CreateFailoverPolicy env p = stamped env (p_CreatedAt p) (p_UpdatedAt p) (\<lambda>c u.
     insertA env ''CreateFailoverPolicy'' (store_err ''CreateFailoverPolicy''
         (Some (ErrConflict ''failover policy already exists for this node/backend'')) (Some (NotFound ''node or backend'' (p_NodeID p))))
       (\<lambda>s. [constraint (\<forall>x \<in> set (db_policies s). p_ID x \<noteq> p_ID p \<and> (p_NodeID x, p_BackendID x) \<noteq> (p_NodeID p, p_BackendID p)) (e_unique env),
             constraint (has_node s (p_NodeID p) \<and> has_backend s (p_BackendID p)) (e_fk env)])
       (\<lambda>s. s\<lparr>db_policies := db_policies s @ [p\<lparr>p_CheckInterval := ms_column (p_CheckInterval p), p_CreatedAt := c, p_UpdatedAt := u\<rparr>]\<rparr>))"

definition GetFailoverPolicy :: "'w env \<Rightarrow> ident \<Rightarrow> ident \<Rightarrow> ('w, failover_policy) dbact" where
  "GetFailoverPolicy env n b = queryRow env ''GetFailoverPolicy'' (\<lambda>s. find (\<lambda>p. p_NodeID p = n \<and> p_BackendID p = b) (db_policies s))"

definition ListFailoverPoliciesByNode :: "'w env \<Rightarrow> ident \<Rightarrow> ('w, failover_policy list) dbact" where
  "ListFailoverPoliciesByNode env n = query env ''ListFailoverPoliciesByNode'' (\<lambda>s. filter (\<lambda>p. p_NodeID p = n) (db_policies s))"

definition CreateFailbackIntent :: "'w env \<Rightarrow> failback_intent \<Rightarrow> ('w, unit) dbact" where
  "CreateFailbackIntent env fi = bindA (nowRFC3339 env (fi_CreatedAt fi)) (\<lambda>c.
     insertA env ''CreateFailbackIntent'' (store_err ''CreateFailbackIntent'' None (Some (NotFound ''node or backend'' (fi_NodeID fi))))
       (\<lambda>s. [constraint (\<forall>x \<in> set (db_intents s). fi_ID x \<noteq> fi_ID fi) (e_unique env),
             constraint (has_node s (fi_NodeID fi) \<and> has_backend s (fi_BackendID fi)) (e_fk env)])
       (\<lambda>s. s\<lparr>db_intents := db_intents s @ [fi\<lparr>fi_CreatedAt := c\<rparr>]\<rparr>))"

definition ListFailbackIntents :: "'w env \<Rightarrow> ident \<Rightarrow> ('w, failback_intent list) dbact" where
  "ListFailbackIntents env n = query env ''ListFailbackIntents'' (\<lambda>s. sort_time fi_CreatedAt (filter (\<lambda>x. fi_NodeID x = n) (db_intents s)))"

definition DeleteFailbackIntent :: "'w env \<Rightarrow> ident \<Rightarrow> ('w, unit) dbact" where
  "DeleteFailbackIntent env i = updateA env ''DeleteFailbackIntent'' (wrap_err ''DeleteFailbackIntent'') i (\<lambda>s. map fi_ID (db_intents s)) (\<lambda>s. [])
     (\<lambda>s. s\<lparr>db_intents := filter (\<lambda>x. fi_ID x \<noteq> i) (db_intents s)\<rparr>)"

section \<open>The desired state of a node\<close>

definition DesiredState :: "'w env \<Rightarrow> ident \<Rightarrow> ('w, desired_state) dbact" where
  "DesiredState env n =
     bindA (GetNode env n) (\<lambda>node.
     bindA (ListBackendsByNode env n) (\<lambda>bs.
     bindA (ListTunnelsByNode env n) (\<lambda>ts.
     bindA (ListMappingsByNode env n) (\<lambda>ms.
     bindA (ListSniRoutesByNode env n) (\<lambda>rs.
     bindA (ListFailoverPoliciesByNode env n) (\<lambda>ps.
     bindA (forA (\<lambda>b acc. bindA (ListHealthChecksByBackend env (b_ID b)) (\<lambda>hs. returnA (acc @ hs))) bs []) (\<lambda>hcs.
     bindA (ListFailbackIntents env n) (\<lambda>fis.
       returnA \<lparr>d_Node = node, d_Backends = bs, d_Tunnels = ts, d_Mappings = filterEnabledMappings ms, d_SniRoutes = rs,
         d_HealthChecks = hcs, d_FailoverPolicies = ps, d_FailbackIntents = fis\<rparr>))))))))"

section \<open>Agent status\<close>

definition PutActualState :: "'w env \<Rightarrow> ident \<Rightarrow> actual_state \<Rightarrow> agent_status \<Rightarrow> ('w, unit) dbact" where
  "PutActualState env n st status =
     bindA (nowA env) (\<lambda>now.
     stamped env (ag_LastReconcile status) (ag_LastHeartbeat status) (\<lambda>lr lh.
     insertA env ''PutActualState'' (store_err ''PutActualState'' None (Some (NotFound ''node'' n)))
       (\<lambda>s. [constraint (has_node s n) (e_fk env)])
       (\<lambda>s. let row = (status\<lparr>ag_NodeID := n, ag_LastReconcile := lr, ag_LastHeartbeat := lh, ag_TransportStates := []\<rparr>, st)
            in s\<lparr>db_status := (if \<exists>r \<in> set (db_status s). ag_NodeID (fst r) = n
                               then upd_where (\<lambda>r. ag_NodeID (fst r) = n) (\<lambda>_. row) (db_status s)
                               else db_status s @ [row])\<rparr>)))"

definition GetActualState :: "'w env \<Rightarrow> ident \<Rightarrow> ('w, agent_status \<times> actual_state) dbact" where
  "GetActualState env n = queryRow env ''GetActualState'' (\<lambda>s. find (\<lambda>r. ag_NodeID (fst r) = n) (db_status s))"

section \<open>Tokens\<close>

definition token_roles :: "string list" where
  "token_roles = [''operator'', ''readonly'', ''agent'']"

definition CreateToken :: "'w env \<Rightarrow> token \<Rightarrow> ('w, unit) dbact" where
  "CreateToken env t = bindA (nowRFC3339 env (tk_CreatedAt t)) (\<lambda>c.
     insertA env ''CreateToken'' (store_err ''CreateToken'' (Some (ErrConflict ''token name already exists'')) None)
       (\<lambda>s. [constraint (tk_Role t \<in> set token_roles) (e_check env),
             constraint (\<forall>r \<in> set (db_tokens s). tk_ID r \<noteq> tk_ID t \<and> tk_Name r \<noteq> tk_Name t) (e_unique env)])
       (\<lambda>s. s\<lparr>db_tokens := db_tokens s @ [t\<lparr>tk_CreatedAt := c\<rparr>]\<rparr>))"

definition RevokeToken :: "'w env \<Rightarrow> ident \<Rightarrow> ('w, unit) dbact" where
  "RevokeToken env i = updateA env ''RevokeToken'' (wrap_err ''RevokeToken'') i (\<lambda>s. map tk_ID (db_tokens s)) (\<lambda>s. [])
     (\<lambda>s. s\<lparr>db_tokens := upd_where (\<lambda>t. tk_ID t = i) (\<lambda>t. t\<lparr>tk_Revoked := True\<rparr>) (db_tokens s)\<rparr>)"

definition LookupTokenByHash :: "'w env \<Rightarrow> string \<Rightarrow> ('w, token) dbact" where
  "LookupTokenByHash env h = queryRow env ''LookupToken'' (\<lambda>s. find (\<lambda>t. tk_Hash t = h \<and> \<not> tk_Revoked t) (db_tokens s))"

definition ListTokens :: "'w env \<Rightarrow> ('w, token list) dbact" where
  "ListTokens env = query env ''ListTokens'' db_tokens"

definition HasTokenName :: "'w env \<Rightarrow> string \<Rightarrow> ('w, bool) dbact" where
  "HasTokenName env name = bindA (driver env ''HasTokenName'')
     (\<lambda>_ s. (Inr (0 < length (filter (\<lambda>t. tk_Name t = name) (db_tokens s))), s))"

section \<open>The audit trail\<close>

definition AppendAudit :: "'w env \<Rightarrow> audit_event \<Rightarrow> ('w, unit) dbact" where
  "AppendAudit env e = bindA (nowRFC3339 env (au_Timestamp e)) (\<lambda>t.
     insertA env ''AppendAudit'' (wrap_err ''AppendAudit'')
       (\<lambda>s. [constraint (\<forall>x \<in> set (db_audit s). au_ID x \<noteq> au_ID e) (e_unique env)])
       (\<lambda>s. s\<lparr>db_audit := db_audit s @ [e\<lparr>au_Timestamp := t\<rparr>]\<rparr>))"

definition ListAudit :: "'w env \<Rightarrow> int \<Rightarrow> ('w, audit_event list) dbact" where
  "ListAudit env limit = query env ''ListAudit'' (\<lambda>s. take (nat (if limit \<le> 0 then 100 else limit)) (rev (sort_time au_Timestamp (db_audit s))))"

end
