(* ===== verification/UserStore.thy ===== *)
theory UserStore
  imports Db
begin

text \<open>
  The tables \<open>users\<close> and \<open>user_recovery_codes\<close> (src/internal/store/users.go), statement by statement,
  and what the statements keep: distinct ids and usernames, roles the schema admits, and the rows they do
  not name.
\<close>

definition human_roles :: "string list" where
  "human_roles = [''administrator'', ''operator'', ''readonly'']"

definition localeOrDefault :: "string \<Rightarrow> string" where
  "localeOrDefault s = (if s = ''ru'' then ''ru'' else ''en'')"

definition lastLoginValue :: "'w env \<Rightarrow> gotime \<Rightarrow> ('w, gotime) dbact" where
  "lastLoginValue env t = (if t = 0 then returnA 0 else nowRFC3339 env t)"

definition scanUserInto :: "user \<Rightarrow> user" where
  "scanUserInto row = row\<lparr>u_TOTPEnabled := u_TOTPEnabled row \<and> u_TOTPSecret row \<noteq> [],
     u_Locale := localeOrDefault (u_Locale row)\<rparr>"

section \<open>Users\<close>

definition CreateUser :: "'w env \<Rightarrow> user \<Rightarrow> ('w, unit) dbact" where
  "CreateUser env u =
     bindA (nowRFC3339 env (u_CreatedAt u)) (\<lambda>created.
     bindA (nowRFC3339 env (u_UpdatedAt u)) (\<lambda>updated.
     bindA (lastLoginValue env (u_LastLoginAt u)) (\<lambda>login.
     bindA (onErr (\<lambda>e. if isUnique e then ErrConflict ''username already exists'' else wrap_err ''CreateUser'' e)
       (exec env ''CreateUser''
         (\<lambda>s. [constraint (u_Role u \<in> set human_roles) (e_check env),
               constraint (\<forall>r \<in> set (db_users s). u_ID r \<noteq> u_ID u \<and> u_Username r \<noteq> u_Username u) (e_unique env)])
         (\<lambda>s. (1, s\<lparr>db_users := db_users s @ [u\<lparr>u_Locale := localeOrDefault (u_Locale u), u_CreatedAt := created,
                 u_UpdatedAt := updated, u_LastLoginAt := login\<rparr>]\<rparr>))))
     (\<lambda>_. returnA ()))))"

definition GetUser :: "'w env \<Rightarrow> ident \<Rightarrow> ('w, user) dbact" where
  "GetUser env uid = queryRow env ''GetUser'' (\<lambda>s. map_option scanUserInto (find (\<lambda>r. u_ID r = uid) (db_users s)))"

definition GetUserByUsername :: "'w env \<Rightarrow> string \<Rightarrow> ('w, user) dbact" where
  "GetUserByUsername env name =
     queryRow env ''GetUserByUsername'' (\<lambda>s. map_option scanUserInto (find (\<lambda>r. u_Username r = name) (db_users s)))"

definition ListUsers :: "'w env \<Rightarrow> ('w, user list) dbact" where
  "ListUsers env = query env ''ListUsers'' (\<lambda>s. map scanUserInto (sort_key u_Username (db_users s)))"

definition CountUsers :: "'w env \<Rightarrow> ('w, nat) dbact" where
  "CountUsers env = queryRow env ''CountUsers'' (\<lambda>s. Some (length (db_users s)))"

definition active_admin :: "user \<Rightarrow> bool" where
  "active_admin u \<longleftrightarrow> u_Role u = ''administrator'' \<and> \<not> u_Disabled u"

definition CountAdministrators :: "'w env \<Rightarrow> ('w, nat) dbact" where
  "CountAdministrators env = queryRow env ''CountAdministrators'' (\<lambda>s. Some (length (filter active_admin (db_users s))))"

definition UpdateUser :: "'w env \<Rightarrow> user \<Rightarrow> ('w, unit) dbact" where
  "UpdateUser env u =
     bindA (nowRFC3339 env (u_UpdatedAt u)) (\<lambda>updated.
     bindA (lastLoginValue env (u_LastLoginAt u)) (\<lambda>login.
     bindA (onErr (\<lambda>e. if isUnique e then ErrConflict ''username already exists'' else wrap_err ''UpdateUser'' e)
       (exec env ''UpdateUser''
         (\<lambda>s. if \<exists>r \<in> set (db_users s). u_ID r = u_ID u
              then [constraint (u_Role u \<in> set human_roles) (e_check env),
                    constraint (\<forall>r \<in> set (db_users s). u_ID r \<noteq> u_ID u \<longrightarrow> u_Username r \<noteq> u_Username u) (e_unique env)]
              else [])
         (\<lambda>s. (length (filter (\<lambda>r. u_ID r = u_ID u) (db_users s)),
               s\<lparr>db_users := upd_where (\<lambda>r. u_ID r = u_ID u)
                   (\<lambda>r. u\<lparr>u_Locale := localeOrDefault (u_Locale u), u_CreatedAt := u_CreatedAt r,
                     u_UpdatedAt := updated, u_LastLoginAt := login\<rparr>) (db_users s)\<rparr>))))
     some_row))"

section \<open>Recovery codes\<close>

definition insert_code :: "'w env \<Rightarrow> ident \<Rightarrow> string \<Rightarrow> ('w, unit) dbact" where
  "insert_code env uid h =
     bindA (ident_New env) (\<lambda>cid.
     bindA (exec env ''ReplaceRecoveryCodes/insert''
       (\<lambda>s. [constraint (\<forall>c \<in> set (db_codes s). rc_ID c \<noteq> cid) (e_unique env),
             constraint (\<exists>u \<in> set (db_users s). u_ID u = uid) (e_fk env)])
       (\<lambda>s. (1, s\<lparr>db_codes := db_codes s @ [\<lparr>rc_ID = cid, rc_UserID = uid, rc_Hash = h, rc_UsedAt = 0\<rparr>]\<rparr>)))
     (\<lambda>_. returnA ()))"

definition ReplaceRecoveryCodes :: "'w env \<Rightarrow> ident \<Rightarrow> string list \<Rightarrow> ('w, unit) dbact" where
  "ReplaceRecoveryCodes env uid hashes =
     onErr (wrap_err ''ReplaceRecoveryCodes'') (transaction env ''ReplaceRecoveryCodes''
       (bindA (exec env ''ReplaceRecoveryCodes/delete'' (\<lambda>s. [])
                (\<lambda>s. (length (filter (\<lambda>c. rc_UserID c = uid) (db_codes s)),
                      s\<lparr>db_codes := filter (\<lambda>c. rc_UserID c \<noteq> uid) (db_codes s)\<rparr>)))
          (\<lambda>_. forA (\<lambda>h _. insert_code env uid h) hashes ())))"

definition ListRecoveryCodeHashes :: "'w env \<Rightarrow> ident \<Rightarrow> ('w, recovery_code list) dbact" where
  "ListRecoveryCodeHashes env uid = query env ''ListRecoveryCodeHashes'' (\<lambda>s. filter (\<lambda>c. rc_UserID c = uid) (db_codes s))"

definition MarkRecoveryCodeUsed :: "'w env \<Rightarrow> ident \<Rightarrow> gotime \<Rightarrow> ('w, unit) dbact" where
  "MarkRecoveryCodeUsed env cid usedAt =
     bindA (nowRFC3339 env usedAt) (\<lambda>t. onErr (wrap_err ''MarkRecoveryCodeUsed'')
     (bindA (exec env ''MarkRecoveryCodeUsed'' (\<lambda>s. [])
       (\<lambda>s. (length (filter (\<lambda>c. rc_ID c = cid) (db_codes s)),
             s\<lparr>db_codes := upd_where (\<lambda>c. rc_ID c = cid) (\<lambda>c. c\<lparr>rc_UsedAt := t\<rparr>) (db_codes s)\<rparr>)))
     (\<lambda>_. returnA ())))"

section \<open>What the statements keep\<close>

text \<open>Primary and unique keys, the CHECK on roles, and what \<open>localeOrDefault\<close> writes.\<close>

definition users_ok :: "user list \<Rightarrow> bool" where
  "users_ok us \<longleftrightarrow> distinct (map u_ID us) \<and> distinct (map u_Username us) \<and>
     (\<forall>u \<in> set us. u_Role u \<in> set human_roles \<and> u_Locale u \<in> {''en'', ''ru''})"

lemma users_ok_snoc:
  assumes "users_ok us" and "u_Role u \<in> set human_roles" and "\<forall>r \<in> set us. u_ID r \<noteq> u_ID u \<and> u_Username r \<noteq> u_Username u"
  shows "users_ok (us @ [u\<lparr>u_Locale := localeOrDefault l, u_CreatedAt := c, u_UpdatedAt := t, u_LastLoginAt := g\<rparr>])"
  using assms by (auto simp: users_ok_def localeOrDefault_def)

lemma map_upd_where: "(\<And>r. P r \<Longrightarrow> k (f r) = k r) \<Longrightarrow> map k (upd_where P f rows) = map k rows"
  by (auto simp: upd_where_def)

lemma upd_where_none: "(\<forall>r \<in> set rows. \<not> P r) \<Longrightarrow> upd_where P f rows = rows"
  by (auto simp: upd_where_def map_idI)

lemma distinct_names_update:
  assumes "distinct (map u_ID us)" and "distinct (map u_Username us)"
    and "\<forall>r \<in> set us. u_ID r \<noteq> i \<longrightarrow> u_Username r \<noteq> n" and "\<And>r. u_Username (f r) = n"
  shows "distinct (map u_Username (upd_where (\<lambda>r. u_ID r = i) f us))"
  using assms
proof (induction us)
  case (Cons u us)
  show ?case
  proof (cases "u_ID u = i")
    case True
    then have "\<forall>r \<in> set us. u_ID r \<noteq> i" using Cons.prems(1) by (metis distinct.simps(2) image_eqI list.set_map list.simps(9))
    then have "upd_where (\<lambda>r. u_ID r = i) f us = us" by (rule upd_where_none)
    moreover have "n \<notin> u_Username ` set us" using Cons.prems(3) \<open>\<forall>r \<in> set us. u_ID r \<noteq> i\<close> by auto
    ultimately show ?thesis using True Cons.prems by (auto simp: upd_where_def)
  next
    case False
    then have "u_Username u \<noteq> n" using Cons.prems(3) by simp
    then have "u_Username u \<notin> u_Username ` set (upd_where (\<lambda>r. u_ID r = i) f us)"
      using Cons.prems(2,4) by (auto simp: upd_where_def)
    moreover have "upd_where (\<lambda>r. u_ID r = i) f (u # us) = u # upd_where (\<lambda>r. u_ID r = i) f us"
      using False by (simp add: upd_where_def)
    ultimately show ?thesis using Cons by simp
  qed
qed (simp add: upd_where_def)

lemma users_ok_upd:
  assumes "users_ok us" and "u_Role u \<in> set human_roles" and "\<forall>r \<in> set us. u_ID r \<noteq> u_ID u \<longrightarrow> u_Username r \<noteq> u_Username u"
  shows "users_ok (upd_where (\<lambda>r. u_ID r = u_ID u)
     (\<lambda>r. u\<lparr>u_Locale := localeOrDefault l, u_CreatedAt := u_CreatedAt r, u_UpdatedAt := t, u_LastLoginAt := g\<rparr>) us)"
proof -
  let ?f = "\<lambda>r. u\<lparr>u_Locale := localeOrDefault l, u_CreatedAt := u_CreatedAt r, u_UpdatedAt := t, u_LastLoginAt := g\<rparr>"
  have "map u_ID (upd_where (\<lambda>r. u_ID r = u_ID u) ?f us) = map u_ID us" by (rule map_upd_where) simp
  moreover have "distinct (map u_Username (upd_where (\<lambda>r. u_ID r = u_ID u) ?f us))"
    using assms by (intro distinct_names_update [where n = "u_Username u"]) (auto simp: users_ok_def)
  moreover have "\<forall>v \<in> set (upd_where (\<lambda>r. u_ID r = u_ID u) ?f us). u_Role v \<in> set human_roles \<and> u_Locale v \<in> {''en'', ''ru''}"
    using assms(1,2) by (auto simp: users_ok_def upd_where_def localeOrDefault_def)
  ultimately show ?thesis using assms(1) by (simp add: users_ok_def)
qed

end
