(* ===== verification/Totp.thy ===== *)
theory Totp
  imports Errors Model "HOL-Library.Word"
begin

unbundle bit_operations_syntax

text \<open>
  One-time passwords (src/internal/auth/totp.go): the base32 text of the shared secret, the code of a
  counter (RFC 4226) and the window of three counters a login accepts.

  HMAC-SHA1 is a parameter, a function from key and message to the digest. Indexing the digest out of
  range is a panic in Go and None here; \<open>hotp_code_bounds\<close> excludes it for digests of 20 bytes.
\<close>

type_synonym mac = "string \<Rightarrow> string \<Rightarrow> string"

definition totpPeriod :: int where "totpPeriod = 30"
definition totpDigits :: nat where "totpDigits = 6"
definition totpSkew :: int where "totpSkew = 1"

definition byte_of :: "char \<Rightarrow> 8 word" where "byte_of c = word_of_nat (of_char c)"
definition char_byte :: "8 word \<Rightarrow> char" where "char_byte w = char_of (unat w)"

lemma char_byte_of [simp]: "char_byte (byte_of c) = c"
proof -
  have "(of_char c :: nat) < 256" by simp
  then have "unat (word_of_nat (of_char c) :: 8 word) = of_char c" by (simp add: unat_of_nat take_bit_eq_mod)
  then show ?thesis by (simp add: char_byte_def byte_of_def)
qed

section \<open>Base 32\<close>

definition b32_char :: "8 word \<Rightarrow> char" where
  "b32_char v = (let n = unat v in if n < 26 then char_of (65 + n) else char_of (24 + n))"

definition b32_val :: "char \<Rightarrow> 8 word option" where
  "b32_val c = (let n = (of_char c :: nat) in
     if 65 \<le> n \<and> n \<le> 90 then Some (word_of_nat (n - 65))
     else if 50 \<le> n \<and> n \<le> 55 then Some (word_of_nat (n - 24))
     else None)"

text \<open>The blocks of five bytes and eight digits. What is left of a block at the end is decoded by its
  length: one, three or six digits give no byte.\<close>

fun b32_encode :: "8 word list \<Rightarrow> 8 word list" where
  "b32_encode (b0 # b1 # b2 # b3 # b4 # bs) =
     [drop_bit 3 b0, (push_bit 2 b0 AND mask 5) OR drop_bit 6 b1, drop_bit 1 b1 AND mask 5,
      (push_bit 4 b1 AND mask 5) OR drop_bit 4 b2, (push_bit 1 b2 AND mask 5) OR drop_bit 7 b3,
      drop_bit 2 b3 AND mask 5, (push_bit 3 b3 AND mask 5) OR drop_bit 5 b4, b4 AND mask 5] @ b32_encode bs"
| "b32_encode _ = []"

fun b32_decode :: "8 word list \<Rightarrow> 8 word list" where
  "b32_decode (d0 # d1 # d2 # d3 # d4 # d5 # d6 # d7 # ds) =
     [push_bit 3 d0 OR drop_bit 2 d1, push_bit 6 d1 OR push_bit 1 d2 OR drop_bit 4 d3, push_bit 4 d3 OR drop_bit 1 d4,
      push_bit 7 d4 OR push_bit 2 d5 OR drop_bit 3 d6, push_bit 5 d6 OR d7] @ b32_decode ds"
| "b32_decode [d0, d1, d2, d3, d4, d5, d6] =
     [push_bit 3 d0 OR drop_bit 2 d1, push_bit 6 d1 OR push_bit 1 d2 OR drop_bit 4 d3, push_bit 4 d3 OR drop_bit 1 d4,
      push_bit 7 d4 OR push_bit 2 d5 OR drop_bit 3 d6]"
| "b32_decode [d0, d1, d2, d3, d4] =
     [push_bit 3 d0 OR drop_bit 2 d1, push_bit 6 d1 OR push_bit 1 d2 OR drop_bit 4 d3, push_bit 4 d3 OR drop_bit 1 d4]"
| "b32_decode [d0, d1, d2, d3] = [push_bit 3 d0 OR drop_bit 2 d1, push_bit 6 d1 OR push_bit 1 d2 OR drop_bit 4 d3]"
| "b32_decode [d0, d1] = [push_bit 3 d0 OR drop_bit 2 d1]"
| "b32_decode _ = []"

text \<open>
  The secret is 20 random bytes, four whole blocks; \<open>b32_encode\<close> is only used on those and does not
  spell out the encoding of a last partial block. \<open>rd\<close> is \<open>rand.Read\<close>: the bytes or an error.
\<close>

definition encodeTOTPSecret :: "string \<Rightarrow> string" where
  "encodeTOTPSecret b = map b32_char (b32_encode (map byte_of b))"

definition randomTOTPSecret :: "(nat \<Rightarrow> 'w \<Rightarrow> (goerr + string) \<times> 'w) \<Rightarrow> ('w, goerr, string) act" where
  "randomTOTPSecret rd = bindA (rd 20) (\<lambda>b. returnA (encodeTOTPSecret b))"

fun all_some :: "'a option list \<Rightarrow> 'a list option" where
  "all_some [] = Some []"
| "all_some (x # xs) = (case (x, all_some xs) of (Some y, Some ys) \<Rightarrow> Some (y # ys) | _ \<Rightarrow> None)"

definition decodeTOTPSecret :: "string \<Rightarrow> string option" where
  "decodeTOTPSecret secret =
     (let s = ToUpper (filter (\<lambda>c. c \<noteq> CHR '' '') (TrimSpace secret));
          t = filter (\<lambda>c. c \<noteq> CHR 0x0D \<and> c \<noteq> CHR 0x0A) s
      in map_option (\<lambda>ds. map char_byte (b32_decode ds)) (all_some (map b32_val t)))"

section \<open>Codes\<close>

text \<open>The eight bytes of a counter, the most significant first.\<close>

definition counter_bytes :: "64 word \<Rightarrow> string" where
  "counter_bytes c = map (\<lambda>i. char_byte (ucast (drop_bit (56 - 8 * i) c))) [0..<8]"

definition truncated :: "8 word list \<Rightarrow> int option" where
  "truncated dg =
     (if dg = [] then None
      else let offset = unat (last dg AND 15)
           in if offset + 3 < length dg
              then Some (uint (push_bit 24 (ucast (dg ! offset AND 127)) OR push_bit 16 (ucast (dg ! (offset + 1))) OR
                               push_bit 8 (ucast (dg ! (offset + 2))) OR ucast (dg ! (offset + 3)) :: 64 word))
              else None)"

definition pad_zero :: "nat \<Rightarrow> string \<Rightarrow> string" where
  "pad_zero w s = replicate (w - length s) (CHR ''0'') @ s"

definition hotp :: "mac \<Rightarrow> string \<Rightarrow> 64 word \<Rightarrow> nat \<Rightarrow> string option" where
  "hotp mac secret counter digits =
     map_option (\<lambda>bin. pad_zero digits (Itoa (bin mod 10 ^ digits)))
       (truncated (map byte_of (mac secret (counter_bytes counter))))"

text \<open>\<open>t.Unix()\<close>; the division by the period truncates.\<close>

definition unix_seconds :: "gotime \<Rightarrow> int" where
  "unix_seconds t = t div Second - 62135596800"

definition go_div :: "int \<Rightarrow> int \<Rightarrow> int" where
  "go_div a b = (if a < 0 then - ((- a) div b) else a div b)"

definition totpAt :: "mac \<Rightarrow> string \<Rightarrow> gotime \<Rightarrow> string option" where
  "totpAt mac secret t = hotp mac secret (word_of_int (go_div (unix_seconds t) totpPeriod)) totpDigits"

text \<open>The loop over the windows: a match ends it; None is a panic.\<close>

fun any_window :: "mac \<Rightarrow> string \<Rightarrow> string \<Rightarrow> gotime \<Rightarrow> int list \<Rightarrow> bool option" where
  "any_window mac key code now [] = Some False"
| "any_window mac key code now (w # ws) =
     (case totpAt mac key (now + w * totpPeriod * Second) of
        None \<Rightarrow> None
      | Some want \<Rightarrow> if want = code then Some True else any_window mac key code now ws)"

definition verifyTOTP :: "mac \<Rightarrow> string \<Rightarrow> string \<Rightarrow> gotime \<Rightarrow> bool option" where
  "verifyTOTP mac secret code0 now =
     (let code = TrimSpace code0
      in if length code \<noteq> totpDigits then Some False
         else case decodeTOTPSecret secret of
                None \<Rightarrow> Some False
              | Some key \<Rightarrow> if key = [] then Some False else any_window mac key code now [- totpSkew..totpSkew])"

section \<open>What a code is\<close>

lemma byte_bit: "8 \<le> k \<Longrightarrow> \<not> bit (x :: 8 word) k"
  using bit_imp_le_length [of x k] by auto

lemma bin_bound:
  "uint (push_bit 24 (ucast (a AND 127 :: 8 word)) OR push_bit 16 (ucast (b :: 8 word)) OR
         push_bit 8 (ucast (c :: 8 word)) OR ucast (d :: 8 word) :: 64 word) < 2 ^ 31" (is "uint ?w < _")
proof -
  have m: "(127 :: 8 word) = mask 7" by (simp add: mask_eq_exp_minus_1)
  have "\<not> bit ?w n" if "31 \<le> n" for n
    unfolding m using that by (auto simp: bit_simps byte_bit)
  then have "bit (take_bit 31 ?w) n = bit ?w n" for n by (meson bit_take_bit_iff not_le)
  then have "take_bit 31 ?w = ?w" by (intro bit_word_eqI) blast
  moreover have "uint v < 2 ^ 31" if "take_bit 31 v = v" for v :: "64 word"
    using that by (metis take_bit_int_less_exp unsigned_take_bit_eq)
  ultimately show ?thesis by blast
qed

lemma truncated_20:
  assumes "length dg = 20"
  shows "\<exists>n. truncated dg = Some n \<and> 0 \<le> n \<and> n < 2 ^ 31"
proof -
  have "unat (last dg AND 15) \<le> unat (15 :: 8 word)" by (rule word_le_nat_alt [THEN iffD1]) (rule word_and_le1)
  then have "unat (last dg AND 15) + 3 < length dg" "dg \<noteq> []" using assms by auto
  then show ?thesis using bin_bound by (simp add: truncated_def Let_def)
qed

lemma nat_digits_width: "n < 10 ^ d \<Longrightarrow> 0 < d \<Longrightarrow> length (nat_digits n) \<le> d"
proof (induction n arbitrary: d rule: nat_digits.induct)
  case (1 n)
  show ?case
  proof (cases "n < 10")
    case True
    then show ?thesis using 1(3) by (simp add: nat_digits_small)
  next
    case False
    then obtain k where k: "d = Suc k" "0 < k" using 1(2,3) by (cases d; cases "d - 1") auto
    then have "n div 10 < 10 ^ k" using 1(2) by (simp add: div_less_iff_less_mult)
    from 1(1) [OF False this k(2)] show ?thesis using False k(1) by (subst nat_digits.simps) simp
  qed
qed

lemma hotp_six:
  assumes "\<forall>k m. length (mac k m) = 20"
  shows "\<exists>code. hotp mac secret counter totpDigits = Some code \<and> length code = 6 \<and> list_all is_digit code"
proof -
  obtain n where n: "truncated (map byte_of (mac secret (counter_bytes counter))) = Some n" "0 \<le> n"
    using truncated_20 [of "map byte_of (mac secret (counter_bytes counter))"] assms by auto
  let ?m = "n mod 10 ^ 6"
  have m: "0 \<le> ?m" "?m < 10 ^ 6" by simp_all
  then have "nat ?m < 10 ^ 6" by (simp add: nat_less_iff)
  then have w: "length (nat_digits (nat ?m)) \<le> 6" by (rule nat_digits_width) simp
  have "Itoa ?m = nat_digits (nat ?m)" using m(1) by (simp add: Itoa_def)
  then have "length (pad_zero 6 (Itoa ?m)) = 6" "list_all is_digit (pad_zero 6 (Itoa ?m))"
    using w nat_digits_is_digit by (auto simp: pad_zero_def list_all_iff is_digit_def [of "CHR ''0''"])
  then show ?thesis using n by (simp add: hotp_def totpDigits_def)
qed

text \<open>A code is well formed: for every secret and counter, with digests of 20 bytes the truncation
  stays inside the digest, so nothing panics, and the code is exactly six decimal digits, whatever the
  digest is.\<close>

lemma hotp_code_bounds:
  assumes "\<forall>k m. length (mac k m) = 20"
  shows "\<exists>code. hotp mac secret counter totpDigits = Some code \<and> length code = 6 \<and> list_all is_digit code"
  by (rule hotp_six) fact

lemma any_window_ex:
  assumes "\<And>w. w \<in> set ws \<Longrightarrow> totpAt mac key (now + w * totpPeriod * Second) = f w" and "\<And>w. f w \<noteq> None"
  shows "any_window mac key code now ws = Some (\<exists>w \<in> set ws. f w = Some code)"
  using assms(1)
proof (induction ws)
  case (Cons w ws)
  obtain c where "f w = Some c" using assms(2) by blast
  then show ?case using Cons by auto
qed simp

definition window_code :: "mac \<Rightarrow> string \<Rightarrow> gotime \<Rightarrow> int \<Rightarrow> string option" where
  "window_code mac key now w = hotp mac key (word_of_int (unix_seconds now div 30 + w)) totpDigits"

lemma totpAt_window:
  assumes "30 \<le> unix_seconds now" and "w \<in> {-1, 0, 1}"
  shows "totpAt mac key (now + w * totpPeriod * Second) = window_code mac key now w"
proof -
  have "(now + w * totpPeriod * Second) div Second = now div Second + w * 30"
    by (simp add: Second_def totpPeriod_def div_mult_self1)
  then have "unix_seconds (now + w * totpPeriod * Second) = unix_seconds now + w * 30" by (simp add: unix_seconds_def)
  moreover have "(unix_seconds now + w * 30) div 30 = unix_seconds now div 30 + w" by simp
  moreover have "0 \<le> unix_seconds now + w * 30" using assms by auto
  ultimately show ?thesis by (simp add: totpAt_def go_div_def totpPeriod_def window_code_def add.commute)
qed

lemma window_code_six:
  "\<forall>k m. length (mac k m) = 20 \<Longrightarrow> \<exists>code. window_code mac key now w = Some code \<and> length code = 6"
  unfolding window_code_def by (drule hotp_six) blast

lemma any_window_three:
  assumes "\<forall>k m. length (mac k m) = 20" and "30 \<le> unix_seconds now"
  shows "any_window mac key code now [- totpSkew..totpSkew] = Some (\<exists>w \<in> {-1, 0, 1}. window_code mac key now w = Some code)"
proof -
  have ws: "[- totpSkew..totpSkew] = [-1, 0, 1]" by (simp add: totpSkew_def upto.simps)
  have "any_window mac key code now [-1, 0, 1] = Some (\<exists>w \<in> set [-1, 0, 1]. window_code mac key now w = Some code)"
  proof (rule any_window_ex)
    fix w :: int
    assume "w \<in> set [-1, 0, 1]"
    then show "totpAt mac key (now + w * totpPeriod * Second) = window_code mac key now w"
      using assms(2) by (intro totpAt_window) simp_all
  next
    fix w
    show "window_code mac key now w \<noteq> None" using window_code_six [OF assms(1), of key now w] by auto
  qed
  then show ?thesis unfolding ws by simp
qed

text \<open>C37: A login accepts exactly the codes of three counters: the one of the current half minute and its two
  neighbours, after trimming blanks, and only when the stored secret decodes to a non-empty key. It
  never panics.\<close>

theorem totp_window:
  assumes "\<forall>k m. length (mac k m) = 20" and "30 \<le> unix_seconds now"
  shows "verifyTOTP mac secret code now = Some (\<exists>key w. decodeTOTPSecret secret = Some key \<and> key \<noteq> [] \<and>
    w \<in> {-1, 0, 1} \<and> hotp mac key (word_of_int (unix_seconds now div 30 + w)) totpDigits = Some (TrimSpace code))"
  (is "_ = Some ?accept")
proof (cases "length (TrimSpace code) = totpDigits")
  case False
  then have "window_code mac key now w \<noteq> Some (TrimSpace code)" for key w
    using window_code_six [OF assms(1), of key now w] by (auto simp: totpDigits_def)
  with False show ?thesis by (auto simp: verifyTOTP_def window_code_def)
next
  case True
  then show ?thesis
    using any_window_three [OF assms]
    by (auto simp: verifyTOTP_def window_code_def simp del: insert_iff split: option.splits)
qed

lemma hotp_code_bounds_witness:
  "\<exists>code. hotp (\<lambda>_ _. replicate 20 (CHR ''a'')) ''key'' 7 totpDigits = Some code \<and> length code = 6 \<and> list_all is_digit code"
  by (rule hotp_code_bounds) simp

lemma totp_window_witness:
  "verifyTOTP (\<lambda>_ _. replicate 20 (CHR ''a'')) ''ABCDEFGH'' ''123456'' (62135596900 * Second) =
    Some (\<exists>key w. decodeTOTPSecret ''ABCDEFGH'' = Some key \<and> key \<noteq> [] \<and> w \<in> {-1, 0, 1} \<and>
      hotp (\<lambda>_ _. replicate 20 (CHR ''a'')) key (word_of_int (unix_seconds (62135596900 * Second) div 30 + w)) totpDigits =
        Some (TrimSpace ''123456''))"
  by (rule totp_window) (simp_all add: unix_seconds_def Second_def)

section \<open>The text of a secret\<close>

lemma byte_eqI:
  assumes "\<And>n. n \<in> {0, 1, 2, 3, 4, 5, 6, 7} \<Longrightarrow> bit a n = bit (b :: 8 word) n"
  shows "a = b"
proof (rule bit_word_eqI)
  fix n assume "n < LENGTH(8)"
  then have "n \<in> {0, 1, 2, 3, 4, 5, 6, 7}" by auto
  then show "bit a n = bit b n" by (rule assms)
qed

lemma quantum_roundtrip:
  fixes b0 b1 b2 b3 b4 :: "8 word"
  shows "b32_decode (b32_encode [b0, b1, b2, b3, b4]) = [b0, b1, b2, b3, b4]"
proof -
  have "push_bit 3 (drop_bit 3 b0) OR drop_bit 2 ((push_bit 2 b0 AND mask 5) OR drop_bit 6 b1) = b0"
    by (rule byte_eqI) (auto simp: bit_simps eval_nat_numeral simp del: push_bit_Suc)
  moreover have "push_bit 6 ((push_bit 2 b0 AND mask 5) OR drop_bit 6 b1) OR push_bit 1 (drop_bit 1 b1 AND mask 5) OR
      drop_bit 4 ((push_bit 4 b1 AND mask 5) OR drop_bit 4 b2) = b1"
    by (rule byte_eqI) (auto simp: bit_simps eval_nat_numeral simp del: push_bit_Suc)
  moreover have "push_bit 4 ((push_bit 4 b1 AND mask 5) OR drop_bit 4 b2) OR
      drop_bit 1 ((push_bit 1 b2 AND mask 5) OR drop_bit 7 b3) = b2"
    by (rule byte_eqI) (auto simp: bit_simps eval_nat_numeral simp del: push_bit_Suc)
  moreover have "push_bit 7 ((push_bit 1 b2 AND mask 5) OR drop_bit 7 b3) OR push_bit 2 (drop_bit 2 b3 AND mask 5) OR
      drop_bit 3 ((push_bit 3 b3 AND mask 5) OR drop_bit 5 b4) = b3"
    by (rule byte_eqI) (auto simp: bit_simps eval_nat_numeral simp del: push_bit_Suc)
  moreover have "push_bit 5 ((push_bit 3 b3 AND mask 5) OR drop_bit 5 b4) OR (b4 AND mask 5) = b4"
    by (rule byte_eqI) (auto simp: bit_simps eval_nat_numeral simp del: push_bit_Suc)
  ultimately show ?thesis by (simp add: del: push_bit_and push_bit_or drop_bit_and drop_bit_or)
qed


lemma b32_roundtrip: "5 dvd length bs \<Longrightarrow> b32_decode (b32_encode bs) = bs"
proof (induction bs rule: b32_encode.induct)
  case (1 b0 b1 b2 b3 b4 bs)
  have "5 dvd length bs" using 1(2) by simp presburger
  then have "b32_decode (b32_encode bs) = bs" using 1(1) by simp
  then show ?case using quantum_roundtrip [of b0 b1 b2 b3 b4] by (simp del: push_bit_Suc)
qed (simp_all, presburger+)

text \<open>The digits are below 32, so each has its letter and comes back from it.\<close>

lemma b32_digit:
  assumes "unat v < 32"
  shows "b32_val (b32_char v) = Some v" and "is_upper (b32_char v) \<or> is_digit (b32_char v)"
proof -
  show "b32_val (b32_char v) = Some v"
    using assms by (cases "unat v < 26") (auto simp: b32_char_def b32_val_def Let_def)
  show "is_upper (b32_char v) \<or> is_digit (b32_char v)"
    using assms by (cases "unat v < 26") (auto simp: b32_char_def is_upper_def is_digit_def Let_def)
qed

lemma small_byte:
  assumes "\<And>n. n \<in> {5, 6, 7} \<Longrightarrow> \<not> bit (v :: 8 word) n"
  shows "unat v < 32"
proof -
  have "bit (take_bit 5 v) n = bit v n" if "n \<in> {0, 1, 2, 3, 4, 5, 6, 7}" for n
    using that assms [of n] by (cases "n < 5") (auto simp: bit_take_bit_iff)
  then have "take_bit 5 v = v" by (rule byte_eqI)
  then have "unat v = take_bit 5 (unat v)" using unsigned_take_bit_eq [of 5 v, where 'a = nat] by simp
  moreover have "take_bit 5 (unat v) < 2 ^ 5" by (rule take_bit_nat_less_exp)
  ultimately show ?thesis by simp
qed

lemma b32_encode_small: "v \<in> set (b32_encode bs) \<Longrightarrow> unat v < 32"
proof (induction bs rule: b32_encode.induct)
  case (1 b0 b1 b2 b3 b4 bs)
  have "unat (drop_bit 3 b0) < 32" "unat ((push_bit 2 b0 AND mask 5) OR drop_bit 6 b1) < 32" "unat (drop_bit 1 b1 AND mask 5) < 32"
    "unat ((push_bit 4 b1 AND mask 5) OR drop_bit 4 b2) < 32" "unat ((push_bit 1 b2 AND mask 5) OR drop_bit 7 b3) < 32"
    "unat (drop_bit 2 b3 AND mask 5) < 32" "unat ((push_bit 3 b3 AND mask 5) OR drop_bit 5 b4) < 32" "unat (b4 AND mask 5) < 32"
    by (rule small_byte; auto simp: bit_simps byte_bit)+
  then show ?case using 1 by (auto simp del: push_bit_Suc)
qed auto

lemma plain_text:
  assumes "list_all (\<lambda>c. is_upper c \<or> is_digit c) s"
  shows "filter (\<lambda>c. c \<noteq> CHR 0x0D \<and> c \<noteq> CHR 0x0A) (ToUpper (filter (\<lambda>c. c \<noteq> CHR '' '') (TrimSpace s))) = s"
proof -
  have n: "\<not> is_space c \<and> c \<noteq> CHR '' '' \<and> c \<noteq> CHR 0x0D \<and> c \<noteq> CHR 0x0A \<and> upper_char c = c" if "c \<in> set s" for c
    using that assms by (auto simp: list_all_iff is_upper_def is_digit_def is_space_def upper_char_def is_lower_def)
  then have "TrimSpace s = s" by (intro TrimSpace_no_space) blast
  then show ?thesis using n by (simp add: ToUpper_def filter_id_conv map_idI)
qed

text \<open>The secret a user enrols with is the key the codes are checked with: the base32 text of the random
  bytes decodes to those bytes.\<close>

lemma totp_secret_roundtrip:
  assumes "randomTOTPSecret rd w = (Inr secret, w')" and "\<And>b w'. rd 20 w = (Inr b, w') \<Longrightarrow> length b = 20"
  shows "\<exists>b. rd 20 w = (Inr b, w') \<and> decodeTOTPSecret secret = Some b"
proof -
  obtain b where rd: "rd 20 w = (Inr b, w')" and secret: "secret = encodeTOTPSecret b"
    using assms(1) by (auto simp: randomTOTPSecret_def elim!: bindA_InrE)
  have len: "length b = 20" by (rule assms(2) [OF rd])
  let ?ds = "b32_encode (map byte_of b)"
  have "all_some (map b32_val (map b32_char ds)) = Some ds" if "\<forall>v \<in> set ds. unat v < 32" for ds
    using that by (induction ds) (simp_all add: b32_digit)
  then have "all_some (map b32_val (map b32_char ?ds)) = Some ?ds" using b32_encode_small by blast
  moreover have "list_all (\<lambda>c. is_upper c \<or> is_digit c) (map b32_char ?ds)"
    using b32_encode_small b32_digit(2) by (auto simp: list_all_iff)
  moreover have "b32_decode ?ds = map byte_of b" by (rule b32_roundtrip) (simp add: len)
  ultimately have "decodeTOTPSecret secret = Some b"
    by (simp add: secret decodeTOTPSecret_def encodeTOTPSecret_def plain_text comp_def Let_def)
  with rd show ?thesis by blast
qed

lemma totp_secret_roundtrip_witness:
  "\<exists>b. (Inr (replicate 20 (CHR ''k'')), ()) = (Inr b :: goerr + string, ()) \<and>
    decodeTOTPSecret (encodeTOTPSecret (replicate 20 (CHR ''k''))) = Some b"
  by (rule totp_secret_roundtrip [where rd = "\<lambda>_. Pair (Inr (replicate 20 (CHR ''k'')))" and w = "()"])
     (simp_all add: randomTOTPSecret_def)

end
