(* ===== verification/Accounts.thy ===== *)
theory Accounts
  imports UserStore Totp
begin

text \<open>
  Human accounts (src/internal/auth/accounts.go, the provisioning URL of auth/totp.go): creation, patching,
  password login, TOTP enrolment and recovery codes, over the tables of UserStore. A panic inside
  \<open>verifyTOTP\<close> is the error \<open>panic_index\<close>. Runes outside ASCII are taken for letters.
\<close>

definition recoveryCodeCount :: nat where "recoveryCodeCount = 10"
definition totpIssuer :: string where "totpIssuer = ''TransitForge''"
definition panic_index :: goerr where "panic_index = Plain ''panic: index out of range''"

record user_create_request =
  uc_Username :: string
  uc_DisplayName :: string
  uc_Password :: string
  uc_Role :: string
  uc_Locale :: string

record user_patch =
  up_DisplayName :: "string option"
  up_Password :: "string option"
  up_Role :: "string option"
  up_Locale :: "string option"
  up_Disabled :: "bool option"

section \<open>Normalisation\<close>

definition NormalizeLocale :: "string \<Rightarrow> string" where
  "NormalizeLocale s0 = (let s = ToLower (TrimSpace s0)
     in if s = ''ru'' \<or> HasPrefix s ''ru-'' \<or> HasPrefix s ''ru_'' then ''ru'' else ''en'')"

definition liftE :: "goerr + 'a \<Rightarrow> ('s, goerr, 'a) act" where
  "liftE r = (case r of Inl e \<Rightarrow> failA e | Inr x \<Rightarrow> returnA x)"

definition checkE :: "goerr option \<Rightarrow> ('s, goerr, unit) act" where
  "checkE r = (case r of Some e \<Rightarrow> failA e | None \<Rightarrow> returnA ())"

definition normalizeUsername :: "string \<Rightarrow> goerr + string" where
  "normalizeUsername s0 = (let s = ToLower (TrimSpace s0)
     in case Username s of Some e \<Rightarrow> Inl (Validation (strip_validation e)) | None \<Rightarrow> Inr s)"

definition normalizeRecovery :: "string \<Rightarrow> string" where
  "normalizeRecovery s = filter (\<lambda>c. is_alnum c \<or> c = CHR ''-'' \<or> 128 \<le> (of_char c :: nat)) (ToLower (TrimSpace s))"

definition password_check :: "string \<Rightarrow> goerr option" where
  "password_check pw = wrapVal (HumanPassword pw)"

section \<open>The provisioning URL\<close>

definition unreserved :: "char \<Rightarrow> bool" where
  "unreserved c \<longleftrightarrow> is_alnum c \<or> c \<in> set ''-_.~''"

definition percent :: "char \<Rightarrow> string" where
  "percent c = [CHR ''%'', upper_char (hex_digit (of_char c div 16)), upper_char (hex_digit (of_char c mod 16))]"

definition PathEscape :: "string \<Rightarrow> string" where
  "PathEscape s = concat (map (\<lambda>c. if unreserved c \<or> c \<in> set ''$&+=:@'' then [c] else percent c) s)"

definition QueryEscape :: "string \<Rightarrow> string" where
  "QueryEscape s = concat (map (\<lambda>c. if c = CHR '' '' then ''+'' else if unreserved c then [c] else percent c) s)"

definition otpAuthURL :: "string \<Rightarrow> string \<Rightarrow> string \<Rightarrow> string" where
  "otpAuthURL issuer username secret =
     ''otpauth://totp/'' @ PathEscape (issuer @ '':'' @ username) @ ''?algorithm=SHA1&digits='' @ Itoa (int totpDigits) @
     ''&issuer='' @ QueryEscape issuer @ ''&period='' @ Itoa totpPeriod @ ''&secret='' @ QueryEscape secret"

section \<open>Creation\<close>

definition accounts_Create :: "'w env \<Rightarrow> user_create_request \<Rightarrow> ('w, user) dbact" where
  "accounts_Create env req =
     bindA (liftE (normalizeUsername (uc_Username req))) (\<lambda>username.
     bindA (checkE (password_check (uc_Password req))) (\<lambda>_.
     bindA (liftE (ParseHumanRole (uc_Role req))) (\<lambda>role.
     bindA (lift_world (e_bcrypt env (uc_Password req))) (\<lambda>hash.
     bindA (nowA env) (\<lambda>now.
     bindA (ident_New env) (\<lambda>uid.
       let u = \<lparr>u_ID = uid, u_Username = username, u_DisplayName = TrimSpace (uc_DisplayName req), u_PasswordHash = hash,
                u_Role = role, u_Locale = NormalizeLocale (uc_Locale req), u_TOTPSecret = [], u_TOTPPending = [],
                u_TOTPEnabled = False, u_Disabled = False, u_CreatedAt = now, u_UpdatedAt = now, u_LastLoginAt = 0\<rparr>
       in bindA (CreateUser env u) (\<lambda>_. returnA (u\<lparr>u_PasswordHash := []\<rparr>))))))))"

definition SetupFirstAdministrator :: "'w env \<Rightarrow> string \<Rightarrow> string \<Rightarrow> string \<Rightarrow> string \<Rightarrow> ('w, user) dbact" where
  "SetupFirstAdministrator env username displayName password locl =
     bindA (CountUsers env) (\<lambda>n.
     if 0 < n then failA (ErrConflict ''initial administrator already exists'')
     else accounts_Create env \<lparr>uc_Username = username, uc_DisplayName = displayName, uc_Password = password,
            uc_Role = ''administrator'', uc_Locale = locl\<rparr>)"

section \<open>Patching\<close>

definition patch_password :: "'w env \<Rightarrow> user_patch \<Rightarrow> user \<Rightarrow> ('w, user) dbact" where
  "patch_password env p u = (case up_Password p of None \<Rightarrow> returnA u
     | Some pw \<Rightarrow> bindA (checkE (password_check pw)) (\<lambda>_.
         bindA (lift_world (e_bcrypt env pw)) (\<lambda>hash. returnA (u\<lparr>u_PasswordHash := hash\<rparr>))))"

definition last_admin_guard :: "'w env \<Rightarrow> string \<Rightarrow> ('w, unit) dbact" where
  "last_admin_guard env msg =
     bindA (CountAdministrators env) (\<lambda>n. if n \<le> 1 then failA (ErrConflict msg) else returnA ())"

definition patch_role :: "'w env \<Rightarrow> user_patch \<Rightarrow> user \<Rightarrow> ('w, user) dbact" where
  "patch_role env p u = (case up_Role p of None \<Rightarrow> returnA u
     | Some r \<Rightarrow> bindA (liftE (ParseHumanRole r)) (\<lambda>role.
         bindA (if u_Role u = ''administrator'' \<and> role \<noteq> ''administrator''
                then last_admin_guard env ''cannot demote the last administrator'' else returnA ())
           (\<lambda>_. returnA (u\<lparr>u_Role := role\<rparr>))))"

definition patch_disabled :: "'w env \<Rightarrow> user_patch \<Rightarrow> user \<Rightarrow> ('w, user) dbact" where
  "patch_disabled env p u = (case up_Disabled p of None \<Rightarrow> returnA u
     | Some d \<Rightarrow> bindA (if u_Role u = ''administrator'' \<and> d
                        then last_admin_guard env ''cannot disable the last administrator'' else returnA ())
         (\<lambda>_. returnA (u\<lparr>u_Disabled := d\<rparr>)))"

definition patch_fields :: "'w env \<Rightarrow> user_patch \<Rightarrow> user \<Rightarrow> ('w, user) dbact" where
  "patch_fields env p u =
     bindA (patch_password env p (case up_DisplayName p of None \<Rightarrow> u | Some n \<Rightarrow> u\<lparr>u_DisplayName := TrimSpace n\<rparr>)) (\<lambda>u1.
     bindA (patch_role env p u1) (\<lambda>u2.
       patch_disabled env p (case up_Locale p of None \<Rightarrow> u2 | Some l \<Rightarrow> u2\<lparr>u_Locale := NormalizeLocale l\<rparr>)))"

definition accounts_Patch :: "'w env \<Rightarrow> ident \<Rightarrow> user_patch \<Rightarrow> ('w, user) dbact" where
  "accounts_Patch env uid p =
     bindA (GetUser env uid) (\<lambda>u.
     bindA (patch_fields env p u) (\<lambda>u1.
     bindA (nowA env) (\<lambda>t.
     bindA (UpdateUser env (u1\<lparr>u_UpdatedAt := t\<rparr>)) (\<lambda>_.
       returnA (u1\<lparr>u_UpdatedAt := t, u_PasswordHash := [], u_TOTPSecret := [], u_TOTPPending := []\<rparr>)))))"

text \<open>Read a user, change it, write it back with the time of the change.\<close>

definition update_with :: "'w env \<Rightarrow> ident \<Rightarrow> (user \<Rightarrow> user) \<Rightarrow> ('w, unit) dbact" where
  "update_with env uid f =
     bindA (GetUser env uid) (\<lambda>u. bindA (nowA env) (\<lambda>t. UpdateUser env (f u\<lparr>u_UpdatedAt := t\<rparr>)))"

definition TouchLogin :: "'w env \<Rightarrow> ident \<Rightarrow> ('w, unit) dbact" where
  "TouchLogin env uid =
     bindA (GetUser env uid) (\<lambda>u. bindA (nowA env) (\<lambda>t. UpdateUser env (u\<lparr>u_LastLoginAt := t, u_UpdatedAt := t\<rparr>)))"

definition SetLocale :: "'w env \<Rightarrow> ident \<Rightarrow> string \<Rightarrow> ('w, unit) dbact" where
  "SetLocale env uid l = update_with env uid (\<lambda>u. u\<lparr>u_Locale := NormalizeLocale l\<rparr>)"

section \<open>Login\<close>

definition GetByUsername :: "'w env \<Rightarrow> string \<Rightarrow> ('w, user) dbact" where
  "GetByUsername env username = GetUserByUsername env (ToLower (TrimSpace username))"

definition AuthenticatePassword :: "'w env \<Rightarrow> string \<Rightarrow> string \<Rightarrow> ('w, user) dbact" where
  "AuthenticatePassword env username password =
     bindA (onErr (\<lambda>e. if IsNotFound e then Unauthorized ''invalid credentials'' else e) (GetByUsername env username)) (\<lambda>u.
     if u_Disabled u then failA (Forbidden ''account is disabled'')
     else if \<not> e_compare env (u_PasswordHash u) password then failA (Unauthorized ''invalid credentials'')
     else returnA u)"

section \<open>Second factor\<close>

definition generate_code :: "'w env \<Rightarrow> string list \<times> string list \<Rightarrow> ('w, string list \<times> string list) dbact" where
  "generate_code env acc =
     bindA (lift_world (e_rand env 5)) (\<lambda>b.
       let raw = ToLower (hexEncode b); code = take 5 raw @ ''-'' @ drop 5 raw
       in bindA (lift_world (e_bcrypt env code)) (\<lambda>hash. returnA (fst acc @ [code], snd acc @ [hash])))"

definition generateRecoveryCodes :: "'w env \<Rightarrow> ('w, string list \<times> string list) dbact" where
  "generateRecoveryCodes env = forA (\<lambda>_. generate_code env) [0..<recoveryCodeCount] ([], [])"

definition RotateRecoveryCodes :: "'w env \<Rightarrow> ident \<Rightarrow> ('w, string list) dbact" where
  "RotateRecoveryCodes env uid =
     bindA (GetUser env uid) (\<lambda>_.
     bindA (generateRecoveryCodes env) (\<lambda>(codes, hashes).
     bindA (ReplaceRecoveryCodes env uid hashes) (\<lambda>_. returnA codes)))"

definition BeginTOTP :: "'w env \<Rightarrow> ident \<Rightarrow> ('w, string \<times> string) dbact" where
  "BeginTOTP env uid =
     bindA (GetUser env uid) (\<lambda>u.
     bindA (lift_world (randomTOTPSecret (e_rand env))) (\<lambda>secret.
     bindA (nowA env) (\<lambda>t.
     bindA (UpdateUser env (u\<lparr>u_TOTPPending := secret, u_UpdatedAt := t\<rparr>)) (\<lambda>_.
       returnA (otpAuthURL totpIssuer (u_Username u) secret, secret)))))"

definition check_code :: "'w env \<Rightarrow> string \<Rightarrow> string \<Rightarrow> ('w, bool) dbact" where
  "check_code env secret code = bindA (nowA env) (\<lambda>t.
     case verifyTOTP (e_hmac_sha1 env) secret code t of None \<Rightarrow> failA panic_index | Some ok \<Rightarrow> returnA ok)"

definition ConfirmTOTP :: "'w env \<Rightarrow> ident \<Rightarrow> string \<Rightarrow> ('w, string list) dbact" where
  "ConfirmTOTP env uid code =
     bindA (GetUser env uid) (\<lambda>u.
     if TrimSpace (u_TOTPPending u) = [] then failA (Validation ''TOTP enrollment has not been started'')
     else bindA (check_code env (u_TOTPPending u) code) (\<lambda>ok.
       if \<not> ok then failA (Unauthorized ''invalid TOTP code'')
       else bindA (nowA env) (\<lambda>t.
         bindA (UpdateUser env (u\<lparr>u_TOTPSecret := u_TOTPPending u, u_TOTPPending := [], u_TOTPEnabled := True, u_UpdatedAt := t\<rparr>))
           (\<lambda>_. RotateRecoveryCodes env uid))))"

definition DisableTOTP :: "'w env \<Rightarrow> ident \<Rightarrow> ('w, unit) dbact" where
  "DisableTOTP env uid =
     bindA (update_with env uid (\<lambda>u. u\<lparr>u_TOTPSecret := [], u_TOTPPending := [], u_TOTPEnabled := False\<rparr>))
       (\<lambda>_. ReplaceRecoveryCodes env uid [])"

definition consume_recovery :: "'w env \<Rightarrow> user \<Rightarrow> string \<Rightarrow> ('w, unit) dbact" where
  "consume_recovery env u code =
     (if code = [] then failA (Unauthorized ''invalid MFA code'')
      else bindA (ListRecoveryCodeHashes env (u_ID u)) (\<lambda>codes.
        case find (\<lambda>c. rc_UsedAt c = 0 \<and> e_compare env (rc_Hash c) code) codes of
          None \<Rightarrow> failA (Unauthorized ''invalid MFA code'')
        | Some c \<Rightarrow> bindA (nowA env) (\<lambda>t. MarkRecoveryCodeUsed env (rc_ID c) t)))"

definition ConsumeMFA :: "'w env \<Rightarrow> user option \<Rightarrow> string \<Rightarrow> string \<Rightarrow> ('w, unit) dbact" where
  "ConsumeMFA env ou totp0 recovery0 =
     (case ou of None \<Rightarrow> returnA ()
      | Some u \<Rightarrow>
          if \<not> u_TOTPEnabled u then returnA ()
          else let code = TrimSpace totp0
               in bindA (if code = [] then returnA False else check_code env (u_TOTPSecret u) code) (\<lambda>ok.
                    if ok then returnA () else consume_recovery env u (normalizeRecovery recovery0)))"

end
