(* ===== verification/Auth.thy ===== *)
theory Auth
  imports SqliteStore Accounts
begin

text \<open>
  Who is calling (src/internal/auth/auth.go): bearer tokens with an optional HMAC over the request, requests
  the web interface signs for its sessions, token creation and the bootstrap token, and the role predicates.

  \<open>rq_Header\<close> is \<open>Header.Get\<close>. The files around the bootstrap token and the process-wide counter of
  \<open>newID\<close> are fields of records, functions on the world. Times differ as unbounded integers; Go saturates the
  difference at 64 bits, far beyond any skew.
\<close>

definition HeaderTimestamp :: string where "HeaderTimestamp = ''X-TransitForge-Timestamp''"
definition HeaderSignature :: string where "HeaderSignature = ''X-TransitForge-Signature''"
definition HeaderUIName :: string where "HeaderUIName = ''X-TransitForge-UI-Name''"
definition HeaderUIRole :: string where "HeaderUIRole = ''X-TransitForge-UI-Role''"
definition HeaderUIUser :: string where "HeaderUIUser = ''X-TransitForge-UI-User''"
definition HeaderUITime :: string where "HeaderUITime = ''X-TransitForge-UI-Timestamp''"
definition HeaderUISig :: string where "HeaderUISig = ''X-TransitForge-UI-Signature''"
definition bootstrapName :: string where "bootstrapName = ''bootstrap-operator''"

lemmas header_defs = HeaderTimestamp_def HeaderSignature_def HeaderUIName_def HeaderUIRole_def HeaderUIUser_def
  HeaderUITime_def HeaderUISig_def

record principal =
  pr_Name :: string
  pr_Role :: string
  pr_UserID :: ident

record request =
  rq_Method :: string
  rq_Path :: string
  rq_Header :: "string \<Rightarrow> string"
  rq_Query :: "string \<Rightarrow> string"
  rq_RemoteAddr :: string
  rq_Body :: string

record 'w authenticator =
  au_hmacReq :: bool
  au_maxSkew :: duration
  au_uiKey :: string
  au_counter :: "'w \<Rightarrow> nat \<times> 'w"

definition auth_New :: "'w env \<Rightarrow> bool \<Rightarrow> duration \<Rightarrow> ('w \<Rightarrow> nat \<times> 'w) \<Rightarrow> 'w \<Rightarrow> 'w authenticator \<times> 'w" where
  "auth_New env hmacRequired maxSkew counter w =
     (case e_rand env 32 w of (r, w') \<Rightarrow>
       (\<lparr>au_hmacReq = hmacRequired, au_maxSkew = (if maxSkew = 0 then 5 * Minute else maxSkew),
         au_uiKey = (case r of Inr key \<Rightarrow> key | Inl _ \<Rightarrow> ''transitforge-ui-fallback-key-not-for-prod''), au_counter = counter\<rparr>, w'))"

section \<open>Roles\<close>

definition CanMutate :: "string \<Rightarrow> bool" where
  "CanMutate role \<longleftrightarrow> role = ''administrator'' \<or> role = ''operator'' \<or> role = ''agent''"

definition CanRead :: "string \<Rightarrow> bool" where
  "CanRead role \<longleftrightarrow> role = ''administrator'' \<or> role = ''operator'' \<or> role = ''readonly'' \<or> role = ''agent''"

definition CanManageTokens :: "string \<Rightarrow> bool" where
  "CanManageTokens role \<longleftrightarrow> role = ''administrator'' \<or> role = ''operator''"

definition CanManageUsers :: "string \<Rightarrow> bool" where
  "CanManageUsers role \<longleftrightarrow> role = ''administrator''"

section \<open>Tokens\<close>

definition randomToken :: "'w env \<Rightarrow> ('w, string) dbact" where
  "randomToken env = bindA (lift_world (e_rand env 32)) (\<lambda>b. returnA (hexEncode b))"

definition newID :: "'w env \<Rightarrow> 'w authenticator \<Rightarrow> ('w, ident) dbact" where
  "newID env a = (\<lambda>s. case lift_world (e_rand env 16) s of
     (Inr b, s') \<Rightarrow> (Inr (hexEncode b), s')
   | (Inl _, s') \<Rightarrow> bindA (lift_world (\<lambda>w. case au_counter a w of (n, w') \<Rightarrow> (Inr n, w'))) (\<lambda>n.
        bindA (nowA env) (\<lambda>t. returnA (''tok-'' @ Itoa (UnixNano t) @ ''-'' @ Itoa (int n)))) s')"

definition auth_CreateToken :: "'w env \<Rightarrow> 'w authenticator \<Rightarrow> string \<Rightarrow> string \<Rightarrow> ('w, string \<times> token) dbact" where
  "auth_CreateToken env a name role =
     bindA (randomToken env) (\<lambda>plain.
     bindA (lift_world (e_bcrypt env plain)) (\<lambda>hash.
     bindA (newID env a) (\<lambda>tid.
     bindA (nowA env) (\<lambda>now.
       let tok = \<lparr>tk_ID = tid, tk_Name = name, tk_Hash = hash, tk_Role = role, tk_CreatedAt = now, tk_Revoked = False\<rparr>
       in bindA (CreateToken env tok) (\<lambda>_. returnA (plain, tok))))))"

record 'w token_file =
  tf_Stat :: "'w \<Rightarrow> bool"
  tf_Read :: "'w \<Rightarrow> string option"
  tf_MkdirAll :: "'w \<Rightarrow> (goerr + unit) \<times> 'w"
  tf_Write :: "string \<Rightarrow> 'w \<Rightarrow> (goerr + unit) \<times> 'w"

definition fresh_token :: "'w env \<Rightarrow> 'w token_file \<Rightarrow> ('w, string) dbact" where
  "fresh_token env tf =
     bindA (randomToken env) (\<lambda>plain.
     bindA (lift_world (tf_MkdirAll tf)) (\<lambda>_.
     bindA (onErr (\<lambda>e. wrapf ''write bootstrap token: '' e []) (lift_world (tf_Write tf (plain @ [CHR 0x0A])))) (\<lambda>_. returnA plain)))"

definition token_text :: "'w env \<Rightarrow> 'w token_file \<Rightarrow> ('w, string) dbact" where
  "token_text env tf = (\<lambda>s. case tf_Read tf (db_world s) of
       Some b \<Rightarrow> if 0 < length (TrimSpace b) then (Inr (TrimSpace b), s) else fresh_token env tf s
     | None \<Rightarrow> fresh_token env tf s)"

definition EnsureBootstrapToken :: "'w env \<Rightarrow> 'w authenticator \<Rightarrow> 'w token_file \<Rightarrow> string \<Rightarrow> ('w, bool) dbact" where
  "EnsureBootstrapToken env a tf path =
     bindA (HasTokenName env bootstrapName) (\<lambda>ok.
     if ok then (\<lambda>s. if tf_Stat tf (db_world s) then (Inr False, s)
       else (Inl (Plain (''bootstrap token exists in the database but '' @ path @
              '' is missing; restore the original token file (it cannot be recovered from the hash)'')), s))
     else bindA (token_text env tf) (\<lambda>plain.
       bindA (lift_world (e_bcrypt env plain)) (\<lambda>hash.
       bindA (newID env a) (\<lambda>tid.
       bindA (nowA env) (\<lambda>now.
       bindA (CreateToken env \<lparr>tk_ID = tid, tk_Name = bootstrapName, tk_Hash = hash, tk_Role = ''operator'', tk_CreatedAt = now, tk_Revoked = False\<rparr>)
         (\<lambda>_. returnA True))))))"

definition matchToken :: "'w env \<Rightarrow> string \<Rightarrow> ('w, token) dbact" where
  "matchToken env plaintext =
     bindA (ListTokens env) (\<lambda>tokens.
     case find (\<lambda>t. \<not> tk_Revoked t \<and> e_compare env (tk_Hash t) plaintext) tokens of
       Some t \<Rightarrow> returnA t
     | None \<Rightarrow> failA (Unauthorized ''invalid token''))"

section \<open>Signatures\<close>

definition nl :: string where "nl = [CHR 0x0A]"

definition canonical :: "'w env \<Rightarrow> string \<Rightarrow> string \<Rightarrow> string \<Rightarrow> string \<Rightarrow> string" where
  "canonical env ts method path body = ts @ nl @ method @ nl @ path @ nl @ hexEncode (e_sha256 env body)"

definition from_unix :: "int \<Rightarrow> gotime" where
  "from_unix n = (n + 62135596800) * Second"

definition within_skew :: "duration \<Rightarrow> gotime \<Rightarrow> gotime \<Rightarrow> bool" where
  "within_skew maxSkew now t \<longleftrightarrow> \<not> (now - t > maxSkew \<or> now - t < - maxSkew)"

definition auth_Sign :: "'w env \<Rightarrow> string \<Rightarrow> string \<Rightarrow> string \<Rightarrow> string \<Rightarrow> gotime \<Rightarrow> string \<times> string" where
  "auth_Sign env token method path body now =
     (let ts = Itoa (unix_seconds now) in (ts, hexEncode (e_hmac_sha256 env token (canonical env ts method path body))))"

definition verifyHMAC :: "'w env \<Rightarrow> 'w authenticator \<Rightarrow> request \<Rightarrow> string \<Rightarrow> string \<Rightarrow> ('w, unit) dbact" where
  "verifyHMAC env a r body token =
     (let ts = TrimSpace (rq_Header r HeaderTimestamp); sig = TrimSpace (rq_Header r HeaderSignature)
      in if ts = [] \<or> sig = [] then failA (Unauthorized ''missing HMAC headers'')
         else case ParseInt ts of (unix, err) \<Rightarrow>
           if err \<noteq> NumOk then failA (Unauthorized ''invalid HMAC timestamp'')
           else bindA (nowA env) (\<lambda>now.
             if \<not> within_skew (au_maxSkew a) now (from_unix unix) then failA (Unauthorized ''HMAC timestamp outside allowed skew'')
             else let want = hexEncode (e_hmac_sha256 env token (canonical env ts (rq_Method r) (rq_Path r) body))
                  in if ToLower sig \<noteq> ToLower want then failA (Unauthorized ''invalid HMAC signature'') else returnA ()))"

definition uiMAC :: "'w env \<Rightarrow> 'w authenticator \<Rightarrow> string \<Rightarrow> string \<Rightarrow> string \<Rightarrow> string \<Rightarrow> string \<Rightarrow> string \<Rightarrow> string \<Rightarrow> string" where
  "uiMAC env a ts method path name role userID body =
     hexEncode (e_hmac_sha256 env (au_uiKey a) (ts @ nl @ method @ nl @ path @ nl @ name @ nl @ role @ nl @ userID @ nl @ hexEncode (e_sha256 env body)))"

definition SignUI :: "'w env \<Rightarrow> 'w authenticator \<Rightarrow> request \<Rightarrow> string \<Rightarrow> string \<Rightarrow> ident \<Rightarrow> ('w, request) dbact" where
  "SignUI env a r name role userID =
     bindA (nowA env) (\<lambda>now.
       let ts = Itoa (unix_seconds now)
       in returnA (r\<lparr>rq_Header := (rq_Header r)(HeaderUIName := name, HeaderUIRole := role, HeaderUIUser := userID, HeaderUITime := ts,
            HeaderUISig := uiMAC env a ts (rq_Method r) (rq_Path r) name role userID (rq_Body r))\<rparr>))"

text \<open>None: the request carries no session headers.\<close>

definition verifyUI :: "'w env \<Rightarrow> 'w authenticator \<Rightarrow> request \<Rightarrow> string \<Rightarrow> ('w, principal option) dbact" where
  "verifyUI env a r body =
     (let name = TrimSpace (rq_Header r HeaderUIName); roleRaw = TrimSpace (rq_Header r HeaderUIRole);
          userID = TrimSpace (rq_Header r HeaderUIUser); ts = TrimSpace (rq_Header r HeaderUITime);
          sig = TrimSpace (rq_Header r HeaderUISig)
      in if name = [] \<and> roleRaw = [] \<and> ts = [] \<and> sig = [] then returnA None
         else if name = [] \<or> roleRaw = [] \<or> ts = [] \<or> sig = [] then failA (Unauthorized ''incomplete UI session headers'')
         else case ParseInt ts of (unix, err) \<Rightarrow>
           if err \<noteq> NumOk then failA (Unauthorized ''invalid UI timestamp'')
           else bindA (nowA env) (\<lambda>now.
             if \<not> within_skew (au_maxSkew a) now (from_unix unix) then failA (Unauthorized ''UI timestamp outside allowed skew'')
             else if ToLower sig \<noteq> ToLower (uiMAC env a ts (rq_Method r) (rq_Path r) name roleRaw userID body)
               then failA (Unauthorized ''invalid UI signature'')
             else case ParseHumanRole roleRaw of Inl _ \<Rightarrow> failA (Unauthorized ''invalid UI role'')
                | Inr role \<Rightarrow> returnA (Some \<lparr>pr_Name = name, pr_Role = role, pr_UserID = userID\<rparr>)))"

definition bearer :: "request \<Rightarrow> goerr + string" where
  "bearer r =
     (let raw = TrimSpace (rq_Header r ''Authorization'')
      in if \<not> HasPrefix (ToLower raw) ''bearer '' then Inl (Unauthorized ''missing bearer token'')
         else let token = TrimSpace (drop 7 raw)
              in if token = [] then Inl (Unauthorized ''empty bearer token'') else Inr token)"

definition Authenticate :: "'w env \<Rightarrow> 'w authenticator \<Rightarrow> request \<Rightarrow> string \<Rightarrow> ('w, principal) dbact" where
  "Authenticate env a r body =
     bindA (verifyUI env a r body) (\<lambda>ui. case ui of Some p \<Rightarrow> returnA p
     | None \<Rightarrow>
       bindA (liftE (bearer r)) (\<lambda>token.
       bindA (matchToken env token) (\<lambda>tok.
       bindA (if au_hmacReq a then verifyHMAC env a r body token else returnA ()) (\<lambda>_.
         returnA \<lparr>pr_Name = tk_Name tok, pr_Role = tk_Role tok, pr_UserID = []\<rparr>))))"

section \<open>What a successful authentication means\<close>

lemma reads_only_verifyUI [table_intros]: "reads_only (verifyUI env a r body)"
  unfolding verifyUI_def Let_def by (auto split: prod.split sum.split intro!: table_intros)

lemma reads_only_verifyHMAC [table_intros]: "reads_only (verifyHMAC env a r body token)"
  unfolding verifyHMAC_def Let_def by (auto split: prod.split intro!: table_intros)

lemma reads_matchToken:
  "reads (\<lambda>s t. t \<in> set (db_tokens s) \<and> \<not> tk_Revoked t \<and> e_compare env (tk_Hash t) plain) (matchToken env plain)"
  unfolding matchToken_def
proof (rule reads_bind)
  show "reads (\<lambda>s ts. ts = db_tokens s) (ListTokens env)" unfolding ListTokens_def by (rule reads_query) simp
next
  fix ts
  show "reads (\<lambda>s u. ts = db_tokens s \<longrightarrow> u \<in> set (db_tokens s) \<and> \<not> tk_Revoked u \<and> e_compare env (tk_Hash u) plain)
     (case find (\<lambda>t. \<not> tk_Revoked t \<and> e_compare env (tk_Hash t) plain) ts of
       Some t \<Rightarrow> returnA t | None \<Rightarrow> failA (Unauthorized ''invalid token''))"
    by (auto split: option.split simp: find_Some_iff intro!: reads_return reads_fail)
qed

end
