(* ===== verification/ForeignStore.thy ===== *)
theory ForeignStore
  imports SqliteStore
begin

text \<open>
  The table of foreign nodes (src/internal/store/foreign_nodes.go and migration 005): the four methods of the
  store. The two writing ones validate the row first and return it as validation leaves it, which is what the
  caller's pointer holds afterwards. Labels and overlay addresses are columns of JSON text, modelled by their values.
\<close>

section \<open>Methods\<close>

definition foreign_checks :: "'w env \<Rightarrow> foreign_input \<Rightarrow> goerr option" where
  "foreign_checks env i = constraint (fi_ProviderType i \<in> {ProviderUnmanaged, Provider3XUI, ProviderSharX}) (e_check env)"

definition foreign_err :: "string \<Rightarrow> goerr \<Rightarrow> goerr" where
  "foreign_err op = store_err op (Some (ErrConflict ''foreign node name already exists'')) None"

definition valid_foreign :: "foreign_node \<Rightarrow> ('w, foreign_node) dbact" where
  "valid_foreign n = (case Foreign_Validate (fn_Input n) of Inl e \<Rightarrow> failA e | Inr i \<Rightarrow> returnA (n\<lparr>fn_Input := i\<rparr>))"

definition CreateForeignNode :: "'w env \<Rightarrow> foreign_node \<Rightarrow> ('w, foreign_node) dbact" where
  "CreateForeignNode env n0 =
     bindA (valid_foreign n0) (\<lambda>n.
     bindA (stamped env (fn_CreatedAt n) (fn_UpdatedAt n) (\<lambda>c u.
       insertA env ''CreateForeignNode'' (foreign_err ''CreateForeignNode'')
         (\<lambda>s. [foreign_checks env (fn_Input n),
               constraint (\<forall>r \<in> set (db_foreign s). fn_ID r \<noteq> fn_ID n \<and> fi_Name (fn_Input r) \<noteq> fi_Name (fn_Input n)) (e_unique env)])
         (\<lambda>s. s\<lparr>db_foreign := db_foreign s @ [n\<lparr>fn_CreatedAt := c, fn_UpdatedAt := u\<rparr>]\<rparr>))) (\<lambda>_. returnA n))"

definition GetForeignNode :: "'w env \<Rightarrow> ident \<Rightarrow> ('w, foreign_node) dbact" where
  "GetForeignNode env i = queryRow env ''GetForeignNode'' (\<lambda>s. find (\<lambda>r. fn_ID r = i) (db_foreign s))"

definition ListForeignNodes :: "'w env \<Rightarrow> ('w, foreign_node list) dbact" where
  "ListForeignNodes env = query env ''ListForeignNodes'' (\<lambda>s. sort_key (\<lambda>r. fi_Name (fn_Input r)) (sort_key fn_ID (db_foreign s)))"

definition UpdateForeignNode :: "'w env \<Rightarrow> foreign_node \<Rightarrow> ('w, foreign_node) dbact" where
  "UpdateForeignNode env n0 =
     bindA (valid_foreign n0) (\<lambda>n.
     bindA (nowRFC3339 env (fn_UpdatedAt n)) (\<lambda>u.
     bindA (updateA env ''UpdateForeignNode'' (foreign_err ''UpdateForeignNode'') (fn_ID n) (\<lambda>s. map fn_ID (db_foreign s))
       (\<lambda>s. [foreign_checks env (fn_Input n),
             constraint (\<forall>r \<in> set (db_foreign s). fn_ID r \<noteq> fn_ID n \<longrightarrow> fi_Name (fn_Input r) \<noteq> fi_Name (fn_Input n)) (e_unique env)])
       (\<lambda>s. s\<lparr>db_foreign := upd_where (\<lambda>r. fn_ID r = fn_ID n) (\<lambda>r. n\<lparr>fn_CreatedAt := fn_CreatedAt r, fn_UpdatedAt := u\<rparr>) (db_foreign s)\<rparr>)) (\<lambda>_. returnA n)))"

section \<open>The table as an abstract inventory\<close>

text \<open>\<open>foreign_table rows\<close>: identifiers and names are unique and validation accepts every row as it is. A step adds a
  validated row under a new identifier and name, or replaces the validated input of one row.\<close>

definition foreign_table :: "foreign_node list \<Rightarrow> bool" where
  "foreign_table rows \<longleftrightarrow> distinct (map fn_ID rows) \<and> distinct (map (\<lambda>r. fi_Name (fn_Input r)) rows) \<and>
     (\<forall>r \<in> set rows. Foreign_Validate (fn_Input r) = Inr (fn_Input r))"

definition foreign_step :: "foreign_node list \<Rightarrow> foreign_node list \<Rightarrow> bool" where
  "foreign_step rows rows' \<longleftrightarrow>
     (\<exists>n. rows' = rows @ [n] \<and> Foreign_Validate (fn_Input n) = Inr (fn_Input n) \<and>
        (\<forall>r \<in> set rows. fn_ID r \<noteq> fn_ID n \<and> fi_Name (fn_Input r) \<noteq> fi_Name (fn_Input n))) \<or>
     (\<exists>n u. rows' = upd_where (\<lambda>r. fn_ID r = fn_ID n) (\<lambda>r. n\<lparr>fn_CreatedAt := fn_CreatedAt r, fn_UpdatedAt := u\<rparr>) rows \<and>
        Foreign_Validate (fn_Input n) = Inr (fn_Input n) \<and>
        (\<forall>r \<in> set rows. fn_ID r \<noteq> fn_ID n \<longrightarrow> fi_Name (fn_Input r) \<noteq> fi_Name (fn_Input n)))"

definition replaced :: "foreign_node \<Rightarrow> gotime \<Rightarrow> foreign_node list \<Rightarrow> foreign_node list" where
  "replaced n u rows = upd_where (\<lambda>r. fn_ID r = fn_ID n) (\<lambda>r. n\<lparr>fn_CreatedAt := fn_CreatedAt r, fn_UpdatedAt := u\<rparr>) rows"

lemma replaced_simps: "replaced n u [] = []"
  "replaced n u (x # rows) = (if fn_ID x = fn_ID n then n\<lparr>fn_CreatedAt := fn_CreatedAt x, fn_UpdatedAt := u\<rparr> else x) # replaced n u rows"
  by (simp_all add: replaced_def upd_where_def)

lemma replaced_ids: "map fn_ID (replaced n u rows) = map fn_ID rows"
  by (induction rows) (simp_all add: replaced_simps)

lemma replaced_none: "fn_ID n \<notin> set (map fn_ID rows) \<Longrightarrow> replaced n u rows = rows"
  by (induction rows) (auto simp: replaced_simps)

lemma replaced_set: "set (replaced n u rows) \<subseteq> set rows \<union> {n\<lparr>fn_CreatedAt := fn_CreatedAt r, fn_UpdatedAt := u\<rparr> | r. r \<in> set rows}"
  by (induction rows) (auto simp: replaced_simps)

lemma replaced_names:
  assumes "distinct (map fn_ID rows)" and "distinct (map (\<lambda>r. fi_Name (fn_Input r)) rows)"
    and "\<forall>r \<in> set rows. fn_ID r \<noteq> fn_ID n \<longrightarrow> fi_Name (fn_Input r) \<noteq> fi_Name (fn_Input n)"
  shows "distinct (map (\<lambda>r. fi_Name (fn_Input r)) (replaced n u rows))"
  using assms
proof (induction rows)
  case (Cons x rows)
  show ?case
  proof (cases "fn_ID x = fn_ID n")
    case True
    then have rest: "fn_ID n \<notin> set (map fn_ID rows)" using Cons.prems(1) by auto
    have ids: "fn_ID r \<noteq> fn_ID n" if "r \<in> set rows" for r using rest that by (metis image_eqI set_map)
    have "\<forall>r \<in> set rows. fi_Name (fn_Input r) \<noteq> fi_Name (fn_Input n)" using Cons.prems(3) ids by simp
    then have "fi_Name (fn_Input n) \<notin> set (map (\<lambda>r. fi_Name (fn_Input r)) rows)" by (metis (mono_tags, lifting) imageE set_map)
    then show ?thesis using True Cons.prems(2) by (simp add: replaced_simps replaced_none [OF rest])
  next
    case False
    have "fi_Name (fn_Input x) \<notin> set (map (\<lambda>r. fi_Name (fn_Input r)) (replaced n u rows))"
      using Cons.prems(2,3) False replaced_set [of n u rows] by fastforce
    then show ?thesis using False Cons by (simp add: replaced_simps)
  qed
qed (simp add: replaced_simps)

lemma foreign_step_keeps: "foreign_step rows rows' \<Longrightarrow> foreign_table rows \<Longrightarrow> foreign_table rows'"
  unfolding foreign_step_def replaced_def [symmetric]
proof (elim disjE exE conjE)
  fix n u
  assume rows': "rows' = replaced n u rows" and valid: "Foreign_Validate (fn_Input n) = Inr (fn_Input n)"
    and names: "\<forall>r \<in> set rows. fn_ID r \<noteq> fn_ID n \<longrightarrow> fi_Name (fn_Input r) \<noteq> fi_Name (fn_Input n)" and t: "foreign_table rows"
  have "\<forall>r \<in> set rows'. Foreign_Validate (fn_Input r) = Inr (fn_Input r)"
    using t valid replaced_set [of n u rows] by (auto simp: rows' foreign_table_def)
  then show "foreign_table rows'" using t names replaced_names [of rows n u] replaced_ids [of n u rows]
    unfolding foreign_table_def rows' by simp
qed (auto simp: foreign_table_def)

lemma valid_foreign_Inr:
  assumes "valid_foreign n0 s = (Inr n, s')"
  shows "s' = s \<and> fn_ID n = fn_ID n0 \<and> Foreign_Validate (fn_Input n0) = Inr (fn_Input n)"
  using assms by (cases "Foreign_Validate (fn_Input n0)") (auto simp: valid_foreign_def)

text \<open>A row that was validated before it reaches the store is the one that is stored.\<close>

definition once_valid :: "foreign_node \<Rightarrow> bool" where
  "once_valid n \<longleftrightarrow> (\<exists>i. Foreign_Validate i = Inr (fn_Input n))"

lemma valid_foreign_once:
  assumes "once_valid n" and "valid_foreign n s = (Inr m, s')"
  shows "s' = s \<and> m = n \<and> Foreign_Validate (fn_Input m) = Inr (fn_Input m)"
proof -
  obtain i where "Foreign_Validate i = Inr (fn_Input n)" using assms(1) by (auto simp: once_valid_def)
  from validate_twice [OF this] have "Foreign_Validate (fn_Input n) = Inr (fn_Input n)"
    using assms(2) by (auto simp: valid_foreign_def split: if_splits)
  then show ?thesis using assms(2) by (auto simp: valid_foreign_def)
qed

end
