(* ===== verification/ApiServer.thy ===== *)
theory ApiServer
  imports Complex_Main Auth ForeignStore "HOL-Library.Signed_Division"
begin

text \<open>
  The shell of the HTTP API (src/internal/api/server.go, ratelimit.go, logging.Redact): the rate limiter,
  the bearer check every route goes through, the shape of replies and errors, and the audit entry.

  A handler is an action on the tables whose value is the status and the Go value given to \<open>writeJSON\<close>, and
  whose error is the one given to \<open>writeErr\<close>. JSON texts are not modelled: \<open>codec\<close> holds the decoder of
  encoding/json per request type, which fails with the text of its error. Tokens of the limiter are
  float64: they are rationals, and \<open>fl\<close> rounds after each operation as the machine does.
\<close>

section \<open>The rate limiter\<close>

record bucket =
  bk_tokens :: rat
  bk_last :: gotime

record limiter =
  lim_rps :: rat
  lim_burst :: int
  lim_m :: "string \<rightharpoonup> bucket"

definition newLimiter :: "rat \<Rightarrow> int \<Rightarrow> limiter" where
  "newLimiter rps burst =
     \<lparr>lim_rps = (if rps \<le> 0 then 10 else rps), lim_burst = (if burst \<le> 0 then 20 else burst), lim_m = Map.empty\<rparr>"

definition Seconds :: "(rat \<Rightarrow> rat) \<Rightarrow> duration \<Rightarrow> rat" where
  "Seconds fl d = fl (fl (of_int (d sdiv Second)) + fl (fl (of_int (d smod Second)) / 1000000000))"

definition refill :: "(rat \<Rightarrow> rat) \<Rightarrow> rat \<Rightarrow> int \<Rightarrow> gotime \<Rightarrow> bucket \<Rightarrow> rat" where
  "refill fl rps burst now b =
     (let t = fl (bk_tokens b + fl (Seconds fl (now - bk_last b) * rps))
      in if t > fl (of_int burst) then fl (of_int burst) else t)"

definition allow :: "(rat \<Rightarrow> rat) \<Rightarrow> gotime \<Rightarrow> string \<Rightarrow> limiter \<Rightarrow> bool \<times> limiter" where
  "allow fl now key l =
     (let b = (case lim_m l key of Some b \<Rightarrow> b | None \<Rightarrow> \<lparr>bk_tokens = fl (of_int (lim_burst l)), bk_last = now\<rparr>);
          t = refill fl (lim_rps l) (lim_burst l) now b
      in if t < 1 then (False, l\<lparr>lim_m := (lim_m l)(key \<mapsto> \<lparr>bk_tokens = t, bk_last = now\<rparr>)\<rparr>)
         else (True, l\<lparr>lim_m := (lim_m l)(key \<mapsto> \<lparr>bk_tokens = fl (t - 1), bk_last = now\<rparr>)\<rparr>))"

section \<open>Requests and replies\<close>

record http_request =
  hr_Req :: request
  hr_ID :: string
  hr_ContentLength :: int
  hr_ReadErr :: bool

record codec =
  j_token :: "string \<Rightarrow> string + string \<times> string"
  j_user :: "string \<Rightarrow> string + user_create_request"
  j_user_patch :: "string \<Rightarrow> string + user_patch"
  j_code :: "string \<Rightarrow> string + string"
  j_node :: "string \<Rightarrow> string + node"
  j_backend :: "string \<Rightarrow> string + backend"
  j_mapping :: "string \<Rightarrow> string + port_mapping"
  j_mapping_patch :: "string \<Rightarrow> string + mapping_patch"
  j_tunnel :: "string \<Rightarrow> string + tunnel"
  j_sni :: "string \<Rightarrow> string + sni_route"
  j_sni_patch :: "string \<Rightarrow> string + sni_route \<times> bool"
  j_actual :: "string \<Rightarrow> string + actual_state"
  j_apply :: "string \<Rightarrow> string + bool"
  j_failback :: "string \<Rightarrow> string + (string \<times> string \<times> string)"
  j_foreign :: "string \<Rightarrow> string + foreign_input"
  j_foreign_patch :: "string \<Rightarrow> string + foreign_patch"

record tunnel_status =
  tst_Tunnel :: tunnel
  tst_Actual :: "tunnel_actual option"
  tst_Healthy :: bool
  tst_Detail :: string

datatype reply =
    RError coded_error | RNoContent | ROk | RStatus string | RHealth string string | RPrincipal string string
  | RTokens "token list" | RTokenCreated ident string string string gotime
  | RUser user | RUsers "user list" | RTotp string string | RCodes "string list"
  | RNode node | RNodes "node list" | RBackend backend | RBackends "backend list"
  | RMapping port_mapping | RMappings "port_mapping list" | RTunnel tunnel | RTunnels "tunnel list"
  | RTunnelStatus tunnel_status | RSni sni_route | RSnis "sni_route list"
  | RDesired desired_state | RActual "(agent_status \<times> actual_state) option"
  | RPlan string | RApply apply_result | RIntent failback_intent | REvents "audit_event list"
  | RForeign foreign_node | RForeigns "foreign_node list"

text \<open>The fields tagged \<open>json:"-"\<close> are not encoded.\<close>

definition user_json :: "user \<Rightarrow> user" where
  "user_json u = u\<lparr>u_PasswordHash := [], u_TOTPSecret := [], u_TOTPPending := []\<rparr>"

definition token_json :: "token \<Rightarrow> token" where
  "token_json t = t\<lparr>tk_Hash := []\<rparr>"

fun writeJSON :: "int \<Rightarrow> reply \<Rightarrow> int \<times> reply" where
  "writeJSON status (RUser u) = (status, RUser (user_json u))"
| "writeJSON status (RUsers us) = (status, RUsers (map user_json us))"
| "writeJSON status (RTokens ts) = (status, RTokens (map token_json ts))"
| "writeJSON status r = (status, r)"

definition writeErr :: "goerr \<Rightarrow> int \<times> reply" where
  "writeErr err = (let ce = AsCoded err; ce' = (if ce_HTTP ce = 0 then CodedError (ce_Code ce) (ce_Message ce) 500 else ce)
     in writeJSON (ce_HTTP ce') (RError ce'))"

definition decodeJSON :: "(string \<Rightarrow> string + 'a) \<Rightarrow> http_request \<Rightarrow> ('w, 'a) dbact" where
  "decodeJSON dec r = (case dec (rq_Body (hr_Req r)) of Inl e \<Rightarrow> failA (Validation (''invalid json: '' @ e)) | Inr v \<Rightarrow> returnA v)"

definition clientIP :: "http_request \<Rightarrow> string" where
  "clientIP r = (case SplitHostPort (rq_RemoteAddr (hr_Req r)) of None \<Rightarrow> rq_RemoteAddr (hr_Req r) | Some (host, _) \<Rightarrow> host)"

definition actor :: "principal option \<Rightarrow> string" where
  "actor p = (case p of Some q \<Rightarrow> pr_Name q | None \<Rightarrow> ''anonymous'')"

section \<open>Audit entries\<close>

definition Redact :: "string \<Rightarrow> string" where
  "Redact s = (if Contains s ''PRIVATE KEY'' \<or> Contains s ''wg set'' \<or> Contains s ''preshared-key'' then ''[redacted]'' else s)"

definition secretKeys :: "string list" where
  "secretKeys = [''token'', ''password'', ''secret'', ''private_key'', ''authorization'', ''hmac'', ''signature'']"

definition isSecretKey :: "string \<Rightarrow> bool" where
  "isSecretKey k \<longleftrightarrow> (\<exists>s \<in> set secretKeys. Contains (ToLower k) s)"

text \<open>The error of the audit statement is dropped.\<close>

definition audit :: "'w env \<Rightarrow> principal option \<Rightarrow> string \<Rightarrow> string \<Rightarrow> string \<Rightarrow> string \<Rightarrow> bool \<Rightarrow> ('w, unit) dbact" where
  "audit env p action resource rid detail success = (\<lambda>s.
     (Inr (), snd (bindA (ident_New env) (\<lambda>i. bindA (nowA env) (\<lambda>t.
        AppendAudit env \<lparr>au_ID = i, au_Timestamp = t, au_Actor = actor p, au_Action = action, au_Resource = resource,
          au_ResourceID = rid, au_Detail = Redact detail, au_Success = success\<rparr>)) s)))"

text \<open>\<open>audit_failure\<close>: the branch \<open>if err != nil { audit(..., err.Error(), false); writeErr(err) }\<close>.\<close>

definition audit_failure :: "'w env \<Rightarrow> principal option \<Rightarrow> string \<Rightarrow> string \<Rightarrow> string \<Rightarrow> ('w, 'a) dbact \<Rightarrow> ('w, 'a) dbact" where
  "audit_failure env p action resource rid m = (\<lambda>s. case m s of
     (Inl e, s') \<Rightarrow> bindA (audit env p action resource rid (err_text e) False) (\<lambda>_. failA e) s'
   | (Inr x, s') \<Rightarrow> (Inr x, s'))"

definition notFoundAs :: "string \<Rightarrow> string \<Rightarrow> goerr \<Rightarrow> goerr" where
  "notFoundAs resource i err = (if IsNotFound err then NotFound resource i else err)"

section \<open>The server\<close>

record 'w api =
  api_auth :: "'w authenticator"
  api_json :: codec
  api_fl :: "rat \<Rightarrow> rat"
  api_LiveApply :: bool
  api_Failback :: bool
  api_ParseRFC3339 :: "string \<Rightarrow> gotime option"
  api_ParseDate :: "string \<Rightarrow> gotime option"

record 'w server =
  sv_db :: "'w db"
  sv_limit :: limiter
  sv_ready :: bool

type_synonym 'w handler = "http_request \<Rightarrow> principal option \<Rightarrow> ('w, int \<times> reply) dbact"

definition api_New :: "rat \<Rightarrow> int \<Rightarrow> 'w db \<Rightarrow> 'w server" where
  "api_New rps burst s = \<lparr>sv_db = s, sv_limit = newLimiter rps burst, sv_ready = False\<rparr>"

definition SetReady :: "bool \<Rightarrow> 'w server \<Rightarrow> 'w server" where
  "SetReady v sv = sv\<lparr>sv_ready := v\<rparr>"

definition body_limit :: nat where "body_limit = 2 ^ 20"

definition limited :: "http_request \<Rightarrow> http_request" where
  "limited r = r\<lparr>hr_Req := (hr_Req r)\<lparr>rq_Body := take body_limit (rq_Body (hr_Req r))\<rparr>\<rparr>"

definition check_rate :: "'w env \<Rightarrow> 'w api \<Rightarrow> http_request \<Rightarrow> 'w server \<Rightarrow> bool \<times> 'w server" where
  "check_rate env a r sv =
     (case e_now env (db_world (sv_db sv)) of (now, w) \<Rightarrow>
       case allow (api_fl a) now (clientIP r) (sv_limit sv) of (ok, l) \<Rightarrow>
         (ok, sv\<lparr>sv_db := (sv_db sv)\<lparr>db_world := w\<rparr>, sv_limit := l\<rparr>))"

definition too_many :: goerr where
  "too_many = Coded (CodedError ''RATE_LIMIT'' ''too many mutating requests'' 429)"

definition run_handler :: "('w, int \<times> reply) dbact \<Rightarrow> 'w server \<Rightarrow> (int \<times> reply) \<times> 'w server" where
  "run_handler m sv = (case m (sv_db sv) of
     (Inl e, s) \<Rightarrow> (writeErr e, sv\<lparr>sv_db := s\<rparr>)
   | (Inr (status, v), s) \<Rightarrow> (writeJSON status v, sv\<lparr>sv_db := s\<rparr>))"

definition authorized :: "'w env \<Rightarrow> 'w api \<Rightarrow> 'w handler \<Rightarrow> bool \<Rightarrow> http_request \<Rightarrow> ('w, int \<times> reply) dbact" where
  "authorized env a h mutate r =
     bindA (Authenticate env (api_auth a) (hr_Req r) (rq_Body (hr_Req r))) (\<lambda>p.
     if mutate \<and> \<not> CanMutate (pr_Role p) then failA (Forbidden (''role '' @ pr_Role p @ '' cannot mutate''))
     else if \<not> mutate \<and> \<not> CanRead (pr_Role p) then failA (Forbidden (''role '' @ pr_Role p @ '' cannot read''))
     else h r (Some p))"

definition authn :: "'w env \<Rightarrow> 'w api \<Rightarrow> 'w handler \<Rightarrow> bool \<Rightarrow> http_request \<Rightarrow> 'w server \<Rightarrow> (int \<times> reply) \<times> 'w server" where
  "authn env a h mutate r sv =
     (if hr_ReadErr r then (writeErr (Validation ''could not read body''), sv)
      else if mutate then
        (case check_rate env a r sv of (ok, sv') \<Rightarrow>
           if ok then run_handler (authorized env a h mutate (limited r)) sv' else (writeErr too_many, sv'))
      else run_handler (authorized env a h mutate (limited r)) sv)"

definition healthz :: "string \<Rightarrow> int \<times> reply" where
  "healthz version = writeJSON 200 (RHealth ''ok'' version)"

definition Ping :: "'w env \<Rightarrow> ('w, unit) dbact" where
  "Ping env = driver env ''Ping''"

definition readyz :: "'w env \<Rightarrow> 'w server \<Rightarrow> (int \<times> reply) \<times> 'w server" where
  "readyz env sv =
     (if \<not> sv_ready sv then (writeErr (Unavailable ''controller not initialized''), sv)
      else run_handler (onErr (\<lambda>_. Unavailable ''database not reachable'')
        (bindA (Ping env) (\<lambda>_. returnA (200, RStatus ''ready'')))) sv)"

end
