(* ===== verification/RateLimit.thy ===== *)
theory RateLimit
  imports ApiServer
begin

text \<open>
  The token bucket of ratelimit.go under any interleaving of clients. \<open>rounding u fl B\<close> is what the bounds need
  of float64: rounding is monotone, exact on the integers up to the burst, never negative on what is not, and
  off by at most the factor \<open>1 + u\<close>; \<open>u = 2 ^ -53\<close> away from the ends of the exponent range.
\<close>

definition rounding :: "rat \<Rightarrow> (rat \<Rightarrow> rat) \<Rightarrow> int \<Rightarrow> bool" where
  "rounding u fl B \<longleftrightarrow> 0 \<le> u \<and> mono fl \<and> (\<forall>k. 0 \<le> k \<and> k \<le> B \<longrightarrow> fl (of_int k) = of_int k) \<and> (\<forall>x. 0 \<le> x \<longrightarrow> fl x \<le> (1 + u) * x)"

fun allow_run :: "(rat \<Rightarrow> rat) \<Rightarrow> (gotime \<times> string) list \<Rightarrow> limiter \<Rightarrow> bool list \<times> limiter" where
  "allow_run fl [] l = ([], l)"
| "allow_run fl ((now, key) # cs) l =
     (case allow fl now key l of (ok, l1) \<Rightarrow> case allow_run fl cs l1 of (oks, l2) \<Rightarrow> (ok # oks, l2))"

fun granted :: "string \<Rightarrow> (gotime \<times> string) list \<Rightarrow> bool list \<Rightarrow> nat" where
  "granted k ((t, key) # cs) (ok # oks) = (if key = k \<and> ok then 1 else 0) + granted k cs oks"
| "granted k _ _ = 0"

definition calls_of :: "string \<Rightarrow> (gotime \<times> string) list \<Rightarrow> nat" where
  "calls_of k cs = length (filter (\<lambda>c. snd c = k) cs)"

lemma roundingD:
  assumes "rounding u fl B"
  shows "0 \<le> u" and "x \<le> y \<Longrightarrow> fl x \<le> fl y" and "0 \<le> k \<Longrightarrow> k \<le> B \<Longrightarrow> fl (of_int k) = of_int k"
    and "0 \<le> x \<Longrightarrow> fl x \<le> (1 + u) * x"
  using assms by (auto simp: rounding_def mono_def)

lemma rounding_nonneg: "rounding u fl B \<Longrightarrow> 0 \<le> B \<Longrightarrow> 0 \<le> x \<Longrightarrow> 0 \<le> fl x"
  using roundingD(2) [of u fl B 0 x] roundingD(3) [of u fl B 0] by simp

lemma le_factor: "(0 :: rat) \<le> u \<Longrightarrow> 0 \<le> x \<Longrightarrow> x \<le> y \<Longrightarrow> (1 + u) * x \<le> (1 + u) * y"
  by (simp add: mult_left_mono)

lemma Seconds_bounds:
  assumes r: "rounding u fl B" and B: "0 \<le> B" and d: "0 \<le> d"
  shows "0 \<le> Seconds fl d \<and> Seconds fl d \<le> (1 + u) ^ 3 * (of_int d / 1000000000)"
proof -
  define s n :: rat where "s = of_int (d div Second)" and "n = of_int (d mod Second)"
  have u: "0 \<le> u" by (rule roundingD(1) [OF r])
  have "d sdiv Second = d div Second" "d smod Second = d mod Second"
    using d by (simp_all add: Second_def signed_divide_int_def signed_modulo_int_def sgn_if)
  then have S: "Seconds fl d = fl (fl s + fl (fl n / 1000000000))" by (simp add: Seconds_def s_def n_def)
  have nn: "0 \<le> s" "0 \<le> n" using d by (simp_all add: s_def n_def Second_def pos_imp_zdiv_nonneg_iff)
  have n1: "0 \<le> fl n" "fl n \<le> (1 + u) * n" using nn by (simp_all add: rounding_nonneg [OF r B] roundingD(4) [OF r])
  have s1: "0 \<le> fl s" "fl s \<le> (1 + u) * s" using nn by (simp_all add: rounding_nonneg [OF r B] roundingD(4) [OF r])
  have n2: "0 \<le> fl (fl n / 1000000000)" "fl (fl n / 1000000000) \<le> (1 + u) * (fl n / 1000000000)"
    using rounding_nonneg [OF r B, of "fl n / 1000000000"] roundingD(4) [OF r, of "fl n / 1000000000"] n1(1) by auto
  have n3: "(1 + u) * (fl n / 1000000000) \<le> (1 + u) * ((1 + u) * (n / 1000000000))"
    using n1 u by (intro le_factor) auto
  have s3: "(1 + u) * s \<le> (1 + u) * ((1 + u) * s)" using nn u by (intro le_factor) (simp_all add: algebra_simps)
  have sum: "fl s + fl (fl n / 1000000000) \<le> (1 + u) * ((1 + u) * (s + n / 1000000000))"
    using s1(2) s3 n2(2) n3 by (simp add: distrib_left)
  have total: "s + n / 1000000000 = of_int d / 1000000000"
  proof -
    have "(of_int d :: rat) = of_int (Second * (d div Second) + d mod Second)" by simp
    also have "\<dots> = 1000000000 * s + n" unfolding of_int_add of_int_mult s_def n_def by (simp add: Second_def)
    finally show ?thesis by (simp add: field_simps)
  qed
  have pos: "0 \<le> fl s + fl (fl n / 1000000000)" using s1 n2 by simp
  have "fl (fl s + fl (fl n / 1000000000)) \<le> (1 + u) * ((1 + u) * ((1 + u) * (of_int d / 1000000000)))"
    using roundingD(4) [OF r pos] le_factor [OF u pos sum] unfolding total by linarith
  then show ?thesis using rounding_nonneg [OF r B pos] unfolding S by (simp add: power3_eq_cube mult.assoc)
qed

text \<open>What a bucket gains between two calls.\<close>

definition gain :: "rat \<Rightarrow> rat \<Rightarrow> duration \<Rightarrow> rat" where
  "gain u rps d = (1 + u) ^ 5 * rps * (of_int d / 1000000000)"

lemma refill_bounds:
  assumes r: "rounding u fl B" and B: "0 \<le> B" and rps: "0 \<le> rps" and now: "bk_last b \<le> now" and t: "0 \<le> bk_tokens b" "bk_tokens b \<le> of_int B"
  shows "refill fl rps B now b \<le> of_int B" and "refill fl rps B now b \<le> bk_tokens b + gain u rps (now - bk_last b) + u * of_int B"
    and "0 \<le> refill fl rps B now b" and "0 \<le> k \<Longrightarrow> of_int k \<le> bk_tokens b \<Longrightarrow> of_int k \<le> refill fl rps B now b"
proof -
  define d where "d = now - bk_last b"
  define e where "e = fl (Seconds fl d * rps)"
  have u: "0 \<le> u" by (rule roundingD(1) [OF r])
  have S: "0 \<le> Seconds fl d" "Seconds fl d \<le> (1 + u) ^ 3 * (of_int d / 1000000000)"
    using Seconds_bounds [OF r B, of d] now by (simp_all add: d_def)
  have p: "0 \<le> Seconds fl d * rps" using S(1) rps by simp
  have e: "0 \<le> e" "e \<le> (1 + u) * (Seconds fl d * rps)"
    unfolding e_def using rounding_nonneg [OF r B p] roundingD(4) [OF r p] by simp_all
  have sum: "0 \<le> bk_tokens b + e" using t e by simp
  have R: "refill fl rps B now b = min (fl (bk_tokens b + e)) (of_int B)"
    using roundingD(3) [OF r B, of] by (simp add: refill_def Let_def e_def d_def min_def)
  show "refill fl rps B now b \<le> of_int B" "0 \<le> refill fl rps B now b"
    unfolding R using rounding_nonneg [OF r B sum] B by simp_all
  have inc: "(1 + u) * e \<le> gain u rps d"
  proof -
    have "(1 + u) * e \<le> (1 + u) * ((1 + u) * (Seconds fl d * rps))" by (rule le_factor [OF u e(1) e(2)])
    also have "\<dots> \<le> (1 + u) * ((1 + u) * ((1 + u) ^ 3 * (of_int d / 1000000000) * rps))"
      using u S(2) rps by (intro mult_left_mono mult_right_mono) simp_all
    also have "\<dots> = gain u rps d" by (simp add: gain_def numeral_eq_Suc)
    finally show ?thesis .
  qed
  have "fl (bk_tokens b + e) \<le> bk_tokens b + u * bk_tokens b + (1 + u) * e"
    using roundingD(4) [OF r sum] by (simp add: algebra_simps)
  moreover have "u * bk_tokens b \<le> u * of_int B" using u t(2) by (rule mult_left_mono [rotated])
  ultimately show "refill fl rps B now b \<le> bk_tokens b + gain u rps (now - bk_last b) + u * of_int B"
    unfolding R d_def [symmetric] using inc by linarith
  show "of_int k \<le> refill fl rps B now b" if "0 \<le> k" "of_int k \<le> bk_tokens b"
  proof -
    have "of_int k \<le> (of_int B :: rat)" using that t by linarith
    then have "k \<le> B" by simp
    have "of_int k \<le> fl (bk_tokens b + e)"
      using roundingD(2) [OF r, of "of_int k" "bk_tokens b + e"] roundingD(3) [OF r that(1) \<open>k \<le> B\<close>] that e by simp
    then show ?thesis unfolding R using \<open>k \<le> B\<close> by simp
  qed
qed

text \<open>\<open>at_most l k b\<close>: the client has the bucket \<open>b\<close>, or none yet, which counts as a full one.\<close>

definition at_most :: "limiter \<Rightarrow> string \<Rightarrow> bucket \<Rightarrow> bool" where
  "at_most l k b \<longleftrightarrow> lim_m l k = Some b \<or> lim_m l k = None \<and> bk_tokens b = of_int (lim_burst l)"

lemma gain_add: "gain u rps (a + b) = gain u rps a + gain u rps b"
  by (simp add: gain_def distrib_left add_divide_distrib)

lemma gain_nonneg: "0 \<le> u \<Longrightarrow> 0 \<le> rps \<Longrightarrow> 0 \<le> d \<Longrightarrow> 0 \<le> gain u rps d"
  by (simp add: gain_def)

lemma allow_other: "allow fl now key l = (ok, l') \<Longrightarrow> key \<noteq> k \<Longrightarrow> lim_m l' k = lim_m l k \<and> lim_rps l' = lim_rps l \<and> lim_burst l' = lim_burst l"
  by (auto simp: allow_def Let_def split: if_splits)

lemma allow_step:
  assumes r: "rounding u fl (lim_burst l)" and B: "0 \<le> lim_burst l" and rps: "0 \<le> lim_rps l" and b: "at_most l k b"
    and t: "0 \<le> bk_tokens b" "bk_tokens b \<le> of_int (lim_burst l)" and now: "bk_last b \<le> now" and a: "allow fl now k l = (ok, l')"
  obtains b' where "lim_m l' k = Some b'" and "lim_rps l' = lim_rps l" and "lim_burst l' = lim_burst l" and "bk_last b' = now"
    and "0 \<le> bk_tokens b'" and "bk_tokens b' \<le> of_int (lim_burst l)"
    and "(if ok then 1 else 0) + bk_tokens b' \<le> bk_tokens b + gain u (lim_rps l) (now - bk_last b) + 2 * u * of_int (lim_burst l)"
    and "\<And>j. of_nat (Suc j) \<le> bk_tokens b \<Longrightarrow> ok \<and> of_nat j \<le> bk_tokens b'"
proof -
  let ?B = "of_int (lim_burst l) :: rat"
  define b0 where "b0 = (case lim_m l k of Some b \<Rightarrow> b | None \<Rightarrow> \<lparr>bk_tokens = fl ?B, bk_last = now\<rparr>)"
  define x where "x = refill fl (lim_rps l) (lim_burst l) now b0"
  have u: "0 \<le> u" by (rule roundingD(1) [OF r])
  have b0: "bk_tokens b0 = bk_tokens b" "bk_last b0 \<le> now" "bk_last b \<le> bk_last b0"
    using b now roundingD(3) [OF r B] by (auto simp: at_most_def b0_def)
  have t0: "0 \<le> bk_tokens b0" "bk_tokens b0 \<le> ?B" using t b0 by simp_all
  note x = refill_bounds [OF r B rps b0(2) t0, folded x_def]
  have "gain u (lim_rps l) (now - bk_last b0) \<le> gain u (lim_rps l) (now - bk_last b)"
    using gain_add [of u "lim_rps l" "now - bk_last b0" "bk_last b0 - bk_last b"] gain_nonneg [OF u rps, of "bk_last b0 - bk_last b"] b0(3)
    by simp
  then have up: "x \<le> bk_tokens b + gain u (lim_rps l) (now - bk_last b) + u * ?B" using x(2) b0(1) by linarith
  have uB: "0 \<le> u * ?B" using u B by simp
  have low: "of_nat (Suc j) \<le> x" if "of_nat (Suc j) \<le> bk_tokens b" for j
    using x(4) [of "int (Suc j)"] that b0(1) by simp
  show thesis
  proof (cases "x < 1")
    case True
    then have "ok = False" "lim_m l' k = Some \<lparr>bk_tokens = x, bk_last = now\<rparr>" "lim_rps l' = lim_rps l" "lim_burst l' = lim_burst l"
      using a by (auto simp: allow_def Let_def x_def b0_def split: if_splits)
    moreover have "\<not> of_nat (Suc j) \<le> bk_tokens b" for j using low [of j] True by auto
    ultimately show thesis using that x(1,3) up uB by (auto simp: algebra_simps)
  next
    case False
    then have l': "ok" "lim_m l' k = Some \<lparr>bk_tokens = fl (x - 1), bk_last = now\<rparr>" "lim_rps l' = lim_rps l" "lim_burst l' = lim_burst l"
      using a by (auto simp: allow_def Let_def x_def b0_def split: if_splits)
    have nn: "0 \<le> x - 1" using False by simp
    have "u * (x - 1) \<le> u * ?B" using u x(1) by (intro mult_left_mono) simp_all
    then have f: "fl (x - 1) \<le> x - 1 + u * ?B" using roundingD(4) [OF r nn] by (simp add: algebra_simps)
    have top: "fl (x - 1) \<le> ?B" using roundingD(2) [OF r, of "x - 1" ?B] roundingD(3) [OF r B] x(1) by simp
    have "of_nat j \<le> fl (x - 1)" if "of_nat (Suc j) \<le> bk_tokens b" for j
    proof -
      have j: "of_int (int j) \<le> x - 1" using low [OF that] by simp
      then have "int j \<le> lim_burst l" using x(1) by (metis add_le_cancel_right diff_add_cancel le_add_same_cancel1 of_int_le_iff order_trans zero_le_one diff_le_eq)
      then show ?thesis using roundingD(2) [OF r j] roundingD(3) [OF r, of "int j"] by simp
    qed
    then show thesis using that [OF l'(2-4)] l'(1) rounding_nonneg [OF r B nn] top f up by (auto simp: algebra_simps)
  qed
qed

lemma run_bound:
  assumes "rounding u fl (lim_burst l)" and "0 \<le> lim_burst l" and "0 \<le> lim_rps l" and "at_most l k b"
    and "0 \<le> bk_tokens b" and "bk_tokens b \<le> of_int (lim_burst l)"
    and "sorted (bk_last b # map fst cs @ [T])" and "allow_run fl cs l = (oks, l')"
  shows "of_nat (granted k cs oks) \<le> bk_tokens b + gain u (lim_rps l) (T - bk_last b) + 2 * u * of_int (lim_burst l) * of_nat (calls_of k cs) \<and>
    (of_nat (calls_of k cs) \<le> bk_tokens b \<longrightarrow> granted k cs oks = calls_of k cs)"
  using assms
proof (induction cs arbitrary: l b oks)
  case Nil
  then show ?case using gain_nonneg [OF roundingD(1) [OF Nil.prems(1)] Nil.prems(3), of "T - bk_last b"]
    by (auto simp: calls_of_def)
next
  case (Cons c cs)
  obtain now key where c: "c = (now, key)" by fastforce
  obtain ok l1 oks1 where a: "allow fl now key l = (ok, l1)" and run: "allow_run fl cs l1 = (oks1, l')" and oks: "oks = ok # oks1"
    using Cons.prems(8) by (auto simp: c split: prod.splits)
  have sorted: "bk_last b \<le> now" "sorted (now # map fst cs @ [T])" "sorted (bk_last b # map fst cs @ [T])"
    using Cons.prems(7) by (auto simp: c)
  show ?case
  proof (cases "key = k")
    case False
    note o = allow_other [OF a False]
    have "at_most l1 k b" using Cons.prems(4) o by (simp add: at_most_def)
    then show ?thesis using Cons.IH [of l1 b oks1] Cons.prems(1-6) o sorted(3) run False by (simp add: oks c calls_of_def)
  next
    case True
    obtain b' where b': "lim_m l1 k = Some b'" "lim_rps l1 = lim_rps l" "lim_burst l1 = lim_burst l" "bk_last b' = now"
      "0 \<le> bk_tokens b'" "bk_tokens b' \<le> of_int (lim_burst l)"
      "(if ok then 1 else 0) + bk_tokens b' \<le> bk_tokens b + gain u (lim_rps l) (now - bk_last b) + 2 * u * of_int (lim_burst l)"
      "\<And>j. of_nat (Suc j) \<le> bk_tokens b \<Longrightarrow> ok \<and> of_nat j \<le> bk_tokens b'"
      using allow_step [OF Cons.prems(1-6) sorted(1) a [unfolded True]] by blast
    have IH: "of_nat (granted k cs oks1) \<le> bk_tokens b' + gain u (lim_rps l) (T - now) + 2 * u * of_int (lim_burst l) * of_nat (calls_of k cs)"
      "of_nat (calls_of k cs) \<le> bk_tokens b' \<Longrightarrow> granted k cs oks1 = calls_of k cs"
      using Cons.IH [of l1 b' oks1] Cons.prems(1-3) b' sorted(2) run by (simp_all add: at_most_def)
    have g: "gain u (lim_rps l) (T - bk_last b) = gain u (lim_rps l) (T - now) + gain u (lim_rps l) (now - bk_last b)"
      using gain_add [of u "lim_rps l" "T - now" "now - bk_last b"] by simp
    have "of_nat (granted k (c # cs) oks) = (if ok then 1 else 0) + (of_nat (granted k cs oks1) :: rat)"
      by (simp add: c True oks)
    moreover have "calls_of k (c # cs) = Suc (calls_of k cs)" by (simp add: calls_of_def c True)
    ultimately show ?thesis using IH b'(7,8) g by (auto simp: c True oks algebra_simps)
  qed
qed

text \<open>C6: The rate limiter under any interleaving of clients. Between two times a client is granted no more
  mutating requests than the burst plus the refill of the elapsed time, up to the rounding of float64
  (nothing for exact arithmetic, \<open>u = 0\<close>), whatever the others do; and the first requests of a client, up to
  the burst, are all granted.\<close>

theorem rate_limit_bound:
  assumes "l = newLimiter rps burst" and "rounding u fl (lim_burst l)" and "sorted (t0 # map fst cs @ [T])"
    and "allow_run fl cs l = (oks, l')"
  shows "of_nat (granted k cs oks) \<le> of_int (lim_burst l) + (1 + u) ^ 5 * lim_rps l * (of_int (T - t0) / 1000000000) +
      2 * u * of_int (lim_burst l) * of_nat (calls_of k cs) \<and>
    (int (calls_of k cs) \<le> lim_burst l \<longrightarrow> granted k cs oks = calls_of k cs)"
proof -
  have l: "0 \<le> lim_burst l" "0 \<le> lim_rps l" "lim_m l k = None" by (simp_all add: assms(1) newLimiter_def)
  have b: "at_most l k \<lparr>bk_tokens = of_int (lim_burst l), bk_last = t0\<rparr>" using l by (simp add: at_most_def)
  have "(of_nat (calls_of k cs) \<le> (of_int (lim_burst l) :: rat)) = (int (calls_of k cs) \<le> lim_burst l)"
    by (metis of_int_le_iff of_int_of_nat_eq)
  then show ?thesis using run_bound [OF assms(2) l(1,2) b _ _ _ assms(4), where T = T] assms(3) l(1) by (simp add: gain_def)
qed

lemma rate_limit_bound_witness:
  "\<exists>l'. allow_run (\<lambda>x. x) [(0, ''a''), (0, ''b''), (0, ''a''), (500000000, ''a'')] (newLimiter 1 1) = ([True, True, False, False], l') \<and>
     of_nat (granted ''a'' [(0, ''a''), (0, ''b''), (0, ''a''), (500000000, ''a'')] [True, True, False, False]) \<le> (3 / 2 :: rat)"
proof -
  let ?cs = "[(0, ''a''), (0, ''b''), (0, ''a''), (500000000, ''a'')]"
  have "fst (allow_run (\<lambda>x. x) ?cs (newLimiter 1 1)) = [True, True, False, False]"
    by (simp add: allow_def newLimiter_def refill_def Seconds_def Let_def Second_def)
  then obtain l' where run: "allow_run (\<lambda>x. x) ?cs (newLimiter 1 1) = ([True, True, False, False], l')" by (metis prod.collapse)
  have "rounding 0 (\<lambda>x. x) (lim_burst (newLimiter 1 1))" by (simp add: rounding_def mono_def)
  from rate_limit_bound [OF refl this _ run, of 0 500000000 "''a''"]
  have "of_nat (granted ''a'' ?cs [True, True, False, False]) \<le> (3 / 2 :: rat)" by (simp add: newLimiter_def)
  then show ?thesis using run by blast
qed

end
