(* ===== verification/ApiHandlers.thy ===== *)
theory ApiHandlers
  imports ApiServer Reconcile
begin

text \<open>
  The handlers of the HTTP API (src/internal/api/handlers.go, users.go) and the table of routes of
  server.go. Every handler is written in the order of the code: its guards, the decoding of the body, the
  statements, the audit entry and the reply. \<open>validated\<close> is a call of \<open>Validate\<close>, which normalises the
  value it checks. A nil slice of a listing is the empty slice here.
\<close>

section \<open>Idioms\<close>

definition validated :: "('a \<Rightarrow> goerr option) \<Rightarrow> ('a \<Rightarrow> 'a) \<Rightarrow> 'a \<Rightarrow> ('a \<Rightarrow> ('w, 'b) dbact) \<Rightarrow> ('w, 'b) dbact" where
  "validated V N x k = bindA (checkE (V x)) (\<lambda>_. k (N x))"

definition reply_list :: "('w, 'a) dbact \<Rightarrow> ('a \<Rightarrow> reply) \<Rightarrow> ('w, int \<times> reply) dbact" where
  "reply_list m f = bindA m (\<lambda>x. returnA (200, f x))"

definition done_audit :: "'w env \<Rightarrow> principal option \<Rightarrow> string \<Rightarrow> string \<Rightarrow> string \<Rightarrow> string \<Rightarrow> int \<Rightarrow> reply \<Rightarrow> ('w, int \<times> reply) dbact" where
  "done_audit env p action resource rid detail status v =
     bindA (audit env p action resource rid detail True) (\<lambda>_. returnA (status, v))"

definition ensure :: "bool \<Rightarrow> goerr \<Rightarrow> ('w, 'a) dbact \<Rightarrow> ('w, 'a) dbact" where
  "ensure ok e m = (if ok then m else failA e)"

definition role_in :: "(string \<Rightarrow> bool) \<Rightarrow> principal option \<Rightarrow> bool" where
  "role_in can p = (case p of None \<Rightarrow> False | Some q \<Rightarrow> can (pr_Role q))"

definition fresh :: "'w env \<Rightarrow> (ident \<Rightarrow> gotime \<Rightarrow> ('w, 'a) dbact) \<Rightarrow> ('w, 'a) dbact" where
  "fresh env k = bindA (ident_New env) (\<lambda>i. bindA (nowA env) (\<lambda>t. k i t))"

text \<open>The lookup of a reference: any error is reported as not found; and of the resource itself: only a missing row is.\<close>

definition orNotFound :: "string \<Rightarrow> string \<Rightarrow> ('w, 'a) dbact \<Rightarrow> ('w, 'a) dbact" where
  "orNotFound resource i m = onErr (\<lambda>_. NotFound resource i) m"

definition mapNotFound :: "string \<Rightarrow> string \<Rightarrow> ('w, 'a) dbact \<Rightarrow> ('w, 'a) dbact" where
  "mapNotFound resource i m = onErr (notFoundAs resource i) m"

section \<open>Callers and tokens\<close>

definition whoami :: "'w handler" where
  "whoami r p = (case p of None \<Rightarrow> failA (Unauthorized ''no principal'') | Some q \<Rightarrow> returnA (200, RPrincipal (pr_Name q) (pr_Role q)))"

definition listTokens :: "'w env \<Rightarrow> 'w handler" where
  "listTokens env r p = ensure (role_in CanManageTokens p) (Forbidden ''only administrator or operator can list tokens'')
     (reply_list (ListTokens env) RTokens)"

definition revokeToken :: "'w env \<Rightarrow> 'w handler" where
  "revokeToken env r p = ensure (role_in CanManageTokens p) (Forbidden ''only administrator or operator can revoke tokens'')
     (bindA (mapNotFound ''token'' (hr_ID r) (audit_failure env p ''revoke'' ''token'' (hr_ID r) (RevokeToken env (hr_ID r)))) (\<lambda>_.
        done_audit env p ''revoke'' ''token'' (hr_ID r) [] 204 RNoContent))"

definition createToken :: "'w env \<Rightarrow> 'w api \<Rightarrow> 'w handler" where
  "createToken env a r p = ensure (role_in CanManageTokens p) (Forbidden ''only administrator or operator can mint tokens'')
     (bindA (decodeJSON (j_token (api_json a)) r) (\<lambda>(name, role0).
      bindA (liftE (ParseRole role0)) (\<lambda>role.
      ensure (TrimSpace name \<noteq> []) (Validation ''name is required'')
     (bindA (audit_failure env p ''create'' ''token'' [] (auth_CreateToken env (api_auth a) (TrimSpace name) role)) (\<lambda>(plain, tok).
        done_audit env p ''create'' ''token'' (tk_ID tok) role 201
          (RTokenCreated (tk_ID tok) (tk_Name tok) (tk_Role tok) plain (tk_CreatedAt tok)))))))"

section \<open>Nodes\<close>

definition createNode :: "'w env \<Rightarrow> 'w api \<Rightarrow> 'w handler" where
  "createNode env a r p =
     bindA (decodeJSON (j_node (api_json a)) r) (\<lambda>n0.
     validated Node_Validate Node_Normalize n0 (\<lambda>n1.
     fresh env (\<lambda>i t. let n = n1\<lparr>n_ID := i, n_CreatedAt := t, n_UpdatedAt := t\<rparr>
       in bindA (audit_failure env p ''create'' ''node'' i (CreateNode env n)) (\<lambda>_.
            done_audit env p ''create'' ''node'' i (n_Name n) 201 (RNode n)))))"

definition listNodes :: "'w env \<Rightarrow> 'w handler" where
  "listNodes env r p = reply_list (ListNodes env) RNodes"

definition getNode :: "'w env \<Rightarrow> 'w handler" where
  "getNode env r p = reply_list (mapNotFound ''node'' (hr_ID r) (GetNode env (hr_ID r))) RNode"

section \<open>Backends\<close>

definition default_node :: "'w env \<Rightarrow> http_request \<Rightarrow> ident \<Rightarrow> ('w, ident) dbact" where
  "default_node env r i =
     (let name = rq_Query (hr_Req r) ''node''
      in if i = [] \<and> name \<noteq> [] then bindA (orNotFound ''node'' name (GetNodeByName env name)) (\<lambda>n. returnA (n_ID n))
         else returnA i)"

definition createBackend :: "'w env \<Rightarrow> 'w api \<Rightarrow> 'w handler" where
  "createBackend env a r p =
     bindA (decodeJSON (j_backend (api_json a)) r) (\<lambda>b0.
     bindA (default_node env r (b_NodeID b0)) (\<lambda>nid.
     validated Backend_Validate Backend_Normalize (b0\<lparr>b_NodeID := nid\<rparr>) (\<lambda>b1.
     bindA (orNotFound ''node'' (b_NodeID b1) (GetNode env (b_NodeID b1))) (\<lambda>_.
     fresh env (\<lambda>i t. let b = b1\<lparr>b_ID := i, b_CreatedAt := t, b_UpdatedAt := t\<rparr>
       in bindA (audit_failure env p ''create'' ''backend'' i (CreateBackend env b)) (\<lambda>_.
            done_audit env p ''create'' ''backend'' i (b_Name b) 201 (RBackend b)))))))"

definition listBackends :: "'w env \<Rightarrow> 'w handler" where
  "listBackends env r p = reply_list (ListBackends env) RBackends"

definition getBackend :: "'w env \<Rightarrow> 'w handler" where
  "getBackend env r p = reply_list (mapNotFound ''backend'' (hr_ID r) (GetBackend env (hr_ID r))) RBackend"

text \<open>The update of a row that vanished meanwhile is not audited.\<close>

definition update_failure :: "'w env \<Rightarrow> principal option \<Rightarrow> string \<Rightarrow> string \<Rightarrow> ('w, 'a) dbact \<Rightarrow> ('w, 'a) dbact" where
  "update_failure env p resource rid m = (\<lambda>s. case m s of
     (Inl e, s') \<Rightarrow> if IsNotFound e then (Inl (NotFound resource rid), s')
                    else bindA (audit env p ''update'' resource rid (err_text e) False) (\<lambda>_. failA e) s'
   | (Inr x, s') \<Rightarrow> (Inr x, s'))"

definition or_existing :: "string \<Rightarrow> string \<Rightarrow> string" where
  "or_existing new old = (if new = [] then old else new)"

definition patchBackend :: "'w env \<Rightarrow> 'w api \<Rightarrow> 'w handler" where
  "patchBackend env a r p =
     bindA (mapNotFound ''backend'' (hr_ID r) (GetBackend env (hr_ID r))) (\<lambda>old.
     bindA (decodeJSON (j_backend (api_json a)) r) (\<lambda>b0.
     validated Backend_Validate Backend_Normalize
       (b0\<lparr>b_ID := b_ID old, b_CreatedAt := b_CreatedAt old, b_Name := or_existing (b_Name b0) (b_Name old),
          b_NodeID := or_existing (b_NodeID b0) (b_NodeID old), b_Address := or_existing (b_Address b0) (b_Address old)\<rparr>) (\<lambda>b1.
     bindA (orNotFound ''node'' (b_NodeID b1) (GetNode env (b_NodeID b1))) (\<lambda>_.
     bindA (nowA env) (\<lambda>t. let b = b1\<lparr>b_UpdatedAt := t\<rparr>
       in bindA (update_failure env p ''backend'' (hr_ID r) (UpdateBackend env b)) (\<lambda>_.
            done_audit env p ''update'' ''backend'' (b_ID b) (b_Name b) 200 (RBackend b)))))))"

section \<open>Mappings\<close>

definition resolveMappingRefs :: "'w env \<Rightarrow> http_request \<Rightarrow> port_mapping \<Rightarrow> ('w, port_mapping) dbact" where
  "resolveMappingRefs env r m =
     bindA (default_node env r (m_NodeID m)) (\<lambda>nid.
     let name = rq_Query (hr_Req r) ''backend''
     in if m_BackendID m = [] \<and> name \<noteq> [] then
          bindA (orNotFound ''backend'' name (GetBackendByName env name)) (\<lambda>b.
            returnA (m\<lparr>m_NodeID := or_existing nid (b_NodeID b), m_BackendID := b_ID b\<rparr>))
        else returnA (m\<lparr>m_NodeID := nid\<rparr>))"

definition createMapping :: "'w env \<Rightarrow> 'w api \<Rightarrow> 'w handler" where
  "createMapping env a r p =
     bindA (decodeJSON (j_mapping (api_json a)) r) (\<lambda>m0.
     bindA (resolveMappingRefs env r m0) (\<lambda>m1.
     validated PortMapping_Validate PortMapping_Normalize m1 (\<lambda>m2.
     fresh env (\<lambda>i t. let m = m2\<lparr>m_ID := i, m_CreatedAt := t, m_UpdatedAt := t\<rparr>
       in bindA (audit_failure env p ''create'' ''mapping'' i (CreateMapping env m)) (\<lambda>_.
            done_audit env p ''create'' ''mapping'' i [] 201 (RMapping (m\<lparr>m_Enabled := True\<rparr>)))))))"

definition listMappings :: "'w env \<Rightarrow> 'w handler" where
  "listMappings env r p = reply_list (ListMappings env) RMappings"

definition deleteMapping :: "'w env \<Rightarrow> 'w handler" where
  "deleteMapping env r p = bindA (mapNotFound ''mapping'' (hr_ID r) (DeleteMapping env (hr_ID r))) (\<lambda>_.
     done_audit env p ''delete'' ''mapping'' (hr_ID r) [] 204 RNoContent)"

definition or_given :: "string option \<Rightarrow> string \<Rightarrow> string" where
  "or_given new old = (case new of Some v \<Rightarrow> or_existing v old | None \<Rightarrow> old)"

definition patch_backend_ref :: "'w env \<Rightarrow> mapping_patch \<Rightarrow> port_mapping \<Rightarrow> ('w, port_mapping) dbact" where
  "patch_backend_ref env q m = (case mp_Backend q of None \<Rightarrow> returnA m | Some v \<Rightarrow>
     if TrimSpace v = [] then returnA m
     else bindA (orNotFound ''backend'' (TrimSpace v) (GetBackendByName env (ToLower (TrimSpace v)))) (\<lambda>b.
       returnA (m\<lparr>m_BackendID := b_ID b, m_NodeID := or_existing (m_NodeID m) (b_NodeID b)\<rparr>)))"

definition patch_ports :: "mapping_patch \<Rightarrow> port_mapping \<Rightarrow> port_mapping" where
  "patch_ports q m = m\<lparr>m_Protocol := case_option (m_Protocol m) id (mp_Protocol q),
     m_PublicPort := case_option (m_PublicPort m) id (mp_PublicPort q),
     m_BackendPort := case_option (m_BackendPort m) id (mp_BackendPort q),
     m_Enabled := case_option (m_Enabled m) id (mp_Enabled q)\<rparr>"

definition patchMapping :: "'w env \<Rightarrow> 'w api \<Rightarrow> 'w handler" where
  "patchMapping env a r p =
     bindA (mapNotFound ''mapping'' (hr_ID r) (GetMapping env (hr_ID r))) (\<lambda>old.
     bindA (decodeJSON (j_mapping_patch (api_json a)) r) (\<lambda>q.
     ensure (\<not> MappingPatch_Empty q) (Validation ''at least one mapping field is required'')
    (bindA (patch_backend_ref env q (old\<lparr>m_NodeID := or_given (mp_NodeID q) (m_NodeID old),
              m_BackendID := or_given (mp_BackendID q) (m_BackendID old)\<rparr>)) (\<lambda>m0.
     bindA (resolveMappingRefs env r (patch_ports q m0)) (\<lambda>m1.
     validated PortMapping_Validate PortMapping_Normalize m1 (\<lambda>m2.
     bindA (nowA env) (\<lambda>t. let m = m2\<lparr>m_UpdatedAt := t\<rparr>
       in bindA (update_failure env p ''mapping'' (hr_ID r) (UpdateMapping env m)) (\<lambda>_.
            done_audit env p ''update'' ''mapping'' (m_ID m) [] 200 (RMapping m)))))))))"

section \<open>Tunnels\<close>

definition createTunnel :: "'w env \<Rightarrow> 'w api \<Rightarrow> 'w handler" where
  "createTunnel env a r p =
     bindA (decodeJSON (j_tunnel (api_json a)) r) (\<lambda>t0.
     validated Tunnel_Validate Tunnel_Normalize t0 (\<lambda>t1.
     bindA (orNotFound ''node'' (t_NodeID t1) (GetNode env (t_NodeID t1))) (\<lambda>_.
     bindA (orNotFound ''backend'' (t_BackendID t1) (GetBackend env (t_BackendID t1))) (\<lambda>_.
     fresh env (\<lambda>i now. let t = t1\<lparr>t_ID := i, t_CreatedAt := now, t_UpdatedAt := now\<rparr>
       in bindA (audit_failure env p ''create'' ''tunnel'' i (CreateTunnel env t)) (\<lambda>_.
            done_audit env p ''create'' ''tunnel'' i (t_Type t) 201 (RTunnel t)))))))"

definition listTunnels :: "'w env \<Rightarrow> 'w handler" where
  "listTunnels env r p = reply_list (ListTunnels env) RTunnels"

definition status_of :: "tunnel \<Rightarrow> tunnel_actual list \<Rightarrow> tunnel_status" where
  "status_of t acts = (case find (\<lambda>x. a_TunnelID x = t_ID t \<or> a_InterfaceName x = t_InterfaceName t) acts of
       None \<Rightarrow> \<lparr>tst_Tunnel = t, tst_Actual = None, tst_Healthy = False, tst_Detail = ''no actual-state reported yet''\<rparr>
     | Some x \<Rightarrow> let ok = a_InterfacePresent x \<and> (t_Type t \<noteq> TunnelWireGuard \<or> a_HandshakeAgeSec x < 180)
         in \<lparr>tst_Tunnel = t, tst_Actual = Some x, tst_Healthy = ok,
             tst_Detail = (if ok then ''interface present'' else ''interface missing or handshake stale'')\<rparr>)"

text \<open>\<open>optionally m\<close>: the result of a call whose error is ignored.\<close>

definition optionally :: "('w, 'a) dbact \<Rightarrow> ('w, 'a option) dbact" where
  "optionally m = (\<lambda>s. case m s of (Inl _, s') \<Rightarrow> (Inr None, s') | (Inr x, s') \<Rightarrow> (Inr (Some x), s'))"

definition tunnelStatus :: "'w env \<Rightarrow> 'w handler" where
  "tunnelStatus env r p =
     bindA (mapNotFound ''tunnel'' (hr_ID r) (GetTunnel env (hr_ID r))) (\<lambda>t.
     bindA (optionally (GetActualState env (t_NodeID t))) (\<lambda>row.
       returnA (200, RTunnelStatus (status_of t (case row of None \<Rightarrow> [] | Some x \<Rightarrow> as_Tunnels (snd x))))))"

section \<open>SNI routes\<close>

definition resolve_match :: "'w env \<Rightarrow> sni_match \<Rightarrow> sni_match list \<Rightarrow> ('w, sni_match list) dbact" where
  "resolve_match env m acc =
     (if sm_BackendID m \<noteq> [] \<or> sm_Backend m = [] then returnA (acc @ [m])
      else bindA (orNotFound ''backend'' (sm_Backend m) (GetBackendByName env (sm_Backend m))) (\<lambda>b.
        returnA (acc @ [m\<lparr>sm_BackendID := b_ID b\<rparr>])))"

definition resolveSniBackends :: "'w env \<Rightarrow> sni_route \<Rightarrow> ('w, sni_route) dbact" where
  "resolveSniBackends env x = bindA (forA (resolve_match env) (r_Matches x) []) (\<lambda>ms. returnA (x\<lparr>r_Matches := ms\<rparr>))"

definition createSni :: "'w env \<Rightarrow> 'w api \<Rightarrow> 'w handler" where
  "createSni env a r p =
     bindA (decodeJSON (j_sni (api_json a)) r) (\<lambda>x0.
     bindA (resolveSniBackends env x0) (\<lambda>x1.
     validated SniRoute_Validate SniRoute_Normalize x1 (\<lambda>x2.
     fresh env (\<lambda>i t. let x = x2\<lparr>r_ID := i, r_CreatedAt := t, r_UpdatedAt := t\<rparr>
       in bindA (CreateSniRoute env x) (\<lambda>_. done_audit env p ''create'' ''sni_route'' i (r_Listen x) 201 (RSni x))))))"

definition listSni :: "'w env \<Rightarrow> 'w handler" where
  "listSni env r p = reply_list (ListSniRoutes env) RSnis"

definition getSni :: "'w env \<Rightarrow> 'w handler" where
  "getSni env r p = reply_list (mapNotFound ''sni_route'' (hr_ID r) (GetSniRoute env (hr_ID r))) RSni"

text \<open>The decoder of a patch tells whether \<open>matches\<close> was given.\<close>

definition patchSni :: "'w env \<Rightarrow> 'w api \<Rightarrow> 'w handler" where
  "patchSni env a r p =
     bindA (mapNotFound ''sni_route'' (hr_ID r) (GetSniRoute env (hr_ID r))) (\<lambda>old.
     bindA (decodeJSON (j_sni_patch (api_json a)) r) (\<lambda>(x0, given).
     bindA (resolveSniBackends env (x0\<lparr>r_ID := r_ID old, r_CreatedAt := r_CreatedAt old,
       r_NodeID := or_existing (r_NodeID x0) (r_NodeID old), r_Listen := or_existing (r_Listen x0) (r_Listen old),
       r_Matches := (if given then r_Matches x0 else r_Matches old)\<rparr>)) (\<lambda>x1.
     validated SniRoute_Validate SniRoute_Normalize x1 (\<lambda>x2.
     bindA (nowA env) (\<lambda>t. let x = x2\<lparr>r_UpdatedAt := t\<rparr>
       in bindA (UpdateSniRoute env x) (\<lambda>_. done_audit env p ''update'' ''sni_route'' (r_ID x) (r_Listen x) 200 (RSni x)))))))"

section \<open>Desired and actual state\<close>

definition desiredState :: "'w env \<Rightarrow> 'w handler" where
  "desiredState env r p = reply_list (mapNotFound ''node'' (hr_ID r) (DesiredState env (hr_ID r))) RDesired"

definition putActualState :: "'w env \<Rightarrow> 'w api \<Rightarrow> 'w handler" where
  "putActualState env a r p =
     bindA (orNotFound ''node'' (hr_ID r) (GetNode env (hr_ID r))) (\<lambda>_.
     bindA (decodeJSON (j_actual (api_json a)) r) (\<lambda>st0.
     bindA (nowRFC3339 env (as_DiscoveredAt st0)) (\<lambda>t.
     let st = st0\<lparr>as_NodeID := hr_ID r, as_DiscoveredAt := t\<rparr>
     in bindA (nowA env) (\<lambda>now.
        bindA (PutActualState env (hr_ID r) st
          \<lparr>ag_NodeID = hr_ID r, ag_Healthy = (as_Conflicts st = []), ag_LastReconcile = t, ag_LastHeartbeat = now,
           ag_Version = rq_Header (hr_Req r) ''X-TransitForge-Agent-Version'', ag_TransportStates = []\<rparr>) (\<lambda>_.
        returnA (202, RStatus ''recorded''))))))"

definition getActualState :: "'w env \<Rightarrow> 'w handler" where
  "getActualState env r p =
     bindA (orNotFound ''node'' (hr_ID r) (GetNode env (hr_ID r))) (\<lambda>_ s.
       case GetActualState env (hr_ID r) s of
         (Inl e, s') \<Rightarrow> if IsNotFound e then (Inr (200, RActual None), s') else (Inl e, s')
       | (Inr row, s') \<Rightarrow> (Inr (200, RActual (Some row)), s'))"

definition no_actual :: "ident \<Rightarrow> actual_state" where
  "no_actual n = \<lparr>as_NodeID = n, as_Tunnels = [], as_FirewallRules = [], as_HaproxyDigest = [], as_SniRoutes = [],
     as_TransportStates = [], as_Conflicts = [], as_DiscoveredAt = 0\<rparr>"

definition computePlan :: "'w env \<Rightarrow> ident \<Rightarrow> ('w, plan) dbact" where
  "computePlan env n =
     bindA (DesiredState env n) (\<lambda>ds.
     bindA (optionally (GetActualState env n)) (\<lambda>row.
       returnA (Diff ds (case row of None \<Rightarrow> no_actual n | Some x \<Rightarrow> snd x))))"

definition getPlan :: "'w env \<Rightarrow> 'w handler" where
  "getPlan env r p = reply_list (mapNotFound ''node'' (hr_ID r) (computePlan env (hr_ID r))) (\<lambda>plan. RPlan (Plan_String plan))"

definition optional_body :: "(string \<Rightarrow> string + 'a) \<Rightarrow> 'a \<Rightarrow> http_request \<Rightarrow> ('w, 'a) dbact" where
  "optional_body dec dflt r = (if hr_ContentLength r \<noteq> 0 then decodeJSON dec r else returnA dflt)"

definition apply_answer :: "bool \<Rightarrow> plan \<Rightarrow> apply_result" where
  "apply_answer dryRun plan = \<lparr>ar_DryRun = True, ar_Applied = False, ar_Plan = Plan_String plan,
     ar_Message = (if Plan_Empty plan then ''NO CHANGES'' else if dryRun then []
                   else ''live apply is not enabled on this controller; returning dry-run plan only'')\<rparr>"

definition apply_plan :: "'w env \<Rightarrow> 'w api \<Rightarrow> 'w handler" where
  "apply_plan env a r p =
     bindA (optional_body (j_apply (api_json a)) False r) (\<lambda>dryRun.
     bindA (mapNotFound ''node'' (hr_ID r) (computePlan env (hr_ID r))) (\<lambda>plan.
     if HasConflicts plan then
       bindA (audit env p ''apply'' ''node'' (hr_ID r) (Plan_String plan) False) (\<lambda>_. failA (ErrConflict (Plan_String plan)))
     else if dryRun \<or> \<not> api_LiveApply a then
       done_audit env p ''apply-dry-run'' ''node'' (hr_ID r) (Plan_String plan) 200 (RApply (apply_answer dryRun plan))
     else failA (NotImplemented ''controller-side live apply is agent-driven; use the edge agent'')))"

definition intent_backend :: "'w env \<Rightarrow> string \<Rightarrow> string \<Rightarrow> ('w, ident) dbact" where
  "intent_backend env bid name =
     (if bid \<noteq> [] then returnA bid
      else if name \<noteq> [] then bindA (orNotFound ''backend'' name (GetBackendByName env name)) (\<lambda>b. returnA (b_ID b))
      else failA (Validation ''backend or backend_id is required''))"

definition failback :: "'w env \<Rightarrow> 'w api \<Rightarrow> 'w handler" where
  "failback env a r p =
     bindA (orNotFound ''node'' (hr_ID r) (GetNode env (hr_ID r))) (\<lambda>_.
     ensure (api_Failback a) (NotImplemented ''failback state machine is not enabled yet'')
    (bindA (optional_body (j_failback (api_json a)) ([], [], []) r) (\<lambda>(bid0, name, action0).
     let action = or_existing action0 ''fail_forward''
     in ensure (action = ''fail_forward'') (Validation ''action must be fail_forward'')
    (bindA (intent_backend env bid0 name) (\<lambda>bid.
     bindA (orNotFound ''backend'' bid (GetBackend env bid)) (\<lambda>_.
     fresh env (\<lambda>i t. let x = \<lparr>fi_ID = i, fi_NodeID = hr_ID r, fi_BackendID = bid, fi_Action = action, fi_CreatedAt = t\<rparr>
       in bindA (CreateFailbackIntent env x) (\<lambda>_.
            done_audit env p ''failback'' ''node'' (hr_ID r) action 202 (RIntent x)))))))))"

end
