(* ===== verification/Views.thy ===== *)
theory Views
  imports ApiHandlers
begin

text \<open>
  What the web interface shows (src/internal/webui: plan.go, errors.go, views.go, the helpers of render.go
  and locale.go, and i18n/catalog.go): plans line by line, errors without secrets, node and tunnel rows, the
  text form of SNI matches, event rows. The HTML templates, the two message catalogs and \<open>time.Format\<close> are
  parameters: \<open>cat\<close> looks a key up in the catalog of a locale. Folding of case is that of ASCII letters.
\<close>

section \<open>Languages\<close>

definition i18n_Normalize :: "string \<Rightarrow> string" where
  "i18n_Normalize s0 = (let s = ToLower (TrimSpace s0)
     in if s = ''ru'' \<or> HasPrefix s ''ru-'' \<or> HasPrefix s ''ru_'' then ''ru'' else ''en'')"

fun from_tags :: "string list \<Rightarrow> string" where
  "from_tags [] = ''en''"
| "from_tags (part # rest) =
     (let tag = TrimSpace (hd (Split part (CHR '';'')))
      in if tag = ''ru'' \<or> HasPrefix tag ''ru-'' then ''ru''
         else if tag = ''en'' \<or> HasPrefix tag ''en-'' then ''en''
         else from_tags rest)"

definition FromAcceptLanguage :: "string \<Rightarrow> string" where
  "FromAcceptLanguage h = from_tags (Split (ToLower h) (CHR '',''))"

type_synonym catalogs = "string \<Rightarrow> string \<Rightarrow> string option"

definition translate :: "catalogs \<Rightarrow> string \<Rightarrow> string \<Rightarrow> string" where
  "translate cat locale key =
     (if key = [] then []
      else case cat (i18n_Normalize locale) key of
        Some (c # v) \<Rightarrow> c # v
      | _ \<Rightarrow> (case cat ''en'' key of Some (c # v) \<Rightarrow> c # v | _ \<Rightarrow> key))"

definition firstNonEmpty :: "string list \<Rightarrow> string" where
  "firstNonEmpty vals = (case filter (\<lambda>v. TrimSpace v \<noteq> []) vals of [] \<Rightarrow> [] | v # _ \<Rightarrow> TrimSpace v)"

section \<open>Plans\<close>

text \<open>\<open>strings.ReplaceAll\<close> of a text that is not empty.\<close>

function ReplaceAll :: "string \<Rightarrow> string \<Rightarrow> string \<Rightarrow> string" where
  "ReplaceAll s old new =
     (if old = [] then s
      else case Index s old of
             None \<Rightarrow> s
           | Some i \<Rightarrow> take i s @ new @ ReplaceAll (drop (i + length old) s) old new)"
  by pat_completeness auto

termination ReplaceAll
  by (relation "measure (\<lambda>(s, old, new). length s)") (auto simp: Index_drop_less)

declare ReplaceAll.simps [simp del]

definition EqualFold :: "string \<Rightarrow> string \<Rightarrow> bool" where
  "EqualFold s t \<longleftrightarrow> ToLower s = ToLower t"

record plan_line =
  pln_Kind :: string
  pln_Text :: string

record plan_view =
  pv_NoChanges :: bool
  pv_Lines :: "plan_line list"
  pv_Notice :: string
  pv_Error :: string
  pv_ErrorKind :: string

definition empty_view :: plan_view where
  "empty_view = \<lparr>pv_NoChanges = False, pv_Lines = [], pv_Notice = [], pv_Error = [], pv_ErrorKind = []\<rparr>"

definition planLineKind :: "string \<Rightarrow> string" where
  "planLineKind line =
     (let s = TrimSpace line
      in if HasPrefix s ''ADD:'' then ''add''
         else if HasPrefix s ''CHANGE:'' then ''change''
         else if HasPrefix s ''DELETE:'' then ''delete''
         else if HasPrefix s ''CONFLICT:'' then ''conflict''
         else if EqualFold s ''NO CHANGES'' then ''none''
         else ''text'')"

definition plan_lines :: "string \<Rightarrow> plan_line list" where
  "plan_lines raw = map (\<lambda>l. \<lparr>pln_Kind = planLineKind l, pln_Text = l\<rparr>)
     (dropWhile (\<lambda>l. TrimSpace l = []) (Split raw (CHR 0x0A)))"

definition buildPlanView :: "string \<Rightarrow> plan_view" where
  "buildPlanView raw0 =
     (let raw = ReplaceAll raw0 [CHR 0x0D, CHR 0x0A] [CHR 0x0A];
          trimmed = TrimSpace raw
      in if trimmed = [] \<or> EqualFold trimmed ''NO CHANGES'' \<or> HasPrefix (ToUpper trimmed) ''NO CHANGES''
         then empty_view\<lparr>pv_NoChanges := True\<rparr>
         else if plan_lines raw = [] then empty_view\<lparr>pv_NoChanges := True\<rparr>
         else empty_view\<lparr>pv_Lines := plan_lines raw\<rparr>)"

definition planViewFromApply :: "apply_result option \<Rightarrow> plan_view" where
  "planViewFromApply res = (case res of None \<Rightarrow> empty_view\<lparr>pv_NoChanges := True\<rparr>
     | Some r \<Rightarrow> buildPlanView (if TrimSpace (ar_Plan r) = [] then ar_Message r else ar_Plan r))"

section \<open>Errors\<close>

record alert_view =
  al_Kind :: string
  al_Title :: string
  al_Message :: string
  al_TitleKey :: string
  al_MessageKey :: string

definition ellipsis :: string where "ellipsis = [CHR 0xE2, CHR 0x80, CHR 0xA6]"
definition dash :: string where "dash = [CHR 0xE2, CHR 0x80, CHR 0x94]"

definition secret_words :: "string list" where
  "secret_words = [''token'', ''bearer'', ''private'', ''secret'', ''hmac'']"

definition mentions_secret :: "string \<Rightarrow> bool" where
  "mentions_secret low \<longleftrightarrow> list_ex (Contains low) secret_words"

definition safeOperatorMessage :: "string \<Rightarrow> string" where
  "safeOperatorMessage msg0 =
     (let msg = Redact msg0; low = ToLower msg
      in if mentions_secret low then ''request failed''
         else if Contains msg (CHR 0x0A # ''panic'') \<or> Contains low ''goroutine'' \<or> Contains low ''stack''
         then ''The controller could not complete this request.''
         else if length msg > 800 then TrimSpace (take 800 msg) @ ellipsis
         else TrimSpace msg)"

definition safeEventDetail :: "string \<Rightarrow> string" where
  "safeEventDetail detail0 =
     (let detail = Redact detail0
      in if mentions_secret (ToLower detail) then []
         else let d = TrimSpace detail in if length d > 240 then take 240 d @ ellipsis else d)"

definition alert :: "string \<Rightarrow> string \<Rightarrow> string \<Rightarrow> string \<Rightarrow> alert_view" where
  "alert kind title key msg = \<lparr>al_Kind = kind, al_Title = [], al_Message = msg, al_TitleKey = title, al_MessageKey = key\<rparr>"

definition coded_alert :: "string \<Rightarrow> string \<Rightarrow> int \<times> alert_view" where
  "coded_alert code msg =
     (if code = ''UNAUTHORIZED'' then (401, alert ''unauthorized'' ''error.session_title'' ''error.session_expired'' [])
      else if code = ''FORBIDDEN'' then (403, alert ''forbidden'' ''error.not_allowed_title'' ''error.not_allowed'' msg)
      else if code = ''NOT_FOUND'' then (404, alert ''notfound'' ''error.not_found_title'' ''error.not_found'' msg)
      else if code = ''CONFLICT'' then (409, alert ''conflict'' ''error.conflict_title'' ''error.conflict'' msg)
      else if code = ''VALIDATION'' then (400, alert ''validation'' ''error.invalid_title'' ''error.invalid'' msg)
      else if code = ''UNAVAILABLE'' then (503, alert ''unavailable'' ''error.unavailable_title'' ''error.unavailable'' msg)
      else if code = ''NOT_IMPLEMENTED'' then (501, alert ''unavailable'' ''error.not_implemented_title'' ''error.not_implemented'' msg)
      else if code = ''RATE_LIMIT'' then (429, alert ''warning'' ''error.rate_title'' ''error.rate_limit'' msg)
      else (500, alert ''internal'' ''error.controller_title'' ''error.controller'' []))"

definition text_alert :: "string \<Rightarrow> int \<times> alert_view" where
  "text_alert text =
     (let low = ToLower text
      in if Contains low ''unauthorized'' \<or> Contains low ''unauthorised''
         then (401, alert ''unauthorized'' ''error.session_title'' ''error.session_expired'' [])
         else if Contains low ''forbidden'' then (403, alert ''forbidden'' ''error.not_allowed_title'' ''error.not_allowed'' [])
         else if Contains low ''not found'' then (404, alert ''notfound'' ''error.not_found_title'' ''error.not_found'' [])
         else if Contains low ''conflict''
         then (409, alert ''conflict'' ''error.conflict_title'' ''error.conflict'' (safeOperatorMessage text))
         else if Contains low ''validat''
         then (400, alert ''validation'' ''error.invalid_title'' ''error.invalid'' (safeOperatorMessage text))
         else if Contains low ''connection refused'' \<or> Contains low ''timeout'' \<or> Contains low ''unavailable''
         then (502, alert ''unavailable'' ''error.api_title'' ''error.api_unavailable'' [])
         else (502, alert ''unavailable'' ''error.api_title'' ''error.api_failed'' []))"

definition classifyUIError :: "goerr option \<Rightarrow> int \<times> alert_view" where
  "classifyUIError oe = (case oe of
     None \<Rightarrow> (500, alert ''internal'' ''error.controller_title'' ''error.controller'' [])
   | Some err \<Rightarrow> (case find_coded err of
       Some ce \<Rightarrow> coded_alert (ce_Code ce) (safeOperatorMessage (ce_Message ce))
     | None \<Rightarrow> text_alert (err_text err)))"

definition resolve :: "catalogs \<Rightarrow> string \<Rightarrow> alert_view \<Rightarrow> alert_view" where
  "resolve cat locale a =
     a\<lparr>al_Title := (if al_Title a = [] \<and> al_TitleKey a \<noteq> [] then translate cat locale (al_TitleKey a) else al_Title a),
       al_Message := (if al_Message a = [] \<and> al_MessageKey a \<noteq> [] then translate cat locale (al_MessageKey a) else al_Message a)\<rparr>"

definition apiErr :: "catalogs \<Rightarrow> goerr option \<Rightarrow> string" where
  "apiErr cat err = al_Message (resolve cat ''en'' (snd (classifyUIError err)))"

definition planViewFromError :: "catalogs \<Rightarrow> goerr \<Rightarrow> plan_view" where
  "planViewFromError cat err =
     (let a = resolve cat ''en'' (snd (classifyUIError (Some err)));
          view = empty_view\<lparr>pv_Error := al_Message a, pv_ErrorKind := al_Kind a\<rparr>
      in case find_coded err of
           None \<Rightarrow> view
         | Some ce \<Rightarrow>
             if ce_Code ce \<noteq> ''CONFLICT'' \<or> TrimSpace (ce_Message ce) = [] then view
             else let lines = buildPlanView (ce_Message ce)
                  in if pv_NoChanges lines then view\<lparr>pv_Error := safeOperatorMessage (ce_Message ce), pv_ErrorKind := ''conflict''\<rparr>
                     else lines\<lparr>pv_Error := ''The controller reported a conflict.'', pv_ErrorKind := ''conflict''\<rparr>)"

section \<open>Small texts\<close>

definition statusKey :: "string \<Rightarrow> string" where
  "statusKey status =
     (if TrimSpace status = ''unhealthy'' then ''status.unreachable''
      else if TrimSpace status = [] then ''status.unknown''
      else ''status.'' @ status)"

definition fmtBytes :: "nat \<Rightarrow> string" where
  "fmtBytes n =
     (if n \<ge> 1024 * 1024 * 1024 then nat_digits (n div (1024 * 1024 * 1024)) @ '' GiB''
      else if n \<ge> 1024 * 1024 then nat_digits (n div (1024 * 1024)) @ '' MiB''
      else if n \<ge> 1024 then nat_digits (n div 1024) @ '' KiB''
      else nat_digits n @ '' B'')"

definition fmtHandshake :: "int \<Rightarrow> string" where
  "fmtHandshake sec =
     (if sec \<le> 0 then dash
      else if sec < 60 then Itoa sec @ ''s''
      else if sec < 3600 then Itoa (sec div 60) @ ''m''
      else Itoa (sec div 3600) @ ''h'')"

text \<open>\<open>fmt locale key n\<close> is \<open>i18n.Format\<close>, the message of the catalog with the number filled in. The floats of
  \<open>Duration.Hours\<close> are read as exact quotients.\<close>

definition relTime :: "catalogs \<Rightarrow> (string \<Rightarrow> string \<Rightarrow> int \<Rightarrow> string) \<Rightarrow> gotime \<Rightarrow> gotime \<Rightarrow> string \<Rightarrow> string" where
  "relTime cat fmt now t locale =
     (if t = 0 then dash
      else let d = \<bar>now - t\<bar>
           in if d < Second then translate cat locale ''time.just_now''
              else if d < Minute then fmt locale ''time.seconds_ago'' (d div Second)
              else if d < 60 * Minute then fmt locale ''time.minutes_ago'' (d div Minute)
              else if d < 24 * (60 * Minute) then fmt locale ''time.hours_ago'' (d div (60 * Minute))
              else fmt locale ''time.days_ago'' (d div (24 * (60 * Minute))))"

section \<open>Names\<close>

record catalog =
  ca_nodes :: "ident \<rightharpoonup> node"
  ca_backends :: "ident \<rightharpoonup> backend"

definition newCatalog :: "node list \<Rightarrow> backend list \<Rightarrow> catalog" where
  "newCatalog nodes backends = \<lparr>ca_nodes = index_by n_ID nodes, ca_backends = index_by b_ID backends\<rparr>"

definition NodeName :: "catalog \<Rightarrow> ident \<Rightarrow> string" where
  "NodeName c i = (case ca_nodes c i of Some n \<Rightarrow> n_Name n | None \<Rightarrow> if i = [] then dash else i)"

definition BackendName :: "catalog \<Rightarrow> ident \<Rightarrow> string" where
  "BackendName c i = (case ca_backends c i of Some b \<Rightarrow> b_Name b | None \<Rightarrow> if i = [] then dash else i)"

section \<open>Nodes\<close>

record node_actual =
  na_Actual :: "actual_state option"
  na_Status :: "agent_status option"

record node_card =
  nc_ID :: string
  nc_Name :: string
  nc_PublicIP :: string
  nc_Status :: string
  nc_StatusClass :: string
  nc_Transport :: string
  nc_Handshake :: string
  nc_LastReconcile :: string
  nc_Heartbeat :: string
  nc_MappingCount :: int
  nc_MappingLabel :: string
  nc_AgentStatus :: string
  nc_AgentReported :: bool
  nc_Degraded :: bool
  nc_ReasonKey :: string

definition rank :: "transport_mode \<Rightarrow> nat" where
  "rank m = (case m of WGPrimary \<Rightarrow> 1 | SSHPrimary \<Rightarrow> 2 | FailbackInProgress \<Rightarrow> 3 | Degraded \<Rightarrow> 4 | _ \<Rightarrow> 0)"

definition pickTransport :: "transport_state list \<Rightarrow> string" where
  "pickTransport states = (case states of [] \<Rightarrow> dash
     | st # rest \<Rightarrow>
         let best = foldl (\<lambda>best st. if rank (ts_State st) > rank best then ts_State st else best) (ts_State st) rest
         in if mode_string best = [] then dash else mode_string best)"

definition isDegraded :: "string \<Rightarrow> bool" where
  "isDegraded transport \<longleftrightarrow> transport \<in> {mode_string Degraded, mode_string FailbackInProgress, mode_string SSHPrimary}"

definition staleHandshake :: "string \<Rightarrow> bool" where
  "staleHandshake s \<longleftrightarrow> s \<noteq> [] \<and> last s = CHR ''h''"

definition handshakeSummary :: "tunnel_actual list \<Rightarrow> string" where
  "handshakeSummary tunnels =
     (let m = foldl (\<lambda>m t. if a_HandshakeAgeSec t > m then a_HandshakeAgeSec t else m) (-1) tunnels
      in if m < 0 then dash else fmtHandshake m)"

text \<open>The five cases of the switch: status, class, agent, degraded, reason.\<close>

definition card_status :: "duration \<Rightarrow> bool \<Rightarrow> string \<Rightarrow> string \<Rightarrow> string \<times> string \<times> string \<times> bool \<times> string" where
  "card_status age healthy transport handshake =
     (if age > 45 * Second then (''unhealthy'', ''status-unhealthy'', ''unhealthy'', False, ''status.reason.heartbeat_stale'')
      else if \<not> healthy then (''unhealthy'', ''status-unhealthy'', ''unhealthy'', False, ''status.reason.agent_unhealthy'')
      else if isDegraded transport then (''degraded'', ''status-degraded'', ''healthy'', True, ''status.reason.transport_degraded'')
      else if staleHandshake handshake then (''warning'', ''status-warning'', ''healthy'', False, ''status.reason.handshake_stale'')
      else (''healthy'', ''status-healthy'', ''healthy'', False, ''status.reason.agent_healthy''))"

definition empty_card :: "node \<Rightarrow> nat \<Rightarrow> node_card" where
  "empty_card n k = \<lparr>nc_ID = n_ID n, nc_Name = n_Name n, nc_PublicIP = n_PublicIP n, nc_Status = ''unknown'', nc_StatusClass = ''status-unknown'',
     nc_Transport = dash, nc_Handshake = dash, nc_LastReconcile = dash, nc_Heartbeat = dash, nc_MappingCount = int k,
     nc_MappingLabel = Itoa (int k), nc_AgentStatus = ''unknown'', nc_AgentReported = False, nc_Degraded = False,
     nc_ReasonKey = ''status.reason.agent_not_reported''\<rparr>"

definition buildNodeCard :: "(gotime \<Rightarrow> string) \<Rightarrow> gotime \<Rightarrow> node \<Rightarrow> port_mapping list \<Rightarrow> node_actual option \<Rightarrow> node_card" where
  "buildNodeCard rel now n mappings runtime =
     (let card = empty_card n (length (filter (\<lambda>m. m_NodeID m = n_ID n \<and> m_Enabled m) mappings))
      in case Option.bind runtime na_Status of
           None \<Rightarrow> card
         | Some st \<Rightarrow>
             if ag_LastHeartbeat st = 0 then card
             else let t0 = pickTransport (ag_TransportStates st);
                      actual = Option.bind runtime na_Actual;
                      transport = (case actual of Some a \<Rightarrow> if t0 = dash then pickTransport (as_TransportStates a) else t0 | None \<Rightarrow> t0);
                      handshake = (case actual of Some a \<Rightarrow> handshakeSummary (as_Tunnels a) | None \<Rightarrow> dash)
                  in case card_status (now - ag_LastHeartbeat st) (ag_Healthy st) transport handshake of
                       (status, cls, agent, deg, reason) \<Rightarrow>
                         card\<lparr>nc_AgentReported := True, nc_Heartbeat := rel (ag_LastHeartbeat st),
                           nc_LastReconcile := (if ag_LastReconcile st = 0 then dash else rel (ag_LastReconcile st)),
                           nc_Transport := transport, nc_Handshake := handshake, nc_Status := status, nc_StatusClass := cls,
                           nc_AgentStatus := agent, nc_Degraded := deg, nc_ReasonKey := reason\<rparr>)"

definition off_wireguard :: "transport_state list \<Rightarrow> ident set" where
  "off_wireguard states = ts_BackendID ` {ts \<in> set states. ts_State ts \<in> {SSHPrimary, Degraded, FailbackInProgress}}"

definition failbackBackends :: "desired_state option \<Rightarrow> node_actual option \<Rightarrow> backend list" where
  "failbackBackends ds runtime = (case ds of None \<Rightarrow> []
     | Some d \<Rightarrow>
         let want = (case Option.bind runtime na_Actual of Some a \<Rightarrow> off_wireguard (as_TransportStates a) | None \<Rightarrow> {}) \<union>
                    (case Option.bind runtime na_Status of Some st \<Rightarrow> off_wireguard (ag_TransportStates st) | None \<Rightarrow> {})
         in filter (\<lambda>b. b_ID b \<in> want) (d_Backends d))"

section \<open>Tunnels\<close>

record tunnel_row =
  tr_ID :: string
  tr_Type :: string
  tr_Node :: string
  tr_Backend :: string
  tr_Interface :: string
  tr_Endpoint :: string
  tr_Handshake :: string
  tr_Rx :: string
  tr_Tx :: string
  tr_Priority :: int
  tr_Status :: string
  tr_StatusClass :: string
  tr_Healthy :: bool
  tr_KeyPath :: string
  tr_ReasonKey :: string

definition buildTunnelRow :: "tunnel \<Rightarrow> catalog \<Rightarrow> tunnel_actual option \<Rightarrow> tunnel_row" where
  "buildTunnelRow t cat actual =
     (let row = \<lparr>tr_ID = t_ID t, tr_Type = t_Type t, tr_Node = NodeName cat (t_NodeID t), tr_Backend = BackendName cat (t_BackendID t),
            tr_Interface = t_InterfaceName t, tr_Endpoint = t_Endpoint t, tr_Handshake = dash, tr_Rx = dash, tr_Tx = dash,
            tr_Priority = t_Priority t, tr_Status = ''unknown'', tr_StatusClass = ''status-unknown'', tr_Healthy = False,
            tr_KeyPath = t_PrivateKeyPath t, tr_ReasonKey = ''status.reason.tunnel_unknown''\<rparr>
      in case actual of None \<Rightarrow> row
       | Some a \<Rightarrow>
           let stale = (t_Type t = TunnelWireGuard \<and> a_HandshakeAgeSec a \<ge> 180);
               verdict = (if \<not> a_InterfacePresent a then (''unhealthy'', ''status-unhealthy'', ''status.reason.interface_missing'')
                          else if stale then (''warning'', ''status-warning'', ''status.reason.handshake_warning'')
                          else (''healthy'', ''status-healthy'', ''status.reason.tunnel_healthy''))
           in row\<lparr>tr_Handshake := fmtHandshake (a_HandshakeAgeSec a),
                tr_Rx := (if a_RxBytes a > 0 then fmtBytes (a_RxBytes a) else dash),
                tr_Tx := (if a_TxBytes a > 0 then fmtBytes (a_TxBytes a) else dash),
                tr_Healthy := (a_InterfacePresent a \<and> (t_Type t \<noteq> TunnelWireGuard \<or> a_HandshakeAgeSec a < 180)),
                tr_Status := fst verdict, tr_StatusClass := fst (snd verdict), tr_ReasonKey := snd (snd verdict)\<rparr>)"

definition findTunnelActual :: "node_actual option \<Rightarrow> tunnel \<Rightarrow> tunnel_actual option" where
  "findTunnelActual runtime t = (case Option.bind runtime na_Actual of None \<Rightarrow> None
     | Some a \<Rightarrow> find (\<lambda>x. a_TunnelID x = t_ID t \<or> a_InterfaceName x = t_InterfaceName t) (as_Tunnels a))"

section \<open>SNI routes as text\<close>

record sni_row =
  sr_ID :: string
  sr_Node :: string
  sr_Listen :: string
  sr_Match :: string
  sr_Backend :: string
  sr_Priority :: int
  sr_Default :: bool

definition sni_rows :: "catalog \<Rightarrow> sni_route \<Rightarrow> sni_row list" where
  "sni_rows cat r = map (\<lambda>(i, m).
     \<lparr>sr_ID = r_ID r, sr_Node = NodeName cat (r_NodeID r), sr_Listen = r_Listen r,
      sr_Match = (if sm_Default m \<or> sm_Match m = [] then ''default'' else sm_Match m),
      sr_Backend = (if sm_Backend m = [] then BackendName cat (sm_BackendID m) else sm_Backend m),
      sr_Priority = int i, sr_Default = sm_Default m\<rparr>) (enumerate 0 (r_Matches r))"

definition sni_row_less :: "sni_row \<Rightarrow> sni_row \<Rightarrow> bool" where
  "sni_row_less x y =
     (if sr_Node x \<noteq> sr_Node y then sr_Node x < sr_Node y
      else if sr_Listen x \<noteq> sr_Listen y then sr_Listen x < sr_Listen y
      else sr_Priority x < sr_Priority y)"

text \<open>\<open>sort.Slice\<close> may leave equal rows in any order; it is the argument \<open>sort_slice\<close>.\<close>

definition flattenSni :: "((sni_row \<Rightarrow> sni_row \<Rightarrow> bool) \<Rightarrow> sni_row list \<Rightarrow> sni_row list) \<Rightarrow> sni_route list \<Rightarrow> catalog \<Rightarrow> sni_row list" where
  "flattenSni sort_slice routes cat = sort_slice sni_row_less (concat (map (sni_rows cat) routes))"

definition default_text :: "catalog \<Rightarrow> sni_match \<Rightarrow> string" where
  "default_text cat m =
     (if BackendName cat (sm_BackendID m) \<noteq> sm_BackendID m then BackendName cat (sm_BackendID m)
      else if sm_Backend m = [] then sm_BackendID m else sm_Backend m)"

definition match_line :: "catalog \<Rightarrow> sni_match \<Rightarrow> string" where
  "match_line cat m = sm_Match m @ '' '' @ (if sm_Backend m = [] then BackendName cat (sm_BackendID m) else sm_Backend m)"

definition sniMatchesText :: "sni_route \<Rightarrow> catalog \<Rightarrow> string \<times> string" where
  "sniMatchesText r cat =
     (foldl (\<lambda>d m. if sm_Default m then default_text cat m else d) [] (r_Matches r),
      Join (map (match_line cat) (filter (\<lambda>m. \<not> sm_Default m) (r_Matches r))) [CHR 0x0A])"

definition match_of_line :: "string \<Rightarrow> sni_match option" where
  "match_of_line line = (case Fields (TrimSpace line) of
     a # b # _ \<Rightarrow> Some \<lparr>sm_Match = a, sm_Default = False, sm_BackendID = [], sm_Backend = b\<rparr>
   | _ \<Rightarrow> None)"

definition parseSniMatches :: "string \<Rightarrow> string \<Rightarrow> sni_match list" where
  "parseSniMatches defaultBackend extra =
     \<lparr>sm_Match = [], sm_Default = True, sm_BackendID = [], sm_Backend = TrimSpace defaultBackend\<rparr> #
     List.map_filter match_of_line (Split extra (CHR 0x0A))"

definition parseAllowedIPs :: "string \<Rightarrow> string list" where
  "parseAllowedIPs s = filter (\<lambda>p. p \<noteq> []) (map TrimSpace (Split s (CHR '','')))"

section \<open>Labels and events\<close>

definition managementAddr :: "node \<Rightarrow> string" where
  "managementAddr n =
     (case filter (\<lambda>v. v \<noteq> []) (map (\<lambda>k. case n_Labels n k of Some v \<Rightarrow> TrimSpace v | None \<Rightarrow> [])
        [''mgmt'', ''management'', ''mgmt_ip'', ''management_ip'']) of [] \<Rightarrow> [] | v # _ \<Rightarrow> v)"

record event_row =
  er_Key :: string
  er_When :: string
  er_Actor :: string
  er_Action :: string
  er_Target :: string
  er_Detail :: string
  er_Success :: bool

definition eventKey :: "audit_event \<Rightarrow> string" where
  "eventKey e = Itoa (UnixNano (au_Timestamp e)) @ ''-'' @ au_Action e @ ''-'' @ au_ResourceID e"

text \<open>\<open>when\<close> formats the time of an event.\<close>

definition buildEventRows :: "(gotime \<Rightarrow> string) \<Rightarrow> audit_event list \<Rightarrow> event_row list" where
  "buildEventRows when events = map (\<lambda>e.
     \<lparr>er_Key = eventKey e, er_When = when (au_Timestamp e), er_Actor = au_Actor e, er_Action = au_Action e,
      er_Target = TrimSpace (au_Resource e @ '' '' @ au_ResourceID e), er_Detail = safeEventDetail (au_Detail e),
      er_Success = au_Success e\<rparr>) events"

definition event_row_selected :: "string \<Rightarrow> string \<Rightarrow> string \<Rightarrow> event_row \<Rightarrow> bool" where
  "event_row_selected q who result row \<longleftrightarrow>
     (who = [] \<or> Contains (ToLower (er_Actor row)) who) \<and>
     \<not> (result = ''ok'' \<and> \<not> er_Success row) \<and> \<not> (result = ''error'' \<and> er_Success row) \<and>
     (q = [] \<or> Contains (ToLower (er_When row @ '' '' @ er_Actor row @ '' '' @ er_Action row @ '' '' @ er_Target row @ '' '' @ er_Detail row)) q)"

definition filterEventRows :: "event_row list \<Rightarrow> string \<Rightarrow> string \<Rightarrow> string \<Rightarrow> event_row list" where
  "filterEventRows rows q0 who0 result0 =
     (let q = ToLower (TrimSpace q0); who = ToLower (TrimSpace who0); result = ToLower (TrimSpace result0)
      in if q = [] \<and> who = [] \<and> result = [] then rows
         else filter (event_row_selected q who result) rows)"

end
