(* ===== verification/ViewLaws.thy ===== *)
theory ViewLaws
  imports Views
begin

text \<open>
  What the views show is what there is: a plan appears line by line with one marked line per action, an SNI
  route survives its text form, and no message to the operator carries a secret word.
\<close>

section \<open>Lines\<close>

abbreviation newline :: char where "newline \<equiv> CHR 0x0A"

definition one_line :: "string \<Rightarrow> bool" where
  "one_line s \<longleftrightarrow> newline \<notin> set s \<and> CHR 0x0D \<notin> set s"

lemma one_line_append [simp]: "one_line (s @ t) \<longleftrightarrow> one_line s \<and> one_line t"
  by (auto simp: one_line_def)

lemma Split_lines:
  assumes "\<forall>l \<in> set ls. newline \<notin> set l"
  shows "Split (concat (map (\<lambda>l. l @ [newline]) ls)) newline = ls @ [[]]"
  using assms
proof (induction ls)
  case (Cons l ls)
  have "Split (l @ newline # concat (map (\<lambda>l. l @ [newline]) ls)) newline = [l] @ Split (concat (map (\<lambda>l. l @ [newline]) ls)) newline"
    unfolding Split_def using Cons.prems by (subst split_by_append) (auto intro!: split_by_none)
  then show ?case using Cons by simp
qed (simp add: Split_def)

lemma TrimSpace_head:
  assumes "p \<noteq> []" and "\<forall>c \<in> set p. \<not> is_space c"
  shows "\<exists>r'. TrimSpace (p @ r) = p @ r'"
proof -
  have left: "TrimLeftFunc is_space (p @ r) = p @ r"
    using assms by (cases p) (simp_all add: TrimLeftFunc_def)
  have p: "dropWhile is_space (rev p) = rev p"
    using assms by (intro dropWhile_rev_last) auto
  have "dropWhile is_space (rev r @ rev p) = dropWhile is_space (rev r) @ rev p"
  proof (cases "\<forall>c \<in> set (rev r). is_space c")
    case True
    then have "dropWhile is_space (rev r) = []" by (simp only: dropWhile_eq_Nil_conv)
    then show ?thesis using p True by (simp add: dropWhile_append)
  next
    case False
    then show ?thesis by (auto simp: dropWhile_append)
  qed
  then show ?thesis using left by (simp add: TrimSpace_def TrimRightFunc_def)
qed

lemma TrimSpace_blank: "is_space c \<Longrightarrow> TrimSpace (c # s) = TrimSpace s"
  by (simp add: TrimSpace_def TrimLeftFunc_def)

section \<open>Plans\<close>

definition action_lines :: "action \<Rightarrow> string list" where
  "action_lines a =
     (case ac_Kind a of
        KindAdd \<Rightarrow> ''ADD: '' @ ac_Target a @ '' '' @ ac_After a
      | KindChange \<Rightarrow> ''CHANGE: '' @ ac_Target a @ '' '' @ ac_Before a @ '' -> '' @ ac_After a
      | KindDelete \<Rightarrow> ''DELETE: '' @ ac_Target a @ '' '' @ ac_Before a) #
     (if ac_Reason a \<noteq> [] then [''  reason: '' @ ac_Reason a] else [])"

definition plain_action :: "action \<Rightarrow> bool" where
  "plain_action a \<longleftrightarrow> one_line (ac_Target a) \<and> one_line (ac_Before a) \<and> one_line (ac_After a) \<and> one_line (ac_Reason a)"

definition kind_name :: "action_kind \<Rightarrow> string" where
  "kind_name k = (case k of KindAdd \<Rightarrow> ''add'' | KindChange \<Rightarrow> ''change'' | KindDelete \<Rightarrow> ''delete'')"

lemma action_line_lines: "action_line a = concat (map (\<lambda>l. l @ [newline]) (action_lines a))"
  by (simp add: action_line_def action_lines_def Reconcile.nl_def split: action_kind.split)

lemma one_line_literals [simp]: "one_line ''ADD: ''" "one_line ''CHANGE: ''" "one_line ''DELETE: ''" "one_line '' ''" "one_line '' -> ''"
  "one_line ''  reason: ''"
  by (simp_all add: one_line_def)

lemma action_lines_one: "plain_action a \<Longrightarrow> l \<in> set (action_lines a) \<Longrightarrow> one_line l"
  unfolding plain_action_def action_lines_def
  by (cases "ac_Kind a") (auto simp del: append.simps split: if_splits)

lemma kind_literals: "HasPrefix (''ADD:'' @ r) ''ADD:''" "HasPrefix (''CHANGE:'' @ r) ''CHANGE:''" "HasPrefix (''DELETE:'' @ r) ''DELETE:''"
  by simp_all

lemma planLineKind_first:
  "planLineKind (hd (action_lines a)) = kind_name (ac_Kind a)"
proof -
  have trim: "\<exists>r'. TrimSpace (p @ r) = p @ r'" if "p \<in> {''ADD:'', ''CHANGE:'', ''DELETE:''}" for p r
    using that by (intro TrimSpace_head) (auto simp: is_space_def)
  obtain p r where pr: "hd (action_lines a) = p @ r" "p = (case ac_Kind a of KindAdd \<Rightarrow> ''ADD:'' | KindChange \<Rightarrow> ''CHANGE:'' | KindDelete \<Rightarrow> ''DELETE:'')"
    by (cases "ac_Kind a") (auto simp: action_lines_def)
  then obtain r' where "TrimSpace (hd (action_lines a)) = p @ r'"
    using trim [of p r] by (auto split: action_kind.splits)
  then show ?thesis using pr(2) by (cases "ac_Kind a") (simp_all add: planLineKind_def Let_def kind_name_def)
qed

lemma planLineKind_reason: "planLineKind (''  reason: '' @ r) = ''text''"
proof -
  have "TrimSpace (''  reason: '' @ r) = TrimSpace (''reason:'' @ '' '' @ r)"
    by (simp add: TrimSpace_blank)
  moreover obtain r' where "TrimSpace (''reason:'' @ '' '' @ r) = ''reason:'' @ r'"
    using TrimSpace_head [of "''reason:''" "'' '' @ r"] by (auto simp: is_space_def)
  ultimately show ?thesis
    by (simp add: planLineKind_def Let_def EqualFold_def ToLower_def lower_char_def is_upper_def)
qed

lemma action_kinds: "filter (\<lambda>k. k \<noteq> ''text'') (map planLineKind (action_lines a)) = [kind_name (ac_Kind a)]"
proof -
  have n: "kind_name (ac_Kind a) \<noteq> ''text''" by (simp add: kind_name_def split: action_kind.split)
  show ?thesis
  proof (cases "ac_Reason a = []")
    case True
    then have l: "action_lines a = [hd (action_lines a)]" by (simp add: action_lines_def)
    show ?thesis by (subst l) (simp add: planLineKind_first n)
  next
    case False
    then have l: "action_lines a = [hd (action_lines a), ''  reason: '' @ ac_Reason a]" by (simp add: action_lines_def)
    show ?thesis by (subst l) (simp only: list.map planLineKind_first planLineKind_reason, simp add: n)
  qed
qed

lemma ReplaceAll_absent: "old \<noteq> [] \<Longrightarrow> hd old \<notin> set s \<Longrightarrow> ReplaceAll s old new = s"
  by (subst ReplaceAll.simps) (simp add: Index_none)

lemma concat_lines: "concat (map action_line as) = concat (map (\<lambda>l. l @ [newline]) (concat (map action_lines as)))"
  by (induction as) (simp_all add: action_line_lines)

lemma plan_text:
  assumes "pl_Conflicts p = []" and "pl_Actions p \<noteq> []"
  shows "Plan_String p = concat (map (\<lambda>l. l @ [newline]) (concat (map action_lines (pl_Actions p))))"
  using assms by (simp add: Plan_String_def HasConflicts_def Plan_Empty_def concat_lines)

lemma first_line_head:
  "\<exists>c r. hd (action_lines a) = c # r \<and> c \<in> {CHR ''A'', CHR ''C'', CHR ''D''}"
  by (cases "ac_Kind a") (simp_all add: action_lines_def)

text \<open>C17: The plan page shows the plan. It says \<open>NO CHANGES\<close> exactly for an empty plan; otherwise the text is kept
  line by line, and the marked lines are the actions in their order, each with its kind.\<close>

theorem plan_view_shows_plan:
  assumes "pl_Conflicts p = []" and "\<forall>a \<in> set (pl_Actions p). plain_action a"
  shows "pv_NoChanges (buildPlanView (Plan_String p)) = Plan_Empty p \<and>
    filter (\<lambda>k. k \<noteq> ''text'') (map pln_Kind (pv_Lines (buildPlanView (Plan_String p)))) = map (kind_name \<circ> ac_Kind) (pl_Actions p) \<and>
    (\<not> Plan_Empty p \<longrightarrow> Join (map pln_Text (pv_Lines (buildPlanView (Plan_String p)))) [newline] = Plan_String p)"
proof (cases "pl_Actions p")
  case Nil
  have "buildPlanView (''NO CHANGES'' @ [newline]) = empty_view\<lparr>pv_NoChanges := True\<rparr>" by code_simp
  then show ?thesis using assms Nil
    by (simp add: Plan_String_def HasConflicts_def Plan_Empty_def Reconcile.nl_def empty_view_def)
next
  case (Cons a as)
  let ?ls = "concat (map action_lines (pl_Actions p))"
  let ?raw = "Plan_String p"
  have raw: "?raw = concat (map (\<lambda>l. l @ [newline]) ?ls)" using assms(1) Cons by (intro plan_text) auto
  have one: "\<forall>l \<in> set ?ls. one_line l" using assms(2) action_lines_one by auto
  have split: "Split ?raw newline = ?ls @ [[]]" unfolding raw using one by (intro Split_lines) (simp add: one_line_def)
  have cr: "ReplaceAll ?raw [CHR 0x0D, newline] [newline] = ?raw"
    using one by (intro ReplaceAll_absent) (auto simp: raw one_line_def)
  obtain c r where c: "hd (action_lines a) = c # r" "c \<in> {CHR ''A'', CHR ''C'', CHR ''D''}" using first_line_head by blast
  obtain rest where ls: "?ls = (c # r) # rest"
    using c(1) Cons by (cases "action_lines a") (simp_all add: action_lines_def)
  have "\<exists>t. TrimSpace (c # s) = c # t" for s
    using TrimSpace_head [of "[c]" s] c(2) by (auto simp: is_space_def)
  then have trim: "\<exists>t. TrimSpace ?raw = c # t" "TrimSpace (c # r) \<noteq> []" using ls unfolding raw by (auto, metis list.discI)
  have lines: "plan_lines ?raw = map (\<lambda>l. \<lparr>pln_Kind = planLineKind l, pln_Text = l\<rparr>) (?ls @ [[]])"
    unfolding plan_lines_def split using trim(2) ls by simp
  have view: "buildPlanView ?raw = empty_view\<lparr>pv_Lines := plan_lines ?raw\<rparr>"
    using trim(1) c(2) lines
    by (auto simp: buildPlanView_def cr Let_def EqualFold_def ToLower_def ToUpper_def lower_char_def upper_char_def is_upper_def is_lower_def)
  have blank: "planLineKind [] = ''text''" by code_simp
  have "filter (\<lambda>k. k \<noteq> ''text'') (map planLineKind (concat (map action_lines as))) = map (kind_name \<circ> ac_Kind) as" for as
    by (induction as) (simp_all add: action_kinds)
  then have "filter (\<lambda>k. k \<noteq> ''text'') (map pln_Kind (plan_lines ?raw)) = map (kind_name \<circ> ac_Kind) (pl_Actions p)"
    unfolding lines by (simp add: comp_def blank)
  moreover have "Join (map pln_Text (plan_lines ?raw)) [newline] = ?raw"
    using Join_Split [of ?raw newline] unfolding split lines by (simp add: comp_def)
  ultimately show ?thesis using Cons by (simp add: view empty_view_def Plan_Empty_def)
qed

section \<open>SNI routes\<close>

text \<open>How the form names the backend of a match.\<close>

definition shown_backend :: "catalog \<Rightarrow> sni_match \<Rightarrow> string" where
  "shown_backend cat m = (if sm_Default m then default_text cat m else if sm_Backend m = [] then BackendName cat (sm_BackendID m) else sm_Backend m)"

definition shown :: "catalog \<Rightarrow> sni_match \<Rightarrow> sni_match" where
  "shown cat m = \<lparr>sm_Match = (if sm_Default m then [] else sm_Match m), sm_Default = sm_Default m, sm_BackendID = [], sm_Backend = shown_backend cat m\<rparr>"

lemma word_newline: "word w \<Longrightarrow> newline \<notin> set w"
  by (auto simp: word_def is_space_def)

lemma word_trim: "word w \<Longrightarrow> TrimSpace w = w"
  by (rule TrimSpace_no_space) (simp add: word_def)

lemma match_line_back:
  assumes "\<not> sm_Default m" and "word (sm_Match m)" and "word (shown_backend cat m)"
  shows "match_of_line (match_line cat m) = Some (shown cat m)" and "newline \<notin> set (match_line cat m)"
proof -
  let ?b = "shown_backend cat m"
  have line: "match_line cat m = sm_Match m @ CHR '' '' # ?b" using assms(1) by (simp add: match_line_def shown_backend_def)
  have "TrimSpace (match_line cat m) = match_line cat m"
    using assms unfolding line by (intro TrimSpace_id) (auto simp: word_def hd_append)
  moreover have "Fields (match_line cat m) = [sm_Match m, ?b]"
    unfolding line using assms by (simp add: Fields_append_space Fields_word word_def)
  ultimately show "match_of_line (match_line cat m) = Some (shown cat m)"
    using assms(1) by (simp add: match_of_line_def shown_def)
  show "newline \<notin> set (match_line cat m)" unfolding line using assms word_newline by auto
qed

text \<open>The text form of an SNI route is read back: the editor shows a default backend and one line per match,
  and what it posts again are the same matches, the default first and the others in their order.\<close>

lemma sni_form_roundtrip:
  assumes "filter sm_Default (r_Matches r) = [d]"
    and "\<forall>m \<in> set (r_Matches r). word (shown_backend cat m) \<and> (\<not> sm_Default m \<longrightarrow> word (sm_Match m))"
  shows "parseSniMatches (fst (sniMatchesText r cat)) (snd (sniMatchesText r cat)) =
    map (shown cat) (d # filter (\<lambda>m. \<not> sm_Default m) (r_Matches r))"
proof -
  let ?ms = "filter (\<lambda>m. \<not> sm_Default m) (r_Matches r)"
  have d: "sm_Default d" "d \<in> set (r_Matches r)" using assms(1) by (auto simp: filter_eq_Cons_iff)
  have "foldl (\<lambda>x m. if sm_Default m then default_text cat m else x) a ms =
      (if filter sm_Default ms = [] then a else default_text cat (last (filter sm_Default ms)))" for a ms
    by (induction ms arbitrary: a rule: rev_induct) auto
  then have def_text: "fst (sniMatchesText r cat) = default_text cat d" using assms(1) by (simp add: sniMatchesText_def)
  have lines: "\<forall>m \<in> set ?ms. match_of_line (match_line cat m) = Some (shown cat m) \<and> newline \<notin> set (match_line cat m)"
    using assms(2) match_line_back by auto
  have "List.map_filter match_of_line (Split (Join (map (match_line cat) ?ms) [newline]) newline) = map (shown cat) ?ms"
  proof (cases "?ms = []")
    case True
    have "List.map_filter match_of_line (Split [] newline) = []" by code_simp
    then show ?thesis unfolding True by simp
  next
    case False
    then have "Split (Join (map (match_line cat) ?ms) [newline]) newline = map (match_line cat) ?ms"
      using lines by (intro Split_Join) auto
    moreover have "List.map_filter match_of_line (map (match_line cat) ms) = map (shown cat) ms"
      if "\<forall>m \<in> set ms. match_of_line (match_line cat m) = Some (shown cat m)" for ms
      using that by (induction ms) (simp_all add: List.map_filter_simps)
    ultimately show ?thesis using lines by simp
  qed
  moreover have "TrimSpace (default_text cat d) = shown_backend cat d"
    using d assms(2) by (auto simp: shown_backend_def intro!: word_trim)
  ultimately show ?thesis using d def_text by (simp add: parseSniMatches_def shown_def sniMatchesText_def)
qed

section \<open>Messages without secrets\<close>

lemma Contains_part: "Contains s w \<Longrightarrow> Contains (u @ s @ v) w"
  unfolding Contains_iff by (metis append.assoc)

lemma Contains_before:
  assumes "Contains (s @ e) w" and "w \<noteq> []" and "set w \<inter> set e = {}"
  shows "Contains s w"
proof -
  obtain u v where uv: "s @ e = u @ w @ v" using assms(1) by (auto simp: Contains_iff)
  have "length (u @ w) \<le> length s"
  proof (rule ccontr)
    assume "\<not> length (u @ w) \<le> length s"
    then have i: "length s \<le> length u + length w - 1" "length u + length w - 1 < length (s @ e)" using assms(2) uv by (cases w; simp)+
    have "last w = (u @ w @ v) ! (length u + length w - 1)"
      using assms(2) by (simp add: nth_append last_conv_nth) (cases w; simp)
    also have "\<dots> = e ! (length u + length w - 1 - length s)" using i(1) by (simp add: uv [symmetric] nth_append)
    finally have "last w \<in> set e" using i by simp
    then show False using assms(2,3) by (auto dest: last_in_set)
  qed
  then have "take (length (u @ w)) (s @ e) = take (length (u @ w)) s" by simp
  moreover have "take (length (u @ w)) (u @ w @ v) = u @ w" by simp
  ultimately have "u @ w = take (length (u @ w)) s" using uv by metis
  then have "s = u @ w @ drop (length (u @ w)) s" by (metis append.assoc append_take_drop_id)
  then show ?thesis unfolding Contains_iff by blast
qed

lemma length_TrimSpace: "length (TrimSpace s) \<le> length s"
  using TrimSpace_part [of s] by (metis le_add1 le_add2 le_trans length_append)

lemma mentions_part: "\<not> mentions_secret (ToLower (u @ s @ v)) \<Longrightarrow> \<not> mentions_secret (ToLower s)"
  by (auto simp: mentions_secret_def list_ex_iff ToLower_def dest: Contains_part)

lemma mentions_trim: "\<not> mentions_secret (ToLower s) \<Longrightarrow> \<not> mentions_secret (ToLower (TrimSpace s))"
  using TrimSpace_part [of s] mentions_part by metis

lemma mentions_take: "\<not> mentions_secret (ToLower s) \<Longrightarrow> \<not> mentions_secret (ToLower (take n s))"
  using mentions_part [of "[]" "take n s" "drop n s"] by simp

lemma mentions_ellipsis: "\<not> mentions_secret (ToLower s) \<Longrightarrow> \<not> mentions_secret (ToLower (s @ ellipsis))"
proof -
  have "ToLower ellipsis = ellipsis" "\<forall>w \<in> set secret_words. w \<noteq> [] \<and> set w \<inter> set ellipsis = {}"
    by (code_simp, simp add: secret_words_def ellipsis_def)
  then show "\<not> mentions_secret (ToLower s) \<Longrightarrow> ?thesis"
    unfolding mentions_secret_def list_ex_iff ToLower_def map_append using Contains_before by metis
qed

lemmas mentions_intros = mentions_trim mentions_take mentions_ellipsis


section \<open>Witnesses\<close>

definition plan_example :: plan where
  "plan_example = \<lparr>pl_Actions = [mk_action KindAdd ''tunnel'' ''t1'' [] ''wg0 up'', (mk_action KindDelete ''rule'' ''m1'' ''dnat'' [])\<lparr>ac_Reason := ''gone''\<rparr>],
     pl_Conflicts = []\<rparr>"

lemma plan_view_shows_plan_witness:
  "filter (\<lambda>k. k \<noteq> ''text'') (map pln_Kind (pv_Lines (buildPlanView (Plan_String plan_example)))) = [''add'', ''delete'']"
proof -
  have "pl_Conflicts plan_example = []" "\<forall>a \<in> set (pl_Actions plan_example). plain_action a"
    by (simp_all add: plan_example_def mk_action_def plain_action_def one_line_def)
  from conjunct1 [OF conjunct2 [OF plan_view_shows_plan [OF this]]] show ?thesis
    by (simp add: plan_example_def mk_action_def kind_name_def)
qed

definition sni_example :: sni_route where
  "sni_example = \<lparr>r_ID = ''r1'', r_NodeID = ''n1'', r_Listen = '':443'',
     r_Matches = [\<lparr>sm_Match = ''a.example'', sm_Default = False, sm_BackendID = ''b1'', sm_Backend = []\<rparr>,
                  \<lparr>sm_Match = [], sm_Default = True, sm_BackendID = ''b2'', sm_Backend = ''two''\<rparr>], r_CreatedAt = 1, r_UpdatedAt = 1\<rparr>"

lemma sni_form_roundtrip_witness:
  "parseSniMatches (fst (sniMatchesText sni_example (newCatalog [] []))) (snd (sniMatchesText sni_example (newCatalog [] []))) =
    [\<lparr>sm_Match = [], sm_Default = True, sm_BackendID = [], sm_Backend = ''two''\<rparr>,
     \<lparr>sm_Match = ''a.example'', sm_Default = False, sm_BackendID = [], sm_Backend = ''b1''\<rparr>]"
proof -
  let ?d = "\<lparr>sm_Match = [], sm_Default = True, sm_BackendID = ''b2'', sm_Backend = ''two''\<rparr>"
  have "filter sm_Default (r_Matches sni_example) = [?d]"
    "\<forall>m \<in> set (r_Matches sni_example). word (shown_backend (newCatalog [] []) m) \<and> (\<not> sm_Default m \<longrightarrow> word (sm_Match m))"
    by (simp_all add: sni_example_def shown_backend_def default_text_def BackendName_def newCatalog_def word_def is_space_def)
  from sni_form_roundtrip [OF this] show ?thesis
    by (simp add: sni_example_def shown_def shown_backend_def default_text_def BackendName_def newCatalog_def)
qed

end
