(* ===== verification/ForeignApi.thy ===== *)
theory ForeignApi
  imports ApiHandlers
begin

text \<open>
  The handlers for foreign nodes (src/internal/api/foreign_nodes.go). They run behind a check of their own, which
  keeps agents out altogether; a failing write is audited before a missing row is reported as not found.
\<close>

definition foreign_allowed :: "bool \<Rightarrow> string \<Rightarrow> bool" where
  "foreign_allowed mutate role \<longleftrightarrow> role = ''administrator'' \<or> role = ''operator'' \<or> (\<not> mutate \<and> role = ''readonly'')"

definition foreignAccess :: "bool \<Rightarrow> 'w handler \<Rightarrow> 'w handler" where
  "foreignAccess mutate h r p =
     ensure (role_in (foreign_allowed mutate) p) (Forbidden ''role cannot access foreign node inventory'') (h r p)"

definition listForeignNodes :: "'w env \<Rightarrow> 'w handler" where
  "listForeignNodes env r p = reply_list (ListForeignNodes env) RForeigns"

definition getForeignNode :: "'w env \<Rightarrow> 'w handler" where
  "getForeignNode env r p = reply_list (mapNotFound ''foreign node'' (hr_ID r) (GetForeignNode env (hr_ID r))) RForeign"

definition createForeignNode :: "'w env \<Rightarrow> 'w api \<Rightarrow> 'w handler" where
  "createForeignNode env a r p =
     bindA (decodeJSON (j_foreign (api_json a)) r) (\<lambda>i0.
     bindA (liftE (Foreign_Validate i0)) (\<lambda>i.
     bindA (ident_New env) (\<lambda>k. bindA (nowA env) (\<lambda>t1. bindA (nowA env) (\<lambda>t2.
     bindA (audit_failure env p ''create'' ''foreign-node'' []
       (CreateForeignNode env \<lparr>fn_ID = k, fn_Input = i, fn_CreatedAt = t1, fn_UpdatedAt = t2\<rparr>)) (\<lambda>n.
       done_audit env p ''create'' ''foreign-node'' (fn_ID n) [] 201 (RForeign n)))))))"

definition patchForeignNode :: "'w env \<Rightarrow> 'w api \<Rightarrow> 'w handler" where
  "patchForeignNode env a r p =
     bindA (mapNotFound ''foreign node'' (hr_ID r) (GetForeignNode env (hr_ID r))) (\<lambda>old.
     bindA (decodeJSON (j_foreign_patch (api_json a)) r) (\<lambda>q.
     bindA (liftE (Foreign_Validate (ForeignPatch_Apply q (fn_Input old)))) (\<lambda>i.
     bindA (nowA env) (\<lambda>t.
     bindA (mapNotFound ''foreign node'' (hr_ID r) (audit_failure env p ''update'' ''foreign-node'' (fn_ID old)
       (UpdateForeignNode env (old\<lparr>fn_Input := i, fn_UpdatedAt := t\<rparr>)))) (\<lambda>n.
       done_audit env p ''update'' ''foreign-node'' (fn_ID n) [] 200 (RForeign n))))))"

end
