(* ===== verification/ApiRoutes.thy ===== *)
theory ApiRoutes
  imports ForeignApi
begin

text \<open>
  The handlers for human users (src/internal/api/users.go), the audit listing with its filter, and the
  table of routes of server.go: which handler an endpoint has and whether it counts as mutating.
  Which endpoint a method and path select is the business of ServeMux.
\<close>

section \<open>Users\<close>

definition loadUserForCaller :: "'w env \<Rightarrow> ident \<Rightarrow> principal option \<Rightarrow> ('w, user) dbact" where
  "loadUserForCaller env uid p = (case p of None \<Rightarrow> failA (Unauthorized ''no principal'') | Some q \<Rightarrow>
     if pr_Role q = ''agent'' then failA (Forbidden ''agent cannot access users'')
     else bindA (mapNotFound ''user'' uid (GetUser env uid)) (\<lambda>u.
       if CanManageUsers (pr_Role q) then returnA u
       else if pr_UserID q \<noteq> [] \<and> pr_UserID q = u_ID u then returnA u
       else failA (Forbidden ''cannot access another user'')))"

definition publicUser :: "user \<Rightarrow> user" where
  "publicUser u = u\<lparr>u_PasswordHash := [], u_TOTPSecret := [], u_TOTPPending := []\<rparr>"

definition listUsers :: "'w env \<Rightarrow> 'w handler" where
  "listUsers env r p = ensure (role_in CanManageUsers p) (Forbidden ''only administrator can list users'')
     (reply_list (ListUsers env) (\<lambda>us. RUsers (map publicUser us)))"

definition createUser :: "'w env \<Rightarrow> 'w api \<Rightarrow> 'w handler" where
  "createUser env a r p = ensure (role_in CanManageUsers p) (Forbidden ''only administrator can create users'')
     (bindA (decodeJSON (j_user (api_json a)) r) (\<lambda>req.
      bindA (audit_failure env p ''create'' ''user'' [] (accounts_Create env req)) (\<lambda>u.
        done_audit env p ''create'' ''user'' (u_ID u) (u_Role u) 201 (RUser (publicUser u)))))"

definition getUser :: "'w env \<Rightarrow> 'w handler" where
  "getUser env r p = reply_list (loadUserForCaller env (hr_ID r) p) (\<lambda>u. RUser (publicUser u))"

definition own_patch :: "principal option \<Rightarrow> user_patch \<Rightarrow> user_patch" where
  "own_patch p q = (case p of None \<Rightarrow> q
     | Some c \<Rightarrow> if CanManageUsers (pr_Role c) then q else q\<lparr>up_Role := None, up_Disabled := None\<rparr>)"

definition patchUser :: "'w env \<Rightarrow> 'w api \<Rightarrow> 'w handler" where
  "patchUser env a r p =
     bindA (loadUserForCaller env (hr_ID r) p) (\<lambda>_.
     bindA (decodeJSON (j_user_patch (api_json a)) r) (\<lambda>q.
     bindA (audit_failure env p ''update'' ''user'' (hr_ID r) (accounts_Patch env (hr_ID r) (own_patch p q))) (\<lambda>u.
       done_audit env p ''update'' ''user'' (hr_ID r) (u_Role u) 200 (RUser (publicUser u)))))"

definition beginTOTP :: "'w env \<Rightarrow> 'w handler" where
  "beginTOTP env r p =
     bindA (loadUserForCaller env (hr_ID r) p) (\<lambda>_.
     bindA (BeginTOTP env (hr_ID r)) (\<lambda>(url, secret).
       done_audit env p ''totp-begin'' ''user'' (hr_ID r) [] 200 (RTotp url secret)))"

definition confirmTOTP :: "'w env \<Rightarrow> 'w api \<Rightarrow> 'w handler" where
  "confirmTOTP env a r p =
     bindA (loadUserForCaller env (hr_ID r) p) (\<lambda>_.
     bindA (decodeJSON (j_code (api_json a)) r) (\<lambda>code.
     bindA (audit_failure env p ''totp-confirm'' ''user'' (hr_ID r) (ConfirmTOTP env (hr_ID r) code)) (\<lambda>codes.
       done_audit env p ''totp-confirm'' ''user'' (hr_ID r) [] 200 (RCodes codes))))"

definition disableTOTP :: "'w env \<Rightarrow> 'w handler" where
  "disableTOTP env r p =
     bindA (loadUserForCaller env (hr_ID r) p) (\<lambda>_.
     bindA (DisableTOTP env (hr_ID r)) (\<lambda>_.
       done_audit env p ''totp-disable'' ''user'' (hr_ID r) [] 200 ROk))"

definition rotateRecovery :: "'w env \<Rightarrow> 'w handler" where
  "rotateRecovery env r p =
     bindA (loadUserForCaller env (hr_ID r) p) (\<lambda>_.
     bindA (RotateRecoveryCodes env (hr_ID r)) (\<lambda>codes.
       done_audit env p ''recovery-rotate'' ''user'' (hr_ID r) [] 200 (RCodes codes)))"

section \<open>Events\<close>

text \<open>A name or id given in the query; \<open>None\<close> when neither lookup succeeds.\<close>

definition lookup_either :: "('w, 'a) dbact \<Rightarrow> ('w, 'a) dbact \<Rightarrow> ('w, 'a option) dbact" where
  "lookup_either m m' = bindA (optionally m) (\<lambda>x. case x of Some _ \<Rightarrow> returnA x | None \<Rightarrow> optionally m')"

definition listing :: "('w, 'a list) dbact \<Rightarrow> ('w, 'a list) dbact" where
  "listing m = bindA (optionally m) (\<lambda>x. returnA (case x of None \<Rightarrow> [] | Some xs \<Rightarrow> xs))"

definition node_ids :: "'w env \<Rightarrow> node \<Rightarrow> ('w, string list) dbact" where
  "node_ids env n =
     bindA (listing (ListBackendsByNode env (n_ID n))) (\<lambda>bs.
     bindA (listing (ListTunnelsByNode env (n_ID n))) (\<lambda>ts.
     bindA (listing (ListMappingsByNode env (n_ID n))) (\<lambda>ms.
     bindA (listing (ListSniRoutesByNode env (n_ID n))) (\<lambda>rs.
       returnA (n_ID n # map b_ID bs @ map t_ID ts @ map m_ID ms @ map r_ID rs)))))"

text \<open>\<open>None\<close>: the query names nothing that exists, and no event is listed.\<close>

definition node_filter :: "'w env \<Rightarrow> string \<Rightarrow> ('w, string list option) dbact" where
  "node_filter env q =
     (if q = [] then returnA (Some [])
      else bindA (lookup_either (GetNode env q) (GetNodeByName env (ToLower q))) (\<lambda>n. case n of
        None \<Rightarrow> returnA None | Some n \<Rightarrow> bindA (node_ids env n) (\<lambda>ids. returnA (Some ids))))"

definition backend_filter :: "'w env \<Rightarrow> string \<Rightarrow> string list \<Rightarrow> ('w, string list option) dbact" where
  "backend_filter env q ids =
     (if q = [] then returnA (Some ids)
      else bindA (lookup_either (GetBackend env q) (GetBackendByName env (ToLower q))) (\<lambda>b. case b of
        None \<Rightarrow> returnA None
      | Some b \<Rightarrow> returnA (Some (if ids = [] then [b_ID b, b_NodeID b] else b_ID b # ids))))"

definition parseEventTime :: "'w api \<Rightarrow> string \<Rightarrow> bool \<Rightarrow> goerr + gotime" where
  "parseEventTime a raw0 endOfDay =
     (let raw = TrimSpace raw0
      in if raw = [] then Inr 0
         else case api_ParseRFC3339 a raw of Some t \<Rightarrow> Inr t
         | None \<Rightarrow> (case api_ParseDate a raw of
               Some t \<Rightarrow> Inr (if endOfDay then t + 24 * 60 * Minute else t)
             | None \<Rightarrow> Inl (Validation ''since/until must be YYYY-MM-DD or RFC3339'')))"

definition event_selected :: "string list \<Rightarrow> string \<Rightarrow> gotime \<Rightarrow> gotime \<Rightarrow> audit_event \<Rightarrow> bool" where
  "event_selected ids action since until e \<longleftrightarrow>
     (ids = [] \<or> au_ResourceID e \<in> set ids) \<and> (action = [] \<or> au_Action e = action) \<and>
     (since = 0 \<or> since \<le> au_Timestamp e) \<and> (until = 0 \<or> au_Timestamp e \<le> until)"

definition filterEvents :: "'w env \<Rightarrow> 'w api \<Rightarrow> http_request \<Rightarrow> audit_event list \<Rightarrow> ('w, audit_event list) dbact" where
  "filterEvents env a r events =
     (let q = rq_Query (hr_Req r)
      in bindA (node_filter env (TrimSpace (q ''node''))) (\<lambda>ids0. case ids0 of None \<Rightarrow> returnA [] | Some ids0 \<Rightarrow>
         bindA (backend_filter env (TrimSpace (q ''backend'')) ids0) (\<lambda>ids. case ids of None \<Rightarrow> returnA [] | Some ids \<Rightarrow>
         bindA (liftE (parseEventTime a (q ''since'') False)) (\<lambda>since.
         bindA (liftE (parseEventTime a (q ''until'') True)) (\<lambda>until.
           returnA (filter (event_selected ids (TrimSpace (q ''action'')) since until) events))))))"

definition listEvents :: "'w env \<Rightarrow> 'w api \<Rightarrow> 'w handler" where
  "listEvents env a r p =
     bindA (ListAudit env 500) (\<lambda>events. bindA (filterEvents env a r events) (\<lambda>es. returnA (200, REvents es)))"

section \<open>Routes\<close>

datatype endpoint =
    Whoami | ListTokensE | CreateTokenE | RevokeTokenE
  | ListUsersE | CreateUserE | GetUserE | PatchUserE | BeginTotpE | ConfirmTotpE | DisableTotpE | RotateRecoveryE
  | ListNodesE | CreateNodeE | GetNodeE | DesiredStateE | GetActualE | PutActualE | PlanE | ApplyE | FailbackE
  | ListBackendsE | CreateBackendE | GetBackendE | PatchBackendE
  | ListMappingsE | CreateMappingE | PatchMappingE | DeleteMappingE
  | ListTunnelsE | CreateTunnelE | TunnelStatusE
  | ListSniE | CreateSniE | GetSniE | PatchSniE | ListEventsE
  | ListForeignE | CreateForeignE | GetForeignE | PatchForeignE

definition mutates :: "endpoint \<Rightarrow> bool" where
  "mutates e \<longleftrightarrow> e \<in> {CreateTokenE, RevokeTokenE, CreateUserE, CreateNodeE, PutActualE, ApplyE, FailbackE, CreateBackendE,
     PatchBackendE, CreateMappingE, PatchMappingE, DeleteMappingE, CreateTunnelE, CreateSniE, PatchSniE,
     CreateForeignE, PatchForeignE}"

fun handler_of :: "'w env \<Rightarrow> 'w api \<Rightarrow> endpoint \<Rightarrow> 'w handler" where
  "handler_of env a Whoami = whoami"
| "handler_of env a ListTokensE = listTokens env"
| "handler_of env a CreateTokenE = createToken env a"
| "handler_of env a RevokeTokenE = revokeToken env"
| "handler_of env a ListUsersE = listUsers env"
| "handler_of env a CreateUserE = createUser env a"
| "handler_of env a GetUserE = getUser env"
| "handler_of env a PatchUserE = patchUser env a"
| "handler_of env a BeginTotpE = beginTOTP env"
| "handler_of env a ConfirmTotpE = confirmTOTP env a"
| "handler_of env a DisableTotpE = disableTOTP env"
| "handler_of env a RotateRecoveryE = rotateRecovery env"
| "handler_of env a ListNodesE = listNodes env"
| "handler_of env a CreateNodeE = createNode env a"
| "handler_of env a GetNodeE = getNode env"
| "handler_of env a DesiredStateE = desiredState env"
| "handler_of env a GetActualE = getActualState env"
| "handler_of env a PutActualE = putActualState env a"
| "handler_of env a PlanE = getPlan env"
| "handler_of env a ApplyE = apply_plan env a"
| "handler_of env a FailbackE = failback env a"
| "handler_of env a ListBackendsE = listBackends env"
| "handler_of env a CreateBackendE = createBackend env a"
| "handler_of env a GetBackendE = getBackend env"
| "handler_of env a PatchBackendE = patchBackend env a"
| "handler_of env a ListMappingsE = listMappings env"
| "handler_of env a CreateMappingE = createMapping env a"
| "handler_of env a PatchMappingE = patchMapping env a"
| "handler_of env a DeleteMappingE = deleteMapping env"
| "handler_of env a ListTunnelsE = listTunnels env"
| "handler_of env a CreateTunnelE = createTunnel env a"
| "handler_of env a TunnelStatusE = tunnelStatus env"
| "handler_of env a ListSniE = listSni env"
| "handler_of env a CreateSniE = createSni env a"
| "handler_of env a GetSniE = getSni env"
| "handler_of env a PatchSniE = patchSni env a"
| "handler_of env a ListEventsE = listEvents env a"
| "handler_of env a ListForeignE = foreignAccess False (listForeignNodes env)"
| "handler_of env a CreateForeignE = foreignAccess True (createForeignNode env a)"
| "handler_of env a GetForeignE = foreignAccess False (getForeignNode env)"
| "handler_of env a PatchForeignE = foreignAccess True (patchForeignNode env a)"

definition serve :: "'w env \<Rightarrow> 'w api \<Rightarrow> endpoint \<Rightarrow> http_request \<Rightarrow> 'w server \<Rightarrow> (int \<times> reply) \<times> 'w server" where
  "serve env a e r sv = authn env a (handler_of env a e) (mutates e) r sv"

text \<open>A history of requests.\<close>

definition serve_all :: "'w env \<Rightarrow> 'w api \<Rightarrow> (endpoint \<times> http_request) list \<Rightarrow> 'w server \<Rightarrow> 'w server" where
  "serve_all env a reqs sv = fold (\<lambda>(e, r) s. snd (serve env a e r s)) reqs sv"

end
