(* ===== verification/ControllerSamples.thy ===== *)
theory ControllerSamples
  imports Db
begin

text \<open>
  A concrete environment for the witnesses of the controller side: a driver that never fails, a clock that
  ticks, random bytes counted up, and a transparent password hash. And small tables for it.
\<close>

definition sample_env :: "nat env" where
  "sample_env = \<lparr>e_driver = (\<lambda>_ w. (None, w)), e_check = Plain ''CHECK constraint failed'',
     e_unique = Plain ''UNIQUE constraint failed'', e_fk = Plain ''FOREIGN KEY constraint failed'',
     e_now = (\<lambda>w. (int w + 1, w + 1)), e_rand = (\<lambda>n w. (Inr (replicate n (char_of w)), w + 1)),
     e_bcrypt = (\<lambda>p w. (Inr (''hash of '' @ p), w)), e_compare = (\<lambda>h p. h = ''hash of '' @ p),
     e_hmac_sha1 = (\<lambda>_ _. replicate 20 (CHR ''a'')), e_hmac_sha256 = (\<lambda>k m. CHR ''m'' # k @ m), e_sha256 = (\<lambda>m. m)\<rparr>"

lemma sample_env_sels:
  "e_driver sample_env op w = (None, w)" "e_now sample_env w = (int w + 1, w + 1)"
  "e_rand sample_env n w = (Inr (replicate n (char_of w)), w + 1)" "e_bcrypt sample_env p w = (Inr (''hash of '' @ p), w)"
  "e_compare sample_env h p = (h = ''hash of '' @ p)" "e_sha256 sample_env m = m" "e_hmac_sha256 sample_env k m = CHR ''m'' # k @ m"
  by (simp_all add: sample_env_def)

lemma sample_driver [simp]: "driver sample_env op = returnA ()"
  by (simp add: driver_def lift_world_def sample_env_def returnA_def fun_eq_iff)

lemma sample_query [simp]: "query sample_env op f = (\<lambda>s. (Inr (f s), s))"
  by (simp add: query_def onErr_def bindA_def fun_eq_iff)

lemma sample_queryRow [simp]: "queryRow sample_env op f s = (case f s of None \<Rightarrow> (Inl (wrap_err op ErrNoRows), s) | Some x \<Rightarrow> (Inr x, s))"
  by (simp add: queryRow_def onErr_def split: option.split)

lemma sample_exec [simp]: "exec sample_env op violated change s =
    (case first_err (violated s) of Some e \<Rightarrow> (Inl e, s) | None \<Rightarrow> (Inr (fst (change s)), snd (change s)))"
  by (simp add: exec_def)

definition sample_user :: "ident \<Rightarrow> string \<Rightarrow> string \<Rightarrow> user" where
  "sample_user uid name role = \<lparr>u_ID = uid, u_Username = name, u_DisplayName = [], u_PasswordHash = ''hash of secret-pass'',
     u_Role = role, u_Locale = ''en'', u_TOTPSecret = [], u_TOTPPending = [], u_TOTPEnabled = False, u_Disabled = False,
     u_CreatedAt = 1, u_UpdatedAt = 1, u_LastLoginAt = 0\<rparr>"

definition sample_code :: "ident \<Rightarrow> ident \<Rightarrow> string \<Rightarrow> recovery_code" where
  "sample_code cid uid code = \<lparr>rc_ID = cid, rc_UserID = uid, rc_Hash = ''hash of '' @ code, rc_UsedAt = 0\<rparr>"

definition sample_accounts :: "nat db" where
  "sample_accounts = empty_db 0\<lparr>db_users := [sample_user ''u1'' ''root'' ''administrator'', sample_user ''u2'' ''ops'' ''operator''],
     db_codes := [sample_code ''c1'' ''u2'' ''12345-abcde'']\<rparr>"

end
