(* ===== verification/AuthLaws.thy ===== *)
theory AuthLaws
  imports Auth ControllerSamples
begin

text \<open>
  What authentication guarantees: a caller is let in only with an unrevoked token or a signature of the web
  interface over this very request, signatures made by the program are accepted, and revocation is final.
\<close>

section \<open>Hexadecimal text\<close>

lemma hex_digit_plain: "d < 16 \<Longrightarrow> \<not> is_space (hex_digit d) \<and> lower_char (hex_digit d) = hex_digit d"
proof -
  have "list_all (\<lambda>d. \<not> is_space (hex_digit d) \<and> lower_char (hex_digit d) = hex_digit d) [0..<16]" by code_simp
  then show "d < 16 \<Longrightarrow> ?thesis" by (simp add: list_all_iff)
qed

lemma hexEncode_plain: "c \<in> set (hexEncode b) \<Longrightarrow> \<not> is_space c \<and> lower_char c = c"
proof -
  assume "c \<in> set (hexEncode b)"
  then obtain x :: char where "c = hex_digit (of_char x div 16) \<or> c = hex_digit (of_char x mod 16)" by (auto simp: hexEncode_def)
  moreover have "(of_char x :: nat) < 256" by simp
  then have "(of_char x :: nat) div 16 < 16" by (simp add: div_less_iff_less_mult)
  ultimately show ?thesis using hex_digit_plain [of "of_char x div 16"] hex_digit_plain [of "of_char x mod 16"] by auto
qed

lemma TrimSpace_hex [simp]: "TrimSpace (hexEncode b) = hexEncode b"
  by (rule TrimSpace_no_space) (use hexEncode_plain in blast)

lemma TrimSpace_Itoa [simp]: "TrimSpace (Itoa n) = Itoa n"
proof (rule TrimSpace_no_space, intro ballI)
  fix c assume "c \<in> set (Itoa n)"
  then show "\<not> is_space c" using set_Itoa [of c n] by (auto simp: is_digit_def is_space_def)
qed

lemma hexEncode_Nil [simp]: "hexEncode b = [] \<longleftrightarrow> b = []"
  by (cases b) (simp_all add: hexEncode_def)

section \<open>Who is let in\<close>

text \<open>The request carries a signature of the web interface over its method, path, body and session.\<close>

definition ui_signed :: "'w env \<Rightarrow> 'w authenticator \<Rightarrow> request \<Rightarrow> string \<Rightarrow> bool" where
  "ui_signed env a r body \<longleftrightarrow>
     ToLower (TrimSpace (rq_Header r HeaderUISig)) =
     ToLower (uiMAC env a (TrimSpace (rq_Header r HeaderUITime)) (rq_Method r) (rq_Path r) (TrimSpace (rq_Header r HeaderUIName))
       (TrimSpace (rq_Header r HeaderUIRole)) (TrimSpace (rq_Header r HeaderUIUser)) body)"

definition hmac_signed :: "'w env \<Rightarrow> request \<Rightarrow> string \<Rightarrow> string \<Rightarrow> bool" where
  "hmac_signed env r body token \<longleftrightarrow>
     ToLower (TrimSpace (rq_Header r HeaderSignature)) =
     ToLower (hexEncode (e_hmac_sha256 env token (canonical env (TrimSpace (rq_Header r HeaderTimestamp)) (rq_Method r) (rq_Path r) body)))"

lemma reads_verifyUI:
  "reads (\<lambda>s op. case op of None \<Rightarrow> True
     | Some p \<Rightarrow> ui_signed env a r body \<and> pr_Role p \<in> {''administrator'', ''operator'', ''readonly''} \<and>
         pr_Name p = TrimSpace (rq_Header r HeaderUIName) \<and> pr_UserID p = TrimSpace (rq_Header r HeaderUIUser)) (verifyUI env a r body)"
  (is "reads ?Q _")
proof -
  have role: "rl = ''administrator'' \<or> rl = ''operator'' \<or> rl = ''readonly''" if "ParseHumanRole x = Inr rl" for x rl
    using that by (auto simp: ParseHumanRole_def Let_def split: if_splits)
  show ?thesis unfolding verifyUI_def Let_def
    by (auto split: prod.split sum.split simp: ui_signed_def dest!: role
        intro!: reads_fail reads_return reads_bind [OF reads_only_nowA])
qed

lemma reads_verifyHMAC: "reads (\<lambda>_ _. hmac_signed env r body token) (verifyHMAC env a r body token)"
  unfolding verifyHMAC_def Let_def
  by (auto split: prod.split simp: hmac_signed_def intro!: reads_fail reads_return reads_bind [OF reads_only_nowA])

definition token_caller :: "'w env \<Rightarrow> 'w authenticator \<Rightarrow> request \<Rightarrow> string \<Rightarrow> 'w db \<Rightarrow> principal \<Rightarrow> bool" where
  "token_caller env a r body s p \<longleftrightarrow> (\<exists>token. bearer r = Inr token \<and> (au_hmacReq a \<longrightarrow> hmac_signed env r body token) \<and>
     (\<exists>t \<in> set (db_tokens s). \<not> tk_Revoked t \<and> e_compare env (tk_Hash t) token \<and> p = \<lparr>pr_Name = tk_Name t, pr_Role = tk_Role t, pr_UserID = []\<rparr>))"

definition ui_caller :: "'w env \<Rightarrow> 'w authenticator \<Rightarrow> request \<Rightarrow> string \<Rightarrow> principal \<Rightarrow> bool" where
  "ui_caller env a r body p \<longleftrightarrow> ui_signed env a r body \<and> pr_Role p \<in> {''administrator'', ''operator'', ''readonly''} \<and>
     pr_Name p = TrimSpace (rq_Header r HeaderUIName) \<and> pr_UserID p = TrimSpace (rq_Header r HeaderUIUser)"

lemma reads_Authenticate:
  "reads (\<lambda>s p. ui_caller env a r body p \<or> token_caller env a r body s p) (Authenticate env a r body)"
  unfolding Authenticate_def
proof (rule reads_bind [OF reads_verifyUI])
  fix op
  show "reads (\<lambda>s p. (case op of None \<Rightarrow> True
     | Some p \<Rightarrow> ui_signed env a r body \<and> pr_Role p \<in> {''administrator'', ''operator'', ''readonly''} \<and>
         pr_Name p = TrimSpace (rq_Header r HeaderUIName) \<and> pr_UserID p = TrimSpace (rq_Header r HeaderUIUser)) \<longrightarrow>
        ui_caller env a r body p \<or> token_caller env a r body s p)
     (case op of Some p \<Rightarrow> returnA p
      | None \<Rightarrow> bindA (liftE (bearer r)) (\<lambda>token. bindA (matchToken env token) (\<lambda>tok.
       bindA (if au_hmacReq a then verifyHMAC env a r body token else returnA ()) (\<lambda>_.
         returnA \<lparr>pr_Name = tk_Name tok, pr_Role = tk_Role tok, pr_UserID = []\<rparr>))))"
  proof (cases op)
    case (Some p)
    then show ?thesis by (auto simp: ui_caller_def intro: reads_return)
  next
    case None
    show ?thesis
    proof (cases "bearer r")
      case (Inl e)
      then show ?thesis using None by (simp add: liftE_def reads_fail)
    next
      case (Inr token)
      have h: "reads (\<lambda>_ _. au_hmacReq a \<longrightarrow> hmac_signed env r body token) (if au_hmacReq a then verifyHMAC env a r body token else returnA ())"
        by (auto intro: reads_return reads_mono [OF reads_verifyHMAC])
      have "reads (token_caller env a r body) (bindA (matchToken env token) (\<lambda>tok.
       bindA (if au_hmacReq a then verifyHMAC env a r body token else returnA ()) (\<lambda>_.
         returnA \<lparr>pr_Name = tk_Name tok, pr_Role = tk_Role tok, pr_UserID = []\<rparr>)))"
        by (rule reads_bind [OF reads_matchToken], rule reads_bind [OF h], rule reads_return) (use Inr in \<open>auto simp: token_caller_def\<close>)
      then show ?thesis using None Inr by (auto simp: liftE_def elim: reads_mono)
    qed
  qed
qed

text \<open>C39: Nobody is let in without a credential: a caller the controller accepts either sent a token whose hash
  is stored and not revoked, and then acts with that token's name and role, with a signature over the request
  where signatures are required; or the request carries the web interface's signature over its own method,
  path, body and session, and the role is a human one.\<close>

theorem authenticate_sound:
  assumes "Authenticate env a r body s = (Inr p, s')"
  shows "ui_caller env a r body p \<or> token_caller env a r body s p"
  using reads_val [OF reads_Authenticate assms] by blast

section \<open>Signatures made by the program\<close>

lemma nowA_clock: "nowA env s = (Inr (fst (e_now env (db_world s))), s\<lparr>db_world := snd (e_now env (db_world s))\<rparr>)"
  by (simp add: nowA_def lift_world_def split: prod.split)

definition unix_ok :: "gotime \<Rightarrow> bool" where
  "unix_ok t \<longleftrightarrow> - 9223372036854775808 \<le> unix_seconds t \<and> unix_seconds t < 9223372036854775808"

lemma ParseInt_unix: "unix_ok t \<Longrightarrow> ParseInt (Itoa (unix_seconds t)) = (unix_seconds t, NumOk)"
  by (simp add: unix_ok_def ParseInt_Itoa)

text \<open>What a client signs is accepted: a request that carries the timestamp and signature of \<open>Sign\<close> for its
  own method, path and body passes the check for the same token on any clock within the skew.\<close>

lemma signed_request_accepted:
  assumes "(ts, sig) = auth_Sign env token (rq_Method r) (rq_Path r) body t"
    and "rq_Header r HeaderTimestamp = ts" and "rq_Header r HeaderSignature = sig"
    and "unix_ok t" and "within_skew (au_maxSkew a) (fst (e_now env (db_world s))) (from_unix (unix_seconds t))"
    and "\<And>k m. e_hmac_sha256 env k m \<noteq> []"
  shows "fst (verifyHMAC env a r body token s) = Inr ()"
  using assms by (simp add: auth_Sign_def Let_def verifyHMAC_def ParseInt_unix bindA_def nowA_clock)

lemma signed_session:
  assumes "SignUI env a r name role uid s0 = (Inr r1, s1)"
    and "TrimSpace name = name" and "name \<noteq> []" and "ParseHumanRole role = Inr role" and "TrimSpace uid = uid"
    and "unix_ok (fst (e_now env (db_world s0)))"
    and "within_skew (au_maxSkew a) (fst (e_now env (db_world s))) (from_unix (unix_seconds (fst (e_now env (db_world s0)))))"
    and "\<And>k m. e_hmac_sha256 env k m \<noteq> []"
  shows "fst (Authenticate env a r1 (rq_Body r) s) = Inr \<lparr>pr_Name = name, pr_Role = role, pr_UserID = uid\<rparr>"
proof -
  have role: "TrimSpace role = role" "role \<noteq> []"
    using assms(4) by (auto simp: ParseHumanRole_def Let_def split: if_splits) (metis TrimSpace_lower_trim)+
  have "r1 = r\<lparr>rq_Header := (rq_Header r)(HeaderUIName := name, HeaderUIRole := role, HeaderUIUser := uid,
      HeaderUITime := Itoa (unix_seconds (fst (e_now env (db_world s0)))),
      HeaderUISig := uiMAC env a (Itoa (unix_seconds (fst (e_now env (db_world s0))))) (rq_Method r) (rq_Path r) name role uid (rq_Body r))\<rparr>"
    using assms(1) by (simp add: SignUI_def bindA_def nowA_clock Let_def returnA_def)
  then have "fst (verifyUI env a r1 (rq_Body r) s) = Inr (Some \<lparr>pr_Name = name, pr_Role = role, pr_UserID = uid\<rparr>)"
    using assms role by (simp add: verifyUI_def Let_def header_defs uiMAC_def ParseInt_unix bindA_def nowA_clock)
  then obtain s2 where "verifyUI env a r1 (rq_Body r) s = (Inr (Some \<lparr>pr_Name = name, pr_Role = role, pr_UserID = uid\<rparr>), s2)"
    by (metis prod.collapse)
  then show ?thesis by (simp add: Authenticate_def bindA_Inr)
qed

text \<open>A web session reaches the API as itself: the request signed for a session authenticates, within the
  skew, as exactly the principal with that name, role and user.\<close>

lemma ui_session_roundtrip:
  assumes "SignUI env a r name role uid s0 = (Inr r1, s1)"
    and "TrimSpace name = name" and "name \<noteq> []" and "ParseHumanRole role = Inr role" and "TrimSpace uid = uid"
    and "unix_ok (fst (e_now env (db_world s0)))"
    and "within_skew (au_maxSkew a) (fst (e_now env (db_world s))) (from_unix (unix_seconds (fst (e_now env (db_world s0)))))"
    and "\<And>k m. e_hmac_sha256 env k m \<noteq> []"
  shows "fst (Authenticate env a r1 (rq_Body r) s) = Inr \<lparr>pr_Name = name, pr_Role = role, pr_UserID = uid\<rparr>"
  by (rule signed_session [OF assms])

section \<open>Revocation is final\<close>

text \<open>The operations that touch the token table.\<close>

inductive token_step :: "'w env \<Rightarrow> 'w authenticator \<Rightarrow> 'w token_file \<Rightarrow> 'w db \<Rightarrow> 'w db \<Rightarrow> bool" for env a tf where
  Mint: "auth_CreateToken env a name role s = (r, s') \<Longrightarrow> token_step env a tf s s'"
| Bootstrap: "EnsureBootstrapToken env a tf path s = (r, s') \<Longrightarrow> token_step env a tf s s'"
| Revoke: "RevokeToken env i s = (r, s') \<Longrightarrow> token_step env a tf s s'"
| Check: "Authenticate env a rq body s = (r, s') \<Longrightarrow> token_step env a tf s s'"

text \<open>Tokens have admitted roles and distinct ids; the ids of \<open>D\<close> stay in the table, revoked.\<close>

definition tokens_ok :: "ident set \<Rightarrow> 'w db \<Rightarrow> bool" where
  "tokens_ok D s \<longleftrightarrow> distinct (map tk_ID (db_tokens s)) \<and> (\<forall>t \<in> set (db_tokens s). tk_Role t \<in> set token_roles) \<and>
     (\<forall>i \<in> D. \<exists>t \<in> set (db_tokens s). tk_ID t = i \<and> tk_Revoked t)"

lemma of_tables_tokens: "of_tables (tokens_ok D)"
  by (simp add: of_tables_def tokens_ok_def)

lemma keeps_tokens_True: "of_tables (\<lambda>_. True)"
  by (simp add: of_tables_def)

definition minted :: "token \<Rightarrow> 'w db \<Rightarrow> 'w db \<Rightarrow> bool" where
  "minted t s s' \<longleftrightarrow> tk_Role t \<in> set token_roles \<and> (\<forall>r \<in> set (db_tokens s). tk_ID r \<noteq> tk_ID t) \<and>
     (\<exists>c. s' = s\<lparr>db_tokens := db_tokens s @ [t\<lparr>tk_CreatedAt := c\<rparr>]\<rparr>)"

lemma CreateToken_effects: "effects (\<lambda>s _. minted t s) (CreateToken env t)"
  unfolding CreateToken_def insertA_def
  apply (rule effects_bind_reads_only [OF reads_only_nowRFC3339])
  apply (rule effects_then [where R = "\<lambda>s _. minted t s" and g = "\<lambda>_. ()"])
   apply (intro effects_onErr effects_exec)
   apply (auto simp: minted_def)
  done

lemma keeps_CreateToken: "keeps (tokens_ok D) (CreateToken env t)"
  by (rule keeps_effects [OF of_tables_tokens keeps_tokens_True CreateToken_effects]) (auto simp: tokens_ok_def minted_def, metis)

lemma RevokeToken_effects:
  "effects (\<lambda>s _ s'. (\<exists>t \<in> set (db_tokens s). tk_ID t = i) \<and>
     s' = s\<lparr>db_tokens := upd_where (\<lambda>t. tk_ID t = i) (\<lambda>t. t\<lparr>tk_Revoked := True\<rparr>) (db_tokens s)\<rparr>) (RevokeToken env i)"
  unfolding RevokeToken_def updateA_def
  apply (rule effects_some_row [where R = "\<lambda>s n s'. n = length (filter (\<lambda>k. k = i) (map tk_ID (db_tokens s))) \<and>
     s' = s\<lparr>db_tokens := upd_where (\<lambda>t. tk_ID t = i) (\<lambda>t. t\<lparr>tk_Revoked := True\<rparr>) (db_tokens s)\<rparr>"])
    apply (intro effects_onErr effects_exec)
    apply (auto simp: filter_empty_conv upd_where_none filter_map comp_def dest!: length_pos_if_in_set)
  done

lemma revoked_ids: "map tk_ID (upd_where P (\<lambda>t. t\<lparr>tk_Revoked := True\<rparr>) ts) = map tk_ID ts"
  by (rule map_upd_where) simp

lemma revoked_upd:
  assumes "\<exists>t \<in> set ts. tk_ID t = j \<and> (tk_Revoked t \<or> j = i)"
  shows "\<exists>t \<in> set (upd_where (\<lambda>t. tk_ID t = i) (\<lambda>t. t\<lparr>tk_Revoked := True\<rparr>) ts). tk_ID t = j \<and> tk_Revoked t"
proof -
  obtain t where t: "t \<in> set ts" "tk_ID t = j" "tk_Revoked t \<or> j = i" using assms by blast
  then have mem: "(if tk_ID t = i then t\<lparr>tk_Revoked := True\<rparr> else t) \<in> set (upd_where (\<lambda>t. tk_ID t = i) (\<lambda>t. t\<lparr>tk_Revoked := True\<rparr>) ts)"
    by (force simp: upd_where_def)
  show ?thesis by (rule bexI [OF _ mem]) (use t in auto)
qed

lemma upd_roles: "\<forall>t \<in> set ts. P (tk_Role t) \<Longrightarrow> \<forall>t \<in> set (upd_where Q (\<lambda>t. t\<lparr>tk_Revoked := True\<rparr>) ts). P (tk_Role t)"
  by (auto simp: upd_where_def)

lemma keeps_RevokeToken: "keeps (tokens_ok D) (RevokeToken env i)"
proof (rule keeps_effects [OF of_tables_tokens keeps_tokens_True RevokeToken_effects])
  fix s :: "'w db" and s'
  assume a: "(\<exists>t \<in> set (db_tokens s). tk_ID t = i) \<and>
      s' = s\<lparr>db_tokens := upd_where (\<lambda>t. tk_ID t = i) (\<lambda>t. t\<lparr>tk_Revoked := True\<rparr>) (db_tokens s)\<rparr>" and ok: "tokens_ok D s"
  have "\<exists>t \<in> set (db_tokens s'). tk_ID t = j \<and> tk_Revoked t" if "j \<in> D" for j
  proof -
    have "\<exists>t \<in> set (db_tokens s). tk_ID t = j \<and> (tk_Revoked t \<or> j = i)" using ok that unfolding tokens_ok_def by blast
    from revoked_upd [OF this] show ?thesis using a by simp
  qed
  moreover have "\<forall>t \<in> set (db_tokens s'). tk_Role t \<in> set token_roles"
    using a ok upd_roles [of "db_tokens s" "\<lambda>r. r \<in> set token_roles"] by (simp add: tokens_ok_def)
  ultimately show "tokens_ok D s'" using a ok by (simp add: tokens_ok_def revoked_ids)
qed

lemma reads_only_tokens [table_intros]: "reads_only (randomToken env)" "reads_only (newID env a)" "reads_only (HasTokenName env n)"
proof -
  show "reads_only (randomToken env)" unfolding randomToken_def by (intro table_intros)
  have "reads_only (\<lambda>s. (Inr (0 < length (filter (\<lambda>t. tk_Name t = n) (db_tokens s))), s))" by (simp add: reads_def)
  then show "reads_only (HasTokenName env n)" unfolding HasTokenName_def by (intro table_intros)
  have "reads_only (bindA (lift_world (\<lambda>w. case au_counter a w of (n, w') \<Rightarrow> (Inr n, w'))) (\<lambda>n.
        bindA (nowA env) (\<lambda>t. returnA (''tok-'' @ Itoa (UnixNano t) @ ''-'' @ Itoa (int n)))))" by (intro table_intros)
  moreover have "reads_only (lift_world (e_rand env 16))" by (rule table_intros)
  ultimately show "reads_only (newID env a)" unfolding reads_def newID_def
    by (auto split: prod.splits sum.splits) (blast intro: same_tables_trans)+
qed

lemma reads_only_token_text [table_intros]: "reads_only (token_text env tf)"
proof -
  have f: "reads_only (fresh_token env tf)" unfolding fresh_token_def by (intro table_intros)
  show ?thesis unfolding reads_def token_text_def
  proof (intro allI impI)
    fix s r s1
    assume "(case tf_Read tf (db_world s) of None \<Rightarrow> fresh_token env tf s
      | Some b \<Rightarrow> if 0 < length (TrimSpace b) then (Inr (TrimSpace b), s) else fresh_token env tf s) = (r, s1)"
    then show "same_tables s s1 \<and> (\<forall>u. r = Inr u \<longrightarrow> (\<forall>t. same_tables s t \<longrightarrow> True))"
      using reads_same [OF f] by (auto split: option.splits if_splits)
  qed
qed

lemmas token_reads = keeps_reads_only [OF of_tables_tokens]

lemma keeps_mint: "keeps (tokens_ok D) (auth_CreateToken env a name role)"
  unfolding auth_CreateToken_def Let_def
  by (intro keeps_bind keeps_return keeps_CreateToken token_reads reads_only_tokens(1,2) reads_only_lift reads_only_nowA)

lemma keeps_bootstrap: "keeps (tokens_ok D) (EnsureBootstrapToken env a tf path)"
proof -
  have "keeps (tokens_ok D) (\<lambda>s. if tf_Stat tf (db_world s) then (Inr False, s) else (Inl e, s))" for e
    by (simp add: keeps_from_def)
  moreover have "keeps (tokens_ok D) (bindA (token_text env tf) (\<lambda>plain.
       bindA (lift_world (e_bcrypt env plain)) (\<lambda>hash. bindA (newID env a) (\<lambda>tid. bindA (nowA env) (\<lambda>now.
       bindA (CreateToken env \<lparr>tk_ID = tid, tk_Name = bootstrapName, tk_Hash = hash, tk_Role = ''operator'', tk_CreatedAt = now, tk_Revoked = False\<rparr>)
         (\<lambda>_. returnA True))))))"
    by (intro keeps_bind keeps_return keeps_CreateToken token_reads reads_only_tokens(2) reads_only_token_text reads_only_lift reads_only_nowA)
  ultimately have "keeps (tokens_ok D) (if ok then \<lambda>s. if tf_Stat tf (db_world s) then (Inr False, s) else (Inl e, s)
      else bindA (token_text env tf) (\<lambda>plain.
       bindA (lift_world (e_bcrypt env plain)) (\<lambda>hash. bindA (newID env a) (\<lambda>tid. bindA (nowA env) (\<lambda>now.
       bindA (CreateToken env \<lparr>tk_ID = tid, tk_Name = bootstrapName, tk_Hash = hash, tk_Role = ''operator'', tk_CreatedAt = now, tk_Revoked = False\<rparr>)
         (\<lambda>_. returnA True))))))" for ok e
    by simp
  then show ?thesis unfolding EnsureBootstrapToken_def
    by (intro keeps_bind token_reads [OF reads_only_tokens(3)])
qed

lemma token_step_ok: "token_step env a tf s s' \<Longrightarrow> tokens_ok D s \<Longrightarrow> tokens_ok D s'"
  by (induction rule: token_step.induct)
     (auto dest: keepsD [OF keeps_mint] keepsD [OF keeps_bootstrap] keepsD [OF keeps_RevokeToken]
       keepsD [OF keeps_reads [OF of_tables_tokens reads_Authenticate]])

lemma token_run_ok: "(token_step env a tf)\<^sup>*\<^sup>* s s' \<Longrightarrow> tokens_ok D s \<Longrightarrow> tokens_ok D s'"
  by (induction rule: rtranclp_induct) (auto intro: token_step_ok)

text \<open>C40: Revocation is final and token callers are never administrators: once a token is revoked, whatever is
  minted, bootstrapped or revoked afterwards, a caller let in without a session signature holds a different,
  unrevoked token, and its role is operator, readonly or agent.\<close>

theorem revoked_token_is_dead:
  assumes "RevokeToken env i s = (Inr u, s1)" and "tokens_ok {} s" and "(token_step env a tf)\<^sup>*\<^sup>* s1 s2"
    and "Authenticate env a r body s2 = (Inr p, s3)" and "\<not> ui_caller env a r body p"
  shows "\<exists>t \<in> set (db_tokens s2). tk_ID t \<noteq> i \<and> \<not> tk_Revoked t \<and> tk_Name t = pr_Name p \<and> tk_Role t = pr_Role p \<and>
    pr_Role p \<in> {''operator'', ''readonly'', ''agent''}"
proof -
  obtain s0 where s0: "same_tables s s0" "\<exists>t \<in> set (db_tokens s0). tk_ID t = i"
      "s1 = s0\<lparr>db_tokens := upd_where (\<lambda>t. tk_ID t = i) (\<lambda>t. t\<lparr>tk_Revoked := True\<rparr>) (db_tokens s0)\<rparr>"
    using effects_Inr [OF RevokeToken_effects assms(1)] by blast
  have "tokens_ok {} s1" using keepsD [OF keeps_RevokeToken assms(1,2)] .
  moreover have "\<exists>t \<in> set (db_tokens s1). tk_ID t = i \<and> tk_Revoked t"
    using revoked_upd [of "db_tokens s0" i i] s0 by auto
  ultimately have "tokens_ok {i} s1" by (simp add: tokens_ok_def)
  then have ok: "tokens_ok {i} s2" by (rule token_run_ok [OF assms(3)])
  obtain t where t: "t \<in> set (db_tokens s2)" "\<not> tk_Revoked t" "pr_Name p = tk_Name t" "pr_Role p = tk_Role t"
    using reads_val [OF reads_Authenticate assms(4)] assms(5) by (auto simp: token_caller_def)
  have "tk_ID t \<noteq> i"
  proof
    assume "tk_ID t = i"
    moreover obtain d where "d \<in> set (db_tokens s2)" "tk_ID d = i" "tk_Revoked d" using ok by (auto simp: tokens_ok_def)
    ultimately show False using t ok unfolding tokens_ok_def by (metis distinct_map inj_onD)
  qed
  moreover have "pr_Role p \<in> {''operator'', ''readonly'', ''agent''}" using ok t by (auto simp: tokens_ok_def token_roles_def)
  ultimately show ?thesis using t by auto
qed

section \<open>Witnesses\<close>

definition sample_auth :: "nat authenticator" where
  "sample_auth = \<lparr>au_hmacReq = False, au_maxSkew = 5 * Minute, au_uiKey = ''ui key'', au_counter = (\<lambda>w. (w, w + 1))\<rparr>"

definition sample_request :: request where
  "sample_request = \<lparr>rq_Method = ''GET'', rq_Path = ''/api/v1/nodes'', rq_Header = (\<lambda>h. if h = ''Authorization'' then ''Bearer tok-two'' else []),
     rq_Query = (\<lambda>_. []), rq_RemoteAddr = ''10.0.0.9:4444'', rq_Body = []\<rparr>"

definition sample_token :: "ident \<Rightarrow> string \<Rightarrow> token" where
  "sample_token i name = \<lparr>tk_ID = i, tk_Name = name, tk_Hash = ''hash of '' @ name, tk_Role = ''agent'', tk_CreatedAt = 1, tk_Revoked = False\<rparr>"

definition sample_tokens :: "nat db" where
  "sample_tokens = empty_db 0\<lparr>db_tokens := [sample_token ''t1'' ''tok-one'', sample_token ''t2'' ''tok-two'']\<rparr>"

definition agent_principal :: principal where
  "agent_principal = \<lparr>pr_Name = ''tok-two'', pr_Role = ''agent'', pr_UserID = []\<rparr>"

lemma sample_bearer: "bearer sample_request = Inr ''tok-two''"
  by code_simp

lemma sample_no_ui: "verifyUI sample_env sample_auth sample_request b = returnA None"
  by (simp add: verifyUI_def Let_def sample_request_def header_defs)

lemma sample_Authenticate:
  assumes "db_tokens s = [t, sample_token ''t2'' ''tok-two'']" and "tk_Hash t = ''hash of tok-one''"
  shows "Authenticate sample_env sample_auth sample_request b s = (Inr agent_principal, s)"
proof -
  have "matchToken sample_env ''tok-two'' s = (Inr (sample_token ''t2'' ''tok-two''), s)"
    using assms by (simp add: matchToken_def ListTokens_def bindA_def sample_env_sels sample_token_def)
  moreover have "\<not> au_hmacReq sample_auth" by (simp add: sample_auth_def)
  ultimately show ?thesis
    by (simp add: Authenticate_def sample_no_ui sample_bearer liftE_def bindA_def sample_token_def agent_principal_def)
qed

lemma authenticate_sound_witness:
  "ui_caller sample_env sample_auth sample_request [] agent_principal \<or>
   token_caller sample_env sample_auth sample_request [] sample_tokens agent_principal"
  by (rule authenticate_sound, rule sample_Authenticate [where t = "sample_token ''t1'' ''tok-one''"]) (simp_all add: sample_tokens_def sample_token_def)

lemma sample_revoke:
  "RevokeToken sample_env ''t1'' sample_tokens =
     (Inr (), sample_tokens\<lparr>db_tokens := [sample_token ''t1'' ''tok-one''\<lparr>tk_Revoked := True\<rparr>, sample_token ''t2'' ''tok-two'']\<rparr>)"
  by (simp add: RevokeToken_def updateA_def exec_def driver_def lift_world_def bindA_def onErr_def sample_env_def some_row_def
      upd_where_def sample_tokens_def sample_token_def empty_db_def)

lemma not_ui_caller: "\<not> ui_caller sample_env sample_auth sample_request [] agent_principal"
  by (simp add: ui_caller_def agent_principal_def)

lemma revoked_token_is_dead_witness:
  "\<exists>t \<in> set (db_tokens (snd (RevokeToken sample_env ''t1'' sample_tokens))). tk_ID t \<noteq> ''t1'' \<and> \<not> tk_Revoked t \<and> tk_Name t = ''tok-two''"
proof -
  let ?s = "sample_tokens\<lparr>db_tokens := [sample_token ''t1'' ''tok-one''\<lparr>tk_Revoked := True\<rparr>, sample_token ''t2'' ''tok-two'']\<rparr>"
  have a: "Authenticate sample_env sample_auth sample_request [] ?s = (Inr agent_principal, ?s)"
    by (rule sample_Authenticate [where t = "sample_token ''t1'' ''tok-one''\<lparr>tk_Revoked := True\<rparr>"]) (simp_all add: sample_token_def)
  have ok: "tokens_ok {} sample_tokens" by (simp add: tokens_ok_def sample_tokens_def sample_token_def token_roles_def)
  show ?thesis
    using revoked_token_is_dead [OF sample_revoke ok rtranclp.rtrancl_refl a not_ui_caller]
    unfolding sample_revoke snd_conv by (auto simp: agent_principal_def)
qed

lemma sample_clock: "fst (e_now sample_env w) = int w + 1"
  by (simp add: sample_env_def)

lemma sample_skew: "unix_ok 1" "within_skew (au_maxSkew sample_auth) 1 (from_unix (unix_seconds 1))"
  by (simp_all add: unix_ok_def unix_seconds_def within_skew_def from_unix_def sample_auth_def Second_def Minute_def)

lemma signed_request_accepted_witness:
  "\<exists>r. fst (verifyHMAC sample_env sample_auth r ''body'' ''tok-two'' (empty_db 0)) = Inr ()"
proof -
  obtain ts sig where sg: "(ts, sig) = auth_Sign sample_env ''tok-two'' ''GET'' ''/api/v1/nodes'' ''body'' 1" by (metis surj_pair)
  let ?r = "sample_request\<lparr>rq_Header := (\<lambda>_. [])(HeaderTimestamp := ts, HeaderSignature := sig)\<rparr>"
  have "fst (verifyHMAC sample_env sample_auth ?r ''body'' ''tok-two'' (empty_db 0)) = Inr ()"
    by (rule signed_request_accepted [where t = 1 and ts = ts and sig = sig])
       (use sg sample_skew in \<open>simp_all add: sample_request_def header_defs sample_clock empty_db_def, simp_all add: sample_env_def\<close>)
  then show ?thesis by blast
qed

lemma ui_session_roundtrip_witness:
  "\<exists>r1. fst (Authenticate sample_env sample_auth r1 [] (empty_db 0)) = Inr \<lparr>pr_Name = ''root'', pr_Role = ''operator'', pr_UserID = ''u1''\<rparr>"
proof -
  obtain r1 where sg: "SignUI sample_env sample_auth sample_request ''root'' ''operator'' ''u1'' (empty_db 0) = (Inr r1, empty_db 1)"
    by (simp add: SignUI_def bindA_def nowA_clock Let_def returnA_def empty_db_def sample_env_def)
  have "TrimSpace ''root'' = ''root''" "TrimSpace ''u1'' = ''u1''" "ParseHumanRole ''operator'' = Inr ''operator''" by code_simp+
  then have "fst (Authenticate sample_env sample_auth r1 (rq_Body sample_request) (empty_db 0)) =
      Inr \<lparr>pr_Name = ''root'', pr_Role = ''operator'', pr_UserID = ''u1''\<rparr>"
    by (intro ui_session_roundtrip [OF sg]) (use sample_skew in \<open>simp_all add: sample_clock empty_db_def, simp add: sample_env_def\<close>)
  then show ?thesis by (auto simp: sample_request_def)
qed

end
