(* ===== verification/Client.thy ===== *)
theory Client
  imports ApiRoutes AuthLaws
begin

text \<open>
  The client of the API (src/internal/client/client.go): the request it builds and signs, how it reads the
  reply, and the method and path of each of its calls, next to the table of routes of the server. The
  transport \<open>rt\<close> and the clock are arguments. A reply arrives as the Go value that was encoded; \<open>txt\<close> is the
  text of a body that is no coded error. Identifiers in a path are taken as they are, which is what the URL
  parser does with those that hold no \<open>/\<close>, \<open>?\<close>, \<open>#\<close> or \<open>%\<close>.
\<close>

section \<open>Calls\<close>

record client =
  cl_BaseURL :: string
  cl_Token :: string
  cl_UserAgent :: string

definition client_New :: "string \<Rightarrow> string \<Rightarrow> client" where
  "client_New baseURL token = \<lparr>cl_BaseURL = TrimRightFunc (\<lambda>c. c = CHR ''/'') baseURL, cl_Token = TrimSpace token, cl_UserAgent = ''transitforge''\<rparr>"

definition slashed :: "string \<Rightarrow> string" where
  "slashed path = (if HasPrefix path ''/'' then path else CHR ''/'' # path)"

text \<open>\<open>inp\<close> is the encoded value of the body, None for a call without one; \<open>now\<close> is read for signed requests only.\<close>

definition client_request :: "'w env \<Rightarrow> client \<Rightarrow> string \<Rightarrow> string \<Rightarrow> (string \<Rightarrow> string) \<Rightarrow> string option \<Rightarrow> gotime \<Rightarrow> request" where
  "client_request env c method path q inp now =
     (let body = (case inp of None \<Rightarrow> [] | Some b \<Rightarrow> b);
          h0 = (\<lambda>_. [])(''Accept'' := ''application/json'', ''User-Agent'' := cl_UserAgent c);
          h1 = (case inp of None \<Rightarrow> h0 | Some _ \<Rightarrow> h0(''Content-Type'' := ''application/json''));
          h2 = (if cl_Token c = [] then h1
                else case auth_Sign env (cl_Token c) method (slashed path) body now of (ts, sig) \<Rightarrow>
                  h1(''Authorization'' := ''Bearer '' @ cl_Token c, HeaderTimestamp := ts, HeaderSignature := sig))
      in \<lparr>rq_Method = method, rq_Path = slashed path, rq_Header = h2, rq_Query = q, rq_RemoteAddr = [], rq_Body = body\<rparr>)"

definition read_reply :: "(reply \<Rightarrow> string) \<Rightarrow> int \<Rightarrow> reply \<Rightarrow> goerr + reply" where
  "read_reply txt status rep =
     (if status \<ge> 400
      then (case rep of
          RError ce \<Rightarrow> if ce_Code ce \<noteq> [] then Inl (Coded (CodedError (ce_Code ce) (ce_Message ce) status))
                       else Inl (Plain (''http '' @ Itoa status @ '': '' @ TrimSpace (txt rep)))
        | _ \<Rightarrow> Inl (Plain (''http '' @ Itoa status @ '': '' @ TrimSpace (txt rep))))
      else Inr rep)"

definition client_Do :: "'w env \<Rightarrow> (reply \<Rightarrow> string) \<Rightarrow> ('s, goerr, gotime) act \<Rightarrow> (request \<Rightarrow> ('s, goerr, int \<times> reply) act) \<Rightarrow>
    client \<Rightarrow> string \<Rightarrow> string \<Rightarrow> (string \<Rightarrow> string) \<Rightarrow> string option \<Rightarrow> ('s, goerr, reply) act" where
  "client_Do env txt clock rt c method path q inp =
     bindA (if cl_Token c = [] then returnA 0 else clock) (\<lambda>now.
     bindA (rt (client_request env c method path q inp now)) (\<lambda>(status, rep). liftE (read_reply txt status rep)))"

section \<open>Methods and paths\<close>

fun method_of :: "endpoint \<Rightarrow> string" where
  "method_of PatchUserE = ''PATCH''"
| "method_of PatchBackendE = ''PATCH''"
| "method_of PatchMappingE = ''PATCH''"
| "method_of PatchSniE = ''PATCH''"
| "method_of PatchForeignE = ''PATCH''"
| "method_of DeleteMappingE = ''DELETE''"
| "method_of BeginTotpE = ''POST''"
| "method_of ConfirmTotpE = ''POST''"
| "method_of DisableTotpE = ''POST''"
| "method_of RotateRecoveryE = ''POST''"
| "method_of e = (if mutates e then ''POST'' else ''GET'')"

definition api_path :: "string list \<Rightarrow> string" where
  "api_path segs = ''/api/v1/'' @ Join segs ''/''"

fun path_segments :: "endpoint \<Rightarrow> ident \<Rightarrow> string list" where
  "path_segments Whoami i = [''whoami'']"
| "path_segments ListTokensE i = [''tokens'']"
| "path_segments CreateTokenE i = [''tokens'']"
| "path_segments RevokeTokenE i = [''tokens'', i, ''revoke'']"
| "path_segments ListUsersE i = [''users'']"
| "path_segments CreateUserE i = [''users'']"
| "path_segments GetUserE i = [''users'', i]"
| "path_segments PatchUserE i = [''users'', i]"
| "path_segments BeginTotpE i = [''users'', i, ''totp'', ''begin'']"
| "path_segments ConfirmTotpE i = [''users'', i, ''totp'', ''confirm'']"
| "path_segments DisableTotpE i = [''users'', i, ''totp'', ''disable'']"
| "path_segments RotateRecoveryE i = [''users'', i, ''recovery-codes'']"
| "path_segments ListNodesE i = [''nodes'']"
| "path_segments CreateNodeE i = [''nodes'']"
| "path_segments GetNodeE i = [''nodes'', i]"
| "path_segments DesiredStateE i = [''nodes'', i, ''desired-state'']"
| "path_segments GetActualE i = [''nodes'', i, ''actual-state'']"
| "path_segments PutActualE i = [''nodes'', i, ''actual-state'']"
| "path_segments PlanE i = [''nodes'', i, ''plan'']"
| "path_segments ApplyE i = [''nodes'', i, ''apply'']"
| "path_segments FailbackE i = [''nodes'', i, ''failback'']"
| "path_segments ListBackendsE i = [''backends'']"
| "path_segments CreateBackendE i = [''backends'']"
| "path_segments GetBackendE i = [''backends'', i]"
| "path_segments PatchBackendE i = [''backends'', i]"
| "path_segments ListMappingsE i = [''mappings'']"
| "path_segments CreateMappingE i = [''mappings'']"
| "path_segments PatchMappingE i = [''mappings'', i]"
| "path_segments DeleteMappingE i = [''mappings'', i]"
| "path_segments ListTunnelsE i = [''tunnels'']"
| "path_segments CreateTunnelE i = [''tunnels'']"
| "path_segments TunnelStatusE i = [''tunnels'', i, ''status'']"
| "path_segments ListSniE i = [''sni-routes'']"
| "path_segments CreateSniE i = [''sni-routes'']"
| "path_segments GetSniE i = [''sni-routes'', i]"
| "path_segments PatchSniE i = [''sni-routes'', i]"
| "path_segments ListEventsE i = [''events'']"
| "path_segments ListForeignE i = [''foreign-nodes'']"
| "path_segments CreateForeignE i = [''foreign-nodes'']"
| "path_segments GetForeignE i = [''foreign-nodes'', i]"
| "path_segments PatchForeignE i = [''foreign-nodes'', i]"

text \<open>A call of the client.\<close>

definition client_call :: "'w env \<Rightarrow> (reply \<Rightarrow> string) \<Rightarrow> ('s, goerr, gotime) act \<Rightarrow> (endpoint \<Rightarrow> ident \<Rightarrow> request \<Rightarrow> ('s, goerr, int \<times> reply) act) \<Rightarrow>
    client \<Rightarrow> endpoint \<Rightarrow> ident \<Rightarrow> (string \<Rightarrow> string) \<Rightarrow> string option \<Rightarrow> ('s, goerr, reply) act" where
  "client_call env txt clock rt c e i q inp = client_Do env txt clock (rt e i) c (method_of e) (api_path (path_segments e i)) q inp"

definition client_RevokeToken :: "'w env \<Rightarrow> (reply \<Rightarrow> string) \<Rightarrow> ('s, goerr, gotime) act \<Rightarrow> (endpoint \<Rightarrow> ident \<Rightarrow> request \<Rightarrow> ('s, goerr, int \<times> reply) act) \<Rightarrow>
    client \<Rightarrow> ident \<Rightarrow> ('s, goerr, reply) act" where
  "client_RevokeToken env txt clock rt c i =
     (if TrimSpace i = [] \<or> ContainsAny i ''/?#%'' then failA (Validation ''invalid token ID'')
      else client_call env txt clock rt c RevokeTokenE i (\<lambda>_. []) None)"

section \<open>The table of routes\<close>

datatype seg = Lit string | ID

definition patterns :: "(string \<times> seg list \<times> endpoint) list" where
  "patterns =
    [(''GET'', [Lit ''whoami''], Whoami),
     (''GET'', [Lit ''tokens''], ListTokensE),
     (''POST'', [Lit ''tokens''], CreateTokenE),
     (''POST'', [Lit ''tokens'', ID, Lit ''revoke''], RevokeTokenE),
     (''GET'', [Lit ''users''], ListUsersE),
     (''POST'', [Lit ''users''], CreateUserE),
     (''GET'', [Lit ''users'', ID], GetUserE),
     (''PATCH'', [Lit ''users'', ID], PatchUserE),
     (''POST'', [Lit ''users'', ID, Lit ''totp'', Lit ''begin''], BeginTotpE),
     (''POST'', [Lit ''users'', ID, Lit ''totp'', Lit ''confirm''], ConfirmTotpE),
     (''POST'', [Lit ''users'', ID, Lit ''totp'', Lit ''disable''], DisableTotpE),
     (''POST'', [Lit ''users'', ID, Lit ''recovery-codes''], RotateRecoveryE),
     (''GET'', [Lit ''nodes''], ListNodesE),
     (''POST'', [Lit ''nodes''], CreateNodeE),
     (''GET'', [Lit ''nodes'', ID], GetNodeE),
     (''GET'', [Lit ''nodes'', ID, Lit ''desired-state''], DesiredStateE),
     (''GET'', [Lit ''nodes'', ID, Lit ''actual-state''], GetActualE),
     (''POST'', [Lit ''nodes'', ID, Lit ''actual-state''], PutActualE),
     (''GET'', [Lit ''nodes'', ID, Lit ''plan''], PlanE),
     (''POST'', [Lit ''nodes'', ID, Lit ''apply''], ApplyE),
     (''POST'', [Lit ''nodes'', ID, Lit ''failback''], FailbackE),
     (''GET'', [Lit ''backends''], ListBackendsE),
     (''POST'', [Lit ''backends''], CreateBackendE),
     (''GET'', [Lit ''backends'', ID], GetBackendE),
     (''PATCH'', [Lit ''backends'', ID], PatchBackendE),
     (''GET'', [Lit ''mappings''], ListMappingsE),
     (''POST'', [Lit ''mappings''], CreateMappingE),
     (''PATCH'', [Lit ''mappings'', ID], PatchMappingE),
     (''DELETE'', [Lit ''mappings'', ID], DeleteMappingE),
     (''GET'', [Lit ''tunnels''], ListTunnelsE),
     (''POST'', [Lit ''tunnels''], CreateTunnelE),
     (''GET'', [Lit ''tunnels'', ID, Lit ''status''], TunnelStatusE),
     (''GET'', [Lit ''sni-routes''], ListSniE),
     (''POST'', [Lit ''sni-routes''], CreateSniE),
     (''GET'', [Lit ''sni-routes'', ID], GetSniE),
     (''PATCH'', [Lit ''sni-routes'', ID], PatchSniE),
     (''GET'', [Lit ''events''], ListEventsE),
     (''GET'', [Lit ''foreign-nodes''], ListForeignE),
     (''POST'', [Lit ''foreign-nodes''], CreateForeignE),
     (''GET'', [Lit ''foreign-nodes'', ID], GetForeignE),
     (''PATCH'', [Lit ''foreign-nodes'', ID], PatchForeignE)]"

text \<open>A wildcard matches one segment that is not empty; the value it matched is \<open>PathValue\<close>.\<close>

fun match_segs :: "seg list \<Rightarrow> string list \<Rightarrow> string \<Rightarrow> string option" where
  "match_segs [] [] v = Some v"
| "match_segs (Lit l # ps) (s # ss) v = (if s = l then match_segs ps ss v else None)"
| "match_segs (ID # ps) (s # ss) v = (if s = [] then None else match_segs ps ss s)"
| "match_segs _ _ v = None"

definition route :: "string \<Rightarrow> string \<Rightarrow> (endpoint \<times> string) option" where
  "route method path =
     (if HasPrefix path ''/api/v1/''
      then let segs = Split (drop 8 path) (CHR ''/'')
           in case List.map_filter (\<lambda>(m, ps, e). if m = method then map_option (Pair e) (match_segs ps segs []) else None) patterns of
                [] \<Rightarrow> None | x # _ \<Rightarrow> Some x
      else None)"

definition takes_id :: "endpoint \<Rightarrow> bool" where
  "takes_id e \<longleftrightarrow> e \<notin> {Whoami, ListTokensE, CreateTokenE, ListUsersE, CreateUserE, ListNodesE, CreateNodeE, ListBackendsE, CreateBackendE,
     ListMappingsE, CreateMappingE, ListTunnelsE, CreateTunnelE, ListSniE, CreateSniE, ListEventsE, ListForeignE, CreateForeignE}"

lemma split_path:
  assumes "i \<noteq> []" and "CHR ''/'' \<notin> set i"
  shows "Split (Join (path_segments e i) ''/'') (CHR ''/'') = path_segments e i"
  using assms by (intro Split_Join; cases e) simp_all

lemma match_own:
  assumes "i \<noteq> []"
  shows "case List.map_filter (\<lambda>(m, ps, e'). if m = method_of e then map_option (Pair e') (match_segs ps (path_segments e i) []) else None) patterns of
    [] \<Rightarrow> False | x # _ \<Rightarrow> x = (e, if takes_id e then i else [])"
  using assms by (cases e) (simp_all add: patterns_def List.map_filter_simps mutates_def takes_id_def)



section \<open>Signed calls are accepted\<close>

lemma client_headers:
  assumes "cl_Token c \<noteq> []"
  shows "rq_Header (client_request env c m p q inp t) ''Authorization'' = ''Bearer '' @ cl_Token c"
    "rq_Header (client_request env c m p q inp t) HeaderTimestamp = fst (auth_Sign env (cl_Token c) m (slashed p) (rq_Body (client_request env c m p q inp t)) t)"
    "rq_Header (client_request env c m p q inp t) HeaderSignature = snd (auth_Sign env (cl_Token c) m (slashed p) (rq_Body (client_request env c m p q inp t)) t)"
    "rq_Header (client_request env c m p q inp t) HeaderUIName = []" "rq_Header (client_request env c m p q inp t) HeaderUIRole = []"
    "rq_Header (client_request env c m p q inp t) HeaderUITime = []" "rq_Header (client_request env c m p q inp t) HeaderUISig = []"
  using assms by (simp_all add: client_request_def Let_def header_defs split: option.split prod.split)

lemma client_fields: "rq_Method (client_request env c m p q inp t) = m" "rq_Path (client_request env c m p q inp t) = slashed p"
  by (simp_all add: client_request_def Let_def)

lemma bearer_client:
  assumes "TrimSpace (cl_Token c) = cl_Token c" and "cl_Token c \<noteq> []"
  shows "bearer (client_request env c m p q inp t) = Inr (cl_Token c)"
proof -
  have last: "\<not> is_space (last (cl_Token c))" using TrimSpace_ends [of "cl_Token c"] assms by simp
  have raw: "TrimSpace (''Bearer '' @ cl_Token c) = ''Bearer '' @ cl_Token c"
    using last assms(2) by (intro TrimSpace_id) (simp add: is_space_def)
  have "HasPrefix (ToLower (''Bearer '' @ cl_Token c)) ''bearer ''"
  proof -
    have "ToLower ''Bearer '' = ''bearer ''" by code_simp
    then have "ToLower (''Bearer '' @ cl_Token c) = ''bearer '' @ ToLower (cl_Token c)"
      by (simp only: ToLower_def map_append)
    then show ?thesis by simp
  qed
  moreover have "drop 7 (''Bearer '' @ cl_Token c) = cl_Token c" by simp
  ultimately show ?thesis
    unfolding bearer_def client_headers(1) [OF assms(2)] raw Let_def using assms by (simp del: append_Cons)
qed

text \<open>C15: A client that holds a token of the controller gets in as that token: whatever call it makes, the request it
  signs authenticates with the name and role of the token, also where signatures are required, as long as the
  two clocks differ by no more than the allowed skew.\<close>

theorem client_request_authenticates:
  assumes "TrimSpace (cl_Token c) = cl_Token c" and "cl_Token c \<noteq> []"
    and "matchToken env (cl_Token c) s = (Inr tok, s1)"
    and "unix_ok t" and "within_skew (au_maxSkew a) (fst (e_now env (db_world s1))) (from_unix (unix_seconds t))"
    and "\<And>k m. e_hmac_sha256 env k m \<noteq> []"
  shows "fst (Authenticate env a (client_request env c m p q inp t) (rq_Body (client_request env c m p q inp t)) s) =
    Inr \<lparr>pr_Name = tk_Name tok, pr_Role = tk_Role tok, pr_UserID = []\<rparr>"
proof -
  let ?r = "client_request env c m p q inp t"
  have ui: "verifyUI env a ?r (rq_Body ?r) = returnA None"
    using client_headers(4-7) [OF assms(2), of env m p q inp t] by (simp add: verifyUI_def Let_def)
  have "fst (verifyHMAC env a ?r (rq_Body ?r) (cl_Token c) s1) = Inr ()"
    by (rule signed_request_accepted [where t = t, OF _ client_headers(2) [OF assms(2)] client_headers(3) [OF assms(2)] assms(4,5)])
       (simp_all add: client_fields assms(6))
  then obtain s2 where "verifyHMAC env a ?r (rq_Body ?r) (cl_Token c) s1 = (Inr (), s2)" by (metis prod.collapse)
  then show ?thesis
    using assms(3) bearer_client [OF assms(1,2), of env m p q inp t] by (simp add: Authenticate_def ui liftE_def bindA_def)
qed

lemma client_request_authenticates_witness:
  "fst (Authenticate sample_env (sample_auth\<lparr>au_hmacReq := True\<rparr>)
      (client_request sample_env (client_New ''https://c'' ''tok-two'') ''GET'' ''/api/v1/nodes'' (\<lambda>_. []) None 1)
      (rq_Body (client_request sample_env (client_New ''https://c'' ''tok-two'') ''GET'' ''/api/v1/nodes'' (\<lambda>_. []) None 1)) sample_tokens) =
    Inr agent_principal"
proof -
  have trim: "TrimSpace ''tok-two'' = ''tok-two''" by code_simp
  have c: "cl_Token (client_New ''https://c'' ''tok-two'') = ''tok-two''" by (simp add: client_New_def trim)
  have "matchToken sample_env ''tok-two'' sample_tokens = (Inr (sample_token ''t2'' ''tok-two''), sample_tokens)"
    by (simp add: matchToken_def ListTokens_def bindA_def sample_env_sels sample_token_def sample_tokens_def)
  from client_request_authenticates [of "client_New ''https://c'' ''tok-two''", unfolded c, OF trim _ this] show ?thesis
    using sample_skew by (simp add: sample_clock sample_tokens_def empty_db_def agent_principal_def sample_token_def sample_env_sels sample_auth_def)
qed

end
