(* ===== verification/WebSession.thy ===== *)
theory WebSession
  imports Client Views
begin

text \<open>
  Sessions of the web interface (src/internal/webui/session.go, locale.go and the guards of server.go): the
  store of sessions, the signed cookie, the language of a request, who passes \<open>requireSession\<close>,
  \<open>requireAdmin\<close> and \<open>requireWrite\<close>, and the in-process transport to the API (api.go).

  A handler is an action whose error is the response of an early return. Requests and responses are what the
  code reads and writes of them: cookies, form values, headers; a page is named, with its data, and not
  rendered. The state is the API server with the
  store of sessions beside it; the controller always runs the interface with the in-process API.
\<close>

section \<open>Requests, responses, state\<close>

record session =
  ss_ID :: string
  ss_Token :: string
  ss_UserID :: ident
  ss_Name :: string
  ss_DisplayName :: string
  ss_Role :: string
  ss_Locale :: string
  ss_MFAPending :: bool
  ss_Expires :: gotime
  ss_FlashOK :: string
  ss_FlashErr :: string
  ss_FlashErrRaw :: string

definition empty_session :: session where
  "empty_session = \<lparr>ss_ID = [], ss_Token = [], ss_UserID = [], ss_Name = [], ss_DisplayName = [], ss_Role = [], ss_Locale = [],
     ss_MFAPending = False, ss_Expires = 0, ss_FlashOK = [], ss_FlashErr = [], ss_FlashErrRaw = []\<rparr>"

definition cookieName :: string where "cookieName = ''transitforge_ui''"
definition localeCookie :: string where "localeCookie = ''transitforge_locale''"
definition sessionTTL :: duration where "sessionTTL = 12 * 60 * Minute"

record web_request =
  wr_Cookie :: "string \<Rightarrow> string option"
  wr_Form :: "string \<Rightarrow> string"
  wr_ParseErr :: bool
  wr_Header :: "string \<Rightarrow> string"
  wr_Query :: "string \<Rightarrow> string"
  wr_ID :: string

datatype cookie = SessionCookie string | ClearedCookie | SetLocaleCookie string

datatype page_data = NoData | FormError string | PlanData plan_view | AlertData alert_view
  | TotpData string string | RecoveryData "string list"

datatype web_body =
    SeeOther string | HxRedirect string | HxRefresh | HxUnauthorized string string
  | Page int string page_data | PlainText int string

record response =
  rs_Cookies :: "cookie list"
  rs_Body :: web_body

definition respond :: "web_body \<Rightarrow> response" where
  "respond b = \<lparr>rs_Cookies = [], rs_Body = b\<rparr>"

text \<open>The JSON encoders of the calls the interface makes.\<close>

record encoders =
  en_backend :: "backend \<Rightarrow> string"
  en_tunnel :: "tunnel \<Rightarrow> string"
  en_mapping :: "port_mapping \<Rightarrow> string"
  en_mapping_patch :: "mapping_patch \<Rightarrow> string"
  en_sni :: "sni_route \<Rightarrow> string"
  en_apply :: "bool \<Rightarrow> string"
  en_failback :: "string \<Rightarrow> string \<Rightarrow> string"
  en_foreign :: "foreign_input \<Rightarrow> string"
  en_foreign_patch :: "foreign_patch \<Rightarrow> string"

record 'w ui =
  ui_api :: "'w api"
  ui_secret :: string
  ui_accounts :: bool
  ui_liveApply :: bool
  ui_cat :: catalogs
  ui_enc :: encoders
  ui_txt :: "reply \<Rightarrow> string"

record 'w web =
  wb_srv :: "'w server"
  wb_byID :: "string \<rightharpoonup> session"

type_synonym ('w, 'a) webact = "('w web, response, 'a) act"
type_synonym 'w whandler = "web_request \<Rightarrow> ('w, response) webact"

abbreviation wb_db :: "'w web \<Rightarrow> 'w db" where
  "wb_db st \<equiv> sv_db (wb_srv st)"

definition onDb :: "('w, 'a) dbact \<Rightarrow> ('w web, goerr, 'a) act" where
  "onDb m = (\<lambda>st. case m (wb_db st) of (r, s) \<Rightarrow> (r, st\<lparr>wb_srv := (wb_srv st)\<lparr>sv_db := s\<rparr>\<rparr>))"

text \<open>\<open>orReply f m\<close>: an error of \<open>m\<close> is answered by \<open>f\<close>; \<open>option_of m\<close>: an error of \<open>m\<close> is dropped.\<close>

definition orReply :: "(goerr \<Rightarrow> response) \<Rightarrow> ('s, goerr, 'a) act \<Rightarrow> ('s, response, 'a) act" where
  "orReply f m = (\<lambda>st. case m st of (Inl e, st') \<Rightarrow> (Inl (f e), st') | (Inr x, st') \<Rightarrow> (Inr x, st'))"

definition option_of :: "('s, goerr, 'a) act \<Rightarrow> ('s, 'e, 'a option) act" where
  "option_of m = (\<lambda>st. case m st of (Inl e, st') \<Rightarrow> (Inr None, st') | (Inr x, st') \<Rightarrow> (Inr (Some x), st'))"

definition peek :: "('s \<Rightarrow> 'a) \<Rightarrow> ('s, 'e, 'a) act" where
  "peek f = (\<lambda>st. (Inr (f st), st))"

definition timeNow :: "'w env \<Rightarrow> ('w web, 'e, gotime) act" where
  "timeNow env = (\<lambda>st. case nowA env (wb_db st) of
     (Inr t, s) \<Rightarrow> (Inr t, st\<lparr>wb_srv := (wb_srv st)\<lparr>sv_db := s\<rparr>\<rparr>)
   | (Inl _, s) \<Rightarrow> (Inr 0, st\<lparr>wb_srv := (wb_srv st)\<lparr>sv_db := s\<rparr>\<rparr>))"

section \<open>The session store\<close>

definition put :: "'w env \<Rightarrow> session \<Rightarrow> ('w web, goerr, session) act" where
  "put env inn =
     bindA (onDb (lift_world (e_rand env 16))) (\<lambda>idRaw.
     bindA (timeNow env) (\<lambda>now.
       let s = inn\<lparr>ss_ID := hexEncode idRaw, ss_Expires := now + sessionTTL,
                ss_Locale := (if ss_Locale inn = [] then ''en'' else ss_Locale inn)\<rparr>
       in (\<lambda>st. (Inr s, st\<lparr>wb_byID := (wb_byID st)(ss_ID s \<mapsto> s)\<rparr>))))"

definition delete_session :: "string \<Rightarrow> ('w web, 'e, unit) act" where
  "delete_session i = (\<lambda>st. (Inr (), st\<lparr>wb_byID := (wb_byID st)(i := None)\<rparr>))"

definition get_session :: "'w env \<Rightarrow> string \<Rightarrow> ('w web, 'e, session option) act" where
  "get_session env i =
     bindA (peek (\<lambda>st. wb_byID st i)) (\<lambda>os. case os of None \<Rightarrow> returnA None
     | Some s \<Rightarrow> bindA (timeNow env) (\<lambda>now.
         if \<not> ss_Expires s > now then bindA (delete_session i) (\<lambda>_. returnA None) else returnA (Some s)))"

definition update_session :: "string \<Rightarrow> (session \<Rightarrow> session) \<Rightarrow> ('w web, 'e, unit) act" where
  "update_session i f = (\<lambda>st. (Inr (), case wb_byID st i of None \<Rightarrow> st | Some s \<Rightarrow> st\<lparr>wb_byID := (wb_byID st)(i \<mapsto> f s)\<rparr>))"

definition setFlash :: "string \<Rightarrow> string \<Rightarrow> string \<Rightarrow> ('w web, 'e, unit) act" where
  "setFlash i ok errMsg = update_session i (\<lambda>s. s\<lparr>ss_FlashOK := ok, ss_FlashErr := errMsg, ss_FlashErrRaw := []\<rparr>)"

definition setFlashRaw :: "string \<Rightarrow> string \<Rightarrow> ('w web, 'e, unit) act" where
  "setFlashRaw i errMsg = update_session i (\<lambda>s. s\<lparr>ss_FlashOK := [], ss_FlashErr := [], ss_FlashErrRaw := errMsg\<rparr>)"

definition takeFlash :: "string \<Rightarrow> ('w web, 'e, string \<times> string \<times> string) act" where
  "takeFlash i =
     bindA (peek (\<lambda>st. wb_byID st i)) (\<lambda>os. case os of None \<Rightarrow> returnA ([], [], [])
     | Some s \<Rightarrow> bindA (update_session i (\<lambda>s. s\<lparr>ss_FlashOK := [], ss_FlashErr := [], ss_FlashErrRaw := []\<rparr>)) (\<lambda>_.
         returnA (ss_FlashOK s, ss_FlashErr s, ss_FlashErrRaw s)))"

definition updateLocale :: "string \<Rightarrow> string \<Rightarrow> ('w web, 'e, unit) act" where
  "updateLocale i l = update_session i (\<lambda>s. s\<lparr>ss_Locale := l\<rparr>)"

definition clearMFA :: "string \<Rightarrow> ('w web, 'e, unit) act" where
  "clearMFA i = update_session i (\<lambda>s. s\<lparr>ss_MFAPending := False\<rparr>)"

section \<open>The cookie\<close>

definition session_mac :: "'w env \<Rightarrow> 'w ui \<Rightarrow> string \<Rightarrow> string" where
  "session_mac env ui i = hexEncode (e_hmac_sha256 env (ui_secret ui) i)"

definition sign :: "'w env \<Rightarrow> 'w ui \<Rightarrow> string \<Rightarrow> string" where
  "sign env ui i = i @ ''.'' @ session_mac env ui i"

definition splitCookie :: "string \<Rightarrow> (string \<times> string) option" where
  "splitCookie v = (case LastIndex v ''.'' of None \<Rightarrow> None
     | Some i \<Rightarrow> if i > 0 \<and> i + 1 < length v then Some (take i v, drop (i + 1) v) else None)"

text \<open>The empty string stands for a cookie that is not accepted.\<close>

definition verify :: "'w env \<Rightarrow> 'w ui \<Rightarrow> string \<Rightarrow> string" where
  "verify env ui v = (case splitCookie v of None \<Rightarrow> []
     | Some (i, sig) \<Rightarrow> if sig \<noteq> session_mac env ui i then [] else i)"

definition cookie_id :: "'w env \<Rightarrow> 'w ui \<Rightarrow> web_request \<Rightarrow> string" where
  "cookie_id env ui r = (case wr_Cookie r cookieName of None \<Rightarrow> [] | Some v \<Rightarrow> if v = [] then [] else verify env ui v)"

definition sessionFrom :: "'w env \<Rightarrow> 'w ui \<Rightarrow> web_request \<Rightarrow> ('w web, 'e, session option) act" where
  "sessionFrom env ui r = (if cookie_id env ui r = [] then returnA None else get_session env (cookie_id env ui r))"

definition canWrite :: "string \<Rightarrow> bool" where
  "canWrite role \<longleftrightarrow> role = ''administrator'' \<or> role = ''operator''"

definition canAdmin :: "string \<Rightarrow> bool" where
  "canAdmin role \<longleftrightarrow> role = ''administrator''"

section \<open>Language and setup\<close>

definition locale_of :: "'w env \<Rightarrow> 'w ui \<Rightarrow> web_request \<Rightarrow> ('w web, 'e, string) act" where
  "locale_of env ui r =
     bindA (sessionFrom env ui r) (\<lambda>os.
       let other = (case wr_Cookie r localeCookie of
             Some v \<Rightarrow> if TrimSpace v \<noteq> [] then i18n_Normalize v else FromAcceptLanguage (wr_Header r ''Accept-Language'')
           | None \<Rightarrow> FromAcceptLanguage (wr_Header r ''Accept-Language''))
       in case os of Some s \<Rightarrow> returnA (if \<not> ss_MFAPending s \<and> ss_Locale s \<noteq> [] then i18n_Normalize (ss_Locale s) else other)
          | None \<Rightarrow> returnA other)"

definition needsSetup :: "'w env \<Rightarrow> 'w ui \<Rightarrow> ('w web, 'e, bool) act" where
  "needsSetup env ui =
     (if \<not> ui_accounts ui then returnA False
      else bindA (option_of (onDb (CountUsers env))) (\<lambda>n. returnA (n = Some 0)))"

definition hx :: "web_request \<Rightarrow> bool" where
  "hx r \<longleftrightarrow> wr_Header r ''HX-Request'' = ''true''"

definition redirect :: "web_request \<Rightarrow> string \<Rightarrow> response" where
  "redirect r path = respond (if hx r then HxRedirect path else SeeOther path)"

text \<open>What the frame of a page takes from the session: the flash messages of a success and of an error.\<close>

definition pageBase :: "'w env \<Rightarrow> 'w ui \<Rightarrow> web_request \<Rightarrow> ('w, string \<times> string) webact" where
  "pageBase env ui r =
     bindA (sessionFrom env ui r) (\<lambda>os.
     bindA (locale_of env ui r) (\<lambda>l. case os of None \<Rightarrow> returnA ([], [])
     | Some s \<Rightarrow> bindA (takeFlash (ss_ID s)) (\<lambda>(ok, errKey, raw).
         returnA (if ok \<noteq> [] then translate (ui_cat ui) l ok else [],
                  if raw \<noteq> [] then raw else if errKey \<noteq> [] then translate (ui_cat ui) l errKey else []))))"

section \<open>Guards\<close>

definition writeForbidden :: "'w env \<Rightarrow> 'w ui \<Rightarrow> web_request \<Rightarrow> ('w, 'a) webact" where
  "writeForbidden env ui r =
     bindA (locale_of env ui r) (\<lambda>l.
       let msg = translate (ui_cat ui) l ''error.not_allowed''
       in failA (respond (if hx r then Page 403 ''alert'' (AlertData \<lparr>al_Kind = ''forbidden'',
              al_Title = translate (ui_cat ui) l ''error.not_allowed_title'', al_Message = msg, al_TitleKey = [], al_MessageKey = []\<rparr>)
            else PlainText 403 msg)))"

definition send_to :: "web_request \<Rightarrow> string \<Rightarrow> string \<Rightarrow> response" where
  "send_to r path why = respond (if hx r then HxUnauthorized path why else SeeOther path)"

definition requireSession :: "'w env \<Rightarrow> 'w ui \<Rightarrow> 'w whandler \<Rightarrow> 'w whandler" where
  "requireSession env ui h r =
     bindA (needsSetup env ui) (\<lambda>setup. if setup then failA (respond (SeeOther ''/setup'')) else
     bindA (sessionFrom env ui r) (\<lambda>os. case os of
       None \<Rightarrow> failA (send_to r ''/login'' ''session expired'')
     | Some s \<Rightarrow> if ss_MFAPending s then failA (send_to r ''/login/mfa'' ''mfa required'') else h r))"

definition requireAdmin :: "'w env \<Rightarrow> 'w ui \<Rightarrow> 'w whandler \<Rightarrow> 'w whandler" where
  "requireAdmin env ui h r =
     bindA (sessionFrom env ui r) (\<lambda>os. case os of
       None \<Rightarrow> writeForbidden env ui r
     | Some s \<Rightarrow> if canAdmin (ss_Role s) then h r else writeForbidden env ui r)"

definition requireWrite :: "'w env \<Rightarrow> 'w ui \<Rightarrow> web_request \<Rightarrow> ('w, unit) webact" where
  "requireWrite env ui r =
     bindA (sessionFrom env ui r) (\<lambda>os. case os of
       None \<Rightarrow> writeForbidden env ui r
     | Some s \<Rightarrow> if canWrite (ss_Role s) then returnA () else writeForbidden env ui r)"

definition flash :: "'w env \<Rightarrow> 'w ui \<Rightarrow> web_request \<Rightarrow> string \<Rightarrow> string \<Rightarrow> ('w, unit) webact" where
  "flash env ui r ok errMsg = bindA (sessionFrom env ui r) (\<lambda>os. case os of None \<Rightarrow> returnA () | Some s \<Rightarrow> setFlash (ss_ID s) ok errMsg)"

definition flashRaw :: "'w env \<Rightarrow> 'w ui \<Rightarrow> web_request \<Rightarrow> string \<Rightarrow> ('w, unit) webact" where
  "flashRaw env ui r errMsg = bindA (sessionFrom env ui r) (\<lambda>os. case os of None \<Rightarrow> returnA () | Some s \<Rightarrow> setFlashRaw (ss_ID s) errMsg)"

section \<open>Calls to the API\<close>

text \<open>The API runs in the same process; a request for a session without a token is signed for its user.\<close>

definition RoundTrip :: "'w env \<Rightarrow> 'w ui \<Rightarrow> session option \<Rightarrow> endpoint \<Rightarrow> ident \<Rightarrow> request \<Rightarrow> ('w web, goerr, int \<times> reply) act" where
  "RoundTrip env ui so e i rq0 =
     (let rq = (if rq_RemoteAddr rq0 = [] then rq0\<lparr>rq_RemoteAddr := ''127.0.0.1:0''\<rparr> else rq0)
      in bindA (case so of
            Some s \<Rightarrow> if ss_Token s = [] \<and> ss_Name s \<noteq> [] \<and> \<not> ss_MFAPending s
                      then onDb (SignUI env (api_auth (ui_api ui)) rq (ss_Name s) (ss_Role s) (ss_UserID s)) else returnA rq
          | None \<Rightarrow> returnA rq) (\<lambda>rq1 st.
         case serve env (ui_api ui) e \<lparr>hr_Req = rq1, hr_ID = i, hr_ContentLength = int (length (rq_Body rq1)), hr_ReadErr = False\<rparr> (wb_srv st) of
           (rep, sv) \<Rightarrow> (Inr rep, st\<lparr>wb_srv := sv\<rparr>)))"

definition live_client :: "string \<Rightarrow> client" where
  "live_client token = (client_New ''http://webui.internal'' token)\<lparr>cl_UserAgent := ''transitforge-webui''\<rparr>"

definition api_call :: "'w env \<Rightarrow> 'w ui \<Rightarrow> session option \<Rightarrow> string \<Rightarrow> endpoint \<Rightarrow> ident \<Rightarrow> string option \<Rightarrow> ('w web, goerr, reply) act" where
  "api_call env ui so token e i inp =
     client_call env (ui_txt ui) (timeNow env) (RoundTrip env ui so) (live_client token) e i (\<lambda>_. []) inp"

definition session_call :: "'w env \<Rightarrow> 'w ui \<Rightarrow> web_request \<Rightarrow> endpoint \<Rightarrow> ident \<Rightarrow> string option \<Rightarrow> ('w web, goerr, reply) act" where
  "session_call env ui r e i inp =
     bindA (sessionFrom env ui r) (\<lambda>so. api_call env ui so (case so of None \<Rightarrow> [] | Some s \<Rightarrow> ss_Token s) e i inp)"

end
