(* ===== verification/WebLogin.thy ===== *)
theory WebLogin
  imports WebSession
begin

text \<open>
  The handlers of the web interface that change something (src/internal/webui/pages.go, account_pages.go,
  actions.go, locale.go): logging in with a password or a token, the second factor, first setup, logout, the
  user administration and settings, and the actions on the inventory, which go through the API. A page that
  only reads is the route \<open>ReadPage\<close>, named and not rendered.
\<close>

definition see_other :: "string \<Rightarrow> response" where
  "see_other path = respond (SeeOther path)"

definition form_page :: "string \<Rightarrow> string \<Rightarrow> response" where
  "form_page name err = respond (Page 200 name (FormError err))"

definition checkR :: "bool \<Rightarrow> response \<Rightarrow> ('s, response, unit) act" where
  "checkR bad resp = (if bad then failA resp else returnA ())"

section \<open>Login\<close>

definition loginErrCode :: "goerr \<Rightarrow> string" where
  "loginErrCode err = (if Contains (ToLower (err_text err)) ''disabled'' then ''disabled'' else ''invalid_credentials'')"

definition loginErr :: "string \<Rightarrow> string" where
  "loginErr raw =
     (let code = ReplaceAll (TrimSpace raw) '' '' ''_''
      in if code \<in> {''invalid_form'', ''token_required'', ''invalid_token'', ''invalid_credentials'', ''agent_token'', ''session_failed'',
             ''invalid_mfa'', ''disabled'', ''mismatch''} then code
         else if code = ''use_an_operator_or_readonly_token'' then ''agent_token'' else [])"

definition renderAuth :: "'w env \<Rightarrow> 'w ui \<Rightarrow> web_request \<Rightarrow> string \<Rightarrow> ('w, response) webact" where
  "renderAuth env ui r name =
     bindA (locale_of env ui r) (\<lambda>l.
       let key = loginErr (wr_Query r ''err'')
       in returnA (respond (Page 200 name (if key = [] then NoData else FormError (translate (ui_cat ui) l (''login.error.'' @ key))))))"

definition getLogin :: "'w env \<Rightarrow> 'w ui \<Rightarrow> 'w whandler" where
  "getLogin env ui r =
     bindA (needsSetup env ui) (\<lambda>setup. if setup then returnA (see_other ''/setup'') else
     bindA (sessionFrom env ui r) (\<lambda>os. case os of
       Some s \<Rightarrow> returnA (see_other (if ss_MFAPending s then ''/login/mfa'' else ''/''))
     | None \<Rightarrow> renderAuth env ui r ''login''))"

definition session_cookie :: "'w env \<Rightarrow> 'w ui \<Rightarrow> session \<Rightarrow> cookie" where
  "session_cookie env ui s = SessionCookie (sign env ui (ss_ID s))"

definition loginWithToken :: "'w env \<Rightarrow> 'w ui \<Rightarrow> string \<Rightarrow> 'w whandler" where
  "loginWithToken env ui tok r =
     bindA (orReply (\<lambda>_. see_other ''/login?err=invalid_token'') (api_call env ui None tok Whoami [] None)) (\<lambda>me.
     case me of
       RPrincipal name role \<Rightarrow>
         bindA (checkR (role \<noteq> ''operator'' \<and> role \<noteq> ''readonly'' \<and> role \<noteq> ''administrator'') (see_other ''/login?err=agent_token'')) (\<lambda>_.
         bindA (locale_of env ui r) (\<lambda>l.
         bindA (orReply (\<lambda>_. see_other ''/login?err=session_failed'')
           (put env (empty_session\<lparr>ss_Token := tok, ss_Name := name, ss_DisplayName := name, ss_Role := role, ss_Locale := l\<rparr>))) (\<lambda>s.
           returnA \<lparr>rs_Cookies = [session_cookie env ui s], rs_Body = SeeOther ''/''\<rparr>)))
     | _ \<Rightarrow> failA (see_other ''/login?err=agent_token''))"

definition password_login :: "'w env \<Rightarrow> 'w ui \<Rightarrow> string \<Rightarrow> string \<Rightarrow> 'w whandler" where
  "password_login env ui name pass r =
     bindA (orReply (\<lambda>err. see_other (''/login?err='' @ loginErrCode err)) (onDb (AuthenticatePassword env name pass))) (\<lambda>u.
     bindA (locale_of env ui r) (\<lambda>l.
     bindA (orReply (\<lambda>_. see_other ''/login?err=session_failed'')
       (put env (empty_session\<lparr>ss_UserID := u_ID u, ss_Name := u_Username u, ss_DisplayName := firstNonEmpty [u_DisplayName u, u_Username u],
          ss_Role := u_Role u, ss_Locale := i18n_Normalize (firstNonEmpty [u_Locale u, l]), ss_MFAPending := u_TOTPEnabled u\<rparr>))) (\<lambda>s.
     bindA (if u_TOTPEnabled u then returnA None else option_of (onDb (TouchLogin env (u_ID u)))) (\<lambda>_.
       returnA \<lparr>rs_Cookies = [session_cookie env ui s, SetLocaleCookie (i18n_Normalize (ss_Locale s))],
         rs_Body = SeeOther (if u_TOTPEnabled u then ''/login/mfa'' else ''/'')\<rparr>))))"

definition postLogin :: "'w env \<Rightarrow> 'w ui \<Rightarrow> 'w whandler" where
  "postLogin env ui r =
     bindA (checkR (wr_ParseErr r) (see_other ''/login?err=invalid_form'')) (\<lambda>_.
       let name = TrimSpace (wr_Form r ''username''); pass = wr_Form r ''password''; tok = TrimSpace (wr_Form r ''token'')
       in if tok \<noteq> [] \<and> name = [] then loginWithToken env ui tok r
          else if \<not> ui_accounts ui \<or> name = [] \<or> pass = [] then failA (see_other ''/login?err=invalid_credentials'')
          else password_login env ui name pass r)"

definition getMFA :: "'w env \<Rightarrow> 'w ui \<Rightarrow> 'w whandler" where
  "getMFA env ui r =
     bindA (sessionFrom env ui r) (\<lambda>os. case os of
       Some s \<Rightarrow> if ss_MFAPending s then renderAuth env ui r ''mfa'' else returnA (see_other ''/login'')
     | None \<Rightarrow> returnA (see_other ''/login''))"

definition postMFA :: "'w env \<Rightarrow> 'w ui \<Rightarrow> 'w whandler" where
  "postMFA env ui r =
     bindA (sessionFrom env ui r) (\<lambda>os. case os of None \<Rightarrow> failA (see_other ''/login'')
     | Some s \<Rightarrow>
         bindA (checkR (\<not> ss_MFAPending s \<or> \<not> ui_accounts ui) (see_other ''/login'')) (\<lambda>_.
         bindA (orReply (\<lambda>_. see_other ''/login?err=invalid_credentials'') (onDb (GetUser env (ss_UserID s)))) (\<lambda>u.
         bindA (orReply (\<lambda>_. see_other ''/login/mfa?err=invalid_mfa'') (onDb (ConsumeMFA env (Some u) (wr_Form r ''code'') (wr_Form r ''recovery'')))) (\<lambda>_.
         bindA (clearMFA (ss_ID s)) (\<lambda>_.
         bindA (option_of (onDb (TouchLogin env (u_ID u)))) (\<lambda>_. returnA (see_other ''/'')))))))"

definition getSetup :: "'w env \<Rightarrow> 'w ui \<Rightarrow> 'w whandler" where
  "getSetup env ui r =
     bindA (needsSetup env ui) (\<lambda>setup. if \<not> setup then returnA (see_other ''/login'') else renderAuth env ui r ''setup'')"

definition postSetup :: "'w env \<Rightarrow> 'w ui \<Rightarrow> 'w whandler" where
  "postSetup env ui r =
     bindA (needsSetup env ui) (\<lambda>setup.
     bindA (checkR (\<not> setup) (see_other ''/login'')) (\<lambda>_.
     bindA (checkR (wr_ParseErr r) (see_other ''/setup?err=invalid_form'')) (\<lambda>_.
     bindA (checkR (wr_Form r ''password'' \<noteq> wr_Form r ''password_confirm'') (see_other ''/setup?err=mismatch'')) (\<lambda>_.
     bindA (locale_of env ui r) (\<lambda>l.
     bindA (orReply (\<lambda>_. see_other ''/setup?err=invalid_form'')
       (onDb (SetupFirstAdministrator env (wr_Form r ''username'') (wr_Form r ''display_name'') (wr_Form r ''password'') l))) (\<lambda>u.
     bindA (orReply (\<lambda>_. see_other ''/login?err=session_failed'')
       (put env (empty_session\<lparr>ss_UserID := u_ID u, ss_Name := u_Username u, ss_DisplayName := firstNonEmpty [u_DisplayName u, u_Username u],
          ss_Role := u_Role u, ss_Locale := i18n_Normalize (u_Locale u)\<rparr>))) (\<lambda>s.
       returnA \<lparr>rs_Cookies = [session_cookie env ui s, SetLocaleCookie (i18n_Normalize (ss_Locale s))], rs_Body = SeeOther ''/''\<rparr>)))))))"

definition postLogout :: "'w env \<Rightarrow> 'w ui \<Rightarrow> 'w whandler" where
  "postLogout env ui r =
     bindA (sessionFrom env ui r) (\<lambda>os.
     bindA (case os of None \<Rightarrow> returnA () | Some s \<Rightarrow> delete_session (ss_ID s)) (\<lambda>_.
       returnA \<lparr>rs_Cookies = [ClearedCookie], rs_Body = SeeOther ''/login''\<rparr>))"

definition postLocale :: "'w env \<Rightarrow> 'w ui \<Rightarrow> 'w whandler" where
  "postLocale env ui r =
     (let loc = i18n_Normalize (firstNonEmpty [wr_Form r ''locale'', wr_Form r ''lang'']);
          answer = (\<lambda>b. returnA \<lparr>rs_Cookies = [SetLocaleCookie loc], rs_Body = b\<rparr>)
      in bindA (sessionFrom env ui r) (\<lambda>os.
         bindA (case os of None \<Rightarrow> returnA None
           | Some s \<Rightarrow> bindA (updateLocale (ss_ID s) loc) (\<lambda>_.
               if ui_accounts ui \<and> ss_UserID s \<noteq> [] \<and> \<not> ss_MFAPending s
               then option_of (onDb (SetLocale env (ss_UserID s) loc)) else returnA None)) (\<lambda>_.
         if hx r then answer HxRefresh
         else let next = wr_Header r ''Referer''
              in if next \<noteq> [] then answer (SeeOther next)
                 else bindA (sessionFrom env ui r) (\<lambda>os'. answer (SeeOther (if os' = None then ''/login'' else ''/''))))))"

section \<open>Users and settings\<close>

definition userCreate :: "'w env \<Rightarrow> 'w ui \<Rightarrow> 'w whandler" where
  "userCreate env ui r =
     (if \<not> ui_accounts ui then writeForbidden env ui r
      else bindA (checkR (wr_ParseErr r) (form_page ''users'' ''flash.invalid_form'')) (\<lambda>_.
       bindA (orReply (\<lambda>err. form_page ''users'' (apiErr (ui_cat ui) (Some err)))
         (onDb (accounts_Create env \<lparr>uc_Username = wr_Form r ''username'', uc_DisplayName = wr_Form r ''display_name'',
            uc_Password = wr_Form r ''password'', uc_Role = wr_Form r ''role'', uc_Locale = wr_Form r ''locale''\<rparr>))) (\<lambda>_.
       bindA (flash env ui r ''flash.user_created'' []) (\<lambda>_. returnA (redirect r ''/users'')))))"

definition form_patch :: "web_request \<Rightarrow> user_patch" where
  "form_patch r = \<lparr>up_DisplayName = (if wr_Form r ''display_name'' \<noteq> [] then Some (wr_Form r ''display_name'') else None),
     up_Password = (if TrimSpace (wr_Form r ''password'') \<noteq> [] then Some (wr_Form r ''password'') else None),
     up_Role = Some (TrimSpace (wr_Form r ''role'')), up_Locale = Some (wr_Form r ''locale''),
     up_Disabled = Some (wr_Form r ''disabled'' = ''true'' \<or> wr_Form r ''disabled'' = ''on'')\<rparr>"

definition userUpdate :: "'w env \<Rightarrow> 'w ui \<Rightarrow> 'w whandler" where
  "userUpdate env ui r =
     (if \<not> ui_accounts ui then writeForbidden env ui r
      else bindA (checkR (wr_ParseErr r) (form_page ''users'' ''flash.invalid_form'')) (\<lambda>_.
       bindA (orReply (\<lambda>err. form_page ''users'' (apiErr (ui_cat ui) (Some err))) (onDb (accounts_Patch env (wr_ID r) (form_patch r)))) (\<lambda>_.
       bindA (flash env ui r ''flash.user_updated'' []) (\<lambda>_. returnA (redirect r (''/users?id='' @ wr_ID r))))))"

text \<open>The settings act on the account of the session; a session of a token has none.\<close>

definition own_account :: "'w env \<Rightarrow> 'w ui \<Rightarrow> web_request \<Rightarrow> (ident \<Rightarrow> ('w, response) webact) \<Rightarrow> ('w, response) webact" where
  "own_account env ui r k =
     bindA (sessionFrom env ui r) (\<lambda>os. case os of None \<Rightarrow> writeForbidden env ui r
     | Some s \<Rightarrow> if ss_UserID s = [] \<or> \<not> ui_accounts ui then writeForbidden env ui r else k (ss_UserID s))"

definition settings_reply :: "'w ui \<Rightarrow> ('w, 'a) dbact \<Rightarrow> ('w, 'a) webact" where
  "settings_reply ui m = orReply (\<lambda>err. form_page ''settings'' (apiErr (ui_cat ui) (Some err))) (onDb m)"

definition settingsPassword :: "'w env \<Rightarrow> 'w ui \<Rightarrow> 'w whandler" where
  "settingsPassword env ui r = own_account env ui r (\<lambda>uid.
     bindA (settings_reply ui (accounts_Patch env uid \<lparr>up_DisplayName = None, up_Password = Some (wr_Form r ''password''), up_Role = None,
        up_Locale = None, up_Disabled = None\<rparr>)) (\<lambda>_.
     bindA (flash env ui r ''flash.password_changed'' []) (\<lambda>_. returnA (redirect r ''/settings?tab=security''))))"

definition settingsTOTPBegin :: "'w env \<Rightarrow> 'w ui \<Rightarrow> 'w whandler" where
  "settingsTOTPBegin env ui r = own_account env ui r (\<lambda>uid.
     bindA (settings_reply ui (BeginTOTP env uid)) (\<lambda>(url, secret). returnA (respond (Page 200 ''settings'' (TotpData url secret)))))"

definition settingsTOTPConfirm :: "'w env \<Rightarrow> 'w ui \<Rightarrow> 'w whandler" where
  "settingsTOTPConfirm env ui r = own_account env ui r (\<lambda>uid.
     bindA (settings_reply ui (ConfirmTOTP env uid (wr_Form r ''code''))) (\<lambda>codes.
     bindA (flash env ui r ''flash.totp_enabled'' []) (\<lambda>_. returnA (respond (Page 200 ''settings'' (RecoveryData codes))))))"

definition settingsTOTPDisable :: "'w env \<Rightarrow> 'w ui \<Rightarrow> 'w whandler" where
  "settingsTOTPDisable env ui r = own_account env ui r (\<lambda>uid.
     bindA (settings_reply ui (DisableTOTP env uid)) (\<lambda>_.
     bindA (flash env ui r ''flash.totp_disabled'' []) (\<lambda>_. returnA (redirect r ''/settings?tab=security''))))"

definition settingsRecovery :: "'w env \<Rightarrow> 'w ui \<Rightarrow> 'w whandler" where
  "settingsRecovery env ui r = own_account env ui r (\<lambda>uid.
     bindA (settings_reply ui (RotateRecoveryCodes env uid)) (\<lambda>codes.
     bindA (flash env ui r ''flash.recovery_generated'' []) (\<lambda>_. returnA (respond (Page 200 ''settings'' (RecoveryData codes))))))"

end
