(* ===== verification/WebActions.thy ===== *)
theory WebActions
  imports WebLogin
begin

text \<open>
  The actions of the web interface on the inventory (src/internal/webui/actions.go, foreign_nodes.go) and the table of routes
  (server.go). Every action asks for the right to write, reads the form, and calls the API for its session.
\<close>

section \<open>Plans\<close>

definition session_locale_text :: "'w env \<Rightarrow> 'w ui \<Rightarrow> web_request \<Rightarrow> string \<Rightarrow> ('w, string) webact" where
  "session_locale_text env ui r key = bindA (locale_of env ui r) (\<lambda>l. returnA (translate (ui_cat ui) l key))"

definition plan_page :: "plan_view \<Rightarrow> response" where
  "plan_page v = respond (Page 200 ''plan'' (PlanData v))"

definition error_page :: "'w env \<Rightarrow> 'w ui \<Rightarrow> web_request \<Rightarrow> goerr \<Rightarrow> ('w, response) webact" where
  "error_page env ui r err =
     (case classifyUIError (Some err) of (status, a) \<Rightarrow>
       bindA (locale_of env ui r) (\<lambda>l.
         if status = 401 then failA (send_to r (if hx r then ''/login'' else ''/login?err=invalid_token'') ''session expired'')
         else failA (respond (Page status (if hx r then ''alert'' else ''error'') (AlertData (resolve (ui_cat ui) l a))))))"

definition result_of :: "('s, goerr, 'a) act \<Rightarrow> ('s, 'e, goerr + 'a) act" where
  "result_of m = (\<lambda>st. case m st of (q, st') \<Rightarrow> (Inr q, st'))"

definition nodePlan :: "'w env \<Rightarrow> 'w ui \<Rightarrow> 'w whandler" where
  "nodePlan env ui r =
     bindA (result_of (session_call env ui r PlanE (wr_ID r) None)) (\<lambda>q. case q of
       Inl err \<Rightarrow> if hx r then returnA (plan_page (planViewFromError (ui_cat ui) err)) else error_page env ui r err
     | Inr (RPlan p) \<Rightarrow> returnA (plan_page (buildPlanView p))
     | Inr _ \<Rightarrow> returnA (plan_page (buildPlanView [])))"

definition writePlan :: "'w env \<Rightarrow> 'w ui \<Rightarrow> web_request \<Rightarrow> plan_view \<Rightarrow> goerr option \<Rightarrow> ('w, response) webact" where
  "writePlan env ui r view err =
     (if hx r then returnA (plan_page view)
      else bindA (case err of
             Some e \<Rightarrow> flashRaw env ui r (firstNonEmpty [pv_Error view, apiErr (ui_cat ui) (Some e)])
           | None \<Rightarrow> if pv_Notice view \<noteq> [] then flash env ui r (pv_Notice view) [] else returnA ())
         (\<lambda>_. returnA (redirect r (''/nodes/'' @ wr_ID r))))"

definition applied :: "reply \<Rightarrow> apply_result option" where
  "applied v = (case v of RApply res \<Rightarrow> Some res | _ \<Rightarrow> None)"

definition nodeDryRun :: "'w env \<Rightarrow> 'w ui \<Rightarrow> 'w whandler" where
  "nodeDryRun env ui r =
     bindA (requireWrite env ui r) (\<lambda>_.
     bindA (result_of (session_call env ui r ApplyE (wr_ID r) (Some (en_apply (ui_enc ui) True)))) (\<lambda>q. case q of
       Inl err \<Rightarrow> writePlan env ui r (planViewFromError (ui_cat ui) err) (Some err)
     | Inr v \<Rightarrow> bindA (session_locale_text env ui r ''flash.dry_run_recorded'') (\<lambda>msg.
         writePlan env ui r ((planViewFromApply (applied v))\<lparr>pv_Notice := msg\<rparr>) None)))"

definition nodeApply :: "'w env \<Rightarrow> 'w ui \<Rightarrow> 'w whandler" where
  "nodeApply env ui r =
     bindA (requireWrite env ui r) (\<lambda>_.
     bindA (checkR (\<not> ui_liveApply ui) (respond (PlainText 501 ''Live apply is not enabled on this controller.''))) (\<lambda>_.
     bindA (result_of (session_call env ui r ApplyE (wr_ID r) (Some (en_apply (ui_enc ui) False)))) (\<lambda>q. case q of
       Inl err \<Rightarrow> writePlan env ui r (planViewFromError (ui_cat ui) err) (Some err)
     | Inr v \<Rightarrow>
         let view = planViewFromApply (applied v)
         in if pv_Notice view = [] \<and> pv_Error view = []
            then bindA (session_locale_text env ui r ''flash.apply_completed'') (\<lambda>msg. writePlan env ui r (view\<lparr>pv_Notice := msg\<rparr>) None)
            else writePlan env ui r view None)))"

section \<open>Actions\<close>

definition form_int :: "web_request \<Rightarrow> string \<Rightarrow> int" where
  "form_int r k = fst (Atoi (wr_Form r k))"

text \<open>\<open>write_form env ui r page path call msg\<close>: the shape of the actions behind a form. \<open>target\<close> is the path to
  go to, from the reply.\<close>

definition write_form :: "'w env \<Rightarrow> 'w ui \<Rightarrow> web_request \<Rightarrow> string \<Rightarrow> endpoint \<Rightarrow> ident \<Rightarrow> string \<Rightarrow> string \<Rightarrow> (reply \<Rightarrow> string) \<Rightarrow> ('w, response) webact" where
  "write_form env ui r page e i body msg target =
     bindA (requireWrite env ui r) (\<lambda>_.
     bindA (checkR (wr_ParseErr r) (form_page page ''flash.invalid_form'')) (\<lambda>_.
     bindA (orReply (\<lambda>err. form_page page (apiErr (ui_cat ui) (Some err))) (session_call env ui r e i (Some body))) (\<lambda>v.
     bindA (flash env ui r msg []) (\<lambda>_. returnA (redirect r (target v))))))"

definition form_backend :: "web_request \<Rightarrow> ident \<Rightarrow> backend" where
  "form_backend r i = \<lparr>b_ID = i, b_Name = wr_Form r ''name'', b_NodeID = wr_Form r ''node_id'', b_Address = wr_Form r ''address'',
     b_CreatedAt = 0, b_UpdatedAt = 0\<rparr>"

definition backendCreate :: "'w env \<Rightarrow> 'w ui \<Rightarrow> 'w whandler" where
  "backendCreate env ui r = write_form env ui r ''backends'' CreateBackendE [] (en_backend (ui_enc ui) (form_backend r [])) ''flash.backend_created''
     (\<lambda>v. ''/backends/'' @ (case v of RBackend b \<Rightarrow> b_ID b | _ \<Rightarrow> []))"

definition backendUpdate :: "'w env \<Rightarrow> 'w ui \<Rightarrow> 'w whandler" where
  "backendUpdate env ui r = write_form env ui r ''backend_detail'' PatchBackendE (wr_ID r) (en_backend (ui_enc ui) (form_backend r (wr_ID r)))
     ''flash.backend_updated'' (\<lambda>_. ''/backends/'' @ wr_ID r)"

definition form_tunnel :: "web_request \<Rightarrow> tunnel" where
  "form_tunnel r = \<lparr>t_ID = [], t_NodeID = wr_Form r ''node_id'', t_BackendID = wr_Form r ''backend_id'', t_Type = TunnelWireGuard,
     t_InterfaceName = wr_Form r ''interface_name'', t_LocalOverlayIP = wr_Form r ''local_overlay_ip'',
     t_RemoteOverlayIP = wr_Form r ''remote_overlay_ip'', t_ListenPort = form_int r ''listen_port'', t_Endpoint = wr_Form r ''endpoint'',
     t_AllowedIPs = parseAllowedIPs (wr_Form r ''allowed_ips''), t_PersistentKeepalive = form_int r ''persistent_keepalive'',
     t_Priority = form_int r ''priority'', t_PrivateKeyPath = wr_Form r ''private_key_path'', t_PublicKey = [], t_ServiceName = [],
     t_CreatedAt = 0, t_UpdatedAt = 0\<rparr>"

definition tunnelCreate :: "'w env \<Rightarrow> 'w ui \<Rightarrow> 'w whandler" where
  "tunnelCreate env ui r = write_form env ui r ''tunnels'' CreateTunnelE [] (en_tunnel (ui_enc ui) (form_tunnel r)) ''flash.tunnel_created'' (\<lambda>_. ''/tunnels'')"

definition form_mapping :: "web_request \<Rightarrow> port_mapping" where
  "form_mapping r = \<lparr>m_ID = [], m_NodeID = wr_Form r ''node_id'', m_BackendID = wr_Form r ''backend_id'', m_Protocol = wr_Form r ''protocol'',
     m_PublicPort = form_int r ''public_port'', m_BackendPort = form_int r ''backend_port'', m_Enabled = False, m_CreatedAt = 0, m_UpdatedAt = 0\<rparr>"

definition mappingCreate :: "'w env \<Rightarrow> 'w ui \<Rightarrow> 'w whandler" where
  "mappingCreate env ui r = write_form env ui r ''mappings'' CreateMappingE [] (en_mapping (ui_enc ui) (form_mapping r)) ''flash.mapping_created'' (\<lambda>_. ''/mappings'')"

definition given :: "string \<Rightarrow> string option" where
  "given v = (if v \<noteq> [] then Some v else None)"

definition form_mapping_patch :: "web_request \<Rightarrow> mapping_patch" where
  "form_mapping_patch r = \<lparr>mp_NodeID = given (wr_Form r ''node_id''), mp_BackendID = given (wr_Form r ''backend_id''), mp_Backend = None,
     mp_Protocol = given (wr_Form r ''protocol''), mp_PublicPort = Some (form_int r ''public_port''), mp_BackendPort = Some (form_int r ''backend_port''),
     mp_Enabled = Some (wr_Form r ''enabled'' \<noteq> ''false'' \<and> wr_Form r ''enabled'' \<noteq> ''0'')\<rparr>"

definition mappingUpdate :: "'w env \<Rightarrow> 'w ui \<Rightarrow> 'w whandler" where
  "mappingUpdate env ui r = write_form env ui r ''mappings'' PatchMappingE (wr_ID r) (en_mapping_patch (ui_enc ui) (form_mapping_patch r))
     ''flash.mapping_updated'' (\<lambda>_. ''/mappings'')"

definition enable_patch :: "bool \<Rightarrow> mapping_patch" where
  "enable_patch b = \<lparr>mp_NodeID = None, mp_BackendID = None, mp_Backend = None, mp_Protocol = None, mp_PublicPort = None, mp_BackendPort = None,
     mp_Enabled = Some b\<rparr>"

definition mappingPatch :: "'w env \<Rightarrow> 'w ui \<Rightarrow> 'w whandler" where
  "mappingPatch env ui r =
     bindA (requireWrite env ui r) (\<lambda>_.
       let raw = firstNonEmpty [wr_Form r ''enabled'', wr_Query r ''enabled'']
       in if raw = [] then
            (if hx r then bindA (locale_of env ui r) (\<lambda>l. failA (respond (Page 400 ''alert''
                 (AlertData (resolve (ui_cat ui) l (alert ''validation'' ''error.invalid_title'' ''error.enabled_required'' []))))))
             else bindA (flash env ui r [] ''error.enabled_required'') (\<lambda>_. returnA (redirect r ''/mappings'')))
          else bindA (result_of (session_call env ui r PatchMappingE (wr_ID r)
                 (Some (en_mapping_patch (ui_enc ui) (enable_patch (raw = ''true'' \<or> raw = ''1'' \<or> raw = ''on'')))))) (\<lambda>q. case q of
              Inl err \<Rightarrow>
                if hx r then (case classifyUIError (Some err) of (status, a) \<Rightarrow>
                  bindA (locale_of env ui r) (\<lambda>l. failA (respond (Page status ''alert'' (AlertData (resolve (ui_cat ui) l a))))))
                else bindA (flashRaw env ui r (apiErr (ui_cat ui) (Some err))) (\<lambda>_. returnA (redirect r ''/mappings''))
            | Inr _ \<Rightarrow> if hx r then returnA (respond (Page 200 ''mappings-table'' NoData)) else returnA (redirect r ''/mappings'')))"

text \<open>An action whose failure is reported on the page the browser is sent back to.\<close>

definition call_or_flash :: "'w env \<Rightarrow> 'w ui \<Rightarrow> web_request \<Rightarrow> endpoint \<Rightarrow> ident \<Rightarrow> string option \<Rightarrow> string \<Rightarrow> string \<Rightarrow> ('w, response) webact" where
  "call_or_flash env ui r e i inp msg path =
     bindA (result_of (session_call env ui r e i inp)) (\<lambda>q.
     bindA (case q of Inl err \<Rightarrow> flashRaw env ui r (apiErr (ui_cat ui) (Some err)) | Inr _ \<Rightarrow> flash env ui r msg []) (\<lambda>_.
       returnA (redirect r path)))"

definition mappingDelete :: "'w env \<Rightarrow> 'w ui \<Rightarrow> 'w whandler" where
  "mappingDelete env ui r =
     bindA (requireWrite env ui r) (\<lambda>_. call_or_flash env ui r DeleteMappingE (wr_ID r) None ''flash.mapping_deleted'' ''/mappings'')"

definition nodeFailback :: "'w env \<Rightarrow> 'w ui \<Rightarrow> 'w whandler" where
  "nodeFailback env ui r =
     bindA (requireWrite env ui r) (\<lambda>_.
       let path = ''/nodes/'' @ wr_ID r; back = firstNonEmpty [wr_Form r ''backend'', wr_Form r ''backend_id'']
       in if wr_ParseErr r then bindA (flash env ui r [] ''flash.invalid_form'') (\<lambda>_. returnA (redirect r path))
          else if back = [] then bindA (flash env ui r [] ''flash.backend_required'') (\<lambda>_. returnA (redirect r path))
          else call_or_flash env ui r FailbackE (wr_ID r) (Some (en_failback (ui_enc ui) back ''fail_forward'')) ''flash.failback'' path)"

definition form_route :: "web_request \<Rightarrow> ident \<Rightarrow> sni_route" where
  "form_route r i = \<lparr>r_ID = i, r_NodeID = wr_Form r ''node_id'', r_Listen = firstNonEmpty [wr_Form r ''listen'', '':443''],
     r_Matches = parseSniMatches (wr_Form r ''default_backend'') (wr_Form r ''matches''), r_CreatedAt = 0, r_UpdatedAt = 0\<rparr>"

definition sniCreate :: "'w env \<Rightarrow> 'w ui \<Rightarrow> 'w whandler" where
  "sniCreate env ui r = write_form env ui r ''sni'' CreateSniE [] (en_sni (ui_enc ui) (form_route r [])) ''flash.sni_created'' (\<lambda>_. ''/sni-routes'')"

definition sniUpdate :: "'w env \<Rightarrow> 'w ui \<Rightarrow> 'w whandler" where
  "sniUpdate env ui r = write_form env ui r ''sni_detail'' PatchSniE (wr_ID r) (en_sni (ui_enc ui) (form_route r (wr_ID r))) ''flash.sni_updated'' (\<lambda>_. ''/sni-routes'')"

text \<open>Foreign nodes (foreign_nodes.go): a request without an id in its path creates one. The form leaves the labels alone.\<close>

definition form_foreign :: "web_request \<Rightarrow> foreign_input" where
  "form_foreign r = \<lparr>fi_Name = wr_Form r ''name'', fi_PublicAddress = wr_Form r ''public_address'', fi_ManagementAddress = wr_Form r ''management_address'',
     fi_Country = wr_Form r ''country'',
     fi_OverlayAddresses = (let raw = TrimSpace (wr_Form r ''overlay_addresses'') in if raw = [] then [] else Split raw (CHR '','')),
     fi_ProviderType = wr_Form r ''provider_type'', fi_Labels = []\<rparr>"

definition form_foreign_patch :: "web_request \<Rightarrow> foreign_patch" where
  "form_foreign_patch r = (let i = form_foreign r
     in \<lparr>fp_Name = Some (fi_Name i), fp_PublicAddress = Some (fi_PublicAddress i), fp_ManagementAddress = Some (fi_ManagementAddress i),
         fp_Country = Some (fi_Country i), fp_OverlayAddresses = Some (fi_OverlayAddresses i), fp_ProviderType = Some (fi_ProviderType i), fp_Labels = None\<rparr>)"

definition saveForeignNode :: "'w env \<Rightarrow> 'w ui \<Rightarrow> 'w whandler" where
  "saveForeignNode env ui r =
     bindA (requireWrite env ui r) (\<lambda>_.
       if wr_ParseErr r then error_page env ui r (Validation ''invalid form'')
       else bindA (orReply (\<lambda>err. form_page ''foreign_nodes'' (apiErr (ui_cat ui) (Some err)))
              (if wr_ID r = [] then session_call env ui r CreateForeignE [] (Some (en_foreign (ui_enc ui) (form_foreign r)))
               else session_call env ui r PatchForeignE (wr_ID r) (Some (en_foreign_patch (ui_enc ui) (form_foreign_patch r))))) (\<lambda>v.
            bindA (flash env ui r ''foreign.saved'' []) (\<lambda>_.
              returnA (redirect r (''/foreign-nodes?id='' @ (case v of RForeign n \<Rightarrow> fn_ID n | _ \<Rightarrow> []))))))"

section \<open>Routes\<close>

datatype wroute =
    GetLogin | PostLogin | GetMFA | PostMFA | GetSetup | PostSetup | PostLogout | PostLocale
  | ReadPage string | AdminPage string | NodePlan | NodeDryRun | NodeApply | NodeFailback
  | BackendCreate | BackendUpdate | TunnelCreate | MappingCreate | MappingUpdate | MappingPatch | MappingDelete
  | SniCreate | SniUpdate | ForeignSave | UserCreate | UserUpdate
  | SettingsPassword | SettingsTOTPBegin | SettingsTOTPConfirm | SettingsTOTPDisable | SettingsRecovery

definition read_page :: "string \<Rightarrow> 'w whandler" where
  "read_page name r = returnA (respond (Page 200 name NoData))"

fun whandler_of :: "'w env \<Rightarrow> 'w ui \<Rightarrow> wroute \<Rightarrow> 'w whandler" where
  "whandler_of env ui GetLogin = getLogin env ui"
| "whandler_of env ui PostLogin = postLogin env ui"
| "whandler_of env ui GetMFA = getMFA env ui"
| "whandler_of env ui PostMFA = postMFA env ui"
| "whandler_of env ui GetSetup = getSetup env ui"
| "whandler_of env ui PostSetup = postSetup env ui"
| "whandler_of env ui PostLogout = postLogout env ui"
| "whandler_of env ui PostLocale = postLocale env ui"
| "whandler_of env ui (ReadPage name) = requireSession env ui (read_page name)"
| "whandler_of env ui (AdminPage name) = requireSession env ui (requireAdmin env ui (read_page name))"
| "whandler_of env ui NodePlan = requireSession env ui (nodePlan env ui)"
| "whandler_of env ui NodeDryRun = requireSession env ui (nodeDryRun env ui)"
| "whandler_of env ui NodeApply = requireSession env ui (nodeApply env ui)"
| "whandler_of env ui NodeFailback = requireSession env ui (nodeFailback env ui)"
| "whandler_of env ui BackendCreate = requireSession env ui (backendCreate env ui)"
| "whandler_of env ui BackendUpdate = requireSession env ui (backendUpdate env ui)"
| "whandler_of env ui TunnelCreate = requireSession env ui (tunnelCreate env ui)"
| "whandler_of env ui MappingCreate = requireSession env ui (mappingCreate env ui)"
| "whandler_of env ui MappingUpdate = requireSession env ui (mappingUpdate env ui)"
| "whandler_of env ui MappingPatch = requireSession env ui (mappingPatch env ui)"
| "whandler_of env ui MappingDelete = requireSession env ui (mappingDelete env ui)"
| "whandler_of env ui SniCreate = requireSession env ui (sniCreate env ui)"
| "whandler_of env ui SniUpdate = requireSession env ui (sniUpdate env ui)"
| "whandler_of env ui ForeignSave = requireSession env ui (saveForeignNode env ui)"
| "whandler_of env ui UserCreate = requireSession env ui (requireAdmin env ui (userCreate env ui))"
| "whandler_of env ui UserUpdate = requireSession env ui (requireAdmin env ui (userUpdate env ui))"
| "whandler_of env ui SettingsPassword = requireSession env ui (settingsPassword env ui)"
| "whandler_of env ui SettingsTOTPBegin = requireSession env ui (settingsTOTPBegin env ui)"
| "whandler_of env ui SettingsTOTPConfirm = requireSession env ui (settingsTOTPConfirm env ui)"
| "whandler_of env ui SettingsTOTPDisable = requireSession env ui (settingsTOTPDisable env ui)"
| "whandler_of env ui SettingsRecovery = requireSession env ui (settingsRecovery env ui)"

text \<open>Every page but those of the login is drawn in a frame, which takes the flash messages.\<close>

definition framed :: "response \<Rightarrow> bool" where
  "framed resp = (case rs_Body resp of Page status name x \<Rightarrow> name \<notin> {''login'', ''mfa'', ''setup''} | _ \<Rightarrow> False)"

definition web_serve :: "'w env \<Rightarrow> 'w ui \<Rightarrow> wroute \<Rightarrow> web_request \<Rightarrow> 'w web \<Rightarrow> response \<times> 'w web" where
  "web_serve env ui w r st =
     (case whandler_of env ui w r st of (q, st') \<Rightarrow>
       let resp = (case q of Inl x \<Rightarrow> x | Inr x \<Rightarrow> x)
       in (resp, if framed resp then snd (pageBase env ui r st') else st'))"

text \<open>A history of requests from any browsers.\<close>

definition web_serve_all :: "'w env \<Rightarrow> 'w ui \<Rightarrow> (wroute \<times> web_request) list \<Rightarrow> 'w web \<Rightarrow> 'w web" where
  "web_serve_all env ui reqs st = fold (\<lambda>(w, r) st. snd (web_serve env ui w r st)) reqs st"

end
