(* ===== verification/Inventory.thy ===== *)
theory Inventory
  imports SqliteStore
begin

text \<open>
  The abstract inventory: what the controller promises to keep, as a state machine. \<open>inventory_of\<close> forgets
  the accounts, the tokens and the audit trail of the database; \<open>inventory_step\<close> has one rule per way the
  inventory may change, with its guard; \<open>inventory_ok\<close> is the invariant of its reachable states. The last
  part shows that every writing method of the store is a step of the machine or leaves it alone.
\<close>

section \<open>Stored rows\<close>

text \<open>A stored row is normalised and passes \<open>Validate\<close>.\<close>

definition node_row :: "node \<Rightarrow> bool" where
  "node_row n \<longleftrightarrow> Node_Normalize n = n \<and> Node_Validate n = None"

definition backend_row :: "backend \<Rightarrow> bool" where
  "backend_row b \<longleftrightarrow> Backend_Normalize b = b \<and> Backend_Validate b = None"

definition tunnel_row :: "tunnel \<Rightarrow> bool" where
  "tunnel_row t \<longleftrightarrow> Tunnel_Normalize t = t \<and> Tunnel_Validate t = None"

definition mapping_row :: "port_mapping \<Rightarrow> bool" where
  "mapping_row m \<longleftrightarrow> PortMapping_Normalize m = m \<and> PortMapping_Validate m = None"

definition route_row :: "sni_route \<Rightarrow> bool" where
  "route_row r \<longleftrightarrow> SniRoute_Normalize r = r \<and> SniRoute_Validate r = None"

lemma Node_Normalize_idem [simp]: "Node_Normalize (Node_Normalize n) = Node_Normalize n"
  by (simp add: Node_Normalize_def)

lemma Backend_Normalize_idem [simp]: "Backend_Normalize (Backend_Normalize b) = Backend_Normalize b"
  by (simp add: Backend_Normalize_def)

lemma Tunnel_Normalize_twice [simp]: "Tunnel_Normalize (Tunnel_Normalize t) = Tunnel_Normalize t"
  by (simp add: Tunnel_Normalize_def TrimSpace_ToUpper)

lemma PortMapping_Normalize_idem [simp]: "PortMapping_Normalize (PortMapping_Normalize m) = PortMapping_Normalize m"
  by (simp add: PortMapping_Normalize_def)

lemma SniRoute_Normalize_idem [simp]: "SniRoute_Normalize (SniRoute_Normalize r) = SniRoute_Normalize r"
  by (simp add: SniRoute_Normalize_def)

lemma Validate_Normalize:
  "Node_Validate (Node_Normalize n) = Node_Validate n" "Backend_Validate (Backend_Normalize b) = Backend_Validate b"
  "Tunnel_Validate (Tunnel_Normalize t) = Tunnel_Validate t"
  "PortMapping_Validate (PortMapping_Normalize m) = PortMapping_Validate m"
  "SniRoute_Validate (SniRoute_Normalize r) = SniRoute_Validate r"
  by (simp_all add: Node_Validate_def Backend_Validate_def Tunnel_Validate_def PortMapping_Validate_def SniRoute_Validate_def)

text \<open>What a call of \<open>Validate\<close> without error leaves in its receiver is fit to be stored.\<close>

lemma validated_row:
  "Node_Validate n = None \<Longrightarrow> node_row (Node_Normalize n)"
  "Backend_Validate b = None \<Longrightarrow> backend_row (Backend_Normalize b)"
  "Tunnel_Validate t = None \<Longrightarrow> tunnel_row (Tunnel_Normalize t)"
  "PortMapping_Validate m = None \<Longrightarrow> mapping_row (PortMapping_Normalize m)"
  "SniRoute_Validate r = None \<Longrightarrow> route_row (SniRoute_Normalize r)"
  by (simp_all add: node_row_def backend_row_def tunnel_row_def mapping_row_def route_row_def Validate_Normalize)

text \<open>Identity, times and the enabled flag take no part in validation.\<close>

lemma node_row_stamps [simp]:
  "node_row (n\<lparr>n_ID := i\<rparr>) = node_row n" "node_row (n\<lparr>n_CreatedAt := c\<rparr>) = node_row n" "node_row (n\<lparr>n_UpdatedAt := u\<rparr>) = node_row n"
  by (cases n; simp add: node_row_def Node_Validate_def Node_Normalize_def)+

lemma backend_row_stamps [simp]:
  "backend_row (b\<lparr>b_ID := i\<rparr>) = backend_row b" "backend_row (b\<lparr>b_CreatedAt := c\<rparr>) = backend_row b" "backend_row (b\<lparr>b_UpdatedAt := u\<rparr>) = backend_row b"
  by (cases b; simp add: backend_row_def Backend_Validate_def Backend_Normalize_def)+

lemma Tunnel_check_stamps [simp]:
  "Tunnel_check (t\<lparr>t_ID := i\<rparr>) = Tunnel_check t" "Tunnel_check (t\<lparr>t_CreatedAt := c\<rparr>) = Tunnel_check t" "Tunnel_check (t\<lparr>t_UpdatedAt := u\<rparr>) = Tunnel_check t"
  by (simp_all add: Tunnel_check_def)

lemma Tunnel_Normalize_stamps [simp]:
  "Tunnel_Normalize (t\<lparr>t_ID := i\<rparr>) = (Tunnel_Normalize t)\<lparr>t_ID := i\<rparr>"
  "Tunnel_Normalize (t\<lparr>t_CreatedAt := c\<rparr>) = (Tunnel_Normalize t)\<lparr>t_CreatedAt := c\<rparr>"
  "Tunnel_Normalize (t\<lparr>t_UpdatedAt := u\<rparr>) = (Tunnel_Normalize t)\<lparr>t_UpdatedAt := u\<rparr>"
  by (cases t; simp add: Tunnel_Normalize_def)+

lemma tunnel_row_stamps [simp]:
  "tunnel_row (t\<lparr>t_ID := i\<rparr>) = tunnel_row t" "tunnel_row (t\<lparr>t_CreatedAt := c\<rparr>) = tunnel_row t" "tunnel_row (t\<lparr>t_UpdatedAt := u\<rparr>) = tunnel_row t"
  by (cases t; simp add: tunnel_row_def Tunnel_Validate_def Tunnel_Normalize_def Tunnel_check_def)+

lemma mapping_row_stamps [simp]:
  "mapping_row (m\<lparr>m_ID := i\<rparr>) = mapping_row m" "mapping_row (m\<lparr>m_Enabled := e\<rparr>) = mapping_row m"
  "mapping_row (m\<lparr>m_CreatedAt := c\<rparr>) = mapping_row m" "mapping_row (m\<lparr>m_UpdatedAt := u\<rparr>) = mapping_row m"
  by (cases m; simp add: mapping_row_def PortMapping_Validate_def PortMapping_Normalize_def)+

lemma route_row_stamps [simp]:
  "route_row (r\<lparr>r_ID := i\<rparr>) = route_row r" "route_row (r\<lparr>r_CreatedAt := c\<rparr>) = route_row r" "route_row (r\<lparr>r_UpdatedAt := u\<rparr>) = route_row r"
  by (cases r; simp add: route_row_def SniRoute_Validate_def SniRoute_Normalize_def)+

section \<open>The machine\<close>

record inventory =
  in_nodes :: "node list"
  in_backends :: "backend list"
  in_tunnels :: "tunnel list"
  in_mappings :: "port_mapping list"
  in_sni :: "sni_route list"
  in_checks :: "health_check list"
  in_policies :: "failover_policy list"
  in_intents :: "failback_intent list"
  in_status :: "(agent_status \<times> actual_state) list"

definition inventory_of :: "'w db \<Rightarrow> inventory" where
  "inventory_of s = \<lparr>in_nodes = db_nodes s, in_backends = db_backends s, in_tunnels = db_tunnels s, in_mappings = db_mappings s,
     in_sni = db_sni s, in_checks = db_checks s, in_policies = db_policies s, in_intents = db_intents s, in_status = db_status s\<rparr>"

definition mapping_key :: "port_mapping \<Rightarrow> ident \<times> string \<times> int" where
  "mapping_key m = (m_NodeID m, m_Protocol m, m_PublicPort m)"

definition knows_node :: "inventory \<Rightarrow> ident \<Rightarrow> bool" where
  "knows_node i n \<longleftrightarrow> n \<in> n_ID ` set (in_nodes i)"

definition knows_backend :: "inventory \<Rightarrow> ident \<Rightarrow> bool" where
  "knows_backend i b \<longleftrightarrow> b \<in> b_ID ` set (in_backends i)"

inductive inventory_step :: "inventory \<Rightarrow> inventory \<Rightarrow> bool" where
  add_node: "node_row n \<Longrightarrow> n_ID n \<notin> n_ID ` set (in_nodes i) \<Longrightarrow> n_Name n \<notin> n_Name ` set (in_nodes i) \<Longrightarrow>
    inventory_step i (i\<lparr>in_nodes := in_nodes i @ [n]\<rparr>)"
| add_backend: "backend_row b \<Longrightarrow> b_ID b \<notin> b_ID ` set (in_backends i) \<Longrightarrow> b_Name b \<notin> b_Name ` set (in_backends i) \<Longrightarrow>
    knows_node i (b_NodeID b) \<Longrightarrow> inventory_step i (i\<lparr>in_backends := in_backends i @ [b]\<rparr>)"
| set_backend: "backend_row b \<Longrightarrow> knows_backend i (b_ID b) \<Longrightarrow> knows_node i (b_NodeID b) \<Longrightarrow>
    \<forall>r \<in> set (in_backends i). b_ID r \<noteq> b_ID b \<longrightarrow> b_Name r \<noteq> b_Name b \<Longrightarrow>
    inventory_step i (i\<lparr>in_backends := upd_where (\<lambda>r. b_ID r = b_ID b) (\<lambda>r. b\<lparr>b_CreatedAt := b_CreatedAt r\<rparr>) (in_backends i)\<rparr>)"
| add_tunnel: "tunnel_row t \<Longrightarrow> t_ID t \<notin> t_ID ` set (in_tunnels i) \<Longrightarrow> knows_node i (t_NodeID t) \<Longrightarrow> knows_backend i (t_BackendID t) \<Longrightarrow>
    inventory_step i (i\<lparr>in_tunnels := in_tunnels i @ [t]\<rparr>)"
| add_mapping: "mapping_row m \<Longrightarrow> m_Enabled m \<Longrightarrow> m_ID m \<notin> m_ID ` set (in_mappings i) \<Longrightarrow>
    mapping_key m \<notin> mapping_key ` set (in_mappings i) \<Longrightarrow> knows_node i (m_NodeID m) \<Longrightarrow> knows_backend i (m_BackendID m) \<Longrightarrow>
    inventory_step i (i\<lparr>in_mappings := in_mappings i @ [m]\<rparr>)"
| set_mapping: "mapping_row m \<Longrightarrow> m_ID m \<in> m_ID ` set (in_mappings i) \<Longrightarrow> knows_node i (m_NodeID m) \<Longrightarrow> knows_backend i (m_BackendID m) \<Longrightarrow>
    \<forall>r \<in> set (in_mappings i). m_ID r \<noteq> m_ID m \<longrightarrow> mapping_key r \<noteq> mapping_key m \<Longrightarrow>
    inventory_step i (i\<lparr>in_mappings := upd_where (\<lambda>r. m_ID r = m_ID m) (\<lambda>r. m\<lparr>m_CreatedAt := m_CreatedAt r\<rparr>) (in_mappings i)\<rparr>)"
| drop_mapping: "k \<in> m_ID ` set (in_mappings i) \<Longrightarrow>
    inventory_step i (i\<lparr>in_mappings := filter (\<lambda>r. m_ID r \<noteq> k) (in_mappings i)\<rparr>)"
| add_route: "route_row r \<Longrightarrow> r_ID r \<notin> r_ID ` set (in_sni i) \<Longrightarrow> knows_node i (r_NodeID r) \<Longrightarrow>
    inventory_step i (i\<lparr>in_sni := in_sni i @ [r]\<rparr>)"
| set_route: "route_row r \<Longrightarrow> r_ID r \<in> r_ID ` set (in_sni i) \<Longrightarrow> knows_node i (r_NodeID r) \<Longrightarrow>
    inventory_step i (i\<lparr>in_sni := upd_where (\<lambda>x. r_ID x = r_ID r) (\<lambda>x. r\<lparr>r_CreatedAt := r_CreatedAt x\<rparr>) (in_sni i)\<rparr>)"
| add_intent: "fi_Action x = ''fail_forward'' \<Longrightarrow> fi_ID x \<notin> fi_ID ` set (in_intents i) \<Longrightarrow> knows_node i (fi_NodeID x) \<Longrightarrow> knows_backend i (fi_BackendID x) \<Longrightarrow>
    inventory_step i (i\<lparr>in_intents := in_intents i @ [x]\<rparr>)"
| new_status: "knows_node i (ag_NodeID (fst row)) \<Longrightarrow> ag_NodeID (fst row) \<notin> (ag_NodeID \<circ> fst) ` set (in_status i) \<Longrightarrow>
    inventory_step i (i\<lparr>in_status := in_status i @ [row]\<rparr>)"
| set_status: "ag_NodeID (fst row) \<in> (ag_NodeID \<circ> fst) ` set (in_status i) \<Longrightarrow>
    inventory_step i (i\<lparr>in_status := upd_where (\<lambda>r. ag_NodeID (fst r) = ag_NodeID (fst row)) (\<lambda>_. row) (in_status i)\<rparr>)"

section \<open>The invariant\<close>

definition keyed :: "('a \<Rightarrow> 'k) \<Rightarrow> ('a \<Rightarrow> bool) \<Rightarrow> 'a list \<Rightarrow> bool" where
  "keyed pk P rows \<longleftrightarrow> distinct (map pk rows) \<and> (\<forall>r \<in> set rows. P r)"

definition inventory_ok :: "inventory \<Rightarrow> bool" where
  "inventory_ok i \<longleftrightarrow>
     keyed n_ID node_row (in_nodes i) \<and> distinct (map n_Name (in_nodes i)) \<and>
     keyed b_ID (\<lambda>b. backend_row b \<and> knows_node i (b_NodeID b)) (in_backends i) \<and> distinct (map b_Name (in_backends i)) \<and>
     keyed t_ID (\<lambda>t. tunnel_row t \<and> knows_node i (t_NodeID t) \<and> knows_backend i (t_BackendID t)) (in_tunnels i) \<and>
     keyed m_ID (\<lambda>m. mapping_row m \<and> knows_node i (m_NodeID m) \<and> knows_backend i (m_BackendID m)) (in_mappings i) \<and>
     distinct (map mapping_key (in_mappings i)) \<and>
     keyed r_ID (\<lambda>r. route_row r \<and> knows_node i (r_NodeID r)) (in_sni i) \<and>
     keyed fi_ID (\<lambda>x. fi_Action x = ''fail_forward'' \<and> knows_node i (fi_NodeID x) \<and> knows_backend i (fi_BackendID x)) (in_intents i) \<and>
     keyed (ag_NodeID \<circ> fst) (\<lambda>r. knows_node i (ag_NodeID (fst r))) (in_status i)"

lemma keyed_snoc: "keyed pk P rows \<Longrightarrow> pk r \<notin> pk ` set rows \<Longrightarrow> P r \<Longrightarrow> keyed pk P (rows @ [r])"
  by (auto simp: keyed_def)

lemma keyed_mono: "keyed pk P rows \<Longrightarrow> (\<And>r. P r \<Longrightarrow> Q r) \<Longrightarrow> keyed pk Q rows"
  by (simp add: keyed_def)

lemma keyed_filter: "keyed pk P rows \<Longrightarrow> keyed pk P (filter Q rows)"
  by (simp add: keyed_def distinct_filter_map)

lemma keyed_upd: "keyed pk P rows \<Longrightarrow> (\<And>r. C r \<Longrightarrow> pk (f r) = pk r \<and> P (f r)) \<Longrightarrow> keyed pk P (upd_where C f rows)"
proof -
  assume rows: "keyed pk P rows" and f: "\<And>r. C r \<Longrightarrow> pk (f r) = pk r \<and> P (f r)"
  have "map pk (upd_where C f rows) = map pk rows" using f by (auto simp: upd_where_def)
  moreover have "\<forall>r \<in> set (upd_where C f rows). P r" using rows f by (auto simp: keyed_def upd_where_def)
  ultimately show ?thesis using rows by (simp add: keyed_def)
qed

lemma mapping_key_created [simp]: "mapping_key (m\<lparr>m_CreatedAt := c\<rparr>) = mapping_key m"
  by (simp add: mapping_key_def)

lemma map_upd_where_key: "(\<And>r. P r \<Longrightarrow> r \<in> set rows \<Longrightarrow> k (f r) = k r) \<Longrightarrow> map k (upd_where P f rows) = map k rows"
  by (auto simp: upd_where_def)

lemma set_upd_where: "x \<in> set (upd_where P f rows) \<Longrightarrow> x \<in> set rows \<or> (\<exists>r \<in> set rows. P r \<and> x = f r)"
  by (auto simp: upd_where_def split: if_splits)

text \<open>Replacing the row with a primary key keeps another key unique that no other row has.\<close>

lemma distinct_upd_where:
  assumes "distinct (map pk rows)" and "distinct (map k rows)" and "\<And>r. r \<in> set rows \<Longrightarrow> pk r = p \<Longrightarrow> k (f r) = c"
    and "\<forall>r \<in> set rows. pk r \<noteq> p \<longrightarrow> k r \<noteq> c"
  shows "distinct (map k (upd_where (\<lambda>r. pk r = p) f rows))"
  using assms
proof (induction rows)
  case Nil
  then show ?case by (simp add: upd_where_def)
next
  case (Cons a rows)
  have IH: "distinct (map k (upd_where (\<lambda>r. pk r = p) f rows))" using Cons by simp
  show ?case
  proof (cases "pk a = p")
    case True
    then have "\<forall>r \<in> set rows. pk r \<noteq> p" using Cons.prems(1) by (auto simp: rev_image_eqI)
    then have "upd_where (\<lambda>r. pk r = p) f rows = rows" by (auto simp: upd_where_def intro: map_idI)
    then show ?thesis using Cons.prems True \<open>\<forall>r \<in> set rows. pk r \<noteq> p\<close> by (auto simp: upd_where_def)
  next
    case False
    have "k a \<noteq> k x" if "x \<in> set (upd_where (\<lambda>r. pk r = p) f rows)" for x
      using set_upd_where [OF that] Cons.prems False by (auto simp: rev_image_eqI)
    moreover have "upd_where (\<lambda>r. pk r = p) f (a # rows) = a # upd_where (\<lambda>r. pk r = p) f rows"
      using False by (simp add: upd_where_def)
    ultimately show ?thesis using IH by auto
  qed
qed

lemma ids_upd_where [simp]:
  "map b_ID (upd_where (\<lambda>r. b_ID r = b_ID b) (\<lambda>r. b\<lparr>b_CreatedAt := b_CreatedAt r\<rparr>) bs) = map b_ID bs"
  "map m_ID (upd_where (\<lambda>r. m_ID r = m_ID m) (\<lambda>r. m\<lparr>m_CreatedAt := m_CreatedAt r\<rparr>) ms) = map m_ID ms"
  "map r_ID (upd_where (\<lambda>x. r_ID x = r_ID r) (\<lambda>x. r\<lparr>r_CreatedAt := r_CreatedAt x\<rparr>) rs) = map r_ID rs"
  "map (ag_NodeID \<circ> fst) (upd_where (\<lambda>r. ag_NodeID (fst r) = ag_NodeID (fst row)) (\<lambda>_. row) st) = map (ag_NodeID \<circ> fst) st"
  by (auto simp: upd_where_def)

lemma knows_upd_backend [simp]:
  "knows_backend (i\<lparr>in_backends := upd_where (\<lambda>r. b_ID r = b_ID b) (\<lambda>r. b\<lparr>b_CreatedAt := b_CreatedAt r\<rparr>) (in_backends i)\<rparr>) k
   \<longleftrightarrow> knows_backend i k"
  unfolding knows_backend_def set_map [symmetric] by simp

lemma knows_other [simp]:
  "knows_node (i\<lparr>in_backends := bs\<rparr>) = knows_node i" "knows_node (i\<lparr>in_tunnels := ts\<rparr>) = knows_node i"
  "knows_node (i\<lparr>in_mappings := ms\<rparr>) = knows_node i" "knows_node (i\<lparr>in_sni := rs\<rparr>) = knows_node i"
  "knows_node (i\<lparr>in_intents := xs\<rparr>) = knows_node i" "knows_node (i\<lparr>in_status := st\<rparr>) = knows_node i"
  "knows_backend (i\<lparr>in_nodes := ns\<rparr>) = knows_backend i" "knows_backend (i\<lparr>in_tunnels := ts\<rparr>) = knows_backend i"
  "knows_backend (i\<lparr>in_mappings := ms\<rparr>) = knows_backend i" "knows_backend (i\<lparr>in_sni := rs\<rparr>) = knows_backend i"
  "knows_backend (i\<lparr>in_intents := xs\<rparr>) = knows_backend i" "knows_backend (i\<lparr>in_status := st\<rparr>) = knows_backend i"
  by (simp_all add: knows_node_def knows_backend_def fun_eq_iff)

lemma knows_more [simp]:
  "knows_node (i\<lparr>in_nodes := in_nodes i @ [n]\<rparr>) k \<longleftrightarrow> k = n_ID n \<or> knows_node i k"
  "knows_backend (i\<lparr>in_backends := in_backends i @ [b]\<rparr>) k \<longleftrightarrow> k = b_ID b \<or> knows_backend i k"
  by (auto simp: knows_node_def knows_backend_def)

lemma inventory_step_ok: "inventory_step i i' \<Longrightarrow> inventory_ok i \<Longrightarrow> inventory_ok i'"
proof (induction rule: inventory_step.induct)
  case (add_node n i)
  then show ?case unfolding inventory_ok_def by (auto intro!: keyed_snoc elim!: keyed_mono)
next
  case (add_backend b i)
  then show ?case unfolding inventory_ok_def by (auto intro!: keyed_snoc elim!: keyed_mono)
next
  case (set_backend b i)
  have "distinct (map b_Name (upd_where (\<lambda>r. b_ID r = b_ID b) (\<lambda>r. b\<lparr>b_CreatedAt := b_CreatedAt r\<rparr>) (in_backends i)))"
    using set_backend by (intro distinct_upd_where [where c = "b_Name b"]) (auto simp: inventory_ok_def keyed_def)
  then show ?case using set_backend.prems set_backend.hyps(1,3) unfolding inventory_ok_def by (auto intro!: keyed_upd)
next
  case (set_mapping m i)
  have "distinct (map m_ID (in_mappings i))" "distinct (map mapping_key (in_mappings i))"
    using set_mapping.prems by (simp_all add: inventory_ok_def keyed_def)
  then have "distinct (map mapping_key (upd_where (\<lambda>r. m_ID r = m_ID m) (\<lambda>r. m\<lparr>m_CreatedAt := m_CreatedAt r\<rparr>) (in_mappings i)))"
    using set_mapping.hyps by (intro distinct_upd_where [where c = "mapping_key m"]) simp_all
  then show ?case using set_mapping.prems set_mapping.hyps(1,3,4) unfolding inventory_ok_def by (auto intro!: keyed_upd)
next
  case (drop_mapping k i)
  then show ?case unfolding inventory_ok_def by (auto intro!: keyed_filter distinct_filter_map)
next
  case (set_route r i)
  from set_route.prems set_route.hyps(1,3) show ?case unfolding inventory_ok_def by (auto intro!: keyed_upd)
next
  case (set_status row i)
  have "knows_node i (ag_NodeID (fst row))" if "inventory_ok i" using that set_status.hyps by (auto simp: inventory_ok_def keyed_def)
  then have k: "inventory_ok i \<Longrightarrow> knows_node i (ag_NodeID (fst row))" .
  from k [OF set_status.prems] set_status.prems show ?case unfolding inventory_ok_def by (auto intro!: keyed_upd)
next
  case (new_status row i)
  then show ?case unfolding inventory_ok_def by (simp add: keyed_snoc)
qed (auto simp: inventory_ok_def intro!: keyed_snoc)

section \<open>The store implements the machine\<close>

lemma inventory_of_sels [simp]:
  "in_nodes (inventory_of s) = db_nodes s" "in_backends (inventory_of s) = db_backends s" "in_tunnels (inventory_of s) = db_tunnels s"
  "in_mappings (inventory_of s) = db_mappings s" "in_sni (inventory_of s) = db_sni s" "in_intents (inventory_of s) = db_intents s"
  "in_status (inventory_of s) = db_status s" "in_checks (inventory_of s) = db_checks s" "in_policies (inventory_of s) = db_policies s"
  by (simp_all add: inventory_of_def)

lemma inventory_of_upd [simp]:
  "inventory_of (s\<lparr>db_nodes := a\<rparr>) = (inventory_of s)\<lparr>in_nodes := a\<rparr>"
  "inventory_of (s\<lparr>db_backends := b\<rparr>) = (inventory_of s)\<lparr>in_backends := b\<rparr>"
  "inventory_of (s\<lparr>db_tunnels := c\<rparr>) = (inventory_of s)\<lparr>in_tunnels := c\<rparr>"
  "inventory_of (s\<lparr>db_mappings := d\<rparr>) = (inventory_of s)\<lparr>in_mappings := d\<rparr>"
  "inventory_of (s\<lparr>db_sni := e\<rparr>) = (inventory_of s)\<lparr>in_sni := e\<rparr>"
  "inventory_of (s\<lparr>db_intents := f\<rparr>) = (inventory_of s)\<lparr>in_intents := f\<rparr>"
  "inventory_of (s\<lparr>db_status := g\<rparr>) = (inventory_of s)\<lparr>in_status := g\<rparr>"
  "inventory_of (s\<lparr>db_tokens := h\<rparr>) = inventory_of s" "inventory_of (s\<lparr>db_users := j\<rparr>) = inventory_of s"
  "inventory_of (s\<lparr>db_codes := k\<rparr>) = inventory_of s" "inventory_of (s\<lparr>db_audit := l\<rparr>) = inventory_of s"
  "inventory_of (s\<lparr>db_foreign := f'\<rparr>) = inventory_of s" "inventory_of (s\<lparr>db_world := w\<rparr>) = inventory_of s"
  by (simp_all add: inventory_of_def)

lemma has_knows [simp]: "has_node s n = knows_node (inventory_of s) n" "has_backend s b = knows_backend (inventory_of s) b"
  by (auto simp: has_node_def has_backend_def knows_node_def knows_backend_def)

lemma effects_insertA:
  assumes "\<And>s. first_err (violated s) = None \<Longrightarrow> R s () (add s)"
  shows "effects R (insertA env op err violated add)"
  unfolding insertA_def
  by (intro effects_then [where R = "\<lambda>s _ s'. R s () s'"] effects_onErr effects_exec) (simp_all add: assms)

lemma effects_updateA:
  assumes "\<And>s. key \<notin> set (keys s) \<Longrightarrow> change s = s"
    and "\<And>s. key \<in> set (keys s) \<Longrightarrow> first_err (violated s) = None \<Longrightarrow> R s () (change s)"
  shows "effects R (updateA env op err key keys violated change)"
  unfolding updateA_def
proof (rule effects_some_row [where R = "\<lambda>s n s'. if key \<in> set (keys s) then 0 < n \<and> R s () s' else n = 0 \<and> s' = s"])
  show "effects (\<lambda>s n s'. if key \<in> set (keys s) then 0 < n \<and> R s () s' else n = 0 \<and> s' = s)
     (onErr err (exec env op (\<lambda>s. if key \<in> set (keys s) then violated s else [])
       (\<lambda>s. (length (filter (\<lambda>k. k = key) (keys s)), change s))))"
    using assms by (intro effects_onErr effects_exec) (auto simp: filter_empty_conv)
qed (auto split: if_splits)

lemma effects_stamped [table_intros]: "(\<And>c u. effects R (k c u)) \<Longrightarrow> effects R (stamped env a b k)"
  unfolding stamped_def by (intro table_intros)

text \<open>\<open>steps m\<close>: if \<open>m\<close> fails it leaves the inventory alone, if it succeeds it makes one step.\<close>

abbreviation steps :: "('w, 'a) dbact \<Rightarrow> bool" where
  "steps \<equiv> effects (\<lambda>s _ s'. inventory_step (inventory_of s) (inventory_of s'))"

lemmas db_steps = inventory_step.intros [where i = "inventory_of s" for s, unfolded inventory_of_sels]

lemma notin_image: "k \<notin> f ` A \<longleftrightarrow> (\<forall>x \<in> A. f x \<noteq> k)"
  by auto

lemma CreateNode_steps: "node_row n \<Longrightarrow> steps (CreateNode env n)"
  unfolding CreateNode_def by (intro effects_stamped effects_insertA) (auto simp: notin_image intro!: db_steps)

lemma CreateBackend_steps: "backend_row b \<Longrightarrow> steps (CreateBackend env b)"
  unfolding CreateBackend_def backend_refs_def
  by (intro effects_stamped effects_insertA) (auto simp: notin_image intro!: db_steps)

lemma CreateTunnel_steps: "tunnel_row t \<Longrightarrow> steps (CreateTunnel env t)"
  unfolding CreateTunnel_def by (intro effects_stamped effects_insertA) (auto simp: notin_image intro!: db_steps)

lemma CreateMapping_steps: "mapping_row m \<Longrightarrow> steps (CreateMapping env m)"
  unfolding CreateMapping_def mapping_checks_def
  by (intro effects_stamped effects_insertA) (auto simp: notin_image mapping_key_def intro!: db_steps)

lemma CreateSniRoute_steps: "route_row r \<Longrightarrow> steps (CreateSniRoute env r)"
  unfolding CreateSniRoute_def route_refs_def
  by (intro effects_stamped effects_insertA) (auto simp: notin_image intro!: db_steps)

lemma CreateFailbackIntent_steps: "fi_Action x = ''fail_forward'' \<Longrightarrow> steps (CreateFailbackIntent env x)"
  unfolding CreateFailbackIntent_def
  by (intro table_intros effects_insertA) (auto simp: notin_image intro!: db_steps)

lemma DeleteMapping_steps: "steps (DeleteMapping env k)"
  unfolding DeleteMapping_def
proof (rule effects_updateA)
  fix s :: "'a db"
  assume "k \<notin> set (map m_ID (db_mappings s))"
  then have "filter (\<lambda>r. m_ID r \<noteq> k) (db_mappings s) = db_mappings s" by (auto intro: filter_True)
  then show "s\<lparr>db_mappings := filter (\<lambda>r. m_ID r \<noteq> k) (db_mappings s)\<rparr> = s" by simp
qed (auto intro!: db_steps)

lemma put_status_step:
  assumes "knows_node (inventory_of s) n" and row: "ag_NodeID (fst row) = n"
  shows "inventory_step (inventory_of s) ((inventory_of s)\<lparr>in_status :=
    (if \<exists>r \<in> set (db_status s). ag_NodeID (fst r) = n
     then upd_where (\<lambda>r. ag_NodeID (fst r) = n) (\<lambda>_. row) (db_status s) else db_status s @ [row])\<rparr>)"
proof (cases "\<exists>r \<in> set (db_status s). ag_NodeID (fst r) = n")
  case True
  then obtain r where "r \<in> set (db_status s)" "ag_NodeID (fst row) = (ag_NodeID \<circ> fst) r" using row by auto
  then have "ag_NodeID (fst row) \<in> (ag_NodeID \<circ> fst) ` set (db_status s)" by (simp only: imageI)
  then show ?thesis using db_steps(12) [of row s] True row by (simp only: if_True)
next
  case False
  then show ?thesis using assms(1) db_steps(11) [of s row] row by (simp add: notin_image)
qed

lemma PutActualState_steps: "steps (PutActualState env n st status)"
  unfolding PutActualState_def Let_def
proof (intro table_intros effects_insertA)
  fix lr lh and s :: "'a db"
  assume "first_err [constraint (has_node s n) (e_fk env)] = None"
  then show "inventory_step (inventory_of s) (inventory_of (s\<lparr>db_status := if \<exists>r \<in> set (db_status s). ag_NodeID (fst r) = n
      then upd_where (\<lambda>r. ag_NodeID (fst r) = n)
        (\<lambda>_. (status\<lparr>ag_NodeID := n, ag_LastReconcile := lr, ag_LastHeartbeat := lh, ag_TransportStates := []\<rparr>, st)) (db_status s)
      else db_status s @ [(status\<lparr>ag_NodeID := n, ag_LastReconcile := lr, ag_LastHeartbeat := lh, ag_TransportStates := []\<rparr>, st)]\<rparr>))"
    using put_status_step [of s n "(status\<lparr>ag_NodeID := n, ag_LastReconcile := lr, ag_LastHeartbeat := lh, ag_TransportStates := []\<rparr>, st)"]
    by (simp split del: if_split)
qed

text \<open>Updates keep the creation time of the row they replace.\<close>

lemma upd_where_absent: "k \<notin> set (map pk rows) \<Longrightarrow> upd_where (\<lambda>r. pk r = k) f rows = rows"
  by (induction rows) (auto simp: upd_where_def)

lemma updated_created:
  "b\<lparr>b_CreatedAt := c, b_UpdatedAt := u\<rparr> = b\<lparr>b_UpdatedAt := u, b_CreatedAt := c\<rparr>"
  "m\<lparr>m_CreatedAt := c, m_UpdatedAt := u\<rparr> = m\<lparr>m_UpdatedAt := u, m_CreatedAt := c\<rparr>"
  "r\<lparr>r_CreatedAt := c, r_UpdatedAt := u\<rparr> = r\<lparr>r_UpdatedAt := u, r_CreatedAt := c\<rparr>"
  by simp_all

lemma UpdateBackend_steps: "backend_row b \<Longrightarrow> steps (UpdateBackend env b)"
  unfolding UpdateBackend_def backend_refs_def
proof (intro table_intros effects_updateA)
  fix u and s :: "'a db"
  assume "backend_row b" "b_ID b \<in> set (map b_ID (db_backends s))"
    "first_err [constraint (\<forall>r \<in> set (db_backends s). b_ID r \<noteq> b_ID b \<longrightarrow> b_Name r \<noteq> b_Name b) (e_unique env),
       constraint (has_node s (b_NodeID b)) (e_fk env)] = None"
  then show "inventory_step (inventory_of s) (inventory_of (s\<lparr>db_backends :=
      upd_where (\<lambda>r. b_ID r = b_ID b) (\<lambda>r. b\<lparr>b_CreatedAt := b_CreatedAt r, b_UpdatedAt := u\<rparr>) (db_backends s)\<rparr>))"
    unfolding updated_created using db_steps(3) [of "b\<lparr>b_UpdatedAt := u\<rparr>" s] by (simp add: knows_backend_def)
qed (simp_all add: upd_where_absent del: set_map)

lemma UpdateMapping_steps: "mapping_row m \<Longrightarrow> steps (UpdateMapping env m)"
  unfolding UpdateMapping_def mapping_checks_def
proof (intro table_intros effects_updateA)
  fix u and s :: "'a db"
  assume "mapping_row m" "m_ID m \<in> set (map m_ID (db_mappings s))"
    "first_err [constraint (m_Protocol m \<in> {ProtoTCP, ProtoUDP}) (e_check env),
       constraint (\<forall>r \<in> set (db_mappings s). m_ID r \<noteq> m_ID m \<longrightarrow> m_ID r \<noteq> m_ID m \<and>
         (m_NodeID r, m_Protocol r, m_PublicPort r) \<noteq> (m_NodeID m, m_Protocol m, m_PublicPort m)) (e_unique env),
       constraint (has_node s (m_NodeID m) \<and> has_backend s (m_BackendID m)) (e_fk env)] = None"
  then show "inventory_step (inventory_of s) (inventory_of (s\<lparr>db_mappings :=
      upd_where (\<lambda>r. m_ID r = m_ID m) (\<lambda>r. m\<lparr>m_CreatedAt := m_CreatedAt r, m_UpdatedAt := u\<rparr>) (db_mappings s)\<rparr>))"
    unfolding updated_created using db_steps(6) [of "m\<lparr>m_UpdatedAt := u\<rparr>" s] by (simp add: mapping_key_def)
qed (simp_all add: upd_where_absent del: set_map)

lemma UpdateSniRoute_steps: "route_row r \<Longrightarrow> steps (UpdateSniRoute env r)"
  unfolding UpdateSniRoute_def route_refs_def
proof (intro table_intros effects_updateA)
  fix u and s :: "'a db"
  assume "route_row r" "r_ID r \<in> set (map r_ID (db_sni s))" "first_err [constraint (has_node s (r_NodeID r)) (e_fk env)] = None"
  then show "inventory_step (inventory_of s) (inventory_of (s\<lparr>db_sni :=
      upd_where (\<lambda>x. r_ID x = r_ID r) (\<lambda>x. r\<lparr>r_CreatedAt := r_CreatedAt x, r_UpdatedAt := u\<rparr>) (db_sni s)\<rparr>))"
    unfolding updated_created using db_steps(9) [of "r\<lparr>r_UpdatedAt := u\<rparr>" s] by simp
qed (simp_all add: upd_where_absent del: set_map)

end
