(* ===== verification/ApiViews.thy ===== *)
theory ApiViews
  imports ApiRoutes Inventory
begin

text \<open>
  How requests act on a part of the database. A view is a function of the tables that ignores the world and
  the audit trail (locale \<open>view\<close>). \<open>yields v Q m\<close>: \<open>m\<close> leaves the view alone and its value satisfies \<open>Q\<close>;
  \<open>acts_on v R m\<close>: if \<open>m\<close> fails it leaves the view alone, if it succeeds it moves it along \<open>R\<close>;
  \<open>answers v R m\<close>: the same for a handler, whose answer then has a success status. The locales
  \<open>account_view\<close> and \<open>store_view\<close> are the contracts of views that the account side and the inventory side
  cannot move; inside them every handler of that side is shown to leave the view alone.
\<close>

definition yields :: "('w db \<Rightarrow> 'p) \<Rightarrow> ('a \<Rightarrow> bool) \<Rightarrow> ('w, 'a) dbact \<Rightarrow> bool" where
  "yields v Q m \<longleftrightarrow> (\<forall>s r s'. m s = (r, s') \<longrightarrow> v s' = v s \<and> (\<forall>u. r = Inr u \<longrightarrow> Q u))"

abbreviation leaves :: "('w db \<Rightarrow> 'p) \<Rightarrow> ('w, 'a) dbact \<Rightarrow> bool" where
  "leaves v \<equiv> yields v (\<lambda>_. True)"

definition acts_on :: "('w db \<Rightarrow> 'p) \<Rightarrow> ('p \<Rightarrow> 'p \<Rightarrow> bool) \<Rightarrow> ('w, 'a) dbact \<Rightarrow> bool" where
  "acts_on v R m \<longleftrightarrow> (\<forall>s r s'. m s = (r, s') \<longrightarrow> (case r of Inl _ \<Rightarrow> v s' = v s | Inr _ \<Rightarrow> R (v s) (v s')))"

definition success :: "int list" where
  "success = [200, 201, 202, 204]"

definition answers :: "('w db \<Rightarrow> 'p) \<Rightarrow> ('p \<Rightarrow> 'p \<Rightarrow> bool) \<Rightarrow> ('w, int \<times> reply) dbact \<Rightarrow> bool" where
  "answers v R m \<longleftrightarrow> (\<forall>s r s'. m s = (r, s') \<longrightarrow>
     (case r of Inl _ \<Rightarrow> v s' = v s | Inr a \<Rightarrow> fst a \<in> set success \<and> R (v s) (v s')))"

named_theorems api_intros "how actions and handlers act on a view"

section \<open>Rules for any function of the tables\<close>

lemma yields_bind:
  assumes m: "yields v Q m" and f: "\<And>u. Q u \<Longrightarrow> yields v P (f u)"
  shows "yields v P (bindA m f)"
  unfolding yields_def
proof (intro allI impI)
  fix s r s'
  assume "bindA m f s = (r, s')"
  then show "v s' = v s \<and> (\<forall>u. r = Inr u \<longrightarrow> P u)"
  proof (cases rule: bindA_cases)
    case (1 e)
    then show ?thesis using m by (simp add: yields_def)
  next
    case (2 x s1)
    then have "v s1 = v s" "Q x" using m by (auto simp: yields_def)
    then show ?thesis using f 2(2) by (fastforce simp: yields_def)
  qed
qed

lemma leaves_bind [api_intros]: "leaves v m \<Longrightarrow> (\<And>u. yields v P (f u)) \<Longrightarrow> yields v P (bindA m f)"
  by (rule yields_bind)

lemma yields_mono: "yields v Q m \<Longrightarrow> (\<And>u. Q u \<Longrightarrow> P u) \<Longrightarrow> yields v P m"
  unfolding yields_def by blast

lemma yields_return: "Q x \<Longrightarrow> yields v Q (returnA x)"
  by (simp add: yields_def)

lemma leaves_return [api_intros]: "leaves v (returnA x)"
  by (simp add: yields_def)

lemma leaves_pairs [api_intros]: "leaves v (Pair (Inr x))" "leaves v (Pair (Inl e))" "leaves v (\<lambda>s. (Inr x, s))"
  by (simp_all add: yields_def)

lemma yields_fail [api_intros]: "yields v Q (failA e)"
  by (simp add: yields_def)

lemma yields_onErr [api_intros]: "yields v Q m \<Longrightarrow> yields v Q (onErr f m)"
  unfolding yields_def by (blast elim: onErr_cases)

lemma yields_ensure [api_intros]: "(ok \<Longrightarrow> yields v Q m) \<Longrightarrow> yields v Q (ensure ok e m)"
  by (simp add: ensure_def yields_fail)

lemma leaves_liftE [api_intros]: "leaves v (liftE x)"
  by (auto simp: liftE_def intro: api_intros split: sum.split)

lemma leaves_checkE [api_intros]: "leaves v (checkE x)"
  by (auto simp: checkE_def intro: api_intros split: option.split)

lemma leaves_decode [api_intros]: "leaves v (decodeJSON dec r)"
  by (auto simp: decodeJSON_def intro: api_intros split: sum.split)

lemma yields_optionally [api_intros]: "leaves v m \<Longrightarrow> leaves v (optionally m)"
  unfolding yields_def optionally_def by (auto split: prod.splits sum.splits)

lemma leaves_forA [api_intros]: "(\<And>x acc. leaves v (f x acc)) \<Longrightarrow> leaves v (forA f xs acc)"
  by (induction xs arbitrary: acc) (auto intro!: api_intros)

lemma leaves_recover:
  assumes m: "leaves v m" and f: "\<And>b. leaves v (f b)" and g: "leaves v g"
  shows "leaves v (\<lambda>s. case m s of (Inr b, s') \<Rightarrow> f b s' | (Inl _, s') \<Rightarrow> g s')"
  unfolding yields_def
proof (intro allI impI, simp)
  fix s r s'
  assume r: "(case m s of (Inr b, s') \<Rightarrow> f b s' | (Inl _, s') \<Rightarrow> g s') = (r, s')"
  obtain q s1 where q: "m s = (q, s1)" by fastforce
  have "v s1 = v s" using m q by (simp add: yields_def)
  moreover have "v s' = v s1" using r q f g unfolding yields_def by (cases q) auto
  ultimately show "v s' = v s" by simp
qed

lemma leaves_exec: "(\<And>s. v (snd (change s)) = v s) \<Longrightarrow> leaves v (driver env op) \<Longrightarrow> leaves v (exec env op violated change)"
  unfolding exec_def by (rule leaves_bind, assumption) (auto simp: yields_def split: option.splits)

lemma leaves_some_row [api_intros]: "leaves v (some_row n)"
  by (simp add: some_row_def api_intros)

lemma acts_yields: "yields v Q m \<Longrightarrow> (\<And>x. R x x) \<Longrightarrow> acts_on v R m"
  unfolding yields_def acts_on_def by (auto split: sum.split)

lemma acts_bind [api_intros]:
  assumes m: "leaves v m" and f: "\<And>u. acts_on v R (f u)"
  shows "acts_on v R (bindA m f)"
  unfolding acts_on_def
proof (intro allI impI)
  fix s r s'
  assume "bindA m f s = (r, s')"
  then show "case r of Inl _ \<Rightarrow> v s' = v s | Inr _ \<Rightarrow> R (v s) (v s')"
  proof (cases rule: bindA_cases)
    case (1 e)
    then show ?thesis using m by (simp add: yields_def)
  next
    case (2 x s1)
    then have "v s1 = v s" using m by (simp add: yields_def)
    then show ?thesis using f 2(2) unfolding acts_on_def by metis
  qed
qed

lemma acts_onErr [api_intros]:
  assumes "acts_on v R m"
  shows "acts_on v R (onErr f m)"
  unfolding acts_on_def
proof (intro allI impI)
  fix s r s'
  assume "onErr f m s = (r, s')"
  then show "case r of Inl _ \<Rightarrow> v s' = v s | Inr _ \<Rightarrow> R (v s) (v s')"
    by (cases rule: onErr_cases) (use assms in \<open>fastforce simp: acts_on_def\<close>)+
qed

lemma acts_mono: "acts_on v R m \<Longrightarrow> (\<And>x y. R x y \<Longrightarrow> T x y) \<Longrightarrow> acts_on v T m"
  unfolding acts_on_def by (fastforce split: sum.splits)

lemma answers_bind [api_intros]:
  assumes m: "leaves v m" and f: "\<And>u. answers v R (f u)"
  shows "answers v R (bindA m f)"
  unfolding answers_def
proof (intro allI impI)
  fix s r s'
  assume "bindA m f s = (r, s')"
  then show "case r of Inl _ \<Rightarrow> v s' = v s | Inr a \<Rightarrow> fst a \<in> set success \<and> R (v s) (v s')"
  proof (cases rule: bindA_cases)
    case (1 e)
    then show ?thesis using m by (simp add: yields_def)
  next
    case (2 x s1)
    then have "v s1 = v s" using m by (simp add: yields_def)
    then show ?thesis using f 2(2) unfolding answers_def by metis
  qed
qed

lemma answers_mono: "answers v R m \<Longrightarrow> (\<And>x y. R x y \<Longrightarrow> T x y) \<Longrightarrow> answers v T m"
  unfolding answers_def by (fastforce split: sum.splits)

lemma answers_validated [api_intros]:
  assumes "V x = None \<Longrightarrow> answers v R (k (N x))"
  shows "answers v R (validated V N x k)"
  using assms by (auto simp: validated_def checkE_def answers_def split: option.split)

lemma answers_prod [api_intros]: "(\<And>a b. answers v R (f a b)) \<Longrightarrow> answers v R (case x of (a, b) \<Rightarrow> f a b)"
  by (simp add: prod.case_eq_if)

lemma answers_fail [api_intros]: "answers v R (failA e)"
  by (simp add: answers_def)

lemma answers_ensure [api_intros]: "(ok \<Longrightarrow> answers v R m) \<Longrightarrow> answers v R (ensure ok e m)"
  by (simp add: ensure_def answers_fail)

lemma answers_return: "st \<in> set success \<Longrightarrow> (\<And>x. R x x) \<Longrightarrow> answers v R (returnA (st, x))"
  by (simp add: answers_def)

lemma answers_list: "leaves v m \<Longrightarrow> (\<And>x. R x x) \<Longrightarrow> answers v R (reply_list m f)"
  unfolding reply_list_def by (rule answers_bind, assumption) (auto intro: answers_return simp: success_def)

lemma answers_act_return: "acts_on v R m \<Longrightarrow> st \<in> set success \<Longrightarrow> answers v R (bindA m (\<lambda>_. returnA (st, x)))"
  unfolding acts_on_def answers_def by (fastforce simp: bindA_def split: sum.splits prod.splits)

section \<open>Views\<close>

locale view =
  fixes v :: "'w db \<Rightarrow> 'p"
  assumes world: "v (s\<lparr>db_world := w\<rparr>) = v s"
    and trail: "v (s\<lparr>db_audit := es\<rparr>) = v s"
begin

lemma same: "same_tables s s' \<Longrightarrow> v s' = v s"
  by (auto simp: world elim!: same_tablesE)

lemma leaves_reads: "reads_only m \<Longrightarrow> leaves v m"
  unfolding yields_def by (blast dest: reads_same same)

lemmas leaves_world [api_intros] = leaves_reads [OF reads_only_lift] leaves_reads [OF reads_only_nowA] leaves_reads [OF reads_only_driver]
  leaves_reads [OF reads_only_nowRFC3339] leaves_reads [OF reads_only_query] leaves_reads [OF reads_only_queryRow]
  leaves_reads [OF reads_only_ident_New]

lemma leaves_change: "(\<And>s. v (snd (change s)) = v s) \<Longrightarrow> leaves v (exec env op violated change)"
  by (rule leaves_exec) (auto intro: api_intros)

lemma leaves_insertA: "(\<And>s. v (add s) = v s) \<Longrightarrow> leaves v (insertA env op err violated add)"
  unfolding insertA_def by (intro api_intros leaves_change) simp

lemma leaves_updateA: "(\<And>s. v (change s) = v s) \<Longrightarrow> leaves v (updateA env op err key keys violated change)"
  unfolding updateA_def by (intro api_intros leaves_change) simp

lemma leaves_stamped [api_intros]: "(\<And>c u. leaves v (k c u)) \<Longrightarrow> leaves v (stamped env a b k)"
  unfolding stamped_def by (intro api_intros)

lemma leaves_transaction [api_intros]: "leaves v body \<Longrightarrow> leaves v (transaction env op body)"
proof -
  assume b: "leaves v body"
  have "leaves v (bindA (driver env (op @ ''/begin'')) (\<lambda>_. bindA body (\<lambda>_. driver env (op @ ''/commit''))))"
    by (intro api_intros b)
  then show ?thesis unfolding yields_def transaction_def by (auto simp: world split: prod.splits sum.splits)
qed

lemma leaves_AppendAudit [api_intros]: "leaves v (AppendAudit env e)"
  unfolding AppendAudit_def by (intro api_intros leaves_insertA) (simp add: trail)

lemma audit_answer: "\<exists>s'. audit env p action resource rid detail ok s = (Inr (), s') \<and> v s' = v s"
proof -
  have "leaves v (bindA (ident_New env) (\<lambda>i. bindA (nowA env) (\<lambda>t.
        AppendAudit env \<lparr>au_ID = i, au_Timestamp = t, au_Actor = actor p, au_Action = action, au_Resource = resource,
          au_ResourceID = rid, au_Detail = Redact detail, au_Success = ok\<rparr>)))"
    by (intro api_intros)
  then show ?thesis unfolding audit_def yields_def by (metis prod.collapse)
qed

lemma leaves_audit [api_intros]: "leaves v (audit env p action resource rid detail ok)"
  unfolding yields_def using audit_answer by (metis prod.inject)

lemma acts_audit_failure [api_intros]: "acts_on v R m \<Longrightarrow> acts_on v R (audit_failure env p action resource rid m)"
  unfolding acts_on_def audit_failure_def
  by (auto split: prod.splits sum.splits simp: bindA_def)
    (metis audit_answer old.sum.exhaust prod.inject sum.simps(5) Inl_Inr_False)+

lemma answers_done:
  assumes "acts_on v R m" and "st \<in> set success"
  shows "answers v R (bindA m (\<lambda>x. done_audit env p action resource (rid x) (detail x) st (k x)))"
  unfolding answers_def
proof (intro allI impI)
  fix s r s'
  assume "bindA m (\<lambda>x. done_audit env p action resource (rid x) (detail x) st (k x)) s = (r, s')"
  then show "case r of Inl _ \<Rightarrow> v s' = v s | Inr a \<Rightarrow> fst a \<in> set success \<and> R (v s) (v s')"
  proof (cases rule: bindA_cases)
    case (1 e)
    then show ?thesis using assms(1) by (fastforce simp: acts_on_def)
  next
    case (2 x s1)
    obtain s2 where "audit env p action resource (rid x) (detail x) True s1 = (Inr (), s2)" "v s2 = v s1"
      using audit_answer by blast
    then have "r = Inr (st, k x)" "v s' = v s1" using 2(2) by (auto simp: done_audit_def bindA_Inr)
    moreover have "R (v s) (v s1)" using assms(1) 2(1) by (fastforce simp: acts_on_def)
    ultimately show ?thesis using assms(2) by simp
  qed
qed

lemma leaves_audit_failure [api_intros]: "leaves v m \<Longrightarrow> leaves v (audit_failure env p action resource rid m)"
  using acts_audit_failure [of "\<lambda>x y. y = x" m] unfolding acts_on_def yields_def by (fastforce split: sum.splits)

lemma acts_update_failure [api_intros]: "acts_on v R m \<Longrightarrow> acts_on v R (update_failure env p resource rid m)"
  unfolding acts_on_def update_failure_def
  by (auto split: prod.splits sum.splits if_splits simp: bindA_def)
    (metis audit_answer old.sum.exhaust prod.inject sum.simps(5) Inl_Inr_False)+

lemma leaves_update_failure [api_intros]: "leaves v m \<Longrightarrow> leaves v (update_failure env p resource rid m)"
  using acts_update_failure [of "\<lambda>x y. y = x" m] unfolding acts_on_def yields_def by (fastforce split: sum.splits)

lemma answers_quiet:
  assumes "leaves v m" and "\<And>x. R x x" and "st \<in> set success"
  shows "answers v R (bindA m (\<lambda>x. done_audit env p action resource (rid x) (detail x) st (k x)))"
  by (rule answers_done) (use assms in \<open>auto intro: acts_yields\<close>)

lemma answers_done_only: "st \<in> set success \<Longrightarrow> (\<And>x. R x x) \<Longrightarrow> answers v R (done_audit env p action resource rid detail st k)"
  using answers_quiet [of "returnA ()" R st env p action resource "\<lambda>_. rid" "\<lambda>_. detail" "\<lambda>_. k"] by (simp add: leaves_return)

lemma leaves_ensure_role: "leaves v m \<Longrightarrow> leaves v (ensure ok e m)"
  by (rule yields_ensure)

end

section \<open>Views the account side cannot move\<close>

locale account_view = view +
  assumes users: "v (s\<lparr>db_users := us\<rparr>) = v s" and codes: "v (s\<lparr>db_codes := cs\<rparr>) = v s" and tokens: "v (s\<lparr>db_tokens := ts\<rparr>) = v s"
begin

lemmas account_sets = users codes tokens

lemma leaves_token_store [api_intros]:
  "leaves v (CreateToken env t)" "leaves v (RevokeToken env i)" "leaves v (ListTokens env)"
  unfolding CreateToken_def RevokeToken_def ListTokens_def
  by (intro api_intros leaves_insertA leaves_updateA, simp add: account_sets)+ (rule api_intros)

lemma leaves_auth_CreateToken [api_intros]: "leaves v (auth_CreateToken env a name role)"
proof -
  have "leaves v (newID env a)" unfolding newID_def by (intro leaves_recover api_intros)
  then show ?thesis unfolding auth_CreateToken_def randomToken_def Let_def by (intro api_intros)
qed

lemma leaves_user_store [api_intros]:
  "leaves v (CreateUser env u)" "leaves v (UpdateUser env u)" "leaves v (GetUser env uid)" "leaves v (ListUsers env)"
  "leaves v (CountAdministrators env)"
  unfolding CreateUser_def UpdateUser_def GetUser_def ListUsers_def CountAdministrators_def lastLoginValue_def
  by (auto intro!: api_intros leaves_change simp: account_sets)

lemma leaves_codes [api_intros]: "leaves v (ReplaceRecoveryCodes env uid hs)"
  unfolding ReplaceRecoveryCodes_def insert_code_def by (intro api_intros leaves_change) (simp_all add: account_sets)

lemma leaves_update_with [api_intros]: "leaves v (update_with env uid f)"
  unfolding update_with_def by (intro api_intros)

lemma leaves_accounts [api_intros]:
  "leaves v (accounts_Create env req)" "leaves v (accounts_Patch env uid q)" "leaves v (BeginTOTP env uid)"
  "leaves v (DisableTOTP env uid)"
  unfolding accounts_Create_def accounts_Patch_def patch_fields_def patch_password_def patch_role_def patch_disabled_def
    last_admin_guard_def BeginTOTP_def DisableTOTP_def Let_def
  by (auto intro!: api_intros split: option.split)

lemma leaves_RotateRecoveryCodes [api_intros]: "leaves v (RotateRecoveryCodes env uid)"
  unfolding RotateRecoveryCodes_def generateRecoveryCodes_def generate_code_def Let_def
  by (auto intro!: api_intros split: prod.split)

lemma leaves_ConfirmTOTP [api_intros]: "leaves v (ConfirmTOTP env uid code)"
  unfolding ConfirmTOTP_def check_code_def by (auto intro!: api_intros split: option.split)

lemma leaves_loadUser [api_intros]: "leaves v (loadUserForCaller env uid p)"
  unfolding loadUserForCaller_def mapNotFound_def by (auto intro!: api_intros split: option.split)

end

section \<open>Views the foreign nodes are no part of\<close>

lemma reads_only_valid_foreign: "reads_only (valid_foreign n)"
  by (auto simp: valid_foreign_def intro: table_intros split: sum.split)

locale foreign_free = view +
  assumes foreign: "v (s\<lparr>db_foreign := fs\<rparr>) = v s"
begin

lemma leaves_foreign_store: "leaves v (CreateForeignNode env n)" "leaves v (UpdateForeignNode env n)"
  unfolding CreateForeignNode_def UpdateForeignNode_def
  by (intro api_intros leaves_reads [OF reads_only_valid_foreign] leaves_insertA leaves_updateA, simp add: foreign)+

lemma answers_foreign_side:
  "answers v (=) (foreignAccess m (createForeignNode env a) r p)" "answers v (=) (foreignAccess m (patchForeignNode env a) r p)"
proof -
  have get: "leaves v (GetForeignNode env i)" for i unfolding GetForeignNode_def by (rule leaves_world)
  note named = yields_onErr
  show "answers v (=) (foreignAccess m (createForeignNode env a) r p)" "answers v (=) (foreignAccess m (patchForeignNode env a) r p)"
    unfolding foreignAccess_def createForeignNode_def patchForeignNode_def mapNotFound_def
    by (intro answers_ensure answers_quiet named get leaves_audit_failure leaves_foreign_store api_intros; simp add: success_def)+
qed

end

end
