(* ===== verification/ApiLaws.thy ===== *)
theory ApiLaws
  imports ApiViews ControllerSamples
begin

text \<open>
  What requests do to the database. Endpoints are split in four: those that only read (and audit), those of
  the account side, those of the inventory and the two that write foreign nodes. Each group leaves the views of the others alone, and every
  handler of the inventory group makes at most one step of the abstract inventory.
\<close>

definition reading :: "endpoint list" where
  "reading = [Whoami, ListTokensE, ListUsersE, GetUserE, ListNodesE, GetNodeE, DesiredStateE, GetActualE, PlanE, ApplyE,
     ListBackendsE, GetBackendE, ListMappingsE, ListTunnelsE, TunnelStatusE, ListSniE, GetSniE, ListEventsE,
     ListForeignE, GetForeignE]"

definition account_side :: "endpoint list" where
  "account_side = [CreateTokenE, RevokeTokenE, CreateUserE, PatchUserE, BeginTotpE, ConfirmTotpE, DisableTotpE, RotateRecoveryE]"

definition inventory_side :: "endpoint list" where
  "inventory_side = [CreateNodeE, PutActualE, FailbackE, CreateBackendE, PatchBackendE, CreateMappingE, PatchMappingE,
     DeleteMappingE, CreateTunnelE, CreateSniE, PatchSniE]"

definition foreign_side :: "endpoint list" where
  "foreign_side = [CreateForeignE, PatchForeignE]"

lemma endpoint_sides: "e \<in> set reading \<or> e \<in> set account_side \<or> e \<in> set inventory_side \<or> e \<in> set foreign_side"
  by (cases e) (simp_all add: reading_def account_side_def inventory_side_def foreign_side_def)

lemmas handler_defs = whoami_def listTokens_def revokeToken_def createToken_def listUsers_def createUser_def getUser_def
  patchUser_def beginTOTP_def confirmTOTP_def disableTOTP_def rotateRecovery_def listNodes_def createNode_def getNode_def
  listBackends_def createBackend_def getBackend_def patchBackend_def listMappings_def createMapping_def patchMapping_def
  deleteMapping_def listTunnels_def createTunnel_def tunnelStatus_def listSni_def createSni_def getSni_def patchSni_def
  desiredState_def putActualState_def getActualState_def getPlan_def apply_plan_def failback_def listEvents_def
  foreignAccess_def listForeignNodes_def getForeignNode_def

lemmas success_simps [simp] = success_def

section \<open>Reading\<close>

context view
begin

lemma leaves_getters [api_intros]:
  "leaves v (ListTokens env)" "leaves v (ListUsers env)" "leaves v (GetUser env uid)" "leaves v (ListNodes env)"
  "leaves v (GetNode env i)" "leaves v (GetNodeByName env n)" "leaves v (ListBackends env)" "leaves v (GetBackend env i)"
  "leaves v (GetBackendByName env n)" "leaves v (ListMappings env)" "leaves v (GetMapping env i)" "leaves v (ListTunnels env)"
  "leaves v (GetTunnel env i)" "leaves v (ListSniRoutes env)" "leaves v (GetSniRoute env i)" "leaves v (GetActualState env i)"
  "leaves v (ListAudit env k)" "leaves v (ListBackendsByNode env i)" "leaves v (ListTunnelsByNode env i)"
  "leaves v (ListMappingsByNode env i)" "leaves v (ListSniRoutesByNode env i)" "leaves v (ListFailoverPoliciesByNode env i)"
  "leaves v (ListHealthChecksByBackend env i)" "leaves v (ListFailbackIntents env i)"
  "leaves v (ListForeignNodes env)" "leaves v (GetForeignNode env i)"
  unfolding ListTokens_def ListUsers_def GetUser_def ListNodes_def GetNode_def GetNodeByName_def ListBackends_def GetBackend_def
    GetBackendByName_def ListMappings_def GetMapping_def ListTunnels_def GetTunnel_def ListSniRoutes_def GetSniRoute_def
    GetActualState_def ListAudit_def ListBackendsByNode_def ListTunnelsByNode_def ListMappingsByNode_def ListSniRoutesByNode_def
    ListFailoverPoliciesByNode_def ListHealthChecksByBackend_def ListFailbackIntents_def
    ListForeignNodes_def GetForeignNode_def
  by (rule leaves_world)+

lemma leaves_mapped [api_intros]: "leaves v m \<Longrightarrow> leaves v (mapNotFound resource i m)" "leaves v m \<Longrightarrow> leaves v (orNotFound resource i m)"
  unfolding mapNotFound_def orNotFound_def by (rule yields_onErr, assumption)+

lemma leaves_DesiredState [api_intros]: "leaves v (DesiredState env n)"
  unfolding DesiredState_def by (intro api_intros)

lemma leaves_computePlan [api_intros]: "leaves v (computePlan env n)"
  unfolding computePlan_def by (intro api_intros)

lemma leaves_loadUserForCaller [api_intros]: "leaves v (loadUserForCaller env uid p)"
  unfolding loadUserForCaller_def by (auto intro!: api_intros split: option.split)

lemma leaves_listing [api_intros]: "leaves v m \<Longrightarrow> leaves v (listing m)"
  unfolding listing_def by (intro api_intros)

lemma leaves_lookup_either [api_intros]: "leaves v m \<Longrightarrow> leaves v m' \<Longrightarrow> leaves v (lookup_either m m')"
  unfolding lookup_either_def by (auto intro!: api_intros split: option.split)

lemma leaves_filterEvents [api_intros]: "leaves v (filterEvents env a r es)"
  unfolding filterEvents_def node_filter_def node_ids_def backend_filter_def Let_def
  by (auto intro!: api_intros split: option.split)

lemma leaves_optional_body [api_intros]: "leaves v (optional_body dec dflt r)"
  by (simp add: optional_body_def api_intros)

lemma answers_getActualState:
  assumes "\<And>x. R x x"
  shows "answers v R (getActualState env r p)"
  unfolding getActualState_def
proof (rule answers_bind)
  have "leaves v (GetActualState env (hr_ID r))" by (rule api_intros)
  then show "answers v R (\<lambda>s. case GetActualState env (hr_ID r) s of
      (Inl e, s') \<Rightarrow> if IsNotFound e then (Inr (200, RActual None), s') else (Inl e, s')
    | (Inr row, s') \<Rightarrow> (Inr (200, RActual (Some row)), s'))"
    unfolding answers_def yields_def using assms by (fastforce split: prod.splits sum.splits if_splits)
qed (intro api_intros)

lemma answers_reading:
  assumes "e \<in> set reading" and "\<And>x. R x x"
  shows "answers v R (handler_of env a e r p)"
proof -
  have actual: "answers v R (getActualState env r p)" by (rule answers_getActualState) (rule assms(2))
  have whoami: "answers v R (whoami r p)"
    by (auto simp: whoami_def intro!: api_intros answers_return assms(2) split: option.split)
  have plan: "answers v R (apply_plan env a r p)"
    by (auto simp: apply_plan_def intro!: api_intros answers_done_only assms(2))
  have events: "answers v R (listEvents env a r p)"
    unfolding listEvents_def by (intro api_intros answers_return assms(2)) simp
  have status: "answers v R (tunnelStatus env r p)"
    unfolding tunnelStatus_def by (intro api_intros answers_return assms(2)) simp
  show ?thesis using assms(1) actual whoami plan events status
    by (auto simp: reading_def foreignAccess_def listForeignNodes_def getForeignNode_def listTokens_def listUsers_def getUser_def listNodes_def getNode_def listBackends_def getBackend_def
        listMappings_def listTunnels_def listSni_def getSni_def desiredState_def getPlan_def
        intro!: answers_ensure answers_list assms(2) api_intros)
qed

end

section \<open>The account side\<close>

context account_view
begin

lemma answers_account_side:
  assumes "e \<in> set account_side" and "\<And>x. R x x"
  shows "answers v R (handler_of env a e r p)"
proof -
  note q = answers_quiet [OF _ assms(2)]
  show ?thesis using assms(1)
    by (auto simp: account_side_def handler_defs intro!: q answers_done_only assms(2) api_intros split: prod.split)
qed

end

section \<open>The inventory side\<close>

definition inventory_moves :: "inventory \<Rightarrow> inventory \<Rightarrow> bool" where
  "inventory_moves i i' \<longleftrightarrow> i' = i \<or> inventory_step i i'"

interpretation inv: account_view inventory_of
  by unfold_locales simp_all

interpretation inv_foreign: foreign_free inventory_of
  by unfold_locales simp

lemma inventory_moves_refl: "inventory_moves i i"
  by (simp add: inventory_moves_def)

lemma acts_steps: "steps m \<Longrightarrow> acts_on inventory_of inventory_moves m"
  unfolding acts_on_def
proof (intro allI impI)
  fix s r s'
  assume m: "steps m" and "m s = (r, s')"
  then have "case r of Inl e \<Rightarrow> same_tables s s' | Inr x \<Rightarrow> \<exists>s1. same_tables s s1 \<and> inventory_step (inventory_of s1) (inventory_of s')"
    unfolding effects_def by blast
  then show "case r of Inl _ \<Rightarrow> inventory_of s' = inventory_of s | Inr _ \<Rightarrow> inventory_moves (inventory_of s) (inventory_of s')"
    by (auto simp: inventory_moves_def inv.same split: sum.splits)
qed

lemmas row_steps = CreateNode_steps CreateBackend_steps UpdateBackend_steps CreateTunnel_steps CreateMapping_steps UpdateMapping_steps
  DeleteMapping_steps CreateSniRoute_steps UpdateSniRoute_steps CreateFailbackIntent_steps PutActualState_steps

lemma moves_done:
  assumes "acts_on inventory_of inventory_moves m" and "st \<in> set success"
  shows "answers inventory_of inventory_moves (bindA m (\<lambda>x. done_audit env p action resource (rid x) (detail x) st (k x)))"
  by (rule inv.answers_done [OF assms])

lemma answers_fresh [api_intros]:
  "(\<And>i t. answers inventory_of R (k i t)) \<Longrightarrow> answers inventory_of R (fresh env k)"
  unfolding fresh_def by (intro inv.leaves_world api_intros)

lemma leaves_default_node: "leaves inventory_of (default_node env r i)"
  by (auto simp: default_node_def Let_def intro!: api_intros inv.leaves_getters inv.leaves_mapped)

lemma leaves_resolveMappingRefs: "leaves inventory_of (resolveMappingRefs env r m)"
  by (auto simp: resolveMappingRefs_def Let_def intro!: leaves_default_node api_intros inv.leaves_getters inv.leaves_mapped)

lemma leaves_patch_backend_ref: "leaves inventory_of (patch_backend_ref env q m)"
  by (auto simp: patch_backend_ref_def intro!: api_intros inv.leaves_getters inv.leaves_mapped split: option.split)

lemma leaves_resolveSniBackends: "leaves inventory_of (resolveSniBackends env x)"
  by (auto simp: resolveSniBackends_def resolve_match_def intro!: api_intros inv.leaves_getters inv.leaves_mapped)

lemma leaves_intent_backend: "leaves inventory_of (intent_backend env b n)"
  by (auto simp: intent_backend_def intro!: api_intros inv.leaves_getters inv.leaves_mapped)

lemma acts_mapNotFound [api_intros]: "acts_on v R m \<Longrightarrow> acts_on v R (mapNotFound resource i m)"
  unfolding mapNotFound_def by (rule acts_onErr)

lemmas inventory_intros = leaves_default_node leaves_resolveMappingRefs leaves_patch_backend_ref leaves_resolveSniBackends
  leaves_intent_backend inv.leaves_getters inv.leaves_mapped inv.leaves_world inv.leaves_optional_body
  inv.acts_audit_failure inv.acts_update_failure api_intros

lemma answers_node_backend:
  "answers inventory_of inventory_moves (createNode env a r p)"
  "answers inventory_of inventory_moves (createBackend env a r p)"
  "answers inventory_of inventory_moves (patchBackend env a r p)"
  unfolding createNode_def createBackend_def patchBackend_def Let_def
  by (intro moves_done inventory_intros acts_steps row_steps; simp add: validated_row)+

lemma answers_mapping:
  "answers inventory_of inventory_moves (createMapping env a r p)"
  "answers inventory_of inventory_moves (patchMapping env a r p)"
  "answers inventory_of inventory_moves (deleteMapping env r p)"
  unfolding createMapping_def patchMapping_def deleteMapping_def Let_def
  by (intro moves_done inventory_intros acts_steps row_steps; simp add: validated_row)+

lemma answers_tunnel_route:
  "answers inventory_of inventory_moves (createTunnel env a r p)"
  "answers inventory_of inventory_moves (createSni env a r p)"
  "answers inventory_of inventory_moves (patchSni env a r p)"
  unfolding createTunnel_def createSni_def patchSni_def Let_def
  by (intro moves_done inventory_intros acts_steps row_steps; simp add: validated_row)+

lemma answers_agent:
  "answers inventory_of inventory_moves (putActualState env a r p)"
  "answers inventory_of inventory_moves (failback env a r p)"
  unfolding putActualState_def failback_def Let_def
  by (intro moves_done answers_act_return inventory_intros acts_steps row_steps; simp add: validated_row)+

lemma answers_inventory: "answers inventory_of inventory_moves (handler_of env a e r p)"
  using endpoint_sides [of e] answers_node_backend answers_mapping answers_tunnel_route answers_agent
    inv.answers_reading [where R = inventory_moves, OF _ inventory_moves_refl]
    inv.answers_account_side [where R = inventory_moves, OF _ inventory_moves_refl]
    inv_foreign.answers_foreign_side [THEN answers_mono [where T = inventory_moves]]
  by (auto simp: inventory_side_def foreign_side_def inventory_moves_refl)

section \<open>Requests\<close>

text \<open>\<open>caller env a r s p\<close>: over the tables of \<open>s\<close> the request authenticates as \<open>p\<close>.\<close>

definition caller :: "'w env \<Rightarrow> 'w api \<Rightarrow> http_request \<Rightarrow> 'w db \<Rightarrow> principal \<Rightarrow> bool" where
  "caller env a r s p \<longleftrightarrow> (\<exists>s0 s1. same_tables s s0 \<and>
     Authenticate env (api_auth a) (hr_Req (limited r)) (rq_Body (hr_Req (limited r))) s0 = (Inr p, s1))"

lemma reads_only_Pair: "reads_only (Pair (Inr x))"
  by (simp add: reads_def)

lemma reads_only_Authenticate: "reads_only (Authenticate env au r body)"
  unfolding Authenticate_def
  by (auto intro!: table_intros reads_only_Pair reads_only_verifyUI reads_only_verifyHMAC reads_mono [OF reads_matchToken]
      simp: liftE_def split: option.split sum.split)

text \<open>A request is refused before its handler runs, or the handler answers it.\<close>

lemma serve_cases:
  assumes "serve env a e r sv = (rep, sv')"
  obtains err where "same_tables (sv_db sv) (sv_db sv')" and "rep = writeErr err"
  | p s1 res where "caller env a r (sv_db sv) p" and "mutates e \<longrightarrow> CanMutate (pr_Role p)" and "\<not> mutates e \<longrightarrow> CanRead (pr_Role p)"
      and "same_tables (sv_db sv) s1" and "handler_of env a e (limited r) (Some p) s1 = (res, sv_db sv')"
      and "rep = (case res of Inl err \<Rightarrow> writeErr err | Inr (status, v) \<Rightarrow> writeJSON status v)"
proof -
  define h where "h = authorized env a (handler_of env a e) (mutates e) (limited r)"
  have refused: "same_tables (sv_db sv) (sv_db (snd (check_rate env a r sv)))"
    by (simp add: check_rate_def split: prod.split)
  consider err where "same_tables (sv_db sv) (sv_db sv')" "rep = writeErr err"
    | s0 where "same_tables (sv_db sv) (sv_db s0)" "run_handler h s0 = (rep, sv')"
    using assms refused unfolding serve_def authn_def h_def
    by (auto split: if_splits prod.splits) (metis same_tables_refl)+
  then show thesis
  proof cases
    case (2 s0)
    obtain res where res: "h (sv_db s0) = (res, sv_db sv')" "rep = (case res of Inl err \<Rightarrow> writeErr err | Inr (status, v) \<Rightarrow> writeJSON status v)"
      using 2(2) by (auto simp: run_handler_def split: prod.splits sum.splits)
    from res(1) [unfolded h_def authorized_def] show thesis
    proof (cases rule: bindA_cases)
      case (1 err)
      then show thesis using that(1) res(2) reads_same [OF reads_only_Authenticate 1(1)] same_tables_trans [OF 2(1)] by simp
    next
      case (2 p s1)
      have s1: "same_tables (sv_db sv) s1"
        using reads_same [OF reads_only_Authenticate 2(1)] same_tables_trans [OF \<open>same_tables (sv_db sv) (sv_db s0)\<close>] by blast
      have c: "caller env a r (sv_db sv) p" unfolding caller_def using 2(1) \<open>same_tables (sv_db sv) (sv_db s0)\<close> by blast
      show thesis using 2(2) res(2) s1 that(1) that(2) [OF c _ _ s1] by (auto split: if_splits)
    qed
  qed (use that(1) in blast)
qed

text \<open>What a handler does to a view, the request does; an answer that moved the view is a success.\<close>

lemma serve_answers:
  assumes "view v" and "\<And>p. answers v R (handler_of env a e (limited r) (Some p))" and "serve env a e r sv = ((status, b), sv')"
  shows "v (sv_db sv') = v (sv_db sv) \<or> R (v (sv_db sv)) (v (sv_db sv')) \<and> status \<in> set success \<and>
    (\<exists>p. caller env a r (sv_db sv) p \<and> (mutates e \<longrightarrow> CanMutate (pr_Role p)) \<and> (\<not> mutates e \<longrightarrow> CanRead (pr_Role p)))"
  using assms(3)
proof (cases rule: serve_cases)
  case (1 err)
  then show ?thesis using view.same [OF assms(1)] by simp
next
  case (2 p s1 res)
  have s1: "v s1 = v (sv_db sv)" by (rule view.same [OF assms(1) 2(4)])
  show ?thesis
  proof (cases res)
    case (Inl err)
    then show ?thesis using assms(2) [of p] 2(5) s1 unfolding answers_def by fastforce
  next
    case (Inr ans)
    then have "fst ans \<in> set success" "R (v (sv_db sv)) (v (sv_db sv'))"
      using assms(2) [of p] 2(5) s1 unfolding answers_def by fastforce+
    moreover have "status = fst ans"
    proof -
      obtain st w where ans: "ans = (st, w)" by fastforce
      show ?thesis using 2(6) Inr ans by (cases "(st, w)" rule: writeJSON.cases) simp_all
    qed
    ultimately show ?thesis using 2(1,2,3) by blast
  qed
qed

end
