(* ===== verification/InventoryLaws.thy ===== *)
theory InventoryLaws
  imports ApiLaws AuthLaws Firewall
begin

text \<open>
  The laws of the inventory behind the API: requests refine the abstract inventory, its invariant survives any
  history of requests, and the desired state served to an agent is a projection of it, fit for the engine
  but for mappings whose backend belongs to another node.
\<close>

section \<open>Histories of requests\<close>

lemma serve_moves:
  assumes "serve env a e r sv = ((status, b), sv')"
  shows "inventory_of (sv_db sv') = inventory_of (sv_db sv) \<or>
    inventory_step (inventory_of (sv_db sv)) (inventory_of (sv_db sv')) \<and> e \<in> set inventory_side \<and> status \<in> set success \<and>
    (\<exists>p. caller env a r (sv_db sv) p \<and> CanMutate (pr_Role p))"
proof (cases "e \<in> set inventory_side")
  case True
  then have "mutates e" by (auto simp: inventory_side_def mutates_def)
  then show ?thesis using serve_answers [OF inv.view_axioms answers_inventory assms] True
    by (auto simp: inventory_moves_def)
next
  case False
  then have "answers inventory_of (=) (handler_of env a e (limited r) (Some p))" for p
    using endpoint_sides [of e] inv.answers_reading [of e "(=)"] inv.answers_account_side [of e "(=)"] inv_foreign.answers_foreign_side
    by (auto simp: foreign_side_def)
  from serve_answers [OF inv.view_axioms this assms] show ?thesis by auto
qed

lemma serve_keeps_inventory_ok: "inventory_ok (inventory_of (sv_db sv)) \<Longrightarrow> inventory_ok (inventory_of (sv_db (snd (serve env a e r sv))))"
proof -
  assume ok: "inventory_ok (inventory_of (sv_db sv))"
  obtain status b sv' where s: "serve env a e r sv = ((status, b), sv')" by (metis surj_pair)
  show ?thesis using serve_moves [OF s] inventory_step_ok ok s by auto
qed

lemma history_keeps_inventory_ok:
  "inventory_ok (inventory_of (sv_db sv)) \<Longrightarrow> inventory_ok (inventory_of (sv_db (serve_all env a reqs sv)))"
proof (induction reqs arbitrary: sv)
  case (Cons q reqs)
  obtain e r where q: "q = (e, r)" by fastforce
  have "inventory_ok (inventory_of (sv_db (serve_all env a reqs (snd (serve env a e r sv)))))"
    by (rule Cons.IH) (rule serve_keeps_inventory_ok [OF Cons.prems])
  then show ?case by (simp add: serve_all_def q)
qed (simp add: serve_all_def)

lemma inventory_ok_empty: "inventory_ok (inventory_of (empty_db w))"
  by (simp add: inventory_ok_def inventory_of_def empty_db_def keyed_def)

section \<open>The desired state is a projection\<close>

definition desired_of :: "inventory \<Rightarrow> node \<Rightarrow> desired_state" where
  "desired_of i n =
     (let mine = (\<lambda>k. k = n_ID n); bs = sort_key b_Name (filter (\<lambda>b. mine (b_NodeID b)) (in_backends i))
      in \<lparr>d_Node = n, d_Backends = bs, d_Tunnels = by_priority (filter (\<lambda>t. mine (t_NodeID t)) (in_tunnels i)),
          d_Mappings = filter m_Enabled (sort_key m_PublicPort (filter (\<lambda>m. mine (m_NodeID m)) (in_mappings i))),
          d_SniRoutes = filter (\<lambda>r. mine (r_NodeID r)) (in_sni i),
          d_HealthChecks = concat (map (\<lambda>b. filter (\<lambda>h. hc_BackendID h = b_ID b) (in_checks i)) bs),
          d_FailoverPolicies = filter (\<lambda>p. mine (p_NodeID p)) (in_policies i),
          d_FailbackIntents = sort_time fi_CreatedAt (filter (\<lambda>x. mine (fi_NodeID x)) (in_intents i))\<rparr>)"

lemma reads_forA_concat:
  assumes "\<And>x. reads (\<lambda>s ys. ys = g s x) (f x)"
  shows "reads (\<lambda>s ys. ys = acc @ concat (map (g s) xs)) (forA (\<lambda>x acc. bindA (f x) (\<lambda>ys. returnA (acc @ ys))) xs acc)"
proof (induction xs arbitrary: acc)
  case Nil
  show ?case by (simp add: reads_def)
next
  case (Cons x xs)
  have "reads (\<lambda>s acc'. acc' = acc @ g s x) (bindA (f x) (\<lambda>ys. returnA (acc @ ys)))"
    by (rule reads_bind [OF assms]) (simp add: reads_def)
  then show ?case unfolding forA.simps by (rule reads_bind) (rule reads_mono [OF Cons.IH], simp)
qed

lemma reads_DesiredState:
  "reads (\<lambda>s d. \<exists>n. find (\<lambda>r. n_ID r = i) (db_nodes s) = Some n \<and> d = desired_of (inventory_of s) n) (DesiredState env i)"
  unfolding DesiredState_def GetNode_def ListBackendsByNode_def ListTunnelsByNode_def ListMappingsByNode_def
    ListSniRoutesByNode_def ListFailoverPoliciesByNode_def ListHealthChecksByBackend_def ListFailbackIntents_def
  by (rule reads_bind [OF reads_queryRow], simp, rule reads_bind [OF reads_query], simp, rule reads_bind [OF reads_query], simp,
      rule reads_bind [OF reads_query], simp, rule reads_bind [OF reads_query], simp, rule reads_bind [OF reads_query], simp,
      rule reads_bind [OF reads_forA_concat [OF reads_query]], simp, rule reads_bind [OF reads_query], simp)
    (auto simp: reads_def desired_of_def Let_def filterEnabledMappings_def find_Some_iff elim!: same_tablesE)

text \<open>What an agent may rely on.\<close>

definition servable :: "ident \<Rightarrow> desired_state \<Rightarrow> bool" where
  "servable i d \<longleftrightarrow> n_ID (d_Node d) = i \<and> node_row (d_Node d) \<and>
     keyed b_ID (\<lambda>b. backend_row b \<and> b_NodeID b = i) (d_Backends d) \<and>
     keyed t_ID (\<lambda>t. tunnel_row t \<and> t_NodeID t = i) (d_Tunnels d) \<and>
     keyed m_ID (\<lambda>m. mapping_row m \<and> m_NodeID m = i \<and> m_Enabled m) (d_Mappings d) \<and>
     distinct (map (\<lambda>m. (m_Protocol m, m_PublicPort m)) (d_Mappings d)) \<and>
     keyed r_ID (\<lambda>r. route_row r \<and> r_NodeID r = i) (d_SniRoutes d)"

lemma keyed_sort [simp]: "keyed pk P (sort_key k rows) = keyed pk P rows"
proof -
  have "mset (map pk (sort_key k rows)) = mset (map pk rows)" by simp
  then have "distinct (map pk (sort_key k rows)) = distinct (map pk rows)" by (rule mset_eq_imp_distinct_iff)
  then show ?thesis by (simp add: keyed_def)
qed

lemma keyed_filter_and: "keyed pk P rows \<Longrightarrow> (\<And>r. P r \<Longrightarrow> C r \<Longrightarrow> Q r) \<Longrightarrow> keyed pk Q (filter C rows)"
  by (simp add: keyed_def distinct_filter_map)

lemma servable_desired: "inventory_ok i \<Longrightarrow> n \<in> set (in_nodes i) \<Longrightarrow> servable (n_ID n) (desired_of i n)"
proof -
  assume ok: "inventory_ok i" and n: "n \<in> set (in_nodes i)"
  define ms where "ms = filter m_Enabled (sort_key m_PublicPort (filter (\<lambda>m. m_NodeID m = n_ID n) (in_mappings i)))"
  have sub: "set ms \<subseteq> set (in_mappings i)" "\<forall>m \<in> set ms. m_NodeID m = n_ID n" by (auto simp: ms_def)
  have d: "distinct ms" using ok by (auto simp: ms_def inventory_ok_def keyed_def distinct_map)
  have "inj_on (\<lambda>m. (m_Protocol m, m_PublicPort m)) (set ms)"
  proof (rule inj_onI)
    fix x y
    assume "x \<in> set ms" "y \<in> set ms" "(m_Protocol x, m_PublicPort x) = (m_Protocol y, m_PublicPort y)"
    then have "mapping_key x = mapping_key y" "x \<in> set (in_mappings i)" "y \<in> set (in_mappings i)"
      using sub by (auto simp: mapping_key_def)
    then show "x = y" using ok by (meson distinct_map inj_onD inventory_ok_def)
  qed
  then have dm: "distinct (map (\<lambda>m. (m_Protocol m, m_PublicPort m)) ms)" using d by (simp add: distinct_map)
  have "keyed m_ID (\<lambda>m. mapping_row m \<and> m_NodeID m = n_ID n) (filter (\<lambda>m. m_NodeID m = n_ID n) (in_mappings i))"
    using ok unfolding inventory_ok_def by (auto elim: keyed_filter_and)
  then have km: "keyed m_ID (\<lambda>m. mapping_row m \<and> m_NodeID m = n_ID n \<and> m_Enabled m) ms"
    unfolding ms_def by (intro keyed_filter_and [where P = "\<lambda>m. mapping_row m \<and> m_NodeID m = n_ID n"]) simp_all
  have kn: "node_row n" using ok n by (simp add: inventory_ok_def keyed_def)
  have kb: "keyed b_ID (\<lambda>b. backend_row b \<and> b_NodeID b = n_ID n) (filter (\<lambda>b. b_NodeID b = n_ID n) (in_backends i))"
    using ok unfolding inventory_ok_def by (auto elim: keyed_filter_and)
  have kt: "keyed t_ID (\<lambda>t. tunnel_row t \<and> t_NodeID t = n_ID n) (filter (\<lambda>t. t_NodeID t = n_ID n) (in_tunnels i))"
    using ok unfolding inventory_ok_def by (auto elim: keyed_filter_and)
  have kr: "keyed r_ID (\<lambda>r. route_row r \<and> r_NodeID r = n_ID n) (filter (\<lambda>r. r_NodeID r = n_ID n) (in_sni i))"
    using ok unfolding inventory_ok_def by (auto elim: keyed_filter_and)
  show ?thesis using dm km kn kb kt kr unfolding servable_def desired_of_def Let_def ms_def [symmetric]
    by (simp add: by_priority_def)
qed

lemma sent_desired: "writeJSON st x = (status, RDesired d) \<Longrightarrow> x = RDesired d"
  by (cases "(st, x)" rule: writeJSON.cases) simp_all

section \<open>Properties\<close>

text \<open>C1: The API implements the abstract inventory. Whatever the request, the tables of the inventory are
  left alone or make exactly one step of the abstract machine, whose guard the request has met; and they only
  move when the answer reports success, the endpoint is one of the inventory and the caller was authenticated
  with a role that may mutate. In particular a failed request has no effect and no read-only caller has one.\<close>

theorem api_refines_inventory:
  assumes "serve env a e r sv = ((status, b), sv')"
  shows "inventory_of (sv_db sv') = inventory_of (sv_db sv) \<or>
    inventory_step (inventory_of (sv_db sv)) (inventory_of (sv_db sv')) \<and> e \<in> set inventory_side \<and> status \<in> set success \<and>
    (\<exists>p. caller env a r (sv_db sv) p \<and> CanMutate (pr_Role p))"
  by (rule serve_moves [OF assms])

text \<open>C2: The inventory stays well formed under any history of requests, accepted and refused ones alike: unique
  ids, names and public ports per node and protocol, every row normalised and valid, every reference to a
  node or backend resolved.\<close>

theorem inventory_stays_valid:
  assumes "inventory_ok (inventory_of (sv_db sv))"
  shows "inventory_ok (inventory_of (sv_db (serve_all env a reqs sv)))"
  by (rule history_keeps_inventory_ok [OF assms])

text \<open>C5: What an agent is served after any history of requests is the projection of the tables to its node, and
  satisfies what the engine expects of a desired state: unique ids, valid and normalised rows of that node,
  enabled mappings only, and one mapping per protocol and public port.\<close>

theorem served_state_is_servable:
  assumes "inventory_ok (inventory_of (sv_db sv0))" and "sv = serve_all env a reqs sv0"
    and "serve env a DesiredStateE r sv = ((status, RDesired d), sv')"
  shows "servable (hr_ID r) d \<and> d = desired_of (inventory_of (sv_db sv)) (d_Node d) \<and> sv_db sv' = (sv_db sv)\<lparr>db_world := db_world (sv_db sv')\<rparr>"
  using assms(3)
proof (cases rule: serve_cases)
  case (1 err)
  then show ?thesis by (simp add: writeErr_def Let_def)
next
  case (2 p s1 res)
  have ok: "inventory_ok (inventory_of (sv_db sv))" using history_keeps_inventory_ok [OF assms(1)] assms(2) by simp
  have red: "reads (\<lambda>s x. \<exists>n. find (\<lambda>r. n_ID r = hr_ID r') (db_nodes s) = Some n \<and> snd x = RDesired (desired_of (inventory_of s) n))
     (desiredState env r' q)" for r' q
    unfolding desiredState_def reply_list_def mapNotFound_def
    by (rule reads_bind [OF reads_onErr [OF reads_DesiredState]]) (auto simp: reads_def elim!: same_tablesE)
  obtain ans where ans: "res = Inr ans" "snd ans = RDesired d"
    using 2(6) by (cases res) (auto simp: writeErr_def Let_def dest!: sent_desired [OF sym] split: prod.splits)
  have h: "desiredState env (limited r) (Some p) s1 = (Inr ans, sv_db sv')" using 2(5) ans(1) by simp
  obtain n where n: "find (\<lambda>x. n_ID x = hr_ID (limited r)) (db_nodes s1) = Some n" "d = desired_of (inventory_of s1) n"
    using reads_val [OF red h] ans(2) by auto
  have i: "inventory_of s1 = inventory_of (sv_db sv)" by (rule inv.same [OF 2(4)])
  have nodes: "n \<in> set (in_nodes (inventory_of (sv_db sv)))" "n_ID n = hr_ID r"
    using n(1) i [symmetric] by (auto simp: find_Some_iff limited_def)
  moreover have "same_tables (sv_db sv) (sv_db sv')" using 2(4) reads_same [OF red h] same_tables_trans by blast
  moreover have "d_Node d = n" using n(2) by (simp add: desired_of_def Let_def)
  ultimately show ?thesis using servable_desired [OF ok nodes(1)] n(2) i by (simp add: same_tables_def)
qed


section \<open>Witnesses\<close>

definition sample_codec :: codec where
  "sample_codec = \<lparr>j_token = (\<lambda>_. Inl []), j_user = (\<lambda>_. Inl []), j_user_patch = (\<lambda>_. Inl []), j_code = (\<lambda>_. Inl []),
     j_node = (\<lambda>_. Inl []), j_backend = (\<lambda>_. Inl []), j_mapping = (\<lambda>_. Inr (sample_mapping [] ''b9'' 9000)),
     j_mapping_patch = (\<lambda>_. Inl []), j_tunnel = (\<lambda>_. Inl []), j_sni = (\<lambda>_. Inl []), j_sni_patch = (\<lambda>_. Inl []),
     j_actual = (\<lambda>_. Inl []), j_apply = (\<lambda>_. Inl []), j_failback = (\<lambda>_. Inl []), j_foreign = (\<lambda>_. Inl []), j_foreign_patch = (\<lambda>_. Inl [])\<rparr>"

definition sample_api :: "nat api" where
  "sample_api = \<lparr>api_auth = sample_auth, api_json = sample_codec, api_fl = (\<lambda>x. x), api_LiveApply = False, api_Failback = True,
     api_ParseRFC3339 = (\<lambda>_. None), api_ParseDate = (\<lambda>_. None)\<rparr>"

definition sample_hr :: "ident \<Rightarrow> http_request" where
  "sample_hr i = \<lparr>hr_Req = sample_request, hr_ID = i, hr_ContentLength = 0, hr_ReadErr = False\<rparr>"

definition sample_store :: "nat db" where
  "sample_store = sample_tokens\<lparr>db_nodes := [sample_node, sample_node\<lparr>n_ID := ''n2'', n_Name := ''other''\<rparr>],
     db_backends := [sample_backend ''b1'' ''10.9.0.2'', sample_backend ''b9'' ''10.9.0.9''\<lparr>b_NodeID := ''n2''\<rparr>],
     db_mappings := [sample_mapping ''m1'' ''b1'' 8443]\<rparr>"

definition sample_server :: "nat server" where
  "sample_server = api_New 10 20 sample_store"

lemma sample_tokens_db: "db_tokens sample_tokens = [sample_token ''t1'' ''tok-one'', sample_token ''t2'' ''tok-two'']"
  by (simp add: sample_tokens_def)

lemma sample_hr_sels [simp]: "hr_Req (sample_hr i) = sample_request" "hr_ID (sample_hr i) = i" "hr_ContentLength (sample_hr i) = 0"
  "\<not> hr_ReadErr (sample_hr i)"
  by (simp_all add: sample_hr_def)

lemma sample_store_tokens: "db_tokens sample_store = db_tokens sample_tokens"
  by (simp add: sample_store_def)

lemma sample_limited: "limited (sample_hr i) = sample_hr i"
  by (simp add: limited_def sample_hr_def sample_request_def)

lemma sample_authorized:
  assumes "db_tokens s = db_tokens sample_tokens" and "mutate \<longrightarrow> True"
  shows "authorized sample_env sample_api h mutate (sample_hr i) s = h (sample_hr i) (Some agent_principal) s"
proof -
  have "Authenticate sample_env sample_auth sample_request b s = (Inr agent_principal, s)" for b
    using assms(1) by (intro sample_Authenticate [where t = "sample_token ''t1'' ''tok-one''"])
      (simp_all add: sample_tokens_def sample_token_def)
  then show ?thesis
    by (simp add: authorized_def sample_api_def sample_hr_def bindA_Inr agent_principal_def CanMutate_def CanRead_def bindA_def)
qed

lemma sample_rate: "check_rate sample_env sample_api (sample_hr i) (api_New 10 20 s) =
  (True, (api_New 10 20 (s\<lparr>db_world := db_world s + 1\<rparr>))\<lparr>sv_limit := snd (allow (\<lambda>x. x) (int (db_world s) + 1) (clientIP (sample_hr i)) (newLimiter 10 20))\<rparr>)"
  by (simp add: check_rate_def sample_env_sels api_New_def sample_api_def allow_def newLimiter_def refill_def Seconds_def Let_def
      sample_env_def split: prod.split)

lemma sample_serve_read:
  assumes "\<not> mutates e" and "db_tokens s = db_tokens sample_tokens"
  shows "serve sample_env sample_api e (sample_hr i) (api_New 10 20 s) =
    run_handler (handler_of sample_env sample_api e (sample_hr i) (Some agent_principal)) (api_New 10 20 s)"
  using assms by (simp add: serve_def authn_def sample_limited sample_authorized run_handler_def api_New_def)

lemma api_New_db [simp]: "sv_db (api_New rps burst s) = s"
  by (simp add: api_New_def)

lemma sample_serve_write:
  assumes "mutates e" and "db_tokens s = db_tokens sample_tokens"
  shows "serve sample_env sample_api e (sample_hr i) (api_New 10 20 s) =
    run_handler (handler_of sample_env sample_api e (sample_hr i) (Some agent_principal))
      ((api_New 10 20 (s\<lparr>db_world := db_world s + 1\<rparr>))\<lparr>sv_limit := snd (allow (\<lambda>x. x) (int (db_world s) + 1) (clientIP (sample_hr i)) (newLimiter 10 20))\<rparr>)"
  using assms by (simp add: serve_def authn_def sample_limited sample_authorized run_handler_def sample_rate)

lemma sample_nowA: "nowA sample_env s = (Inr (int (db_world s) + 1), s\<lparr>db_world := db_world s + 1\<rparr>)"
  by (simp add: nowA_def lift_world_def sample_env_sels)

lemma sample_ident: "ident_New sample_env s = (Inr (hexEncode (replicate 16 (char_of (db_world s)))), s\<lparr>db_world := db_world s + 1\<rparr>)"
  by (simp add: ident_New_def lift_world_def sample_env_sels)

lemma sample_stamp: "0 < t \<Longrightarrow> nowRFC3339 sample_env t = returnA t"
  by (simp add: nowRFC3339_def)

lemma sample_rows: "node_row sample_node" "node_row (sample_node\<lparr>n_ID := ''n2'', n_Name := ''other''\<rparr>)"
  "backend_row (sample_backend ''b1'' ''10.9.0.2'')" "backend_row (sample_backend ''b9'' ''10.9.0.9''\<lparr>b_NodeID := ''n2''\<rparr>)"
  "mapping_row (sample_mapping ''m1'' ''b1'' 8443)"
proof -
  have "Node_Validate sample_node = None" "Node_Validate (sample_node\<lparr>n_ID := ''n2'', n_Name := ''other''\<rparr>) = None"
    "Backend_Validate (sample_backend ''b1'' ''10.9.0.2'') = None" "Backend_Validate (sample_backend ''b9'' ''10.9.0.9''\<lparr>b_NodeID := ''n2''\<rparr>) = None"
    "PortMapping_Validate (sample_mapping ''m1'' ''b1'' 8443) = None"
    by code_simp+
  moreover have "ToLower (TrimSpace ''edge'') = ''edge''" "ToLower (TrimSpace ''other'') = ''other''" "TrimSpace ''198.51.100.7'' = ''198.51.100.7''"
    "ToLower (TrimSpace ''b1'') = ''b1''" "ToLower (TrimSpace ''b9'') = ''b9''" "TrimSpace ''10.9.0.2'' = ''10.9.0.2''" "TrimSpace ''10.9.0.9'' = ''10.9.0.9''"
    "ToUpper (TrimSpace ProtoTCP) = ProtoTCP"
    by code_simp+
  ultimately show "node_row sample_node" "node_row (sample_node\<lparr>n_ID := ''n2'', n_Name := ''other''\<rparr>)"
    "backend_row (sample_backend ''b1'' ''10.9.0.2'')" "backend_row (sample_backend ''b9'' ''10.9.0.9''\<lparr>b_NodeID := ''n2''\<rparr>)"
    "mapping_row (sample_mapping ''m1'' ''b1'' 8443)"
    by (simp_all add: node_row_def backend_row_def mapping_row_def Node_Normalize_def Backend_Normalize_def PortMapping_Normalize_def
        sample_node_def sample_backend_def sample_mapping_def)
qed

lemma sample_store_ok: "inventory_ok (inventory_of sample_store)"
  using sample_rows unfolding inventory_ok_def
  by (simp add: sample_store_def sample_tokens_def empty_db_def keyed_def mapping_key_def knows_node_def knows_backend_def)
    (simp add: sample_node_def sample_backend_def sample_mapping_def)

lemma inventory_stays_valid_witness:
  "inventory_ok (inventory_of (sv_db (serve_all sample_env sample_api [(DeleteMappingE, sample_hr ''m1'')] sample_server)))"
  by (rule inventory_stays_valid) (simp add: sample_server_def sample_store_ok)

lemma sample_audit: "\<exists>s'. audit sample_env p action resource rid detail ok s = (Inr (), s') \<and> inventory_of s' = inventory_of s"
  by (rule inv.audit_answer)

lemma sample_delete:
  assumes "map m_ID (db_mappings s) = [''m1'']"
  shows "DeleteMapping sample_env ''m1'' s = (Inr (), s\<lparr>db_mappings := []\<rparr>)"
  using assms by (auto simp: DeleteMapping_def updateA_def onErr_def bindA_def some_row_def map_eq_Cons_conv)

lemma api_refines_inventory_witness:
  "\<exists>sv'. serve sample_env sample_api DeleteMappingE (sample_hr ''m1'') sample_server = ((204, RNoContent), sv') \<and>
     inventory_step (inventory_of sample_store) (inventory_of (sv_db sv'))"
proof -
  let ?s = "sample_store\<lparr>db_world := db_world sample_store + 1\<rparr>"
  have d: "DeleteMapping sample_env ''m1'' ?s = (Inr (), ?s\<lparr>db_mappings := []\<rparr>)"
    by (rule sample_delete) (simp add: sample_store_def sample_mapping_def)
  obtain s2 where s2: "audit sample_env (Some agent_principal) ''delete'' ''mapping'' ''m1'' [] True (?s\<lparr>db_mappings := []\<rparr>) = (Inr (), s2)"
    "inventory_of s2 = inventory_of (?s\<lparr>db_mappings := []\<rparr>)" using sample_audit by blast
  have h: "deleteMapping sample_env (sample_hr ''m1'') (Some agent_principal) ?s = (Inr (204, RNoContent), s2)"
    using d s2(1) by (simp add: deleteMapping_def mapNotFound_def onErr_def bindA_def done_audit_def)
  have "\<exists>sv'. serve sample_env sample_api DeleteMappingE (sample_hr ''m1'') sample_server = ((204, RNoContent), sv') \<and> sv_db sv' = s2"
    unfolding sample_server_def
    by (subst sample_serve_write) (use h in \<open>simp_all add: mutates_def sample_store_def sample_tokens_def run_handler_def\<close>)
  then obtain sv' where sv': "serve sample_env sample_api DeleteMappingE (sample_hr ''m1'') sample_server = ((204, RNoContent), sv')" "sv_db sv' = s2"
    by blast
  moreover have "inventory_of s2 \<noteq> inventory_of sample_store"
    unfolding s2(2) by (simp add: sample_store_def inventory_of_def)
  ultimately show ?thesis using api_refines_inventory [OF sv'(1)] by (auto simp: sample_server_def)
qed

lemma sample_desired_state:
  "DesiredState sample_env ''n1'' sample_store = (Inr (desired_of (inventory_of sample_store) sample_node), sample_store)"
  by (simp add: DesiredState_def GetNode_def ListBackendsByNode_def ListTunnelsByNode_def ListMappingsByNode_def
      ListSniRoutesByNode_def ListFailoverPoliciesByNode_def ListHealthChecksByBackend_def ListFailbackIntents_def bindA_def
      desired_of_def Let_def filterEnabledMappings_def sample_store_def sample_tokens_def empty_db_def sample_node_def
      sample_backend_def sample_mapping_def)

lemma served_state_is_servable_witness: "servable ''n1'' (desired_of (inventory_of sample_store) sample_node)"
proof -
  have h: "desiredState sample_env (sample_hr ''n1'') (Some agent_principal) sample_store =
     (Inr (200, RDesired (desired_of (inventory_of sample_store) sample_node)), sample_store)"
    by (simp add: desiredState_def reply_list_def mapNotFound_def onErr_def bindA_def sample_desired_state)
  have "\<exists>sv'. serve sample_env sample_api DesiredStateE (sample_hr ''n1'') sample_server =
     ((200, RDesired (desired_of (inventory_of sample_store) sample_node)), sv')"
    unfolding sample_server_def
    by (subst sample_serve_read) (use h in \<open>simp_all add: mutates_def sample_store_def [symmetric] sample_store_tokens run_handler_def\<close>)
  then obtain sv' where "serve sample_env sample_api DesiredStateE (sample_hr ''n1'') sample_server =
     ((200, RDesired (desired_of (inventory_of sample_store) sample_node)), sv')" by blast
  from served_state_is_servable [where sv = sample_server and reqs = "[]", OF _ _ this, of sample_server] sample_store_ok
  show ?thesis by (simp add: sample_server_def serve_all_def)
qed

definition foreign_mapping :: port_mapping where
  "foreign_mapping = (sample_mapping [] ''b9'' 9000)\<lparr>m_ID := hexEncode (replicate 16 (char_of (1 :: nat))), m_CreatedAt := 3, m_UpdatedAt := 3\<rparr>"

definition foreign_action :: action where
  "foreign_action = \<lparr>ac_Kind = KindAdd, ac_Target = ''firewall'', ac_ID = m_ID foreign_mapping, ac_Before = [], ac_After = [], ac_Reason = []\<rparr>"

lemma length_hexEncode: "length (hexEncode b) = 2 * length b"
  by (induction b) (simp_all add: hexEncode_def)

lemma foreign_sels: "m_NodeID foreign_mapping = ''n1''" "m_BackendID foreign_mapping = ''b9''" "m_Enabled foreign_mapping"
  "m_Protocol foreign_mapping = ProtoTCP" "m_PublicPort foreign_mapping = 9000" "m_ID foreign_mapping \<noteq> ''m1''"
proof -
  have "length (m_ID foreign_mapping) = 32" by (simp add: foreign_mapping_def length_hexEncode)
  then show "m_ID foreign_mapping \<noteq> ''m1''" by auto
qed (simp_all add: foreign_mapping_def sample_mapping_def)

lemma foreign_validated:
  "validated PortMapping_Validate PortMapping_Normalize (sample_mapping [] ''b9'' 9000) k = k (sample_mapping [] ''b9'' 9000)"
proof -
  have "PortMapping_Validate (sample_mapping [] ''b9'' 9000) = None" "ToUpper (TrimSpace ProtoTCP) = ProtoTCP" by code_simp+
  then show ?thesis by (simp add: validated_def checkE_def PortMapping_Normalize_def sample_mapping_def)
qed

lemma foreign_resolved: "resolveMappingRefs sample_env (sample_hr i) (sample_mapping [] ''b9'' 9000) = returnA (sample_mapping [] ''b9'' 9000)"
  by (simp add: resolveMappingRefs_def default_node_def sample_mapping_def sample_request_def fun_eq_iff)

lemma foreign_stored:
  assumes "s = sample_store\<lparr>db_world := w\<rparr>"
  shows "CreateMapping sample_env foreign_mapping s = (Inr (), s\<lparr>db_mappings := db_mappings sample_store @ [foreign_mapping]\<rparr>)"
proof -
  have t: "m_CreatedAt foreign_mapping = 3" "m_UpdatedAt foreign_mapping = 3" by (simp_all add: foreign_mapping_def)
  have checks: "first_err (mapping_checks sample_env foreign_mapping (\<lambda>_. True) s) = None"
    using foreign_sels unfolding mapping_checks_def assms
    by (simp add: has_knows [symmetric] has_node_def has_backend_def sample_store_def sample_mapping_def sample_node_def sample_backend_def
        del: has_knows)
  have same: "foreign_mapping\<lparr>m_Enabled := True, m_CreatedAt := 3, m_UpdatedAt := 3\<rparr> = foreign_mapping"
    by (simp add: foreign_mapping_def sample_mapping_def)
  show ?thesis using checks
    by (simp add: CreateMapping_def stamped_def insertA_def sample_stamp t onErr_def bindA_def same assms)
qed

lemma foreign_created:
  "\<exists>sv'. serve sample_env sample_api CreateMappingE (sample_hr []) sample_server = ((201, RMapping foreign_mapping), sv') \<and>
     inventory_of (sv_db sv') = (inventory_of sample_store)\<lparr>in_mappings := db_mappings sample_store @ [foreign_mapping]\<rparr>"
proof -
  let ?s = "\<lambda>w. sample_store\<lparr>db_world := w\<rparr>"
  let ?m = "(sample_mapping [] ''b9'' 9000)\<lparr>m_ID := m_ID foreign_mapping, m_CreatedAt := 3, m_UpdatedAt := 3\<rparr>"
  have w: "db_world sample_store = 0" by (simp add: sample_store_def sample_tokens_def empty_db_def)
  have m: "?m = foreign_mapping" "foreign_mapping\<lparr>m_Enabled := True\<rparr> = foreign_mapping"
    by (simp_all add: foreign_mapping_def sample_mapping_def)
  obtain s2 where s2: "audit sample_env (Some agent_principal) ''create'' ''mapping'' (m_ID foreign_mapping) [] True
       ((?s 3)\<lparr>db_mappings := db_mappings sample_store @ [foreign_mapping]\<rparr>) = (Inr (), s2)"
    "inventory_of s2 = inventory_of ((?s 3)\<lparr>db_mappings := db_mappings sample_store @ [foreign_mapping]\<rparr>)"
    using sample_audit by blast
  have i: "ident_New sample_env (?s 1) = (Inr (m_ID foreign_mapping), ?s 2)" by (simp add: sample_ident foreign_mapping_def)
  have n: "nowA sample_env (?s 2) = (Inr 3, ?s 3)" by (simp add: sample_nowA)
  have c: "audit_failure sample_env p action resource rid (CreateMapping sample_env foreign_mapping) (?s 3) =
     (Inr (), (?s 3)\<lparr>db_mappings := db_mappings sample_store @ [foreign_mapping]\<rparr>)" for p action resource rid
    by (simp add: audit_failure_def foreign_stored [of "?s 3" 3])
  have "createMapping sample_env sample_api (sample_hr []) (Some agent_principal) (?s 1) = (Inr (201, RMapping foreign_mapping), s2)"
    by (simp add: createMapping_def decodeJSON_def sample_api_def sample_codec_def foreign_resolved foreign_validated fresh_def
        bindA_def i n Let_def m c done_audit_def s2(1) del: One_nat_def)
  then show ?thesis unfolding sample_server_def
    by (subst sample_serve_write) (use s2(2) w in \<open>simp_all add: mutates_def sample_store_tokens run_handler_def\<close>)
qed


end
