(* ===== verification/AccountLaws.thy ===== *)
theory AccountLaws
  imports Accounts ControllerSamples
begin

text \<open>
  What the account operations guarantee: the tables stay well formed, the last active administrator stays,
  the first administrator is created once, a recovery code is spent by its use, and which logins succeed.
\<close>

section \<open>Effects of the statements\<close>

definition new_row :: "user \<Rightarrow> gotime \<Rightarrow> gotime \<Rightarrow> gotime \<Rightarrow> user" where
  "new_row u c t g = u\<lparr>u_Locale := localeOrDefault (u_Locale u), u_CreatedAt := c, u_UpdatedAt := t, u_LastLoginAt := g\<rparr>"

definition created :: "user \<Rightarrow> 'w db \<Rightarrow> 'w db \<Rightarrow> bool" where
  "created u s s' \<longleftrightarrow> u_Role u \<in> set human_roles \<and> (\<forall>x \<in> set (db_users s). u_ID x \<noteq> u_ID u \<and> u_Username x \<noteq> u_Username u) \<and>
     (\<exists>c t g. s' = s\<lparr>db_users := db_users s @ [new_row u c t g]\<rparr>)"

definition updated :: "user \<Rightarrow> 'w db \<Rightarrow> 'w db \<Rightarrow> bool" where
  "updated u s s' \<longleftrightarrow> u_Role u \<in> set human_roles \<and> (\<forall>x \<in> set (db_users s). u_ID x \<noteq> u_ID u \<longrightarrow> u_Username x \<noteq> u_Username u) \<and>
     (\<exists>x \<in> set (db_users s). u_ID x = u_ID u) \<and>
     (\<exists>t g. s' = s\<lparr>db_users := upd_where (\<lambda>r. u_ID r = u_ID u) (\<lambda>r. new_row u (u_CreatedAt r) t g) (db_users s)\<rparr>)"

lemma reads_only_login [table_intros]: "reads_only (lastLoginValue env t)"
  unfolding lastLoginValue_def by (auto intro: table_intros)

lemmas timed = effects_bind_reads_only [OF reads_only_nowRFC3339] effects_bind_reads_only [OF reads_only_login]

lemma CreateUser_effects: "effects (\<lambda>s _. created u s) (CreateUser env u)"
  unfolding CreateUser_def
  apply (rule timed)+
  apply (rule effects_then [where R = "\<lambda>s _. created u s" and g = "\<lambda>_. ()"])
   apply (intro effects_onErr effects_exec)
   apply (auto simp: created_def new_row_def)
  done

lemma UpdateUser_effects: "effects (\<lambda>s _. updated u s) (UpdateUser env u)"
  unfolding UpdateUser_def
  apply (rule timed)+
  apply (rule effects_some_row [where R = "\<lambda>s n s'. if n = 0 then s' = s else updated u s s'"])
    apply (intro effects_onErr effects_exec)
    apply (auto simp: updated_def new_row_def upd_where_none filter_empty_conv split: if_splits)
  done

lemma reads_GetUser: "reads (\<lambda>s u. \<exists>row \<in> set (db_users s). u_ID row = uid \<and> u = scanUserInto row) (GetUser env uid)"
  unfolding GetUser_def
  by (rule reads_mono [OF reads_queryRow]) (auto simp: find_Some_iff)

lemma reads_only_GetUser [table_intros]: "reads_only (GetUser env uid)"
  unfolding GetUser_def by (rule table_intros)

lemma reads_CountAdministrators:
  "reads (\<lambda>s n. n = length (filter active_admin (db_users s))) (CountAdministrators env)"
  unfolding CountAdministrators_def by (rule reads_mono [OF reads_queryRow]) auto

section \<open>What a patch may change\<close>

definition patched :: "user \<Rightarrow> 'w db \<Rightarrow> user \<Rightarrow> bool" where
  "patched u s v \<longleftrightarrow> u_ID v = u_ID u \<and> u_Username v = u_Username u \<and> u_TOTPEnabled v = u_TOTPEnabled u \<and>
     u_TOTPSecret v = u_TOTPSecret u \<and> u_TOTPPending v = u_TOTPPending u \<and>
     (active_admin u \<and> \<not> active_admin v \<longrightarrow> 2 \<le> length (filter active_admin (db_users s)))"

lemma reads_guard: "reads (\<lambda>s _. 2 \<le> length (filter active_admin (db_users s))) (last_admin_guard env msg)"
  unfolding last_admin_guard_def
  by (rule reads_bind [OF reads_CountAdministrators]) (auto intro: reads_return reads_fail)

lemma reads_guard_if:
  "reads (\<lambda>s _. b \<longrightarrow> 2 \<le> length (filter active_admin (db_users s))) (if b then last_admin_guard env msg else returnA ())"
  by (cases b) (auto intro: reads_return reads_mono [OF reads_guard])

lemma reads_only_liftE [table_intros]: "reads_only (liftE r)" "reads_only (checkE q)"
  by (auto simp: liftE_def checkE_def split: sum.split option.split intro: table_intros)

lemma reads_patch_password: "reads (\<lambda>s v. \<exists>h. v = u\<lparr>u_PasswordHash := h\<rparr>) (patch_password env p u)"
proof (cases "up_Password p")
  case None
  then show ?thesis by (auto simp: patch_password_def intro!: reads_return exI [of _ "u_PasswordHash u"])
next
  case (Some pw)
  then show ?thesis
    by (auto simp: patch_password_def intro!: reads_return reads_bind [where Q = "\<lambda>_ _. True"] table_intros)
qed

lemma reads_patch_role:
  "reads (\<lambda>s v. \<exists>r. v = u\<lparr>u_Role := r\<rparr> \<and>
      (u_Role u = ''administrator'' \<and> r \<noteq> ''administrator'' \<longrightarrow> 2 \<le> length (filter active_admin (db_users s)))) (patch_role env p u)"
proof (cases "up_Role p")
  case None
  then show ?thesis by (auto simp: patch_role_def intro!: reads_return exI [of _ "u_Role u"])
next
  case (Some r)
  show ?thesis unfolding patch_role_def Some option.case
    by (rule reads_bind [OF reads_only_liftE(1)], rule reads_bind [OF reads_guard_if], rule reads_return) auto
qed

lemma reads_patch_disabled:
  "reads (\<lambda>s v. \<exists>d. v = u\<lparr>u_Disabled := d\<rparr> \<and>
      (u_Role u = ''administrator'' \<and> d \<and> \<not> u_Disabled u \<longrightarrow> 2 \<le> length (filter active_admin (db_users s)))) (patch_disabled env p u)"
proof (cases "up_Disabled p")
  case None
  then show ?thesis by (auto simp: patch_disabled_def intro!: reads_return exI [of _ "u_Disabled u"])
next
  case (Some d)
  show ?thesis unfolding patch_disabled_def Some option.case
    by (rule reads_bind [OF reads_guard_if], rule reads_return) auto
qed

lemma reads_patch_fields: "reads (patched u) (patch_fields env p u)"
  unfolding patch_fields_def
  apply (rule reads_bind [OF reads_patch_password])
  apply (rule reads_bind [OF reads_patch_role])
  apply (rule reads_mono [OF reads_patch_disabled])
  apply (auto simp: patched_def active_admin_def split: option.splits)
  done

section \<open>The invariant of the tables\<close>

text \<open>
  Usernames are normalised DNS labels and unique like the ids, roles and locales are of the admitted ones, a
  confirmed second factor has a secret, and every recovery code belongs to a user.
\<close>

definition account_ok :: "user \<Rightarrow> bool" where
  "account_ok u \<longleftrightarrow> Username (u_Username u) = None \<and> ToLower (TrimSpace (u_Username u)) = u_Username u \<and>
     (u_TOTPEnabled u \<longrightarrow> u_TOTPSecret u \<noteq> [])"

definition accounts_ok :: "'w db \<Rightarrow> bool" where
  "accounts_ok s \<longleftrightarrow> users_ok (db_users s) \<and> (\<forall>u \<in> set (db_users s). account_ok u) \<and>
     distinct (map rc_ID (db_codes s)) \<and> (\<forall>c \<in> set (db_codes s). \<exists>u \<in> set (db_users s). u_ID u = rc_UserID c)"

definition has_admin :: "'w db \<Rightarrow> bool" where
  "has_admin s \<longleftrightarrow> (\<exists>u \<in> set (db_users s). active_admin u)"

text \<open>What an update may write over: a user of the table, with its name, not the last administrator.\<close>

definition may_update :: "user \<Rightarrow> 'w db \<Rightarrow> bool" where
  "may_update v s \<longleftrightarrow> (u_TOTPEnabled v \<longrightarrow> u_TOTPSecret v \<noteq> []) \<and>
     (\<exists>row \<in> set (db_users s). u_ID row = u_ID v \<and> u_Username row = u_Username v \<and>
       (active_admin row \<and> \<not> active_admin v \<longrightarrow> 2 \<le> length (filter active_admin (db_users s))))"

definition admin_inv :: "bool \<Rightarrow> 'w db \<Rightarrow> bool" where
  "admin_inv b s \<longleftrightarrow> accounts_ok s \<and> (b \<longrightarrow> has_admin s)"

lemma of_tables_inv: "of_tables (admin_inv b)" "of_tables (may_update v)"
  by (simp_all add: of_tables_def admin_inv_def accounts_ok_def has_admin_def may_update_def)

lemma account_ok_new_row [simp]: "account_ok (new_row u c t g) = account_ok u"
  by (simp add: new_row_def account_ok_def)

lemma active_admin_new_row [simp]: "active_admin (new_row u c t g) = active_admin u"
  by (simp add: new_row_def active_admin_def)

lemma active_admin_scan [simp]: "active_admin (scanUserInto u) = active_admin u"
  by (simp add: scanUserInto_def active_admin_def)

lemma new_row_keys [simp]: "u_ID (new_row u c t g) = u_ID u" "u_Username (new_row u c t g) = u_Username u"
  "u_Role (new_row u c t g) = u_Role u" "u_Disabled (new_row u c t g) = u_Disabled u"
  by (simp_all add: new_row_def)

lemma scan_keys [simp]: "u_ID (scanUserInto u) = u_ID u" "u_Username (scanUserInto u) = u_Username u"
  by (simp_all add: scanUserInto_def)

lemma created_inv:
  assumes "created u s s'" and "account_ok u" and "admin_inv b s"
  shows "admin_inv b s'"
proof -
  obtain c t g where s': "s' = s\<lparr>db_users := db_users s @ [new_row u c t g]\<rparr>" using assms(1) by (auto simp: created_def)
  have "users_ok (db_users s')"
    using users_ok_snoc [of "db_users s" u, where l = "u_Locale u" and c = c and t = t and g = g] assms by (simp add: s' new_row_def created_def admin_inv_def accounts_ok_def)
  then show ?thesis using assms by (auto simp: s' admin_inv_def accounts_ok_def has_admin_def)
qed

lemma two_admins:
  assumes "distinct (map k xs)" and "2 \<le> length (filter P xs)"
  shows "\<exists>x \<in> set xs. P x \<and> k x \<noteq> i"
proof (rule ccontr)
  assume "\<not> ?thesis"
  then have "set (map k (filter P xs)) \<subseteq> {i}" by auto
  moreover have "distinct (map k (filter P xs))" using assms(1) by (rule distinct_map_filter)
  ultimately have "length (map k (filter P xs)) \<le> 1"
    by (metis card.empty card_insert_if card_mono distinct_card empty_iff finite.emptyI finite.insertI One_nat_def)
  then show False using assms(2) by simp
qed

lemma updated_inv:
  assumes "updated v s s'" and "may_update v s" and "admin_inv b s"
  shows "admin_inv b s'"
proof -
  let ?P = "\<lambda>r. u_ID r = u_ID v"
  obtain t g where s': "s' = s\<lparr>db_users := upd_where ?P (\<lambda>r. new_row v (u_CreatedAt r) t g) (db_users s)\<rparr>"
    using assms(1) by (auto simp: updated_def)
  obtain row where row: "row \<in> set (db_users s)" "u_ID row = u_ID v" "u_Username row = u_Username v"
    "active_admin row \<and> \<not> active_admin v \<longrightarrow> 2 \<le> length (filter active_admin (db_users s))"
    and totp: "u_TOTPEnabled v \<longrightarrow> u_TOTPSecret v \<noteq> []" using assms(2) by (auto simp: may_update_def)
  have ids: "u_ID ` set (db_users s') = u_ID ` set (db_users s)"
    using map_upd_where [of ?P u_ID "\<lambda>r. new_row v (u_CreatedAt r) t g" "db_users s"] by (simp add: s') (metis list.set_map)
  have "users_ok (db_users s')"
    using users_ok_upd [of "db_users s" v, where l = "u_Locale v" and t = t and g = g] assms by (simp add: s' new_row_def updated_def admin_inv_def accounts_ok_def)
  moreover have "\<forall>u \<in> set (db_users s'). account_ok u"
    using assms(3) row(1,3) totp by (auto simp: s' upd_where_def admin_inv_def accounts_ok_def account_ok_def new_row_def)
  moreover have "\<exists>u \<in> set (db_users s'). u_ID u = rc_UserID c" if "c \<in> set (db_codes s')" for c
  proof -
    have "rc_UserID c \<in> u_ID ` set (db_users s)" using assms(3) that by (force simp: admin_inv_def accounts_ok_def s')
    then show ?thesis unfolding ids [symmetric] by force
  qed
  moreover have "has_admin s'" if has: "has_admin s"
  proof (cases "active_admin v")
    case True
    then have "active_admin (new_row v (u_CreatedAt row) t g)" by simp
    moreover have "new_row v (u_CreatedAt row) t g \<in> set (db_users s')" using row(1,2) by (force simp: s' upd_where_def)
    ultimately show ?thesis unfolding has_admin_def by blast
  next
    case False
    have "\<exists>x \<in> set (db_users s). active_admin x \<and> u_ID x \<noteq> u_ID v"
    proof (cases "active_admin row")
      case True
      then show ?thesis using two_admins [of u_ID "db_users s" active_admin "u_ID v"] row(4) False assms(3)
        by (simp add: admin_inv_def accounts_ok_def users_ok_def)
    next
      case False
      obtain x where x: "x \<in> set (db_users s)" "active_admin x" using has by (auto simp: has_admin_def)
      have "u_ID x \<noteq> u_ID v"
        using assms(3) row(1,2) x False eq_key_imp_eq_value unfolding admin_inv_def accounts_ok_def users_ok_def
        by (metis distinct_map inj_onD)
      then show ?thesis using x by blast
    qed
    then show ?thesis by (force simp: has_admin_def s' upd_where_def)
  qed
  ultimately show ?thesis using assms(3) by (simp add: admin_inv_def accounts_ok_def s')
qed

section \<open>Every operation keeps the invariant\<close>

lemmas inv_reads = keeps_from_bind_reads [OF of_tables_inv(1)]
lemmas inv_reads_only = keeps_reads_only [OF of_tables_inv(1)]

lemma of_tables_True: "of_tables (\<lambda>_. True)"
  by (simp add: of_tables_def)

lemma keeps_UpdateUser: "keeps_from (may_update v) (admin_inv b) (UpdateUser env v)"
  by (rule keeps_effects [OF of_tables_inv UpdateUser_effects updated_inv])

lemma keeps_CreateUser: "account_ok u \<Longrightarrow> keeps (admin_inv b) (CreateUser env u)"
  by (rule keeps_effects [OF of_tables_inv(1) of_tables_True CreateUser_effects]) (rule created_inv)

lemma keeps_exec_codes:
  fixes violated :: "'w db \<Rightarrow> goerr option list"
  assumes "\<And>s. first_err (violated s) = None \<Longrightarrow> accounts_ok s \<Longrightarrow>
    db_users (snd (change s)) = db_users s \<and> distinct (map rc_ID (db_codes (snd (change s)))) \<and>
    (\<forall>c \<in> set (db_codes (snd (change s))). \<exists>u \<in> set (db_users s). u_ID u = rc_UserID c)"
  shows "keeps (admin_inv b) (exec env op violated change)"
proof (rule keeps_effects [OF of_tables_inv(1) of_tables_True])
  show "effects (\<lambda>s x s'. first_err (violated s) = None \<and> s' = snd (change s)) (exec env op violated change)"
    by (rule effects_exec) simp
next
  fix s :: "'w db" and x s'
  assume "first_err (violated s) = None \<and> s' = snd (change s)" and "admin_inv b s"
  then show "admin_inv b s'" using assms [of s] by (simp add: admin_inv_def accounts_ok_def has_admin_def)
qed

lemma keeps_ReplaceRecoveryCodes [table_intros]: "keeps (admin_inv b) (ReplaceRecoveryCodes env uid hs)"
proof -
  have ins: "keeps (admin_inv b) (insert_code env uid h)" for h
    unfolding insert_code_def
    by (intro keeps_bind keeps_exec_codes keeps_return inv_reads_only reads_only_ident_New) (auto simp: accounts_ok_def)
  have "keeps (admin_inv b) (exec env op (\<lambda>s. []) (\<lambda>s. (n s, s\<lparr>db_codes := filter P (db_codes s)\<rparr>)))" for op n P
    by (intro keeps_exec_codes) (auto simp: accounts_ok_def distinct_map_filter)
  then show ?thesis unfolding ReplaceRecoveryCodes_def
    by (intro keeps_onErr keeps_transaction of_tables_inv keeps_bind keeps_forA ins)
qed

lemma keeps_MarkRecoveryCodeUsed [table_intros]: "keeps (admin_inv b) (MarkRecoveryCodeUsed env cid t)"
proof -
  have m: "map rc_ID (upd_where (\<lambda>c. rc_ID c = cid) (\<lambda>c. c\<lparr>rc_UsedAt := u\<rparr>) cs) = map rc_ID cs" for cs u
    by (rule map_upd_where) simp
  have u: "\<exists>r \<in> us. u_ID r = rc_UserID c"
    if "c \<in> set (upd_where (\<lambda>c. rc_ID c = cid) (\<lambda>c. c\<lparr>rc_UsedAt := t\<rparr>) cs)" "\<forall>c \<in> set cs. \<exists>r \<in> us. u_ID r = rc_UserID c" for c cs t us
    using that by (auto simp: upd_where_def)
  then show ?thesis unfolding MarkRecoveryCodeUsed_def
    by (intro keeps_bind keeps_onErr keeps_exec_codes keeps_return inv_reads_only reads_only_nowRFC3339)
       (simp add: accounts_ok_def m u)
qed

lemma reads_only_generate [table_intros]: "reads_only (generateRecoveryCodes env)"
proof -
  have "reads_only (forA (\<lambda>_. generate_code env) xs acc)" for xs :: "nat list" and acc
    by (induction xs arbitrary: acc) (auto simp: generate_code_def Let_def intro!: table_intros)
  then show ?thesis by (simp add: generateRecoveryCodes_def)
qed

lemma keeps_Rotate [table_intros]: "keeps (admin_inv b) (RotateRecoveryCodes env uid)"
proof -
  have "keeps (admin_inv b) (case x of (codes, hashes) \<Rightarrow> bindA (ReplaceRecoveryCodes env uid hashes) (\<lambda>_. returnA codes))" for x
    by (cases x) (auto intro: table_intros)
  then show ?thesis unfolding RotateRecoveryCodes_def
    by (intro keeps_bind inv_reads_only [OF reads_only_GetUser] inv_reads_only [OF reads_only_generate])
qed

text \<open>Read a user, compute a change that is allowed, write it.\<close>

definition row_of :: "ident \<Rightarrow> user \<Rightarrow> 'w db \<Rightarrow> bool" where
  "row_of uid u s \<longleftrightarrow> (\<exists>row \<in> set (db_users s). u_ID row = uid \<and> u = scanUserInto row)"

lemma of_tables_conj: "of_tables P \<Longrightarrow> of_tables Q \<Longrightarrow> of_tables (\<lambda>s. P s \<and> Q s)"
  by (simp add: of_tables_def)

lemma of_tables_row_of: "of_tables (row_of uid u)" "of_tables (\<lambda>s. patched u s v)"
  by (simp_all add: of_tables_def row_of_def patched_def)

lemma may_update_row:
  assumes "row_of uid u s" and "u_ID v = u_ID u" and "u_Username v = u_Username u" and "active_admin v = active_admin u"
    and "u_TOTPEnabled v \<longrightarrow> u_TOTPSecret v \<noteq> []"
  shows "may_update v s"
  using assms by (auto simp: may_update_def row_of_def)

lemma scan_totp: "row_of uid u s \<Longrightarrow> u_TOTPEnabled u \<longrightarrow> u_TOTPSecret u \<noteq> []"
  by (auto simp: row_of_def scanUserInto_def)

lemma reads_row: "reads (\<lambda>s u. row_of uid u s) (GetUser env uid)"
  unfolding row_of_def by (rule reads_GetUser)

lemma keeps_rmw:
  fixes env :: "'w env"
  assumes "\<And>(s :: 'w db) t. row_of uid u s \<Longrightarrow> may_update (f t) s" and "\<And>x. keeps (admin_inv b) (k x)"
  shows "keeps_from (row_of uid u) (admin_inv b) (bindA (nowA env) (\<lambda>t. bindA (UpdateUser env (f t)) k))"
  by (rule inv_reads [OF of_tables_row_of(1) reads_only_nowA]) (use assms in
    \<open>auto intro!: keeps_from_then keeps_from_mono [OF keeps_UpdateUser]\<close>)

lemma keeps_from_GetUser:
  "(\<And>u. keeps_from (row_of uid u) (admin_inv b) (f u)) \<Longrightarrow> keeps (admin_inv b) (bindA (GetUser env uid) f)"
  by (rule inv_reads [OF of_tables_True reads_row]) (auto intro: keeps_from_mono)

lemma bindA_returnA: "bindA m returnA = m"
  by (auto simp: bindA_def fun_eq_iff split: prod.splits sum.splits)

lemma keeps_update_with [table_intros]:
  assumes "\<And>u. u_ID (f u) = u_ID u \<and> u_Username (f u) = u_Username u \<and> active_admin (f u) = active_admin u"
    and "\<And>u. (u_TOTPEnabled u \<longrightarrow> u_TOTPSecret u \<noteq> []) \<Longrightarrow> u_TOTPEnabled (f u) \<longrightarrow> u_TOTPSecret (f u) \<noteq> []"
  shows "keeps (admin_inv b) (update_with env uid f)"
proof -
  have "keeps_from (row_of uid u) (admin_inv b)
      (bindA (nowA env) (\<lambda>t. bindA (UpdateUser env (f u\<lparr>u_UpdatedAt := t\<rparr>)) returnA))" for u
    using assms by (intro keeps_rmw keeps_return) (auto intro!: may_update_row dest: scan_totp simp: active_admin_def)
  then show ?thesis unfolding update_with_def bindA_returnA by (rule keeps_from_GetUser)
qed

lemma keeps_SetLocale [table_intros]: "keeps (admin_inv b) (SetLocale env uid l)"
  unfolding SetLocale_def by (rule keeps_update_with) (simp_all add: active_admin_def)

lemma keeps_TouchLogin [table_intros]: "keeps (admin_inv b) (TouchLogin env uid)"
proof -
  have "keeps_from (row_of uid u) (admin_inv b)
      (bindA (nowA env) (\<lambda>t. bindA (UpdateUser env (u\<lparr>u_LastLoginAt := t, u_UpdatedAt := t\<rparr>)) returnA))" for u
    by (intro keeps_rmw keeps_return) (auto intro!: may_update_row dest: scan_totp simp: active_admin_def)
  then show ?thesis unfolding TouchLogin_def bindA_returnA by (rule keeps_from_GetUser)
qed

lemma keeps_BeginTOTP [table_intros]: "keeps (admin_inv b) (BeginTOTP env uid)"
  unfolding BeginTOTP_def
proof (rule keeps_from_GetUser)
  fix u :: user
  show "keeps_from (row_of uid u) (admin_inv b) (bindA (lift_world (randomTOTPSecret (e_rand env))) (\<lambda>secret.
     bindA (nowA env) (\<lambda>t. bindA (UpdateUser env (u\<lparr>u_TOTPPending := secret, u_UpdatedAt := t\<rparr>)) (\<lambda>_.
       returnA (otpAuthURL totpIssuer (u_Username u) secret, secret)))))"
    by (rule inv_reads [OF of_tables_row_of(1) reads_only_lift], rule keeps_from_mono, rule keeps_rmw [where uid = uid and u = u])
       (auto intro!: keeps_return may_update_row dest: scan_totp simp: active_admin_def)
qed

lemma reads_only_check_code [table_intros]: "reads_only (check_code env secret code)"
  unfolding check_code_def by (rule reads_only_bind) (auto split: option.split intro: table_intros)

lemma keeps_ConfirmTOTP [table_intros]: "keeps (admin_inv b) (ConfirmTOTP env uid code)"
  unfolding ConfirmTOTP_def
proof (rule keeps_from_GetUser)
  fix u :: user
  have ne: "TrimSpace (u_TOTPPending u) \<noteq> [] \<Longrightarrow> u_TOTPPending u \<noteq> []" by auto
  have w: "keeps_from (row_of uid u) (admin_inv b) (bindA (nowA env) (\<lambda>t.
         bindA (UpdateUser env (u\<lparr>u_TOTPSecret := u_TOTPPending u, u_TOTPPending := [], u_TOTPEnabled := True, u_UpdatedAt := t\<rparr>))
           (\<lambda>_. RotateRecoveryCodes env uid)))" if "TrimSpace (u_TOTPPending u) \<noteq> []"
    using ne [OF that] by (intro keeps_rmw keeps_Rotate) (auto intro!: may_update_row simp: active_admin_def)
  show "keeps_from (row_of uid u) (admin_inv b) (if TrimSpace (u_TOTPPending u) = []
     then failA (Validation ''TOTP enrollment has not been started'')
     else bindA (check_code env (u_TOTPPending u) code) (\<lambda>ok.
       if \<not> ok then failA (Unauthorized ''invalid TOTP code'')
       else bindA (nowA env) (\<lambda>t.
         bindA (UpdateUser env (u\<lparr>u_TOTPSecret := u_TOTPPending u, u_TOTPPending := [], u_TOTPEnabled := True, u_UpdatedAt := t\<rparr>))
           (\<lambda>_. RotateRecoveryCodes env uid))))"
    using w by (auto intro!: inv_reads [OF of_tables_row_of(1) reads_only_check_code] keeps_from_weaken [OF keeps_return(2)]
      elim: keeps_from_mono)
qed

lemma keeps_DisableTOTP [table_intros]: "keeps (admin_inv b) (DisableTOTP env uid)"
  unfolding DisableTOTP_def
  by (intro keeps_bind keeps_update_with keeps_ReplaceRecoveryCodes) (simp_all add: active_admin_def)

lemma keeps_Patch [table_intros]: "keeps (admin_inv b) (accounts_Patch env uid p)"
  unfolding accounts_Patch_def
proof (rule keeps_from_GetUser, rule inv_reads [OF of_tables_row_of(1) reads_patch_fields],
    rule inv_reads [OF of_tables_conj [OF of_tables_row_of] reads_only_nowA], rule keeps_from_then)
  fix u v t
  have "may_update (v\<lparr>u_UpdatedAt := t\<rparr>) s" if "row_of uid u s" "patched u s v" for s :: "'a db"
  proof -
    have "active_admin (v\<lparr>u_UpdatedAt := t\<rparr>) = active_admin v" by (simp add: active_admin_def)
    then show ?thesis using that scan_totp [OF that(1)] by (auto simp: may_update_def row_of_def patched_def)
  qed
  then show "keeps_from (\<lambda>s. (row_of uid u s \<and> patched u s v) \<and> True) (admin_inv b) (UpdateUser env (v\<lparr>u_UpdatedAt := t\<rparr>))"
    by (auto intro: keeps_from_mono [OF keeps_UpdateUser])
qed (rule keeps_return)

lemma normalizeUsername_ok:
  assumes "normalizeUsername n = Inr name"
  shows "Username name = None \<and> ToLower (TrimSpace name) = name"
proof -
  have name: "name = ToLower (TrimSpace n)" and ok: "Username name = None"
    using assms by (auto simp: normalizeUsername_def Let_def split: option.splits)
  have "ToLower (TrimSpace name) = name" by (simp add: name)
  then show ?thesis using ok by blast
qed

lemma keeps_Create [table_intros]: "keeps (admin_inv b) (accounts_Create env req)"
  unfolding accounts_Create_def
proof (cases "normalizeUsername (uc_Username req)")
  case (Inr name)
  show "keeps (admin_inv b) (bindA (liftE (normalizeUsername (uc_Username req))) (\<lambda>username.
     bindA (checkE (password_check (uc_Password req))) (\<lambda>_.
     bindA (liftE (ParseHumanRole (uc_Role req))) (\<lambda>role.
     bindA (lift_world (e_bcrypt env (uc_Password req))) (\<lambda>hash.
     bindA (nowA env) (\<lambda>now.
     bindA (ident_New env) (\<lambda>uid.
       let u = \<lparr>u_ID = uid, u_Username = username, u_DisplayName = TrimSpace (uc_DisplayName req), u_PasswordHash = hash,
                u_Role = role, u_Locale = NormalizeLocale (uc_Locale req), u_TOTPSecret = [], u_TOTPPending = [],
                u_TOTPEnabled = False, u_Disabled = False, u_CreatedAt = now, u_UpdatedAt = now, u_LastLoginAt = 0\<rparr>
       in bindA (CreateUser env u) (\<lambda>_. returnA (u\<lparr>u_PasswordHash := []\<rparr>)))))))))"
    unfolding Let_def Inr liftE_def sum.case bind_returnA
    using normalizeUsername_ok [OF Inr]
    by (intro keeps_bind keeps_return keeps_CreateUser inv_reads_only reads_only_lift reads_only_nowA reads_only_ident_New
        reads_only_liftE [unfolded liftE_def]) (simp_all add: account_ok_def)
qed (simp add: liftE_def keeps_return)

lemma keeps_Setup [table_intros]: "keeps (admin_inv b) (SetupFirstAdministrator env n d p l)"
  unfolding SetupFirstAdministrator_def CountUsers_def
  by (intro keeps_bind inv_reads_only [OF reads_only_queryRow]) (auto intro: table_intros)

lemma keeps_ConsumeMFA [table_intros]: "keeps (admin_inv b) (ConsumeMFA env ou code rec)"
proof -
  have "keeps (admin_inv b) (consume_recovery env u c)" for u c
  proof -
    have "keeps (admin_inv b) (case find (\<lambda>c. rc_UsedAt c = 0 \<and> e_compare env (rc_Hash c) code) codes of
          None \<Rightarrow> failA (Unauthorized ''invalid MFA code'')
        | Some c \<Rightarrow> bindA (nowA env) (\<lambda>t. MarkRecoveryCodeUsed env (rc_ID c) t))" for codes code
      by (cases "find (\<lambda>c. rc_UsedAt c = 0 \<and> e_compare env (rc_Hash c) code) codes")
         (auto intro!: keeps_bind keeps_MarkRecoveryCodeUsed inv_reads_only [OF reads_only_nowA] keeps_return)
    then show ?thesis unfolding consume_recovery_def ListRecoveryCodeHashes_def
      by (auto intro!: keeps_bind inv_reads_only [OF reads_only_query] keeps_return)
  qed
  moreover have "keeps (admin_inv b) (if ok then returnA () else consume_recovery env u c)" for ok u c
    using calculation by (auto intro: keeps_return)
  ultimately show ?thesis unfolding ConsumeMFA_def Let_def
    by (auto split: option.split intro!: keeps_bind keeps_return inv_reads_only [OF reads_only_check_code])
qed

section \<open>Any sequence of operations\<close>

text \<open>One call of an account operation, whatever it returns.\<close>

inductive account_step :: "'w env \<Rightarrow> 'w db \<Rightarrow> 'w db \<Rightarrow> bool" for env where
  Create: "accounts_Create env req s = (r, s') \<Longrightarrow> account_step env s s'"
| Setup: "SetupFirstAdministrator env n d p l s = (r, s') \<Longrightarrow> account_step env s s'"
| Patch: "accounts_Patch env uid p s = (r, s') \<Longrightarrow> account_step env s s'"
| Login: "AuthenticatePassword env n p s = (r, s') \<Longrightarrow> account_step env s s'"
| Touch: "TouchLogin env uid s = (r, s') \<Longrightarrow> account_step env s s'"
| Locale: "SetLocale env uid l s = (r, s') \<Longrightarrow> account_step env s s'"
| Begin: "BeginTOTP env uid s = (r, s') \<Longrightarrow> account_step env s s'"
| Confirm: "ConfirmTOTP env uid code s = (r, s') \<Longrightarrow> account_step env s s'"
| Disable: "DisableTOTP env uid s = (r, s') \<Longrightarrow> account_step env s s'"
| Rotate: "RotateRecoveryCodes env uid s = (r, s') \<Longrightarrow> account_step env s s'"
| MFA: "ConsumeMFA env ou code rec s = (r, s') \<Longrightarrow> account_step env s s'"

lemma reads_only_AuthenticatePassword [table_intros]: "reads_only (AuthenticatePassword env n p)"
  unfolding AuthenticatePassword_def GetByUsername_def GetUserByUsername_def
  by (intro reads_only_bind reads_onErr reads_only_queryRow) (auto intro: table_intros)

lemmas account_keeps = keeps_Create keeps_Setup keeps_Patch keeps_TouchLogin keeps_SetLocale keeps_BeginTOTP keeps_ConfirmTOTP
  keeps_DisableTOTP keeps_Rotate keeps_ConsumeMFA inv_reads_only [OF reads_only_AuthenticatePassword]

lemma account_step_inv: "account_step env s s' \<Longrightarrow> admin_inv b s \<Longrightarrow> admin_inv b s'"
  by (induction rule: account_step.induct) (auto dest: account_keeps [THEN keepsD])

lemma account_run_inv: "(account_step env)\<^sup>*\<^sup>* s s' \<Longrightarrow> admin_inv b s \<Longrightarrow> admin_inv b s'"
  by (induction rule: rtranclp_induct) (auto intro: account_step_inv)

section \<open>Recovery codes are spent\<close>

definition unused_codes :: "ident \<Rightarrow> 'w db \<Rightarrow> recovery_code list" where
  "unused_codes uid s = filter (\<lambda>c. rc_UserID c = uid \<and> rc_UsedAt c = 0) (db_codes s)"

definition spent :: "ident \<Rightarrow> recovery_code \<Rightarrow> 'w db \<Rightarrow> 'w db \<Rightarrow> bool" where
  "spent uid c s s' \<longleftrightarrow> c \<in> set (unused_codes uid s) \<and>
     (\<exists>t. t \<noteq> 0 \<and> s' = s\<lparr>db_codes := upd_where (\<lambda>d. rc_ID d = rc_ID c) (\<lambda>d. d\<lparr>rc_UsedAt := t\<rparr>) (db_codes s)\<rparr>)"

lemma spent_unused:
  assumes "spent uid c s s'"
  shows "unused_codes uid s' = filter (\<lambda>d. rc_ID d \<noteq> rc_ID c) (unused_codes uid s)"
proof -
  have "filter (\<lambda>d. rc_UserID d = uid \<and> rc_UsedAt d = 0) (upd_where (\<lambda>d. rc_ID d = rc_ID c) (\<lambda>d. d\<lparr>rc_UsedAt := t\<rparr>) cs) =
      filter (\<lambda>d. rc_ID d \<noteq> rc_ID c) (filter (\<lambda>d. rc_UserID d = uid \<and> rc_UsedAt d = 0) cs)" if "t \<noteq> 0" for t cs
    using that by (induction cs) (auto simp: upd_where_def)
  then show ?thesis using assms by (auto simp: spent_def unused_codes_def)
qed

lemma reads_nowA: "(\<And>w. fst (e_now env w) \<noteq> 0) \<Longrightarrow> reads (\<lambda>_ t. t \<noteq> 0) (nowA env)"
  by (auto simp: reads_def nowA_def lift_world_def split: prod.splits) (metis fst_conv)

lemma reads_stamp: "t \<noteq> 0 \<Longrightarrow> reads (\<lambda>_ u. u = t) (nowRFC3339 env t)"
  by (simp add: nowRFC3339_def reads_return)

lemma mark_effects:
  assumes "t \<noteq> 0"
  shows "effects (\<lambda>s _ s'. s' = s\<lparr>db_codes := upd_where (\<lambda>d. rc_ID d = cid) (\<lambda>d. d\<lparr>rc_UsedAt := t\<rparr>) (db_codes s)\<rparr>)
     (MarkRecoveryCodeUsed env cid t)"
  unfolding MarkRecoveryCodeUsed_def
  apply (rule effects_bind_reads [OF reads_stamp [OF assms]])
  apply (rule effects_onErr)
  apply (rule effects_then [where g = "\<lambda>_. ()"])
   apply (rule effects_exec [where R = "\<lambda>s _ s'. s' = s\<lparr>db_codes := upd_where (\<lambda>d. rc_ID d = cid) (\<lambda>d. d\<lparr>rc_UsedAt := u\<rparr>) (db_codes s)\<rparr>" for u])
   apply auto
  done

lemma consume_effects:
  assumes clock: "\<And>w. fst (e_now env w) \<noteq> 0"
  shows "effects (\<lambda>s _ s'. \<exists>c. e_compare env (rc_Hash c) code \<and> spent (u_ID u) c s s') (consume_recovery env u code)"
proof (cases "code = []")
  case False
  have list: "reads (\<lambda>s cs. cs = filter (\<lambda>c. rc_UserID c = u_ID u) (db_codes s)) (ListRecoveryCodeHashes env (u_ID u))"
    unfolding ListRecoveryCodeHashes_def by (rule reads_query) simp
  show ?thesis unfolding consume_recovery_def if_not_P [OF False]
  proof (rule effects_bind_reads [OF list])
    fix cs
    show "effects (\<lambda>s x s'. cs = filter (\<lambda>c. rc_UserID c = u_ID u) (db_codes s) \<longrightarrow>
        (\<exists>c. e_compare env (rc_Hash c) code \<and> spent (u_ID u) c s s'))
      (case find (\<lambda>c. rc_UsedAt c = 0 \<and> e_compare env (rc_Hash c) code) cs of
          None \<Rightarrow> failA (Unauthorized ''invalid MFA code'')
        | Some c \<Rightarrow> bindA (nowA env) (\<lambda>t. MarkRecoveryCodeUsed env (rc_ID c) t))"
    proof (cases "find (\<lambda>c. rc_UsedAt c = 0 \<and> e_compare env (rc_Hash c) code) cs")
      case None
      then show ?thesis by (simp add: effects_fail)
    next
      case (Some c)
      then have c: "c \<in> set cs" "rc_UsedAt c = 0" "e_compare env (rc_Hash c) code" by (auto simp: find_Some_iff)
      have "effects (\<lambda>s _ s'. \<exists>t. t \<noteq> 0 \<and> s' = s\<lparr>db_codes := upd_where (\<lambda>d. rc_ID d = rc_ID c) (\<lambda>d. d\<lparr>rc_UsedAt := t\<rparr>) (db_codes s)\<rparr>)
          (bindA (nowA env) (MarkRecoveryCodeUsed env (rc_ID c)))"
      proof (rule effects_bind_reads [OF reads_nowA [OF clock]])
        fix t
        show "effects (\<lambda>s x s'. t \<noteq> 0 \<longrightarrow> (\<exists>t. t \<noteq> 0 \<and>
            s' = s\<lparr>db_codes := upd_where (\<lambda>d. rc_ID d = rc_ID c) (\<lambda>d. d\<lparr>rc_UsedAt := t\<rparr>) (db_codes s)\<rparr>)) (MarkRecoveryCodeUsed env (rc_ID c) t)"
        proof (cases "t = 0")
          case True
          have "effects (\<lambda>_ _ _. True) (MarkRecoveryCodeUsed env (rc_ID c) t)"
            unfolding MarkRecoveryCodeUsed_def
            by (rule effects_bind_reads_only [OF reads_only_nowRFC3339], rule effects_onErr, rule effects_then [where g = "\<lambda>_. ()"])
               (rule effects_exec [where R = "\<lambda>_ _ _. True"], auto)
          then show ?thesis using True by simp
        next
          case False
          show ?thesis by (rule effects_mono [OF mark_effects [OF False]]) (use False in blast)
        qed
      qed
      then show ?thesis unfolding Some option.case
        by (rule effects_mono) (use c in \<open>auto simp: spent_def unused_codes_def\<close>)
    qed
  qed
qed (simp add: consume_recovery_def effects_fail)

text \<open>Logins that offer a recovery code, one after another: how many are let in.\<close>

fun recovery_logins :: "'w env \<Rightarrow> user \<Rightarrow> string list \<Rightarrow> 'w db \<Rightarrow> nat" where
  "recovery_logins env u [] s = 0"
| "recovery_logins env u (code # codes) s = (case ConsumeMFA env (Some u) [] code s of
     (Inr _, s') \<Rightarrow> Suc (recovery_logins env u codes s')
   | (Inl _, s') \<Rightarrow> recovery_logins env u codes s')"

text \<open>A recovery code is spent by its use: however many logins are tried with whatever texts, no more of
  them get past the second factor without a TOTP code than the user has unused recovery codes.\<close>

lemma recovery_logins_bounded:
  assumes "u_TOTPEnabled u" and clock: "\<And>w. fst (e_now env w) \<noteq> 0"
  shows "recovery_logins env u codes s \<le> length (unused_codes (u_ID u) s)"
proof (induction codes arbitrary: s)
  case (Cons code codes)
  have m: "ConsumeMFA env (Some u) [] code = consume_recovery env u (normalizeRecovery code)"
    using assms(1) by (simp add: ConsumeMFA_def)
  obtain r s' where r: "ConsumeMFA env (Some u) [] code s = (r, s')" by fastforce
  have same: "unused_codes (u_ID u) t' = unused_codes (u_ID u) t" if "same_tables t t'" for t t' :: "'a db"
    using that by (auto elim!: same_tablesE simp: unused_codes_def)
  have eff: "case r of Inl e \<Rightarrow> same_tables s s' | Inr x \<Rightarrow> (\<exists>s1. same_tables s s1 \<and> (\<exists>c. e_compare env (rc_Hash c) (normalizeRecovery code) \<and> spent (u_ID u) c s1 s'))"
    using consume_effects [OF clock, where u = u] r unfolding m effects_def by blast
  show ?case
  proof (cases r)
    case (Inl e)
    then show ?thesis using r eff Cons.IH [of s'] same by simp
  next
    case (Inr x)
    then obtain s1 c where c: "same_tables s s1" "spent (u_ID u) c s1 s'" using eff by auto
    then have "c \<in> set (unused_codes (u_ID u) s)" using same by (auto simp: spent_def)
    then have "length (unused_codes (u_ID u) s') < length (unused_codes (u_ID u) s)"
      using spent_unused [OF c(2)] same [OF c(1)] by (auto intro: length_filter_less)
    then show ?thesis using r Inr Cons.IH [of s'] by simp
  qed
qed simp

lemma sample_env_clock: "fst (e_now sample_env w) \<noteq> 0"
  by (simp add: sample_env_def)

lemma recovery_logins_bounded_witness:
  "recovery_logins sample_env (sample_user ''u2'' ''ops'' ''operator''\<lparr>u_TOTPEnabled := True\<rparr>)
     [''12345-abcde'', ''12345-abcde'', ''12345-ABCDE''] sample_accounts \<le> 1"
  using recovery_logins_bounded [of "sample_user ''u2'' ''ops'' ''operator''\<lparr>u_TOTPEnabled := True\<rparr>" sample_env
      "[''12345-abcde'', ''12345-abcde'', ''12345-ABCDE'']" sample_accounts] sample_env_clock
  by (simp add: sample_user_def sample_accounts_def sample_code_def unused_codes_def)

section \<open>Administrators\<close>

lemma sample_accounts_ok: "accounts_ok sample_accounts"
  unfolding accounts_ok_def users_ok_def account_ok_def sample_accounts_def sample_user_def sample_code_def human_roles_def
  by (simp add: Username_def Let_def) code_simp

text \<open>There is always somebody who can administer: no sequence of account operations, successful or failed,
  whatever the driver does, removes, demotes or disables the last active administrator.\<close>

lemma last_administrator_stays:
  assumes "(account_step env)\<^sup>*\<^sup>* s s'" and "accounts_ok s" and "has_admin s"
  shows "has_admin s'"
  using account_run_inv [OF assms(1), of True] assms(2,3) by (simp add: admin_inv_def)

text \<open>C38: The account tables stay well formed under any sequence of operations: unique ids and normalised
  usernames, admitted roles and locales, a secret behind every confirmed second factor, recovery codes of
  existing users only.\<close>

theorem accounts_stay_ok:
  assumes "(account_step env)\<^sup>*\<^sup>* s s'" and "accounts_ok s"
  shows "accounts_ok s'"
  using account_run_inv [OF assms(1), of False] assms(2) by (simp add: admin_inv_def)

lemma reads_CountUsers: "reads (\<lambda>s n. n = length (db_users s)) (CountUsers env)"
  unfolding CountUsers_def by (rule reads_mono [OF reads_queryRow]) auto

definition created_as :: "string \<Rightarrow> string \<Rightarrow> 'w db \<Rightarrow> 'w db \<Rightarrow> bool" where
  "created_as name role s s' \<longleftrightarrow> (\<exists>v. created v s s' \<and> u_Username v = ToLower (TrimSpace name) \<and>
     u_Role v = ToLower (TrimSpace role) \<and> \<not> u_Disabled v)"

lemma ParseHumanRole_Inr: "ParseHumanRole s = Inr r \<Longrightarrow> r = ToLower (TrimSpace s)"
  by (auto simp: ParseHumanRole_def Let_def split: if_splits)

lemma normalizeUsername_Inr: "normalizeUsername s = Inr r \<Longrightarrow> r = ToLower (TrimSpace s)"
  by (auto simp: normalizeUsername_def Let_def split: option.splits)

lemma effects_liftE: "(\<And>x. r = Inr x \<Longrightarrow> effects R (f x)) \<Longrightarrow> effects R (bindA (liftE r) f)"
  by (cases r) (simp_all add: liftE_def effects_fail)

lemma Create_effects: "effects (\<lambda>s _. created_as (uc_Username req) (uc_Role req) s) (accounts_Create env req)"
  unfolding accounts_Create_def Let_def
  apply (rule effects_liftE)
  apply (rule effects_bind_reads_only [OF reads_only_liftE(2)])
  apply (rule effects_liftE)
  apply (rule effects_bind_reads_only, rule table_intros)+
  apply (rule effects_then [OF CreateUser_effects])
  apply (auto simp: created_as_def dest!: ParseHumanRole_Inr normalizeUsername_Inr)
  done

lemma Setup_effects:
  "effects (\<lambda>s _ s'. db_users s = [] \<and> created_as n ''administrator'' s s') (SetupFirstAdministrator env n d p l)"
  unfolding SetupFirstAdministrator_def
proof (rule effects_bind_reads [OF reads_CountUsers])
  fix k
  show "effects (\<lambda>s x s'. k = length (db_users s) \<longrightarrow> db_users s = [] \<and> created_as n ''administrator'' s s')
     (if 0 < k then failA (ErrConflict ''initial administrator already exists'')
      else accounts_Create env \<lparr>uc_Username = n, uc_DisplayName = d, uc_Password = p, uc_Role = ''administrator'', uc_Locale = l\<rparr>)"
    using Create_effects [of "\<lparr>uc_Username = n, uc_DisplayName = d, uc_Password = p, uc_Role = ''administrator'', uc_Locale = l\<rparr>" env]
    by (auto simp: effects_fail elim: effects_mono)
qed

text \<open>Whoever sets up the first administrator finds an empty user table and leaves an active administrator;
  from then on, after any sequence of operations, an active administrator is left and every further setup is
  refused, so the open setup page cannot be used to take the installation over.\<close>

lemma setup_happens_once:
  assumes "SetupFirstAdministrator env n d p l s = (Inr u, s1)" and "accounts_ok s" and "(account_step env)\<^sup>*\<^sup>* s1 s2"
  shows "db_users s = [] \<and> has_admin s2 \<and> (\<exists>e. fst (SetupFirstAdministrator env n' d' p' l' s2) = Inl e)"
proof -
  obtain s0 where s0: "same_tables s s0" "db_users s0 = []" and c: "created_as n ''administrator'' s0 s1"
    using effects_Inr [OF Setup_effects assms(1)] by blast
  have "ToLower (TrimSpace ''administrator'') = ''administrator''" by code_simp
  then have "has_admin s1" using c by (auto simp: created_as_def created_def has_admin_def active_admin_def)
  moreover have "account_step env s s1" using assms(1) by (rule Setup)
  then have "accounts_ok s1" using account_step_inv [of env s s1 False] assms(2) by (simp add: admin_inv_def)
  ultimately have "has_admin s2" using account_run_inv [OF assms(3), of True] by (simp add: admin_inv_def)
  moreover have "\<exists>e. r = Inl e" if again: "SetupFirstAdministrator env n' d' p' l' s2 = (r, s3)" for r s3
  proof (cases r)
    case (Inr v)
    then obtain t where "same_tables s2 t" "db_users t = []" using effects_Inr [OF Setup_effects] again by blast
    then have "db_users s2 = []" by (auto elim!: same_tablesE)
    with \<open>has_admin s2\<close> show ?thesis by (simp add: has_admin_def)
  qed simp
  moreover have "db_users s = []" using s0 by (auto elim!: same_tablesE)
  ultimately show ?thesis by (metis prod.collapse)
qed

lemma last_administrator_stays_witness:
  "has_admin (snd (accounts_Patch sample_env ''u1'' \<lparr>up_DisplayName = None, up_Password = None, up_Role = Some ''readonly'',
     up_Locale = None, up_Disabled = Some True\<rparr> sample_accounts))"
  by (rule last_administrator_stays [OF r_into_rtranclp sample_accounts_ok], rule account_step.Patch, rule prod.collapse [symmetric])
     (simp add: has_admin_def sample_accounts_def sample_user_def active_admin_def)

lemma accounts_stay_ok_witness: "accounts_ok (snd (DisableTOTP sample_env ''u2'' sample_accounts))"
  by (rule accounts_stay_ok [OF r_into_rtranclp sample_accounts_ok], rule account_step.Disable, rule prod.collapse [symmetric])

lemma sample_setup: "\<exists>u s. SetupFirstAdministrator sample_env ''Root'' [] ''correct-horse'' [] (empty_db 0) = (Inr u, s)"
proof -
  have "normalizeUsername ''Root'' = Inr ''root''" "password_check ''correct-horse'' = None"
    "ParseHumanRole ''administrator'' = Inr ''administrator''" by code_simp+
  then show ?thesis
    by (simp add: SetupFirstAdministrator_def CountUsers_def queryRow_def driver_def lift_world_def bindA_def onErr_def sample_env_def
        empty_db_def accounts_Create_def liftE_def checkE_def nowA_def ident_New_def Let_def CreateUser_def nowRFC3339_def
        lastLoginValue_def exec_def constraint_def human_roles_def)
qed

lemma setup_happens_once_witness:
  "\<exists>s1. has_admin s1 \<and> (\<exists>e. fst (SetupFirstAdministrator sample_env ''other'' [] ''battery-staple'' [] s1) = Inl e)"
proof -
  obtain u s1 where "SetupFirstAdministrator sample_env ''Root'' [] ''correct-horse'' [] (empty_db 0) = (Inr u, s1)"
    using sample_setup by blast
  moreover have "accounts_ok (empty_db 0)" by (simp add: accounts_ok_def users_ok_def empty_db_def)
  ultimately show ?thesis using setup_happens_once [OF _ _ rtranclp.rtrancl_refl] by blast
qed

section \<open>Password logins\<close>

text \<open>What a password login answers when the database works: the user of the normalised name if it is not
  disabled and the password matches its hash. An unknown name and a wrong password get the same answer; a
  disabled account is told apart before the password is looked at.\<close>

lemma password_login_answer:
  assumes "\<And>op w. fst (e_driver env op w) = None"
  shows "fst (AuthenticatePassword env name pw s) =
    (case find (\<lambda>r. u_Username r = ToLower (TrimSpace name)) (db_users s) of
       None \<Rightarrow> Inl (Unauthorized ''invalid credentials'')
     | Some r \<Rightarrow> if u_Disabled r then Inl (Forbidden ''account is disabled'')
                 else if e_compare env (u_PasswordHash r) pw then Inr (scanUserInto r)
                 else Inl (Unauthorized ''invalid credentials''))"
proof -
  obtain w where d: "driver env ''GetUserByUsername'' s = (Inr (), s\<lparr>db_world := w\<rparr>)"
    using assms [of "''GetUserByUsername''" "db_world s"]
    by (cases "e_driver env ''GetUserByUsername'' (db_world s)") (auto simp: driver_def lift_world_def)
  have e: "IsNotFound (wrap_err op ErrNoRows)" for op by (simp add: IsNotFound_def wrap_err_def ErrNoRows_def ErrNotFound_def)
  have s: "u_Disabled (scanUserInto r) = u_Disabled r" "u_PasswordHash (scanUserInto r) = u_PasswordHash r" for r
    by (simp_all add: scanUserInto_def)
  show ?thesis
    by (cases "find (\<lambda>r. u_Username r = ToLower (TrimSpace name)) (db_users s)")
       (simp_all add: AuthenticatePassword_def GetByUsername_def GetUserByUsername_def queryRow_def bindA_def onErr_def d e s)
qed

lemma password_login_answer_witness:
  "fst (AuthenticatePassword sample_env '' Root '' ''secret-pass'' sample_accounts) =
     Inr (scanUserInto (sample_user ''u1'' ''root'' ''administrator''))"
proof -
  have "ToLower (TrimSpace '' Root '') = ''root''" by code_simp
  then show ?thesis
    by (subst password_login_answer) (simp_all add: sample_env_def sample_accounts_def sample_user_def)
qed

section \<open>Two patches at a time\<close>

text \<open>
  The guard of \<open>Patch\<close> and its write are separate statements. Two requests that pass the guard before either
  writes remove both of the last two administrators.
\<close>

definition disable_patch :: user_patch where
  "disable_patch = \<lparr>up_DisplayName = None, up_Password = None, up_Role = None, up_Locale = None, up_Disabled = Some True\<rparr>"

definition two_admin_db :: "nat db" where
  "two_admin_db = empty_db 0\<lparr>db_users := [sample_user ''u1'' ''root'' ''administrator'', sample_user ''u2'' ''ops'' ''administrator'']\<rparr>"

lemma interleaved_patches_lose_administrators:
  "has_admin two_admin_db \<and>
   (\<exists>v1 v2 s1 s2 s3 s4. patch_fields sample_env disable_patch (sample_user ''u1'' ''root'' ''administrator'') two_admin_db = (Inr v1, s1) \<and>
      patch_fields sample_env disable_patch (sample_user ''u2'' ''ops'' ''administrator'') s1 = (Inr v2, s2) \<and>
      UpdateUser sample_env v1 s2 = (Inr (), s3) \<and> UpdateUser sample_env v2 s3 = (Inr (), s4) \<and> \<not> has_admin s4)"
  by (simp add: has_admin_def two_admin_db_def patch_fields_def patch_password_def patch_role_def patch_disabled_def disable_patch_def
      last_admin_guard_def CountAdministrators_def queryRow_def driver_def lift_world_def bindA_def onErr_def sample_env_def
      active_admin_def sample_user_def UpdateUser_def nowRFC3339_def lastLoginValue_def exec_def constraint_def human_roles_def
      upd_where_def some_row_def empty_db_def)

end
