(* ===== verification/UserAccess.thy ===== *)
theory UserAccess
  imports InventoryLaws AccountLaws
begin

text \<open>
  Who may touch human accounts through the API. \<open>accounts_of\<close> is the view of users and recovery codes. The
  inventory side cannot move it (locale \<open>store_view\<close>); the account side moves it as the laws of AccountLaws
  allow, and a caller who is no administrator only within his own account (\<open>others\<close>).
\<close>

section \<open>Views the inventory side cannot move\<close>

locale store_view = view +
  assumes nodes: "v (s\<lparr>db_nodes := a\<rparr>) = v s" and backends: "v (s\<lparr>db_backends := b\<rparr>) = v s" and tunnels: "v (s\<lparr>db_tunnels := c\<rparr>) = v s"
    and mappings: "v (s\<lparr>db_mappings := d\<rparr>) = v s" and routes: "v (s\<lparr>db_sni := f\<rparr>) = v s"
    and intents: "v (s\<lparr>db_intents := g\<rparr>) = v s" and status: "v (s\<lparr>db_status := h\<rparr>) = v s"
begin

lemmas store_sets = nodes backends tunnels mappings routes intents status

lemma leaves_store:
  "leaves v (CreateNode env n)" "leaves v (CreateBackend env b)" "leaves v (UpdateBackend env b)" "leaves v (CreateTunnel env t)"
  "leaves v (CreateMapping env m)" "leaves v (UpdateMapping env m)" "leaves v (DeleteMapping env i)" "leaves v (CreateSniRoute env x)"
  "leaves v (UpdateSniRoute env x)" "leaves v (CreateFailbackIntent env fi)" "leaves v (PutActualState env i st status)"
  unfolding CreateNode_def CreateBackend_def UpdateBackend_def CreateTunnel_def CreateMapping_def UpdateMapping_def DeleteMapping_def
    CreateSniRoute_def UpdateSniRoute_def CreateFailbackIntent_def PutActualState_def Let_def
  by (intro api_intros leaves_insertA leaves_updateA, simp add: store_sets)+

lemma leaves_refs:
  "leaves v (default_node env r i)" "leaves v (resolveMappingRefs env r m)" "leaves v (patch_backend_ref env q m)"
  "leaves v (resolveSniBackends env x)" "leaves v (intent_backend env k n)"
  by (auto simp: default_node_def resolveMappingRefs_def patch_backend_ref_def resolveSniBackends_def resolve_match_def intent_backend_def
      Let_def intro!: api_intros leaves_getters leaves_mapped split: option.split)

lemma answers_inventory_side:
  assumes "e \<in> set inventory_side"
  shows "answers v (=) (handler_of env a e r p)"
proof -
  have fresh: "answers v (=) (fresh env k)" if "\<And>i t. answers v (=) (k i t)" for k
    unfolding fresh_def by (intro api_intros that)
  have ret: "answers v (=) (returnA (202, x))" for x by (rule answers_return) simp_all
  show ?thesis using assms
    by (auto simp: inventory_side_def handler_defs Let_def intro!: fresh ret answers_done_only answers_validated answers_ensure
        leaves_store leaves_refs leaves_getters leaves_mapped leaves_optional_body leaves_audit_failure leaves_update_failure api_intros
        split: prod.split)
qed

end

definition accounts_of :: "'w db \<Rightarrow> user list \<times> recovery_code list" where
  "accounts_of s = (db_users s, db_codes s)"

interpretation acc: store_view accounts_of
  by unfold_locales (simp_all add: accounts_of_def)

interpretation acc_foreign: foreign_free accounts_of
  by unfold_locales (simp add: accounts_of_def)

section \<open>Within one account\<close>

text \<open>What must not change when a user works on the account \<open>uid\<close>: the other rows, everybody's recovery codes but
  his own, and ids, names, roles and the disabled flag of all.\<close>

definition others :: "ident \<Rightarrow> 'w db \<Rightarrow> user list \<times> recovery_code list \<times> (ident \<times> string \<times> string \<times> bool) list" where
  "others uid s = (filter (\<lambda>u. u_ID u \<noteq> uid) (db_users s), filter (\<lambda>c. rc_UserID c \<noteq> uid) (db_codes s),
     map (\<lambda>u. (u_ID u, u_Username u, u_Role u, u_Disabled u)) (db_users s))"

definition own_inv :: "ident \<Rightarrow> user list \<times> recovery_code list \<times> (ident \<times> string \<times> string \<times> bool) list \<Rightarrow> 'w db \<Rightarrow> bool" where
  "own_inv uid c s \<longleftrightarrow> others uid s = c \<and> distinct (map u_ID (db_users s))"

definition may_own :: "ident \<Rightarrow> user \<Rightarrow> 'w db \<Rightarrow> bool" where
  "may_own uid v s \<longleftrightarrow> (\<exists>r \<in> set (db_users s). u_ID r = uid \<and> u_ID v = uid \<and> u_Username v = u_Username r \<and> u_Role v = u_Role r \<and> u_Disabled v = u_Disabled r)"

lemma of_tables_own: "of_tables (own_inv uid c)" "of_tables (may_own uid v)"
  by (simp_all add: of_tables_def own_inv_def others_def may_own_def)

lemma new_row_sels [simp]: "u_Role (new_row u c t g) = u_Role u" "u_Disabled (new_row u c t g) = u_Disabled u"
  by (simp_all add: new_row_def)

lemma scan_sels [simp]: "u_Role (scanUserInto u) = u_Role u" "u_Disabled (scanUserInto u) = u_Disabled u"
  by (simp_all add: scanUserInto_def)

lemma filter_upd_where: "(\<And>r. P r \<Longrightarrow> \<not> Q r) \<Longrightarrow> (\<And>r. P r \<Longrightarrow> \<not> Q (f r)) \<Longrightarrow> filter Q (upd_where P f rows) = filter Q rows"
  by (induction rows) (auto simp: upd_where_def)

lemma updated_own:
  assumes "updated v s s'" and "may_own uid v s" and "own_inv uid c s"
  shows "own_inv uid c s'"
proof -
  obtain r where r: "r \<in> set (db_users s)" "u_ID r = uid" "u_ID v = uid" "u_Username v = u_Username r" "u_Role v = u_Role r" "u_Disabled v = u_Disabled r"
    using assms(2) by (auto simp: may_own_def)
  obtain t g where s': "s' = s\<lparr>db_users := upd_where (\<lambda>x. u_ID x = uid) (\<lambda>x. new_row v (u_CreatedAt x) t g) (db_users s)\<rparr>"
    using assms(1) r(3) by (auto simp: updated_def)
  have db_sel: "db_users (s\<lparr>db_users := us\<rparr>) = us" for us by simp
  have d: "distinct (map u_ID (db_users s))" using assms(3) by (simp add: own_inv_def)
  have only: "x = r" if "x \<in> set (db_users s)" "u_ID x = uid" for x
    using d r(1,2) that by (metis distinct_map inj_onD)
  then have "map (\<lambda>u. (u_ID u, u_Username u, u_Role u, u_Disabled u)) (db_users s') = map (\<lambda>u. (u_ID u, u_Username u, u_Role u, u_Disabled u)) (db_users s)"
    unfolding s' db_sel by (intro map_upd_where_key) (use only r(2-6) in fastforce)
  moreover have "filter (\<lambda>u. u_ID u \<noteq> uid) (db_users s') = filter (\<lambda>u. u_ID u \<noteq> uid) (db_users s)"
    using r(3) unfolding s' by (simp add: filter_upd_where)
  moreover have "map u_ID (db_users s') = map u_ID (db_users s)" using r(3) unfolding s' by (simp add: map_upd_where)
  moreover have "db_codes s' = db_codes s" by (simp add: s')
  ultimately show ?thesis using assms(3) unfolding own_inv_def others_def by metis
qed

lemma own_UpdateUser: "keeps_from (may_own uid v) (own_inv uid c) (UpdateUser env v)"
  by (rule keeps_effects [OF of_tables_own UpdateUser_effects updated_own])

lemmas own_reads = keeps_from_bind_reads [OF of_tables_own(1)]
lemmas own_reads_only = keeps_reads_only [OF of_tables_own(1)]

lemma own_rmw:
  fixes env :: "'w env"
  assumes "\<And>(s :: 'w db) t. row_of uid u s \<Longrightarrow> may_own uid (f t) s" and "\<And>x. keeps (own_inv uid c) (k x)"
  shows "keeps_from (row_of uid u) (own_inv uid c) (bindA (nowA env) (\<lambda>t. bindA (UpdateUser env (f t)) k))"
  by (rule own_reads [OF of_tables_row_of(1) reads_only_nowA]) (use assms in
    \<open>auto intro!: keeps_from_then keeps_from_mono [OF own_UpdateUser]\<close>)

lemma own_GetUser:
  "(\<And>u. keeps_from (row_of uid u) (own_inv uid c) (f u)) \<Longrightarrow> keeps (own_inv uid c) (bindA (GetUser env uid) f)"
  by (rule own_reads [OF of_tables_True reads_row]) (auto intro: keeps_from_mono)

lemma may_own_row: "row_of uid u s \<Longrightarrow> u_ID v = u_ID u \<Longrightarrow> u_Username v = u_Username u \<Longrightarrow> u_Role v = u_Role u \<Longrightarrow>
    u_Disabled v = u_Disabled u \<Longrightarrow> may_own uid v s"
  by (auto simp: may_own_def row_of_def)

lemma own_codes: "keeps (own_inv uid c) (ReplaceRecoveryCodes env uid hs)"
proof -
  have e: "keeps (own_inv uid c) (exec env op violated (\<lambda>s. (n s, s\<lparr>db_codes := g s\<rparr>)))"
    if "\<And>s. filter (\<lambda>c. rc_UserID c \<noteq> uid) (g s) = filter (\<lambda>c. rc_UserID c \<noteq> uid) (db_codes s)" for op violated n and g :: "'a db \<Rightarrow> _"
  proof (rule keeps_effects [OF of_tables_own(1) of_tables_True])
    show "effects (\<lambda>s x s'. s' = s\<lparr>db_codes := g s\<rparr>) (exec env op violated (\<lambda>s. (n s, s\<lparr>db_codes := g s\<rparr>)))"
      by (rule effects_exec) simp
  qed (auto simp: own_inv_def others_def that)
  have ins: "keeps (own_inv uid c) (insert_code env uid h)" for h
    unfolding insert_code_def by (intro keeps_bind e keeps_return own_reads_only reads_only_ident_New) simp
  show ?thesis unfolding ReplaceRecoveryCodes_def
    by (intro keeps_onErr keeps_transaction of_tables_own keeps_bind keeps_forA ins e) simp
qed

lemma own_Rotate: "keeps (own_inv uid c) (RotateRecoveryCodes env uid)"
proof -
  have "keeps (own_inv uid c) (case x of (codes, hashes) \<Rightarrow> bindA (ReplaceRecoveryCodes env uid hashes) (\<lambda>_. returnA codes))" for x
    by (cases x) (auto intro: own_codes keeps_bind keeps_return)
  then show ?thesis unfolding RotateRecoveryCodes_def
    by (intro keeps_bind own_reads_only [OF reads_only_GetUser] own_reads_only [OF reads_only_generate])
qed

lemma own_Begin: "keeps (own_inv uid c) (BeginTOTP env uid)"
  unfolding BeginTOTP_def
proof (rule own_GetUser)
  fix u :: user
  show "keeps_from (row_of uid u) (own_inv uid c) (bindA (lift_world (randomTOTPSecret (e_rand env))) (\<lambda>secret.
     bindA (nowA env) (\<lambda>t. bindA (UpdateUser env (u\<lparr>u_TOTPPending := secret, u_UpdatedAt := t\<rparr>)) (\<lambda>_.
       returnA (otpAuthURL totpIssuer (u_Username u) secret, secret)))))"
    by (rule own_reads [OF of_tables_row_of(1) reads_only_lift], rule keeps_from_mono, rule own_rmw [where uid = uid and u = u])
       (auto intro!: keeps_return may_own_row)
qed

lemma own_Disable: "keeps (own_inv uid c) (DisableTOTP env uid)"
proof -
  have "keeps_from (row_of uid u) (own_inv uid c)
      (bindA (nowA env) (\<lambda>t. bindA (UpdateUser env (u\<lparr>u_TOTPSecret := [], u_TOTPPending := [], u_TOTPEnabled := False, u_UpdatedAt := t\<rparr>)) returnA))" for u
    by (intro own_rmw keeps_return) (auto intro: may_own_row)
  then have "keeps (own_inv uid c) (update_with env uid (\<lambda>u. u\<lparr>u_TOTPSecret := [], u_TOTPPending := [], u_TOTPEnabled := False\<rparr>))"
    unfolding update_with_def bindA_returnA by (intro own_GetUser) simp
  then show ?thesis unfolding DisableTOTP_def by (intro keeps_bind own_codes)
qed

lemma own_Confirm: "keeps (own_inv uid c) (ConfirmTOTP env uid code)"
  unfolding ConfirmTOTP_def
proof (rule own_GetUser)
  fix u :: user
  have "keeps_from (row_of uid u) (own_inv uid c) (bindA (nowA env) (\<lambda>t.
         bindA (UpdateUser env (u\<lparr>u_TOTPSecret := u_TOTPPending u, u_TOTPPending := [], u_TOTPEnabled := True, u_UpdatedAt := t\<rparr>))
           (\<lambda>_. RotateRecoveryCodes env uid)))"
    by (intro own_rmw own_Rotate) (auto intro!: may_own_row)
  then show "keeps_from (row_of uid u) (own_inv uid c) (if TrimSpace (u_TOTPPending u) = []
     then failA (Validation ''TOTP enrollment has not been started'')
     else bindA (check_code env (u_TOTPPending u) code) (\<lambda>ok.
       if \<not> ok then failA (Unauthorized ''invalid TOTP code'')
       else bindA (nowA env) (\<lambda>t.
         bindA (UpdateUser env (u\<lparr>u_TOTPSecret := u_TOTPPending u, u_TOTPPending := [], u_TOTPEnabled := True, u_UpdatedAt := t\<rparr>))
           (\<lambda>_. RotateRecoveryCodes env uid))))"
    by (auto intro!: own_reads [OF of_tables_row_of(1) reads_only_check_code] keeps_from_weaken [OF keeps_return(2)]
      elim: keeps_from_mono)
qed

lemma reads_own_fields:
  assumes "up_Role q = None" and "up_Disabled q = None"
  shows "reads (\<lambda>s v. u_ID v = u_ID u \<and> u_Username v = u_Username u \<and> u_Role v = u_Role u \<and> u_Disabled v = u_Disabled u) (patch_fields env q u)"
  unfolding patch_fields_def
  by (rule reads_bind [OF reads_patch_password])
    (auto simp: patch_role_def patch_disabled_def assms reads_def split: option.splits)

lemma own_Patch:
  assumes "up_Role q = None" and "up_Disabled q = None"
  shows "keeps (own_inv uid c) (accounts_Patch env uid q)"
  unfolding accounts_Patch_def
proof (rule own_GetUser, rule own_reads [OF of_tables_row_of(1) reads_own_fields [OF assms]])
  fix u v
  have "keeps_from (\<lambda>s. row_of uid u s \<and> u_ID v = u_ID u \<and> u_Username v = u_Username u \<and> u_Role v = u_Role u \<and> u_Disabled v = u_Disabled u)
      (own_inv uid c) (UpdateUser env (v\<lparr>u_UpdatedAt := t\<rparr>))" for t
    by (rule keeps_from_mono [OF own_UpdateUser]) (auto intro: may_own_row)
  then show "keeps_from (\<lambda>s. row_of uid u s \<and> u_ID v = u_ID u \<and> u_Username v = u_Username u \<and> u_Role v = u_Role u \<and> u_Disabled v = u_Disabled u)
      (own_inv uid c) (bindA (nowA env) (\<lambda>t. bindA (UpdateUser env (v\<lparr>u_UpdatedAt := t\<rparr>)) (\<lambda>_.
        returnA (v\<lparr>u_UpdatedAt := t, u_PasswordHash := [], u_TOTPSecret := [], u_TOTPPending := []\<rparr>))))"
    by (intro own_reads [OF _ reads_only_nowA]) (auto simp: of_tables_def row_of_def intro!: keeps_from_then keeps_return elim: keeps_from_mono)
qed

section \<open>Handlers\<close>

lemma own_view: "view (own_inv uid c)"
  by unfold_locales (simp_all add: own_inv_def others_def)

lemma keeps_audit: "view I \<Longrightarrow> keeps I (audit env p action resource rid detail ok)"
  using view.audit_answer unfolding keeps_from_def by (metis snd_conv)

lemma keeps_audit_failure:
  fixes m :: "('w, 'b) dbact"
  assumes "view I" and "keeps I m"
  shows "keeps I (audit_failure env p action resource rid m)"
  unfolding keeps_from_def
proof (intro allI impI)
  fix s
  assume "I s"
  obtain r s1 where m: "m s = (r, s1)" by fastforce
  have I: "I s1" using assms(2) m \<open>I s\<close> by (rule keepsD)
  show "I (snd (audit_failure env p action resource rid m s))"
  proof (cases r)
    case (Inl e)
    have "keeps I (bindA (audit env p action resource rid (err_text e) False) (\<lambda>_. failA e) :: ('w, 'b) dbact)"
      by (intro keeps_bind keeps_audit [OF assms(1)] keeps_return(2))
    then show ?thesis using I by (simp add: audit_failure_def m Inl keeps_from_def)
  qed (simp add: audit_failure_def m I)
qed

lemma keeps_done: "view I \<Longrightarrow> keeps I (done_audit env p action resource rid detail st x)"
  unfolding done_audit_def by (intro keeps_bind keeps_audit keeps_return)

definition self_service :: "endpoint list" where
  "self_service = [PatchUserE, BeginTotpE, ConfirmTotpE, DisableTotpE, RotateRecoveryE]"

lemma own_handlers:
  assumes "e \<in> set self_service" and "\<not> CanManageUsers (pr_Role p)"
  shows "keeps (own_inv (hr_ID r) c) (handler_of env a e r (Some p))"
proof -
  let ?I = "own_inv (hr_ID r) c"
  have load: "keeps ?I (loadUserForCaller env (hr_ID r) q)" for q
    unfolding loadUserForCaller_def mapNotFound_def
    by (auto intro!: keeps_return keeps_bind keeps_onErr own_reads_only [OF reads_only_GetUser] split: option.split)
  have decode: "keeps ?I (decodeJSON dec r)" for dec :: "string \<Rightarrow> string + 'c"
    by (auto simp: decodeJSON_def intro!: keeps_return split: sum.split)
  have patch: "keeps ?I (accounts_Patch env (hr_ID r) (own_patch (Some p) q))" for q
    by (rule own_Patch) (simp_all add: own_patch_def assms(2))
  show ?thesis using assms(1)
    by (auto simp: self_service_def patchUser_def beginTOTP_def confirmTOTP_def disableTOTP_def rotateRecovery_def
        intro!: keeps_bind load decode patch own_Begin own_Confirm own_Disable own_Rotate keeps_done keeps_audit_failure own_view
        split: prod.split)
qed

text \<open>A caller who is no administrator gets past the guard of the user routes only for himself.\<close>

lemma load_own:
  assumes "loadUserForCaller env uid (Some p) s = (Inr u, s')" and "\<not> CanManageUsers (pr_Role p)"
  shows "pr_Role p \<noteq> ''agent'' \<and> pr_UserID p = uid \<and> uid \<noteq> []"
proof -
  have r: "reads (\<lambda>s u. u_ID u = uid) (mapNotFound ''user'' uid (GetUser env uid))"
    unfolding mapNotFound_def by (rule reads_onErr, rule reads_mono [OF reads_GetUser]) auto
  from assms obtain s1 where "mapNotFound ''user'' uid (GetUser env uid) s = (Inr u, s1)"
    and "pr_Role p \<noteq> ''agent''" and "pr_UserID p \<noteq> []" and "pr_UserID p = u_ID u"
    by (auto simp: loadUserForCaller_def bindA_def split: prod.splits sum.splits if_splits)
  then show ?thesis using reads_val [OF r] by auto
qed

lemma accounts_of_token_routes:
  "leaves accounts_of (createToken env a r p)" "leaves accounts_of (revokeToken env r p)"
proof -
  have s: "leaves accounts_of (CreateToken env t)" "leaves accounts_of (RevokeToken env i)" for t i
    unfolding CreateToken_def RevokeToken_def
    by (intro api_intros acc.leaves_world acc.leaves_insertA acc.leaves_updateA, simp add: accounts_of_def)+
  have n: "leaves accounts_of (newID env b)" for b unfolding newID_def by (intro leaves_recover api_intros acc.leaves_world)
  have c: "leaves accounts_of (auth_CreateToken env b name role)" for b name role
    unfolding auth_CreateToken_def randomToken_def Let_def by (intro api_intros acc.leaves_world s n)
  have d: "leaves accounts_of (done_audit env q action resource rid detail st x)" for q action resource rid detail st x
    unfolding done_audit_def by (intro api_intros acc.leaves_audit)
  show "leaves accounts_of (createToken env a r p)" "leaves accounts_of (revokeToken env r p)"
    by (auto simp: createToken_def revokeToken_def intro!: api_intros acc.leaves_mapped acc.leaves_audit_failure c s d split: prod.split)
qed

lemma other_handlers_leave_accounts:
  assumes "e \<notin> set self_service" and "e = CreateUserE \<longrightarrow> \<not> CanManageUsers (pr_Role p)"
    and "handler_of env a e r (Some p) s = (res, s')"
  shows "accounts_of s' = accounts_of s"
proof -
  consider "e = CreateUserE" | "e = CreateTokenE" | "e = RevokeTokenE" | "e \<in> set reading \<or> e \<in> set inventory_side \<or> e \<in> set foreign_side"
    using endpoint_sides [of e] assms(1) by (auto simp: account_side_def self_service_def)
  then show ?thesis
  proof cases
    case 4
    then have "answers accounts_of (=) (handler_of env a e r (Some p))"
      using acc.answers_reading [of e "(=)"] acc.answers_inventory_side acc_foreign.answers_foreign_side by (auto simp: foreign_side_def)
    then show ?thesis using assms(3) unfolding answers_def by (cases res) fastforce+
  next
    case 1
    then show ?thesis using assms by (simp add: createUser_def ensure_def role_in_def)
  qed (use assms(3) accounts_of_token_routes in \<open>fastforce simp: yields_def\<close>)+
qed

section \<open>Properties\<close>

lemma load_first:
  assumes "e \<in> set self_service" and "handler_of env a e r (Some p) s = (res, s')"
  shows "accounts_of s' = accounts_of s \<or> (\<exists>u s1. loadUserForCaller env (hr_ID r) (Some p) s = (Inr u, s1))"
proof (cases "loadUserForCaller env (hr_ID r) (Some p) s")
  case (Pair q s1)
  have v: "accounts_of s1 = accounts_of s"
    using acc.leaves_loadUserForCaller [of env "hr_ID r" "Some p"] Pair by (simp add: yields_def)
  show ?thesis
  proof (cases q)
    case (Inl err)
    have "s' = s1" using assms Pair Inl
      by (auto simp: self_service_def patchUser_def beginTOTP_def confirmTOTP_def disableTOTP_def rotateRecovery_def bindA_def)
    then show ?thesis using v by simp
  qed (use Pair in blast)
qed

text \<open>C3: Who may touch human accounts through the API. If a request changes a user or a recovery code, its caller
  is an administrator, or it is the user himself, by his own id, and then the other rows, the recovery codes
  of others and everybody's id, name, role and disabled flag stay as they were. Tokens of agents, operators
  and readers change no account.\<close>

theorem accounts_changed_by_owner_or_administrator:
  assumes "serve env a e r sv = (rep, sv')" and "distinct (map u_ID (db_users (sv_db sv)))"
    and "accounts_of (sv_db sv') \<noteq> accounts_of (sv_db sv)"
  shows "\<exists>p. caller env a r (sv_db sv) p \<and> (CanManageUsers (pr_Role p) \<or>
    pr_Role p \<noteq> ''agent'' \<and> pr_UserID p = hr_ID r \<and> hr_ID r \<noteq> [] \<and> others (hr_ID r) (sv_db sv') = others (hr_ID r) (sv_db sv))"
  using assms(1)
proof (cases rule: serve_cases)
  case (1 err)
  then show ?thesis using acc.same assms(3) by blast
next
  case (2 p s1 res)
  have id: "hr_ID (limited r) = hr_ID r" by (simp add: limited_def)
  have s1: "accounts_of s1 = accounts_of (sv_db sv)" "others uid s1 = others uid (sv_db sv)" for uid
    using acc.same [OF 2(4)] by (simp_all add: accounts_of_def others_def)
  show ?thesis
  proof (cases "CanManageUsers (pr_Role p)")
    case False
    have e: "e \<in> set self_service" using other_handlers_leave_accounts [of e p, OF _ _ 2(5)] False s1 assms(3) by auto
    obtain u s2 where "loadUserForCaller env (hr_ID r) (Some p) s1 = (Inr u, s2)"
      using load_first [OF e 2(5)] s1 assms(3) id by auto
    note own = load_own [OF this False]
    have "own_inv (hr_ID r) (others (hr_ID r) (sv_db sv)) s1"
      using assms(2) s1 by (simp add: own_inv_def accounts_of_def)
    then have "own_inv (hr_ID r) (others (hr_ID r) (sv_db sv)) (sv_db sv')"
      using keepsD [OF own_handlers [OF e False] 2(5)] id by simp
    then show ?thesis using own 2(1) by (auto simp: own_inv_def)
  qed (use 2(1) in blast)
qed

section \<open>The last administrator\<close>

lemma admin_view: "view (admin_inv b)"
  by unfold_locales (simp_all add: admin_inv_def accounts_ok_def has_admin_def)

lemma admin_handlers:
  assumes "e \<in> set self_service \<or> e = CreateUserE"
  shows "keeps (admin_inv b) (handler_of env a e r p)"
proof -
  have load: "keeps (admin_inv b) (loadUserForCaller env uid q)" for uid q
    unfolding loadUserForCaller_def mapNotFound_def
    by (auto intro!: keeps_return keeps_bind keeps_onErr inv_reads_only [OF reads_only_GetUser] split: option.split)
  have decode: "keeps (admin_inv b) (decodeJSON dec r)" for dec :: "string \<Rightarrow> string + 'c"
    by (auto simp: decodeJSON_def intro!: keeps_return split: sum.split)
  show ?thesis using assms
    by (auto simp: self_service_def createUser_def patchUser_def beginTOTP_def confirmTOTP_def disableTOTP_def rotateRecovery_def ensure_def
        intro!: keeps_bind load decode account_keeps keeps_done keeps_audit_failure admin_view keeps_return split: prod.split)
qed

lemma serve_admin_inv: "admin_inv b (sv_db sv) \<Longrightarrow> admin_inv b (sv_db (snd (serve env a e r sv)))"
proof -
  assume ok: "admin_inv b (sv_db sv)"
  have same: "accounts_of x = accounts_of y \<Longrightarrow> admin_inv b x = admin_inv b y" for x y :: "'a db"
    by (simp add: admin_inv_def accounts_ok_def has_admin_def accounts_of_def)
  obtain rep sv' where s: "serve env a e r sv = (rep, sv')" by fastforce
  from s have "admin_inv b (sv_db sv')"
  proof (cases rule: serve_cases)
    case (1 err)
    then show ?thesis using ok view.same [OF admin_view] by blast
  next
    case (2 p s1 res)
    have s1: "admin_inv b s1" using ok view.same [OF admin_view 2(4)] by simp
    show ?thesis
    proof (cases "e \<in> set self_service \<or> e = CreateUserE")
      case True
      then show ?thesis using keepsD [OF admin_handlers 2(5) s1] by blast
    next
      case False
      then show ?thesis using same [OF other_handlers_leave_accounts [OF _ _ 2(5)]] s1 by blast
    qed
  qed
  then show ?thesis using s by simp
qed

text \<open>C4: Over any history of API requests, of whatever callers, the account tables stay well formed, and an
  active administrator remains.\<close>

theorem api_keeps_an_administrator:
  assumes "accounts_ok (sv_db sv)" and "has_admin (sv_db sv)"
  shows "accounts_ok (sv_db (serve_all env a reqs sv)) \<and> has_admin (sv_db (serve_all env a reqs sv))"
proof -
  have "admin_inv True (sv_db sv) \<Longrightarrow> admin_inv True (sv_db (serve_all env a reqs sv))" for sv
  proof (induction reqs arbitrary: sv)
    case (Cons q reqs)
    obtain e r where q: "q = (e, r)" by fastforce
    have "admin_inv True (sv_db (serve_all env a reqs (snd (serve env a e r sv))))"
      by (rule Cons.IH) (rule serve_admin_inv [OF Cons.prems])
    then show ?case by (simp add: serve_all_def q)
  qed (simp add: serve_all_def)
  then show ?thesis using assms by (simp add: admin_inv_def)
qed

section \<open>Witnesses\<close>

lemma disable_of_u2:
  assumes "db_users s = db_users sample_accounts" and "db_codes s = db_codes sample_accounts" and "hr_ID r = ''u2''"
  shows "\<exists>s'. disableTOTP sample_env r (Some \<lparr>pr_Name = ''ops'', pr_Role = ''operator'', pr_UserID = ''u2''\<rparr>) s = (Inr (200, ROk), s') \<and>
    db_codes s' = []"
proof -
  let ?p = "Some \<lparr>pr_Name = ''ops'', pr_Role = ''operator'', pr_UserID = ''u2''\<rparr>"
  have load: "\<exists>u. loadUserForCaller sample_env ''u2'' ?p s = (Inr u, s)"
    using assms by (simp add: loadUserForCaller_def mapNotFound_def GetUser_def sample_accounts_def sample_user_def scanUserInto_def CanManageUsers_def
      returnA_def bindA_def onErr_def)
  have disable: "\<exists>s1. DisableTOTP sample_env ''u2'' s = (Inr (), s1) \<and> db_codes s1 = []"
    using assms by (simp add: DisableTOTP_def update_with_def GetUser_def UpdateUser_def ReplaceRecoveryCodes_def transaction_def sample_accounts_def
      sample_user_def sample_code_def scanUserInto_def returnA_def bindA_def onErr_def nowRFC3339_def lastLoginValue_def sample_nowA
      some_row_def constraint_def human_roles_def upd_where_def)
  obtain s1 where s1: "DisableTOTP sample_env ''u2'' s = (Inr (), s1)" "db_codes s1 = []" using disable by blast
  obtain s2 where "audit sample_env ?p ''totp-disable'' ''user'' ''u2'' [] True s1 = (Inr (), s2)" "accounts_of s2 = accounts_of s1"
    using acc.audit_answer by blast
  then show ?thesis using load s1 assms(3) by (auto simp: disableTOTP_def done_audit_def bindA_def accounts_of_def returnA_def)
qed

text \<open>The operator ops switches off the second factor of the own account; the request is signed for the session.\<close>

lemma ops_disables_totp:
  "\<exists>r sv'. serve sample_env sample_api DisableTotpE r (api_New 10 20 sample_accounts) = ((200, ROk), sv') \<and> db_codes (sv_db sv') = []"
proof -
  let ?p = "\<lparr>pr_Name = ''ops'', pr_Role = ''operator'', pr_UserID = ''u2''\<rparr>"
  obtain r1 where sg: "SignUI sample_env sample_auth sample_request ''ops'' ''operator'' ''u2'' sample_accounts = (Inr r1, sample_accounts\<lparr>db_world := 1\<rparr>)"
    by (simp add: SignUI_def bindA_def nowA_clock Let_def returnA_def sample_accounts_def empty_db_def sample_env_def)
  have body: "rq_Body r1 = []"
    using sg by (auto simp: SignUI_def bindA_def nowA_clock Let_def returnA_def sample_request_def)
  define r where "r = \<lparr>hr_Req = r1, hr_ID = ''u2'', hr_ContentLength = 0, hr_ReadErr = False\<rparr>"
  have "TrimSpace ''ops'' = ''ops''" "TrimSpace ''u2'' = ''u2''" "ParseHumanRole ''operator'' = Inr ''operator''" by code_simp+
  then have "fst (Authenticate sample_env sample_auth r1 (rq_Body sample_request) sample_accounts) = Inr ?p"
    by (intro signed_session [OF sg]) (use sample_skew in \<open>simp_all add: sample_clock sample_accounts_def empty_db_def, simp add: sample_env_def\<close>)
  then obtain s1 where au: "Authenticate sample_env sample_auth r1 [] sample_accounts = (Inr ?p, s1)"
    by (cases "Authenticate sample_env sample_auth r1 [] sample_accounts") (simp add: sample_request_def)
  have st: "same_tables sample_accounts s1" using reads_same [OF reads_only_Authenticate au] .
  then have "db_users s1 = db_users sample_accounts" "db_codes s1 = db_codes sample_accounts"
    by (auto elim!: same_tablesE)
  from disable_of_u2 [OF this, of r] obtain s' where h: "disableTOTP sample_env r (Some ?p) s1 = (Inr (200, ROk), s')" "db_codes s' = []"
    by (auto simp: r_def)
  have lim: "limited r = r" using body by (simp add: limited_def r_def)
  have "authorized sample_env sample_api (handler_of sample_env sample_api DisableTotpE) False r sample_accounts = (Inr (200, ROk), s')"
    using au h(1) body by (simp add: authorized_def sample_api_def r_def bindA_def CanRead_def)
  then have "serve sample_env sample_api DisableTotpE r (api_New 10 20 sample_accounts) =
      ((200, ROk), (api_New 10 20 sample_accounts)\<lparr>sv_db := s'\<rparr>)"
    by (simp add: serve_def authn_def mutates_def lim run_handler_def) (simp add: r_def)
  moreover have "db_codes (sv_db ((api_New 10 20 sample_accounts)\<lparr>sv_db := s'\<rparr>)) = []" using h(2) by simp
  ultimately show ?thesis by blast
qed

lemma accounts_changed_by_owner_or_administrator_witness:
  "\<exists>r sv' p. serve sample_env sample_api DisableTotpE r (api_New 10 20 sample_accounts) = ((200, ROk), sv') \<and>
     caller sample_env sample_api r sample_accounts p \<and> (CanManageUsers (pr_Role p) \<or>
       pr_Role p \<noteq> ''agent'' \<and> pr_UserID p = hr_ID r \<and> hr_ID r \<noteq> [] \<and> others (hr_ID r) (sv_db sv') = others (hr_ID r) sample_accounts)"
proof -
  obtain r sv' where run: "serve sample_env sample_api DisableTotpE r (api_New 10 20 sample_accounts) = ((200, ROk), sv')"
    and codes: "db_codes (sv_db sv') = []" using ops_disables_totp by blast
  have "distinct (map u_ID (db_users sample_accounts))" "accounts_of (sv_db sv') \<noteq> accounts_of sample_accounts"
    using codes by (auto simp: sample_accounts_def sample_user_def accounts_of_def)
  then show ?thesis using accounts_changed_by_owner_or_administrator [OF run] run by (simp add: exI) blast
qed

lemma api_keeps_an_administrator_witness:
  "has_admin (sv_db (serve_all sample_env sample_api [(DisableTotpE, sample_hr ''u1''), (PatchUserE, sample_hr ''u1'')] (api_New 10 20 sample_accounts)))"
  using api_keeps_an_administrator [of "api_New 10 20 sample_accounts" sample_env sample_api
      "[(DisableTotpE, sample_hr ''u1''), (PatchUserE, sample_hr ''u1'')]"] sample_accounts_ok
  by (simp add: has_admin_def sample_accounts_def sample_user_def active_admin_def)

end
