(* ===== verification/WebLaws.thy ===== *)
theory WebLaws
  imports WebActions UserAccess
begin

text \<open>
  Who gets where in the web interface. \<open>moves R m\<close>: an action moves the state along the preorder \<open>R\<close>, whatever
  it answers. The locale \<open>web_frame\<close> is the contract of the preorders that every request respects: reading the
  clock and the tables, expiring the session of the cookie, and the flash messages and the language of that
  session. It is interpreted by \<open>evolves\<close> (no session gains rights), \<open>others_alone\<close> (only the session of the
  cookie changes) and \<open>same_view\<close> (a part of the tables stays).
\<close>

section \<open>Moves\<close>

definition sessions_ok :: "'w web \<Rightarrow> bool" where
  "sessions_ok st \<longleftrightarrow> (\<forall>i s. wb_byID st i = Some s \<longrightarrow> ss_ID s = i)"

definition same_session :: "session \<Rightarrow> session \<Rightarrow> bool" where
  "same_session s s' \<longleftrightarrow> ss_ID s' = ss_ID s \<and> ss_Token s' = ss_Token s \<and> ss_UserID s' = ss_UserID s \<and> ss_Name s' = ss_Name s \<and>
     ss_DisplayName s' = ss_DisplayName s \<and> ss_Role s' = ss_Role s \<and> ss_Expires s' = ss_Expires s"

definition moves :: "('w web \<Rightarrow> 'w web \<Rightarrow> bool) \<Rightarrow> ('w web, 'e, 'a) act \<Rightarrow> bool" where
  "moves R m \<longleftrightarrow> (\<forall>st. sessions_ok st \<longrightarrow> R st (snd (m st)))"

named_theorems web_intros "how web actions move the state"

lemma movesD: "moves R m \<Longrightarrow> sessions_ok st \<Longrightarrow> m st = (q, st') \<Longrightarrow> R st st'"
  unfolding moves_def by (metis snd_conv)

definition set_db :: "'w db \<Rightarrow> 'w web \<Rightarrow> 'w web" where
  "set_db s st = st\<lparr>wb_srv := (wb_srv st)\<lparr>sv_db := s\<rparr>\<rparr>"

lemma set_db_sels [simp]: "wb_db (set_db s st) = s" "wb_byID (set_db s st) = wb_byID st"
  by (simp_all add: set_db_def)

definition clock_of :: "'w env \<Rightarrow> 'w web \<Rightarrow> gotime" where
  "clock_of env st = (case fst (nowA env (wb_db st)) of Inr t \<Rightarrow> t | Inl _ \<Rightarrow> 0)"

lemma timeNow_eq: "timeNow env st = (Inr (clock_of env st), set_db (snd (nowA env (wb_db st))) st)"
  by (auto simp: timeNow_def clock_of_def set_db_def split: prod.split sum.split)

lemma nowA_same: "same_tables s (snd (nowA env s))"
  by (metis prod.collapse reads_only_nowA reads_same)

text \<open>A session is found by the id of the cookie, as long as it is not expired.\<close>

lemma sessionFrom_Some:
  assumes "sessionFrom env ui r st = (Inr (Some s), st')"
  shows "cookie_id env ui r \<noteq> [] \<and> wb_byID st (cookie_id env ui r) = Some s \<and> clock_of env st < ss_Expires s \<and>
    (\<exists>x. st' = set_db x st \<and> same_tables (wb_db st) x)"
  using assms nowA_same
  by (auto simp: sessionFrom_def get_session_def peek_def bindA_def returnA_def delete_session_def timeNow_eq split: if_splits option.splits)

lemma sessionFrom_Inr: "\<exists>os st'. sessionFrom env ui r st = (Inr os, st')"
  by (auto simp: sessionFrom_def get_session_def peek_def bindA_def returnA_def delete_session_def timeNow_eq split: option.split)

section \<open>The frame of every request\<close>

definition action_routes :: "wroute list" where
  "action_routes = [NodePlan, NodeDryRun, NodeApply, NodeFailback, BackendCreate, BackendUpdate, TunnelCreate, MappingCreate, MappingUpdate,
     MappingPatch, MappingDelete, SniCreate, SniUpdate, ForeignSave]"

definition page_calls :: "endpoint list" where
  "page_calls = [PlanE, ApplyE, FailbackE, CreateBackendE, PatchBackendE, CreateTunnelE, CreateMappingE, PatchMappingE, DeleteMappingE, CreateSniE, PatchSniE,
     CreateForeignE, PatchForeignE]"

locale web_frame =
  fixes R :: "'w web \<Rightarrow> 'w web \<Rightarrow> bool" and key :: string
  assumes refl: "R st st" and trans: "R st st1 \<Longrightarrow> R st1 st2 \<Longrightarrow> R st st2"
    and keeps_ok: "R st st1 \<Longrightarrow> sessions_ok st \<Longrightarrow> sessions_ok st1"
    and world: "same_tables (wb_db st) s \<Longrightarrow> R st (set_db s st)"
    and purge: "R st (st\<lparr>wb_byID := (wb_byID st)(key := None)\<rparr>)"
    and touch: "(\<And>y. same_session y (f y) \<and> ss_MFAPending (f y) = ss_MFAPending y) \<Longrightarrow>
      R st (case wb_byID st key of None \<Rightarrow> st | Some y \<Rightarrow> st\<lparr>wb_byID := (wb_byID st)(key \<mapsto> f y)\<rparr>)"
begin

lemma moves_return [web_intros]: "moves R (returnA x)"
  by (simp add: moves_def refl)

lemma moves_fail [web_intros]: "moves R (failA e)"
  by (simp add: moves_def refl)

lemma moves_pair [web_intros]: "moves R (Pair q)"
  by (simp add: moves_def refl)

lemma moves_bind_val:
  assumes "moves R m" and "\<And>x (st :: 'w web) st'. sessions_ok st \<Longrightarrow> sessions_ok st' \<Longrightarrow> m st = (Inr x, st') \<Longrightarrow> R st' (snd (k x st'))"
  shows "moves R (bindA m k)"
  unfolding moves_def
proof (intro allI impI)
  fix st :: "'w web"
  assume ok: "sessions_ok st"
  obtain q st1 where m: "m st = (q, st1)" by fastforce
  have "R st st1" by (rule movesD [OF assms(1) ok m])
  then show "R st (snd (bindA m k st))" using m assms(2) [of st st1] trans keeps_ok ok
    by (cases q) (auto simp: bindA_def)
qed

lemma moves_bind [web_intros]: "moves R m \<Longrightarrow> (\<And>x. moves R (k x)) \<Longrightarrow> moves R (bindA m k)"
  by (rule moves_bind_val) (auto simp: moves_def)

lemma moves_orReply [web_intros]: "moves R m \<Longrightarrow> moves R (orReply f m)"
  by (simp add: moves_def orReply_def prod.case_eq_if split: sum.split)

lemma moves_option_of [web_intros]: "moves R m \<Longrightarrow> moves R (option_of m)"
  by (simp add: moves_def option_of_def prod.case_eq_if split: sum.split)

lemma moves_result_of [web_intros]: "moves R m \<Longrightarrow> moves R (result_of m)"
  by (simp add: moves_def result_of_def prod.case_eq_if)

lemma moves_checkR [web_intros]: "moves R (checkR b resp)"
  by (simp add: checkR_def moves_def refl)

lemma moves_peek [web_intros]: "moves R (peek f)"
  by (simp add: moves_def peek_def refl)

lemma moves_onDb: "(\<And>st. R st (set_db (snd (m (wb_db st))) st)) \<Longrightarrow> moves R (onDb m)"
  by (simp add: moves_def onDb_def set_db_def prod.case_eq_if)

lemma moves_onDb_reads [web_intros]: "reads_only m \<Longrightarrow> moves R (onDb m)"
  by (rule moves_onDb, rule world) (metis prod.collapse reads_same)

lemma moves_timeNow [web_intros]: "moves R (timeNow env)"
  by (simp add: moves_def timeNow_eq world nowA_same)

lemma moves_purge [web_intros]: "i = key \<Longrightarrow> moves R (delete_session i)"
  by (simp add: moves_def delete_session_def purge)

lemma moves_update:
  "i = key \<Longrightarrow> (\<And>y. same_session y (f y) \<and> ss_MFAPending (f y) = ss_MFAPending y) \<Longrightarrow> moves R (update_session i f)"
  using touch by (simp add: moves_def update_session_def)

lemma moves_sets [web_intros]:
  "i = key \<Longrightarrow> moves R (setFlash i ok err)" "i = key \<Longrightarrow> moves R (setFlashRaw i err)" "i = key \<Longrightarrow> moves R (updateLocale i l)"
  unfolding setFlash_def setFlashRaw_def updateLocale_def by (auto intro!: moves_update simp: same_session_def)

lemma moves_takeFlash [web_intros]: "i = key \<Longrightarrow> moves R (takeFlash i)"
  unfolding takeFlash_def by (auto intro!: web_intros moves_update simp: same_session_def split: option.split)

lemma moves_sessionFrom [web_intros]: "cookie_id env ui r = key \<Longrightarrow> moves R (sessionFrom env ui r)"
  unfolding sessionFrom_def get_session_def by (auto intro!: web_intros split: option.split)

text \<open>What follows \<open>sessionFrom\<close> works on the session of the cookie.\<close>

lemma moves_session:
  assumes "cookie_id env ui r = key" and "moves R (k None)" and "\<And>s. ss_ID s = key \<Longrightarrow> moves R (k (Some s))"
  shows "moves R (bindA (sessionFrom env ui r) k)"
proof (rule moves_bind_val [OF moves_sessionFrom [OF assms(1)]])
  fix x :: "session option" and st st' :: "'w web"
  assume *: "sessions_ok st" "sessions_ok st'" "sessionFrom env ui r st = (Inr x, st')"
  show "R st' (snd (k x st'))"
  proof (cases x)
    case (Some s)
    then have "ss_ID s = key" using sessionFrom_Some *(1,3) assms(1) unfolding sessions_ok_def by blast
    then show ?thesis using assms(3) *(2) Some by (simp add: moves_def)
  qed (use assms(2) *(2) in \<open>simp add: moves_def\<close>)
qed

lemma moves_locale_of [web_intros]: "cookie_id env ui r = key \<Longrightarrow> moves R (locale_of env ui r)"
  unfolding locale_of_def Let_def by (auto intro!: web_intros split: option.split)

lemma moves_needsSetup [web_intros]: "moves R (needsSetup env ui)"
  unfolding needsSetup_def CountUsers_def by (auto intro!: web_intros reads_only_queryRow)

lemma moves_flash [web_intros]:
  assumes "cookie_id env ui r = key"
  shows "moves R (flash env ui r ok err)" "moves R (flashRaw env ui r err)" "moves R (pageBase env ui r)"
  unfolding flash_def flashRaw_def pageBase_def
  by (rule moves_session [OF assms]; auto intro!: web_intros assms split: prod.split)+

lemma moves_writeForbidden [web_intros]: "cookie_id env ui r = key \<Longrightarrow> moves R (writeForbidden env ui r)"
  unfolding writeForbidden_def Let_def by (intro web_intros)

lemma moves_guards [web_intros]:
  assumes "cookie_id env ui r = key"
  shows "moves R (requireWrite env ui r)" "moves R (h r) \<Longrightarrow> moves R (requireSession env ui h r)"
    "moves R (h r) \<Longrightarrow> moves R (requireAdmin env ui h r)"
  unfolding requireSession_def requireAdmin_def requireWrite_def
  by (auto intro!: web_intros assms split: option.split)

lemma moves_liftE [web_intros]: "moves R (liftE x)"
  by (auto simp: liftE_def intro: web_intros split: sum.split)

text \<open>A call of the API moves the state as the request does that it makes.\<close>

lemma moves_RoundTrip:
  assumes "\<And>r st. R st (st\<lparr>wb_srv := snd (serve env (ui_api ui) e r (wb_srv st))\<rparr>)"
  shows "moves R (RoundTrip env ui so e i rq)"
proof -
  have sg: "reads_only (SignUI env a x name role uid)" for a x name role uid
    unfolding SignUI_def Let_def by (intro table_intros)
  have send: "moves R (\<lambda>st. case serve env (ui_api ui) e x (wb_srv st) of (rep, sv) \<Rightarrow> (Inr rep, st\<lparr>wb_srv := sv\<rparr>))" for x
    using assms by (simp add: moves_def prod.case_eq_if)
  show ?thesis unfolding RoundTrip_def Let_def
    by (intro moves_bind send) (auto intro!: web_intros sg split: option.split)
qed

lemma moves_api_call:
  assumes "\<And>r st. R st (st\<lparr>wb_srv := snd (serve env (ui_api ui) e r (wb_srv st))\<rparr>)"
  shows "moves R (api_call env ui so tok e i inp)"
  unfolding api_call_def client_call_def client_Do_def
  by (auto intro!: web_intros moves_RoundTrip assms split: prod.split)

lemma moves_session_call:
  assumes "cookie_id env ui r = key" and "\<And>r st. R st (st\<lparr>wb_srv := snd (serve env (ui_api ui) e r (wb_srv st))\<rparr>)"
  shows "moves R (session_call env ui r e i inp)"
  unfolding session_call_def by (auto intro!: web_intros moves_api_call assms)

lemma moves_plans [web_intros]:
  assumes "cookie_id env ui r = key"
  shows "moves R (error_page env ui r err)" "moves R (writePlan env ui r pv oe)" "moves R (session_locale_text env ui r k)"
    "moves R (renderAuth env ui r name)"
  unfolding error_page_def writePlan_def session_locale_text_def renderAuth_def Let_def
  by (auto intro!: web_intros assms split: prod.split option.split)

lemma moves_forms:
  assumes "cookie_id env ui r = key" and "moves R (session_call env ui r e i (Some body))"
  shows "moves R (write_form env ui r page e i body msg target)"
  unfolding write_form_def by (auto intro!: web_intros assms)

lemma moves_call_or_flash:
  assumes "cookie_id env ui r = key" and "moves R (session_call env ui r e i inp)"
  shows "moves R (call_or_flash env ui r e i inp msg path)"
  unfolding call_or_flash_def by (auto intro!: web_intros assms split: sum.split)

text \<open>The actions on the inventory, given that the calls they make move the server along the preorder.\<close>

lemma moves_actions:
  assumes "cookie_id env ui r = key"
    and "\<And>e x st. e \<in> set page_calls \<Longrightarrow> R st (st\<lparr>wb_srv := snd (serve env (ui_api ui) e x (wb_srv st))\<rparr>)"
    and "w \<in> set action_routes"
  shows "moves R (whandler_of env ui w r)"
proof -
  have "moves R (session_call env ui r e i inp)" if "e \<in> set page_calls" for e i inp
    by (rule moves_session_call [OF assms(1) assms(2) [OF that]])
  note calls = this moves_forms [OF assms(1) this] moves_call_or_flash [OF assms(1) this]
  show ?thesis using assms(3) unfolding action_routes_def
    by (auto simp: nodePlan_def nodeDryRun_def nodeApply_def nodeFailback_def mappingPatch_def mappingDelete_def backendCreate_def backendUpdate_def
      tunnelCreate_def mappingCreate_def mappingUpdate_def sniCreate_def sniUpdate_def saveForeignNode_def error_page_def Let_def page_calls_def
      intro!: web_intros assms(1) calls split: sum.split reply.split prod.split)
qed

end

text \<open>Preorders that look at the sessions only let the server do anything.\<close>

locale session_frame = web_frame +
  assumes server: "R st (st\<lparr>wb_srv := sv\<rparr>)"
begin

lemma moves_onDb_any [web_intros]: "moves R (onDb m)"
  by (rule moves_onDb) (simp add: set_db_def server)

lemma moves_calls [web_intros]: "moves R (api_call env ui so tok e i inp)" "cookie_id env ui r = key \<Longrightarrow> moves R (session_call env ui r e i inp)"
  by (intro moves_api_call moves_session_call server; assumption)+

lemma moves_own_account [web_intros]:
  "cookie_id env ui r = key \<Longrightarrow> (\<And>i. moves R (k i)) \<Longrightarrow> moves R (own_account env ui r k)"
  unfolding own_account_def by (auto intro!: web_intros split: option.split)

lemma moves_pages:
  assumes "cookie_id env ui r = key"
  shows "moves R (getLogin env ui r)" "moves R (getMFA env ui r)" "moves R (getSetup env ui r)" "moves R (postLogout env ui r)"
    "moves R (postLocale env ui r)"
proof -
  show "moves R (getLogin env ui r)" "moves R (getMFA env ui r)" "moves R (getSetup env ui r)"
    unfolding getLogin_def getMFA_def getSetup_def by (auto intro!: web_intros assms split: option.split)
  show "moves R (postLogout env ui r)"
    unfolding postLogout_def by (rule moves_session [OF assms]; auto intro!: web_intros)
  show "moves R (postLocale env ui r)"
    unfolding postLocale_def Let_def
    by (rule moves_session [OF assms]; auto intro!: web_intros assms)
qed

lemma moves_account_pages:
  assumes "cookie_id env ui r = key"
  shows "moves R (userCreate env ui r)" "moves R (userUpdate env ui r)" "moves R (settingsPassword env ui r)"
    "moves R (settingsTOTPBegin env ui r)" "moves R (settingsTOTPConfirm env ui r)" "moves R (settingsTOTPDisable env ui r)" "moves R (settingsRecovery env ui r)"
  unfolding userCreate_def userUpdate_def settingsPassword_def settingsTOTPBegin_def settingsTOTPConfirm_def settingsTOTPDisable_def
    settingsRecovery_def settings_reply_def
  by (auto intro!: web_intros assms split: prod.split)

lemma moves_handlers:
  assumes "cookie_id env ui r = key" and "w \<notin> {PostLogin, PostSetup, PostMFA}"
  shows "moves R (whandler_of env ui w r)"
proof (cases "w \<in> set action_routes")
  case True
  then show ?thesis by (rule moves_actions [OF assms(1) server])
next
  case False
  note h = moves_pages [OF assms(1)] moves_account_pages [OF assms(1)]
  show ?thesis using assms(2) False
    by (cases w) (simp_all add: read_page_def action_routes_def h assms(1) moves_guards moves_return moves_pair)
qed

end

section \<open>Where sessions come from\<close>

text \<open>What a request may do to the session of its cookie, short of passing the second factor.\<close>

definition keeps_sessions :: "string \<Rightarrow> 'w web \<Rightarrow> 'w web \<Rightarrow> bool" where
  "keeps_sessions key st st' \<longleftrightarrow> (sessions_ok st \<longrightarrow> sessions_ok st') \<and> (\<forall>i. i \<noteq> key \<longrightarrow> wb_byID st' i = wb_byID st i) \<and>
     (\<forall>x. wb_byID st' key = Some x \<longrightarrow> (\<exists>y. wb_byID st key = Some y \<and> same_session y x \<and> ss_MFAPending x = ss_MFAPending y))"

lemma session_identity_refl: "same_session s s"
  by (simp add: same_session_def)

lemma session_identity_trans: "same_session s x \<Longrightarrow> same_session x y \<Longrightarrow> same_session s y"
  by (simp add: same_session_def)

lemma keeps_sessions_trans:
  assumes "keeps_sessions key st st1" and "keeps_sessions key st1 st2"
  shows "keeps_sessions key st st2"
  unfolding keeps_sessions_def
proof (intro conjI allI impI)
  fix x
  assume "wb_byID st2 key = Some x"
  then obtain y where y: "wb_byID st1 key = Some y" "same_session y x" "ss_MFAPending x = ss_MFAPending y"
    using assms(2) by (auto simp: keeps_sessions_def)
  then obtain z where "wb_byID st key = Some z" "same_session z y" "ss_MFAPending y = ss_MFAPending z"
    using assms(1) by (auto simp: keeps_sessions_def)
  then show "\<exists>y. wb_byID st key = Some y \<and> same_session y x \<and> ss_MFAPending x = ss_MFAPending y"
    using y session_identity_trans by auto
qed (use assms in \<open>simp_all add: keeps_sessions_def\<close>)

interpretation ses: session_frame "keeps_sessions key" key for key
proof
  fix st st1 st2 :: "'a web" and s :: "'a db" and f :: "session \<Rightarrow> session" and sv :: "'a server"
  show "keeps_sessions key st st" by (simp add: keeps_sessions_def same_session_def)
  show "keeps_sessions key st st1 \<Longrightarrow> keeps_sessions key st1 st2 \<Longrightarrow> keeps_sessions key st st2"
    by (rule keeps_sessions_trans)
  show "keeps_sessions key st st1 \<Longrightarrow> sessions_ok st \<Longrightarrow> sessions_ok st1" by (simp add: keeps_sessions_def)
  show "keeps_sessions key st (set_db s st)" "keeps_sessions key st (st\<lparr>wb_srv := sv\<rparr>)"
    by (simp_all add: keeps_sessions_def same_session_def sessions_ok_def)
  show "keeps_sessions key st (st\<lparr>wb_byID := (wb_byID st)(key := None)\<rparr>)"
    by (simp add: keeps_sessions_def sessions_ok_def)
  show "(\<And>y. same_session y (f y) \<and> ss_MFAPending (f y) = ss_MFAPending y) \<Longrightarrow>
      keeps_sessions key st (case wb_byID st key of None \<Rightarrow> st | Some y \<Rightarrow> st\<lparr>wb_byID := (wb_byID st)(key \<mapsto> f y)\<rparr>)"
    by (auto simp: keeps_sessions_def same_session_def sessions_ok_def split: option.split)
qed

text \<open>What the frame of a request does to the tables: nothing.\<close>

definition same_db :: "'w web \<Rightarrow> 'w web \<Rightarrow> bool" where
  "same_db st st' \<longleftrightarrow> (sessions_ok st \<longrightarrow> sessions_ok st') \<and> same_tables (wb_db st) (wb_db st')"

interpretation tab: web_frame same_db key for key
proof
  fix st st1 st2 :: "'a web" and s :: "'a db" and f :: "session \<Rightarrow> session"
  show "same_db st st" by (simp add: same_db_def)
  show "same_db st st1 \<Longrightarrow> same_db st1 st2 \<Longrightarrow> same_db st st2" by (auto simp: same_db_def intro: same_tables_trans)
  show "same_db st st1 \<Longrightarrow> sessions_ok st \<Longrightarrow> sessions_ok st1" by (simp add: same_db_def)
  show "same_tables (wb_db st) s \<Longrightarrow> same_db st (set_db s st)" by (simp add: same_db_def sessions_ok_def)
  show "same_db st (st\<lparr>wb_byID := (wb_byID st)(key := None)\<rparr>)" by (simp add: same_db_def sessions_ok_def)
  show "(\<And>y. same_session y (f y) \<and> ss_MFAPending (f y) = ss_MFAPending y) \<Longrightarrow>
      same_db st (case wb_byID st key of None \<Rightarrow> st | Some y \<Rightarrow> st\<lparr>wb_byID := (wb_byID st)(key \<mapsto> f y)\<rparr>)"
    by (auto simp: same_db_def same_session_def sessions_ok_def split: option.split)
qed

definition password_opens :: "'w env \<Rightarrow> web_request \<Rightarrow> 'w web \<Rightarrow> session \<Rightarrow> bool" where
  "password_opens env r st s \<longleftrightarrow> (\<exists>u. fst (AuthenticatePassword env (TrimSpace (wr_Form r ''username'')) (wr_Form r ''password'') (wb_db st)) = Inr u \<and>
     ss_Token s = [] \<and> ss_UserID s = u_ID u \<and> ss_Name s = u_Username u \<and> ss_Role s = u_Role u \<and> ss_MFAPending s = u_TOTPEnabled u)"

definition token_opens :: "'w env \<Rightarrow> 'w ui \<Rightarrow> web_request \<Rightarrow> 'w web \<Rightarrow> session \<Rightarrow> bool" where
  "token_opens env ui r st s \<longleftrightarrow> fst (api_call env ui None (TrimSpace (wr_Form r ''token'')) Whoami [] None st) = Inr (RPrincipal (ss_Name s) (ss_Role s)) \<and>
     ss_Role s \<in> {''operator'', ''readonly'', ''administrator''} \<and> ss_Token s = TrimSpace (wr_Form r ''token'') \<and> ss_UserID s = [] \<and> \<not> ss_MFAPending s"

definition setup_opens :: "'w env \<Rightarrow> web_request \<Rightarrow> 'w web \<Rightarrow> session \<Rightarrow> bool" where
  "setup_opens env r st s \<longleftrightarrow> db_users (wb_db st) = [] \<and> (\<exists>db l u. same_tables (wb_db st) db \<and>
     fst (SetupFirstAdministrator env (wr_Form r ''username'') (wr_Form r ''display_name'') (wr_Form r ''password'') l db) = Inr u \<and>
     ss_Token s = [] \<and> ss_UserID s = u_ID u \<and> ss_Name s = u_Username u \<and> ss_Role s = u_Role u \<and> \<not> ss_MFAPending s)"

definition opens :: "'w env \<Rightarrow> 'w ui \<Rightarrow> wroute \<Rightarrow> web_request \<Rightarrow> 'w web \<Rightarrow> session \<Rightarrow> bool" where
  "opens env ui w r st s \<longleftrightarrow> w = PostLogin \<and> (password_opens env r st s \<or> token_opens env ui r st s) \<or> w = PostSetup \<and> setup_opens env r st s"

definition second_factor :: "'w env \<Rightarrow> web_request \<Rightarrow> 'w web \<Rightarrow> session \<Rightarrow> bool" where
  "second_factor env r st s \<longleftrightarrow> (\<exists>db1 db2 u. same_tables (wb_db st) db1 \<and> same_tables (wb_db st) db2 \<and> fst (GetUser env (ss_UserID s) db1) = Inr u \<and>
     fst (ConsumeMFA env (Some u) (wr_Form r ''code'') (wr_Form r ''recovery'') db2) = Inr ())"

text \<open>\<open>accounted env ui w r st st'\<close>: every change of the store of sessions has a reason.\<close>

definition evolved :: "'w env \<Rightarrow> wroute \<Rightarrow> web_request \<Rightarrow> 'w web \<Rightarrow> session \<Rightarrow> session \<Rightarrow> bool" where
  "evolved env w r st y x \<longleftrightarrow> same_session y x \<and> (ss_MFAPending x = ss_MFAPending y \<or> w = PostMFA \<and> second_factor env r st y)"

definition accounted :: "'w env \<Rightarrow> 'w ui \<Rightarrow> wroute \<Rightarrow> web_request \<Rightarrow> 'w web \<Rightarrow> 'w web \<Rightarrow> bool" where
  "accounted env ui w r st st' \<longleftrightarrow> (\<forall>i. wb_byID st' i = wb_byID st i \<or>
     i = cookie_id env ui r \<and> (\<forall>x. wb_byID st' i = Some x \<longrightarrow> (\<exists>y. wb_byID st i = Some y \<and> evolved env w r st y x)) \<or>
     (\<exists>x. wb_byID st' i = Some x \<and> opens env ui w r st x))"

lemma accounted_keeps: "keeps_sessions (cookie_id env ui r) st st' \<Longrightarrow> accounted env ui w r st st'"
  unfolding keeps_sessions_def accounted_def evolved_def by metis

text \<open>A session that is opened is put into a store in which sessions were kept before.\<close>

definition stores :: "(session \<Rightarrow> bool) \<Rightarrow> string \<Rightarrow> 'w web \<Rightarrow> 'w web \<Rightarrow> bool" where
  "stores P key st st' \<longleftrightarrow> keeps_sessions key st st' \<or>
     (\<exists>st1 x. keeps_sessions key st st1 \<and> P x \<and> wb_byID st' = (wb_byID st1)(ss_ID x \<mapsto> x))"

lemma accounted_stores:
  assumes "stores P (cookie_id env ui r) st st'" and "\<And>x. P x \<Longrightarrow> opens env ui w r st x" and "sessions_ok st"
  shows "accounted env ui w r st st' \<and> sessions_ok st'"
proof -
  consider "keeps_sessions (cookie_id env ui r) st st'"
    | st1 x where "keeps_sessions (cookie_id env ui r) st st1" "P x" "wb_byID st' = (wb_byID st1)(ss_ID x \<mapsto> x)"
    using assms(1) by (auto simp: stores_def)
  then show ?thesis
  proof cases
    case 1
    then show ?thesis using accounted_keeps [OF 1] assms(3) by (simp add: keeps_sessions_def)
  next
    case (2 st1 x)
    have a: "accounted env ui w r st st1" and ok: "sessions_ok st1"
      using accounted_keeps [OF 2(1)] 2(1) assms(3) by (simp_all add: keeps_sessions_def)
    have "opens env ui w r st x" by (rule assms(2) [OF 2(2)])
    then have "accounted env ui w r st st'" using a unfolding accounted_def 2(3) by auto
    moreover have "sessions_ok st'" using ok by (auto simp: sessions_ok_def 2(3))
    ultimately show ?thesis by blast
  qed
qed

lemma stores_keeps: "keeps_sessions key st st' \<Longrightarrow> stores P key st st'"
  by (simp add: stores_def)

lemma stores_bind:
  assumes "moves (keeps_sessions key) m" and "sessions_ok st"
    and "\<And>x st1. m st = (Inr x, st1) \<Longrightarrow> sessions_ok st1 \<Longrightarrow> stores P key st1 (snd (k x st1))"
  shows "stores P key st (snd (bindA m k st))"
proof -
  obtain q st1 where m: "m st = (q, st1)" by fastforce
  have R: "keeps_sessions key st st1" by (rule movesD [OF assms(1,2) m])
  show ?thesis
  proof (cases q)
    case (Inl e)
    then show ?thesis using R m by (simp add: bindA_def stores_keeps)
  next
    case (Inr x)
    have "stores P key st1 (snd (k x st1))" using assms(2,3) m Inr R by (auto simp: keeps_sessions_def)
    then show ?thesis using m Inr keeps_sessions_trans [OF R] unfolding stores_def bindA_def by auto
  qed
qed

lemma put_cases:
  assumes "put env inn st = (q, st')"
  obtains y e where "q = Inl e" and "st' = set_db y st"
  | i t l x where "q = Inr x" and "x = inn\<lparr>ss_ID := i, ss_Expires := t, ss_Locale := l\<rparr>" and "wb_byID st' = (wb_byID st)(ss_ID x \<mapsto> x)"
proof -
  obtain p y where on: "onDb (lift_world (e_rand env 16)) st = (p, set_db y st)"
    by (cases "lift_world (e_rand env 16) (wb_db st)") (auto simp: onDb_def set_db_def)
  show thesis
  proof (cases p)
    case (Inl e)
    then show thesis using that(1) assms on by (auto simp: put_def bindA_def)
  next
    case (Inr raw)
    let ?x = "inn\<lparr>ss_ID := hexEncode raw, ss_Expires := clock_of env (set_db y st) + sessionTTL,
                ss_Locale := (if ss_Locale inn = [] then ''en'' else ss_Locale inn)\<rparr>"
    have "q = Inr ?x" "wb_byID st' = (wb_byID st)(ss_ID ?x \<mapsto> ?x)"
      using assms on Inr by (simp_all add: put_def bindA_def timeNow_eq Let_def, auto)
    then show thesis using that(2) by blast
  qed
qed

lemma stores_put:
  assumes "\<And>i t l. P (inn\<lparr>ss_ID := i, ss_Expires := t, ss_Locale := l\<rparr>)" and "\<And>x st. wb_byID (snd (k x st)) = wb_byID st"
  shows "stores P key st (snd (bindA (orReply f (put env inn)) k st))"
proof -
  obtain q st' where "put env inn st = (q, st')" by fastforce
  then show ?thesis
  proof (cases rule: put_cases)
    case (1 y e)
    then show ?thesis using \<open>put env inn st = (q, st')\<close> ses.world [of st]
      by (simp add: bindA_def orReply_def stores_keeps ses.server set_db_def)
  next
    case (2 i t l x)
    then have "P x" using assms(1) by simp
    then show ?thesis using \<open>put env inn st = (q, st')\<close> 2(1,3) ses.refl
      by (auto simp: bindA_def orReply_def stores_def assms(2))
  qed
qed

lemma orReply_Inr: "orReply f m st = (Inr x, st') \<Longrightarrow> m st = (Inr x, st')"
  by (auto simp: orReply_def split: prod.splits sum.splits)

lemma orReply_step: "m st = (Inr x, st') \<Longrightarrow> bindA (orReply f m) k st = k x st'"
  by (simp add: orReply_def bindA_def)

lemma onDb_Inr: "onDb m st = (Inr x, st') \<Longrightarrow> fst (m (wb_db st)) = Inr x"
  by (auto simp: onDb_def split: prod.splits)

lemma keeps_byID_touch: "wb_byID (snd (bindA (if b then returnA None else option_of (onDb m)) (\<lambda>_. returnA x) st)) = wb_byID st"
  by (auto simp: bindA_def option_of_def onDb_def split: prod.split sum.split)

lemma stores_password:
  assumes "sessions_ok st" and "\<And>u s. fst (AuthenticatePassword env name pass (wb_db st)) = Inr u \<Longrightarrow> ss_Token s = [] \<Longrightarrow> ss_UserID s = u_ID u \<Longrightarrow>
      ss_Name s = u_Username u \<Longrightarrow> ss_Role s = u_Role u \<Longrightarrow> ss_MFAPending s = u_TOTPEnabled u \<Longrightarrow> P s"
  shows "stores P (cookie_id env ui r) st (snd (password_login env ui name pass r st))"
  unfolding password_login_def
proof (rule stores_bind [OF _ assms(1)])
  fix u st1
  assume "orReply (\<lambda>err. see_other (''/login?err='' @ loginErrCode err)) (onDb (AuthenticatePassword env name pass)) st = (Inr u, st1)" and ok: "sessions_ok st1"
  then have u: "fst (AuthenticatePassword env name pass (wb_db st)) = Inr u" by (blast dest: orReply_Inr onDb_Inr)
  show "stores P (cookie_id env ui r) st1 (snd (bindA (locale_of env ui r) (\<lambda>l.
     bindA (orReply (\<lambda>_. see_other ''/login?err=session_failed'')
       (put env (empty_session\<lparr>ss_UserID := u_ID u, ss_Name := u_Username u, ss_DisplayName := firstNonEmpty [u_DisplayName u, u_Username u],
          ss_Role := u_Role u, ss_Locale := i18n_Normalize (firstNonEmpty [u_Locale u, l]), ss_MFAPending := u_TOTPEnabled u\<rparr>))) (\<lambda>s.
     bindA (if u_TOTPEnabled u then returnA None else option_of (onDb (TouchLogin env (u_ID u)))) (\<lambda>_.
       returnA \<lparr>rs_Cookies = [session_cookie env ui s, SetLocaleCookie (i18n_Normalize (ss_Locale s))],
         rs_Body = SeeOther (if u_TOTPEnabled u then ''/login/mfa'' else ''/'')\<rparr>))) st1))"
    by (rule stores_bind [OF ses.moves_locale_of [OF HOL.refl] ok], rule stores_put [OF assms(2) [OF u] keeps_byID_touch])
      (simp_all add: empty_session_def)
qed (intro web_intros)

lemma stores_token:
  assumes "sessions_ok st" and "\<And>s. fst (api_call env ui None tok Whoami [] None st) = Inr (RPrincipal (ss_Name s) (ss_Role s)) \<Longrightarrow>
      ss_Role s \<in> {''operator'', ''readonly'', ''administrator''} \<Longrightarrow> ss_Token s = tok \<Longrightarrow> ss_UserID s = [] \<Longrightarrow> \<not> ss_MFAPending s \<Longrightarrow> P s"
  shows "stores P (cookie_id env ui r) st (snd (loginWithToken env ui tok r st))"
  unfolding loginWithToken_def
proof (rule stores_bind [OF _ assms(1)])
  fix me st1
  assume "orReply (\<lambda>_. see_other ''/login?err=invalid_token'') (api_call env ui None tok Whoami [] None) st = (Inr me, st1)" and ok: "sessions_ok st1"
  then have me: "fst (api_call env ui None tok Whoami [] None st) = Inr me" by (metis orReply_Inr fst_conv)
  define k where "k name role l = bindA (orReply (\<lambda>_. see_other ''/login?err=session_failed'')
      (put env (empty_session\<lparr>ss_Token := tok, ss_Name := name, ss_DisplayName := name, ss_Role := role, ss_Locale := l\<rparr>))) (\<lambda>s.
      returnA \<lparr>rs_Cookies = [session_cookie env ui s], rs_Body = SeeOther ''/''\<rparr>)" for name role l
  have put: "stores P (cookie_id env ui r) st1 (snd (bindA (locale_of env ui r) (k name role) st1))"
    if "me = RPrincipal name role" "role \<in> {''operator'', ''readonly'', ''administrator''}" for name role
    unfolding k_def
    by (rule stores_bind [OF ses.moves_locale_of [OF HOL.refl] ok], rule stores_put [OF assms(2)]) (use me that in \<open>auto simp: empty_session_def\<close>)
  have fail: "stores P (cookie_id env ui r) st1 st1" by (rule stores_keeps, rule ses.refl)
  show "stores P (cookie_id env ui r) st1 (snd ((case me of
       RPrincipal name role \<Rightarrow>
         bindA (checkR (role \<noteq> ''operator'' \<and> role \<noteq> ''readonly'' \<and> role \<noteq> ''administrator'') (see_other ''/login?err=agent_token'')) (\<lambda>_.
         bindA (locale_of env ui r) (\<lambda>l. bindA (orReply (\<lambda>_. see_other ''/login?err=session_failed'')
      (put env (empty_session\<lparr>ss_Token := tok, ss_Name := name, ss_DisplayName := name, ss_Role := role, ss_Locale := l\<rparr>))) (\<lambda>s.
      returnA \<lparr>rs_Cookies = [session_cookie env ui s], rs_Body = SeeOther ''/''\<rparr>)))
     | _ \<Rightarrow> failA (see_other ''/login?err=agent_token'')) st1))"
    using put fail unfolding k_def [symmetric]
    by (cases me) (auto simp: checkR_def bindA_def [of "failA _"] bindA_def [of "returnA ()"] failA_def returnA_def)
qed (intro web_intros ses.moves_calls)

lemma stores_postLogin:
  assumes "sessions_ok st"
  shows "stores (opens env ui PostLogin r st) (cookie_id env ui r) st (snd (postLogin env ui r st))"
proof -
  have same: "stores P key st st" for P key by (rule stores_keeps, rule ses.refl)
  have pw: "stores (opens env ui PostLogin r st) (cookie_id env ui r) st
      (snd (password_login env ui (TrimSpace (wr_Form r ''username'')) (wr_Form r ''password'') r st))"
    by (rule stores_password [OF assms]) (auto simp: opens_def password_opens_def)
  have tok: "stores (opens env ui PostLogin r st) (cookie_id env ui r) st (snd (loginWithToken env ui (TrimSpace (wr_Form r ''token'')) r st))"
    by (rule stores_token [OF assms]) (auto simp: opens_def token_opens_def)
  show ?thesis using same pw tok by (auto simp: postLogin_def checkR_def Let_def failA_def returnA_def bindA_def [of "\<lambda>s. (Inl _, s)"] bindA_def [of "Pair (Inr ())"])
qed

lemma onDb_cases: "onDb m st = (q, st') \<Longrightarrow> m (wb_db st) = (q, wb_db st') \<and> wb_byID st' = wb_byID st"
  by (auto simp: onDb_def split: prod.splits)

lemma needsSetup_True:
  assumes "needsSetup env ui st = (Inr True, st1)"
  shows "db_users (wb_db st) = [] \<and> same_tables (wb_db st) (wb_db st1)"
proof -
  obtain q st2 where on: "onDb (CountUsers env) st = (q, st2)" by fastforce
  then have st2: "st1 = st2" "q = Inr 0"
    using assms by (auto simp: needsSetup_def option_of_def bindA_def split: if_splits sum.splits)
  have "CountUsers env (wb_db st) = (Inr 0, wb_db st1)" using onDb_cases [OF on] st2 by simp
  then show ?thesis using reads_val [OF reads_CountUsers] reads_same [OF reads_CountUsers] by fastforce
qed

definition setup_end :: "'w env \<Rightarrow> 'w ui \<Rightarrow> web_request \<Rightarrow> string \<Rightarrow> ('w, response) webact" where
  "setup_end env ui r l =
     bindA (orReply (\<lambda>_. see_other ''/setup?err=invalid_form'')
       (onDb (SetupFirstAdministrator env (wr_Form r ''username'') (wr_Form r ''display_name'') (wr_Form r ''password'') l))) (\<lambda>u.
     bindA (orReply (\<lambda>_. see_other ''/login?err=session_failed'')
       (put env (empty_session\<lparr>ss_UserID := u_ID u, ss_Name := u_Username u, ss_DisplayName := firstNonEmpty [u_DisplayName u, u_Username u],
          ss_Role := u_Role u, ss_Locale := i18n_Normalize (u_Locale u)\<rparr>))) (\<lambda>s.
       returnA \<lparr>rs_Cookies = [session_cookie env ui s, SetLocaleCookie (i18n_Normalize (ss_Locale s))], rs_Body = SeeOther ''/''\<rparr>))"

lemma stores_setup_end:
  assumes "sessions_ok st1" and "same_tables (wb_db st) (wb_db st1)" and "db_users (wb_db st) = []"
  shows "stores (opens env ui PostSetup r st) (cookie_id env ui r) st1 (snd (setup_end env ui r l st1))"
  unfolding setup_end_def
proof (rule stores_bind [OF _ assms(1)])
  fix u st2
  assume "orReply (\<lambda>_. see_other ''/setup?err=invalid_form'')
       (onDb (SetupFirstAdministrator env (wr_Form r ''username'') (wr_Form r ''display_name'') (wr_Form r ''password'') l)) st1 = (Inr u, st2)"
  then have u: "fst (SetupFirstAdministrator env (wr_Form r ''username'') (wr_Form r ''display_name'') (wr_Form r ''password'') l (wb_db st1)) = Inr u"
    by (blast dest: orReply_Inr onDb_Inr)
  show "stores (opens env ui PostSetup r st) (cookie_id env ui r) st2 (snd (bindA (orReply (\<lambda>_. see_other ''/login?err=session_failed'')
       (put env (empty_session\<lparr>ss_UserID := u_ID u, ss_Name := u_Username u, ss_DisplayName := firstNonEmpty [u_DisplayName u, u_Username u],
          ss_Role := u_Role u, ss_Locale := i18n_Normalize (u_Locale u)\<rparr>))) (\<lambda>s.
       returnA \<lparr>rs_Cookies = [session_cookie env ui s, SetLocaleCookie (i18n_Normalize (ss_Locale s))], rs_Body = SeeOther ''/''\<rparr>) st2))"
    using u assms(2,3) by (intro stores_put) (auto simp: opens_def setup_opens_def empty_session_def)
qed (intro web_intros ses.moves_onDb_any)

lemma stores_postSetup:
  assumes "sessions_ok st"
  shows "stores (opens env ui PostSetup r st) (cookie_id env ui r) st (snd (postSetup env ui r st))"
proof -
  obtain q :: "response + bool" and st1 where ns: "needsSetup env ui st = (q, st1)" by fastforce
  have keep: "keeps_sessions (cookie_id env ui r) st st1" by (rule movesD [OF ses.moves_needsSetup assms ns])
  then have ok: "sessions_ok st1" using assms by (simp add: keeps_sessions_def)
  have run: "stores (opens env ui PostSetup r st) (cookie_id env ui r) st1 (snd (bindA (locale_of env ui r) (setup_end env ui r) st1))"
    if "q = Inr True"
  proof (rule stores_bind [OF ses.moves_locale_of [OF HOL.refl] ok])
    fix l st2
    assume l: "locale_of env ui r st1 = (Inr l, st2)" and ok2: "sessions_ok st2"
    have "same_db st1 st2" by (rule movesD [OF tab.moves_locale_of [OF HOL.refl] ok l])
    then have "same_tables (wb_db st) (wb_db st2)" using needsSetup_True ns that same_tables_trans by (fastforce simp: same_db_def)
    then show "stores (opens env ui PostSetup r st) (cookie_id env ui r) st2 (snd (setup_end env ui r l st2))"
      using needsSetup_True ns that ok2 by (intro stores_setup_end) auto
  qed
  have trans: "stores P (cookie_id env ui r) st1 x \<Longrightarrow> stores P (cookie_id env ui r) st x" for P x
    unfolding stores_def using keeps_sessions_trans [OF keep] by blast
  have "postSetup env ui r = bindA (needsSetup env ui) (\<lambda>setup. bindA (checkR (\<not> setup) (see_other ''/login'')) (\<lambda>_.
     bindA (checkR (wr_ParseErr r) (see_other ''/setup?err=invalid_form'')) (\<lambda>_.
     bindA (checkR (wr_Form r ''password'' \<noteq> wr_Form r ''password_confirm'') (see_other ''/setup?err=mismatch'')) (\<lambda>_.
     bindA (locale_of env ui r) (setup_end env ui r)))))"
    by (simp add: postSetup_def setup_end_def [abs_def])
  then show ?thesis using run trans ns stores_keeps [OF keep]
    by (cases q) (auto simp: bindA_def [of "needsSetup env ui"] checkR_def failA_def returnA_def bindA_def [of "Pair (Inl _)"] bindA_def [of "\<lambda>s. (Inl _, s)"] bindA_def [of "Pair (Inr ())"] bindA_def [of "\<lambda>s. (Inr (), s)"])
qed

text \<open>The second factor.\<close>

lemma keeps_sessions_eq: "wb_byID st' = wb_byID st \<Longrightarrow> keeps_sessions key st st'"
  by (simp add: keeps_sessions_def sessions_ok_def same_session_def)

definition mfa_end :: "'w env \<Rightarrow> session \<Rightarrow> user \<Rightarrow> ('w, response) webact" where
  "mfa_end env s u = bindA (clearMFA (ss_ID s)) (\<lambda>_. bindA (option_of (onDb (TouchLogin env (u_ID u)))) (\<lambda>_. returnA (see_other ''/'')))"

lemma mfa_end_byID:
  assumes "wb_byID st i = Some s" and "ss_ID s = i"
  shows "wb_byID (snd (mfa_end env s u st)) = (wb_byID st)(i \<mapsto> s\<lparr>ss_MFAPending := False\<rparr>)"
  using assms by (auto simp: mfa_end_def clearMFA_def update_session_def bindA_def option_of_def onDb_def split: prod.split sum.split)

lemma postMFA_cases:
  assumes "sessions_ok st" and "postMFA env ui r st = (q, st')"
  shows "keeps_sessions (cookie_id env ui r) st st' \<or> (\<exists>s. wb_byID st (cookie_id env ui r) = Some s \<and> second_factor env r st s \<and>
    wb_byID st' = (wb_byID st)(cookie_id env ui r \<mapsto> s\<lparr>ss_MFAPending := False\<rparr>))"
proof -
  obtain os st1 where sf: "sessionFrom env ui r st = (Inr os :: response + session option, st1)" using sessionFrom_Inr by blast
  have keep: "keeps_sessions (cookie_id env ui r) st st1" by (rule movesD [OF ses.moves_sessionFrom [OF HOL.refl] assms(1) sf])
  show ?thesis
  proof (cases os)
    case None
    then show ?thesis using assms(2) sf keep by (simp add: postMFA_def bindA_def)
  next
    case (Some s)
    let ?i = "cookie_id env ui r"
    have s: "wb_byID st ?i = Some s" "wb_byID st1 = wb_byID st" "same_tables (wb_db st) (wb_db st1)" "ss_ID s = ?i"
      using sessionFrom_Some sf Some assms(1) unfolding sessions_ok_def by fastforce+
    show ?thesis
    proof (cases "ss_MFAPending s \<and> ui_accounts ui")
      case False
      then show ?thesis using assms(2) sf keep Some by (auto simp: postMFA_def bindA_def checkR_def)
    next
      case True
      obtain qu st2 where gu: "onDb (GetUser env (ss_UserID s)) st1 = (qu, st2)" by fastforce
      note g = onDb_cases [OF gu]
      have st2: "same_tables (wb_db st) (wb_db st2)" "wb_byID st2 = wb_byID st"
        using g s same_tables_trans reads_same [OF reads_only_GetUser] by metis+
      show ?thesis
      proof (cases qu)
        case (Inl e)
        then show ?thesis using assms(2) sf gu True Some keeps_sessions_eq [OF st2(2)]
          by (auto simp: postMFA_def bindA_def checkR_def orReply_def)
      next
        case (Inr u)
        obtain qc st3 where cm: "onDb (ConsumeMFA env (Some u) (wr_Form r ''code'') (wr_Form r ''recovery'')) st2 = (qc, st3)" by fastforce
        note c = onDb_cases [OF cm]
        have st3: "wb_byID st3 = wb_byID st" using c st2 by simp
        show ?thesis
        proof (cases qc)
          case (Inl e)
          then show ?thesis using assms(2) sf gu cm Inr True Some keeps_sessions_eq [OF st3]
            by (auto simp: postMFA_def bindA_def checkR_def orReply_def)
        next
          case (Inr v)
          have "fst (GetUser env (ss_UserID s) (wb_db st1)) = Inr u"
            "fst (ConsumeMFA env (Some u) (wr_Form r ''code'') (wr_Form r ''recovery'') (wb_db st2)) = Inr ()"
            using g c Inr \<open>qu = Inr u\<close> by auto
          then have "second_factor env r st s" unfolding second_factor_def using s(3) st2(1) by blast
          moreover have "st' = snd (mfa_end env s u st3)"
            using assms(2) sf gu cm Inr \<open>qu = Inr u\<close> True Some
            by (simp add: postMFA_def mfa_end_def bindA_Inr checkR_def orReply_step)
          ultimately show ?thesis using s st3 mfa_end_byID [of st3 ?i s env u] by auto
        qed
      qed
    qed
  qed
qed

section \<open>Properties\<close>

lemma web_serve_frame:
  assumes "web_serve env ui w r st = (resp, st')"
  obtains q st1 where "whandler_of env ui w r st = (q, st1)" and "st' = st1 \<or> st' = snd (pageBase env ui r st1)"
  using assms by (auto simp: web_serve_def Let_def split: prod.splits if_splits)

lemma opens_same: "same_session y x \<Longrightarrow> ss_MFAPending x = ss_MFAPending y \<Longrightarrow> opens env ui w r st y \<Longrightarrow> opens env ui w r st x"
  by (auto simp: opens_def password_opens_def token_opens_def setup_opens_def same_session_def)

lemma accounted_then:
  assumes a: "accounted env ui w r st st1" and k: "keeps_sessions (cookie_id env ui r) st1 st'"
  shows "accounted env ui w r st st'"
  unfolding accounted_def
proof
  fix i
  show "wb_byID st' i = wb_byID st i \<or>
     i = cookie_id env ui r \<and> (\<forall>x. wb_byID st' i = Some x \<longrightarrow> (\<exists>y. wb_byID st i = Some y \<and> evolved env w r st y x)) \<or>
     (\<exists>x. wb_byID st' i = Some x \<and> opens env ui w r st x)"
  proof (cases "i = cookie_id env ui r")
    case False
    then have "wb_byID st' i = wb_byID st1 i" using k by (simp add: keeps_sessions_def)
    then show ?thesis using a unfolding accounted_def by metis
  next
    case i: True
    show ?thesis
    proof (cases "wb_byID st' i")
      case (Some x)
      obtain y where y: "wb_byID st1 i = Some y" "same_session y x" "ss_MFAPending x = ss_MFAPending y"
        using k Some i by (auto simp: keeps_sessions_def)
      consider "wb_byID st i = Some y" | z where "wb_byID st i = Some z" "evolved env w r st z y" | "opens env ui w r st y"
        using a [unfolded accounted_def, rule_format, of i] y(1) by auto
      then show ?thesis
      proof cases
        case 1
        then show ?thesis using y i Some by (auto simp: evolved_def)
      next
        case (2 z)
        then have "evolved env w r st z x" using y session_identity_trans by (auto simp: evolved_def)
        then show ?thesis using 2(1) i Some by auto
      next
        case 3
        then show ?thesis using opens_same [OF y(2,3)] Some by blast
      qed
    qed (use i in simp)
  qed
qed

lemma handlers_accounted:
  assumes "sessions_ok st" and h: "whandler_of env ui w r st = (q, st1)"
  shows "accounted env ui w r st st1 \<and> sessions_ok st1"
proof -
  let ?i = "cookie_id env ui r"
  have st1: "st1 = snd (whandler_of env ui w r st)" using h by simp
  consider "w = PostLogin" | "w = PostSetup" | "w = PostMFA" | "w \<notin> {PostLogin, PostSetup, PostMFA}" by blast
  then show ?thesis
  proof cases
    case 1
    then show ?thesis using accounted_stores [OF stores_postLogin [OF assms(1)] _ assms(1)] st1 by simp
  next
    case 2
    then show ?thesis using accounted_stores [OF stores_postSetup [OF assms(1)] _ assms(1)] st1 by simp
  next
    case 3
    have "accounted env ui w r st st1 \<and> sessions_ok st1" if "wb_byID st ?i = Some s" "second_factor env r st s"
        "wb_byID st1 = (wb_byID st)(?i \<mapsto> s\<lparr>ss_MFAPending := False\<rparr>)" for s
      using that assms(1) 3 by (auto simp: accounted_def evolved_def same_session_def sessions_ok_def)
    moreover have "accounted env ui w r st st1 \<and> sessions_ok st1" if "keeps_sessions ?i st st1"
      using accounted_keeps [OF that] that assms(1) by (simp add: keeps_sessions_def)
    moreover have "postMFA env ui r st = (q, st1)" using h 3 by simp
    ultimately show ?thesis using postMFA_cases [OF assms(1)] by blast
  next
    case 4
    have k: "keeps_sessions ?i st st1" by (rule movesD [OF ses.moves_handlers [OF HOL.refl 4] assms(1) h])
    show ?thesis using accounted_keeps [OF k] k assms(1) by (simp add: keeps_sessions_def)
  qed
qed

lemmas handlers_keep_ok = handlers_accounted [THEN conjunct2]

text \<open>C9: Every change of the store of sessions has a reason. A request leaves alone every session but the one of
  its own cookie; that one it may end, or change in its flash texts and language, and only the login of the
  second factor, with an accepted code for the user of the session, takes the mark off that keeps a half
  logged in session out. A new session is opened by an accepted password, pending when the user has a second
  factor; by a token that the API says belongs to a human role; or by the setup of the first administrator,
  when there was no user.\<close>

theorem web_sessions_accounted:
  assumes "sessions_ok st" and "web_serve env ui w r st = (resp, st')"
  shows "accounted env ui w r st st' \<and> sessions_ok st'"
proof -
  let ?i = "cookie_id env ui r"
  obtain q st1 where h: "whandler_of env ui w r st = (q, st1)" and st': "st' = st1 \<or> st' = snd (pageBase env ui r st1)"
    using web_serve_frame [OF assms(2)] by blast
  note a = handlers_accounted [OF assms(1) h]
  have k: "keeps_sessions ?i st1 st'"
    using st' ses.refl movesD [OF ses.moves_flash(3) [OF HOL.refl, of env ui r] _ prod.collapse [symmetric]] a by blast
  then have "sessions_ok st'" using a by (simp add: keeps_sessions_def)
  then show ?thesis using accounted_then [OF conjunct1 [OF a] k] by blast
qed

end
