(* ===== verification/WebAccess.thy ===== *)
theory WebAccess
  imports WebLaws
begin

text \<open>
  What a request of the browser may change in the tables: the guards of the web interface, on top of the laws of
  the accounts and of the API.
\<close>

section \<open>Views of the tables\<close>

definition same_view :: "('w db \<Rightarrow> 'p) \<Rightarrow> 'w web \<Rightarrow> 'w web \<Rightarrow> bool" where
  "same_view V st st' \<longleftrightarrow> (sessions_ok st \<longrightarrow> sessions_ok st') \<and> V (wb_db st') = V (wb_db st)"

lemma frame_view:
  fixes V :: "'w db \<Rightarrow> 'p"
  assumes "view V"
  shows "web_frame (same_view V) key"
proof
  fix st st1 st2 :: "'w web" and s :: "'w db" and f :: "session \<Rightarrow> session"
  show "same_view V st st" by (simp add: same_view_def)
  show "same_view V st st1 \<Longrightarrow> same_view V st1 st2 \<Longrightarrow> same_view V st st2" by (auto simp: same_view_def)
  show "same_view V st st1 \<Longrightarrow> sessions_ok st \<Longrightarrow> sessions_ok st1" by (simp add: same_view_def)
  show "same_tables (wb_db st) s \<Longrightarrow> same_view V st (set_db s st)" using view.same [OF assms] by (auto simp: same_view_def sessions_ok_def)
  show "same_view V st (st\<lparr>wb_byID := (wb_byID st)(key := None)\<rparr>)" by (simp add: same_view_def sessions_ok_def)
  show "(\<And>y. same_session y (f y) \<and> ss_MFAPending (f y) = ss_MFAPending y) \<Longrightarrow>
      same_view V st (case wb_byID st key of None \<Rightarrow> st | Some y \<Rightarrow> st\<lparr>wb_byID := (wb_byID st)(key \<mapsto> f y)\<rparr>)"
    by (auto simp: same_view_def same_session_def sessions_ok_def split: option.split)
qed

interpretation vinv: web_frame "same_view inventory_of" key for key
  by (rule frame_view) (rule inv.view_axioms)

interpretation vacc: web_frame "same_view accounts_of" key for key
  by (rule frame_view) (rule acc.view_axioms)

lemma moves_onDb_leaves: "leaves V m \<Longrightarrow> moves (same_view V) (onDb m)"
  unfolding moves_def onDb_def yields_def same_view_def sessions_ok_def by (auto split: prod.split)

lemma moves_put_view:
  fixes V :: "'w db \<Rightarrow> 'p"
  assumes "view V"
  shows "moves (same_view V) (put env inn)"
proof -
  have "same_view V st (snd (put env inn st))" for st
  proof -
    obtain q st' where p: "put env inn st = (q, st')" by fastforce
    have "leaves V (lift_world (e_rand env 16))" using view.leaves_world(1) [OF assms] .
    obtain z y where on: "onDb (lift_world (e_rand env 16)) st = (z, set_db y st)"
      by (cases "lift_world (e_rand env 16) (wb_db st)") (auto simp: onDb_def set_db_def)
    have y: "same_tables (wb_db st) y" using onDb_cases [OF on] reads_same [OF reads_only_lift] by simp
    then have "same_tables (wb_db st) (wb_db st')"
      using p on same_tables_trans [OF y nowA_same]
      by (cases z) (auto simp: put_def bindA_def timeNow_eq Let_def)
    then have "V (wb_db st') = V (wb_db st)" by (rule view.same [OF assms])
    moreover have "sessions_ok st \<longrightarrow> sessions_ok st'"
      using p by (cases rule: put_cases) (auto simp: sessions_ok_def)
    ultimately show ?thesis using p by (simp add: same_view_def)
  qed
  then show ?thesis by (simp add: moves_def)
qed

lemma moves_clearMFA: "moves (same_view V) (clearMFA i)"
  unfolding moves_def clearMFA_def update_session_def same_view_def sessions_ok_def by (auto split: option.split)

lemma serve_leaves:
  assumes "view V" and "\<And>r p. answers V (=) (handler_of env a e r p)"
  shows "same_view V st (st\<lparr>wb_srv := snd (serve env a e r (wb_srv st))\<rparr>)"
proof -
  obtain status b sv where s: "serve env a e r (wb_srv st) = ((status, b), sv)" by (metis prod.collapse)
  then show ?thesis using serve_answers [OF assms(1) assms(2) s]
    by (auto simp: same_view_def sessions_ok_def)
qed

section \<open>Routes that leave a part of the tables alone\<close>

text \<open>The actions on the inventory leave the accounts alone.\<close>

lemma acc_page_calls: "e \<in> set page_calls \<Longrightarrow> same_view accounts_of st (st\<lparr>wb_srv := snd (serve env a e r (wb_srv st))\<rparr>)"
proof -
  assume "e \<in> set page_calls"
  then have "e \<in> set reading \<or> e \<in> set inventory_side \<or> e \<in> set foreign_side" 
    by (auto simp: page_calls_def reading_def inventory_side_def foreign_side_def)
  then have "answers accounts_of (=) (handler_of env a e x p)" for x p
    using acc.answers_reading [of e "(=)"] acc.answers_inventory_side acc_foreign.answers_foreign_side
    by (auto simp: foreign_side_def)
  then show ?thesis by (rule serve_leaves [OF acc.view_axioms])
qed

lemma actions_leave_accounts:
  "cookie_id env ui r = key \<Longrightarrow> w \<in> set action_routes \<Longrightarrow> moves (same_view accounts_of) (whandler_of env ui w r)"
  by (rule vacc.moves_actions [OF _ acc_page_calls])

text \<open>The login and the account pages leave the inventory alone.\<close>

lemma inv_reading: "e \<in> set reading \<Longrightarrow> same_view inventory_of st (st\<lparr>wb_srv := snd (serve env a e r (wb_srv st))\<rparr>)"
  by (rule serve_leaves [OF inv.view_axioms]) (rule inv.answers_reading; simp)

lemmas inv_onDb = moves_onDb_leaves [where V = inventory_of]

lemma inv_login_ops:
  "leaves inventory_of (TouchLogin env uid)" "leaves inventory_of (SetLocale env uid l)" "leaves inventory_of (AuthenticatePassword env n p)"
  "leaves inventory_of (ConsumeMFA env ou c d)" "leaves inventory_of (SetupFirstAdministrator env x y z l)" "leaves inventory_of (CountUsers env)"
proof -
  have code: "leaves inventory_of (consume_recovery env u t)" for u t
    unfolding consume_recovery_def MarkRecoveryCodeUsed_def ListRecoveryCodeHashes_def
    by (auto intro!: api_intros inv.leaves_world inv.leaves_change split: option.split)
  show "leaves inventory_of (TouchLogin env uid)" unfolding TouchLogin_def by (intro api_intros inv.leaves_user_store inv.leaves_world)
  show "leaves inventory_of (SetLocale env uid l)" unfolding SetLocale_def by (rule inv.leaves_update_with)
  show "leaves inventory_of (AuthenticatePassword env n p)" by (rule inv.leaves_reads) (rule reads_only_AuthenticatePassword)
  show "leaves inventory_of (CountUsers env)" unfolding CountUsers_def by (rule inv.leaves_world)
  then show "leaves inventory_of (SetupFirstAdministrator env x y z l)"
    unfolding SetupFirstAdministrator_def by (auto intro!: api_intros inv.leaves_accounts)
  show "leaves inventory_of (ConsumeMFA env ou c d)"
    unfolding ConsumeMFA_def Let_def
    by (auto intro!: api_intros code inv.leaves_reads [OF reads_only_check_code] split: option.split)
qed

lemmas inv_moves = vinv.moves_return vinv.moves_fail vinv.moves_pair vinv.moves_bind vinv.moves_orReply vinv.moves_option_of vinv.moves_checkR
  vinv.moves_sessionFrom vinv.moves_locale_of vinv.moves_needsSetup vinv.moves_flash vinv.moves_writeForbidden vinv.moves_plans
  vinv.moves_purge vinv.moves_sets inv_onDb [OF inv_login_ops(1)] inv_onDb [OF inv_login_ops(2)] inv_onDb [OF inv_login_ops(3)]
  inv_onDb [OF inv_login_ops(4)] inv_onDb [OF inv_login_ops(5)] inv_onDb [OF inv.leaves_accounts(1)] inv_onDb [OF inv.leaves_accounts(2)]
  inv_onDb [OF inv.leaves_accounts(3)] inv_onDb [OF inv.leaves_accounts(4)] inv_onDb [OF inv.leaves_ConfirmTOTP]
  inv_onDb [OF inv.leaves_RotateRecoveryCodes] inv_onDb [OF inv.leaves_user_store(3)] moves_put_view [OF inv.view_axioms] moves_clearMFA

lemma inv_whoami: "moves (same_view inventory_of) (api_call env ui so tok Whoami i inp)"
  by (rule vinv.moves_api_call) (rule inv_reading, simp add: reading_def)

lemma inv_pages:
  assumes "w \<notin> set action_routes"
  shows "moves (same_view inventory_of) (whandler_of env ui w r)"
proof -
  note defs = getLogin_def postLogin_def password_login_def loginWithToken_def getMFA_def postMFA_def getSetup_def postSetup_def Let_def
  have login: "moves (same_view inventory_of) (getLogin env ui r)" "moves (same_view inventory_of) (postLogin env ui r)"
    "moves (same_view inventory_of) (getMFA env ui r)" "moves (same_view inventory_of) (postMFA env ui r)"
    "moves (same_view inventory_of) (getSetup env ui r)" "moves (same_view inventory_of) (postSetup env ui r)"
    unfolding defs by (auto intro!: inv_moves inv_whoami split: option.split reply.split)
  have pages: "moves (same_view inventory_of) (postLogout env ui r)" "moves (same_view inventory_of) (postLocale env ui r)"
    unfolding postLogout_def postLocale_def Let_def
    by (rule vinv.moves_session [OF HOL.refl]; auto intro!: inv_moves)+
  have users: "moves (same_view inventory_of) (userCreate env ui r)" "moves (same_view inventory_of) (userUpdate env ui r)"
    unfolding userCreate_def userUpdate_def by (auto intro!: inv_moves)
  have settings: "moves (same_view inventory_of) (settingsPassword env ui r)" "moves (same_view inventory_of) (settingsTOTPBegin env ui r)"
    "moves (same_view inventory_of) (settingsTOTPConfirm env ui r)" "moves (same_view inventory_of) (settingsTOTPDisable env ui r)"
    "moves (same_view inventory_of) (settingsRecovery env ui r)"
    unfolding settingsPassword_def settingsTOTPBegin_def settingsTOTPConfirm_def settingsTOTPDisable_def settingsRecovery_def settings_reply_def own_account_def
    by (auto intro!: inv_moves split: option.split prod.split)
  show ?thesis using assms login pages users settings
    by (cases w) (simp_all add: action_routes_def read_page_def vinv.moves_guards [OF HOL.refl] vinv.moves_return)
qed

section \<open>Guards\<close>

definition signed_in :: "'w env \<Rightarrow> 'w ui \<Rightarrow> web_request \<Rightarrow> 'w web \<Rightarrow> session \<Rightarrow> bool" where
  "signed_in env ui r st s \<longleftrightarrow> cookie_id env ui r \<noteq> [] \<and> wb_byID st (cookie_id env ui r) = Some s \<and>
     (\<exists>st0. same_tables (wb_db st) (wb_db st0) \<and> clock_of env st0 < ss_Expires s)"

lemma session_cases:
  fixes k :: "session option \<Rightarrow> ('w web, 'e, 'a) act"
  assumes "bindA (sessionFrom env ui r) k st = (q, st')" and "sessions_ok st"
  obtains s st1 where "signed_in env ui r st s" and "wb_byID st1 = wb_byID st" and "same_tables (wb_db st) (wb_db st1)" and "k (Some s) st1 = (q, st')"
  | st1 where "sessions_ok st1" and "same_tables (wb_db st) (wb_db st1)" and "k None st1 = (q, st')"
proof -
  obtain os st1 where sf: "sessionFrom env ui r st = (Inr os :: 'e + session option, st1)" using sessionFrom_Inr by blast
  then have k: "k os st1 = (q, st')" using assms(1) by (simp add: bindA_def)
  have db: "same_db st st1" by (rule movesD [OF tab.moves_sessionFrom [OF HOL.refl] assms(2) sf])
  show thesis
  proof (cases os)
    case None
    then show thesis using that(2) k db assms(2) by (auto simp: same_db_def)
  next
    case (Some s)
    have "signed_in env ui r st s" "wb_byID st1 = wb_byID st"
      using sessionFrom_Some sf Some unfolding signed_in_def by (metis same_tables_refl set_db_sels(2))+
    then show thesis using that(1) k db Some by (auto simp: same_db_def)
  qed
qed

lemma forbidden_same: "sessions_ok st \<Longrightarrow> writeForbidden env ui r st = (q, st') \<Longrightarrow> same_tables (wb_db st) (wb_db st')"
  using movesD [OF tab.moves_writeForbidden [OF HOL.refl]] by (fastforce simp: same_db_def)

lemma never_writes: "writeForbidden env ui r st \<noteq> (Inr x, st')"
  by (auto simp: writeForbidden_def bindA_def Let_def split: prod.split sum.split)

lemma signed_in_later: "signed_in env ui r st1 s \<Longrightarrow> wb_byID st1 = wb_byID st \<Longrightarrow> same_tables (wb_db st) (wb_db st1) \<Longrightarrow> signed_in env ui r st s"
  unfolding signed_in_def using same_tables_trans by metis

lemma signed_in_unique: "signed_in env ui r st s \<Longrightarrow> signed_in env ui r st x \<Longrightarrow> x = s"
  by (simp add: signed_in_def)

text \<open>A guarded handler runs for a session that is signed in, in a state with the same tables and sessions.\<close>

definition passed :: "'w env \<Rightarrow> 'w ui \<Rightarrow> web_request \<Rightarrow> 'w web \<Rightarrow> session \<Rightarrow> 'w web \<Rightarrow> bool" where
  "passed env ui r st s st1 \<longleftrightarrow> signed_in env ui r st s \<and> wb_byID st1 = wb_byID st \<and> same_tables (wb_db st) (wb_db st1)"

lemma passed_then:
  assumes "passed env ui r st s st1" and "passed env ui r st1 x st2"
  shows "passed env ui r st s st2 \<and> x = s"
  using assms signed_in_later signed_in_unique same_tables_trans unfolding passed_def by metis

lemma requireSession_cases:
  assumes "requireSession env ui h r st = (q, st')" and "sessions_ok st"
  obtains "same_tables (wb_db st) (wb_db st')"
  | s st1 where "passed env ui r st s st1" and "\<not> ss_MFAPending s" and "h r st1 = (q, st')"
proof -
  note done1 = that(1) and done2 = that(2)
  define k where "k os = (case os of None \<Rightarrow> failA (send_to r ''/login'' ''session expired'')
     | Some s \<Rightarrow> if ss_MFAPending s then failA (send_to r ''/login/mfa'' ''mfa required'') else h r)" for os :: "session option"
  obtain p :: "response + bool" and st1 where ns: "needsSetup env ui st = (p, st1)" by fastforce
  have db: "same_db st st1" by (rule movesD [OF tab.moves_needsSetup assms(2) ns])
  have by_id: "wb_byID st1 = wb_byID st"
    using ns by (auto simp: needsSetup_def bindA_def option_of_def onDb_def split: if_splits prod.splits sum.splits)
  have go: "thesis" if run: "bindA (sessionFrom env ui r) k st1 = (q, st')"
    using run
  proof (rule session_cases)
    show "sessions_ok st1" using assms(2) db by (simp add: same_db_def)
  next
    fix s st2
    assume *: "signed_in env ui r st1 s" "wb_byID st2 = wb_byID st1" "same_tables (wb_db st1) (wb_db st2)" "k (Some s) st2 = (q, st')"
    then have "passed env ui r st s st2"
      using db by_id signed_in_later same_tables_trans unfolding passed_def same_db_def by metis
    then have p: "passed env ui r st s st2" and same: "same_tables (wb_db st) (wb_db st2)" by (simp_all add: passed_def)
    show thesis
    proof (cases "ss_MFAPending s")
      case True
      then show thesis using done1 same *(4) by (simp add: k_def)
    next
      case False
      then show thesis using done2 [OF p] *(4) by (simp add: k_def)
    qed
  next
    fix st2
    assume "same_tables (wb_db st1) (wb_db st2)" "k None st2 = (q, st')"
    then show thesis using done1 db same_tables_trans by (auto simp: k_def same_db_def)
  qed
  show thesis using assms(1) ns go done1 db unfolding requireSession_def k_def [symmetric]
    by (cases p) (auto simp: bindA_def [of "needsSetup env ui"] failA_def same_db_def k_def split: if_splits)
qed

lemma guard_cases:
  assumes "bindA (sessionFrom env ui r) (\<lambda>os. case os of None \<Rightarrow> writeForbidden env ui r
     | Some s \<Rightarrow> if ok s then k s else writeForbidden env ui r) st = (q, st')" and "sessions_ok st"
  obtains "same_tables (wb_db st) (wb_db st')" | s st1 where "passed env ui r st s st1" and "ok s" and "k s st1 = (q, st')"
  using assms
proof (rule session_cases)
  fix s st1
  assume *: "signed_in env ui r st s" "wb_byID st1 = wb_byID st" "same_tables (wb_db st) (wb_db st1)"
    "(case Some s of None \<Rightarrow> writeForbidden env ui r | Some s \<Rightarrow> if ok s then k s else writeForbidden env ui r) st1 = (q, st')"
  then have ok1: "sessions_ok st1" using assms(2) by (simp add: sessions_ok_def)
  show thesis
  proof (cases "ok s")
    case True
    then show thesis using that(2) * by (simp add: passed_def)
  next
    case False
    then have "same_tables (wb_db st1) (wb_db st')" using forbidden_same [OF ok1] *(4) by simp
    then show thesis using that(1) same_tables_trans [OF *(3)] by blast
  qed
next
  fix st1
  assume "sessions_ok st1" "same_tables (wb_db st) (wb_db st1)"
    "(case None of None \<Rightarrow> writeForbidden env ui r | Some s \<Rightarrow> if ok s then k s else writeForbidden env ui r) st1 = (q, st')"
  then show thesis using that(1) forbidden_same same_tables_trans by (metis option.case(1))
qed

lemma requireAdmin_cases:
  assumes "requireAdmin env ui h r st = (q, st')" and "sessions_ok st"
  obtains "same_tables (wb_db st) (wb_db st')" | s st1 where "passed env ui r st s st1" and "canAdmin (ss_Role s)" and "h r st1 = (q, st')"
  using guard_cases [of env ui r "\<lambda>s. canAdmin (ss_Role s)" "\<lambda>s. h r"] assms unfolding requireAdmin_def by blast

lemma requireWrite_cases:
  assumes "bindA (requireWrite env ui r) k st = (q, st')" and "sessions_ok st"
  shows "same_tables (wb_db st) (wb_db st') \<or> (\<exists>s. signed_in env ui r st s \<and> canWrite (ss_Role s))"
proof -
  obtain p :: "response + unit" and st1 where w: "requireWrite env ui r st = (p, st1)" by fastforce
  show ?thesis
  proof (cases p)
    case (Inl resp)
    have "same_db st st1" by (rule movesD [OF tab.moves_guards(1) [OF HOL.refl] assms(2) w])
    then show ?thesis using assms(1) w Inl by (simp add: bindA_def same_db_def)
  next
    case (Inr u)
    have "bindA (sessionFrom env ui r) (\<lambda>os. case os of None \<Rightarrow> writeForbidden env ui r
       | Some s \<Rightarrow> if canWrite (ss_Role s) then returnA () else writeForbidden env ui r) st = (p, st1)"
      using w by (simp add: requireWrite_def)
    then show ?thesis
    proof (rule session_cases [OF _ assms(2)])
      fix s st2
      assume *: "signed_in env ui r st s" "(case Some s of None \<Rightarrow> writeForbidden env ui r
       | Some s \<Rightarrow> if canWrite (ss_Role s) then returnA () else writeForbidden env ui r) st2 = (p, st1)"
      then have "canWrite (ss_Role s)" using Inr by (auto simp: never_writes split: if_splits)
      then show ?thesis using *(1) by blast
    next
      fix st2
      assume "(case None of None \<Rightarrow> writeForbidden env ui r
       | Some s \<Rightarrow> if canWrite (ss_Role s) then returnA () else writeForbidden env ui r) st2 = (p, st1)"
      then show ?thesis using Inr by (auto simp: never_writes)
    qed
  qed
qed

section \<open>The account of a session\<close>

lemma settings_step:
  assumes "sessions_ok st" and "I (wb_db st)" and "view I" and "keeps I m" and "\<And>x. moves same_db (k x)"
    and "bindA (settings_reply ui m) k st = (q, st')"
  shows "I (wb_db st')"
proof -
  obtain z st1 where on: "onDb m st = (z, st1)" by fastforce
  have st1: "I (wb_db st1)" "sessions_ok st1"
    using keepsD [OF assms(4) conjunct1 [OF onDb_cases [OF on]] assms(2)] onDb_cases [OF on] assms(1) by (simp_all add: sessions_ok_def)
  show ?thesis
  proof (cases z)
    case (Inl e)
    then show ?thesis using assms(6) on st1 by (simp add: settings_reply_def orReply_def bindA_def)
  next
    case (Inr x)
    then have "k x st1 = (q, st')" using assms(6) on by (simp add: settings_reply_def orReply_def bindA_def)
    then have "same_db st1 st'" by (rule movesD [OF assms(5) st1(2)])
    then show ?thesis using view.same [OF assms(3)] st1(1) by (auto simp: same_db_def)
  qed
qed

definition settings_routes :: "wroute list" where
  "settings_routes = [SettingsPassword, SettingsTOTPBegin, SettingsTOTPConfirm, SettingsTOTPDisable, SettingsRecovery]"

fun settings_handler :: "'w env \<Rightarrow> 'w ui \<Rightarrow> wroute \<Rightarrow> 'w whandler" where
  "settings_handler env ui SettingsPassword = settingsPassword env ui"
| "settings_handler env ui SettingsTOTPBegin = settingsTOTPBegin env ui"
| "settings_handler env ui SettingsTOTPConfirm = settingsTOTPConfirm env ui"
| "settings_handler env ui SettingsTOTPDisable = settingsTOTPDisable env ui"
| "settings_handler env ui w = settingsRecovery env ui"

lemma own_account_guard:
  "own_account env ui r k = bindA (sessionFrom env ui r) (\<lambda>os. case os of None \<Rightarrow> writeForbidden env ui r
     | Some s \<Rightarrow> if ss_UserID s \<noteq> [] \<and> ui_accounts ui then k (ss_UserID s) else writeForbidden env ui r)"
  unfolding own_account_def by (intro arg_cong2 [where f = bindA] HOL.refl ext) (auto split: option.split)

lemma settings_own:
  assumes "own_account env ui r k st = (q, st')" and "sessions_ok st" and "distinct (map u_ID (db_users (wb_db st)))"
    and step: "\<And>uid c st1. sessions_ok st1 \<Longrightarrow> own_inv uid c (wb_db st1) \<Longrightarrow> own_inv uid c (wb_db (snd (k uid st1)))"
  shows "same_tables (wb_db st) (wb_db st') \<or>
    (\<exists>s. signed_in env ui r st s \<and> ss_UserID s \<noteq> [] \<and> others (ss_UserID s) (wb_db st') = others (ss_UserID s) (wb_db st))"
  using assms(1) [unfolded own_account_guard] assms(2)
proof (cases rule: guard_cases)
  case (2 s st1)
  have ok1: "sessions_ok st1" using assms(2) 2(1) by (simp add: passed_def sessions_ok_def)
  have "own_inv (ss_UserID s) (others (ss_UserID s) (wb_db st)) (wb_db st)" using assms(3) by (simp add: own_inv_def)
  then have "own_inv (ss_UserID s) (others (ss_UserID s) (wb_db st)) (wb_db st1)"
    using 2(1) view.same [OF own_view, of "wb_db st" "wb_db st1"] by (simp add: passed_def)
  from step [OF ok1 this] have "others (ss_UserID s) (wb_db st') = others (ss_UserID s) (wb_db st)" using 2(3) by (simp add: own_inv_def)
  then show ?thesis using 2(1,2) by (auto simp: passed_def)
qed simp

lemma others_same: "same_tables s s' \<Longrightarrow> others uid s' = others uid s"
  by (auto simp: others_def elim!: same_tablesE)

lemma settings_reply_own:
  assumes "sessions_ok st" and "distinct (map u_ID (db_users (wb_db st)))" and "\<And>uid c. keeps (own_inv uid c) (m uid)" and "\<And>uid x. moves same_db (k uid x)"
    and "own_account env ui r (\<lambda>uid. bindA (settings_reply ui (m uid)) (k uid)) st = (q, st')"
  shows "same_tables (wb_db st) (wb_db st') \<or>
    (\<exists>s. signed_in env ui r st s \<and> ss_UserID s \<noteq> [] \<and> others (ss_UserID s) (wb_db st') = others (ss_UserID s) (wb_db st))"
  by (rule settings_own [OF assms(5,1,2)], rule settings_step [OF _ _ own_view assms(3,4) prod.collapse [symmetric]])

lemma settings_handlers_own:
  assumes "settings_handler env ui w r st = (q, st')" and "sessions_ok st" and "distinct (map u_ID (db_users (wb_db st)))" and "w \<in> set settings_routes"
  shows "same_tables (wb_db st) (wb_db st') \<or>
    (\<exists>s. signed_in env ui r st s \<and> ss_UserID s \<noteq> [] \<and> others (ss_UserID s) (wb_db st') = others (ss_UserID s) (wb_db st))"
proof -
  note own = settings_reply_own [OF assms(2,3)]
  note tail = tab.moves_bind tab.moves_flash [OF HOL.refl] tab.moves_return
  consider "w = SettingsPassword" | "w = SettingsTOTPBegin" | "w = SettingsTOTPConfirm" | "w = SettingsTOTPDisable" | "w = SettingsRecovery"
    using assms(4) by (auto simp: settings_routes_def)
  then show ?thesis
  proof cases
    case 1
    show ?thesis using assms(1) [unfolded 1 settings_handler.simps settingsPassword_def]
      by (rule own [rotated 2]) (intro own_Patch tail; simp)+
  next
    case 2
    have "moves same_db (case x of (url, secret) \<Rightarrow> returnA (respond (Page 200 ''settings'' (TotpData url secret))))" for x
      by (simp add: prod.case_eq_if tab.moves_return)
    then show ?thesis using assms(1) [unfolded 2 settings_handler.simps settingsTOTPBegin_def] own_Begin
      by (intro own [where m = "BeginTOTP env"])
  next
    case 3
    show ?thesis using assms(1) [unfolded 3 settings_handler.simps settingsTOTPConfirm_def]
      by (rule own [rotated 2]) (intro own_Confirm tail)+
  next
    case 4
    show ?thesis using assms(1) [unfolded 4 settings_handler.simps settingsTOTPDisable_def]
      by (rule own [rotated 2]) (intro own_Disable tail)+
  next
    case 5
    show ?thesis using assms(1) [unfolded 5 settings_handler.simps settingsRecovery_def]
      by (rule own [rotated 2]) (intro own_Rotate tail)+
  qed
qed

section \<open>Properties\<close>

definition login_routes :: "wroute list" where
  "login_routes = [PostLogin, PostMFA, PostSetup, PostLocale]"

definition may_change_inventory :: "'w env \<Rightarrow> 'w ui \<Rightarrow> web_request \<Rightarrow> 'w web \<Rightarrow> bool" where
  "may_change_inventory env ui r st \<longleftrightarrow> (\<exists>s. signed_in env ui r st s \<and> \<not> ss_MFAPending s \<and> canWrite (ss_Role s))"

definition may_change_accounts :: "'w env \<Rightarrow> 'w ui \<Rightarrow> web_request \<Rightarrow> 'w web \<Rightarrow> 'w db \<Rightarrow> bool" where
  "may_change_accounts env ui r st s' \<longleftrightarrow> (\<exists>s. signed_in env ui r st s \<and> \<not> ss_MFAPending s \<and>
     (canAdmin (ss_Role s) \<or> ss_UserID s \<noteq> [] \<and> others (ss_UserID s) s' = others (ss_UserID s) (wb_db st)))"

lemma write_actions:
  assumes "whandler_of env ui w r st = (q, st')" and "w \<in> set action_routes" and "w \<noteq> NodePlan" and "sessions_ok st"
  shows "same_tables (wb_db st) (wb_db st') \<or> may_change_inventory env ui r st"
proof -
  have guarded: "same_tables (wb_db st) (wb_db st') \<or> may_change_inventory env ui r st"
    if run: "requireSession env ui (\<lambda>r. bindA (requireWrite env ui r) (k r)) r st = (q, st')" for k
    using run assms(4)
  proof (cases rule: requireSession_cases)
    case (2 s st1)
    have "sessions_ok st1" using 2(1) assms(4) by (simp add: passed_def sessions_ok_def)
    from requireWrite_cases [OF 2(3) this] show ?thesis
    proof
      assume "\<exists>x. signed_in env ui r st1 x \<and> canWrite (ss_Role x)"
      then obtain x where x: "signed_in env ui r st1 x" "canWrite (ss_Role x)" by blast
      then have "signed_in env ui r st x" using signed_in_later 2(1) by (auto simp: passed_def)
      then have "x = s" using signed_in_unique 2(1) by (auto simp: passed_def)
      then show ?thesis using x 2(1,2) by (auto simp: may_change_inventory_def passed_def)
    qed (use 2(1) same_tables_trans in \<open>auto simp: passed_def\<close>)
  qed simp
  show ?thesis using assms(1-3) guarded
    by (auto simp: action_routes_def nodeDryRun_def [abs_def] nodeApply_def [abs_def] nodeFailback_def [abs_def] mappingPatch_def [abs_def]
        mappingDelete_def [abs_def] backendCreate_def [abs_def] backendUpdate_def [abs_def] tunnelCreate_def [abs_def] mappingCreate_def [abs_def]
        mappingUpdate_def [abs_def] sniCreate_def [abs_def] sniUpdate_def [abs_def] saveForeignNode_def [abs_def] write_form_def)
qed

lemma plan_leaves_inventory:
  "moves (same_view inventory_of) (whandler_of env ui NodePlan r)"
proof -
  have call: "moves (same_view inventory_of) (session_call env ui r PlanE i inp)" for i inp
    by (rule vinv.moves_session_call [OF HOL.refl]) (rule inv_reading, simp add: reading_def)
  have "moves (same_view inventory_of) (nodePlan env ui r)"
    unfolding nodePlan_def by (auto intro!: inv_moves vinv.moves_result_of call split: sum.split reply.split)
  then show ?thesis by (simp add: vinv.moves_guards [OF HOL.refl])
qed

lemma inventory_changes:
  assumes "whandler_of env ui w r st = (q, st')" and "sessions_ok st"
  shows "inventory_of (wb_db st') = inventory_of (wb_db st) \<or> may_change_inventory env ui r st"
proof -
  consider "w \<in> set action_routes" "w \<noteq> NodePlan" | "w = NodePlan" | "w \<notin> set action_routes" by blast
  then show ?thesis
  proof cases
    case 1
    then show ?thesis using write_actions [OF assms(1) 1 assms(2)] inv.same by blast
  next
    case 2
    then show ?thesis using movesD [OF plan_leaves_inventory assms(2)] assms(1) by (auto simp: same_view_def)
  next
    case 3
    then show ?thesis using movesD [OF inv_pages [OF 3] assms(2,1)] by (simp add: same_view_def)
  qed
qed

lemma account_changes:
  assumes "whandler_of env ui w r st = (q, st')" and "sessions_ok st" and "distinct (map u_ID (db_users (wb_db st)))" and "w \<notin> set login_routes"
  shows "accounts_of (wb_db st') = accounts_of (wb_db st) \<or> may_change_accounts env ui r st (wb_db st')"
proof -
  consider "w \<in> set action_routes" | "w \<in> set settings_routes" | "w = UserCreate \<or> w = UserUpdate" | "w \<in> {GetLogin, GetMFA, GetSetup, PostLogout} \<or> (\<exists>n. w = ReadPage n \<or> w = AdminPage n)"
    using assms(4) by (cases w) (auto simp: action_routes_def settings_routes_def login_routes_def)
  then show ?thesis
  proof cases
    case 1
    then show ?thesis using movesD [OF actions_leave_accounts [OF HOL.refl 1] assms(2,1)] by (simp add: same_view_def)
  next
    case 2
    then have "requireSession env ui (settings_handler env ui w) r st = (q, st')" using assms(1) by (auto simp: settings_routes_def)
    then show ?thesis using assms(2)
    proof (cases rule: requireSession_cases)
      case (2 s st1)
      note p = 2(1)
      have db: "same_tables (wb_db st) (wb_db st1)" and ok1: "sessions_ok st1" using p assms(2) by (simp_all add: passed_def sessions_ok_def)
      have d1: "distinct (map u_ID (db_users (wb_db st1)))" using assms(3) acc.same [OF db] by (simp add: accounts_of_def)
      from settings_handlers_own [OF 2(3) ok1 d1 \<open>w \<in> set settings_routes\<close>] show ?thesis
      proof
        assume "same_tables (wb_db st1) (wb_db st')"
        then show ?thesis using acc.same same_tables_trans [OF db] by blast
      next
        assume "\<exists>x. signed_in env ui r st1 x \<and> ss_UserID x \<noteq> [] \<and> others (ss_UserID x) (wb_db st') = others (ss_UserID x) (wb_db st1)"
        then obtain x where x: "signed_in env ui r st1 x" "ss_UserID x \<noteq> []" "others (ss_UserID x) (wb_db st') = others (ss_UserID x) (wb_db st1)" by blast
        then have "x = s" using signed_in_later signed_in_unique p unfolding passed_def by metis
        then show ?thesis using x p 2(2) others_same [OF db] by (auto simp: may_change_accounts_def passed_def)
      qed
    qed (use acc.same in blast)
  next
    case 3
    then obtain h where "requireSession env ui (requireAdmin env ui h) r st = (q, st')" using assms(1) by auto
    then show ?thesis using assms(2)
    proof (cases rule: requireSession_cases)
      case (2 s st1)
      note p = 2(1)
      have db: "same_tables (wb_db st) (wb_db st1)" and ok1: "sessions_ok st1" using p assms(2) by (simp_all add: passed_def sessions_ok_def)
      from 2(3) ok1 show ?thesis
      proof (cases rule: requireAdmin_cases)
        case 1
        then show ?thesis using acc.same same_tables_trans [OF db] by blast
      next
        case a: (2 x st2)
        then have "x = s" using signed_in_later signed_in_unique p unfolding passed_def by metis
        then show ?thesis using a(2) p \<open>\<not> ss_MFAPending s\<close> by (auto simp: may_change_accounts_def passed_def)
      qed
    qed (use acc.same in blast)
  next
    case 4
    note tabs = tab.moves_return tab.moves_fail tab.moves_pair tab.moves_bind tab.moves_sessionFrom [OF HOL.refl] tab.moves_needsSetup
      tab.moves_plans [OF HOL.refl] tab.moves_purge
    have "moves same_db (getLogin env ui r)" "moves same_db (getMFA env ui r)" "moves same_db (getSetup env ui r)"
      unfolding getLogin_def getMFA_def getSetup_def by (auto intro!: tabs split: option.split)
    moreover have "moves same_db (postLogout env ui r)"
      unfolding postLogout_def by (rule tab.moves_session [OF HOL.refl]; auto intro!: tabs)
    ultimately have "moves same_db (whandler_of env ui w r)"
      using 4 by (auto simp: tab.moves_guards [OF HOL.refl] read_page_def tab.moves_return tab.moves_pair)
    from movesD [OF this assms(2,1)] show ?thesis using acc.same by (auto simp: same_db_def)
  qed
qed

lemma page_frame_same:
  assumes "sessions_ok st1" and "st' = st1 \<or> st' = snd (pageBase env ui r st1)"
  shows "same_tables (wb_db st1) (wb_db st')"
  using assms movesD [OF tab.moves_flash(3) [OF HOL.refl, of env ui r] assms(1) prod.collapse [symmetric]]
  by (auto simp: same_db_def same_tables_refl)


section \<open>Witnesses\<close>

definition sample_ui :: "nat ui" where
  "sample_ui = \<lparr>ui_api = sample_api, ui_secret = ''ui-secret'', ui_accounts = True, ui_liveApply = False, ui_cat = (\<lambda>_ _. None),
     ui_enc = \<lparr>en_backend = b_Name, en_tunnel = t_ID, en_mapping = m_ID, en_mapping_patch = (\<lambda>_. []), en_sni = r_ID, en_apply = (\<lambda>_. []),
       en_failback = (\<lambda>b a. b), en_foreign = fi_Name, en_foreign_patch = (\<lambda>_. [])\<rparr>, ui_txt = (\<lambda>_. [])\<rparr>"

definition stranger :: web_request where
  "stranger = \<lparr>wr_Cookie = (\<lambda>_. None), wr_Form = (\<lambda>_. ''x''), wr_ParseErr = False, wr_Header = (\<lambda>_. []), wr_Query = (\<lambda>_. []), wr_ID = ''m1''\<rparr>"

definition sample_session :: session where
  "sample_session = empty_session\<lparr>ss_ID := ''s1'', ss_UserID := ''u1'', ss_Name := ''root'', ss_Role := ''administrator'', ss_Expires := 100\<rparr>"

definition sample_web :: "nat web" where
  "sample_web = \<lparr>wb_srv = sample_server, wb_byID = [''s1'' \<mapsto> sample_session]\<rparr>"

lemma sample_web_ok: "sessions_ok sample_web" "distinct (map u_ID (db_users (wb_db sample_web)))" "cookie_id sample_env sample_ui stranger = []"
  by (simp_all add: sessions_ok_def sample_web_def sample_session_def sample_server_def sample_store_def sample_tokens_def empty_db_def api_New_def
      cookie_id_def stranger_def)

lemma web_sessions_accounted_witness:
  "wb_byID (snd (web_serve sample_env sample_ui PostLogout stranger sample_web)) ''s1'' = Some sample_session"
proof -
  obtain resp st' where run: "web_serve sample_env sample_ui PostLogout stranger sample_web = (resp, st')" by fastforce
  have "accounted sample_env sample_ui PostLogout stranger sample_web st'"
    using web_sessions_accounted [OF sample_web_ok(1) run] by blast
  then have "wb_byID st' ''s1'' = wb_byID sample_web ''s1''"
    unfolding accounted_def sample_web_ok(3) by (auto simp: opens_def dest!: spec [of _ "''s1''"])
  then show ?thesis using run by (simp add: sample_web_def)
qed


end
