(* ===== verification/ForeignLaws.thy ===== *)
theory ForeignLaws
  imports UserAccess
begin

text \<open>
  Who changes the foreign nodes, and how. No other handler touches their table (the table is a view that neither the
  account side nor the inventory side moves), and the two that write make one step of it (\<open>foreign_step\<close>), which
  keeps identifiers and names unique and every row valid.
\<close>

section \<open>Steps of the table\<close>

definition valid_row :: "foreign_node \<Rightarrow> bool" where
  "valid_row n \<longleftrightarrow> Foreign_Validate (fn_Input n) = Inr (fn_Input n)"

definition goes :: "bool \<Rightarrow> 'w db \<Rightarrow> 'a \<Rightarrow> 'w db \<Rightarrow> bool" where
  "goes ok s x s' \<longleftrightarrow> ok \<longrightarrow> foreign_step (db_foreign s) (db_foreign s')"

lemma reads_valid_foreign: "once_valid n \<Longrightarrow> reads (\<lambda>_ m. m = n \<and> valid_row m) (valid_foreign n)"
  unfolding reads_def valid_row_def
  using valid_foreign_once [of n] reads_same [OF reads_only_valid_foreign, of n] by blast

lemma CreateForeignNode_steps:
  assumes "once_valid n"
  shows "effects (goes True) (CreateForeignNode env n)"
  unfolding CreateForeignNode_def
proof (rule effects_bind_reads [OF reads_valid_foreign [OF assms]], rule effects_then [where R = "goes (valid_row m)" for m],
    rule effects_stamped, rule effects_insertA)
  fix m :: foreign_node and c u and s :: "'a db"
  assume "first_err [foreign_checks env (fn_Input m), constraint (\<forall>r \<in> set (db_foreign s). fn_ID r \<noteq> fn_ID m \<and>
      fi_Name (fn_Input r) \<noteq> fi_Name (fn_Input m)) (e_unique env)] = None"
  then show "goes (valid_row m) s () (s\<lparr>db_foreign := db_foreign s @ [m\<lparr>fn_CreatedAt := c, fn_UpdatedAt := u\<rparr>]\<rparr>)"
    unfolding goes_def foreign_step_def valid_row_def foreign_checks_def
    by (intro impI disjI1 exI [of _ "m\<lparr>fn_CreatedAt := c, fn_UpdatedAt := u\<rparr>"]) simp
qed (auto simp: goes_def)

lemma UpdateForeignNode_steps:
  assumes "once_valid n"
  shows "effects (goes True) (UpdateForeignNode env n)"
  unfolding UpdateForeignNode_def
proof (rule effects_bind_reads [OF reads_valid_foreign [OF assms]], rule effects_bind_reads_only [OF reads_only_nowRFC3339],
    rule effects_then [where R = "goes (valid_row m)" for m], rule effects_updateA)
  fix m :: foreign_node and u and s :: "'a db"
  assume "first_err [foreign_checks env (fn_Input m), constraint (\<forall>r \<in> set (db_foreign s). fn_ID r \<noteq> fn_ID m \<longrightarrow>
      fi_Name (fn_Input r) \<noteq> fi_Name (fn_Input m)) (e_unique env)] = None"
  then show "goes (valid_row m) s () (s\<lparr>db_foreign := upd_where (\<lambda>r. fn_ID r = fn_ID m)
      (\<lambda>r. m\<lparr>fn_CreatedAt := fn_CreatedAt r, fn_UpdatedAt := u\<rparr>) (db_foreign s)\<rparr>)"
    unfolding goes_def foreign_step_def valid_row_def foreign_checks_def
    by (intro impI disjI2 exI [of _ m] exI [of _ u]) simp
next
  fix m :: foreign_node and u and s :: "'a db"
  assume "fn_ID m \<notin> set (map fn_ID (db_foreign s))"
  then show "s\<lparr>db_foreign := upd_where (\<lambda>r. fn_ID r = fn_ID m)
      (\<lambda>r. m\<lparr>fn_CreatedAt := fn_CreatedAt r, fn_UpdatedAt := u\<rparr>) (db_foreign s)\<rparr> = s"
    using replaced_none [of m "db_foreign s" u] by (simp add: replaced_def del: set_map)
qed (auto simp: goes_def)

section \<open>Handlers\<close>

interpretation fgn: account_view db_foreign
  by unfold_locales simp_all

interpretation fgn_store: store_view db_foreign
  by unfold_locales simp_all

lemma acts_foreign: "effects (goes True) m \<Longrightarrow> acts_on db_foreign foreign_step m"
  unfolding acts_on_def
proof (intro allI impI)
  fix s r s'
  assume "effects (goes True) m" and "m s = (r, s')"
  then have "case r of Inl e \<Rightarrow> same_tables s s' | Inr x \<Rightarrow> \<exists>s1. same_tables s s1 \<and> goes True s1 x s'"
    unfolding effects_def by blast
  then show "case r of Inl _ \<Rightarrow> db_foreign s' = db_foreign s | Inr _ \<Rightarrow> foreign_step (db_foreign s) (db_foreign s')"
    by (auto simp: goes_def fgn.same split: sum.splits)
qed

lemma answers_bind_yields:
  assumes m: "yields v Q m" and f: "\<And>u. Q u \<Longrightarrow> answers v R (f u)"
  shows "answers v R (bindA m f)"
  unfolding answers_def
proof (intro allI impI)
  fix s r s'
  assume "bindA m f s = (r, s')"
  then show "case r of Inl _ \<Rightarrow> v s' = v s | Inr a \<Rightarrow> fst a \<in> set success \<and> R (v s) (v s')"
  proof (cases rule: bindA_cases)
    case (1 e)
    then show ?thesis using m by (simp add: yields_def)
  next
    case (2 x s1)
    then have "v s1 = v s" "Q x" using m by (auto simp: yields_def)
    then show ?thesis using f 2(2) unfolding answers_def by metis
  qed
qed

lemma yields_validated: "yields v (\<lambda>i. Foreign_Validate i0 = Inr i) (liftE (Foreign_Validate i0))"
  by (auto simp: yields_def liftE_def split: sum.splits)

lemma answers_foreign_writes:
  "answers db_foreign foreign_step (createForeignNode env a r p)" "answers db_foreign foreign_step (patchForeignNode env a r p)"
proof -
  show "answers db_foreign foreign_step (createForeignNode env a r p)"
    unfolding createForeignNode_def
  proof (rule answers_bind [OF leaves_decode], rule answers_bind_yields [OF yields_validated])
    fix i0 i
    assume "Foreign_Validate i0 = Inr i"
    then have once: "once_valid \<lparr>fn_ID = k, fn_Input = i, fn_CreatedAt = t1, fn_UpdatedAt = t2\<rparr>" for k t1 t2 by (auto simp: once_valid_def)
    show "answers db_foreign foreign_step (bindA (ident_New env) (\<lambda>k. bindA (nowA env) (\<lambda>t1. bindA (nowA env) (\<lambda>t2.
        bindA (audit_failure env p ''create'' ''foreign-node'' []
          (CreateForeignNode env \<lparr>fn_ID = k, fn_Input = i, fn_CreatedAt = t1, fn_UpdatedAt = t2\<rparr>)) (\<lambda>n.
          done_audit env p ''create'' ''foreign-node'' (fn_ID n) [] 201 (RForeign n))))))"
      by (intro answers_bind fgn.leaves_world fgn.answers_done fgn.acts_audit_failure acts_foreign CreateForeignNode_steps once) (simp add: success_def)
  qed
  show "answers db_foreign foreign_step (patchForeignNode env a r p)"
    unfolding patchForeignNode_def
  proof (rule answers_bind [OF fgn.leaves_mapped(1) [OF fgn.leaves_getters(26)]], rule answers_bind [OF leaves_decode], rule answers_bind_yields [OF yields_validated])
    fix old :: foreign_node and q i
    assume "Foreign_Validate (ForeignPatch_Apply q (fn_Input old)) = Inr i"
    then have once: "once_valid (old\<lparr>fn_Input := i, fn_UpdatedAt := t\<rparr>)" for t by (auto simp: once_valid_def)
    show "answers db_foreign foreign_step (bindA (nowA env) (\<lambda>t.
        bindA (mapNotFound ''foreign node'' (hr_ID r) (audit_failure env p ''update'' ''foreign-node'' (fn_ID old)
          (UpdateForeignNode env (old\<lparr>fn_Input := i, fn_UpdatedAt := t\<rparr>)))) (\<lambda>n.
          done_audit env p ''update'' ''foreign-node'' (fn_ID n) [] 200 (RForeign n))))"
      unfolding mapNotFound_def
      by (intro answers_bind fgn.leaves_world fgn.answers_done acts_onErr fgn.acts_audit_failure acts_foreign UpdateForeignNode_steps once) (simp add: success_def)
  qed
qed

lemma foreign_unmoved:
  assumes "e \<notin> set foreign_side"
  shows "answers db_foreign (=) (handler_of env a e r p)"
  using endpoint_sides [of e] assms fgn.answers_reading [of e "(=)"] fgn.answers_account_side [of e "(=)"] fgn_store.answers_inventory_side by auto

text \<open>A request that changes the table was made by an administrator or an operator and is one step of it.\<close>

lemma serve_foreign:
  assumes "serve env a e r sv = ((status, b), sv')" and "db_foreign (sv_db sv') \<noteq> db_foreign (sv_db sv)"
  shows "e \<in> {CreateForeignE, PatchForeignE} \<and> status \<in> set success \<and> foreign_step (db_foreign (sv_db sv)) (db_foreign (sv_db sv')) \<and>
    (\<exists>p. caller env a r (sv_db sv) p \<and> pr_Role p \<in> {''administrator'', ''operator''})"
proof -
  have e: "e \<in> set foreign_side"
    using serve_answers [OF fgn.view_axioms _ assms(1), of "(=)"] foreign_unmoved [of e env a] assms(2) by metis
  have writes: "answers db_foreign foreign_step (handler_of env a e (limited r) (Some p))" for p
    using e answers_foreign_writes by (auto simp: foreign_side_def foreignAccess_def intro!: answers_ensure)
  have step: "foreign_step (db_foreign (sv_db sv)) (db_foreign (sv_db sv'))" "status \<in> set success"
    using serve_answers [OF fgn.view_axioms writes assms(1)] assms(2) by auto
  from assms(1) have "\<exists>p. caller env a r (sv_db sv) p \<and> pr_Role p \<in> {''administrator'', ''operator''}"
  proof (cases rule: serve_cases)
    case (1 err)
    then show ?thesis using fgn.same assms(2) by blast
  next
    case (2 p s1 res)
    have "foreign_allowed True (pr_Role p)"
    proof (rule ccontr)
      assume "\<not> foreign_allowed True (pr_Role p)"
      then have "sv_db sv' = s1" using e 2(5) by (auto simp: foreign_side_def foreignAccess_def ensure_def role_in_def)
      then show False using assms(2) fgn.same [OF 2(4)] by simp
    qed
    then show ?thesis using 2(1) by (auto simp: foreign_allowed_def)
  qed
  then show ?thesis using e step by (auto simp: foreign_side_def)
qed

text \<open>Its answer is 200 or 201.\<close>

lemma answer_status:
  assumes "bindA m (\<lambda>x. done_audit env p action resource (rid x) (detail x) st (k x)) s = (Inr ans, s')"
  shows "fst ans = st"
  using assms by (auto simp: bindA_def done_audit_def split: prod.splits sum.splits)

lemma foreign_answer_status:
  assumes "handler_of env a e r (Some p) s = (Inr ans, s')" and "e \<in> {CreateForeignE, PatchForeignE}"
  shows "fst ans \<in> {200, 201}"
  using assms by (auto simp: foreignAccess_def createForeignNode_def patchForeignNode_def ensure_def split: if_splits
      elim!: bindA_cases dest!: answer_status)

lemma serve_foreign_status:
  assumes "serve env a e r sv = ((status, b), sv')" and "db_foreign (sv_db sv') \<noteq> db_foreign (sv_db sv)"
  shows "status \<in> {200, 201}"
  using assms(1)
proof (cases rule: serve_cases)
  case (1 err)
  then show ?thesis using fgn.same assms(2) by blast
next
  case (2 p s1 res)
  have e: "e \<in> {CreateForeignE, PatchForeignE}" and ok: "status \<in> set success" using serve_foreign [OF assms] by auto
  show ?thesis
  proof (cases res)
    case (Inl err)
    then have "answers db_foreign foreign_step (handler_of env a e (limited r) (Some p))"
      using e answers_foreign_writes by (auto simp: foreignAccess_def intro!: answers_ensure)
    then have "db_foreign (sv_db sv') = db_foreign s1" using 2(5) Inl unfolding answers_def by fastforce
    then show ?thesis using assms(2) fgn.same [OF 2(4)] by simp
  next
    case (Inr ans)
    obtain st w where ans: "ans = (st, w)" by fastforce
    have "status = st" using 2(6) Inr ans by (cases "(st, w)" rule: writeJSON.cases) simp_all
    then show ?thesis using foreign_answer_status 2(5) Inr e ans by fastforce
  qed
qed

section \<open>Properties\<close>

text \<open>C10: A request leaves the foreign nodes alone, or it is a create or an update by a caller who authenticated as
  administrator or operator, is answered with success, and makes one step of the abstract table: a validated row
  under a new identifier and a new name, or the validated new content of one row. Machine agents, which may mutate
  other things, change nothing here.\<close>

theorem foreign_changes_guarded:
  "db_foreign (sv_db (snd (serve env a e r sv))) = db_foreign (sv_db sv) \<or>
    e \<in> {CreateForeignE, PatchForeignE} \<and> fst (fst (serve env a e r sv)) \<in> {200, 201} \<and>
    foreign_step (db_foreign (sv_db sv)) (db_foreign (sv_db (snd (serve env a e r sv)))) \<and>
    (\<exists>p. caller env a r (sv_db sv) p \<and> pr_Role p \<in> {''administrator'', ''operator''})"
proof -
  obtain status b sv' where s: "serve env a e r sv = ((status, b), sv')" by (metis surj_pair)
  show ?thesis using serve_foreign [OF s] serve_foreign_status [OF s] unfolding s by auto
qed

text \<open>C11: Under any history of requests the foreign nodes keep unique identifiers and names, and every stored row is one
  that validation accepts as it is: normalised name, addresses, country and provider, and distinct overlay
  addresses in canonical text, none of them unspecified or multicast.\<close>

theorem foreign_table_stays_valid:
  assumes "foreign_table (db_foreign (sv_db sv))"
  shows "foreign_table (db_foreign (sv_db (serve_all env a reqs sv)))"
  using assms
proof (induction reqs arbitrary: sv)
  case (Cons q reqs)
  obtain e r where q: "q = (e, r)" by fastforce
  obtain status b sv' where s: "serve env a e r sv = ((status, b), sv')" by (metis surj_pair)
  have "foreign_table (db_foreign (sv_db sv'))" using serve_foreign [OF s] foreign_step_keeps Cons.prems by metis
  then show ?case using Cons.IH [of sv'] by (simp add: serve_all_def q s)
qed (simp add: serve_all_def)

section \<open>Witness\<close>

lemma foreign_table_stays_valid_witness:
  "foreign_table (db_foreign (sv_db (serve_all sample_env sample_api [(CreateForeignE, sample_hr [])] sample_server)))"
  by (rule foreign_table_stays_valid)
    (simp add: foreign_table_def sample_server_def sample_store_def sample_tokens_def empty_db_def)

end
