(* ===== verification/Cli.thy ===== *)
theory Cli
  imports Client
begin

text \<open>
  The operator's command line (src/internal/cli/cli.go, foreign_nodes.go): global flags, environment, flags of a command, and the
  commands, each with the calls of the client it makes and what it prints. The system is the record \<open>cli_sys\<close>:
  environment, files, standard output, clock and the transport to the controller. Output is the value that
  is encoded, or text. The commands for foreign nodes are those of foreign_nodes.go.
\<close>

section \<open>The system\<close>

datatype field = Text string | Flag bool | Time gotime

datatype printed = OutJson reply | OutFields "(string \<times> field) list" | OutText string

record cli_codec =
  cc_node :: "node \<Rightarrow> string"
  cc_backend :: "backend \<Rightarrow> string"
  cc_mapping :: "port_mapping \<Rightarrow> string"
  cc_tunnel :: "tunnel \<Rightarrow> string"
  cc_sni :: "sni_route \<Rightarrow> string"
  cc_apply :: "bool \<Rightarrow> string"
  cc_failback :: "string \<Rightarrow> string \<Rightarrow> string"
  cc_token :: "string \<Rightarrow> string \<Rightarrow> string"
  cc_foreign :: "foreign_input \<Rightarrow> string"
  cc_foreign_patch :: "foreign_patch \<Rightarrow> string"

record ('w, 's) cli_sys =
  cy_env :: "'w env"
  cy_clock :: "('s, goerr, gotime) act"
  cy_rt :: "endpoint \<Rightarrow> ident \<Rightarrow> request \<Rightarrow> ('s, goerr, int \<times> reply) act"
  cy_txt :: "reply \<Rightarrow> string"
  cy_getenv :: "string \<Rightarrow> string"
  cy_read :: "string \<Rightarrow> goerr + string"
  cy_open :: "string \<Rightarrow> ('s, goerr, unit) act"
  cy_chmod :: "string \<Rightarrow> ('s, goerr, unit) act"
  cy_write :: "string \<Rightarrow> string \<Rightarrow> ('s, goerr, unit) act"
  cy_sync :: "string \<Rightarrow> ('s, goerr, unit) act"
  cy_print :: "printed \<Rightarrow> ('s, goerr, unit) act"
  cy_codec :: cli_codec
  cy_version :: string

record options =
  op_Controller :: string
  op_Token :: string
  op_TokenFile :: string
  op_Insecure :: bool

type_synonym 's cliact = "('s, goerr, unit) act"

section \<open>Flags\<close>

fun parseGlobals :: "string list \<Rightarrow> options \<Rightarrow> string list \<times> options" where
  "parseGlobals [] opt = ([], opt)"
| "parseGlobals (a # rest) opt =
     (if a = ''--controller'' then (case rest of [] \<Rightarrow> ([], opt) | v # r \<Rightarrow> parseGlobals r (opt\<lparr>op_Controller := v\<rparr>))
      else if a = ''--token'' then (case rest of [] \<Rightarrow> ([], opt) | v # r \<Rightarrow> parseGlobals r (opt\<lparr>op_Token := v\<rparr>))
      else if a = ''--token-file'' then (case rest of [] \<Rightarrow> ([], opt) | v # r \<Rightarrow> parseGlobals r (opt\<lparr>op_TokenFile := v\<rparr>))
      else if a = ''--insecure'' then parseGlobals rest (opt\<lparr>op_Insecure := True\<rparr>)
      else case parseGlobals rest opt of (args, opt') \<Rightarrow> (a # args, opt'))"

fun flags_loop :: "string list \<Rightarrow> (string \<rightharpoonup> string) \<Rightarrow> (string \<rightharpoonup> string)" where
  "flags_loop [] out = out"
| "flags_loop (a # rest) out =
     (if \<not> HasPrefix a ''--'' then flags_loop rest out
      else let key = drop 2 a
           in if key = ''dry-run'' then flags_loop rest (out(key \<mapsto> ''true''))
              else case rest of
                  v # r \<Rightarrow> if HasPrefix v ''--'' then flags_loop rest (out(key \<mapsto> ''true'')) else flags_loop r (out(key \<mapsto> v))
                | [] \<Rightarrow> out(key \<mapsto> ''true''))"

definition parseFlags :: "string list \<Rightarrow> (string \<rightharpoonup> string)" where
  "parseFlags args = flags_loop args (\<lambda>_. None)"

text \<open>Reading a map of Go: a key that is missing is the empty string.\<close>

definition fs_get :: "(string \<rightharpoonup> string) \<Rightarrow> string \<Rightarrow> string" where
  "fs_get fs k = (case fs k of None \<Rightarrow> [] | Some v \<Rightarrow> v)"

definition flagBool :: "string list \<Rightarrow> string \<Rightarrow> bool" where
  "flagBool args name \<longleftrightarrow> list_ex (\<lambda>a. a = ''--'' @ name) args"

definition num_err_text :: "num_err \<Rightarrow> string" where
  "num_err_text e = (case e of RangeErr \<Rightarrow> ''value out of range'' | _ \<Rightarrow> ''invalid syntax'')"

definition cli_atoi :: "string \<Rightarrow> int \<times> goerr option" where
  "cli_atoi s = (if s = [] then (0, None) else case Atoi s of (n, NumOk) \<Rightarrow> (n, None) | (n, e) \<Rightarrow> (n, Some (Plain (''strconv.Atoi: parsing '' @ Quote s @ '': '' @ num_err_text e))))"

definition splitComma :: "string \<Rightarrow> string list" where
  "splitComma s = filter (\<lambda>p. p \<noteq> []) (map TrimSpace (Split s (CHR '','')))"

section \<open>Environment\<close>

definition envOr :: "(string \<Rightarrow> string) \<Rightarrow> string \<Rightarrow> string \<Rightarrow> string" where
  "envOr getenv k d = (if getenv k \<noteq> [] then getenv k else d)"

definition envTruthy :: "(string \<Rightarrow> string) \<Rightarrow> string \<Rightarrow> bool" where
  "envTruthy getenv k \<longleftrightarrow> ToLower (TrimSpace (getenv k)) \<in> {''1'', ''true'', ''yes'', ''on''}"

definition applyEnv :: "(string \<Rightarrow> string) \<Rightarrow> (string \<Rightarrow> goerr + string) \<Rightarrow> options \<Rightarrow> goerr + options" where
  "applyEnv getenv read opt0 =
     (let o1 = (if op_Controller opt0 = [] then opt0\<lparr>op_Controller := envOr getenv ''TRANSITFORGE_CONTROLLER'' ''https://127.0.0.1:8443''\<rparr> else opt0);
          o2 = (if op_TokenFile o1 = [] then o1\<lparr>op_TokenFile := getenv ''TRANSITFORGE_TOKEN_FILE''\<rparr> else o1)
      in case (if op_Token o2 = [] \<and> op_TokenFile o2 \<noteq> []
               then (case read (op_TokenFile o2) of Inl e \<Rightarrow> Inl (wrapf ''token-file: '' e [])
                     | Inr b \<Rightarrow> Inr (o2\<lparr>op_Token := TrimSpace b\<rparr>))
               else Inr o2) of
           Inl e \<Rightarrow> Inl e
         | Inr o3 \<Rightarrow>
             let o4 = (if op_Token o3 = [] then o3\<lparr>op_Token := getenv ''TRANSITFORGE_TOKEN''\<rparr> else o3)
             in Inr (if op_Insecure o4 then o4 else o4\<lparr>op_Insecure := envTruthy getenv ''TRANSITFORGE_INSECURE''\<rparr>))"

section \<open>Calls\<close>

definition cli_call :: "('w, 's) cli_sys \<Rightarrow> client \<Rightarrow> endpoint \<Rightarrow> ident \<Rightarrow> string option \<Rightarrow> ('s, goerr, reply) act" where
  "cli_call sys c e i inp = client_call (cy_env sys) (cy_txt sys) (cy_clock sys) (cy_rt sys) c e i (\<lambda>_. []) inp"

definition printJSON :: "('w, 's) cli_sys \<Rightarrow> printed \<Rightarrow> 's cliact" where
  "printJSON sys v = cy_print sys v"

definition show_call :: "('w, 's) cli_sys \<Rightarrow> client \<Rightarrow> endpoint \<Rightarrow> ident \<Rightarrow> string option \<Rightarrow> 's cliact" where
  "show_call sys c e i inp = bindA (cli_call sys c e i inp) (\<lambda>v. printJSON sys (OutJson v))"

text \<open>What the decoder makes of a reply; the server answers these calls with lists and with one token.\<close>

definition nodes_of :: "reply \<Rightarrow> node list" where
  "nodes_of v = (case v of RNodes ns \<Rightarrow> ns | _ \<Rightarrow> [])"

definition backends_of :: "reply \<Rightarrow> backend list" where
  "backends_of v = (case v of RBackends bs \<Rightarrow> bs | _ \<Rightarrow> [])"

definition resolveNode :: "('w, 's) cli_sys \<Rightarrow> client \<Rightarrow> string \<Rightarrow> ('s, goerr, node) act" where
  "resolveNode sys c name =
     (if name = [] then failA (Plain ''--node is required'')
      else bindA (cli_call sys c ListNodesE [] None) (\<lambda>v.
        case find (\<lambda>n. n_Name n = name \<or> n_ID n = name) (nodes_of v) of
          Some n \<Rightarrow> returnA n | None \<Rightarrow> failA (Plain (''node '' @ Quote name @ '' not found''))))"

definition resolveBackend :: "('w, 's) cli_sys \<Rightarrow> client \<Rightarrow> string \<Rightarrow> ('s, goerr, backend) act" where
  "resolveBackend sys c name =
     (if name = [] then failA (Plain ''--backend is required'')
      else bindA (cli_call sys c ListBackendsE [] None) (\<lambda>v.
        case find (\<lambda>b. b_Name b = name \<or> b_ID b = name) (backends_of v) of
          Some b \<Rightarrow> returnA b | None \<Rightarrow> failA (Plain (''backend '' @ Quote name @ '' not found''))))"

definition unknown :: "string \<Rightarrow> string \<Rightarrow> ('s, goerr, 'a) act" where
  "unknown what sub = failA (Plain (what @ '': unknown subcommand '' @ Quote sub))"

section \<open>Commands\<close>

definition flag_node :: "(string \<rightharpoonup> string) \<Rightarrow> node" where
  "flag_node fs = \<lparr>n_ID = [], n_Name = fs_get fs ''name'', n_PublicIP = fs_get fs ''public-ip'', n_Labels = (\<lambda>_. None), n_CreatedAt = 0, n_UpdatedAt = 0\<rparr>"

definition nodeCmd :: "('w, 's) cli_sys \<Rightarrow> client \<Rightarrow> string list \<Rightarrow> 's cliact" where
  "nodeCmd sys c args = (case args of [] \<Rightarrow> failA (Plain ''node: expected add|list'')
     | sub # rest \<Rightarrow>
         if sub = ''list'' then show_call sys c ListNodesE [] None
         else if sub = ''add'' then show_call sys c CreateNodeE [] (Some (cc_node (cy_codec sys) (flag_node (parseFlags rest))))
         else unknown ''node'' sub)"

definition flag_backend :: "(string \<rightharpoonup> string) \<Rightarrow> ident \<Rightarrow> backend" where
  "flag_backend fs n = \<lparr>b_ID = [], b_Name = fs_get fs ''name'', b_NodeID = n, b_Address = fs_get fs ''address'', b_CreatedAt = 0, b_UpdatedAt = 0\<rparr>"

definition backendCmd :: "('w, 's) cli_sys \<Rightarrow> client \<Rightarrow> string list \<Rightarrow> 's cliact" where
  "backendCmd sys c args = (case args of [] \<Rightarrow> failA (Plain ''backend: expected add|list'')
     | sub # rest \<Rightarrow>
         if sub = ''list'' then show_call sys c ListBackendsE [] None
         else if sub = ''add'' then
           let fs = parseFlags rest
           in bindA (resolveNode sys c (fs_get fs ''node'')) (\<lambda>n.
                show_call sys c CreateBackendE [] (Some (cc_backend (cy_codec sys) (flag_backend fs (n_ID n)))))
         else unknown ''backend'' sub)"

definition flag_port :: "(string \<rightharpoonup> string) \<Rightarrow> string \<Rightarrow> ('s, goerr, int) act" where
  "flag_port fs k = (case cli_atoi (fs_get fs k) of (n, None) \<Rightarrow> returnA n | (_, Some e) \<Rightarrow> failA (wrapf (k @ '': '') e []))"

definition mappingCmd :: "('w, 's) cli_sys \<Rightarrow> client \<Rightarrow> string list \<Rightarrow> 's cliact" where
  "mappingCmd sys c args = (case args of [] \<Rightarrow> failA (Plain ''mapping: expected add|list|delete'')
     | sub # rest \<Rightarrow>
         if sub = ''list'' then show_call sys c ListMappingsE [] None
         else if sub = ''delete'' then
           (case rest of [] \<Rightarrow> failA (Plain ''mapping delete requires an id'')
            | i # _ \<Rightarrow> bindA (cli_call sys c DeleteMappingE i None) (\<lambda>_. returnA ()))
         else if sub = ''add'' then
           let fs = parseFlags rest
           in bindA (resolveNode sys c (fs_get fs ''node'')) (\<lambda>n.
              bindA (resolveBackend sys c (fs_get fs ''backend'')) (\<lambda>b.
              bindA (flag_port fs ''public-port'') (\<lambda>pub.
              bindA (flag_port fs ''backend-port'') (\<lambda>bp.
                show_call sys c CreateMappingE [] (Some (cc_mapping (cy_codec sys)
                  \<lparr>m_ID = [], m_NodeID = n_ID n, m_BackendID = b_ID b, m_Protocol = ToUpper (fs_get fs ''protocol''), m_PublicPort = pub,
                   m_BackendPort = bp, m_Enabled = False, m_CreatedAt = 0, m_UpdatedAt = 0\<rparr>))))))
         else unknown ''mapping'' sub)"

definition flag_tunnel :: "(string \<rightharpoonup> string) \<Rightarrow> ident \<Rightarrow> ident \<Rightarrow> tunnel" where
  "flag_tunnel fs n b = \<lparr>t_ID = [], t_NodeID = n, t_BackendID = b, t_Type = ToUpper (fs_get fs ''type''), t_InterfaceName = fs_get fs ''interface'',
     t_LocalOverlayIP = fs_get fs ''local'', t_RemoteOverlayIP = fs_get fs ''remote'', t_ListenPort = fst (cli_atoi (fs_get fs ''listen-port'')),
     t_Endpoint = fs_get fs ''endpoint'',
     t_AllowedIPs = (if fs_get fs ''allowed-ips'' \<noteq> [] then splitComma (fs_get fs ''allowed-ips'') else []),
     t_PersistentKeepalive = fst (cli_atoi (fs_get fs ''keepalive'')), t_Priority = fst (cli_atoi (fs_get fs ''priority'')),
     t_PrivateKeyPath = fs_get fs ''private-key-path'', t_PublicKey = fs_get fs ''public-key'', t_ServiceName = fs_get fs ''service-name'',
     t_CreatedAt = 0, t_UpdatedAt = 0\<rparr>"

definition tunnelCmd :: "('w, 's) cli_sys \<Rightarrow> client \<Rightarrow> string list \<Rightarrow> 's cliact" where
  "tunnelCmd sys c args = (case args of [] \<Rightarrow> failA (Plain ''tunnel: expected add|list|status'')
     | sub # rest \<Rightarrow>
         if sub = ''list'' then show_call sys c ListTunnelsE [] None
         else if sub = ''status'' then
           (case rest of [] \<Rightarrow> failA (Plain ''tunnel status requires an id'') | i # _ \<Rightarrow> show_call sys c TunnelStatusE i None)
         else if sub = ''add'' then
           let fs = parseFlags rest
           in bindA (resolveNode sys c (fs_get fs ''node'')) (\<lambda>n.
              bindA (resolveBackend sys c (fs_get fs ''backend'')) (\<lambda>b.
                show_call sys c CreateTunnelE [] (Some (cc_tunnel (cy_codec sys) (flag_tunnel fs (n_ID n) (b_ID b))))))
         else unknown ''tunnel'' sub)"

definition cut_match :: "string \<Rightarrow> goerr + sni_match" where
  "cut_match m = (case Index m ''='' of None \<Rightarrow> Inl (Plain ''--match HOST=BACKEND'')
     | Some i \<Rightarrow> Inr \<lparr>sm_Match = take i m, sm_Default = False, sm_BackendID = [], sm_Backend = drop (i + 1) m\<rparr>)"

definition sniCmd :: "('w, 's) cli_sys \<Rightarrow> client \<Rightarrow> string list \<Rightarrow> 's cliact" where
  "sniCmd sys c args = (case args of [] \<Rightarrow> failA (Plain ''sni: expected add'')
     | sub # rest \<Rightarrow>
         if sub \<noteq> ''add'' then failA (Plain ''sni: expected add'')
         else let fs = parseFlags rest; m = fs_get fs ''match''; d = fs_get fs ''default''
              in bindA (resolveNode sys c (fs_get fs ''node'')) (\<lambda>n.
                 bindA (if m = [] then returnA [] else liftE (map_sum id (\<lambda>x. [x]) (cut_match m))) (\<lambda>ms.
                   show_call sys c CreateSniE [] (Some (cc_sni (cy_codec sys)
                     \<lparr>r_ID = [], r_NodeID = n_ID n, r_Listen = fs_get fs ''listen'',
                      r_Matches = ms @ (if d = [] then [] else [\<lparr>sm_Match = [], sm_Default = True, sm_BackendID = [], sm_Backend = d\<rparr>]),
                      r_CreatedAt = 0, r_UpdatedAt = 0\<rparr>)))))"

definition whoamiCmd :: "('w, 's) cli_sys \<Rightarrow> client \<Rightarrow> 's cliact" where
  "whoamiCmd sys c = show_call sys c Whoami [] None"

definition writeSecretFile :: "('w, 's) cli_sys \<Rightarrow> string \<Rightarrow> string \<Rightarrow> 's cliact" where
  "writeSecretFile sys path plaintext =
     bindA (onErr (\<lambda>e. wrapf ''token --out-file: '' e []) (cy_open sys path)) (\<lambda>_.
     bindA (onErr (\<lambda>e. wrapf ''token --out-file chmod: '' e []) (cy_chmod sys path)) (\<lambda>_.
     bindA (onErr (\<lambda>e. wrapf ''token --out-file: '' e []) (cy_write sys path (plaintext @ [CHR 0x0A]))) (\<lambda>_.
       onErr (\<lambda>e. wrapf ''token --out-file sync: '' e []) (cy_sync sys path))))"

text \<open>The token is created before the form of the output is looked at.\<close>

definition show_token :: "('w, 's) cli_sys \<Rightarrow> (string \<rightharpoonup> string) \<Rightarrow> reply \<Rightarrow> 's cliact" where
  "show_token sys fs v =
     (case (case v of RTokenCreated i n r plain t \<Rightarrow> (i, n, r, plain, t) | _ \<Rightarrow> ([], [], [], [], 0)) of (i, n, r, plain, t) \<Rightarrow>
       let path = TrimSpace (fs_get fs ''out-file''); form = ToLower (TrimSpace (fs_get fs ''output''))
       in if path \<noteq> [] then bindA (writeSecretFile sys path plain) (\<lambda>_.
              printJSON sys (OutFields [(''id'', Text i), (''name'', Text n), (''role'', Text r), (''created_at'', Time t), (''out_file'', Text path)]))
          else if form = [] \<or> form = ''json'' then printJSON sys (OutJson v)
          else if form = ''token'' then cy_print sys (OutText (plain @ [CHR 0x0A]))
          else failA (Plain ''token add --output must be json or token''))"

definition tokenCmd :: "('w, 's) cli_sys \<Rightarrow> client \<Rightarrow> string list \<Rightarrow> 's cliact" where
  "tokenCmd sys c args = (case args of [] \<Rightarrow> failA (Plain ''token: expected add, list, or revoke'')
     | sub # rest \<Rightarrow>
         let fs = parseFlags rest
         in if sub = ''list'' then show_call sys c ListTokensE [] None
            else if sub = ''revoke'' then
              let i = TrimSpace (fs_get fs ''id'')
              in if i = [] then failA (Plain ''token revoke requires --id'')
                 else bindA (client_RevokeToken (cy_env sys) (cy_txt sys) (cy_clock sys) (cy_rt sys) c i) (\<lambda>_.
                   printJSON sys (OutFields [(''id'', Text i), (''revoked'', Flag True)]))
            else if sub \<noteq> ''add'' then failA (Plain ''token: expected add, list, or revoke'')
            else bindA (liftE (ParseRole (fs_get fs ''role''))) (\<lambda>role.
              if TrimSpace (fs_get fs ''name'') = [] then failA (Plain ''token add requires --name'')
              else bindA (cli_call sys c CreateTokenE [] (Some (cc_token (cy_codec sys) (fs_get fs ''name'') role))) (show_token sys fs)))"

text \<open>\<open>fmt.Fprint\<close> whose error is dropped.\<close>

definition quietly :: "'s cliact \<Rightarrow> 's cliact" where
  "quietly m = (\<lambda>s. (Inr (), snd (m s)))"

definition applyCmd :: "('w, 's) cli_sys \<Rightarrow> client \<Rightarrow> string list \<Rightarrow> 's cliact" where
  "applyCmd sys c args =
     (let fs = parseFlags args
      in bindA (resolveNode sys c (fs_get fs ''node'')) (\<lambda>n.
         bindA (cli_call sys c ApplyE (n_ID n) (Some (cc_apply (cy_codec sys) (flagBool args ''dry-run'')))) (\<lambda>v.
           case (case v of RApply res \<Rightarrow> (ar_Plan res, ar_Message res) | _ \<Rightarrow> ([], [])) of (plan, msg) \<Rightarrow>
             bindA (quietly (cy_print sys (OutText plan))) (\<lambda>_.
               if msg \<noteq> [] \<and> msg \<noteq> ''NO CHANGES'' then quietly (cy_print sys (OutText (msg @ [CHR 0x0A]))) else returnA ()))))"

definition status_line :: "desired_state \<Rightarrow> string" where
  "status_line ds = ''node '' @ n_Name (d_Node ds) @ '' ('' @ n_ID (d_Node ds) @ '') backends='' @ Itoa (int (length (d_Backends ds))) @
     '' tunnels='' @ Itoa (int (length (d_Tunnels ds))) @ [CHR 0x0A]"

definition failbackCmd :: "('w, 's) cli_sys \<Rightarrow> client \<Rightarrow> string list \<Rightarrow> 's cliact" where
  "failbackCmd sys c args =
     (if args \<noteq> [] \<and> hd args = ''status'' then
        bindA (resolveNode sys c (fs_get (parseFlags (tl args)) ''node'')) (\<lambda>n.
        bindA (cli_call sys c DesiredStateE (n_ID n) None) (\<lambda>v. case v of
            RDesired ds \<Rightarrow> quietly (cy_print sys (OutText (status_line ds)))
          | _ \<Rightarrow> returnA ()))
      else let fs = parseFlags args
           in bindA (resolveNode sys c (fs_get fs ''node'')) (\<lambda>n.
              bindA (cli_call sys c FailbackE (n_ID n) (Some (cc_failback (cy_codec sys) (fs_get fs ''backend'') ''fail_forward''))) (\<lambda>_. returnA ())))"

definition foreignOverlays :: "string \<Rightarrow> string list" where
  "foreignOverlays s = (if TrimSpace s = [] then [] else Split s (CHR '',''))"

definition flag_foreign :: "(string \<rightharpoonup> string) \<Rightarrow> foreign_input" where
  "flag_foreign fs = \<lparr>fi_Name = fs_get fs ''name'', fi_PublicAddress = fs_get fs ''public-address'',
     fi_ManagementAddress = fs_get fs ''management-address'', fi_Country = fs_get fs ''country'',
     fi_OverlayAddresses = foreignOverlays (fs_get fs ''overlay-addresses''), fi_ProviderType = fs_get fs ''provider'', fi_Labels = []\<rparr>"

definition flag_patch :: "(string \<rightharpoonup> string) \<Rightarrow> foreign_patch" where
  "flag_patch fs = \<lparr>fp_Name = fs ''name'', fp_PublicAddress = fs ''public-address'', fp_ManagementAddress = fs ''management-address'',
     fp_Country = fs ''country'', fp_OverlayAddresses = map_option foreignOverlays (fs ''overlay-addresses''),
     fp_ProviderType = fs ''provider'', fp_Labels = None\<rparr>"

definition foreignNodeCmd :: "('w, 's) cli_sys \<Rightarrow> client \<Rightarrow> string list \<Rightarrow> 's cliact" where
  "foreignNodeCmd sys c args = (case args of [] \<Rightarrow> failA (Plain ''foreign-node: expected add, list, get, or update'')
     | sub # rest \<Rightarrow>
         if sub = ''list'' then show_call sys c ListForeignE [] None
         else if sub = ''get'' then
           (case rest of [i] \<Rightarrow> show_call sys c GetForeignE i None | _ \<Rightarrow> failA (Plain ''foreign-node get requires ID''))
         else if sub = ''add'' then
           bindA (liftE (Foreign_Validate (flag_foreign (parseFlags rest)))) (\<lambda>n.
             show_call sys c CreateForeignE [] (Some (cc_foreign (cy_codec sys) n)))
         else if sub = ''update'' then
           (if length args < 3 \<or> HasPrefix (hd rest) ''--'' then failA (Plain ''foreign-node update requires ID and fields'')
            else show_call sys c PatchForeignE (hd rest) (Some (cc_foreign_patch (cy_codec sys) (flag_patch (parseFlags (tl rest))))))
         else failA (Plain ''foreign-node: expected add, list, get, or update''))"

definition helpText :: string where
  "helpText = Join
   [''transitforge '' @ [CHR 0xE2, CHR 0x80, CHR 0x94] @ '' TransitForge operator CLI'',
    '''',
    ''Commands:'',
    ''  node add --name NAME [--public-ip IP]'',
    ''  node list'',
    ''  foreign-node list'',
    ''  foreign-node get ID'',
    ''  foreign-node add --name NAME --public-address HOST [--management-address HOST] [--country CC] [--provider UNMANAGED|3X_UI|SHARX] [--overlay-addresses IP,IP]'',
    ''  foreign-node update ID [--name NAME] [--public-address HOST] [--management-address HOST] [--country CC] [--provider TYPE] [--overlay-addresses IP,IP]'',
    ''  backend add --name NAME --node NAME --address IP'',
    ''  backend list'',
    ''  mapping add --node NAME --backend NAME --protocol TCP|UDP --public-port N --backend-port N'',
    ''  mapping list'',
    ''  mapping delete ID'',
    ''  tunnel add --node NAME --backend NAME --type WIREGUARD|SSH_TUN ...'',
    ''  tunnel list'',
    ''  tunnel status ID'',
    ''  sni add --node NAME --listen :443 --match HOST=BACKEND --default BACKEND'',
    ''  apply --node NAME [--dry-run]'',
    ''  failback --node NAME'',
    ''  failback status --node NAME'',
    ''  token add --name NAME --role operator|readonly|agent [--out-file PATH] [--output json|token]'',
    ''  token list'',
    ''  token revoke --id ID'',
    ''  whoami'',
    ''  version'',
    ''''] [CHR 0x0A]"

definition cli_Run :: "('w, 's) cli_sys \<Rightarrow> string list \<Rightarrow> options \<Rightarrow> 's cliact" where
  "cli_Run sys args0 opt0 =
     (case parseGlobals args0 opt0 of (args, opt1) \<Rightarrow>
       (case args of
          [] \<Rightarrow> failA (Plain ''usage: transitforge [--controller URL] [--token-file PATH] [--insecure] <command>'')
        | cmd # rest \<Rightarrow>
            if cmd = ''version'' \<or> cmd = ''--version'' then quietly (cy_print sys (OutText (cy_version sys @ [CHR 0x0A])))
            else bindA (liftE (applyEnv (cy_getenv sys) (cy_read sys) opt1)) (\<lambda>opt.
              let c = client_New (op_Controller opt) (op_Token opt)
              in if cmd = ''node'' then nodeCmd sys c rest
                 else if cmd = ''foreign-node'' then foreignNodeCmd sys c rest
                 else if cmd = ''backend'' then backendCmd sys c rest
                 else if cmd = ''mapping'' then mappingCmd sys c rest
                 else if cmd = ''tunnel'' then tunnelCmd sys c rest
                 else if cmd = ''sni'' then sniCmd sys c rest
                 else if cmd = ''apply'' then applyCmd sys c rest
                 else if cmd = ''failback'' then failbackCmd sys c rest
                 else if cmd = ''token'' then tokenCmd sys c rest
                 else if cmd = ''whoami'' then whoamiCmd sys c
                 else if cmd = ''help'' \<or> cmd = ''-h'' \<or> cmd = ''--help'' then quietly (cy_print sys (OutText helpText))
                 else failA (Plain (''unknown command '' @ Quote cmd)))))"

end
