(* ===== verification/CliLaws.thy ===== *)
theory CliLaws
  imports Cli
begin

text \<open>
  What a command of the command line does to the controller: it looks up what it needs and then makes at most one
  call that changes something. The calls are read off a system that records them (\<open>recorded\<close>).
\<close>

section \<open>A system that records calls\<close>

definition beside :: "('s, 'e, 'a) act \<Rightarrow> ('s \<times> endpoint list, 'e, 'a) act" where
  "beside m = (\<lambda>(s, es). case m s of (r, s') \<Rightarrow> (r, (s', es)))"

definition recorded :: "('w, 's) cli_sys \<Rightarrow> ('w, 's \<times> endpoint list) cli_sys" where
  "recorded sys = \<lparr>cy_env = cy_env sys, cy_clock = beside (cy_clock sys),
     cy_rt = (\<lambda>e i rq (s, es). case cy_rt sys e i rq s of (r, s') \<Rightarrow> (r, (s', es @ [e]))), cy_txt = cy_txt sys,
     cy_getenv = cy_getenv sys, cy_read = cy_read sys, cy_open = (\<lambda>p. beside (cy_open sys p)), cy_chmod = (\<lambda>p. beside (cy_chmod sys p)),
     cy_write = (\<lambda>p b. beside (cy_write sys p b)), cy_sync = (\<lambda>p. beside (cy_sync sys p)), cy_print = (\<lambda>v. beside (cy_print sys v)),
     cy_codec = cy_codec sys, cy_version = cy_version sys\<rparr>"

definition calls :: "(endpoint list \<Rightarrow> bool) \<Rightarrow> ('s \<times> endpoint list, 'e, 'a) act \<Rightarrow> bool" where
  "calls P m \<longleftrightarrow> (\<forall>x r y. m x = (r, y) \<longrightarrow> (\<exists>new. snd y = snd x @ new \<and> P new))"

definition none_made :: "endpoint list \<Rightarrow> bool" where
  "none_made es \<longleftrightarrow> es = []"

definition only_reads :: "endpoint list \<Rightarrow> bool" where
  "only_reads es \<longleftrightarrow> (\<forall>e \<in> set es. \<not> mutates e)"

definition write_last :: "endpoint list \<Rightarrow> bool" where
  "write_last es \<longleftrightarrow> (\<forall>e \<in> set (butlast es). \<not> mutates e)"

named_theorems cli_intros "which calls an action makes"

lemma calls_mono: "calls P m \<Longrightarrow> (\<And>es. P es \<Longrightarrow> Q es) \<Longrightarrow> calls Q m"
  unfolding calls_def by blast

lemma calls_bind:
  assumes m: "calls P m" and k: "\<And>x. calls Q (k x)" and "\<And>es. P es \<Longrightarrow> T es" and "\<And>es fs. P es \<Longrightarrow> Q fs \<Longrightarrow> T (es @ fs)"
  shows "calls T (bindA m k)"
  unfolding calls_def
proof (intro allI impI)
  fix x r y
  assume "bindA m k x = (r, y)"
  then show "\<exists>new. snd y = snd x @ new \<and> T new"
  proof (cases rule: bindA_cases)
    case (1 e)
    then show ?thesis using m assms(3) unfolding calls_def by blast
  next
    case (2 z x1)
    obtain es where "snd x1 = snd x @ es" "P es" using m 2(1) unfolding calls_def by blast
    moreover obtain fs where "snd y = snd x1 @ fs" "Q fs" using k 2(2) unfolding calls_def by blast
    ultimately show ?thesis using assms(4) by auto
  qed
qed

lemma reads_then [cli_intros]: "calls only_reads m \<Longrightarrow> (\<And>x. calls write_last (k x)) \<Longrightarrow> calls write_last (bindA m k)"
  by (rule calls_bind, assumption, assumption) (auto simp: only_reads_def write_last_def butlast_append dest: in_set_butlastD)

lemma then_none: "calls write_last m \<Longrightarrow> (\<And>x. calls none_made (k x)) \<Longrightarrow> calls write_last (bindA m k)"
  by (rule calls_bind, assumption, assumption) (auto simp: none_made_def)

lemma reads_reads [cli_intros]: "calls only_reads m \<Longrightarrow> (\<And>x. calls only_reads (k x)) \<Longrightarrow> calls only_reads (bindA m k)"
  by (rule calls_bind, assumption, assumption) (auto simp: only_reads_def)

lemma none_none [cli_intros]: "calls none_made m \<Longrightarrow> (\<And>x. calls none_made (k x)) \<Longrightarrow> calls none_made (bindA m k)"
  by (rule calls_bind, assumption, assumption) (auto simp: none_made_def)

lemma none_reads: "calls none_made m \<Longrightarrow> calls only_reads m" "calls none_made m \<Longrightarrow> calls write_last m"
  by (erule calls_mono, simp add: none_made_def only_reads_def write_last_def)+

lemma calls_values [cli_intros]: "calls none_made (returnA x)" "calls none_made (failA e)" "calls none_made (Pair q)" "calls none_made (liftE v)"
  by (auto simp: calls_def none_made_def liftE_def split: sum.splits)

lemmas calls_done [cli_intros] = calls_values [THEN none_reads(1)] calls_values [THEN none_reads(2)]

lemma calls_quietly [cli_intros]: "calls P m \<Longrightarrow> calls P (quietly m)"
  unfolding calls_def quietly_def by (metis prod.collapse prod.inject)

lemma calls_onErr [cli_intros]: "calls P m \<Longrightarrow> calls P (onErr f m)"
  unfolding calls_def by (blast elim: onErr_cases)

lemma calls_if: "calls P m \<Longrightarrow> calls P k \<Longrightarrow> calls P (if b then m else k)"
  by simp

lemma calls_beside: "calls none_made (beside m)"
  by (auto simp: calls_def beside_def none_made_def split: prod.splits)

lemma recorded_system [cli_intros]:
  "calls none_made (cy_clock (recorded sys))" "calls none_made (cy_open (recorded sys) p)" "calls none_made (cy_chmod (recorded sys) p)"
  "calls none_made (cy_write (recorded sys) p b)" "calls none_made (cy_sync (recorded sys) p)" "calls none_made (cy_print (recorded sys) v)"
  by (simp_all add: recorded_def calls_beside)

lemma calls_rt: "P [e] \<Longrightarrow> calls P (cy_rt (recorded sys) e i rq)"
  by (auto simp: calls_def recorded_def split: prod.splits)

lemma calls_client:
  fixes c :: client
  shows "calls write_last (client_call (cy_env (recorded sys)) (cy_txt (recorded sys)) (cy_clock (recorded sys)) (cy_rt (recorded sys)) c e i q inp)"
    "\<not> mutates e \<Longrightarrow> calls only_reads (client_call (cy_env (recorded sys)) (cy_txt (recorded sys)) (cy_clock (recorded sys)) (cy_rt (recorded sys)) c e i q inp)"
proof -
  have clock: "calls none_made (if b then returnA 0 else cy_clock (recorded sys))" for b by (auto intro: cli_intros)
  have rest: "calls P (bindA (cy_rt (recorded sys) e i rq) (\<lambda>(status, rep). liftE (read_reply t status rep)))" if "P [e]" for P rq t
    by (rule calls_bind [where P = P and Q = none_made]) (use that in \<open>auto simp: none_made_def calls_rt calls_values split: prod.split\<close>)
  show "calls write_last (client_call (cy_env (recorded sys)) (cy_txt (recorded sys)) (cy_clock (recorded sys)) (cy_rt (recorded sys)) c e i q inp)"
    unfolding client_call_def client_Do_def
    by (rule reads_then [OF none_reads(1) [OF clock]], rule rest) (simp add: write_last_def)
  show "\<not> mutates e \<Longrightarrow> calls only_reads (client_call (cy_env (recorded sys)) (cy_txt (recorded sys)) (cy_clock (recorded sys)) (cy_rt (recorded sys)) c e i q inp)"
    unfolding client_call_def client_Do_def
    by (rule reads_reads [OF none_reads(1) [OF clock]], rule rest) (simp add: only_reads_def)
qed

lemma cli_calls [cli_intros]:
  "calls write_last (cli_call (recorded sys) c e i inp)" "\<not> mutates e \<Longrightarrow> calls only_reads (cli_call (recorded sys) c e i inp)"
  "calls write_last (show_call (recorded sys) c e i inp)"
  unfolding cli_call_def show_call_def printJSON_def by (intro calls_client then_none cli_intros; assumption)+

lemma calls_lookups [cli_intros]:
  "calls only_reads (resolveNode (recorded sys) c name)" "calls only_reads (resolveBackend (recorded sys) c name)" "calls only_reads (flag_port fs k)"
  unfolding resolveNode_def resolveBackend_def flag_port_def
  by (auto intro!: cli_intros simp: mutates_def split: option.split prod.split)

lemma calls_show_token: "calls none_made (show_token (recorded sys) fs v)"
  unfolding show_token_def writeSecretFile_def printJSON_def Let_def
  by (auto intro!: cli_intros split: prod.split)

lemma calls_commands:
  "calls write_last (nodeCmd (recorded sys) c args)" "calls write_last (backendCmd (recorded sys) c args)"
  "calls write_last (mappingCmd (recorded sys) c args)" "calls write_last (tunnelCmd (recorded sys) c args)"
  "calls write_last (sniCmd (recorded sys) c args)" "calls write_last (foreignNodeCmd (recorded sys) c args)" "calls write_last (whoamiCmd (recorded sys) c)"
  unfolding nodeCmd_def backendCmd_def mappingCmd_def tunnelCmd_def sniCmd_def foreignNodeCmd_def whoamiCmd_def unknown_def Let_def
  by (auto intro!: cli_intros then_none [OF cli_calls(1)] split: list.split)

lemma calls_commands2:
  "calls write_last (tokenCmd (recorded sys) c args)" "calls write_last (applyCmd (recorded sys) c args)" "calls write_last (failbackCmd (recorded sys) c args)"
proof -
  have revoke: "calls write_last (client_RevokeToken (cy_env (recorded sys)) (cy_txt (recorded sys)) (cy_clock (recorded sys)) (cy_rt (recorded sys)) c i)" for i
    unfolding client_RevokeToken_def by (auto intro!: cli_intros calls_client)
  show "calls write_last (tokenCmd (recorded sys) c args)"
    unfolding tokenCmd_def Let_def printJSON_def
    by (auto intro!: cli_intros then_none [OF revoke] then_none [OF cli_calls(1) calls_show_token] split: list.split)
  show "calls write_last (applyCmd (recorded sys) c args)"
    unfolding applyCmd_def Let_def
    by (auto intro!: cli_intros then_none [OF cli_calls(1)] split: prod.split reply.split)
  show "calls write_last (failbackCmd (recorded sys) c args)"
    unfolding failbackCmd_def Let_def
    by (auto intro!: cli_intros then_none [OF cli_calls(1)] split: reply.split)
qed

section \<open>Flags\<close>

definition render_flags :: "(string \<times> string) list \<Rightarrow> string list" where
  "render_flags kvs = concat (map (\<lambda>(k, v). [''--'' @ k, v]) kvs)"

text \<open>Flags with values are read back, the last one winning, unless a value starts like a flag.\<close>

lemma flags_read_back:
  assumes "\<forall>(k, v) \<in> set kvs. \<not> HasPrefix v ''--'' \<and> k \<noteq> ''dry-run''"
  shows "parseFlags (render_flags kvs) = map_of (rev kvs)"
proof -
  have "flags_loop (render_flags kvs) out = out ++ map_of (rev kvs)" for out
    using assms
  proof (induction kvs arbitrary: out)
    case (Cons kv kvs)
    obtain k v where kv: "kv = (k, v)" by fastforce
    have "flags_loop (render_flags (kv # kvs)) out = flags_loop (render_flags kvs) (out(k \<mapsto> v))"
      using Cons.prems by (simp add: render_flags_def kv Let_def)
    also have "\<dots> = (out(k \<mapsto> v)) ++ map_of (rev kvs)" using Cons by auto
    finally show ?case by (simp add: kv map_add_def fun_eq_iff split: option.split)
  qed (simp add: render_flags_def)
  then show ?thesis by (simp add: parseFlags_def)
qed

lemma dry_run_flag: "flagBool args ''dry-run'' \<longleftrightarrow> ''--dry-run'' \<in> set args"
  by (auto simp: flagBool_def list_ex_iff)

section \<open>Properties\<close>

text \<open>C13: Whatever it is called with, the command line makes at most one call that may change something on the
  controller, and makes it last: names are looked up, flags and environment are read before, and what fails
  there leaves the controller as it was.\<close>

theorem command_writes_last:
  assumes "cli_Run (recorded sys) args opt (s, es) = (r, (s', es'))"
  shows "\<exists>new. es' = es @ new \<and> (\<forall>e \<in> set (butlast new). \<not> mutates e)"
proof -
  obtain rest opt1 where g: "parseGlobals args opt = (rest, opt1)" by fastforce
  have "calls write_last (cli_Run (recorded sys) args opt)"
  proof (cases rest)
    case Nil
    then show ?thesis by (simp add: cli_Run_def g calls_done)
  next
    case (Cons cmd more)
    note commands = calls_if calls_commands calls_commands2 calls_done calls_quietly none_reads(2) [OF recorded_system(6)]
    show ?thesis unfolding cli_Run_def g Cons prod.case list.case Let_def
      by (intro commands reads_then)
  qed
  then show ?thesis using assms unfolding calls_def write_last_def by fastforce
qed

text \<open>A token whose output form is refused has been created all the same, and its text is shown nowhere.\<close>

lemma refused_output_loses_token:
  assumes "TrimSpace (fs_get (parseFlags rest) ''name'') \<noteq> []" and "ParseRole (fs_get (parseFlags rest) ''role'') = Inr role"
    and "TrimSpace (fs_get (parseFlags rest) ''out-file'') = []"
    and "ToLower (TrimSpace (fs_get (parseFlags rest) ''output'')) \<notin> {[], ''json'', ''token''}"
    and "cli_call sys c CreateTokenE [] (Some (cc_token (cy_codec sys) (fs_get (parseFlags rest) ''name'') role)) s = (Inr v, s')"
  shows "tokenCmd sys c (''add'' # rest) s = (Inl (Plain ''token add --output must be json or token''), s')"
  using assms by (simp add: tokenCmd_def show_token_def liftE_def bindA_def Let_def split: prod.split)

section \<open>Witness\<close>

definition sample_sys :: "(nat, nat) cli_sys" where
  "sample_sys = \<lparr>cy_env = sample_env, cy_clock = (\<lambda>s. (Inr 1, s)), cy_rt = (\<lambda>e i rq s. (Inr (204, RNoContent), s + 1)), cy_txt = (\<lambda>_. []),
     cy_getenv = (\<lambda>_. []), cy_read = (\<lambda>_. Inl (Plain ''no file'')), cy_open = (\<lambda>_. returnA ()), cy_chmod = (\<lambda>_. returnA ()),
     cy_write = (\<lambda>_ _. returnA ()), cy_sync = (\<lambda>_. returnA ()), cy_print = (\<lambda>_. returnA ()),
     cy_codec = \<lparr>cc_node = n_Name, cc_backend = b_Name, cc_mapping = m_ID, cc_tunnel = t_ID, cc_sni = r_ID, cc_apply = (\<lambda>_. []),
       cc_failback = (\<lambda>b a. b), cc_token = (\<lambda>n r. n), cc_foreign = fi_Name,
       cc_foreign_patch = (\<lambda>_. [])\<rparr>, cy_version = ''transitforge dev''\<rparr>"

definition no_options :: options where
  "no_options = \<lparr>op_Controller = [], op_Token = [], op_TokenFile = [], op_Insecure = False\<rparr>"

lemma sample_delete_run:
  "cli_Run (recorded sample_sys) [''mapping'', ''delete'', ''m1''] no_options (0, []) = (Inr (), (1, [DeleteMappingE]))"
proof -
  have "TrimSpace [] = []" by code_simp
  then show ?thesis
    by (simp add: cli_Run_def mappingCmd_def cli_call_def client_call_def client_Do_def client_New_def applyEnv_def no_options_def recorded_def
        sample_sys_def beside_def liftE_def bindA_def returnA_def read_reply_def Let_def)
qed

lemma command_writes_last_witness: "\<exists>new. [DeleteMappingE] = [] @ new \<and> (\<forall>e \<in> set (butlast new). \<not> mutates e)"
  by (rule command_writes_last [OF sample_delete_run])

end
