(* ===== verification/Spec2Isabelle.thy ===== *)
theory Spec2Isabelle
  imports EngineHost FailoverLaws RateLimit ViewLaws WebAccess ForeignLaws CliLaws
begin

text \<open>
  \<^bold>\<open>TransitForge.\<close> TransitForge forwards public ports of a transit node to backends
  behind WireGuard or SSH tunnels. A controller keeps the inventory; the agent on every node fetches the
  desired state and makes the host match it: interfaces, iptables rules and an HAProxy block, and it
  moves backends from WireGuard to SSH when WireGuard fails. This development models the node side, from
  the validators of single fields up to the failover round, and the controller: database tables, human
  accounts, authentication, the HTTP API, its client, the command line and the web interface, function by function.

  \<^bold>\<open>How Go is modelled.\<close> A struct is a record whose fields carry a short prefix (\<open>t_InterfaceName\<close> is
  \<open>Tunnel.InterfaceName\<close>); a string is a list of bytes; an \<open>int\<close> is an \<open>int\<close>, with the 64-bit limits in
  \<open>Atoi\<close>, \<open>ParseInt\<close> and the durations; a map built in a loop is \<open>index_by\<close>, where a later element wins.
  An operation with an effect is an \<open>('s, 'e, 'a) act\<close>: a function from a state to an error or a value
  and the state afterwards, so that what happened before an error is kept. A pointer receiver is the
  state of its manager; a nil one is None. A panic is an error of the model. The host behind the
  managers (processes, files, clock, dialer) is the record \<open>'h os\<close> of theory CmdExec, an argument of every
  operation that touches it; the JSON codec of the state file, the context and the kernel's file lock
  are arguments too. Log messages are left out.

  \<^bold>\<open>The parts\<close>, in the order in which they build on each other:

  \<^item> Prelude, GoStrings, GoNet: sequencing of effects, loops over slices, and what the code uses of
    strings, strconv and net (Fields, Split, Index, TrimSpace, Atoi, SplitHostPort, ParseIP).
  \<^item> Errors, Validate, Model, Samples: model/errors.go, validate/validate.go, model/model.go and
    model/validate.go: coded errors, field validators with their regular expressions, the inventory
    with its normalisation and validation.
  \<^item> Reconcile: reconcile/plan.go. \<open>Diff\<close> compares the desired with the discovered state. Shown: when
    a plan is empty, that the realised state needs no change, that a mapping is applied once, that the
    order of the inventory does not matter, and that the digest of SNI routes loses which route a match
    belongs to.
  \<^item> CmdExec, Health, TestHost: cmdexec/runner.go, health/checker.go and testhost/host.go, the
    in-memory host of the repository's tests, which is the concrete host of the theorems below.
  \<^item> Firewall, FirewallText, FirewallHost, FirewallConverge, TestFirewall: firewall/manager.go and
    firewall/iptables.go. FirewallText reads back the lines the manager wrote; the locale
    \<open>iptables_host\<close> is the contract of a host with working iptables; in it one round of discover, plan
    and apply is shown to reach the desired rules from any installed set, through an abstract list of
    installed mappings that every command refines; TestFirewall interprets it on the in-memory host.
  \<^item> WireGuard, SshTun, TunnelHost: wireguard/wg.go and sshtun/manager.go. An applied tunnel is
    discovered as desired, an undone creation restores the links, an SSH tunnel counts as applied only
    when its unit is active.
  \<^item> Haproxy, HaproxyText, HaproxyHost: haproxy/manager.go. The rendered block is found again below
    any hand-written configuration; the locale \<open>file_host\<close> is the contract of a working disk; in it
    an apply is all or nothing, a rollback restores the file, and discovery reads what was applied.
  \<^item> Engine, EngineLaws, EngineHost: engine/engine.go. A round that returns no error has converged, a
    dry run only discovers, a conflict stops a round, tunnels are never deleted, on every host; on the
    in-memory host a round with all managers on a ready node succeeds and the next one is idle.
  \<^item> Transport, StateFile, FileLock, FailoverCtl, FailoverLaws: failover/machine.go, state.go, lock.go
    and controller.go. The state machine and its runs; the keyed store of transport states (locale
    \<open>keyed_store\<close>); the lock, which is never stolen and whose wait ends; and the controller's round:
    the addresses it reconciles, when traffic moves, that it never fails forward alone, what it stores.
  \<^item> Totp: auth/totp.go. One-time passwords with HMAC as a parameter: a code always has six digits, a
    login accepts the codes of three counters, the printed secret is read back.
  \<^item> Db, SqliteStore, UserStore: store/store.go, sqlite.go, users.go and the schema in store/migrations.
    The tables are lists of rows in the record \<open>db\<close>; a statement may fail in the driver, checks the
    constraints of the schema and changes rows. The predicates \<open>reads\<close>, \<open>effects\<close> and \<open>keeps\<close> with their
    composition rules carry the proofs about the layers above.
  \<^item> NetIp, ForeignNode, ForeignStore, ForeignApi, ForeignLaws: model/foreign_node.go, store/foreign_nodes.go and
    api/foreign_nodes.go, imported nodes with their IPv4 and IPv6 addresses. The printed form of an address is read
    back, so validating twice changes nothing but for one address; the table keeps unique names and valid rows, and
    only administrators and operators move it (locale \<open>foreign_free\<close> for everything else).
  \<^item> Accounts, AccountLaws: auth/accounts.go. Well-formed tables and the last active administrator
    survive any sequence of operations; setup happens once; a recovery code is spent by its use.
  \<^item> Auth, AuthLaws: auth/auth.go. Who is let in, what signatures are accepted, revocation is final.
  \<^item> ApiServer, ApiHandlers, ApiRoutes: api/server.go, ratelimit.go, handlers.go and users.go. A handler is an
    action on the tables; \<open>serve\<close> wraps it in authentication, rate limit and role check, as \<open>authn\<close> does.
  \<^item> Inventory, ApiViews, ApiLaws, InventoryLaws, RateLimit, UserAccess: what requests do. A view is a part
    of the tables (locales \<open>view\<close>, \<open>account_view\<close>, \<open>store_view\<close>); every handler is shown to leave the views of
    the others alone. Inventory is the abstract specification: requests refine single steps of it and keep it
    valid; the state served to a node is what it says; mutating requests are limited per address; accounts
    change by their owner or an administrator only, and an active administrator remains.
  \<^item> Client: client/client.go and foreign_nodes.go. Methods, paths and signatures; every call is routed to the handler it is meant
    for and authenticates as the token it carries.
  \<^item> Cli, CliLaws: cli/cli.go and foreign_nodes.go: flags, environment and commands over the client. A command looks
    up what it needs and makes at most one call that changes something, the last one.
  \<^item> Views, ViewLaws: the view models of webui (plan.go, errors.go, views.go, render.go, i18n/catalog.go). A
    plan is shown line by line, the text form of SNI matches is read back, no text shown to an operator
    holds a word of secrets.
  \<^item> WebSession, WebLogin, WebActions: webui/session.go, locale.go, server.go, api.go, pages.go,
    account_pages.go, actions.go and foreign_nodes.go: sessions and cookies, guards, the login with its second factor,
    settings, and the actions, which call the API in the same process.
  \<^item> WebLaws, WebAccess: the locale \<open>web_frame\<close> is the contract of what every request does beside its handler;
    with it: every change of the store of sessions has a reason, and a request changes the inventory or
    accounts only for a session whose role may.
  \<^item> ControllerSamples: a concrete database driver, clock and hash for the witnesses of these parts.

  \<^bold>\<open>Loops and bounds.\<close> Every loop over a slice is structural recursion. The parser of IPv6 addresses runs
  on 8 rounds of fuel, one per group, and an address with more groups is rejected by the code as well.
  The retry loop of the lock is a partial function; that it returns is proved from a clock that runs.

  \<^bold>\<open>Hypotheses.\<close> Convergence is stated for hosts whose commands do not fail (\<open>h_FailOn\<close> empty), for
  managed chains that hold nothing but mapping rules, for interface names that are no command words, and
  for routes without control characters; each such theorem is instantiated at a concrete node. What
  \<open>Load\<close> reads back rests on the codec returning what it wrote. Theorems on codes assume digests of the
  length of SHA-1, theorems on signatures that digests are not empty, recovery codes a clock past year 1.

  \<^bold>\<open>Not modelled\<close>: the HTML templates and the pages of the web interface that only read (they are named by
  the route \<open>ReadPage\<close>), configuration, the agent's HTTP loop, metrics and log
  output, the migration runner and the three programs, which wire the parts together. The SQL text is
  modelled by what its statements do. \<open>cmdexec/os.go\<close> and the two \<open>flock\<close> wrappers are single system calls and
  appear as parameters.
\<close>

end
